(* ===== verification/Prelude.thy ===== *)
theory Prelude
  imports Main "HOL-Library.Word" "HOL-Library.AList" "HOL-Library.Char_ord"
    "HOL-Library.List_Lexorder"
begin

text \<open>
  What every other theory shares: exceptions as values, the result type of a computation
  that may raise, the iteration of such a computation over an enumerated list, bytes and
  their hexadecimal and decimal spellings, and the collections of simplification rules.

  A Python \<open>str\<close> is represented by its UTF-8 encoding, a \<^typ>\<open>string\<close> (so that \<open>encode("utf-8")\<close>
  is the identity and the order of strings is the order of their bytes, which is the order
  of code points). Python \<open>bytes\<close> are lists of 8-bit words.
\<close>

section \<open>Exceptions and results\<close>

text \<open>
  One constructor per exception class the modelled code raises or lets through, with the
  message. \<open>KeyboardInterrupt\<close> stands for the exceptions that \<open>except Exception\<close> does not
  catch; \<open>Halted\<close> is no exception at all: it marks a loop that used up its fuel.
\<close>

datatype exn =
    CanonicalExecutionError string
  | DeploymentPlanError string
  | ReleaseBuildError string
  | CandidateError string
  | DropAuthorizationFixtureError string
  | DropAuthorizationPayloadError string
  | ManifestVectorError string
  | ReferenceVectorError string
  | KeyError string
  | TypeError string
  | ValueError string
  | IndexError string
  | AttributeError string
  | OSError string
  | FileExistsError string
  | KeyboardInterrupt
  | Halted

fun exn_name :: "exn \<Rightarrow> string" where
  "exn_name (CanonicalExecutionError _) = ''CanonicalExecutionError''"
| "exn_name (DeploymentPlanError _) = ''DeploymentPlanError''"
| "exn_name (ReleaseBuildError _) = ''ReleaseBuildError''"
| "exn_name (CandidateError _) = ''CandidateError''"
| "exn_name (DropAuthorizationFixtureError _) = ''DropAuthorizationFixtureError''"
| "exn_name (DropAuthorizationPayloadError _) = ''DropAuthorizationPayloadError''"
| "exn_name (ManifestVectorError _) = ''ManifestVectorError''"
| "exn_name (ReferenceVectorError _) = ''ReferenceVectorError''"
| "exn_name (KeyError _) = ''KeyError''"
| "exn_name (TypeError _) = ''TypeError''"
| "exn_name (ValueError _) = ''ValueError''"
| "exn_name (IndexError _) = ''IndexError''"
| "exn_name (AttributeError _) = ''AttributeError''"
| "exn_name (OSError _) = ''OSError''"
| "exn_name (FileExistsError _) = ''FileExistsError''"
| "exn_name KeyboardInterrupt = ''KeyboardInterrupt''"
| "exn_name Halted = ''''"

fun exn_text :: "exn \<Rightarrow> string" where
  "exn_text (CanonicalExecutionError m) = m"
| "exn_text (DeploymentPlanError m) = m"
| "exn_text (ReleaseBuildError m) = m"
| "exn_text (CandidateError m) = m"
| "exn_text (DropAuthorizationFixtureError m) = m"
| "exn_text (DropAuthorizationPayloadError m) = m"
| "exn_text (ManifestVectorError m) = m"
| "exn_text (ReferenceVectorError m) = m"
| "exn_text (KeyError m) = m"
| "exn_text (TypeError m) = m"
| "exn_text (ValueError m) = m"
| "exn_text (IndexError m) = m"
| "exn_text (AttributeError m) = m"
| "exn_text (OSError m) = m"
| "exn_text (FileExistsError m) = m"
| "exn_text KeyboardInterrupt = ''''"
| "exn_text Halted = ''''"

text \<open>The exceptions an \<open>except Exception\<close> clause catches.\<close>

fun caught :: "exn \<Rightarrow> bool" where
  "caught KeyboardInterrupt = False"
| "caught Halted = False"
| "caught _ = True"

type_synonym 'a res = "exn + 'a"

definition rbind :: "'a res \<Rightarrow> ('a \<Rightarrow> 'b res) \<Rightarrow> 'b res" where
  "rbind m f = (case m of Inl e \<Rightarrow> Inl e | Inr x \<Rightarrow> f x)"

text \<open>\<open>try: m except E as exc: raise F(str(exc))\<close>: exceptions are renamed by \<open>h\<close>.\<close>

definition rmap_exn :: "(exn \<Rightarrow> exn) \<Rightarrow> 'a res \<Rightarrow> 'a res" where
  "rmap_exn h m = (case m of Inl e \<Rightarrow> Inl (h e) | Inr x \<Rightarrow> Inr x)"

named_theorems res_simps \<open>success of a computation that may raise, in terms of its parts\<close>

lemma rbind_Inr [simp]: "rbind (Inr x) f = f x"
  by (simp add: rbind_def)

lemma rbind_Inl [simp]: "rbind (Inl e) f = Inl e"
  by (simp add: rbind_def)

lemma rbind_eq_Inr [res_simps]: "rbind m f = Inr y \<longleftrightarrow> (\<exists>x. m = Inr x \<and> f x = Inr y)"
  by (cases m) auto

lemma rbind_eq_Inl: "rbind m f = Inl e \<longleftrightarrow> m = Inl e \<or> (\<exists>x. m = Inr x \<and> f x = Inl e)"
  by (cases m) auto

lemma rbind_cong [fundef_cong]:
  "m = m' \<Longrightarrow> (\<And>x. m' = Inr x \<Longrightarrow> f x = f' x) \<Longrightarrow> rbind m f = rbind m' f'"
  by (cases m') auto

lemma rmap_exn_Inr [simp]: "rmap_exn h (Inr x) = Inr x"
  by (simp add: rmap_exn_def)

lemma rmap_exn_Inl [simp]: "rmap_exn h (Inl e) = Inl (h e)"
  by (simp add: rmap_exn_def)

lemma rmap_exn_eq_Inr [res_simps]: "rmap_exn h m = Inr y \<longleftrightarrow> m = Inr y"
  by (cases m) auto

lemma if_raise_eq_Inr [res_simps]: "(if c then Inl e else m) = Inr y \<longleftrightarrow> \<not> c \<and> m = Inr y"
  by simp

lemma if_not_raise_eq_Inr [res_simps]: "(if c then m else Inl e) = Inr y \<longleftrightarrow> c \<and> m = Inr y"
  by simp

section \<open>Comprehensions over an enumerated list\<close>

text \<open>\<open>[f(i, x) for i, x in enumerate(xs, start)]\<close>, stopping at the first exception.\<close>

fun each :: "(nat \<Rightarrow> 'a \<Rightarrow> 'b res) \<Rightarrow> nat \<Rightarrow> 'a list \<Rightarrow> 'b list res" where
  "each f i [] = Inr []"
| "each f i (x # xs) = rbind (f i x) (\<lambda>y. rbind (each f (Suc i) xs) (\<lambda>ys. Inr (y # ys)))"

lemma each_cong [fundef_cong]:
  "xs = xs' \<Longrightarrow> i = i' \<Longrightarrow> (\<And>j x. x \<in> set xs' \<Longrightarrow> f j x = f' j x) \<Longrightarrow> each f i xs = each f' i' xs'"
proof (induction xs arbitrary: xs' i i')
  case Nil
  then show ?case by simp
next
  case (Cons x xs)
  then have "f i' x = f' i' x" "each f (Suc i') xs = each f' (Suc i') xs"
    by auto
  with Cons.prems show ?case by auto
qed

lemma each_eq_Inr:
  "each f i xs = Inr ys \<longleftrightarrow>
     length ys = length xs \<and> (\<forall>j < length xs. f (i + j) (xs ! j) = Inr (ys ! j))"
proof (induction xs arbitrary: i ys)
  case Nil
  then show ?case by auto
next
  case (Cons x xs)
  show ?case
    by (cases ys) (auto simp: rbind_eq_Inr Cons.IH nth_Cons split: nat.splits)
qed

lemma each_length: "each f i xs = Inr ys \<Longrightarrow> length ys = length xs"
  by (simp add: each_eq_Inr)

lemma each_nth: "each f i xs = Inr ys \<Longrightarrow> j < length xs \<Longrightarrow> f (i + j) (xs ! j) = Inr (ys ! j)"
  by (simp add: each_eq_Inr)

lemma each_set:
  assumes "each f i xs = Inr ys" and "y \<in> set ys"
  shows "\<exists>j < length xs. f (i + j) (xs ! j) = Inr y"
  using assms by (auto simp: each_eq_Inr in_set_conv_nth)

section \<open>Bytes, hexadecimal and decimal\<close>

type_synonym byte = "8 word"

fun digit_char :: "nat \<Rightarrow> char" where
  "digit_char n = (if n < 10 then char_of (48 + n) else char_of (87 + n))"

definition digit_value :: "char \<Rightarrow> nat option" where
  "digit_value c =
     (let n = of_char c :: nat in
      if 48 \<le> n \<and> n \<le> 57 then Some (n - 48)
      else if 97 \<le> n \<and> n \<le> 102 then Some (n - 87)
      else if 65 \<le> n \<and> n \<le> 70 then Some (n - 55)
      else None)"

definition is_digit :: "char \<Rightarrow> bool" where
  "is_digit c \<longleftrightarrow> 48 \<le> (of_char c :: nat) \<and> (of_char c :: nat) \<le> 57"

definition is_hex :: "char \<Rightarrow> bool" where
  "is_hex c \<longleftrightarrow> digit_value c \<noteq> None"

definition is_upper :: "char \<Rightarrow> bool" where
  "is_upper c \<longleftrightarrow> 65 \<le> (of_char c :: nat) \<and> (of_char c :: nat) \<le> 90"

definition is_lower :: "char \<Rightarrow> bool" where
  "is_lower c \<longleftrightarrow> 97 \<le> (of_char c :: nat) \<and> (of_char c :: nat) \<le> 122"

definition is_hex_lower :: "char \<Rightarrow> bool" where
  "is_hex_lower c \<longleftrightarrow> is_hex c \<and> \<not> is_upper c"

definition lower_char :: "char \<Rightarrow> char" where
  "lower_char c = (if is_upper c then char_of ((of_char c :: nat) + 32) else c)"

text \<open>\<open>str.lower\<close> on the ASCII letters.\<close>

definition lower :: "string \<Rightarrow> string" where
  "lower s = map lower_char s"

text \<open>\<open>bytes.hex\<close> and \<open>bytes.fromhex\<close> (on input that holds no white space).\<close>

definition byte_hex :: "byte \<Rightarrow> string" where
  "byte_hex b = [digit_char (unat b div 16), digit_char (unat b mod 16)]"

definition bytes_hex :: "byte list \<Rightarrow> string" where
  "bytes_hex bs = concat (map byte_hex bs)"

fun unhex :: "string \<Rightarrow> byte list option" where
  "unhex [] = Some []"
| "unhex [c] = None"
| "unhex (c # d # s) =
     (case digit_value c of None \<Rightarrow> None
      | Some h \<Rightarrow> (case digit_value d of None \<Rightarrow> None
                 | Some l \<Rightarrow> map_option (\<lambda>bs. of_nat (16 * h + l) # bs) (unhex s)))"

definition bytes_fromhex :: "string \<Rightarrow> byte list res" where
  "bytes_fromhex s =
     (case unhex s of None \<Rightarrow> Inl (ValueError ''non-hexadecimal number found in fromhex() arg'')
      | Some bs \<Rightarrow> Inr bs)"

text \<open>\<open>int(s, 16)\<close> on hexadecimal digits, \<open>str(n)\<close> and \<open>hex(n)\<close>.\<close>

definition hex_value :: "string \<Rightarrow> int" where
  "hex_value s = foldl (\<lambda>n c. 16 * n + (case digit_value c of None \<Rightarrow> 0 | Some d \<Rightarrow> int d)) 0 s"

fun dec :: "nat \<Rightarrow> string" where
  "dec n = (if n < 10 then [digit_char n] else dec (n div 10) @ [digit_char (n mod 10)])"

declare dec.simps [simp del]

definition dec_int :: "int \<Rightarrow> string" where
  "dec_int i = (if i < 0 then CHR ''-'' # dec (nat (- i)) else dec (nat i))"

fun hex_digits :: "nat \<Rightarrow> string" where
  "hex_digits n = (if n < 16 then [digit_char n] else hex_digits (n div 16) @ [digit_char (n mod 16)])"

declare hex_digits.simps [simp del]

definition py_hex :: "int \<Rightarrow> string" where
  "py_hex i = (if i < 0 then ''-0x'' @ hex_digits (nat (- i)) else ''0x'' @ hex_digits (nat i))"

text \<open>\<open>sep.join(parts)\<close>.\<close>

fun join :: "string \<Rightarrow> string list \<Rightarrow> string" where
  "join sep [] = ''''"
| "join sep [p] = p"
| "join sep (p # q # ps) = p @ sep @ join sep (q # ps)"

section \<open>Lemmas on bytes and digits\<close>

lemma hex_value_nonneg [simp]: "0 \<le> hex_value s"
proof -
  have "0 \<le> n \<Longrightarrow> 0 \<le> foldl (\<lambda>n c. 16 * n + (case digit_value c of None \<Rightarrow> 0 | Some d \<Rightarrow> int d)) n s" for n
    by (induction s arbitrary: n) (auto split: option.splits)
  then show ?thesis by (simp add: hex_value_def)
qed

declare digit_char.simps [simp del]

text \<open>The same functions over binary integers, for evaluation.\<close>

function int_digits :: "int \<Rightarrow> int \<Rightarrow> string" where
  "int_digits base n =
     (if base < 2 \<or> n < base then [digit_char (nat n)]
      else int_digits base (n div base) @ [digit_char (nat (n mod base))])"
  by pat_completeness auto
termination
proof (relation "measure (\<lambda>(base, n). nat n)")
  fix base n :: int
  assume "\<not> (base < 2 \<or> n < base)"
  then show "((base, n div base), base, n) \<in> measure (\<lambda>(base, n). nat n)"
    using int_div_less_self[of n base] by auto
qed simp

declare int_digits.simps [simp del]

lemma int_digits_dec: "int_digits 10 (int n) = dec n"
proof (induction n rule: dec.induct)
  case (1 n)
  then show ?case
    by (subst dec.simps, subst int_digits.simps) (auto simp: zdiv_int nat_mod_distrib)
qed

lemma int_digits_hex: "int_digits 16 (int n) = hex_digits n"
proof (induction n rule: hex_digits.induct)
  case (1 n)
  then show ?case
    by (subst hex_digits.simps, subst int_digits.simps) (auto simp: zdiv_int nat_mod_distrib)
qed

lemma dec_int_code [code]:
  "dec_int i = (if i < 0 then CHR ''-'' # int_digits 10 (- i) else int_digits 10 i)"
  using int_digits_dec[of "nat (- i)"] int_digits_dec[of "nat i"]
  by (cases "i < 0") (simp_all add: dec_int_def)

lemma py_hex_code [code]:
  "py_hex i = (if i < 0 then ''-0x'' @ int_digits 16 (- i) else ''0x'' @ int_digits 16 i)"
  using int_digits_hex[of "nat (- i)"] int_digits_hex[of "nat i"]
  by (cases "i < 0") (simp_all add: py_hex_def)

lemma digit_value_digit_char [simp]: "n < 16 \<Longrightarrow> digit_value (digit_char n) = Some n"
  by (simp add: digit_value_def digit_char.simps Let_def take_bit_nat_eq_self)

lemma digit_char_is_hex_lower [simp]: "n < 16 \<Longrightarrow> is_hex_lower (digit_char n)"
  by (simp add: is_hex_lower_def is_hex_def is_upper_def)
    (simp add: digit_char.simps take_bit_nat_eq_self)

lemma digit_value_less: "digit_value c = Some n \<Longrightarrow> n < 16"
  by (auto simp: digit_value_def Let_def split: if_splits)

lemma is_hex_lowerD [dest]: "is_hex_lower c \<Longrightarrow> is_hex c"
  by (simp add: is_hex_lower_def)

lemma unat_byte_less: "unat (b :: byte) < 256"
  using unsigned_less[of b, where ?'a = nat] by simp

lemma unat_byte_div_less [simp]: "unat (b :: byte) div 16 < 16"
  using unat_byte_less[of b] by simp

lemma byte_of_digits [simp]: "of_nat (16 * (unat b div 16) + unat b mod 16) = (b :: byte)"
proof -
  have "16 * (unat b div 16) + unat b mod 16 = unat b" by simp
  then show ?thesis by (simp only: of_nat_unat word_of_nat_eq_iff) simp
qed

lemma bytes_hex_Nil [simp]: "bytes_hex [] = ''''"
  by (simp add: bytes_hex_def)

lemma bytes_hex_Cons [simp]: "bytes_hex (b # bs) = byte_hex b @ bytes_hex bs"
  by (simp add: bytes_hex_def)

lemma bytes_hex_append [simp]: "bytes_hex (as @ bs) = bytes_hex as @ bytes_hex bs"
  by (simp add: bytes_hex_def)

lemma length_byte_hex [simp]: "length (byte_hex b) = 2"
  by (simp add: byte_hex_def)

lemma length_bytes_hex [simp]: "length (bytes_hex bs) = 2 * length bs"
  by (induction bs) auto

lemma unhex_byte_hex [simp]: "unhex (byte_hex b @ s) = map_option (\<lambda>bs. b # bs) (unhex s)"
  using byte_of_digits[of b] by (simp add: byte_hex_def del: of_nat_add of_nat_mult)

lemma unhex_bytes_hex_append [simp]:
  "unhex (bytes_hex bs @ s) = map_option (\<lambda>cs. bs @ cs) (unhex s)"
  by (induction bs) (auto simp: option.map_ident option.map_comp comp_def)

lemma unhex_bytes_hex [simp]: "unhex (bytes_hex bs) = Some bs"
  using unhex_bytes_hex_append[of bs "''''"] by simp

lemma bytes_fromhex_hex [simp]: "bytes_fromhex (bytes_hex bs) = Inr bs"
  by (simp add: bytes_fromhex_def)

lemma bytes_hex_is_hex_lower: "list_all is_hex_lower (bytes_hex bs)"
  by (induction bs) (auto simp: byte_hex_def)

lemma bytes_hex_inject [simp]: "bytes_hex as = bytes_hex bs \<longleftrightarrow> as = bs"
  by (metis option.inject unhex_bytes_hex)

lemma unhex_length: "unhex s = Some bs \<Longrightarrow> length s = 2 * length bs"
  by (induction s arbitrary: bs rule: unhex.induct) (auto split: option.splits)

lemma unhex_all_hex: "unhex s = Some bs \<Longrightarrow> list_all is_hex s"
  by (induction s arbitrary: bs rule: unhex.induct) (auto simp: is_hex_def split: option.splits)

lemma unhex_defined: "list_all is_hex s \<Longrightarrow> even (length s) \<Longrightarrow> \<exists>bs. unhex s = Some bs"
  by (induction s rule: unhex.induct) (auto simp: is_hex_def)

lemma digit_value_lower [simp]: "digit_value (lower_char c) = digit_value c"
  by (auto simp: digit_value_def lower_char_def is_upper_def Let_def)

lemma unhex_lower [simp]: "unhex (lower s) = unhex s"
  unfolding lower_def by (induction s rule: unhex.induct) (auto split: option.splits)

lemma length_lower [simp]: "length (lower s) = length s"
  by (simp add: lower_def)

lemma lower_append [simp]: "lower (s @ t) = lower s @ lower t"
  by (simp add: lower_def)

lemma lower_hex_lower [simp]: "list_all is_hex_lower s \<Longrightarrow> lower s = s"
  unfolding lower_def by (induction s) (auto simp: is_hex_lower_def lower_char_def)

lemma is_hex_lower_char: "is_hex c \<Longrightarrow> is_hex_lower (lower_char c)"
  by (auto simp: is_hex_lower_def is_hex_def is_upper_def lower_char_def digit_value_def Let_def
      split: if_splits)

lemma lower_all_hex_lower: "list_all is_hex s \<Longrightarrow> list_all is_hex_lower (lower s)"
  unfolding lower_def by (induction s) (auto simp: is_hex_lower_char)

lemma digit_char_value: "digit_value c = Some h \<Longrightarrow> digit_char h = lower_char c"
  by (auto simp: digit_value_def lower_char_def is_upper_def Let_def digit_char.simps
      split: if_splits)

lemma byte_hex_of_digits:
  "h < 16 \<Longrightarrow> l < 16 \<Longrightarrow> byte_hex (of_nat (16 * h + l)) = [digit_char h, digit_char l]"
  by (simp add: byte_hex_def unat_of_nat take_bit_nat_eq_self del: of_nat_add of_nat_mult)

lemma bytes_hex_unhex: "unhex s = Some bs \<Longrightarrow> bytes_hex bs = lower s"
proof (induction s arbitrary: bs rule: unhex.induct)
  case 1
  then show ?case by (simp add: lower_def)
next
  case (2 c)
  then show ?case by simp
next
  case (3 c d s)
  from "3.prems" obtain h l cs where hl: "digit_value c = Some h" "digit_value d = Some l"
    and cs: "unhex s = Some cs" and bs: "bs = of_nat (16 * h + l) # cs"
    by (auto split: option.splits)
  have "byte_hex (of_nat (16 * h + l)) = [lower_char c, lower_char d]"
    using hl by (simp add: byte_hex_of_digits digit_value_less digit_char_value
        del: of_nat_add of_nat_mult)
  then show ?case
    using "3.IH"[OF hl cs] bs by (simp add: lower_def del: of_nat_add of_nat_mult)
qed

lemma lower_char_idem [simp]: "lower_char (lower_char c) = lower_char c"
  by (auto simp: lower_char_def is_upper_def)

lemma lower_idem [simp]: "lower (lower s) = lower s"
  by (simp add: lower_def)

section \<open>Evaluation on the bits of a character\<close>

definition nibble :: "bool \<Rightarrow> bool \<Rightarrow> bool \<Rightarrow> bool \<Rightarrow> nat" where
  "nibble b0 b1 b2 b3 =
     (if b3 then (if b2 then (if b1 then (if b0 then 15 else 14) else (if b0 then 13 else 12))
                  else (if b1 then (if b0 then 11 else 10) else (if b0 then 9 else 8)))
      else (if b2 then (if b1 then (if b0 then 7 else 6) else (if b0 then 5 else 4))
            else (if b1 then (if b0 then 3 else 2) else (if b0 then 1 else 0))))"

lemma digit_value_code [code]:
  "digit_value (Char b0 b1 b2 b3 b4 b5 b6 b7) =
     (if b7 then None
      else if b6 then
        (if b4 \<or> b3 \<or> \<not> (b0 \<or> b1 \<or> b2) \<or> (b0 \<and> b1 \<and> b2) then None
         else Some (if b2 then (if b1 then 15 else if b0 then 14 else 13) else (if b1 then if b0 then 12 else 11 else 10)))
      else if b5 \<and> b4 \<and> \<not> (b3 \<and> (b2 \<or> b1)) then Some (nibble b0 b1 b2 b3)
      else None)"
  by (cases b0; cases b1; cases b2; cases b3; cases b4; cases b5; cases b6; cases b7)
    (simp_all add: digit_value_def nibble_def)

lemma is_digit_code [code]:
  "is_digit (Char b0 b1 b2 b3 b4 b5 b6 b7) \<longleftrightarrow> \<not> b7 \<and> \<not> b6 \<and> b5 \<and> b4 \<and> \<not> (b3 \<and> (b2 \<or> b1))"
  by (cases b0; cases b1; cases b2; cases b3; cases b4; cases b5; cases b6; cases b7)
    (simp_all add: is_digit_def)

lemma is_upper_code [code]:
  "is_upper (Char b0 b1 b2 b3 b4 b5 b6 b7) \<longleftrightarrow>
     \<not> b7 \<and> b6 \<and> \<not> b5 \<and> (b0 \<or> b1 \<or> b2 \<or> b3 \<or> b4) \<and> \<not> (b4 \<and> b3 \<and> (b2 \<or> b1 \<and> b0))"
  by (cases b0; cases b1; cases b2; cases b3; cases b4; cases b5; cases b6; cases b7)
    (simp_all add: is_upper_def)

lemma is_lower_code [code]:
  "is_lower (Char b0 b1 b2 b3 b4 b5 b6 b7) \<longleftrightarrow>
     \<not> b7 \<and> b6 \<and> b5 \<and> (b0 \<or> b1 \<or> b2 \<or> b3 \<or> b4) \<and> \<not> (b4 \<and> b3 \<and> (b2 \<or> b1 \<and> b0))"
  by (cases b0; cases b1; cases b2; cases b3; cases b4; cases b5; cases b6; cases b7)
    (simp_all add: is_lower_def)

lemma lower_char_code [code]:
  "lower_char (Char b0 b1 b2 b3 b4 b5 b6 b7) =
     (if is_upper (Char b0 b1 b2 b3 b4 b5 b6 b7) then Char b0 b1 b2 b3 b4 True b6 b7
      else Char b0 b1 b2 b3 b4 b5 b6 b7)"
  by (cases b0; cases b1; cases b2; cases b3; cases b4; cases b5; cases b6; cases b7)
    (simp_all add: lower_char_def is_upper_def char_of_eq_iff)

definition int_digit :: "int \<Rightarrow> char" where
  "int_digit i =
     (if i < 8 then (if i < 4 then (if i < 2 then (if i < 1 then CHR ''0'' else CHR ''1'')
                                    else (if i < 3 then CHR ''2'' else CHR ''3''))
                     else (if i < 6 then (if i < 5 then CHR ''4'' else CHR ''5'')
                           else (if i < 7 then CHR ''6'' else CHR ''7'')))
      else (if i < 12 then (if i < 10 then (if i < 9 then CHR ''8'' else CHR ''9'')
                            else (if i < 11 then CHR ''a'' else CHR ''b''))
            else (if i < 14 then (if i < 13 then CHR ''c'' else CHR ''d'')
                  else (if i < 15 then CHR ''e'' else CHR ''f''))))"

lemma below_8: "\<not> (8::nat) \<le> n \<Longrightarrow> n \<in> set [0, 1, 2, 3, 4, 5, 6, 7]"
  by (simp only: list.set insert_iff empty_iff) presburger

lemma int_digit_eq: "n < 16 \<Longrightarrow> digit_char n = int_digit (int n)"
proof (cases "8 \<le> n")
  case True
  assume "n < 16"
  with True have "n - 8 \<in> set [0, 1, 2, 3, 4, 5, 6, 7]" "n = (n - 8) + 8"
    by (intro below_8, simp_all)
  then show ?thesis
    by (simp only: list.set insert_iff empty_iff, elim disjE conjE FalseE)
      (simp_all add: int_digit_def digit_char.simps char_of_eq_iff)
next
  case False
  from below_8[OF this] show ?thesis
    by (simp only: list.set insert_iff empty_iff, elim disjE FalseE)
      (simp_all add: int_digit_def digit_char.simps char_of_eq_iff)
qed

lemma byte_hex_code [code]:
  "byte_hex b = (let i = uint b in [int_digit (i div 16), int_digit (i mod 16)])"
proof -
  have "uint b = int (unat b)" by simp
  moreover have "unat b < 256" using unsigned_less[of b, where ?'a = nat] by simp
  ultimately show ?thesis
    using int_digit_eq[of "unat b div 16"] int_digit_eq[of "unat b mod 16"]
    by (simp add: byte_hex_def Let_def zdiv_int zmod_int)
qed

lemma unhex_code [code]:
  "unhex [] = Some []"
  "unhex [c] = None"
  "unhex (c # d # s) =
     (case digit_value c of None \<Rightarrow> None
      | Some h \<Rightarrow> (case digit_value d of None \<Rightarrow> None
                 | Some l \<Rightarrow> (case unhex s of None \<Rightarrow> None
                            | Some bs \<Rightarrow> Some (of_int (16 * int h + int l) # bs))))"
  by (auto split: option.splits)

end
