(* ===== verification/Json_Values.thy ===== *)
theory Json_Values
  imports Prelude
begin

text \<open>
  JSON documents as the Python values \<open>json.loads\<close> builds for them. An object keeps its
  members in insertion order, as a Python \<open>dict\<close> does; the strict decoder rejects
  duplicate members and floating-point numbers, so there is no other kind of value.
\<close>

datatype json =
    JNull
  | JBool bool
  | JInt int
  | JStr string
  | JList "json list"
  | JDict "(string \<times> json) list"

type_synonym dict = "(string \<times> json) list"

section \<open>Dictionary operations\<close>

text \<open>\<open>d.get(k)\<close>, \<open>d[k]\<close>, \<open>k in d\<close>, \<open>d[k] = v\<close> and \<open>{**d, **e}\<close>.\<close>

definition dget :: "dict \<Rightarrow> string \<Rightarrow> json" where
  "dget d k = (case map_of d k of None \<Rightarrow> JNull | Some v \<Rightarrow> v)"

definition dsub :: "dict \<Rightarrow> string \<Rightarrow> json res" where
  "dsub d k = (case map_of d k of None \<Rightarrow> Inl (KeyError k) | Some v \<Rightarrow> Inr v)"

definition dmem :: "string \<Rightarrow> dict \<Rightarrow> bool" where
  "dmem k d \<longleftrightarrow> k \<in> set (map fst d)"

definition dset :: "dict \<Rightarrow> string \<Rightarrow> json \<Rightarrow> dict" where
  "dset d k v = AList.update k v d"

definition dmerge :: "dict \<Rightarrow> dict \<Rightarrow> dict" where
  "dmerge d e = foldl (\<lambda>acc (k, v). dset acc k v) d e"

definition dkeys :: "dict \<Rightarrow> string list" where
  "dkeys d = map fst d"

lemma map_of_dset [simp]: "map_of (dset d k v) = (map_of d)(k \<mapsto> v)"
  by (simp add: dset_def update_conv')

lemma dget_dset [simp]: "dget (dset d k v) k' = (if k' = k then v else dget d k')"
  by (simp add: dget_def)

lemma dget_Some [simp]: "map_of d k = Some v \<Longrightarrow> dget d k = v"
  by (simp add: dget_def)

lemma dmem_iff: "dmem k d \<longleftrightarrow> map_of d k \<noteq> None"
  by (auto simp: dmem_def map_of_eq_None_iff)

lemma dmem_dset [simp]: "dmem k (dset d k' v) \<longleftrightarrow> k = k' \<or> dmem k d"
  by (auto simp: dmem_iff)

lemma dget_neq_JNull_dmem: "dget d k \<noteq> JNull \<Longrightarrow> dmem k d"
  by (auto simp: dget_def dmem_iff split: option.splits)

lemma dsub_eq_Inr [res_simps]: "dsub d k = Inr v \<longleftrightarrow> map_of d k = Some v"
  by (auto simp: dsub_def split: option.splits)

lemma distinct_dset [simp]: "distinct (map fst d) \<Longrightarrow> distinct (map fst (dset d k v))"
  by (simp add: dset_def distinct_update)

lemma set_dkeys_dset [simp]: "set (map fst (dset d k v)) = insert k (set (map fst d))"
  by (simp add: dset_def dom_update)

lemma dmerge_Nil [simp]: "dmerge d [] = d"
  by (simp add: dmerge_def)

lemma dmerge_Cons [simp]: "dmerge d ((k, v) # e) = dmerge (dset d k v) e"
  by (simp add: dmerge_def)

lemma map_of_dmerge: "distinct (map fst e) \<Longrightarrow> map_of (dmerge d e) = map_of d ++ map_of e"
proof (induction e arbitrary: d)
  case Nil
  then show ?case by simp
next
  case (Cons p e)
  obtain k v where p: "p = (k, v)" by (cases p)
  show ?case
  proof
    fix x
    have "map_of e k = None"
      using Cons.prems p by (simp add: map_of_eq_None_iff)
    with Cons p show "map_of (dmerge d (p # e)) x = (map_of d ++ map_of (p # e)) x"
      by (auto simp: map_add_def split: option.splits)
  qed
qed

section \<open>Python equality\<close>

text \<open>
  \<open>v == w\<close>: booleans are the integers 0 and 1, and objects are compared as mappings,
  whatever the order of their members.
\<close>

fun py_eq :: "json \<Rightarrow> json \<Rightarrow> bool"
  and py_eq_list :: "json list \<Rightarrow> json list \<Rightarrow> bool"
  and py_eq_dict :: "dict \<Rightarrow> dict \<Rightarrow> bool" where
  "py_eq JNull w = (w = JNull)"
| "py_eq (JStr s) w = (w = JStr s)"
| "py_eq (JBool b) w =
     (case w of JBool c \<Rightarrow> b = c | JInt i \<Rightarrow> i = (if b then 1 else 0) | _ \<Rightarrow> False)"
| "py_eq (JInt i) w =
     (case w of JInt j \<Rightarrow> i = j | JBool c \<Rightarrow> i = (if c then 1 else 0) | _ \<Rightarrow> False)"
| "py_eq (JList vs) w = (case w of JList ws \<Rightarrow> py_eq_list vs ws | _ \<Rightarrow> False)"
| "py_eq (JDict d) w =
     (case w of JDict e \<Rightarrow> length d = length e \<and> py_eq_dict d e | _ \<Rightarrow> False)"
| "py_eq_list [] ws = (ws = [])"
| "py_eq_list (v # vs) ws =
     (case ws of [] \<Rightarrow> False | w # ws' \<Rightarrow> py_eq v w \<and> py_eq_list vs ws')"
| "py_eq_dict [] e = True"
| "py_eq_dict ((k, v) # d) e =
     ((case map_of e k of None \<Rightarrow> False | Some w \<Rightarrow> py_eq v w) \<and> py_eq_dict d e)"

text \<open>A value whose objects have no duplicate member, as every decoded document is.\<close>

fun wf_json :: "json \<Rightarrow> bool" where
  "wf_json (JList vs) = list_all wf_json vs"
| "wf_json (JDict d) = (distinct (map fst d) \<and> list_all (\<lambda>(k, v). wf_json v) d)"
| "wf_json _ = True"

lemma py_eq_list_iff: "py_eq_list vs ws \<longleftrightarrow> list_all2 py_eq vs ws"
  by (induction vs arbitrary: ws) (auto split: list.splits)

lemma py_eq_dict_iff:
  "py_eq_dict d e \<longleftrightarrow> (\<forall>(k, v) \<in> set d. \<exists>w. map_of e k = Some w \<and> py_eq v w)"
  by (induction d) (auto split: option.splits)

lemma py_eq_JStr [simp]: "py_eq v (JStr s) \<longleftrightarrow> v = JStr s"
  by (cases v) auto

lemma py_eq_JNull [simp]: "py_eq v JNull \<longleftrightarrow> v = JNull"
  by (cases v) auto

lemma py_eq_JList_Nil [simp]: "py_eq v (JList []) \<longleftrightarrow> v = JList []"
  by (cases v) (auto simp: py_eq_list_iff)

lemma py_eq_refl: "wf_json v \<Longrightarrow> py_eq v v"
proof (induction v)
  case (JList vs)
  then show ?case by (auto simp: py_eq_list_iff list_all_iff intro: list.rel_refl_strong)
next
  case (JDict d)
  then have "py_eq v v" if "(k, v) \<in> set d" for k v
    using that by (force simp: list_all_iff)
  moreover have "map_of d k = Some v" if "(k, v) \<in> set d" for k v
    using that JDict.prems by simp
  ultimately show ?case by (fastforce simp: py_eq_dict_iff)
qed auto

section \<open>Membership in a set of strings\<close>

text \<open>\<open>v in frozenset(names)\<close>: a list or an object is not hashable.\<close>

definition unhashable :: "string \<Rightarrow> exn" where
  "unhashable name = TypeError (''unhashable type: '' @ [CHR 0x27] @ name @ [CHR 0x27])"

definition set_member :: "string list \<Rightarrow> json \<Rightarrow> bool res" where
  "set_member names v =
     (case v of
        JList _ \<Rightarrow> Inl (unhashable ''list'')
      | JDict _ \<Rightarrow> Inl (unhashable ''dict'')
      | JStr s \<Rightarrow> Inr (s \<in> set names)
      | _ \<Rightarrow> Inr False)"

lemma set_member_JStr [simp]: "set_member names (JStr s) = Inr (s \<in> set names)"
  by (simp add: set_member_def)

lemma set_member_True [res_simps]: "set_member names v = Inr True \<longleftrightarrow> (\<exists>s \<in> set names. v = JStr s)"
  by (auto simp: set_member_def split: json.splits)

end
