(* ===== verification/Validators.thy ===== *)
theory Validators
  imports Json_Values
begin

text \<open>
  The field validators of \<open>tools/deployment/materialize_canonical_deployment_plan.py\<close> and
  the executor's own ones in \<open>tools/deployment/execute_canonical_deployment_plan.py\<close>: each
  takes an untrusted JSON value and the path it stands at, and returns the checked Python
  value or raises. The regular expressions are Boolean functions on strings. A validator is
  canonicalising when what it returns satisfies the check and passes again unchanged; that
  contract is the locale \<open>field_validator\<close>, interpreted on every validator below.
\<close>

section \<open>Patterns\<close>

definition SHA256_RE :: "string \<Rightarrow> bool" where
  "SHA256_RE s \<longleftrightarrow> take 7 s = ''sha256:'' \<and> length s = 71 \<and> list_all is_hex_lower (drop 7 s)"

definition KECCAK_RE :: "string \<Rightarrow> bool" where
  "KECCAK_RE s \<longleftrightarrow> take 2 s = ''0x'' \<and> length s = 66 \<and> list_all is_hex_lower (drop 2 s)"

definition ADDRESS_RE :: "string \<Rightarrow> bool" where
  "ADDRESS_RE s \<longleftrightarrow> take 2 s = ''0x'' \<and> length s = 42 \<and> list_all is_hex (drop 2 s)"

definition HEX_RE :: "string \<Rightarrow> bool" where
  "HEX_RE s \<longleftrightarrow> take 2 s = ''0x'' \<and> even (length s) \<and> list_all is_hex (drop 2 s)"

definition ident_start :: "char \<Rightarrow> bool" where
  "ident_start c \<longleftrightarrow> is_lower c \<or> is_digit c"

definition ident_char :: "char \<Rightarrow> bool" where
  "ident_char c \<longleftrightarrow> is_lower c \<or> is_digit c \<or> c \<in> set ''._-''"

definition IDENTIFIER_RE :: "string \<Rightarrow> bool" where
  "IDENTIFIER_RE s \<longleftrightarrow> (case s of [] \<Rightarrow> False | c # cs \<Rightarrow> ident_start c \<and> list_all ident_char cs)"

definition solidity_start :: "char \<Rightarrow> bool" where
  "solidity_start c \<longleftrightarrow> is_lower c \<or> is_upper c \<or> c = CHR ''_''"

definition SOLIDITY_NAME_RE :: "string \<Rightarrow> bool" where
  "SOLIDITY_NAME_RE s \<longleftrightarrow>
     (case s of [] \<Rightarrow> False
      | c # cs \<Rightarrow> solidity_start c \<and> list_all (\<lambda>d. solidity_start d \<or> is_digit d) cs)"

definition UNSIGNED_DECIMAL_RE :: "string \<Rightarrow> bool" where
  "UNSIGNED_DECIMAL_RE s \<longleftrightarrow>
     s = ''0'' \<or> (case s of [] \<Rightarrow> False | c # cs \<Rightarrow> is_digit c \<and> c \<noteq> CHR ''0'' \<and> list_all is_digit cs)"

definition SIGNED_DECIMAL_RE :: "string \<Rightarrow> bool" where
  "SIGNED_DECIMAL_RE s \<longleftrightarrow>
     UNSIGNED_DECIMAL_RE s \<or>
     (case s of [] \<Rightarrow> False | c # cs \<Rightarrow> c = CHR ''-'' \<and> cs \<noteq> ''0'' \<and> UNSIGNED_DECIMAL_RE cs)"

text \<open>
  \<open>REPO_PATH_RE\<close>: one look-ahead per rule in the source, here by the slash-separated segments:
  no empty segment (no leading, trailing or doubled slash), no dot segment, no segment that
  ends in a dot or a space, no Windows device name with optional extension; no control or
  shell character anywhere.
\<close>

fun split_on :: "char \<Rightarrow> string \<Rightarrow> string list" where
  "split_on sep [] = [[]]"
| "split_on sep (c # cs) =
     (if c = sep then [] # split_on sep cs
      else (case split_on sep cs of [] \<Rightarrow> [[c]] | w # ws \<Rightarrow> (c # w) # ws))"

definition bad_path_char :: "char \<Rightarrow> bool" where
  "bad_path_char c \<longleftrightarrow>
     (of_char c :: nat) < 32 \<or> (of_char c :: nat) = 127 \<or> (of_char c :: nat) = 92 \<or>
     c \<in> set ''<>:|?*'' \<or> (of_char c :: nat) = 34"

definition device_names :: "string list" where
  "device_names =
     [''con'', ''prn'', ''aux'', ''nul''] @
     map (\<lambda>d. ''com'' @ [d]) ''123456789'' @ map (\<lambda>d. ''lpt'' @ [d]) ''123456789''"

definition device_segment :: "string \<Rightarrow> bool" where
  "device_segment s \<longleftrightarrow>
     list_ex (\<lambda>d. lower (take (length d) s) = d \<and>
       (case dropWhile (\<lambda>c. c = CHR '' '') (drop (length d) s) of [] \<Rightarrow> True | c # _ \<Rightarrow> c = CHR ''.''))
       device_names"

definition segment_ok :: "string \<Rightarrow> bool" where
  "segment_ok s \<longleftrightarrow>
     s \<noteq> [] \<and> s \<noteq> ''.'' \<and> s \<noteq> ''..'' \<and> last s \<noteq> CHR ''.'' \<and> last s \<noteq> CHR '' '' \<and> \<not> device_segment s"

definition REPO_PATH_RE :: "string \<Rightarrow> bool" where
  "REPO_PATH_RE s \<longleftrightarrow>
     s \<noteq> [] \<and> list_all (\<lambda>c. \<not> bad_path_char c) s \<and> list_all segment_ok (split_on (CHR ''/'') s)"

section \<open>The materializer's validators\<close>

definition require_dict :: "json \<Rightarrow> string \<Rightarrow> dict res" where
  "require_dict value path =
     (case value of JDict d \<Rightarrow> Inr d
      | _ \<Rightarrow> Inl (DeploymentPlanError (path @ '' must be an object'')))"

definition require_list :: "json \<Rightarrow> string \<Rightarrow> json list res" where
  "require_list value path =
     (case value of JList vs \<Rightarrow> Inr vs
      | _ \<Rightarrow> Inl (DeploymentPlanError (path @ '' must be an array'')))"

definition require_string :: "json \<Rightarrow> string \<Rightarrow> string res" where
  "require_string value path =
     (case value of
        JStr s \<Rightarrow> (if s = [] then Inl (DeploymentPlanError (path @ '' must be a non-empty string'')) else Inr s)
      | _ \<Rightarrow> Inl (DeploymentPlanError (path @ '' must be a non-empty string'')))"

definition require_bool :: "json \<Rightarrow> string \<Rightarrow> bool res" where
  "require_bool value path =
     (case value of JBool b \<Rightarrow> Inr b
      | _ \<Rightarrow> Inl (DeploymentPlanError (path @ '' must be a boolean'')))"

definition require_int :: "json \<Rightarrow> string \<Rightarrow> int res" where
  "require_int value path =
     (case value of JInt i \<Rightarrow> Inr i
      | _ \<Rightarrow> Inl (DeploymentPlanError (path @ '' must be an integer'')))"

definition require_exact_keys :: "dict \<Rightarrow> string list \<Rightarrow> string \<Rightarrow> unit res" where
  "require_exact_keys value required path =
     (let missing = sort (filter (\<lambda>k. \<not> dmem k value) required);
          extra = sort (filter (\<lambda>k. k \<notin> set required) (dkeys value))
      in if missing \<noteq> []
         then Inl (DeploymentPlanError (path @ '' is missing fields: '' @ join '', '' missing))
         else if extra \<noteq> []
         then Inl (DeploymentPlanError (path @ '' has unsupported fields: '' @ join '', '' extra))
         else Inr ())"

definition require_sha256 :: "json \<Rightarrow> string \<Rightarrow> string res" where
  "require_sha256 value path =
     rbind (require_string value path) (\<lambda>digest.
     if \<not> SHA256_RE digest
     then Inl (DeploymentPlanError (path @ '' must be a lowercase sha256: digest''))
     else Inr digest)"

definition require_keccak :: "json \<Rightarrow> string \<Rightarrow> string res" where
  "require_keccak value path =
     rbind (require_string value path) (\<lambda>digest.
     if \<not> KECCAK_RE digest
     then Inl (DeploymentPlanError (path @ '' must be a lowercase 0x Keccak-256 digest''))
     else Inr digest)"

definition require_address :: "bool \<Rightarrow> json \<Rightarrow> string \<Rightarrow> string res" where
  "require_address allow_zero value path =
     rbind (require_string value path) (\<lambda>address.
     if \<not> ADDRESS_RE address
     then Inl (DeploymentPlanError (path @ '' must be a 20-byte 0x address''))
     else if \<not> allow_zero \<and> hex_value (drop 2 address) = 0
     then Inl (DeploymentPlanError (path @ '' must not be the zero address''))
     else Inr (lower address))"

definition require_hex :: "bool \<Rightarrow> json \<Rightarrow> string \<Rightarrow> string res" where
  "require_hex allow_empty value path =
     rbind (require_string value path) (\<lambda>encoded.
     if \<not> HEX_RE encoded
     then Inl (DeploymentPlanError (path @ '' must be even-length 0x-prefixed hex''))
     else if \<not> allow_empty \<and> encoded = ''0x''
     then Inl (DeploymentPlanError (path @ '' must not be empty''))
     else Inr (lower encoded))"

definition require_identifier :: "json \<Rightarrow> string \<Rightarrow> string res" where
  "require_identifier value path =
     rbind (require_string value path) (\<lambda>identifier.
     if \<not> IDENTIFIER_RE identifier
     then Inl (DeploymentPlanError (path @ '' must use lowercase letters, digits, '' @
       [CHR 0x27] @ ''.'' @ [CHR 0x27] @ '', '' @ [CHR 0x27] @ ''_'' @ [CHR 0x27] @ '', or '' @
       [CHR 0x27] @ ''-'' @ [CHR 0x27]))
     else Inr identifier)"

definition require_solidity_name :: "json \<Rightarrow> string \<Rightarrow> string res" where
  "require_solidity_name value path =
     rbind (require_string value path) (\<lambda>name.
     if \<not> SOLIDITY_NAME_RE name
     then Inl (DeploymentPlanError (path @ '' is not a Solidity identifier''))
     else Inr name)"

definition require_safe_relative_path :: "json \<Rightarrow> string \<Rightarrow> string res" where
  "require_safe_relative_path value path =
     rbind (require_string value path) (\<lambda>s.
     if \<not> REPO_PATH_RE s
     then Inl (DeploymentPlanError
       (path @ '' must be a normalized portable forward-slash repository-relative path''))
     else Inr s)"

section \<open>The executor's validators\<close>

definition x_require_dict :: "json \<Rightarrow> string \<Rightarrow> dict res" where
  "x_require_dict value field =
     (case value of JDict d \<Rightarrow> Inr d
      | _ \<Rightarrow> Inl (CanonicalExecutionError (field @ '' must be an object'')))"

definition x_require_list :: "json \<Rightarrow> string \<Rightarrow> json list res" where
  "x_require_list value field =
     (case value of JList vs \<Rightarrow> Inr vs
      | _ \<Rightarrow> Inl (CanonicalExecutionError (field @ '' must be an array'')))"

definition x_require_string :: "json \<Rightarrow> string \<Rightarrow> string res" where
  "x_require_string value field =
     (case value of
        JStr s \<Rightarrow> (if s = [] then Inl (CanonicalExecutionError (field @ '' must be a non-empty string'')) else Inr s)
      | _ \<Rightarrow> Inl (CanonicalExecutionError (field @ '' must be a non-empty string'')))"

definition x_require_integer :: "json \<Rightarrow> string \<Rightarrow> int res" where
  "x_require_integer value field =
     (case value of JInt i \<Rightarrow> Inr i
      | _ \<Rightarrow> Inl (CanonicalExecutionError (field @ '' must be an integer'')))"

text \<open>\<open>except DeploymentPlanError as exc: raise CanonicalExecutionError(str(exc))\<close>.\<close>

fun as_execution_error :: "exn \<Rightarrow> exn" where
  "as_execution_error (DeploymentPlanError m) = CanonicalExecutionError m"
| "as_execution_error e = e"

definition x_require_repo_path :: "json \<Rightarrow> string \<Rightarrow> string res" where
  "x_require_repo_path value field =
     rmap_exn as_execution_error (require_safe_relative_path value field)"

definition x_require_sha256 :: "json \<Rightarrow> string \<Rightarrow> string res" where
  "x_require_sha256 value field = rmap_exn as_execution_error (require_sha256 value field)"

definition x_require_identifier :: "json \<Rightarrow> string \<Rightarrow> string res" where
  "x_require_identifier value field = rmap_exn as_execution_error (require_identifier value field)"

definition x_require_hex :: "nat option \<Rightarrow> json \<Rightarrow> string \<Rightarrow> string res" where
  "x_require_hex bytes_length value field =
     rbind (x_require_string value field) (\<lambda>s.
     if \<not> HEX_RE s
     then Inl (CanonicalExecutionError (field @ '' must be even-length 0x-prefixed hex''))
     else
       (case bytes_length of
          Some n \<Rightarrow>
            if length s \<noteq> 2 + 2 * n
            then Inl (CanonicalExecutionError (field @ '' must encode '' @ dec n @ '' bytes''))
            else Inr (lower s)
        | None \<Rightarrow> Inr (lower s)))"

definition HEX_HASH_LENGTH :: nat where
  "HEX_HASH_LENGTH = 66"

definition x_require_hash :: "json \<Rightarrow> string \<Rightarrow> string res" where
  "x_require_hash value field =
     rbind (x_require_string value field) (\<lambda>raw.
     let s = lower raw in
     if length s \<noteq> HEX_HASH_LENGTH \<or> \<not> KECCAK_RE s
     then Inl (CanonicalExecutionError (field @ '' must be a 32-byte 0x-prefixed hash''))
     else Inr s)"

definition x_require_address :: "json \<Rightarrow> string \<Rightarrow> string res" where
  "x_require_address value field =
     rbind (x_require_string value field) (\<lambda>s.
     if \<not> ADDRESS_RE s
     then Inl (CanonicalExecutionError (field @ '' must be an Ethereum address''))
     else Inr (lower s))"

definition RPC_QUANTITY_RE :: "string \<Rightarrow> bool" where
  "RPC_QUANTITY_RE s \<longleftrightarrow>
     take 2 s = ''0x'' \<and>
     (drop 2 s = ''0'' \<or>
      (case drop 2 s of [] \<Rightarrow> False
       | c # cs \<Rightarrow> is_hex_lower c \<and> c \<noteq> CHR ''0'' \<and> list_all is_hex_lower cs))"

definition normalize_rpc_quantity :: "json \<Rightarrow> string \<Rightarrow> int res" where
  "normalize_rpc_quantity value field =
     rbind (x_require_string value field) (\<lambda>raw.
     let s = lower raw in
     if \<not> RPC_QUANTITY_RE s
     then Inl (CanonicalExecutionError (field @ '' must be a JSON-RPC hex quantity''))
     else Inr (hex_value (drop 2 s)))"

section \<open>What a successful check gives\<close>

lemmas validator_defs =
  require_dict_def require_list_def require_string_def require_bool_def require_int_def
  require_sha256_def require_keccak_def require_address_def require_hex_def
  require_identifier_def require_solidity_name_def require_safe_relative_path_def
  x_require_dict_def x_require_list_def x_require_string_def x_require_integer_def
  x_require_repo_path_def x_require_sha256_def x_require_identifier_def x_require_hex_def
  x_require_hash_def x_require_address_def normalize_rpc_quantity_def

lemma require_dict_iff [res_simps]: "require_dict v f = Inr d \<longleftrightarrow> v = JDict d"
  by (cases v) (auto simp: require_dict_def)

lemma require_list_iff [res_simps]: "require_list v f = Inr vs \<longleftrightarrow> v = JList vs"
  by (cases v) (auto simp: require_list_def)

lemma require_string_iff [res_simps]: "require_string v f = Inr s \<longleftrightarrow> v = JStr s \<and> s \<noteq> []"
  by (cases v) (auto simp: require_string_def)

lemma require_bool_iff [res_simps]: "require_bool v f = Inr b \<longleftrightarrow> v = JBool b"
  by (cases v) (auto simp: require_bool_def)

lemma require_int_iff [res_simps]: "require_int v f = Inr i \<longleftrightarrow> v = JInt i"
  by (cases v) (auto simp: require_int_def)

lemma x_require_dict_iff [res_simps]: "x_require_dict v f = Inr d \<longleftrightarrow> v = JDict d"
  by (cases v) (auto simp: x_require_dict_def)

lemma x_require_list_iff [res_simps]: "x_require_list v f = Inr vs \<longleftrightarrow> v = JList vs"
  by (cases v) (auto simp: x_require_list_def)

lemma x_require_string_iff [res_simps]: "x_require_string v f = Inr s \<longleftrightarrow> v = JStr s \<and> s \<noteq> []"
  by (cases v) (auto simp: x_require_string_def)

lemma x_require_integer_iff [res_simps]: "x_require_integer v f = Inr i \<longleftrightarrow> v = JInt i"
  by (cases v) (auto simp: x_require_integer_def)

lemma pattern_nonempty:
  "SHA256_RE s \<Longrightarrow> s \<noteq> []" "KECCAK_RE s \<Longrightarrow> s \<noteq> []" "ADDRESS_RE s \<Longrightarrow> s \<noteq> []"
  "HEX_RE s \<Longrightarrow> s \<noteq> []" "IDENTIFIER_RE s \<Longrightarrow> s \<noteq> []" "SOLIDITY_NAME_RE s \<Longrightarrow> s \<noteq> []"
  "REPO_PATH_RE s \<Longrightarrow> s \<noteq> []"
  by (auto simp: SHA256_RE_def KECCAK_RE_def ADDRESS_RE_def HEX_RE_def IDENTIFIER_RE_def
      SOLIDITY_NAME_RE_def REPO_PATH_RE_def)

lemma require_sha256_iff [res_simps]:
  "require_sha256 v f = Inr s \<longleftrightarrow> v = JStr s \<and> SHA256_RE s"
  by (auto simp: require_sha256_def res_simps dest: pattern_nonempty)

lemma require_keccak_iff [res_simps]:
  "require_keccak v f = Inr s \<longleftrightarrow> v = JStr s \<and> KECCAK_RE s"
  by (auto simp: require_keccak_def res_simps dest: pattern_nonempty)

lemma require_identifier_iff [res_simps]:
  "require_identifier v f = Inr s \<longleftrightarrow> v = JStr s \<and> IDENTIFIER_RE s"
  by (auto simp: require_identifier_def res_simps dest: pattern_nonempty)

lemma require_solidity_name_iff [res_simps]:
  "require_solidity_name v f = Inr s \<longleftrightarrow> v = JStr s \<and> SOLIDITY_NAME_RE s"
  by (auto simp: require_solidity_name_def res_simps dest: pattern_nonempty)

lemma require_safe_relative_path_iff [res_simps]:
  "require_safe_relative_path v f = Inr s \<longleftrightarrow> v = JStr s \<and> REPO_PATH_RE s"
  by (auto simp: require_safe_relative_path_def res_simps dest: pattern_nonempty)

lemma require_address_iff:
  "require_address z v f = Inr a \<longleftrightarrow>
     (\<exists>s. v = JStr s \<and> ADDRESS_RE s \<and> (z \<or> hex_value (drop 2 s) \<noteq> 0) \<and> a = lower s)"
  by (auto simp: require_address_def res_simps dest: pattern_nonempty)

lemma require_hex_iff:
  "require_hex e v f = Inr h \<longleftrightarrow>
     (\<exists>s. v = JStr s \<and> HEX_RE s \<and> (e \<or> s \<noteq> ''0x'') \<and> h = lower s)"
  by (auto simp: require_hex_def res_simps dest: pattern_nonempty)

lemma x_require_repo_path_iff [res_simps]:
  "x_require_repo_path v f = Inr s \<longleftrightarrow> v = JStr s \<and> REPO_PATH_RE s"
  by (simp add: x_require_repo_path_def res_simps)

lemma x_require_sha256_iff [res_simps]:
  "x_require_sha256 v f = Inr s \<longleftrightarrow> v = JStr s \<and> SHA256_RE s"
  by (simp add: x_require_sha256_def res_simps)

lemma x_require_identifier_iff [res_simps]:
  "x_require_identifier v f = Inr s \<longleftrightarrow> v = JStr s \<and> IDENTIFIER_RE s"
  by (simp add: x_require_identifier_def res_simps)

lemma x_require_hex_iff:
  "x_require_hex None v f = Inr h \<longleftrightarrow> (\<exists>s. v = JStr s \<and> HEX_RE s \<and> h = lower s)"
  by (auto simp: x_require_hex_def res_simps dest: pattern_nonempty)

lemma lower_Nil_iff [simp]: "lower s = [] \<longleftrightarrow> s = []"
  by (simp add: lower_def)

lemma x_require_hash_iff:
  "x_require_hash v f = Inr h \<longleftrightarrow> (\<exists>s. v = JStr s \<and> KECCAK_RE (lower s) \<and> h = lower s)"
  unfolding x_require_hash_def Let_def HEX_HASH_LENGTH_def
  by (cases v) (auto simp: x_require_string_def KECCAK_RE_def split: if_splits)

lemma x_require_address_iff:
  "x_require_address v f = Inr a \<longleftrightarrow> (\<exists>s. v = JStr s \<and> ADDRESS_RE s \<and> a = lower s)"
  by (auto simp: x_require_address_def res_simps dest: pattern_nonempty)

lemma RPC_QUANTITY_RE_nonempty: "RPC_QUANTITY_RE s \<Longrightarrow> s \<noteq> []"
  by (auto simp: RPC_QUANTITY_RE_def)

lemma normalize_rpc_quantity_iff:
  "normalize_rpc_quantity v f = Inr n \<longleftrightarrow>
     (\<exists>s. v = JStr s \<and> RPC_QUANTITY_RE (lower s) \<and> n = hex_value (drop 2 (lower s)))"
  unfolding normalize_rpc_quantity_def Let_def
  by (cases v) (auto simp: x_require_string_def dest: RPC_QUANTITY_RE_nonempty split: if_splits)

lemma normalize_rpc_quantity_nonneg: "normalize_rpc_quantity v f = Inr n \<Longrightarrow> 0 \<le> n"
  by (auto simp: normalize_rpc_quantity_iff)

lemma lower_0x_hex:
  assumes "take 2 s = ''0x''" and "list_all is_hex (drop 2 s)"
  shows "lower s = ''0x'' @ lower (drop 2 s)" "list_all is_hex_lower (lower (drop 2 s))"
proof -
  have "s = ''0x'' @ drop 2 s" using assms(1) by (metis append_take_drop_id)
  then have "lower s = lower ''0x'' @ lower (drop 2 s)" by (metis lower_append)
  then show "lower s = ''0x'' @ lower (drop 2 s)"
    by (simp add: lower_def lower_char_def is_upper_def)
  show "list_all is_hex_lower (lower (drop 2 s))" using assms(2) by (rule lower_all_hex_lower)
qed

lemma list_all_hex_lowerD: "list_all is_hex_lower s \<Longrightarrow> list_all is_hex s"
  by (auto simp: list_all_iff)

lemma ADDRESS_RE_lower: "ADDRESS_RE s \<Longrightarrow> ADDRESS_RE (lower s)"
  by (simp add: ADDRESS_RE_def lower_0x_hex list_all_hex_lowerD)

lemma HEX_RE_lower: "HEX_RE s \<Longrightarrow> HEX_RE (lower s)"
  by (simp add: HEX_RE_def lower_0x_hex list_all_hex_lowerD)

lemma HEX_RE_lower_drop: "HEX_RE s \<Longrightarrow> list_all is_hex_lower (drop 2 (lower s))"
  by (simp add: HEX_RE_def lower_0x_hex)

lemma hex_value_lower [simp]: "hex_value (lower s) = hex_value s"
  by (simp add: hex_value_def lower_def foldl_map)

lemma hex_value_drop_lower: "ADDRESS_RE s \<Longrightarrow> hex_value (drop 2 (lower s)) = hex_value (drop 2 s)"
  by (simp add: ADDRESS_RE_def lower_0x_hex)

lemma HEX_RE_unhex: "HEX_RE s \<Longrightarrow> \<exists>bs. unhex (drop 2 s) = Some bs \<and> lower s = ''0x'' @ bytes_hex bs"
proof -
  assume h: "HEX_RE s"
  then have "even (length (drop 2 s))" by (auto simp: HEX_RE_def)
  with h obtain bs where bs: "unhex (drop 2 s) = Some bs"
    using unhex_defined unfolding HEX_RE_def by blast
  with h show ?thesis by (auto simp: HEX_RE_def lower_0x_hex(1) bytes_hex_unhex)
qed

lemma HEX_RE_bytes_hex [simp]: "HEX_RE (''0x'' @ bytes_hex bs)"
  using bytes_hex_is_hex_lower[of bs] by (auto simp: HEX_RE_def list_all_iff)

section \<open>The contract of a canonicalising validator\<close>

locale field_validator =
  fixes check :: "json \<Rightarrow> string \<Rightarrow> 'a res"
    and embed :: "'a \<Rightarrow> json"
    and ok :: "'a \<Rightarrow> bool"
  assumes sound: "check v f = Inr x \<Longrightarrow> ok x"
    and stable: "ok x \<Longrightarrow> check (embed x) g = Inr x"
begin

lemma idempotent: "check v f = Inr x \<Longrightarrow> check (embed x) g = Inr x"
  by (blast intro: stable sound)

lemma ok_iff: "ok x \<longleftrightarrow> (\<exists>v f. check v f = Inr x)"
  by (blast intro: stable sound)

lemma each_sound: "each (\<lambda>i v. check v (path i)) n vs = Inr xs \<Longrightarrow> list_all ok xs"
  by (auto simp: list_all_iff dest!: each_set sound)

lemma each_stable: "list_all ok xs \<Longrightarrow> each (\<lambda>i v. check v (path i)) n (map embed xs) = Inr xs"
  by (auto simp: each_eq_Inr list_all_length intro: stable)

lemma each_idempotent:
  "each (\<lambda>i v. check v (path i)) n vs = Inr xs \<Longrightarrow>
   each (\<lambda>i v. check v (path' i)) m (map embed xs) = Inr xs"
  by (blast intro: each_stable each_sound)

end

interpretation bool_field: field_validator require_bool JBool "\<lambda>_. True"
  by unfold_locales (simp_all add: res_simps)

interpretation int_field: field_validator require_int JInt "\<lambda>_. True"
  by unfold_locales (simp_all add: res_simps)

interpretation string_field: field_validator require_string JStr "\<lambda>s. s \<noteq> []"
  by unfold_locales (simp_all add: res_simps)

interpretation sha256_field: field_validator require_sha256 JStr SHA256_RE
  by unfold_locales (simp_all add: res_simps)

interpretation keccak_field: field_validator require_keccak JStr KECCAK_RE
  by unfold_locales (simp_all add: res_simps)

interpretation identifier_field: field_validator require_identifier JStr IDENTIFIER_RE
  by unfold_locales (simp_all add: res_simps)

interpretation name_field: field_validator require_solidity_name JStr SOLIDITY_NAME_RE
  by unfold_locales (simp_all add: res_simps)

interpretation path_field: field_validator require_safe_relative_path JStr REPO_PATH_RE
  by unfold_locales (simp_all add: res_simps)

definition canonical_address :: "bool \<Rightarrow> string \<Rightarrow> bool" where
  "canonical_address allow_zero a \<longleftrightarrow>
     ADDRESS_RE a \<and> lower a = a \<and> (allow_zero \<or> hex_value (drop 2 a) \<noteq> 0)"

definition canonical_hex :: "bool \<Rightarrow> string \<Rightarrow> bool" where
  "canonical_hex allow_empty h \<longleftrightarrow> HEX_RE h \<and> lower h = h \<and> (allow_empty \<or> h \<noteq> ''0x'')"

lemma HEX_RE_lower_iff: "HEX_RE s \<Longrightarrow> lower s = ''0x'' \<longleftrightarrow> s = ''0x''"
proof -
  assume "HEX_RE s"
  then have s: "s = ''0x'' @ drop 2 s" and l: "lower s = ''0x'' @ lower (drop 2 s)"
    using append_take_drop_id[of 2 s] by (auto simp: HEX_RE_def lower_0x_hex(1) simp del: append_take_drop_id)
  have "lower s = ''0x'' \<longleftrightarrow> drop 2 s = []" by (subst l) simp
  also have "\<dots> \<longleftrightarrow> s = ''0x''" by (subst (2) s) simp
  finally show ?thesis .
qed

interpretation address_field: field_validator "require_address z" JStr "canonical_address z"
  by unfold_locales
    (auto simp: require_address_iff canonical_address_def ADDRESS_RE_lower hex_value_drop_lower)

interpretation hex_field: field_validator "require_hex e" JStr "canonical_hex e"
  by unfold_locales
    (auto simp: require_hex_iff canonical_hex_def HEX_RE_lower HEX_RE_lower_iff)

interpretation x_address_field: field_validator x_require_address JStr "canonical_address True"
  by unfold_locales (auto simp: x_require_address_iff canonical_address_def ADDRESS_RE_lower)

interpretation x_hex_field: field_validator "x_require_hex None" JStr "canonical_hex True"
  by unfold_locales (auto simp: x_require_hex_iff canonical_hex_def HEX_RE_lower)

lemma KECCAK_RE_lower [simp]: "KECCAK_RE s \<Longrightarrow> lower s = s"
proof -
  assume k: "KECCAK_RE s"
  then have "lower s = take 2 s @ drop 2 s"
    by (simp add: KECCAK_RE_def lower_0x_hex(1) list_all_hex_lowerD del: append_take_drop_id)
  then show ?thesis by simp
qed

interpretation x_hash_field: field_validator x_require_hash JStr KECCAK_RE
  by unfold_locales (auto simp: x_require_hash_iff)

interpretation x_sha256_field: field_validator x_require_sha256 JStr SHA256_RE
  by unfold_locales (simp_all add: res_simps)

end
