(* ===== verification/Encoding.thy ===== *)
theory Encoding
  imports Validators
begin

text \<open>
  Serialisation and hashing: the two JSON encoders of the materializer
  (\<open>canonical_json_bytes\<close>, \<open>json_text\<close>), the digest helpers over the hash functions the
  environment provides, and the RLP encoding behind \<open>create_address\<close> of the executor,
  with the proof that an RLP string list can be read back from its encoding.
\<close>

section \<open>Hash functions\<close>

text \<open>
  SHA-256 (\<open>hashlib\<close>) and Keccak-256 (\<open>eth_hash\<close> or \<open>pycryptodome\<close>) are library code: the
  model takes them as a parameter. That both return 32 bytes is the only fact used of them.
\<close>

record hashes =
  sha256 :: "byte list \<Rightarrow> byte list"
  keccak :: "byte list \<Rightarrow> byte list"

definition wf_hashes :: "hashes \<Rightarrow> bool" where
  "wf_hashes H \<longleftrightarrow> (\<forall>bs. length (sha256 H bs) = 32 \<and> length (keccak H bs) = 32)"

definition str_bytes :: "string \<Rightarrow> byte list" where
  "str_bytes s = map (\<lambda>c. of_nat (of_char c)) s"

definition sha256_bytes :: "hashes \<Rightarrow> byte list \<Rightarrow> string" where
  "sha256_bytes H v = ''sha256:'' @ bytes_hex (sha256 H v)"

definition keccak256_hex :: "hashes \<Rightarrow> byte list \<Rightarrow> string" where
  "keccak256_hex H v = ''0x'' @ bytes_hex (keccak H v)"

lemma SHA256_RE_sha256_bytes: "wf_hashes H \<Longrightarrow> SHA256_RE (sha256_bytes H v)"
  by (simp add: SHA256_RE_def sha256_bytes_def wf_hashes_def bytes_hex_is_hex_lower)

lemma KECCAK_RE_keccak256_hex: "wf_hashes H \<Longrightarrow> KECCAK_RE (keccak256_hex H v)"
  by (simp add: KECCAK_RE_def keccak256_hex_def wf_hashes_def bytes_hex_is_hex_lower)

section \<open>JSON text\<close>

text \<open>The code points of a UTF-8 encoded string, for the \<open>ensure_ascii\<close> escapes.\<close>

definition cont :: "string \<Rightarrow> nat \<Rightarrow> nat" where
  "cont cs i = (if i < length cs then of_char (cs ! i) - 128 else 0)"

function utf8_points :: "string \<Rightarrow> nat list" where
  "utf8_points [] = []"
| "utf8_points (c # cs) =
     (let n = of_char c in
      if n < 128 then n # utf8_points cs
      else if n < 224
      then ((n - 192) * 64 + cont cs 0) # utf8_points (drop 1 cs)
      else if n < 240
      then ((n - 224) * 4096 + cont cs 0 * 64 + cont cs 1) # utf8_points (drop 2 cs)
      else ((n - 240) * 262144 + cont cs 0 * 4096 + cont cs 1 * 64 + cont cs 2)
             # utf8_points (drop 3 cs))"
  by pat_completeness auto
termination
  by (relation "measure length") auto

definition hex4 :: "nat \<Rightarrow> string" where
  "hex4 n = [digit_char (n div 4096 mod 16), digit_char (n div 256 mod 16),
             digit_char (n div 16 mod 16), digit_char (n mod 16)]"

definition short_escape :: "nat \<Rightarrow> string option" where
  "short_escape n =
     (if n = 34 then Some [CHR 0x5C, CHR 0x22]
      else if n = 92 then Some [CHR 0x5C, CHR 0x5C]
      else if n = 10 then Some (CHR 0x5C # ''n'')
      else if n = 13 then Some (CHR 0x5C # ''r'')
      else if n = 9 then Some (CHR 0x5C # ''t'')
      else if n = 12 then Some (CHR 0x5C # ''f'')
      else if n = 8 then Some (CHR 0x5C # ''b'')
      else None)"

definition unicode_escape :: "nat \<Rightarrow> string" where
  "unicode_escape n =
     (if n < 65536 then CHR 0x5C # ''u'' @ hex4 n
      else CHR 0x5C # ''u'' @ hex4 (55296 + (n - 65536) div 1024 mod 1024) @
           CHR 0x5C # ''u'' @ hex4 (56320 + (n - 65536) mod 1024))"

definition ascii_escape :: "nat \<Rightarrow> string" where
  "ascii_escape n =
     (case short_escape n of Some e \<Rightarrow> e
      | None \<Rightarrow> if 32 \<le> n \<and> n \<le> 126 then [char_of n] else unicode_escape n)"

definition quote_ascii :: "string \<Rightarrow> string" where
  "quote_ascii s = CHR 0x22 # concat (map ascii_escape (utf8_points s)) @ [CHR 0x22]"

definition plain_escape :: "char \<Rightarrow> string" where
  "plain_escape c =
     (case short_escape (of_char c) of Some e \<Rightarrow> e
      | None \<Rightarrow> if (of_char c :: nat) < 32 then unicode_escape (of_char c) else [c])"

definition quote_plain :: "string \<Rightarrow> string" where
  "quote_plain s = CHR 0x22 # concat (map plain_escape s) @ [CHR 0x22]"

text \<open>\<open>sort_keys=True\<close>: every object's members in the order of their names.\<close>

fun sort_members :: "json \<Rightarrow> json" where
  "sort_members (JList vs) = JList (map sort_members vs)"
| "sort_members (JDict d) = JDict (sort_key fst (map (\<lambda>(k, v). (k, sort_members v)) d))"
| "sort_members v = v"

fun dumps_compact :: "json \<Rightarrow> string" where
  "dumps_compact JNull = ''null''"
| "dumps_compact (JBool b) = (if b then ''true'' else ''false'')"
| "dumps_compact (JInt i) = dec_int i"
| "dumps_compact (JStr s) = quote_ascii s"
| "dumps_compact (JList vs) = ''['' @ join '','' (map dumps_compact vs) @ '']''"
| "dumps_compact (JDict d) =
     ''{'' @ join '','' (map (\<lambda>(k, v). quote_ascii k @ '':'' @ dumps_compact v) d) @ ''}''"

definition canonical_json_bytes :: "json \<Rightarrow> byte list" where
  "canonical_json_bytes v = str_bytes (dumps_compact (sort_members v))"

text \<open>\<open>json.dumps(value, ensure_ascii=False, indent=2) + newline\<close>.\<close>

definition newline_indent :: "nat \<Rightarrow> string" where
  "newline_indent n = CHR 0x0A # replicate (2 * n) (CHR '' '')"

fun dumps_indent :: "nat \<Rightarrow> json \<Rightarrow> string" where
  "dumps_indent n JNull = ''null''"
| "dumps_indent n (JBool b) = (if b then ''true'' else ''false'')"
| "dumps_indent n (JInt i) = dec_int i"
| "dumps_indent n (JStr s) = quote_plain s"
| "dumps_indent n (JList vs) =
     (if vs = [] then ''[]''
      else ''['' @ newline_indent (Suc n) @
           join ('','' @ newline_indent (Suc n)) (map (dumps_indent (Suc n)) vs) @
           newline_indent n @ '']'')"
| "dumps_indent n (JDict d) =
     (if d = [] then ''{}''
      else ''{'' @ newline_indent (Suc n) @
           join ('','' @ newline_indent (Suc n))
             (map (\<lambda>(k, v). quote_plain k @ '': '' @ dumps_indent (Suc n) v) d) @
           newline_indent n @ ''}'')"

definition json_text :: "json \<Rightarrow> string" where
  "json_text v = dumps_indent 0 v @ [CHR 0x0A]"

section \<open>RLP and CREATE addresses\<close>

fun bit_length :: "nat \<Rightarrow> nat" where
  "bit_length n = (if n = 0 then 0 else Suc (bit_length (n div 2)))"

declare bit_length.simps [simp del]

text \<open>\<open>n.to_bytes(l, "big")\<close>, for an \<open>n\<close> that fits.\<close>

fun to_bytes :: "nat \<Rightarrow> nat \<Rightarrow> byte list" where
  "to_bytes 0 n = []"
| "to_bytes (Suc l) n = to_bytes l (n div 256) @ [of_nat n]"

definition rlp_length_bytes :: "nat \<Rightarrow> byte list" where
  "rlp_length_bytes n = to_bytes ((bit_length n + 7) div 8) n"

definition rlp_encode_bytes :: "byte list \<Rightarrow> byte list" where
  "rlp_encode_bytes value =
     (if length value = 1 \<and> unat (hd value) < 0x80 then value
      else if length value \<le> 55 then of_nat (0x80 + length value) # value
      else let len = rlp_length_bytes (length value)
           in of_nat (0xB7 + length len) # len @ value)"

definition rlp_encode_list :: "byte list list \<Rightarrow> byte list" where
  "rlp_encode_list values =
     (let payload = concat values in
      if length payload \<le> 55 then of_nat (0xC0 + length payload) # payload
      else let len = rlp_length_bytes (length payload)
           in of_nat (0xF7 + length len) # len @ payload)"

definition nonce_bytes :: "int \<Rightarrow> byte list" where
  "nonce_bytes nonce = (if nonce = 0 then [] else rlp_length_bytes (nat nonce))"

definition create_preimage :: "byte list \<Rightarrow> int \<Rightarrow> byte list" where
  "create_preimage sender nonce =
     rlp_encode_list [rlp_encode_bytes sender, rlp_encode_bytes (nonce_bytes nonce)]"

definition create_address :: "hashes \<Rightarrow> string \<Rightarrow> int \<Rightarrow> string res" where
  "create_address H sender nonce =
     rbind (x_require_address (JStr sender) ''sender'') (\<lambda>checked.
     rbind (bytes_fromhex (drop 2 checked)) (\<lambda>sender_bytes.
     if nonce < 0 then Inl (CanonicalExecutionError ''deployment nonce must not be negative'')
     else
       let encoded = create_preimage sender_bytes nonce;
           digest = keccak256_hex H encoded
       in Inr (''0x'' @ drop (length digest - 40) digest)))"

section \<open>Keys derived from canonical JSON\<close>

definition removeprefix_sha :: "string \<Rightarrow> string" where
  "removeprefix_sha s = (if take 7 s = ''sha256:'' then drop 7 s else s)"

definition execution_key :: "hashes \<Rightarrow> string \<Rightarrow> int \<Rightarrow> string \<Rightarrow> string res" where
  "execution_key H plan_sha256 chain_id sender =
     rbind (x_require_address (JStr sender) ''sender'') (\<lambda>checked.
     Inr (removeprefix_sha (sha256_bytes H (canonical_json_bytes (JDict
       [(''plan_sha256'', JStr plan_sha256), (''chain_id'', JInt chain_id),
        (''sender'', JStr checked)])))))"

definition sender_lock_key :: "hashes \<Rightarrow> int \<Rightarrow> string \<Rightarrow> string res" where
  "sender_lock_key H chain_id sender =
     rbind (x_require_address (JStr sender) ''sender'') (\<lambda>checked.
     Inr (removeprefix_sha (sha256_bytes H (canonical_json_bytes (JDict
       [(''chain_id'', JInt chain_id), (''sender'', JStr checked)])))))"

section \<open>Reading RLP back\<close>

text \<open>
  A decoder for RLP strings and lists of strings, not part of the program: that it inverts
  the encoder is what makes the encoder injective, hence the hashed preimage of a CREATE
  address a faithful name of its sender and nonce.
\<close>

definition from_bytes :: "byte list \<Rightarrow> nat" where
  "from_bytes bs = foldl (\<lambda>n b. 256 * n + unat b) 0 bs"

lemma length_to_bytes [simp]: "length (to_bytes l n) = l"
  by (induction l arbitrary: n) auto

lemma from_bytes_snoc [simp]: "from_bytes (bs @ [b]) = 256 * from_bytes bs + unat b"
  by (simp add: from_bytes_def)

lemma from_bytes_to_bytes: "from_bytes (to_bytes l n) = n mod 256 ^ l"
proof (induction l arbitrary: n)
  case 0
  then show ?case by (simp add: from_bytes_def)
next
  case (Suc l)
  have "n mod 256 ^ Suc l = 256 * (n div 256 mod 256 ^ l) + n mod 256"
    by (simp add: mod_mult2_eq add.commute)
  then show ?case by (simp add: Suc.IH unat_of_nat)
qed

lemma less_bit_length: "n < 2 ^ bit_length n"
proof (induction n rule: bit_length.induct)
  case (1 n)
  show ?case
  proof (cases "n = 0")
    case True
    then show ?thesis by simp
  next
    case False
    with "1.IH" have "n div 2 < 2 ^ bit_length (n div 2)" by blast
    with False show ?thesis by (subst bit_length.simps) auto
  qed
qed

lemma bit_length_le: "n < 2 ^ k \<Longrightarrow> bit_length n \<le> k"
proof (induction n arbitrary: k rule: bit_length.induct)
  case (1 n)
  show ?case
  proof (cases "n = 0")
    case True
    then show ?thesis by (subst bit_length.simps) simp
  next
    case False
    with "1.prems" obtain k' where k: "k = Suc k'" by (cases k) auto
    with "1.prems" have "n div 2 < 2 ^ k'" by auto
    with "1.IH" False have "bit_length (n div 2) \<le> k'" by blast
    with False k show ?thesis by (subst bit_length.simps) simp
  qed
qed

lemma from_bytes_rlp_length_bytes [simp]: "from_bytes (rlp_length_bytes n) = n"
proof -
  let ?l = "(bit_length n + 7) div 8"
  have "n < 2 ^ bit_length n" by (rule less_bit_length)
  also have "\<dots> \<le> 2 ^ (8 * ?l)" by (rule power_increasing) auto
  finally have "n < 256 ^ ?l" by (simp add: power_mult)
  then show ?thesis by (simp add: rlp_length_bytes_def from_bytes_to_bytes)
qed

lemma length_rlp_length_bytes: "n < 2 ^ 64 \<Longrightarrow> length (rlp_length_bytes n) \<le> 8"
  by (drule bit_length_le) (simp add: rlp_length_bytes_def)

lemma rlp_length_bytes_inject [simp]: "rlp_length_bytes m = rlp_length_bytes n \<longleftrightarrow> m = n"
  by (metis from_bytes_rlp_length_bytes)

definition rlp_split :: "nat \<Rightarrow> byte list \<Rightarrow> (byte list \<times> byte list) option" where
  "rlp_split k bs = (if k \<le> length bs then Some (take k bs, drop k bs) else None)"

definition rlp_read :: "nat \<Rightarrow> nat \<Rightarrow> byte list \<Rightarrow> (byte list \<times> byte list) option" where
  "rlp_read short n bs =
     (if n \<le> short + 55 then rlp_split (n - short) bs
      else case rlp_split (n - (short + 55)) bs of None \<Rightarrow> None
           | Some (len, rest) \<Rightarrow> rlp_split (from_bytes len) rest)"

definition rlp_item :: "byte list \<Rightarrow> (byte list \<times> byte list) option" where
  "rlp_item bs =
     (case bs of [] \<Rightarrow> None
      | b # rest \<Rightarrow>
          if unat b < 0x80 then Some ([b], rest)
          else if unat b < 0xC0 then rlp_read 0x80 (unat b) rest
          else None)"

lemma rlp_split_shorter: "rlp_split k bs = Some (v, rest) \<Longrightarrow> length rest \<le> length bs"
  by (auto simp: rlp_split_def split: if_splits)

lemma rlp_item_shorter: "rlp_item bs = Some (v, rest) \<Longrightarrow> length rest < length bs"
  by (auto simp: rlp_item_def rlp_read_def split: list.splits if_splits option.splits
      dest!: rlp_split_shorter)

function rlp_items :: "byte list \<Rightarrow> byte list list option" where
  "rlp_items bs =
     (if bs = [] then Some []
      else case rlp_item bs of None \<Rightarrow> None
           | Some (v, rest) \<Rightarrow> map_option (\<lambda>vs. v # vs) (rlp_items rest))"
  by pat_completeness auto
termination
  by (relation "measure length") (auto dest: rlp_item_shorter)

declare rlp_items.simps [simp del]

definition rlp_decode_list :: "byte list \<Rightarrow> byte list list option" where
  "rlp_decode_list bs =
     (case bs of [] \<Rightarrow> None
      | b # rest \<Rightarrow>
          if unat b < 0xC0 then None
          else case rlp_read 0xC0 (unat b) rest of
                 Some (payload, []) \<Rightarrow> rlp_items payload | _ \<Rightarrow> None)"

lemma rlp_read_short:
  "length v \<le> 55 \<Longrightarrow> rlp_read s (s + length v) (v @ rest) = Some (v, rest)"
  by (simp add: rlp_read_def rlp_split_def)

lemma rlp_length_bytes_pos: "0 < n \<Longrightarrow> 0 < length (rlp_length_bytes n)"
proof (rule ccontr)
  assume "0 < n" and "\<not> 0 < length (rlp_length_bytes n)"
  then have "from_bytes (rlp_length_bytes n) = 0" by (simp add: from_bytes_def)
  with \<open>0 < n\<close> show False by simp
qed

lemma rlp_read_long:
  "0 < length v \<Longrightarrow>
   rlp_read s (s + 55 + length (rlp_length_bytes (length v))) (rlp_length_bytes (length v) @ v @ rest)
     = Some (v, rest)"
  using rlp_length_bytes_pos[of "length v"] by (simp add: rlp_read_def rlp_split_def)

lemma unat_header: "n < 256 \<Longrightarrow> unat (of_nat n :: byte) = n"
  by (simp add: unat_of_nat)

lemma rlp_item_encode:
  assumes "length v < 2 ^ 64"
  shows "rlp_item (rlp_encode_bytes v @ rest) = Some (v, rest)"
proof -
  consider (single) "length v = 1 \<and> unat (hd v) < 0x80"
    | (short) "\<not> (length v = 1 \<and> unat (hd v) < 0x80)" "length v \<le> 55"
    | (long) "length v > 55" by linarith
  then show ?thesis
  proof cases
    case single
    then obtain b where "v = [b]" by (auto simp: length_Suc_conv)
    with single show ?thesis by (simp add: rlp_encode_bytes_def rlp_item_def)
  next
    case short
    then have "rlp_encode_bytes v = of_nat (0x80 + length v) # v"
      by (auto simp: rlp_encode_bytes_def)
    then show ?thesis
      using rlp_read_short[of v "0x80" rest] short(2)
      by (simp add: rlp_item_def unat_header del: of_nat_add)
  next
    case long
    let ?l = "length (rlp_length_bytes (length v))"
    have "?l \<le> 8" using assms by (rule length_rlp_length_bytes)
    moreover have "v \<noteq> []" using long by auto
    ultimately show ?thesis
      using rlp_read_long[of v "0x80" rest] long
      by (simp add: rlp_encode_bytes_def rlp_item_def unat_header Let_def del: of_nat_add)
  qed
qed

lemma rlp_encode_bytes_nonempty [simp]: "rlp_encode_bytes v \<noteq> []"
  by (auto simp: rlp_encode_bytes_def Let_def)

lemma rlp_items_encode:
  "list_all (\<lambda>v. length v < 2 ^ 64) vs \<Longrightarrow>
   rlp_items (concat (map rlp_encode_bytes vs)) = Some vs"
  by (induction vs) (simp_all add: rlp_items.simps rlp_item_encode)

lemma rlp_decode_encode_list:
  assumes "list_all (\<lambda>v. length v < 2 ^ 64) vs"
    and "length (concat (map rlp_encode_bytes vs)) < 2 ^ 64"
  shows "rlp_decode_list (rlp_encode_list (map rlp_encode_bytes vs)) = Some vs"
proof -
  let ?p = "concat (map rlp_encode_bytes vs)"
  have items: "rlp_items ?p = Some vs" using assms(1) by (rule rlp_items_encode)
  show ?thesis
  proof (cases "length ?p \<le> 55")
    case True
    then show ?thesis
      using rlp_read_short[of ?p "0xC0" "[]"] items
      by (simp add: rlp_encode_list_def rlp_decode_list_def unat_header Let_def del: of_nat_add)
  next
    case False
    have "length (rlp_length_bytes (length ?p)) \<le> 8"
      using assms(2) by (rule length_rlp_length_bytes)
    moreover have "vs \<noteq> []" using False by auto
    ultimately show ?thesis
      using rlp_read_long[of ?p "0xC0" "[]"] items False
      by (simp add: rlp_encode_list_def rlp_decode_list_def unat_header Let_def del: of_nat_add)
  qed
qed

lemma length_rlp_encode_bytes:
  "length v < 2 ^ 64 \<Longrightarrow> length (rlp_encode_bytes v) \<le> length v + 9"
  using length_rlp_length_bytes[of "length v"] by (simp add: rlp_encode_bytes_def Let_def)

lemma length_nonce_bytes: "nonce < 2 ^ 64 \<Longrightarrow> length (nonce_bytes nonce) \<le> 8"
  using length_rlp_length_bytes[of "nat nonce"] by (simp add: nonce_bytes_def)

lemma nonce_bytes_inject:
  "0 \<le> m \<Longrightarrow> 0 \<le> n \<Longrightarrow> nonce_bytes m = nonce_bytes n \<longleftrightarrow> m = n"
  using rlp_length_bytes_pos[of "nat m"] rlp_length_bytes_pos[of "nat n"]
  by (auto simp: nonce_bytes_def)

lemma rlp_decode_create_preimage:
  assumes "length s = 20" and "n < 2 ^ 64"
  shows "rlp_decode_list (create_preimage s n) = Some [s, nonce_bytes n]"
proof -
  have n: "length (nonce_bytes n) \<le> 8" using assms(2) by (rule length_nonce_bytes)
  have "length (rlp_encode_bytes s) \<le> 29" "length (rlp_encode_bytes (nonce_bytes n)) \<le> 17"
    using length_rlp_encode_bytes[of s] length_rlp_encode_bytes[of "nonce_bytes n"] assms(1) n
    by auto
  then have "length (concat (map rlp_encode_bytes [s, nonce_bytes n])) < 2 ^ 64" by simp
  then show ?thesis
    using rlp_decode_encode_list[of "[s, nonce_bytes n]"] assms(1) n
    by (simp add: create_preimage_def)
qed

end
