(* ===== verification/Json_Text.thy ===== *)
theory Json_Text
  imports Encoding
begin

text \<open>
  The strict JSON decoder of the pipeline (\<open>decode_json_bytes\<close> of the materializer and
  \<open>load_json_text\<close> of the release builder): UTF-8 validation, the scanner of \<open>json.loads\<close>
  with the hooks both files install (duplicate members, floating-point numbers, the
  constants \<open>NaN\<close> and \<open>Infinity\<close> and integers outside the I-JSON range are refused), and the
  rejection of surrogate code points. The section of theorems shows that what \<open>json_text\<close>
  prints is read back as the value that was printed.

  A \<open>JSONDecodeError\<close> is the \<^const>\<open>ValueError\<close> it is a subclass of; the position it reports
  is not part of the model. The interpreter's limits on recursion depth and on the length of
  a decimal numeral are not modelled.
\<close>

section \<open>Hooks\<close>

definition IJSON_SAFE_INTEGER_MAX :: int where
  "IJSON_SAFE_INTEGER_MAX = 9007199254740991"

text \<open>
  Both files define the hooks, each with its own exception class and its own name for what
  it decodes.
\<close>

record json_hooks =
  hook_error :: "string \<Rightarrow> exn"
  hook_inputs :: string

definition materializer_hooks :: json_hooks where
  "materializer_hooks = \<lparr>hook_error = DeploymentPlanError, hook_inputs = ''deployment-plan inputs''\<rparr>"

definition release_hooks :: json_hooks where
  "release_hooks = \<lparr>hook_error = ReleaseBuildError, hook_inputs = ''canonical release inputs''\<rparr>"

fun reject_duplicate_json_pairs_from :: "json_hooks \<Rightarrow> dict \<Rightarrow> dict \<Rightarrow> dict res" where
  "reject_duplicate_json_pairs_from E result [] = Inr result"
| "reject_duplicate_json_pairs_from E result ((key, v) # pairs) =
     (if dmem key result then Inl (hook_error E (''duplicate JSON member: '' @ key))
      else reject_duplicate_json_pairs_from E (dset result key v) pairs)"

definition reject_duplicate_json_pairs :: "json_hooks \<Rightarrow> dict \<Rightarrow> dict res" where
  "reject_duplicate_json_pairs E pairs = reject_duplicate_json_pairs_from E [] pairs"

definition dec_value :: "string \<Rightarrow> int" where
  "dec_value s = foldl (\<lambda>n c. 10 * n + (of_char c - 48)) 0 s"

definition int_of_token :: "string \<Rightarrow> int" where
  "int_of_token s =
     (case s of [] \<Rightarrow> 0
      | c # cs \<Rightarrow> if c = CHR ''-'' then - dec_value cs else dec_value s)"

definition parse_ijson_integer :: "json_hooks \<Rightarrow> string \<Rightarrow> int res" where
  "parse_ijson_integer E token =
     (let v = int_of_token token in
      if \<bar>v\<bar> > IJSON_SAFE_INTEGER_MAX
      then Inl (hook_error E (''JSON integer is outside the I-JSON interoperable range: '' @ token))
      else Inr v)"

definition reject_json_float :: "json_hooks \<Rightarrow> string \<Rightarrow> json res" where
  "reject_json_float E token = Inl (hook_error E (''floating-point JSON is forbidden in '' @ hook_inputs E @ '': '' @ token))"

definition reject_json_constant :: "json_hooks \<Rightarrow> string \<Rightarrow> json res" where
  "reject_json_constant E token = Inl (hook_error E (''non-I-JSON token is forbidden: '' @ token))"

section \<open>Scanning\<close>

definition is_ws :: "char \<Rightarrow> bool" where
  "is_ws c \<longleftrightarrow> (let n = of_char c :: nat in n = 32 \<or> n = 9 \<or> n = 10 \<or> n = 13)"

definition skip_ws :: "string \<Rightarrow> string" where
  "skip_ws s = dropWhile is_ws s"

definition json_error :: "string \<Rightarrow> 'a res" where
  "json_error m = Inl (ValueError m)"

text \<open>The UTF-8 encoding of a code point; a lone surrogate has the three bytes of its number.\<close>

definition utf8_char :: "nat \<Rightarrow> string" where
  "utf8_char n =
     (if n < 128 then [char_of n]
      else if n < 2048 then [char_of (192 + n div 64), char_of (128 + n mod 64)]
      else if n < 65536
      then [char_of (224 + n div 4096), char_of (128 + n div 64 mod 64), char_of (128 + n mod 64)]
      else [char_of (240 + n div 262144), char_of (128 + n div 4096 mod 64),
            char_of (128 + n div 64 mod 64), char_of (128 + n mod 64)])"

definition read_hex4 :: "string \<Rightarrow> nat option" where
  "read_hex4 s =
     (if 4 \<le> length s \<and> list_all is_hex (take 4 s) then Some (nat (hex_value (take 4 s))) else None)"

text \<open>A code unit that follows \<open>\u\<close>: the code point and how many characters it takes.\<close>

definition read_unicode :: "string \<Rightarrow> (nat \<times> nat) option" where
  "read_unicode s =
     (case read_hex4 s of None \<Rightarrow> None
      | Some u \<Rightarrow>
          if 55296 \<le> u \<and> u \<le> 56319 \<and> take 2 (drop 4 s) = [CHR 0x5C, CHR ''u'']
          then (case read_hex4 (drop 6 s) of None \<Rightarrow> None
                | Some l \<Rightarrow> if 56320 \<le> l \<and> l \<le> 57343
                    then Some (65536 + (u - 55296) * 1024 + (l - 56320), 10)
                    else Some (u, 4))
          else Some (u, 4))"

definition simple_escape :: "char \<Rightarrow> char option" where
  "simple_escape c =
     (if c = CHR 0x22 \<or> c = CHR 0x5C \<or> c = CHR ''/'' then Some c
      else if c = CHR ''b'' then Some (CHR 0x08)
      else if c = CHR ''f'' then Some (CHR 0x0C)
      else if c = CHR ''n'' then Some (CHR 0x0A)
      else if c = CHR ''r'' then Some (CHR 0x0D)
      else if c = CHR ''t'' then Some (CHR 0x09)
      else None)"

definition put_chars :: "string \<Rightarrow> (string \<times> string) res \<Rightarrow> (string \<times> string) res" where
  "put_chars p r = rbind r (\<lambda>(s, rest). Inr (p @ s, rest))"

text \<open>The rest of a string literal, after its opening quote.\<close>

function scan_string :: "string \<Rightarrow> (string \<times> string) res" where
  "scan_string [] = json_error ''Unterminated string''"
| "scan_string (c # r) =
     (if c = CHR 0x22 then Inr ([], r)
      else if c = CHR 0x5C then
        (case r of [] \<Rightarrow> json_error ''Unterminated string''
         | e # q \<Rightarrow>
             if e = CHR ''u'' then
               (case read_unicode q of None \<Rightarrow> json_error ''Invalid uXXXX escape''
                | Some (n, k) \<Rightarrow> put_chars (utf8_char n) (scan_string (drop k q)))
             else
               (case simple_escape e of None \<Rightarrow> json_error ''Invalid escape''
                | Some d \<Rightarrow> put_chars [d] (scan_string q)))
      else if (of_char c :: nat) < 32 then json_error ''Invalid control character''
      else put_chars [c] (scan_string r))"
  by pat_completeness auto
termination
  by (relation "measure length") auto

definition scan_sign :: "string \<Rightarrow> string \<times> string" where
  "scan_sign s = (if take 1 s = ''-'' then (''-'', drop 1 s) else ([], s))"

definition scan_fraction :: "string \<Rightarrow> string \<times> string" where
  "scan_fraction s =
     (if take 1 s = ''.'' \<and> takeWhile is_digit (drop 1 s) \<noteq> []
      then (CHR ''.'' # takeWhile is_digit (drop 1 s), dropWhile is_digit (drop 1 s)) else ([], s))"

definition scan_exponent :: "string \<Rightarrow> string \<times> string" where
  "scan_exponent s =
     (let t = drop 1 s;
          u = (if take 1 t = ''-'' \<or> take 1 t = ''+'' then drop 1 t else t) in
      if (take 1 s = ''e'' \<or> take 1 s = ''E'') \<and> takeWhile is_digit u \<noteq> []
      then (take 1 s @ (if take 1 t = ''-'' \<or> take 1 t = ''+'' then take 1 t else []) @
              takeWhile is_digit u, dropWhile is_digit u)
      else ([], s))"

text \<open>The text of a number, whether it is a floating-point one, and what follows it.\<close>

definition scan_number :: "string \<Rightarrow> (string \<times> bool \<times> string) option" where
  "scan_number s =
     (let (sign, t) = scan_sign s in
      case t of [] \<Rightarrow> None
      | d # ds \<Rightarrow>
          if \<not> is_digit d then None
          else
            let (ints, r) = (if d = CHR ''0'' then ([d], ds)
                             else (takeWhile is_digit t, dropWhile is_digit t));
                (frac, r') = scan_fraction r;
                (ex, r'') = scan_exponent r'
            in Some (sign @ ints @ frac @ ex, frac \<noteq> [] \<or> ex \<noteq> [], r''))"

section \<open>Parsing\<close>

definition parse_literal :: "json_hooks \<Rightarrow> string \<Rightarrow> (json \<times> string) res" where
  "parse_literal E s =
     (if take 4 s = ''null'' then Inr (JNull, drop 4 s)
      else if take 4 s = ''true'' then Inr (JBool True, drop 4 s)
      else if take 5 s = ''false'' then Inr (JBool False, drop 5 s)
      else (case scan_number s of
        Some (token, floating, r) \<Rightarrow>
          if floating then rbind (reject_json_float E token) (\<lambda>v. Inr (v, r))
          else rbind (parse_ijson_integer E token) (\<lambda>i. Inr (JInt i, r))
      | None \<Rightarrow>
          if take 3 s = ''NaN'' then rbind (reject_json_constant E ''NaN'') (\<lambda>v. Inr (v, drop 3 s))
          else if take 8 s = ''Infinity''
          then rbind (reject_json_constant E ''Infinity'') (\<lambda>v. Inr (v, drop 8 s))
          else if take 9 s = ''-Infinity''
          then rbind (reject_json_constant E ''-Infinity'') (\<lambda>v. Inr (v, drop 9 s))
          else json_error ''Expecting value''))"

text \<open>
  The recursive scanner, with fuel for its calls: \<open>json_fuel\<close> below is enough for every text
  (\<open>parse_total\<close> and \<open>parse_complete\<close> of \<open>Json_Grammar\<close>).
\<close>

fun parse_value :: "json_hooks \<Rightarrow> nat \<Rightarrow> string \<Rightarrow> (json \<times> string) res"
  and parse_elements :: "json_hooks \<Rightarrow> nat \<Rightarrow> string \<Rightarrow> (json list \<times> string) res"
  and parse_members :: "json_hooks \<Rightarrow> nat \<Rightarrow> string \<Rightarrow> (dict \<times> string) res" where
  "parse_value E 0 s = Inl Halted"
| "parse_value E (Suc n) s =
     (case s of [] \<Rightarrow> json_error ''Expecting value''
      | c # r \<Rightarrow>
          if c = CHR 0x22 then rbind (scan_string r) (\<lambda>(t, q). Inr (JStr t, q))
          else if c = CHR ''{'' then
            (if take 1 (skip_ws r) = ''}'' then Inr (JDict [], drop 1 (skip_ws r))
             else rbind (parse_members E n (skip_ws r)) (\<lambda>(ms, q).
                  rbind (reject_duplicate_json_pairs E ms) (\<lambda>d. Inr (JDict d, q))))
          else if c = CHR ''['' then
            (if take 1 (skip_ws r) = '']'' then Inr (JList [], drop 1 (skip_ws r))
             else rbind (parse_elements E n (skip_ws r)) (\<lambda>(vs, q). Inr (JList vs, q)))
          else parse_literal E s)"
| "parse_elements E 0 s = Inl Halted"
| "parse_elements E (Suc n) s =
     rbind (parse_value E n s) (\<lambda>(v, r).
     case skip_ws r of [] \<Rightarrow> json_error ''Expecting comma delimiter''
     | c # q \<Rightarrow>
         if c = CHR '','' then
           rbind (parse_elements E n (skip_ws q)) (\<lambda>(vs, q'). Inr (v # vs, q'))
         else if c = CHR '']'' then Inr ([v], q)
         else json_error ''Expecting comma delimiter'')"
| "parse_members E 0 s = Inl Halted"
| "parse_members E (Suc n) s =
     (case s of [] \<Rightarrow> json_error ''Expecting property name enclosed in double quotes''
      | c # r \<Rightarrow>
          if c \<noteq> CHR 0x22 then json_error ''Expecting property name enclosed in double quotes''
          else
            rbind (scan_string r) (\<lambda>(k, r1).
            if take 1 (skip_ws r1) \<noteq> '':'' then json_error ''Expecting colon delimiter''
            else
              rbind (parse_value E n (skip_ws (drop 1 (skip_ws r1)))) (\<lambda>(v, r2).
              case skip_ws r2 of [] \<Rightarrow> json_error ''Expecting comma delimiter''
              | d # q \<Rightarrow>
                  if d = CHR '','' then
                    rbind (parse_members E n (skip_ws q)) (\<lambda>(ms, q'). Inr ((k, v) # ms, q'))
                  else if d = CHR ''}'' then Inr ([(k, v)], q)
                  else json_error ''Expecting comma delimiter'')))"

definition json_fuel :: "string \<Rightarrow> nat" where
  "json_fuel s = 2 * length s + 2"

definition json_loads :: "json_hooks \<Rightarrow> string \<Rightarrow> json res" where
  "json_loads E s =
     (if take 3 s = [CHR 0xEF, CHR 0xBB, CHR 0xBF] then json_error ''Unexpected UTF-8 BOM''
      else rbind (parse_value E (json_fuel s) (skip_ws s)) (\<lambda>(v, r).
           if skip_ws r = [] then Inr v else json_error ''Extra data''))"

section \<open>Strict decoding\<close>

fun in_range :: "nat \<Rightarrow> nat \<Rightarrow> nat \<Rightarrow> bool" where
  "in_range lo hi n \<longleftrightarrow> lo \<le> n \<and> n \<le> hi"

fun conts :: "nat \<Rightarrow> nat list \<Rightarrow> bool" where
  "conts k ns \<longleftrightarrow> k \<le> length ns \<and> list_all (in_range 128 191) (take k ns)"

text \<open>Well-formed UTF-8: no stray, overlong or surrogate sequence, no code point above U+10FFFF.\<close>

function utf8_valid :: "nat list \<Rightarrow> bool" where
  "utf8_valid [] \<longleftrightarrow> True"
| "utf8_valid (n # ns) \<longleftrightarrow>
     (if n < 128 then utf8_valid ns
      else if in_range 194 223 n then conts 1 ns \<and> utf8_valid (drop 1 ns)
      else if in_range 224 239 n then
        conts 2 ns \<and> (n = 224 \<longrightarrow> 160 \<le> hd ns) \<and> (n = 237 \<longrightarrow> hd ns \<le> 159) \<and> utf8_valid (drop 2 ns)
      else if in_range 240 244 n then
        conts 3 ns \<and> (n = 240 \<longrightarrow> 144 \<le> hd ns) \<and> (n = 244 \<longrightarrow> hd ns \<le> 143) \<and> utf8_valid (drop 3 ns)
      else False)"
  by pat_completeness auto
termination
  by (relation "measure length") auto

definition decode_utf8 :: "byte list \<Rightarrow> string option" where
  "decode_utf8 raw =
     (if utf8_valid (map unat raw) then Some (map (\<lambda>b. char_of (unat b)) raw) else None)"

fun has_surrogate :: "string \<Rightarrow> bool" where
  "has_surrogate (c # d # s) \<longleftrightarrow>
     ((of_char c :: nat) = 237 \<and> 160 \<le> (of_char d :: nat)) \<or> has_surrogate (d # s)"
| "has_surrogate _ \<longleftrightarrow> False"

fun reject_non_unicode_scalars :: "json_hooks \<Rightarrow> json \<Rightarrow> string \<Rightarrow> unit res"
  and reject_non_unicode_items :: "json_hooks \<Rightarrow> nat \<Rightarrow> json list \<Rightarrow> string \<Rightarrow> unit res"
  and reject_non_unicode_members :: "json_hooks \<Rightarrow> dict \<Rightarrow> string \<Rightarrow> unit res" where
  "reject_non_unicode_scalars E (JStr s) path =
     (if has_surrogate s
      then Inl (hook_error E (path @ '' contains a non-Unicode-scalar surrogate code point'')) else Inr ())"
| "reject_non_unicode_scalars E (JList vs) path = reject_non_unicode_items E 0 vs path"
| "reject_non_unicode_scalars E (JDict d) path = reject_non_unicode_members E d path"
| "reject_non_unicode_scalars E JNull path = Inr ()"
| "reject_non_unicode_scalars E (JBool b) path = Inr ()"
| "reject_non_unicode_scalars E (JInt i) path = Inr ()"
| "reject_non_unicode_items E i [] path = Inr ()"
| "reject_non_unicode_items E i (v # vs) path =
     rbind (reject_non_unicode_scalars E v (path @ ''['' @ dec i @ '']'')) (\<lambda>_.
     reject_non_unicode_items E (Suc i) vs path)"
| "reject_non_unicode_members E [] path = Inr ()"
| "reject_non_unicode_members E ((k, v) # d) path =
     (if has_surrogate k
      then Inl (hook_error E (path @ ''.<member> contains a non-Unicode-scalar surrogate code point''))
      else rbind (reject_non_unicode_scalars E v (path @ ''.'' @ k)) (\<lambda>_.
           reject_non_unicode_members E d path))"

definition decode_json_bytes :: "byte list \<Rightarrow> string \<Rightarrow> json res" where
  "decode_json_bytes raw path =
     (case decode_utf8 raw of
        None \<Rightarrow> Inl (DeploymentPlanError (path @ '' is not strict UTF-8 JSON''))
      | Some text \<Rightarrow>
          rbind (rmap_exn (\<lambda>e. case e of ValueError m \<Rightarrow>
                    DeploymentPlanError (''invalid JSON in '' @ path @ '': '' @ m) | _ \<Rightarrow> e)
                  (json_loads materializer_hooks text)) (\<lambda>v.
          rbind (reject_non_unicode_scalars materializer_hooks v path) (\<lambda>_. Inr v)))"

text \<open>The same decoder in the release builder.\<close>

definition load_json_text :: "string \<Rightarrow> string \<Rightarrow> json res" where
  "load_json_text text label =
     rbind (rmap_exn (\<lambda>e. case e of ValueError m \<Rightarrow>
               ReleaseBuildError (''invalid JSON in '' @ label @ '': '' @ m) | _ \<Rightarrow> e)
             (json_loads release_hooks text)) (\<lambda>v.
     rbind (reject_non_unicode_scalars release_hooks v label) (\<lambda>_. Inr v))"

definition load_json_bytes :: "byte list \<Rightarrow> string \<Rightarrow> json res" where
  "load_json_bytes raw path =
     (case decode_utf8 raw of
        None \<Rightarrow> Inl (ReleaseBuildError (path @ '' is not strict UTF-8 JSON''))
      | Some text \<Rightarrow> load_json_text text path)"

section \<open>Reading back what was printed\<close>

lemma put_chars_Inr [simp]: "put_chars p (Inr (s, r)) = Inr (p @ s, r)"
  by (simp add: put_chars_def)

declare scan_string.simps [simp del]

lemma char_consts:
  "char_of (34 :: nat) = CHR 0x22" "char_of (92 :: nat) = CHR 0x5C" "char_of (8 :: nat) = CHR 0x08"
  "char_of (9 :: nat) = CHR 0x09" "char_of (10 :: nat) = CHR 0x0A" "char_of (12 :: nat) = CHR 0x0C"
  "char_of (13 :: nat) = CHR 0x0D"
  by code_simp+

lemma nat_less_32:
  "(n :: nat) < 32 \<Longrightarrow> n \<in> {0,1,2,3,4,5,6,7,8,9,10,11,12,13,14,15,16,17,18,19,20,21,22,23,24,25,26,27,28,29,30,31}"
  by (simp add: numeral_eq_Suc less_Suc_eq)

lemma scan_string_control:
  assumes "(n :: nat) < 32"
  shows "scan_string (plain_escape (char_of n) @ t) = put_chars [char_of n] (scan_string t)"
  using nat_less_32[OF assms]
  by (elim insertE emptyE; simp add: plain_escape_def short_escape_def unicode_escape_def hex4_def
      scan_string.simps simple_escape_def read_unicode_def read_hex4_def is_hex_def digit_value_def
      digit_char.simps hex_value_def utf8_char_def char_consts)

lemma scan_string_escape: "scan_string (plain_escape c @ t) = put_chars [c] (scan_string t)"
proof (cases "(of_char c :: nat) < 32")
  case True
  then show ?thesis using scan_string_control[OF True, of t] by simp
next
  case False
  define n where "n = (of_char c :: nat)"
  have c: "c = char_of n" by (simp add: n_def)
  consider "n = 34" | "n = 92" | "n \<noteq> 34" "n \<noteq> 92" "32 \<le> n"
    using False n_def by fastforce
  then show ?thesis
  proof cases
    case 1
    then show ?thesis
      by (simp add: c plain_escape_def short_escape_def scan_string.simps simple_escape_def char_consts)
  next
    case 2
    then show ?thesis
      by (simp add: c plain_escape_def short_escape_def scan_string.simps simple_escape_def char_consts)
  next
    case 3
    then have "plain_escape c = [c]" "c \<noteq> CHR 0x22" "c \<noteq> CHR 0x5C" "\<not> (of_char c :: nat) < 32"
      by (auto simp: plain_escape_def short_escape_def n_def)
    then show ?thesis by (simp add: scan_string.simps)
  qed
qed

lemma scan_string_plain:
  "scan_string (concat (map plain_escape s) @ CHR 0x22 # rest) = Inr (s, rest)"
  by (induction s) (simp_all add: scan_string_escape scan_string.simps)


section \<open>Numbers\<close>

lemma is_digit_digit_char [simp]: "n < 10 \<Longrightarrow> is_digit (digit_char n)"
  by (simp add: is_digit_def digit_char.simps take_bit_nat_eq_self)

lemma dec_value_snoc [simp]: "dec_value (s @ [c]) = 10 * dec_value s + (of_char c - 48)"
  by (simp add: dec_value_def)

lemma of_char_digit_char: "n < 10 \<Longrightarrow> of_char (digit_char n) = 48 + n"
  by (simp add: digit_char.simps take_bit_nat_eq_self)

lemma int_of_char_digit_char: "n < 10 \<Longrightarrow> of_char (digit_char n) = 48 + int n"
  using of_char_digit_char[of n] by (metis of_nat_add of_nat_numeral of_nat_of_char)

lemma dec_value_dec [simp]: "dec_value (dec n) = int n"
proof (induction n rule: dec.induct)
  case (1 n)
  show ?case
  proof (cases "n < 10")
    case True
    then show ?thesis by (simp add: dec.simps[of n] dec_value_def int_of_char_digit_char)
  next
    case False
    then show ?thesis using 1 by (simp add: dec.simps[of n] int_of_char_digit_char zdiv_int zmod_int)
  qed
qed

lemma dec_digits: "list_all is_digit (dec n)"
proof (induction n rule: dec.induct)
  case (1 n)
  then show ?case by (simp add: dec.simps[of n])
qed

lemma dec_shape: "n = 0 \<and> dec n = ''0'' \<or> (\<exists>d ds. dec n = d # ds \<and> is_digit d \<and> d \<noteq> CHR ''0'')"
proof (induction n rule: dec.induct)
  case (1 n)
  show ?case
  proof (cases "n < 10")
    case True
    have "digit_char n \<noteq> CHR ''0''" if "n \<noteq> 0"
    proof
      assume "digit_char n = CHR ''0''"
      then have "of_char (digit_char n) = (48 :: nat)" by simp
      moreover have "of_char (digit_char n) = (48 + n :: nat)" using True by (rule of_char_digit_char)
      ultimately show False using that by simp
    qed
    moreover have "digit_char 0 = CHR ''0''" by code_simp
    ultimately show ?thesis using True by (cases "n = 0") (simp_all add: dec.simps[of n] dec.simps[of 0])
  next
    case False
    then show ?thesis using 1 by (auto simp: dec.simps[of n])
  qed
qed

text \<open>What may follow a value in a printed document.\<close>

definition ends_value :: "string \<Rightarrow> bool" where
  "ends_value rest \<longleftrightarrow> take 1 rest = '','' \<or> take 1 rest = [CHR 0x0A]"

lemma ends_value_cases:
  assumes "ends_value rest"
  obtains t where "rest = CHR '','' # t" | t where "rest = CHR 0x0A # t"
  using assms by (cases rest) (auto simp: ends_value_def)

lemma takeWhile_digits:
  "list_all is_digit s \<Longrightarrow> ends_value rest \<Longrightarrow> takeWhile is_digit (s @ rest) = s \<and> dropWhile is_digit (s @ rest) = rest"
  by (induction s) (auto elim!: ends_value_cases simp: is_digit_def)

lemma scan_fraction_end: "ends_value rest \<Longrightarrow> scan_fraction rest = ([], rest)"
  by (auto elim!: ends_value_cases simp: scan_fraction_def)

lemma scan_exponent_end: "ends_value rest \<Longrightarrow> scan_exponent rest = ([], rest)"
  by (auto elim!: ends_value_cases simp: scan_exponent_def)

lemma scan_digits:
  assumes "ends_value rest"
  shows "scan_sign (dec n @ rest) = ([], dec n @ rest)"
    and "(case dec n @ rest of [] \<Rightarrow> None
      | d # ds \<Rightarrow>
          if \<not> is_digit d then None
          else
            let (ints, r) = (if d = CHR ''0'' then ([d], ds)
                             else (takeWhile is_digit (dec n @ rest), dropWhile is_digit (dec n @ rest)));
                (frac, r') = scan_fraction r;
                (ex, r'') = scan_exponent r'
            in Some (sign @ ints @ frac @ ex, frac \<noteq> [] \<or> ex \<noteq> [], r'')) =
      Some (sign @ dec n, False, rest)"
proof -
  have d: "list_all is_digit (dec n)" by (rule dec_digits)
  have "dec n \<noteq> []" "\<not> is_digit (CHR ''-'')" using dec_shape[of n] by (auto simp: is_digit_def)
  then show "scan_sign (dec n @ rest) = ([], dec n @ rest)"
    using d by (cases "dec n") (auto simp: scan_sign_def)
  show "(case dec n @ rest of [] \<Rightarrow> None
      | d # ds \<Rightarrow>
          if \<not> is_digit d then None
          else
            let (ints, r) = (if d = CHR ''0'' then ([d], ds)
                             else (takeWhile is_digit (dec n @ rest), dropWhile is_digit (dec n @ rest)));
                (frac, r') = scan_fraction r;
                (ex, r'') = scan_exponent r'
            in Some (sign @ ints @ frac @ ex, frac \<noteq> [] \<or> ex \<noteq> [], r'')) =
      Some (sign @ dec n, False, rest)"
    using dec_shape[of n] takeWhile_digits[OF d assms] scan_fraction_end[OF assms]
      scan_exponent_end[OF assms]
    by (auto simp: is_digit_def)
qed

lemma scan_number_dec_int:
  assumes "ends_value rest"
  shows "scan_number (dec_int i @ rest) = Some (dec_int i, False, rest)"
proof (cases "i < 0")
  case True
  have "scan_sign (CHR ''-'' # s) = (''-'', s)" for s by (simp add: scan_sign_def)
  then show ?thesis
    using True scan_digits(2)[OF assms, of "nat (- i)" "''-''"]
    by (simp add: dec_int_def scan_number_def)
next
  case False
  then show ?thesis
    using scan_digits(1)[OF assms, of "nat i"] scan_digits(2)[OF assms, of "nat i" "[]"]
    by (simp add: dec_int_def scan_number_def)
qed

lemma int_of_token_dec_int [simp]: "int_of_token (dec_int i) = i"
proof (cases "i < 0")
  case True
  then show ?thesis by (simp add: dec_int_def int_of_token_def)
next
  case False
  obtain d ds where "dec (nat i) = d # ds" "is_digit d"
    using dec_shape[of "nat i"] by (auto simp: is_digit_def)
  moreover from this have "d \<noteq> CHR ''-''" by (auto simp: is_digit_def)
  ultimately show ?thesis
    using False dec_value_dec[of "nat i"] by (simp add: dec_int_def int_of_token_def)
qed


section \<open>Documents\<close>

fun fuel_of :: "json \<Rightarrow> nat" where
  "fuel_of (JList vs) = Suc (sum_list (map (\<lambda>v. Suc (fuel_of v)) vs))"
| "fuel_of (JDict d) = Suc (sum_list (map (\<lambda>(k, v). Suc (fuel_of v)) d))"
| "fuel_of _ = 1"

text \<open>Every number lies in the I-JSON range.\<close>

fun ijson :: "json \<Rightarrow> bool" where
  "ijson (JInt i) \<longleftrightarrow> \<bar>i\<bar> \<le> IJSON_SAFE_INTEGER_MAX"
| "ijson (JList vs) \<longleftrightarrow> list_all ijson vs"
| "ijson (JDict d) \<longleftrightarrow> list_all (\<lambda>(k, v). ijson v) d"
| "ijson _ \<longleftrightarrow> True"

definition refused :: "json_hooks \<Rightarrow> 'a res \<Rightarrow> bool" where
  "refused E r \<longleftrightarrow> (\<exists>m. r = Inl (hook_error E m))"

lemma refused_Inl [simp]: "refused E (Inl (hook_error E m))"
  by (auto simp: refused_def)

lemma refused_rbind [simp]: "refused E r \<Longrightarrow> refused E (rbind r f)"
  by (auto simp: refused_def)

text \<open>The outcome of reading back a printed value: the value, or a refusal of a number.\<close>

definition reads :: "json_hooks \<Rightarrow> bool \<Rightarrow> 'a res \<Rightarrow> 'a \<Rightarrow> bool" where
  "reads E safe r x \<longleftrightarrow> (if safe then r = Inr x else refused E r)"

lemma skip_ws_newline [simp]: "skip_ws (newline_indent k @ s) = skip_ws s"
  by (induction k) (simp_all add: skip_ws_def newline_indent_def is_ws_def dropWhile_append2)

lemma skip_ws_Cons [simp]: "\<not> is_ws c \<Longrightarrow> skip_ws (c # s) = c # s"
  by (simp add: skip_ws_def)

lemma skip_ws_space: "skip_ws (CHR '' '' # s) = skip_ws s"
  by (simp add: skip_ws_def is_ws_def)

lemma newline_indent_ends [simp]: "ends_value (newline_indent k @ s)"
  by (simp add: ends_value_def newline_indent_def)

lemma comma_ends [simp]: "ends_value (CHR '','' # s)"
  by (simp add: ends_value_def)

definition starts_value :: "string \<Rightarrow> bool" where
  "starts_value s \<longleftrightarrow> (\<exists>c t. s = c # t \<and> \<not> is_ws c \<and> c \<noteq> CHR ''}'' \<and> c \<noteq> CHR '']'' \<and> c \<noteq> CHR '','' \<and> c \<noteq> CHR 0xEF)"

lemma starts_value_append [simp]: "starts_value s \<Longrightarrow> starts_value (s @ t)"
  by (auto simp: starts_value_def)

lemma starts_value_skip [simp]: "starts_value s \<Longrightarrow> skip_ws s = s"
  by (auto simp: starts_value_def)

lemma starts_value_quote [simp]: "starts_value (CHR 0x22 # s)"
  by (simp add: starts_value_def is_ws_def)

lemma starts_value_digit: "is_digit d \<Longrightarrow> starts_value (d # s)"
  by (auto simp: starts_value_def is_ws_def is_digit_def)

lemma starts_value_dec_int: "starts_value (dec_int i)"
proof -
  have "starts_value (dec n)" for n
    using dec_shape[of n] starts_value_digit by (auto simp: is_digit_def)
  moreover have "starts_value (CHR ''-'' # s)" for s
    by (simp add: starts_value_def is_ws_def)
  ultimately show ?thesis by (simp add: dec_int_def)
qed

lemma starts_value_dumps [simp]: "starts_value (dumps_indent n v)"
proof (cases v)
  case (JInt i)
  then show ?thesis by (simp add: starts_value_dec_int)
qed (auto simp: quote_plain_def, auto simp: starts_value_def is_ws_def)

lemma starts_value_take: "starts_value s \<Longrightarrow> take 1 s \<noteq> ''}'' \<and> take 1 s \<noteq> '']''"
  by (auto simp: starts_value_def)

lemma parse_literal_int:
  assumes "ends_value rest"
  shows "reads E (\<bar>i\<bar> \<le> IJSON_SAFE_INTEGER_MAX) (parse_value E (Suc f) (dec_int i @ rest)) (JInt i, rest)"
proof -
  obtain c t where ct: "dec_int i = c # t" "c = CHR ''-'' \<or> is_digit c"
    using dec_shape[of "nat i"] by (cases "i < 0") (auto simp: dec_int_def is_digit_def)
  then have "c \<noteq> CHR 0x22" "c \<noteq> CHR ''{''" "c \<noteq> CHR ''[''" "c \<noteq> CHR ''n''" "c \<noteq> CHR ''t''" "c \<noteq> CHR ''f''"
    by (auto simp: is_digit_def)
  then have "parse_value E (Suc f) (dec_int i @ rest) =
      rbind (parse_ijson_integer E (dec_int i)) (\<lambda>i. Inr (JInt i, rest))"
    using ct scan_number_dec_int[OF assms, of i] by (auto simp: parse_literal_def)
  then show ?thesis by (auto simp: reads_def parse_ijson_integer_def)
qed

lemma parse_string:
  "parse_value E (Suc f) (quote_plain s @ rest) = Inr (JStr s, rest)"
  by (simp add: quote_plain_def scan_string_plain)

lemma parse_atoms:
  assumes "ends_value rest"
  shows "parse_value E (Suc f) (''null'' @ rest) = Inr (JNull, rest)"
    and "parse_value E (Suc f) (''true'' @ rest) = Inr (JBool True, rest)"
    and "parse_value E (Suc f) (''false'' @ rest) = Inr (JBool False, rest)"
  by (simp_all add: parse_literal_def numeral_eq_Suc)

text \<open>A value that reading its printed text gives back: numbers in range, no duplicate member.\<close>

definition faithful :: "json \<Rightarrow> bool" where
  "faithful v \<longleftrightarrow> ijson v \<and> wf_json v"

lemma faithful_simps [simp]:
  "faithful (JList vs) \<longleftrightarrow> list_all faithful vs"
  "faithful (JDict d) \<longleftrightarrow> distinct (map fst d) \<and> list_all (\<lambda>(k, v). faithful v) d"
  "faithful (JInt i) \<longleftrightarrow> ijson (JInt i)"
  "faithful (JStr s)" "faithful (JBool b)" "faithful JNull"
  by (auto simp: faithful_def list_all_iff)

text \<open>The elements of a printed list, given that every element can be read.\<close>

lemma parse_elements_dumps:
  assumes "\<And>v f rest. v \<in> set vs \<Longrightarrow> fuel_of v \<le> f \<Longrightarrow> ends_value rest \<Longrightarrow>
      reads E (faithful v) (parse_value E f (dumps_indent n v @ rest)) (v, rest)"
    and "vs \<noteq> []" and "sum_list (map (\<lambda>v. Suc (fuel_of v)) vs) \<le> f"
  shows "reads E (list_all faithful vs)
    (parse_elements E f (join ('','' @ newline_indent n) (map (dumps_indent n) vs) @
       newline_indent k @ '']'' @ rest)) (vs, rest)"
  using assms
proof (induction vs arbitrary: f)
  case Nil
  then show ?case by simp
next
  case (Cons v vs)
  obtain g where f: "f = Suc g" using Cons.prems(3) by (cases f) auto
  have g: "fuel_of v \<le> g" "sum_list (map (\<lambda>v. Suc (fuel_of v)) vs) \<le> g"
    using Cons.prems(3) f by auto
  show ?case
  proof (cases vs)
    case Nil
    have "reads E (faithful v) (parse_value E g (dumps_indent n v @ newline_indent k @ '']'' @ rest))
        (v, newline_indent k @ '']'' @ rest)"
      using Cons.prems(1) g by simp
    then show ?thesis using Nil f by (auto simp: reads_def is_ws_def split: if_splits)
  next
    case (Cons w ws)
    let ?tail = "join ('','' @ newline_indent n) (map (dumps_indent n) vs) @ newline_indent k @ '']'' @ rest"
    have "reads E (faithful v) (parse_value E g (dumps_indent n v @ '','' @ newline_indent n @ ?tail))
        (v, '','' @ newline_indent n @ ?tail)"
      using Cons.prems(1) g by simp
    moreover have "reads E (list_all faithful vs) (parse_elements E g ?tail) (vs, rest)"
      using Cons.IH Cons.prems g Cons by simp
    moreover have "starts_value ?tail"
      using Cons by (cases ws) auto
    ultimately show ?thesis
      using Cons f by (auto simp: reads_def is_ws_def split: if_splits)
  qed
qed

lemma starts_value_join:
  "vs \<noteq> [] \<Longrightarrow> (\<And>v. v \<in> set vs \<Longrightarrow> starts_value (f v)) \<Longrightarrow> starts_value (join sep (map f vs) @ t)"
  by (cases vs; cases "tl vs") auto

lemma parse_members_dumps:
  assumes "\<And>k v f rest. (k, v) \<in> set d \<Longrightarrow> fuel_of v \<le> f \<Longrightarrow> ends_value rest \<Longrightarrow>
      reads E (faithful v) (parse_value E f (dumps_indent n v @ rest)) (v, rest)"
    and "d \<noteq> []" and "sum_list (map (\<lambda>(k, v). Suc (fuel_of v)) d) \<le> f"
  shows "reads E (list_all (\<lambda>(k, v). faithful v) d)
    (parse_members E f (join ('','' @ newline_indent n)
         (map (\<lambda>(k, v). quote_plain k @ '': '' @ dumps_indent n v) d) @
       newline_indent l @ ''}'' @ rest)) (d, rest)"
  using assms
proof (induction d arbitrary: f)
  case Nil
  then show ?case by simp
next
  case (Cons p d)
  obtain k v where p: "p = (k, v)" by (cases p)
  obtain g where f: "f = Suc g" using Cons.prems(3) p by (cases f) auto
  have g: "fuel_of v \<le> g" "sum_list (map (\<lambda>(k, v). Suc (fuel_of v)) d) \<le> g"
    using Cons.prems(3) f p by auto
  have colon: "skip_ws (CHR '' '' # dumps_indent n v @ t) = dumps_indent n v @ t" for t
    by (simp add: skip_ws_space)
  show ?case
  proof (cases "d = []")
    case True
    have "reads E (faithful v) (parse_value E g (dumps_indent n v @ newline_indent l @ ''}'' @ rest))
        (v, newline_indent l @ ''}'' @ rest)"
      using Cons.prems(1)[of k v g] g p by simp
    then show ?thesis using True f p
      by (auto simp: reads_def is_ws_def quote_plain_def scan_string_plain colon split: if_splits)
  next
    case False
    let ?tail = "join ('','' @ newline_indent n)
      (map (\<lambda>(k, v). quote_plain k @ '': '' @ dumps_indent n v) d) @ newline_indent l @ ''}'' @ rest"
    have "reads E (faithful v) (parse_value E g (dumps_indent n v @ '','' @ newline_indent n @ ?tail))
        (v, '','' @ newline_indent n @ ?tail)"
      using Cons.prems(1)[of k v g] g p by simp
    moreover have "reads E (list_all (\<lambda>(k, v). faithful v) d) (parse_members E g ?tail) (d, rest)"
      by (rule Cons.IH[OF _ False g(2)]) (use Cons.prems(1) in auto)
    moreover have "starts_value ?tail"
      using False by (rule starts_value_join) (auto simp: quote_plain_def)
    moreover have "join sep (x # map h d) = x @ sep @ join sep (map h d)" for sep x and h :: "string \<times> json \<Rightarrow> string"
      using False by (cases d) auto
    ultimately show ?thesis
      using f p by (auto simp: reads_def is_ws_def quote_plain_def scan_string_plain colon split: if_splits)
  qed
qed

lemma reads_reject_duplicate_from:
  "distinct (map fst acc) \<Longrightarrow>
     reads E (distinct (map fst (acc @ d))) (reject_duplicate_json_pairs_from E acc d) (acc @ d)"
proof (induction d arbitrary: acc)
  case Nil
  then show ?case by (simp add: reads_def)
next
  case (Cons p d)
  obtain k v where p: "p = (k, v)" by (cases p)
  show ?case
  proof (cases "k \<in> set (map fst acc)")
    case True
    then show ?thesis using p by (auto simp: reads_def dmem_def)
  next
    case False
    then have "dset acc k v = acc @ [(k, v)]"
      unfolding dset_def by (induction acc) auto
    then show ?thesis using Cons.IH[of "acc @ [(k, v)]"] Cons.prems False p
      by (simp add: dmem_def)
  qed
qed

lemma reads_reject_duplicate: "reads E (distinct (map fst d)) (reject_duplicate_json_pairs E d) d"
  using reads_reject_duplicate_from[of "[]" E d] by (simp add: reject_duplicate_json_pairs_def)

lemma parse_value_dumps:
  assumes "fuel_of v \<le> f" and "ends_value rest"
  shows "reads E (faithful v) (parse_value E f (dumps_indent n v @ rest)) (v, rest)"
  using assms
proof (induction v arbitrary: n f rest)
  case (JList vs)
  then obtain g where f: "f = Suc g" by (cases f) auto
  show ?case
  proof (cases "vs = []")
    case True
    then show ?thesis using f by (simp add: reads_def is_ws_def)
  next
    case False
    define T where "T = join ('','' @ newline_indent (Suc n)) (map (dumps_indent (Suc n)) vs) @
         newline_indent n @ '']'' @ rest"
    have "reads E (list_all faithful vs) (parse_elements E g T) (vs, rest)"
      unfolding T_def
    proof (rule parse_elements_dumps[OF _ False])
      show "sum_list (map (\<lambda>v. Suc (fuel_of v)) vs) \<le> g" using JList.prems f by simp
    qed (use JList in \<open>auto simp: list_all_iff\<close>)
    moreover have "starts_value T"
      unfolding T_def using False by (rule starts_value_join) simp
    moreover have "dumps_indent n (JList vs) @ rest = CHR ''['' # newline_indent (Suc n) @ T"
      using False by (simp add: T_def)
    ultimately show ?thesis using f starts_value_take[of T] by (auto simp: reads_def)
  qed
next
  case (JDict d)
  then obtain g where f: "f = Suc g" by (cases f) auto
  show ?case
  proof (cases "d = []")
    case True
    then show ?thesis using f
      by (simp add: reads_def is_ws_def)
  next
    case False
    define T where "T = join ('','' @ newline_indent (Suc n))
           (map (\<lambda>(k, v). quote_plain k @ '': '' @ dumps_indent (Suc n) v) d) @
         newline_indent n @ ''}'' @ rest"
    have "reads E (list_all (\<lambda>(k, v). faithful v) d) (parse_members E g T) (d, rest)"
      unfolding T_def
    proof (rule parse_members_dumps[OF _ False])
      show "sum_list (map (\<lambda>(k, v). Suc (fuel_of v)) d) \<le> g" using JDict.prems f by simp
    qed (use JDict in \<open>fastforce simp: list_all_iff\<close>)
    moreover have "starts_value T"
      unfolding T_def using False by (rule starts_value_join) (auto simp: quote_plain_def)
    moreover have "reads E (distinct (map fst d)) (reject_duplicate_json_pairs E d) d"
      by (rule reads_reject_duplicate)
    moreover have "dumps_indent n (JDict d) @ rest = CHR ''{'' # newline_indent (Suc n) @ T"
      using False by (simp add: T_def)
    ultimately show ?thesis using f starts_value_take[of T]
      by (cases "list_all (\<lambda>(k, v). faithful v) d") (auto simp: reads_def)
  qed
next
  case (JInt i)
  then show ?case using parse_literal_int by (cases f) auto
next
  case (JStr s)
  then show ?case using parse_string by (cases f) (auto simp: reads_def)
next
  case JNull
  then show ?case using parse_atoms by (cases f) (auto simp: reads_def)
next
  case (JBool b)
  then show ?case using parse_atoms by (cases f) (auto simp: reads_def)
qed

lemma length_join:
  "length (join sep xs) + length sep \<ge> sum_list (map length xs) + length xs * length sep"
  by (induction sep xs rule: join.induct) auto

lemma dumps_indent_nonempty: "1 \<le> length (dumps_indent n v)"
  using starts_value_dumps[of n v] by (auto simp: starts_value_def)

lemma fuel_of_le: "fuel_of v \<le> 2 * length (dumps_indent n v)"
proof (induction v arbitrary: n)
  case (JList vs)
  have "sum_list (map (\<lambda>v. Suc (fuel_of v)) vs) \<le>
      sum_list (map (\<lambda>v. 1 + 2 * length (dumps_indent (Suc n) v)) vs)"
    using JList by (intro sum_list_mono) fastforce
  also have "\<dots> = length vs + 2 * sum_list (map (\<lambda>v. length (dumps_indent (Suc n) v)) vs)"
    by (induction vs) auto
  also have "\<dots> \<le> 2 * length (dumps_indent n (JList vs)) - 2"
    using length_join[where sep = "'','' @ newline_indent (Suc n)" and xs = "map (dumps_indent (Suc n)) vs"]
    by (cases vs) (auto simp: comp_def)
  finally show ?case using dumps_indent_nonempty[of n "JList vs"] by simp
next
  case (JDict d)
  let ?h = "\<lambda>(k, v). quote_plain k @ '': '' @ dumps_indent (Suc n) v"
  have "Suc (fuel_of v) \<le> 1 + 2 * length (?h (k, v))" if "(k, v) \<in> set d" for k v
    using JDict[of "(k, v)" v "Suc n"] that by auto
  then have "sum_list (map (\<lambda>(k, v). Suc (fuel_of v)) d) \<le>
      sum_list (map (\<lambda>p. 1 + 2 * length (?h p)) d)"
    by (intro sum_list_mono) auto
  also have "\<dots> = length d + 2 * sum_list (map (\<lambda>p. length (?h p)) d)"
    by (induction d) auto
  also have "\<dots> \<le> 2 * length (dumps_indent n (JDict d)) - 2"
    using length_join[where sep = "'','' @ newline_indent (Suc n)" and xs = "map ?h d"]
    by (cases d) (auto simp: comp_def)
  finally show ?case using dumps_indent_nonempty[of n "JDict d"] by simp
next
  case JNull
  then show ?case by simp
next
  case (JBool b)
  then show ?case by simp
next
  case (JInt i)
  then show ?case using dumps_indent_nonempty[of n "JInt i"] by simp
next
  case (JStr s)
  then show ?case using dumps_indent_nonempty[of n "JStr s"] by simp
qed

lemma json_loads_json_text: "reads E (faithful v) (json_loads E (json_text v)) v"
proof -
  have "reads E (faithful v) (parse_value E (json_fuel (json_text v)) (dumps_indent 0 v @ [CHR 0x0A]))
      (v, [CHR 0x0A])"
    using fuel_of_le[of v 0]
    by (intro parse_value_dumps) (auto simp: json_fuel_def json_text_def ends_value_def)
  moreover have "take 3 (json_text v) \<noteq> [CHR 0xEF, CHR 0xBB, CHR 0xBF]"
    using starts_value_dumps[of 0 v] by (auto simp: starts_value_def json_text_def numeral_3_eq_3)
  moreover have "skip_ws (json_text v) = json_text v"
    by (simp add: json_text_def)
  moreover have "skip_ws [CHR 0x0A] = []"
    by (simp add: skip_ws_def is_ws_def)
  ultimately show ?thesis
    by (auto simp: reads_def json_loads_def json_text_def)
qed

lemma decode_utf8_str_bytes:
  "decode_utf8 (str_bytes s) = (if utf8_valid (map of_char s) then Some s else None)"
proof -
  have "unat (of_nat (of_char c) :: byte) = of_char c" for c
    by (simp add: unat_of_nat take_bit_nat_eq_self)
  then show ?thesis by (simp add: decode_utf8_def str_bytes_def comp_def)
qed

text \<open>What is read back from a printed document is the document.\<close>

lemma decode_json_text_eq:
  assumes "decode_json_bytes (str_bytes (json_text v)) p = Inr w"
  shows "w = v \<and> faithful v \<and> utf8_valid (map of_char (json_text v))"
  using assms json_loads_json_text[of materializer_hooks v]
  by (cases "faithful v")
    (auto simp: decode_json_bytes_def decode_utf8_str_bytes reads_def refused_def
      materializer_hooks_def res_simps split: if_splits)

lemma decode_json_text:
  assumes "faithful v" and "utf8_valid (map of_char (json_text v))"
    and "reject_non_unicode_scalars materializer_hooks v p = Inr ()"
  shows "decode_json_bytes (str_bytes (json_text v)) p = Inr v"
  using assms json_loads_json_text[of materializer_hooks v]
  by (simp add: decode_json_bytes_def decode_utf8_str_bytes reads_def)

lemma put_chars_eq_Inr: "put_chars p r = Inr (s, q) \<longleftrightarrow> (\<exists>t. r = Inr (t, q) \<and> s = p @ t)"
  by (auto simp: put_chars_def rbind_eq_Inr)

lemma put_chars_eq_Inl [simp]: "put_chars p r = Inl e \<longleftrightarrow> r = Inl e"
  by (cases r) (auto simp: put_chars_def)

end
