(* ===== verification/Json_Grammar.thy ===== *)
theory Json_Grammar
  imports Json_Text
begin

text \<open>
  The grammar of the documents \<open>decode_json_bytes\<close> is for: RFC 8259 without floating-point
  numbers, without the constants the library adds to it, with integers in the I-JSON range,
  with distinct members and with strings of Unicode scalar values. The decoder accepts exactly
  these documents, whatever their layout, gives each the value the grammar gives it, and reports
  every other input with its own exception.
\<close>

section \<open>The grammar\<close>

definition json_space :: "string \<Rightarrow> bool" where
  "json_space s \<longleftrightarrow> set s \<subseteq> {CHR '' '', CHR 0x09, CHR 0x0A, CHR 0x0D}"

inductive integer_text :: "string \<Rightarrow> int \<Rightarrow> bool" where
  zero: "integer_text ''0'' 0"
| positive: "list_all is_digit (d # ds) \<Longrightarrow> d \<noteq> CHR ''0'' \<Longrightarrow> integer_text (d # ds) (dec_value (d # ds))"
| minus_zero: "integer_text ''-0'' 0"
| negative: "list_all is_digit (d # ds) \<Longrightarrow> d \<noteq> CHR ''0'' \<Longrightarrow>
    integer_text (CHR ''-'' # d # ds) (- dec_value (d # ds))"

definition ESCAPES :: "(char \<times> char) list" where
  "ESCAPES = [(CHR 0x22, CHR 0x22), (CHR 0x5C, CHR 0x5C), (CHR ''/'', CHR ''/''), (CHR ''b'', CHR 0x08),
     (CHR ''f'', CHR 0x0C), (CHR ''n'', CHR 0x0A), (CHR ''r'', CHR 0x0D), (CHR ''t'', CHR 0x09)]"

definition code_unit :: "string \<Rightarrow> nat \<Rightarrow> bool" where
  "code_unit h n \<longleftrightarrow> length h = 4 \<and> list_all is_hex h \<and> int n = hex_value h"

definition high_surrogate :: "nat \<Rightarrow> bool" where
  "high_surrogate n \<longleftrightarrow> 0xD800 \<le> n \<and> n \<le> 0xDBFF"

definition low_surrogate :: "nat \<Rightarrow> bool" where
  "low_surrogate n \<longleftrightarrow> 0xDC00 \<le> n \<and> n \<le> 0xDFFF"

definition low_follows :: "string \<Rightarrow> bool" where
  "low_follows b \<longleftrightarrow> (\<exists>h n t. b = CHR 0x5C # CHR ''u'' # h @ t \<and> code_unit h n \<and> low_surrogate n)"

text \<open>What stands between the quotes, and the text it denotes.\<close>

inductive string_body :: "string \<Rightarrow> string \<Rightarrow> bool" where
  nothing: "string_body [] []"
| plain: "32 \<le> (of_char c :: nat) \<Longrightarrow> c \<noteq> CHR 0x22 \<Longrightarrow> c \<noteq> CHR 0x5C \<Longrightarrow> string_body b s \<Longrightarrow>
    string_body (c # b) (c # s)"
| escape: "(e, d) \<in> set ESCAPES \<Longrightarrow> string_body b s \<Longrightarrow> string_body (CHR 0x5C # e # b) (d # s)"
| pair: "code_unit h m \<Longrightarrow> high_surrogate m \<Longrightarrow> code_unit l n \<Longrightarrow> low_surrogate n \<Longrightarrow> string_body b s \<Longrightarrow>
    string_body (CHR 0x5C # CHR ''u'' # h @ CHR 0x5C # CHR ''u'' # l @ b)
      (utf8_char (0x10000 + (m - 0xD800) * 0x400 + (n - 0xDC00)) @ s)"
| unit: "code_unit h n \<Longrightarrow> \<not> (high_surrogate n \<and> low_follows b) \<Longrightarrow> string_body b s \<Longrightarrow>
    string_body (CHR 0x5C # CHR ''u'' # h @ b) (utf8_char n @ s)"

text \<open>
  The values. The elements of a list and the members of an object include the white space
  around them.
\<close>

inductive denotes :: "string \<Rightarrow> json \<Rightarrow> bool"
  and elements :: "string \<Rightarrow> json list \<Rightarrow> bool"
  and members :: "string \<Rightarrow> dict \<Rightarrow> bool" where
  null: "denotes ''null'' JNull"
| true: "denotes ''true'' (JBool True)"
| false: "denotes ''false'' (JBool False)"
| integer: "integer_text t i \<Longrightarrow> \<bar>i\<bar> \<le> 9007199254740991 \<Longrightarrow> denotes t (JInt i)"
| str: "string_body b s \<Longrightarrow> denotes (CHR 0x22 # b @ [CHR 0x22]) (JStr s)"
| empty_list: "json_space a \<Longrightarrow> denotes (''['' @ a @ '']'') (JList [])"
| items: "json_space a \<Longrightarrow> elements t vs \<Longrightarrow> denotes (''['' @ a @ t @ '']'') (JList vs)"
| empty_object: "json_space a \<Longrightarrow> denotes (''{'' @ a @ ''}'') (JDict [])"
| object: "json_space a \<Longrightarrow> members t d \<Longrightarrow> distinct (map fst d) \<Longrightarrow> denotes (''{'' @ a @ t @ ''}'') (JDict d)"
| last_element: "denotes t v \<Longrightarrow> json_space a \<Longrightarrow> elements (t @ a) [v]"
| next_element: "denotes t v \<Longrightarrow> json_space a \<Longrightarrow> json_space b \<Longrightarrow> elements u vs \<Longrightarrow>
    elements (t @ a @ '','' @ b @ u) (v # vs)"
| last_member: "string_body q k \<Longrightarrow> json_space a \<Longrightarrow> json_space b \<Longrightarrow> denotes t v \<Longrightarrow> json_space c \<Longrightarrow>
    members (CHR 0x22 # q @ CHR 0x22 # a @ '':'' @ b @ t @ c) [(k, v)]"
| next_member: "string_body q k \<Longrightarrow> json_space a \<Longrightarrow> json_space b \<Longrightarrow> denotes t v \<Longrightarrow> json_space c \<Longrightarrow>
    json_space e \<Longrightarrow> members u d \<Longrightarrow>
    members (CHR 0x22 # q @ CHR 0x22 # a @ '':'' @ b @ t @ c @ '','' @ e @ u) ((k, v) # d)"

definition json_document :: "string \<Rightarrow> json \<Rightarrow> bool" where
  "json_document text v \<longleftrightarrow> (\<exists>a t b. text = a @ t @ b \<and> json_space a \<and> denotes t v \<and> json_space b)"

text \<open>Every string of a value, member names included, is a text of Unicode scalar values.\<close>

definition unicode :: "string \<Rightarrow> bool" where
  "unicode s \<longleftrightarrow> utf8_valid (map of_char s)"

fun unicode_json :: "json \<Rightarrow> bool" where
  "unicode_json (JStr s) \<longleftrightarrow> unicode s"
| "unicode_json (JList vs) \<longleftrightarrow> list_all unicode_json vs"
| "unicode_json (JDict d) \<longleftrightarrow> list_all (\<lambda>(k, v). unicode k \<and> unicode_json v) d"
| "unicode_json _ \<longleftrightarrow> True"

declare integer_text.intros [intro] string_body.intros [intro] denotes_elements_members.intros [intro]

section \<open>Strings\<close>

lemma json_space_simps [simp]:
  "json_space []"
  "json_space (c # s) \<longleftrightarrow> is_ws c \<and> json_space s"
  "json_space (s @ t) \<longleftrightarrow> json_space s \<and> json_space t"
proof -
  have space: "char_of (32 :: nat) = CHR '' ''" by code_simp
  have "c \<in> {CHR '' '', CHR 0x09, CHR 0x0A, CHR 0x0D} \<longleftrightarrow> is_ws c" for c
  proof
    assume ws: "is_ws c"
    define n where "n = (of_char c :: nat)"
    have "c = char_of n" by (simp add: n_def)
    moreover have "n \<in> {32, 9, 10, 13}" using ws by (auto simp: is_ws_def n_def)
    ultimately show "c \<in> {CHR '' '', CHR 0x09, CHR 0x0A, CHR 0x0D}" by (auto simp: char_consts space)
  qed (auto simp: is_ws_def)
  then show "json_space []" "json_space (c # s) \<longleftrightarrow> is_ws c \<and> json_space s"
    "json_space (s @ t) \<longleftrightarrow> json_space s \<and> json_space t" by (auto simp: json_space_def)
qed

lemma skip_space [simp]: "json_space a \<Longrightarrow> skip_ws (a @ s) = skip_ws s"
  by (induction a) (simp_all add: skip_ws_def)

lemma skip_ws_space_only: "skip_ws s = [] \<longleftrightarrow> json_space s"
  by (induction s) (simp_all add: skip_ws_def)

lemma skip_wsE:
  obtains a where "s = a @ skip_ws s" and "json_space a"
proof
  show "s = takeWhile is_ws s @ skip_ws s" by (simp add: skip_ws_def)
  show "json_space (takeWhile is_ws s)" by (induction s) simp_all
qed

lemma escape_iff: "simple_escape e = Some d \<longleftrightarrow> (e, d) \<in> set ESCAPES"
  by (auto simp: simple_escape_def ESCAPES_def)

lemma code_unit_nat: "code_unit h n \<longleftrightarrow> length h = 4 \<and> list_all is_hex h \<and> nat (hex_value h) = n"
  by (auto simp: code_unit_def)

lemma read_hex4_iff: "read_hex4 s = Some n \<longleftrightarrow> (\<exists>h t. s = h @ t \<and> code_unit h n)"
proof
  assume "read_hex4 s = Some n"
  then have "s = take 4 s @ drop 4 s \<and> code_unit (take 4 s) n"
    by (auto simp: read_hex4_def code_unit_nat split: if_splits)
  then show "\<exists>h t. s = h @ t \<and> code_unit h n" by blast
qed (auto simp: read_hex4_def code_unit_nat)

lemma read_unicode_pair:
  "code_unit h m \<Longrightarrow> high_surrogate m \<Longrightarrow> code_unit l n \<Longrightarrow> low_surrogate n \<Longrightarrow>
     read_unicode (h @ CHR 0x5C # CHR ''u'' # l @ t) = Some (0x10000 + (m - 0xD800) * 0x400 + (n - 0xDC00), 10)"
  by (simp add: read_unicode_def read_hex4_def code_unit_nat high_surrogate_def low_surrogate_def)

lemma read_unicode_cases:
  assumes "read_unicode s = Some (n, k)"
  obtains (pair) h m l low t where "s = h @ CHR 0x5C # CHR ''u'' # l @ t" "code_unit h m" "high_surrogate m"
      "code_unit l low" "low_surrogate low" "n = 0x10000 + (m - 0xD800) * 0x400 + (low - 0xDC00)" "drop k s = t"
  | (unit) h t where "s = h @ t" "code_unit h n" "drop k s = t" "\<not> (high_surrogate n \<and> low_follows t)"
proof -
  obtain u where u: "read_hex4 s = Some u" using assms by (auto simp: read_unicode_def split: option.splits)
  then obtain h t where s: "s = h @ t" and h: "code_unit h u" unfolding read_hex4_iff by blast
  have l: "length h = 4" using h by (simp add: code_unit_def)
  show thesis
  proof (cases "high_surrogate u \<and> low_follows t")
    case True
    then obtain g low r where t: "t = CHR 0x5C # CHR ''u'' # g @ r" and g: "code_unit g low" "low_surrogate low"
      unfolding low_follows_def by blast
    then show thesis
      using assms read_unicode_pair[OF h _ g, of r] True s pair[of h g r u low] h g l by (auto simp: code_unit_def)
  next
    case False
    have "n = u \<and> k = 4"
    proof (cases "high_surrogate u \<and> take 2 t = [CHR 0x5C, CHR ''u'']")
      case True
      then have t: "t = CHR 0x5C # CHR ''u'' # drop 2 t" by (metis append_Cons append_Nil append_take_drop_id)
      obtain low where low: "read_hex4 (drop 2 t) = Some low"
        using assms True u by (auto simp: read_unicode_def s l high_surrogate_def split: option.splits)
      then obtain g r where "drop 2 t = g @ r" "code_unit g low" unfolding read_hex4_iff by blast
      then have "\<not> low_surrogate low" using False True t unfolding low_follows_def by metis
      then show ?thesis
        using assms True u low by (auto simp: read_unicode_def s l high_surrogate_def low_surrogate_def split: if_splits)
    next
      case False
      then show ?thesis using assms u by (auto simp: read_unicode_def s l high_surrogate_def split: if_splits)
    qed
    then show thesis using unit[OF s] h l False by (simp add: s)
  qed
qed

lemma low_follows_append: "low_follows b \<Longrightarrow> low_follows (b @ t)"
  unfolding low_follows_def by (metis append_Cons append_assoc)

lemma scan_string_sound: "scan_string t = Inr (s, r) \<Longrightarrow> \<exists>b. t = b @ CHR 0x22 # r \<and> string_body b s"
proof (induction t arbitrary: s rule: length_induct)
  case (1 t)
  have ih: "\<exists>b. u = b @ CHR 0x22 # r \<and> string_body b s'" if "length u < length t" "scan_string u = Inr (s', r)" for u s'
    using 1(1) that by blast
  obtain c q where t: "t = c # q" using 1(2) by (cases t) (auto simp: scan_string.simps json_error_def)
  consider "c = CHR 0x22" | "c = CHR 0x5C" | "c \<noteq> CHR 0x22" "c \<noteq> CHR 0x5C" by blast
  then show ?case
  proof cases
    case 1
    then show ?thesis using \<open>scan_string t = _\<close> by (auto simp: t scan_string.simps(2))
  next
    case 2
    then obtain e q' where q: "q = e # q'"
      using \<open>scan_string t = _\<close> by (cases q) (auto simp: t scan_string.simps(2) json_error_def)
    show ?thesis
    proof (cases "e = CHR ''u''")
      case True
      then obtain n k s' where k: "read_unicode q' = Some (n, k)" and s: "scan_string (drop k q') = Inr (s', r)" "s = utf8_char n @ s'"
        using \<open>scan_string t = _\<close> 2
        by (auto simp: t q scan_string.simps(2) json_error_def put_chars_eq_Inr split: option.splits)
      have less: "length (drop k q') < length t" by (simp add: t q)
      obtain b where b: "drop k q' = b @ CHR 0x22 # r" "string_body b s'"
        using ih[OF less s(1)] by blast
      from k show ?thesis
      proof (cases rule: read_unicode_cases)
        case (pair h m l low u)
        then have "string_body (CHR 0x5C # CHR ''u'' # h @ CHR 0x5C # CHR ''u'' # l @ b) s"
          unfolding s(2) pair(6) by (intro string_body.pair b(2))
        then show ?thesis using pair b(1) 2 True by (intro exI[of _ "CHR 0x5C # CHR ''u'' # h @ CHR 0x5C # CHR ''u'' # l @ b"]) (simp add: t q)
      next
        case (unit h u)
        have "low_follows u" if "low_follows b"
          using low_follows_append[OF that, of "CHR 0x22 # r"] unit(3) b(1) by simp
        then have "string_body (CHR 0x5C # CHR ''u'' # h @ b) s"
          unfolding s(2) using unit by (intro string_body.unit b(2)) auto
        then show ?thesis using unit b(1) 2 True by (intro exI[of _ "CHR 0x5C # CHR ''u'' # h @ b"]) (simp add: t q)
      qed
    next
      case False
      then obtain d s' where d: "simple_escape e = Some d" and s: "scan_string q' = Inr (s', r)" "s = d # s'"
        using \<open>scan_string t = _\<close> 2
        by (auto simp: t q scan_string.simps(2) json_error_def put_chars_eq_Inr split: option.splits)
      obtain b where b: "q' = b @ CHR 0x22 # r" "string_body b s'" using ih[OF _ s(1)] by (auto simp: t q)
      have "string_body (CHR 0x5C # e # b) s" using d b(2) by (auto simp: escape_iff s(2))
      then show ?thesis using b(1) 2 by (intro exI[of _ "CHR 0x5C # e # b"]) (simp add: t q)
    qed
  next
    case 3
    then obtain s' where c: "32 \<le> (of_char c :: nat)" and s: "scan_string q = Inr (s', r)" "s = c # s'"
      using \<open>scan_string t = _\<close> by (auto simp: t scan_string.simps(2) json_error_def put_chars_eq_Inr split: if_splits)
    obtain b where "q = b @ CHR 0x22 # r" "string_body b s'" using ih[OF _ s(1)] by (auto simp: t)
    then show ?thesis using 3 c by (intro exI[of _ "c # b"]) (auto simp: t s(2))
  qed
qed

lemma body_after_unicode:
  "string_body (CHR 0x5C # CHR ''u'' # b) s \<Longrightarrow> \<exists>h n t. b = h @ t \<and> code_unit h n"
  by (erule string_body.cases) (auto simp: ESCAPES_def)

lemma scan_string_complete: "string_body b s \<Longrightarrow> scan_string (b @ CHR 0x22 # r) = Inr (s, r)"
proof (induction rule: string_body.induct)
  case (escape e d b s)
  then show ?case by (auto simp: scan_string.simps(2) ESCAPES_def simple_escape_def)
next
  case (pair h m l n b s)
  have "length h = 4" "length l = 4" using pair by (simp_all add: code_unit_def)
  then show ?case
    using pair read_unicode_pair[OF pair(1-4), of "b @ CHR 0x22 # r"] by (simp add: scan_string.simps(2))
next
  case (unit h n b s)
  have l: "length h = 4" using unit by (simp add: code_unit_def)
  have "read_unicode (h @ b @ CHR 0x22 # r) = Some (n, 4)"
  proof (cases "high_surrogate n \<and> take 2 (b @ CHR 0x22 # r) = [CHR 0x5C, CHR ''u'']")
    case True
    then obtain q where q: "b = CHR 0x5C # CHR ''u'' # q" by (cases b; cases "tl b") auto
    obtain g low t where g: "q = g @ t" "code_unit g low" using body_after_unicode unit(3) unfolding q by blast
    then have "\<not> low_surrogate low" using unit(2) True by (auto simp: low_follows_def q)
    then show ?thesis using True unit(1) g
      by (auto simp: read_unicode_def read_hex4_def code_unit_nat high_surrogate_def low_surrogate_def q)
  next
    case False
    then show ?thesis using unit(1) by (auto simp: read_unicode_def read_hex4_def code_unit_nat high_surrogate_def)
  qed
  then show ?case using unit l by (simp add: scan_string.simps(2))
qed (simp_all add: scan_string.simps)

section \<open>Numbers\<close>

text \<open>What can follow a value in a document.\<close>

definition stops :: "string \<Rightarrow> bool" where
  "stops r \<longleftrightarrow> (case r of [] \<Rightarrow> True | c # _ \<Rightarrow> is_ws c \<or> c = CHR '','' \<or> c = CHR '']'' \<or> c = CHR ''}'')"

lemma stopsE:
  assumes "stops r"
  obtains "r = []" | c q where "r = c # q" "\<not> is_digit c" "c \<noteq> CHR ''.''" "c \<noteq> CHR ''e''" "c \<noteq> CHR ''E''"
proof (cases r)
  case (Cons c q)
  then have "\<not> is_digit c \<and> c \<noteq> CHR ''.'' \<and> c \<noteq> CHR ''e'' \<and> c \<noteq> CHR ''E''"
    using assms by (auto simp: stops_def is_ws_def is_digit_def Let_def)
  then show thesis using that(2)[OF Cons] by blast
qed (rule that(1))

lemma stops_simps [simp]:
  "stops []" "stops (CHR '','' # r)" "stops (CHR '']'' # r)" "stops (CHR ''}'' # r)"
  "is_ws c \<Longrightarrow> stops (c # r)"
  by (simp_all add: stops_def)

lemma stops_space: "json_space a \<Longrightarrow> stops r \<Longrightarrow> stops (a @ r)"
  by (cases a) simp_all

lemma no_fraction: "stops r \<Longrightarrow> scan_fraction r = ([], r) \<and> scan_exponent r = ([], r)"
  by (erule stopsE) (auto simp: scan_fraction_def scan_exponent_def)

lemma digits_then: "list_all is_digit s \<Longrightarrow> stops r \<Longrightarrow> takeWhile is_digit (s @ r) = s \<and> dropWhile is_digit (s @ r) = r"
  by (induction s) (auto elim!: stopsE)

lemma not_sign: "is_digit d \<Longrightarrow> d \<noteq> CHR ''-''"
  by (auto simp: is_digit_def)

lemma scan_number_complete:
  assumes "integer_text t i" and "stops r"
  shows "scan_number (t @ r) = Some (t, False, r) \<and> int_of_token t = i"
  using assms(1)
proof cases
  case (positive d ds)
  then show ?thesis using digits_then[OF positive(3) assms(2)] not_sign[of d]
    by (simp add: scan_number_def scan_sign_def no_fraction[OF assms(2)] int_of_token_def)
next
  case (negative d ds)
  then show ?thesis using digits_then[OF negative(3) assms(2)]
    by (simp add: scan_number_def scan_sign_def no_fraction[OF assms(2)] int_of_token_def)
qed (simp_all add: scan_number_def scan_sign_def no_fraction[OF assms(2)] int_of_token_def dec_value_def is_digit_def)

lemma unsigned_sound:
  assumes "is_digit d"
    and "(ints, r) = (if d = CHR ''0'' then ([d], ds) else (takeWhile is_digit (d # ds), dropWhile is_digit (d # ds)))"
  shows "d # ds = ints @ r \<and> integer_text ints (dec_value ints) \<and> integer_text (CHR ''-'' # ints) (- dec_value ints)"
proof (cases "d = CHR ''0''")
  case True
  have "dec_value ''0'' = 0" by (simp add: dec_value_def)
  then show ?thesis using assms True integer_text.zero integer_text.minus_zero by simp
next
  case False
  have "list_all is_digit (d # takeWhile is_digit ds)" using assms(1) by (simp add: list_all_iff) (meson set_takeWhileD)
  then show ?thesis using assms False integer_text.positive integer_text.negative by simp
qed

lemma scan_number_sound:
  assumes "scan_number s = Some (t, False, r)"
  shows "s = t @ r \<and> integer_text t (int_of_token t)"
proof -
  obtain sign u where su: "scan_sign s = (sign, u)" by (cases "scan_sign s")
  obtain d ds where u: "u = d # ds" "is_digit d"
    using assms by (auto simp: scan_number_def su split: list.splits if_splits)
  obtain ints q where i: "(ints, q) = (if d = CHR ''0'' then ([d], ds) else (takeWhile is_digit u, dropWhile is_digit u))"
    by (metis surj_pair)
  have t: "t = sign @ ints" and r: "r = q"
    using assms i by (auto simp: scan_number_def su u scan_fraction_def scan_exponent_def Let_def split: prod.splits if_splits)
  have k: "u = ints @ q" "integer_text ints (dec_value ints)" "integer_text (CHR ''-'' # ints) (- dec_value ints)"
    using unsigned_sound[OF u(2) i[unfolded u(1)]] u(1) by simp_all
  have ints: "ints \<noteq> []" "hd ints = d" using i u by (auto split: if_splits)
  consider "sign = []" "s = u" | "sign = ''-''" "s = CHR ''-'' # u"
    using su by (cases s) (auto simp: scan_sign_def split: if_splits)
  then show ?thesis
  proof cases
    case 1
    then show ?thesis using k ints t r not_sign[OF u(2)] by (cases ints) (auto simp: int_of_token_def)
  next
    case 2
    then show ?thesis using k t r by (simp add: int_of_token_def)
  qed
qed

section \<open>What the decoder accepts is a document\<close>

lemma distinct_pairs: "reject_duplicate_json_pairs E ms = Inr d \<longleftrightarrow> d = ms \<and> distinct (map fst ms)"
  using reads_reject_duplicate[of E ms] by (auto simp: reads_def refused_def split: if_splits)

lemma take_drop_eq: "take n s = t \<Longrightarrow> s = t @ drop n s"
  by (metis append_take_drop_id)

lemma parse_literal_sound:
  assumes "parse_literal E s = Inr (v, r)"
  shows "\<exists>t. s = t @ r \<and> denotes t v"
proof -
  consider (word) "v = JNull \<and> s = ''null'' @ r \<or> v = JBool True \<and> s = ''true'' @ r \<or> v = JBool False \<and> s = ''false'' @ r"
    | (number) t where "scan_number s = Some (t, False, r)" "v = JInt (int_of_token t)" "\<bar>int_of_token t\<bar> \<le> IJSON_SAFE_INTEGER_MAX"
    using assms take_drop_eq[of 4 s "''null''"] take_drop_eq[of 4 s "''true''"] take_drop_eq[of 5 s "''false''"]
    by (auto simp: parse_literal_def reject_json_float_def reject_json_constant_def parse_ijson_integer_def json_error_def
        rbind_eq_Inr Let_def split: if_splits option.splits)
  then show ?thesis
  proof cases
    case word
    then show ?thesis by blast
  next
    case number
    then show ?thesis using scan_number_sound[OF number(1)] by (auto simp: IJSON_SAFE_INTEGER_MAX_def)
  qed
qed

lemma take_one: "take 1 s = [c] \<Longrightarrow> s = c # drop 1 s"
  by (cases s) auto

lemma parse_sound:
  "parse_value E n s = Inr (v, r) \<Longrightarrow> \<exists>t. s = t @ r \<and> denotes t v"
  "parse_elements E n s = Inr (vs, r) \<Longrightarrow> \<exists>t. s = t @ '']'' @ r \<and> elements t vs"
  "parse_members E n s = Inr (d, r) \<Longrightarrow> \<exists>t. s = t @ ''}'' @ r \<and> members t d"
proof (induction n arbitrary: s v vs d r)
  case (Suc n)
  {
    case 1
    then obtain c q where s: "s = c # q" by (cases s) (auto simp: json_error_def)
    obtain a where a: "q = a @ skip_ws q" "json_space a" by (rule skip_wsE)
    consider (string) "c = CHR 0x22" | (object) "c = CHR ''{''" | (list) "c = CHR ''[''"
      | (literal) "c \<noteq> CHR 0x22" "c \<noteq> CHR ''{''" "c \<noteq> CHR ''[''" by blast
    then show ?case
    proof cases
      case string
      then obtain u where "scan_string q = Inr (u, r)" "v = JStr u" using 1 by (auto simp: s rbind_eq_Inr)
      with scan_string_sound obtain b where b: "q = b @ CHR 0x22 # r" "string_body b u" by blast
      show ?thesis
        by (rule exI[of _ "CHR 0x22 # b @ [CHR 0x22]"]) (use b string \<open>v = _\<close> in \<open>auto simp: s\<close>)
    next
      case object
      show ?thesis
      proof (cases "take 1 (skip_ws q) = ''}''")
        case True
        then have "v = JDict []" "r = drop 1 (skip_ws q)" using 1 object by (auto simp: s)
        then have "s = (''{'' @ a @ ''}'') @ r" using a(1) take_one[OF True] object by (simp add: s)
        then show ?thesis using \<open>v = _\<close> a(2) by blast
      next
        case False
        then obtain ms where ms: "parse_members E n (skip_ws q) = Inr (ms, r)" "v = JDict ms" "distinct (map fst ms)"
          using 1 object by (auto simp: s rbind_eq_Inr distinct_pairs)
        obtain t where t: "skip_ws q = t @ ''}'' @ r" "members t ms" using Suc.IH(3)[OF ms(1)] by blast
        have "s = (''{'' @ a @ t @ ''}'') @ r" using a(1) t(1) object by (simp add: s)
        then show ?thesis using ms a(2) t(2) by blast
      qed
    next
      case list
      show ?thesis
      proof (cases "take 1 (skip_ws q) = '']''")
        case True
        then have "v = JList []" "r = drop 1 (skip_ws q)" using 1 list by (auto simp: s)
        then have "s = (''['' @ a @ '']'') @ r" using a(1) take_one[OF True] list by (simp add: s)
        then show ?thesis using \<open>v = _\<close> a(2) by blast
      next
        case False
        then obtain us where us: "parse_elements E n (skip_ws q) = Inr (us, r)" "v = JList us"
          using 1 list by (auto simp: s rbind_eq_Inr)
        obtain t where t: "skip_ws q = t @ '']'' @ r" "elements t us" using Suc.IH(2)[OF us(1)] by blast
        have "s = (''['' @ a @ t @ '']'') @ r" using a(1) t(1) list by (simp add: s)
        then show ?thesis using us a(2) t(2) by blast
      qed
    next
      case literal
      then show ?thesis using 1 by (intro parse_literal_sound) (simp add: s)
    qed
  }
  {
    case 2
    then obtain v q where v: "parse_value E n s = Inr (v, q)"
      and q: "(case skip_ws q of [] \<Rightarrow> json_error ''Expecting comma delimiter''
         | c # q \<Rightarrow>
             if c = CHR '','' then rbind (parse_elements E n (skip_ws q)) (\<lambda>(vs, q'). Inr (v # vs, q'))
             else if c = CHR '']'' then Inr ([v], q)
             else json_error ''Expecting comma delimiter'') = Inr (vs, r)"
      by (auto simp: rbind_eq_Inr)
    obtain t where t: "s = t @ q" "denotes t v" using Suc.IH(1)[OF v] by blast
    obtain a where a: "q = a @ skip_ws q" "json_space a" by (rule skip_wsE)
    from q obtain c u where c: "skip_ws q = c # u" by (cases "skip_ws q") (auto simp: json_error_def)
    show ?case
    proof (cases "c = CHR '',''")
      case True
      then obtain us where us: "parse_elements E n (skip_ws u) = Inr (us, r)" "vs = v # us"
        using q by (auto simp: c rbind_eq_Inr)
      obtain b where b: "u = b @ skip_ws u" "json_space b" by (rule skip_wsE)
      obtain x where x: "skip_ws u = x @ '']'' @ r" "elements x us" using Suc.IH(2)[OF us(1)] by blast
      have "s = (t @ a @ '','' @ b @ x) @ '']'' @ r" using t(1) a(1) b(1) c x(1) True by simp
      then show ?thesis using t(2) a(2) b(2) x(2) us(2) by blast
    next
      case False
      then have e: "c = CHR '']''" "vs = [v]" "r = u" using q by (auto simp: c json_error_def split: if_splits)
      have "s = (t @ a) @ '']'' @ r" using t(1) a(1) c e by simp
      then show ?thesis using t(2) a(2) e(2) by blast
    qed
  }
  {
    case 3
    then obtain c q where s: "s = c # q" by (cases s) (auto simp: json_error_def)
    have c: "c = CHR 0x22" using 3 by (auto simp: s json_error_def split: if_splits)
    define finish where "finish k v u = (case skip_ws u of [] \<Rightarrow> json_error ''Expecting comma delimiter''
              | d # q \<Rightarrow>
                  if d = CHR '','' then rbind (parse_members E n (skip_ws q)) (\<lambda>(ms, q'). Inr ((k, v) # ms, q'))
                  else if d = CHR ''}'' then Inr ([(k, v)], q)
                  else json_error ''Expecting comma delimiter'')" for k v u
    obtain k q1 v u where k: "scan_string q = Inr (k, q1)" and colon: "take 1 (skip_ws q1) = '':''"
      and v: "parse_value E n (skip_ws (drop 1 (skip_ws q1))) = Inr (v, u)" and f: "finish k v u = Inr (d, r)"
      using 3 by (auto simp: s c rbind_eq_Inr finish_def json_error_def split: if_splits)
    obtain b where b: "q = b @ CHR 0x22 # q1" "string_body b k" using scan_string_sound[OF k] by blast
    obtain a where a: "q1 = a @ skip_ws q1" "json_space a" by (rule skip_wsE)
    obtain a' where a': "drop 1 (skip_ws q1) = a' @ skip_ws (drop 1 (skip_ws q1))" "json_space a'" by (rule skip_wsE)
    obtain t where t: "skip_ws (drop 1 (skip_ws q1)) = t @ u" "denotes t v" using Suc.IH(1)[OF v] by blast
    obtain e where e: "u = e @ skip_ws u" "json_space e" by (rule skip_wsE)
    have front: "s = CHR 0x22 # b @ CHR 0x22 # a @ '':'' @ a' @ t @ e @ skip_ws u"
      using s c b(1) a(1) take_one[OF colon] a'(1) t(1) e(1) by (metis append_Cons append_Nil append_assoc)
    obtain x y where x: "skip_ws u = x # y" using f by (cases "skip_ws u") (auto simp: finish_def json_error_def)
    show ?case
    proof (cases "x = CHR '',''")
      case True
      then obtain ms where ms: "parse_members E n (skip_ws y) = Inr (ms, r)" "d = (k, v) # ms"
        using f by (auto simp: x finish_def rbind_eq_Inr)
      obtain g where g: "y = g @ skip_ws y" "json_space g" by (rule skip_wsE)
      obtain z where z: "skip_ws y = z @ ''}'' @ r" "members z ms" using Suc.IH(3)[OF ms(1)] by blast
      have "s = (CHR 0x22 # b @ CHR 0x22 # a @ '':'' @ a' @ t @ e @ '','' @ g @ z) @ ''}'' @ r"
        using front x True g(1) z(1) by simp
      then show ?thesis using next_member[OF b(2) a(2) a'(2) t(2) e(2) g(2) z(2)] ms(2) by blast
    next
      case False
      then have e': "x = CHR ''}''" "d = [(k, v)]" "r = y" using f by (auto simp: x finish_def json_error_def split: if_splits)
      have "s = (CHR 0x22 # b @ CHR 0x22 # a @ '':'' @ a' @ t @ e) @ ''}'' @ r" using front x e' by simp
      then show ?thesis using last_member[OF b(2) a(2) a'(2) t(2) e(2)] e'(2) by blast
    qed
  }
qed simp_all

section \<open>Every document is accepted\<close>

lemma starts_integer: "integer_text t i \<Longrightarrow> starts_value t"
  by (erule integer_text.cases) (auto simp: starts_value_digit, auto simp: starts_value_def is_ws_def)

lemma starts_text:
  "denotes t v \<Longrightarrow> starts_value t" "elements t vs \<Longrightarrow> starts_value t" "members t d \<Longrightarrow> starts_value t"
  by (induction rule: denotes_elements_members.inducts) (auto simp: starts_integer, auto simp: starts_value_def is_ws_def)

lemma integer_start:
  "integer_text t i \<Longrightarrow> \<exists>c q. t = c # q \<and> c \<notin> set [CHR 0x22, CHR ''{'', CHR ''['', CHR ''n'', CHR ''t'', CHR ''f'']"
  by (erule integer_text.cases) (auto simp: is_digit_def)

lemma parse_integer_complete:
  assumes "integer_text t i" "\<bar>i\<bar> \<le> 9007199254740991" "stops r"
  shows "parse_value E (Suc n) (t @ r) = Inr (JInt i, r)"
proof -
  obtain c q where t: "t = c # q" "c \<notin> set [CHR 0x22, CHR ''{'', CHR ''['', CHR ''n'', CHR ''t'', CHR ''f'']"
    using integer_start[OF assms(1)] by blast
  then have "parse_value E (Suc n) (t @ r) = rbind (parse_ijson_integer E t) (\<lambda>i. Inr (JInt i, r))"
    using scan_number_complete[OF assms(1,3)] by (auto simp: parse_literal_def)
  then show ?thesis
    using scan_number_complete[OF assms(1,3)] assms(2) by (simp add: parse_ijson_integer_def IJSON_SAFE_INTEGER_MAX_def Let_def)
qed

lemma parse_complete:
  "denotes t v \<Longrightarrow> stops r \<Longrightarrow> 2 * length (t @ r) < n \<Longrightarrow> parse_value E n (t @ r) = Inr (v, r)"
  "elements t vs \<Longrightarrow> 2 * length (t @ '']'' @ r) + 1 < n \<Longrightarrow> parse_elements E n (t @ '']'' @ r) = Inr (vs, r)"
  "members t d \<Longrightarrow> 2 * length (t @ ''}'' @ r) + 1 < n \<Longrightarrow> parse_members E n (t @ ''}'' @ r) = Inr (d, r)"
proof (induction arbitrary: r n and r n and r n rule: denotes_elements_members.inducts)
  case null
  then show ?case by (cases n) (simp_all add: parse_literal_def numeral_eq_Suc)
next
  case true
  then show ?case by (cases n) (simp_all add: parse_literal_def numeral_eq_Suc)
next
  case false
  then show ?case by (cases n) (simp_all add: parse_literal_def numeral_eq_Suc)
next
  case (integer t i)
  then show ?case by (cases n) (simp_all del: parse_value.simps(2) add: parse_integer_complete)
next
  case (str b s)
  then show ?case by (cases n) (simp_all add: scan_string_complete)
next
  case (empty_list a)
  then show ?case by (cases n) (simp_all add: is_ws_def)
next
  case (items a t vs)
  have q: "starts_value (t @ '']'' @ r)" using starts_text(2)[OF items(2)] by simp
  obtain m where n: "n = Suc m" using items.prems by (cases n) auto
  have "parse_elements E m (t @ '']'' @ r) = Inr (vs, r)" by (rule items.IH) (use items.prems n in simp)
  then show ?case using n items(1) q starts_value_take[OF q] by simp
next
  case (empty_object a)
  then show ?case by (cases n) (simp_all add: is_ws_def)
next
  case (object a t d)
  have q: "starts_value (t @ ''}'' @ r)" using starts_text(3)[OF object(2)] by simp
  obtain m where n: "n = Suc m" using object.prems by (cases n) auto
  have "parse_members E m (t @ ''}'' @ r) = Inr (d, r)" by (rule object.IH) (use object.prems n in simp)
  moreover have "reject_duplicate_json_pairs E d = Inr d" using object(3) by (simp add: distinct_pairs)
  ultimately show ?case using n object(1) q starts_value_take[OF q] by simp
next
  case (last_element t v a)
  obtain m where n: "n = Suc m" using last_element.prems by (cases n) auto
  have "parse_value E m (t @ a @ '']'' @ r) = Inr (v, a @ '']'' @ r)"
    by (rule last_element.IH) (use last_element n in \<open>auto intro: stops_space\<close>)
  then show ?case using n last_element(2) by (simp add: is_ws_def)
next
  case (next_element t v a b u vs)
  obtain m where n: "n = Suc m" using next_element.prems by (cases n) auto
  have "parse_value E m (t @ a @ '','' @ b @ u @ '']'' @ r) = Inr (v, a @ '','' @ b @ u @ '']'' @ r)"
    by (rule next_element.IH(1)) (use next_element n in \<open>auto intro: stops_space\<close>)
  moreover have "parse_elements E m (u @ '']'' @ r) = Inr (vs, r)"
    by (rule next_element.IH(2)) (use next_element.prems n in simp)
  moreover have "starts_value (u @ '']'' @ r)" using starts_text(2)[OF next_element(4)] by simp
  ultimately show ?case using n next_element(2,3) by (simp add: is_ws_def)
next
  case (last_member q k a b t v c)
  obtain m where n: "n = Suc m" using last_member.prems by (cases n) auto
  have "parse_value E m (t @ c @ ''}'' @ r) = Inr (v, c @ ''}'' @ r)"
    by (rule last_member.IH) (use last_member n in \<open>auto intro: stops_space\<close>)
  moreover have "starts_value (t @ c @ ''}'' @ r)" using starts_text(1)[OF last_member(4)] by simp
  ultimately show ?case using n last_member(2,3,5) by (simp add: is_ws_def scan_string_complete[OF last_member(1)])
next
  case (next_member q k a b t v c e u d)
  obtain m where n: "n = Suc m" using next_member.prems by (cases n) auto
  have "parse_value E m (t @ c @ '','' @ e @ u @ ''}'' @ r) = Inr (v, c @ '','' @ e @ u @ ''}'' @ r)"
    by (rule next_member.IH(1)) (use next_member n in \<open>auto intro: stops_space\<close>)
  moreover have "parse_members E m (u @ ''}'' @ r) = Inr (d, r)"
    by (rule next_member.IH(2)) (use next_member.prems n in simp)
  moreover have "starts_value (t @ c @ '','' @ e @ u @ ''}'' @ r)" using starts_text(1)[OF next_member(4)] by simp
  moreover have "starts_value (u @ ''}'' @ r)" using starts_text(3)[OF next_member(7)] by simp
  ultimately show ?case using n next_member(2,3,5,6) by (simp add: is_ws_def scan_string_complete[OF next_member(1)])
qed

lemma json_loads_iff: "json_loads E text = Inr v \<longleftrightarrow> json_document text v"
proof
  assume l: "json_loads E text = Inr v"
  then obtain r where p: "parse_value E (json_fuel text) (skip_ws text) = Inr (v, r)" and r: "skip_ws r = []"
    by (auto simp: json_loads_def rbind_eq_Inr json_error_def split: if_splits)
  obtain t where t: "skip_ws text = t @ r" "denotes t v" using parse_sound(1)[OF p] by blast
  obtain a where a: "text = a @ skip_ws text" "json_space a" by (rule skip_wsE)
  have "text = a @ t @ r" using a(1) t(1) by simp
  then show "json_document text v" using t(2) a(2) r unfolding skip_ws_space_only json_document_def by blast
next
  assume "json_document text v"
  then obtain a t b where whole: "text = a @ t @ b" and d: "json_space a" "denotes t v" "json_space b"
    unfolding json_document_def by blast
  have s: "starts_value (t @ b)" using starts_text(1)[OF d(2)] by simp
  have "parse_value E (json_fuel text) (t @ b) = Inr (v, b)"
    using d(3) stops_space[of b "[]"] by (intro parse_complete(1)[OF d(2)]) (auto simp: json_fuel_def whole)
  moreover have "skip_ws text = t @ b" using d(1) s by (simp add: whole)
  moreover have "take 3 text \<noteq> [CHR 0xEF, CHR 0xBB, CHR 0xBF]"
  proof -
    obtain c q where "t @ b = c # q" "c \<noteq> CHR 0xEF" using s by (auto simp: starts_value_def)
    then show ?thesis using d(1) by (cases a) (auto simp: whole is_ws_def numeral_3_eq_3)
  qed
  ultimately show "json_loads E text = Inr v"
    using d(3) by (simp add: json_loads_def skip_ws_space_only)
qed

section \<open>Unicode\<close>

lemma unicode_Nil [simp]: "unicode []"
  by (simp add: unicode_def)

lemma unicode_ascii [simp]: "(of_char c :: nat) < 128 \<Longrightarrow> unicode (c # s) = unicode s"
  by (simp add: unicode_def)

text \<open>A character of more than one byte is its first byte and the continuation bytes that follow.\<close>

lemma unicode_ConsE:
  assumes "unicode (c # s)"
  obtains (ascii) "(of_char c :: nat) < 128" "unicode s"
  | (long) x y where "s = x @ y" "x \<noteq> []" "\<forall>d \<in> set x. 128 \<le> (of_char d :: nat) \<and> (of_char d :: nat) \<le> 191" "unicode y"
      "194 \<le> (of_char c :: nat)" "\<And>z. unicode (c # x @ z) = unicode z" "(of_char c :: nat) = 237 \<Longrightarrow> (of_char (hd x) :: nat) \<le> 159"
proof (cases "(of_char c :: nat) < 128")
  case True
  then show thesis using assms ascii by simp
next
  case False
  have cases: "\<not> (of_char c :: nat) < 128" "unicode (c # s)" using assms False by simp_all
  consider "194 \<le> (of_char c :: nat)" "(of_char c :: nat) \<le> 223" | "224 \<le> (of_char c :: nat)" "(of_char c :: nat) \<le> 239"
    | "240 \<le> (of_char c :: nat)" "(of_char c :: nat) \<le> 244"
    using cases by (fastforce simp: unicode_def split: if_splits)
  then show thesis
  proof cases
    case 1
    then obtain d y where s: "s = d # y" using cases by (cases s) (auto simp: unicode_def)
    then show thesis using 1 cases by (intro long[of "[d]" y]) (auto simp: unicode_def)
  next
    case 2
    then obtain d e y where s: "s = d # e # y" using cases by (cases s; cases "tl s") (auto simp: unicode_def split: if_splits)
    then show thesis using 2 cases
      by (intro long[of "[d, e]" y]) (auto simp: unicode_def numeral_2_eq_2 split: if_splits)
  next
    case 3
    then obtain d e f y where s: "s = d # e # f # y"
      using cases by (cases s; cases "tl s"; cases "tl (tl s)") (auto simp: unicode_def split: if_splits)
    then show thesis using 3 cases
      by (intro long[of "[d, e, f]" y]) (auto simp: unicode_def numeral_3_eq_3 split: if_splits)
  qed
qed

lemma unicode_append: "unicode x \<Longrightarrow> unicode (x @ y) = unicode y"
proof (induction x rule: length_induct)
  case (1 x)
  show ?case
  proof (cases x)
    case (Cons c s)
    have "unicode (c # s)" using 1(2) Cons by simp
    then show ?thesis
    proof (cases rule: unicode_ConsE)
      case ascii
      then show ?thesis using 1(1) Cons by simp
    next
      case (long u v)
      then have "unicode (v @ y) = unicode y" using 1(1) Cons by simp
      then show ?thesis using long(6)[of "v @ y"] by (simp add: Cons long(1))
    qed
  qed simp
qed

lemma prefix_before:
  "\<forall>d \<in> set u. d \<noteq> c \<Longrightarrow> s @ c # y = u @ v \<Longrightarrow> \<exists>w. s = u @ w \<and> v = w @ c # y"
proof (induction u arbitrary: s)
  case (Cons d u)
  then show ?case by (cases s) auto
qed simp

lemma unicode_split: "unicode (x @ c # y) \<Longrightarrow> (of_char c :: nat) < 128 \<Longrightarrow> unicode x \<and> unicode y"
proof (induction x rule: length_induct)
  case (1 x)
  show ?case
  proof (cases x)
    case Nil
    then show ?thesis using 1 by simp
  next
    case (Cons e s)
    have "unicode (e # s @ c # y)" using 1(2) Cons by simp
    then show ?thesis
    proof (cases rule: unicode_ConsE)
      case ascii
      then have "unicode s \<and> unicode y" using spec[OF 1(1), of s] 1(3) Cons by simp
      then show ?thesis using ascii(1) by (simp add: Cons)
    next
      case (long u v)
      have "\<forall>d \<in> set u. d \<noteq> c" using long(3) 1(3) by auto
      from prefix_before[OF this long(1)] obtain w where w: "s = u @ w" "v = w @ c # y" by blast
      then have "unicode w \<and> unicode y" using spec[OF 1(1), of w] 1(3) Cons long(4) by simp
      then show ?thesis using long(6)[of w] by (simp add: Cons w)
    qed
  qed
qed

lemma surrogate_skip: "(of_char c :: nat) \<noteq> 237 \<Longrightarrow> has_surrogate (c # s) = has_surrogate s"
  by (cases s) simp_all

lemma surrogate_append: "has_surrogate s \<Longrightarrow> has_surrogate (p @ s)"
proof (induction p)
  case (Cons c p)
  then show ?case by (cases "p @ s") auto
qed simp

lemma surrogate_skip_all: "\<forall>d \<in> set u. (of_char d :: nat) \<le> 191 \<Longrightarrow> has_surrogate (u @ s) = has_surrogate s"
  by (induction u) (auto simp: surrogate_skip)

lemma unicode_no_surrogate: "unicode s \<Longrightarrow> \<not> has_surrogate s"
proof (induction s rule: length_induct)
  case (1 s)
  show ?case
  proof (cases s)
    case (Cons c q)
    have "unicode (c # q)" using 1(2) Cons by simp
    then show ?thesis
    proof (cases rule: unicode_ConsE)
      case ascii
      then show ?thesis using 1(1) Cons by (simp add: surrogate_skip)
    next
      case (long u v)
      then have "\<not> has_surrogate v" using 1(1) Cons by simp
      then have "\<not> has_surrogate (u @ v)" using long(3) by (simp add: surrogate_skip_all)
      moreover have "has_surrogate (c # u @ v) \<Longrightarrow> (of_char c :: nat) = 237 \<and> 160 \<le> (of_char (hd u) :: nat) \<or> has_surrogate (u @ v)"
        using long(2) by (cases u) auto
      ultimately show ?thesis using long(7) by (auto simp: Cons long(1))
    qed
  qed simp
qed

lemma code_unit_bound: "code_unit h n \<Longrightarrow> n < 65536"
proof -
  have step: "(case digit_value c of None \<Rightarrow> 0 | Some d \<Rightarrow> int d) \<le> 15" for c
    by (auto simp: digit_value_def Let_def split: option.splits if_splits)
  assume c: "code_unit h n"
  then obtain a b d e where "h = [a, b, d, e]" by (auto simp: code_unit_def length_Suc_conv numeral_eq_Suc)
  then have "int n < 65536" using c step[of a] step[of b] step[of d] step[of e] by (simp add: code_unit_def hex_value_def)
  then show "n < 65536" by simp
qed

lemma of_char_small: "n < 256 \<Longrightarrow> of_char (char_of n) = (n :: nat)"
  by (simp add: take_bit_nat_eq_self)

lemma utf8_char_bytes:
  assumes "n < 0x110000"
  shows "if 0xD800 \<le> n \<and> n \<le> 0xDFFF then has_surrogate (utf8_char n) else unicode (utf8_char n)"
proof -
  have m: "n div 64 mod 64 < 64" "n mod 64 < 64" "n div 4096 mod 64 < 64" by simp_all
  have "n div 4096 = n div 64 div 64" "n div 262144 = n div 4096 div 64" by (simp_all add: div_mult2_eq[symmetric])
  then have digits: "n = 4096 * (n div 4096) + 64 * (n div 64 mod 64) + n mod 64"
    "n = 262144 * (n div 262144) + 4096 * (n div 4096 mod 64) + 64 * (n div 64 mod 64) + n mod 64"
    using mult_div_mod_eq[of 64 n] mult_div_mod_eq[of 64 "n div 64"] mult_div_mod_eq[of 64 "n div 4096"] by linarith+
  consider "n < 128" | "128 \<le> n" "n < 2048" | "2048 \<le> n" "n < 65536" | "65536 \<le> n" by linarith
  then show ?thesis
  proof cases
    case 1
    then show ?thesis by (simp add: utf8_char_def unicode_def of_char_small del: of_char_of)
  next
    case 2
    then have "194 \<le> 192 + n div 64" "192 + n div 64 \<le> 223" by linarith+
    then show ?thesis using 2 m by (simp add: utf8_char_def unicode_def of_char_small del: of_char_of)
  next
    case 3
    define a b c where abc: "a = n div 4096" "b = n div 64 mod 64" "c = n mod 64"
    have n: "n = 4096 * a + 64 * b + c" "b < 64" "c < 64" using digits by (simp_all add: abc)
    have chars: "utf8_char n = [char_of (224 + a), char_of (128 + b), char_of (128 + c)]"
      using 3 by (simp add: utf8_char_def abc)
    have "a = 13" if "0xD800 \<le> n" "n \<le> 0xDFFF" using that n by linarith
    moreover have "32 \<le> b" if "0xD800 \<le> n" "a = 13" using that n by linarith
    moreover have "0xD800 \<le> n \<and> n \<le> 0xDFFF" if "a = 13" "32 \<le> b" using that n by simp
    ultimately have "0xD800 \<le> n \<and> n \<le> 0xDFFF \<longleftrightarrow> a = 13 \<and> 32 \<le> b" by blast
    moreover have "a \<le> 15" "a = 0 \<Longrightarrow> 32 \<le> b" using 3 n by auto
    ultimately
    show ?thesis using n(2,3) unfolding chars
      by (auto simp: unicode_def of_char_small numeral_2_eq_2 simp del: of_char_of)
  next
    case 4
    define a b c d where abcd: "a = n div 262144" "b = n div 4096 mod 64" "c = n div 64 mod 64" "d = n mod 64"
    have n: "n = 262144 * a + 4096 * b + 64 * c + d" "b < 64" "c < 64" "d < 64" using digits by (simp_all add: abcd)
    have chars: "utf8_char n = [char_of (240 + a), char_of (128 + b), char_of (128 + c), char_of (128 + d)]"
      using 4 by (simp add: utf8_char_def abcd)
    have "a \<le> 4" "a = 0 \<Longrightarrow> 16 \<le> b" "a = 4 \<Longrightarrow> b \<le> 15" "\<not> n \<le> 0xDFFF"
      using 4 n assms by auto
    then show ?thesis using n(2,3,4) unfolding chars
      by (auto simp: unicode_def of_char_small numeral_3_eq_3 simp del: of_char_of)
  qed
qed

lemma unicode_piece:
  assumes "n < 0x110000" and "unicode s \<or> has_surrogate s"
  shows "unicode (utf8_char n @ s) \<or> has_surrogate (utf8_char n @ s)"
proof (cases "0xD800 \<le> n \<and> n \<le> 0xDFFF")
  case True
  then have n: "utf8_char n = [char_of (224 + n div 4096), char_of (128 + n div 64 mod 64), char_of (128 + n mod 64)]"
    "has_surrogate (utf8_char n)"
    using utf8_char_bytes[OF assms(1)] by (simp_all add: utf8_char_def)
  have "n div 64 mod 64 < 64" "n mod 64 < 64" by simp_all
  then have "has_surrogate (utf8_char n @ s)" using n(2) unfolding n(1)
    by (cases s) (auto simp: of_char_small simp del: of_char_of)
  then show ?thesis by blast
next
  case False
  then show ?thesis using utf8_char_bytes[OF assms(1)] assms(2) unicode_append surrogate_append by auto
qed

lemma escape_ascii: "(e, d) \<in> set ESCAPES \<Longrightarrow> (of_char e :: nat) < 128 \<and> (of_char d :: nat) < 128"
  by (auto simp: ESCAPES_def)

lemma unicode_hex: "code_unit h n \<Longrightarrow> unicode (h @ b) = unicode b"
proof -
  have "list_all is_hex h \<Longrightarrow> unicode (h @ b) = unicode b" for h
    by (induction h) (auto simp: is_hex_def digit_value_def Let_def split: if_splits)
  then show "code_unit h n \<Longrightarrow> unicode (h @ b) = unicode b" by (simp add: code_unit_def)
qed

lemma plain_run:
  "string_body (u @ b) s \<Longrightarrow> \<forall>d \<in> set u. 128 \<le> (of_char d :: nat) \<Longrightarrow> \<exists>s'. s = u @ s' \<and> string_body b s'"
proof (induction u arbitrary: s)
  case (Cons d u)
  have "string_body (d # u @ b) s" using Cons.prems(1) by simp
  then obtain s' where "s = d # s'" "string_body (u @ b) s'"
    using Cons.prems(2) by cases auto
  then show ?case using Cons.IH[of s'] Cons.prems(2) by auto
qed simp

lemma body_unicode: "string_body b s \<Longrightarrow> unicode b \<Longrightarrow> unicode s \<or> has_surrogate s"
proof (induction b arbitrary: s rule: length_induct)
  case (1 b)
  have ih: "unicode s' \<or> has_surrogate s'" if "length b' < length b" "string_body b' s'" "unicode b'" for b' s'
    using 1(1) that by blast
  from 1(2) show ?case
  proof cases
    case nothing
    then show ?thesis by simp
  next
    case (plain c b' s')
    have "unicode (c # b')" using 1(3) plain(1) by simp
    then show ?thesis
    proof (cases rule: unicode_ConsE)
      case ascii
      then show ?thesis using ih[of b' s'] plain surrogate_append[of s' "[c]"] by auto
    next
      case (long u v)
      then have "\<forall>d \<in> set u. 128 \<le> (of_char d :: nat)" by blast
      from plain_run[OF plain(6)[unfolded long(1)] this] obtain s'' where s'': "s' = u @ s''" "string_body v s''" by blast
      then have "unicode s'' \<or> has_surrogate s''" using ih[of v s''] plain(1) long(1,4) by simp
      then show ?thesis using long(6)[of s''] surrogate_append[of s'' "c # u"] by (auto simp: plain(2) s'')
    qed
  next
    case (escape e d b' s')
    have "(of_char e :: nat) < 128" "(of_char d :: nat) < 128" using escape_ascii[OF escape(3)] by simp_all
    then show ?thesis using ih[of b' s'] escape 1(3) surrogate_append[of s' "[d]"] by auto
  next
    case (pair h m l n b' s')
    then have "unicode b'" using 1(3) by (simp add: unicode_hex)
    moreover have "0x10000 + (m - 0xD800) * 0x400 + (n - 0xDC00) < 0x110000"
      using pair(4,6) unfolding high_surrogate_def low_surrogate_def by linarith
    ultimately show ?thesis unfolding pair(2) using ih[of b' s'] pair(1,7) by (intro unicode_piece) simp_all
  next
    case (unit h n b' s')
    then have "unicode b'" using 1(3) by (simp add: unicode_hex)
    moreover have "n < 0x110000" using code_unit_bound[OF unit(3)] by simp
    ultimately show ?thesis unfolding unit(2) using ih[of b' s'] unit(1,5) by (intro unicode_piece) simp_all
  qed
qed

text \<open>Every string of a document is Unicode, or has an escaped surrogate in it.\<close>

fun json_strings :: "json \<Rightarrow> string list" where
  "json_strings (JStr s) = [s]"
| "json_strings (JList vs) = concat (map json_strings vs)"
| "json_strings (JDict d) = concat (map (\<lambda>(k, v). k # json_strings v) d)"
| "json_strings _ = []"

lemma unicode_json_strings: "unicode_json v \<longleftrightarrow> list_all unicode (json_strings v)"
proof (induction v)
  case (JList vs)
  then show ?case by (induction vs) auto
next
  case (JDict d)
  then have "unicode_json v = list_all unicode (json_strings v)" if "(k, v) \<in> set d" for k v using that by auto
  then show ?case
  proof (induction d)
    case (Cons p d)
    then show ?case by (cases p) auto
  qed simp
qed simp_all

lemma reject_iff:
  "reject_non_unicode_scalars E v p = Inr () \<longleftrightarrow> list_all (\<lambda>s. \<not> has_surrogate s) (json_strings v)"
  "reject_non_unicode_items E i vs p = Inr () \<longleftrightarrow> list_all (\<lambda>s. \<not> has_surrogate s) (concat (map json_strings vs))"
  "reject_non_unicode_members E d p = Inr () \<longleftrightarrow>
     list_all (\<lambda>s. \<not> has_surrogate s) (concat (map (\<lambda>(k, v). k # json_strings v) d))"
  by (induction E v p and E i vs p and E d p
      rule: reject_non_unicode_scalars_reject_non_unicode_items_reject_non_unicode_members.induct)
    (auto simp: rbind_eq_Inr)

lemma ws_ascii: "is_ws c \<Longrightarrow> (of_char c :: nat) < 128"
  by (auto simp: is_ws_def Let_def)

lemma unicode_space: "json_space a \<Longrightarrow> unicode (a @ s) = unicode s"
  by (induction a) (auto simp: ws_ascii)

lemma space_split: "json_space a \<Longrightarrow> unicode (t @ a @ c # s) \<Longrightarrow> (of_char c :: nat) < 128 \<Longrightarrow> unicode t \<and> unicode s"
proof (cases a)
  case (Cons b a')
  assume a: "json_space a" "unicode (t @ a @ c # s)" "(of_char c :: nat) < 128"
  then have "unicode t \<and> unicode (a' @ c # s)" using unicode_split[of t b "a' @ c # s"] ws_ascii by (simp add: Cons)
  then show ?thesis using a unicode_space[of a' "c # s"] by (simp add: Cons)
qed (auto dest: unicode_split)

lemma space_end: "json_space a \<Longrightarrow> unicode (t @ a) \<Longrightarrow> unicode t"
  using unicode_split[of t] ws_ascii by (cases a) auto

lemma documents_unicode:
  "denotes t v \<Longrightarrow> unicode t \<Longrightarrow> list_all (\<lambda>s. unicode s \<or> has_surrogate s) (json_strings v)"
  "elements t vs \<Longrightarrow> unicode t \<Longrightarrow> list_all (\<lambda>s. unicode s \<or> has_surrogate s) (concat (map json_strings vs))"
  "members t d \<Longrightarrow> unicode t \<Longrightarrow>
     list_all (\<lambda>s. unicode s \<or> has_surrogate s) (concat (map (\<lambda>(k, v). k # json_strings v) d))"
proof (induction rule: denotes_elements_members.inducts)
  case (str b s)
  then show ?case using unicode_split[of b "CHR 0x22" "[]"] body_unicode[OF str.hyps] by simp
next
  case (items a t vs)
  then show ?case using unicode_split[of t "CHR '']''" "[]"] unicode_space[of a "t @ '']''"] by simp
next
  case (object a t d)
  then show ?case using unicode_split[of t "CHR ''}''" "[]"] unicode_space[of a "t @ ''}''"] by simp
next
  case (last_element t v a)
  then show ?case using space_end[OF last_element(2), of t] by simp
next
  case (next_element t v a b u vs)
  then show ?case using space_split[of a t "CHR '',''" "b @ u"] by (simp add: unicode_space)
next
  case (last_member q k a b t v c)
  have 1: "unicode q" "unicode (a @ '':'' @ b @ t @ c)" using last_member.prems unicode_split[of q "CHR 0x22"] by simp_all
  then have "unicode (t @ c)" using last_member(2,3) by (simp add: unicode_space)
  then have "unicode t" using space_end[OF last_member(5), of t] by simp
  then show ?case using 1 body_unicode[OF last_member(1)] last_member.IH by simp
next
  case (next_member q k a b t v c e u d)
  have 1: "unicode q" "unicode (a @ '':'' @ b @ t @ c @ '','' @ e @ u)"
    using next_member.prems unicode_split[of q "CHR 0x22"] by simp_all
  then have "unicode (t @ c @ '','' @ e @ u)" using next_member(2,3) by (simp add: unicode_space)
  then have "unicode t \<and> unicode u" using space_split[of c t "CHR '',''" "e @ u"] next_member(5,6) by (simp add: unicode_space)
  then show ?case using 1 body_unicode[OF next_member(1)] next_member.IH by simp
qed simp_all

section \<open>Every other input is reported\<close>

text \<open>
  The exceptions of the scanner and of the hooks; that the scanner's fuel is used up is none of them.
\<close>

definition reported :: "json_hooks \<Rightarrow> exn \<Rightarrow> bool" where
  "reported E e \<longleftrightarrow> (\<exists>m. e = ValueError m \<or> e = hook_error E m)"

lemma reported_simps [simp]: "reported E (ValueError m)" "reported E (hook_error E m)"
  by (auto simp: reported_def)

definition consumes :: "json_hooks \<Rightarrow> string \<Rightarrow> ('a \<times> string) res \<Rightarrow> bool" where
  "consumes E s r \<longleftrightarrow> (case r of Inl e \<Rightarrow> reported E e | Inr (x, q) \<Rightarrow> length q < length s)"

lemma consumes_simps [simp]:
  "consumes E s (Inl e) \<longleftrightarrow> reported E e"
  "consumes E s (Inr (x, q)) \<longleftrightarrow> length q < length s"
  "consumes E s (json_error m)"
  by (simp_all add: consumes_def json_error_def)



















section \<open>What is printed is Unicode\<close>

lemma unicode_appendI: "unicode s \<Longrightarrow> unicode t \<Longrightarrow> unicode (s @ t)"
  by (simp add: unicode_append)

lemma unicode_all_ascii: "\<forall>c \<in> set s. (of_char c :: nat) < 128 \<Longrightarrow> unicode s"
  by (induction s) simp_all

lemma digit_char_ascii: "n < 16 \<Longrightarrow> (of_char (digit_char n) :: nat) < 128"
  by (simp add: digit_char.simps)

lemma plain_escape_ascii: "(of_char c :: nat) < 128 \<Longrightarrow> unicode (plain_escape c)"
  by (rule unicode_all_ascii)
    (auto simp: plain_escape_def short_escape_def unicode_escape_def hex4_def digit_char_ascii split: option.splits if_splits)

lemma plain_escape_long: "128 \<le> (of_char c :: nat) \<Longrightarrow> plain_escape c = [c]"
  by (auto simp: plain_escape_def short_escape_def)

lemma unicode_escapes: "unicode s \<Longrightarrow> unicode (concat (map plain_escape s))"
proof (induction s rule: length_induct)
  case (1 s)
  show ?case
  proof (cases s)
    case (Cons c q)
    have "unicode (c # q)" using 1(2) Cons by simp
    then show ?thesis
    proof (cases rule: unicode_ConsE)
      case ascii
      then show ?thesis using 1(1) Cons unicode_appendI[OF plain_escape_ascii[OF ascii(1)]] by simp
    next
      case (long u v)
      have "concat (map plain_escape u) = u" using long(3) by (induction u) (simp_all add: plain_escape_long)
      moreover have "unicode (concat (map plain_escape v))" using 1(1) long(1,4) Cons by simp
      ultimately show ?thesis using long(1,5) long(6)[of "concat (map plain_escape v)"] by (simp add: Cons plain_escape_long)
    qed
  qed simp
qed

lemma unicode_quote: "unicode s \<Longrightarrow> unicode (quote_plain s)"
  using unicode_appendI[OF unicode_escapes[of s], of "[CHR 0x22]"] by (simp add: quote_plain_def)

lemma unicode_join: "unicode sep \<Longrightarrow> list_all unicode xs \<Longrightarrow> unicode (join sep xs)"
  by (induction sep xs rule: join.induct) (simp_all add: unicode_append)

lemma unicode_newline: "unicode (newline_indent n)"
  by (rule unicode_all_ascii) (simp add: newline_indent_def)

lemma unicode_dec_int: "unicode (dec_int i)"
proof -
  have "unicode (dec n)" for n
    using dec_digits[of n] by (intro unicode_all_ascii) (auto simp: list_all_iff is_digit_def)
  then show ?thesis by (simp add: dec_int_def)
qed

lemma unicode_dumps: "unicode_json v \<Longrightarrow> unicode (dumps_indent n v)"
proof (induction v arbitrary: n)
  case (JList vs)
  then have "unicode (join ('','' @ newline_indent (Suc n)) (map (dumps_indent (Suc n)) vs))"
    by (intro unicode_join) (auto simp: list_all_iff unicode_newline)
  then show ?case by (simp add: unicode_append unicode_newline)
next
  case (JDict d)
  have "unicode (quote_plain k @ '': '' @ dumps_indent (Suc n) v)" if "(k, v) \<in> set d" for k v
    using JDict that by (fastforce simp: list_all_iff unicode_append unicode_quote)
  then have "unicode (join ('','' @ newline_indent (Suc n))
      (map (\<lambda>(k, v). quote_plain k @ '': '' @ dumps_indent (Suc n) v) d))"
    by (intro unicode_join) (auto simp: list_all_iff unicode_newline)
  then show ?case by (simp add: unicode_append unicode_newline)
qed (simp_all add: unicode_quote unicode_dec_int)

lemma unicode_json_text: "unicode_json v \<Longrightarrow> unicode (json_text v)"
  by (simp add: json_text_def unicode_append unicode_dumps)

section \<open>Properties\<close>

lemma documents_distinct:
  "denotes t v \<Longrightarrow> wf_json v \<and> ijson v"
  "elements t vs \<Longrightarrow> list_all wf_json vs \<and> list_all ijson vs"
  "members t d \<Longrightarrow> list_all (\<lambda>(k, v). wf_json v) d \<and> list_all (\<lambda>(k, v). ijson v) d"
  by (induction rule: denotes_elements_members.inducts) (simp_all add: IJSON_SAFE_INTEGER_MAX_def)

lemma decode_iff:
  "decode_json_bytes raw p = Inr v \<longleftrightarrow>
     utf8_valid (map unat raw) \<and> json_document (map (\<lambda>b. char_of (unat b)) raw) v \<and> unicode_json v"
proof -
  let ?t = "map (\<lambda>b. char_of (unat b)) raw"
  have strings: "list_all (\<lambda>s. \<not> has_surrogate s) (json_strings v) \<longleftrightarrow> unicode_json v"
    if bytes: "utf8_valid (map unat raw)" and doc: "json_document ?t v"
  proof -
    have t: "map (of_char :: char \<Rightarrow> nat) ?t = map unat raw"
      by (simp add: comp_def of_char_small unat_byte_less del: of_char_of)
    have "unicode ?t" unfolding unicode_def t by (rule bytes)
    moreover obtain a t b where "?t = a @ t @ b" "json_space a" "denotes t v" "json_space b"
      using doc unfolding json_document_def by blast
    ultimately have "unicode t" "denotes t v" using space_end[of b t] by (simp_all add: unicode_space)
    then show ?thesis
      using documents_unicode(1) unicode_no_surrogate by (fastforce simp: unicode_json_strings list_all_iff)
  qed
  then show ?thesis by (auto simp: decode_json_bytes_def decode_utf8_def rbind_eq_Inr rmap_exn_eq_Inr reject_iff json_loads_iff)
qed

definition ijson_document :: "json \<Rightarrow> bool" where
  "ijson_document v \<longleftrightarrow> wf_json v \<and> ijson v \<and> unicode_json v"

lemma decoded_document: "decode_json_bytes raw p = Inr v \<Longrightarrow> ijson_document v"
  using documents_distinct(1) unfolding decode_iff json_document_def ijson_document_def by blast


text \<open>
  C29: The values the decoder can return are exactly the I-JSON documents (distinct members,
  integers in range, Unicode strings), and the text \<open>json_text\<close> writes for a value is read back
  as that value when it is one of them, and refused when it is not: nothing that was ever
  decoded changes by being written and read again.
\<close>

theorem json_text_roundtrip:
  "(decode_json_bytes (str_bytes (json_text v)) p = Inr w \<longleftrightarrow> w = v \<and> ijson_document v) \<and>
   (ijson_document v \<longleftrightarrow> (\<exists>raw q. decode_json_bytes raw q = Inr v))"
proof -
  have w: "w = v \<and> ijson_document v" if "decode_json_bytes (str_bytes (json_text v)) p = Inr w"
    using decode_json_text_eq[OF that] decoded_document[OF that] by simp
  moreover have b: "decode_json_bytes (str_bytes (json_text v)) p = Inr v" if "ijson_document v"
  proof (rule decode_json_text)
    show "faithful v" using that by (simp add: ijson_document_def faithful_def)
    show "utf8_valid (map of_char (json_text v))"
      using that unicode_json_text by (simp add: ijson_document_def unicode_def)
    show "reject_non_unicode_scalars materializer_hooks v p = Inr ()"
      using that unicode_no_surrogate by (auto simp: reject_iff ijson_document_def unicode_json_strings list_all_iff)
  qed
  ultimately show ?thesis using decoded_document by blast
qed

definition example_document :: json where
  "example_document = JDict [(''name'', JStr [CHR ''a'', CHR 0x0A, CHR 0x22, CHR 0xC3, CHR 0xA9]),
     (''items'', JList [JInt (- 12), JBool True, JNull, JList [], JDict [(''k'', JStr [])]])]"

theorem json_text_roundtrip_witness:
  "decode_json_bytes (str_bytes (json_text example_document)) ''p'' = Inr example_document"
proof -
  have "ijson_document example_document" by code_simp
  then show ?thesis using json_text_roundtrip[of example_document "''p''" example_document] by simp
qed

end
