(* ===== verification/Files.thy ===== *)
theory Files
  imports Json_Text "HOL-Library.Sublist"
begin

text \<open>
  The file system the pipeline works on and the path handling in front of it
  (\<open>lexical_repo_path\<close>, \<open>reject_link_or_reparse_components\<close>, \<open>resolve_repo_path\<close> of the
  release builder, \<open>normalize_repo_path\<close> and \<open>resolve_output_path\<close> of the materializer).

  An absolute POSIX path is the list of its components. A file system is an association
  list from paths to nodes: directories, files with their bytes, and links (symbolic links,
  junctions, reparse points), each with the bytes that reading through it yields, if any.
  The Windows branch of \<open>lexical_repo_path\<close> (\<open>os.name == "nt"\<close>) is not modelled.
\<close>

type_synonym path = "string list"

datatype node = Dir | File "byte list" | Link "byte list option"

type_synonym fs = "(path \<times> node) list"

datatype py_path = Abs path | Rel path

section \<open>Paths\<close>

definition path_text :: "path \<Rightarrow> string" where
  "path_text p = ''/'' @ join ''/'' p"

definition py_path_text :: "py_path \<Rightarrow> string" where
  "py_path_text p = (case p of Abs q \<Rightarrow> path_text q | Rel q \<Rightarrow> if q = [] then ''.'' else join ''/'' q)"

definition parse_path :: "string \<Rightarrow> py_path" where
  "parse_path s =
     (let parts = filter (\<lambda>p. p \<noteq> [] \<and> p \<noteq> ''.'') (split_on (CHR ''/'') s)
      in if take 1 s = ''/'' then Abs parts else Rel parts)"

text \<open>\<open>base / p\<close>.\<close>

definition path_join :: "path \<Rightarrow> py_path \<Rightarrow> path" where
  "path_join base p = (case p of Abs q \<Rightarrow> q | Rel q \<Rightarrow> base @ q)"

text \<open>\<open>os.path.normpath\<close> of an absolute path.\<close>

fun normpath :: "path \<Rightarrow> path \<Rightarrow> path" where
  "normpath acc [] = rev acc"
| "normpath acc (s # ss) =
     (if s = [] \<or> s = ''.'' then normpath acc ss
      else if s = ''..'' then normpath (drop 1 acc) ss
      else normpath (s # acc) ss)"

definition relative_to :: "path \<Rightarrow> path \<Rightarrow> path option" where
  "relative_to p base = (if prefix base p then Some (drop (length base) p) else None)"

definition as_posix :: "path \<Rightarrow> string" where
  "as_posix p = (if p = [] then ''.'' else join ''/'' p)"

definition repo_relative :: "path \<Rightarrow> path \<Rightarrow> string res" where
  "repo_relative root p =
     (case relative_to p root of
        None \<Rightarrow> Inl (ValueError (path_text p @ '' is not in the subpath of '' @ path_text root))
      | Some r \<Rightarrow> Inr (as_posix r))"

section \<open>Path confinement\<close>

definition lexical_repo_path :: "path \<Rightarrow> py_path \<Rightarrow> string \<Rightarrow> path res" where
  "lexical_repo_path root value label =
     (let lexical = normpath [] (path_join root value) in
      case relative_to lexical root of
        None \<Rightarrow> Inl (ReleaseBuildError
                  (label @ '' must stay inside the repository: '' @ py_path_text value))
      | Some _ \<Rightarrow> Inr lexical)"

definition path_is_link_or_reparse :: "fs \<Rightarrow> path \<Rightarrow> bool" where
  "path_is_link_or_reparse fs p = (case map_of fs p of Some (Link _) \<Rightarrow> True | _ \<Rightarrow> False)"

fun reject_links_below :: "fs \<Rightarrow> path \<Rightarrow> path \<Rightarrow> string \<Rightarrow> unit res" where
  "reject_links_below fs cursor [] label = Inr ()"
| "reject_links_below fs cursor (part # parts) label =
     (if path_is_link_or_reparse fs (cursor @ [part])
      then Inl (ReleaseBuildError
             (label @ '' must not use symlink, junction, or reparse components: '' @
              path_text (cursor @ [part])))
      else reject_links_below fs (cursor @ [part]) parts label)"

definition reject_link_or_reparse_components :: "fs \<Rightarrow> path \<Rightarrow> path \<Rightarrow> string \<Rightarrow> unit res" where
  "reject_link_or_reparse_components fs root p label =
     (case relative_to p root of
        None \<Rightarrow> Inl (ReleaseBuildError (label @ '' must stay inside the repository: '' @ path_text p))
      | Some relative \<Rightarrow> reject_links_below fs root relative label)"

text \<open>
  \<open>Path.resolve\<close> is the identity on what is left: an absolute normal path below the
  resolved repository root, no component of which is a link.
\<close>

definition resolve_repo_path :: "fs \<Rightarrow> path \<Rightarrow> py_path \<Rightarrow> string \<Rightarrow> path res" where
  "resolve_repo_path fs root value label =
     rbind (lexical_repo_path root value label) (\<lambda>lexical.
     rbind (reject_link_or_reparse_components fs root lexical label) (\<lambda>_.
     Inr lexical))"

definition normalize_repo_path :: "fs \<Rightarrow> path \<Rightarrow> py_path \<Rightarrow> string \<Rightarrow> path res" where
  "normalize_repo_path fs root value label =
     rmap_exn (\<lambda>e. case e of ReleaseBuildError m \<Rightarrow> DeploymentPlanError m | _ \<Rightarrow> e)
       (resolve_repo_path fs root value label)"

definition path_exists :: "fs \<Rightarrow> path \<Rightarrow> bool" where
  "path_exists fs p = (case map_of fs p of None \<Rightarrow> False | Some (Link None) \<Rightarrow> False | Some _ \<Rightarrow> True)"

definition path_is_file :: "fs \<Rightarrow> path \<Rightarrow> bool" where
  "path_is_file fs p =
     (case map_of fs p of Some (File _) \<Rightarrow> True | Some (Link (Some _)) \<Rightarrow> True | _ \<Rightarrow> False)"

definition EPHEMERAL_OUTPUT_ROOT :: string where
  "EPHEMERAL_OUTPUT_ROOT = ''tmp''"

definition resolve_output_path :: "fs \<Rightarrow> path \<Rightarrow> py_path \<Rightarrow> path res" where
  "resolve_output_path fs root value =
     rbind (normalize_repo_path fs root value ''deployment plan output'') (\<lambda>output.
     let relative = drop (length root) output in
     if length relative < 2 \<or> hd relative \<noteq> EPHEMERAL_OUTPUT_ROOT
     then Inl (DeploymentPlanError
            ''deployment plan output must be a file below the repository tmp directory'')
     else if path_exists fs output \<and> \<not> path_is_file fs output
     then Inl (DeploymentPlanError ''deployment plan output must be a regular file'')
     else Inr output)"

section \<open>File operations\<close>

definition fs_read :: "fs \<Rightarrow> path \<Rightarrow> byte list res" where
  "fs_read fs p =
     (case map_of fs p of
        Some (File raw) \<Rightarrow> Inr raw
      | Some (Link (Some raw)) \<Rightarrow> Inr raw
      | Some Dir \<Rightarrow> Inl (OSError (''Is a directory: '' @ path_text p))
      | _ \<Rightarrow> Inl (OSError (''No such file or directory: '' @ path_text p)))"

definition parent :: "path \<Rightarrow> path" where
  "parent p = butlast p"

text \<open>\<open>p.mkdir(parents=True, exist_ok=True)\<close>: every missing prefix becomes a directory.\<close>

fun make_parents :: "fs \<Rightarrow> path \<Rightarrow> path \<Rightarrow> fs res" where
  "make_parents fs cursor [] = Inr fs"
| "make_parents fs cursor (s # ss) =
     (let p = cursor @ [s] in
      case map_of fs p of
        None \<Rightarrow> make_parents (AList.update p Dir fs) p ss
      | Some (File _) \<Rightarrow> Inl (FileExistsError (path_text p))
      | Some _ \<Rightarrow> make_parents fs p ss)"

definition mkdir_parents :: "fs \<Rightarrow> path \<Rightarrow> fs res" where
  "mkdir_parents fs p = make_parents fs [] p"

text \<open>\<open>p.mkdir()\<close>.\<close>

definition mkdir :: "fs \<Rightarrow> path \<Rightarrow> fs res" where
  "mkdir fs p =
     (if map_of fs p \<noteq> None then Inl (FileExistsError (path_text p))
      else if parent p \<noteq> [] \<and> map_of fs (parent p) = None
      then Inl (OSError (''No such file or directory: '' @ path_text p))
      else Inr (AList.update p Dir fs))"

text \<open>\<open>p.mkdir(parents=True, exist_ok=False)\<close>.\<close>

definition mkdir_new :: "fs \<Rightarrow> path \<Rightarrow> fs res" where
  "mkdir_new fs p = rbind (mkdir_parents fs (parent p)) (\<lambda>fs'. mkdir fs' p)"

text \<open>
  A temporary file in the same directory, written, flushed and renamed over \<open>p\<close>
  (\<open>os.replace\<close>): one step, after which the file has the new bytes or the old ones.
\<close>

definition replace_file :: "fs \<Rightarrow> path \<Rightarrow> byte list \<Rightarrow> fs res" where
  "replace_file fs p raw =
     rbind (mkdir_parents fs (parent p)) (\<lambda>fs'.
     if map_of fs' p = Some Dir then Inl (OSError (''Is a directory: '' @ path_text p))
     else Inr (AList.update p (File raw) fs'))"

text \<open>\<open>os.link(temporary, p)\<close>: fails if \<open>p\<close> exists.\<close>

definition link_file :: "fs \<Rightarrow> path \<Rightarrow> byte list \<Rightarrow> fs res" where
  "link_file fs p raw =
     rbind (mkdir_parents fs (parent p)) (\<lambda>fs'.
     if map_of fs' p \<noteq> None then Inl (FileExistsError (path_text p))
     else Inr (AList.update p (File raw) fs'))"

text \<open>\<open>p.unlink(missing_ok=True)\<close>.\<close>

definition unlink :: "fs \<Rightarrow> path \<Rightarrow> fs res" where
  "unlink fs p =
     (if map_of fs p = Some Dir then Inl (OSError (''Is a directory: '' @ path_text p))
      else Inr (AList.delete p fs))"

definition below :: "path \<Rightarrow> path \<Rightarrow> bool" where
  "below p q \<longleftrightarrow> strict_prefix p q"

text \<open>\<open>p.rmdir()\<close>, a missing directory being no error (\<open>except FileNotFoundError: return\<close>).\<close>

definition rmdir_present :: "fs \<Rightarrow> path \<Rightarrow> fs res" where
  "rmdir_present fs p =
     (case map_of fs p of
        None \<Rightarrow> Inr fs
      | Some Dir \<Rightarrow>
          if list_ex (\<lambda>(q, _). below p q) fs
          then Inl (OSError (''Directory not empty: '' @ path_text p))
          else Inr (AList.delete p fs)
      | Some _ \<Rightarrow> Inl (OSError (''Not a directory: '' @ path_text p)))"

text \<open>\<open>shutil.rmtree(p, ignore_errors=True)\<close>.\<close>

definition rmtree :: "fs \<Rightarrow> path \<Rightarrow> fs" where
  "rmtree fs p = filter (\<lambda>(q, _). \<not> prefix p q) fs"

text \<open>\<open>sorted(p.glob("*/name"))\<close>, \<open>sorted(p.glob("*.json"))\<close> and \<open>sorted(p.rglob(name))\<close>.\<close>

definition glob_child :: "fs \<Rightarrow> path \<Rightarrow> string \<Rightarrow> path list" where
  "glob_child fs p name =
     sort (remdups (filter (\<lambda>q. length q = length p + 2 \<and> prefix p q \<and> last q = name)
       (map fst fs)))"

definition glob_json :: "fs \<Rightarrow> path \<Rightarrow> path list" where
  "glob_json fs p =
     sort (remdups (filter (\<lambda>q. length q = length p + 1 \<and> prefix p q \<and> suffix ''.json'' (last q))
       (map fst fs)))"

definition rglob :: "fs \<Rightarrow> path \<Rightarrow> string \<Rightarrow> path list" where
  "rglob fs p name =
     sort (remdups (filter (\<lambda>q. below p q \<and> last q = name) (map fst fs)))"

section \<open>Lemmas\<close>

lemma normpath_normal: "list_all (\<lambda>s. s \<noteq> [] \<and> s \<noteq> ''.'' \<and> s \<noteq> ''..'') acc \<Longrightarrow>
    list_all (\<lambda>s. s \<noteq> [] \<and> s \<noteq> ''.'' \<and> s \<noteq> ''..'') (normpath acc ss)"
proof (induction acc ss rule: normpath.induct)
  case (1 acc)
  then show ?case by (simp add: list_all_iff)
next
  case (2 acc s ss)
  then show ?case by (cases acc) auto
qed

lemma normpath_id:
  "list_all (\<lambda>s. s \<noteq> [] \<and> s \<noteq> ''.'' \<and> s \<noteq> ''..'') ss \<Longrightarrow> normpath acc ss = rev acc @ ss"
  by (induction acc ss rule: normpath.induct) auto

lemma relative_to_Some: "relative_to p base = Some r \<longleftrightarrow> p = base @ r"
  by (auto simp: relative_to_def prefix_def)

lemma reject_links_below_iff [res_simps]:
  "reject_links_below fs cursor parts label = Inr u \<longleftrightarrow>
     (\<forall>n \<in> {1..length parts}. \<not> path_is_link_or_reparse fs (cursor @ take n parts))"
proof (induction parts arbitrary: cursor)
  case Nil
  then show ?case by simp
next
  case (Cons part parts)
  have "{1..length (part # parts)} = insert 1 (Suc ` {1..length parts})"
    unfolding image_Suc_atLeastAtMost by auto
  then show ?case
    using Cons[of "cursor @ [part]"] by (simp del: image_Suc_atLeastAtMost)
qed

lemma lexical_repo_path_iff [res_simps]:
  "lexical_repo_path root value label = Inr p \<longleftrightarrow>
     p = normpath [] (path_join root value) \<and> prefix root p"
  by (auto simp: lexical_repo_path_def Let_def relative_to_def)

lemma reject_components_iff [res_simps]:
  "prefix root p \<Longrightarrow> reject_link_or_reparse_components fs root p label = Inr u \<longleftrightarrow>
     (\<forall>n \<in> {1..length p - length root}.
        \<not> path_is_link_or_reparse fs (root @ take n (drop (length root) p)))"
  by (simp add: reject_link_or_reparse_components_def relative_to_def reject_links_below_iff)

lemma normalize_repo_path_iff:
  "normalize_repo_path fs root value label = Inr p \<longleftrightarrow>
     p = normpath [] (path_join root value) \<and> prefix root p \<and>
     (\<forall>n \<in> {1..length p - length root}.
        \<not> path_is_link_or_reparse fs (root @ take n (drop (length root) p)))"
  using reject_components_iff[of root p fs label "()"]
  by (auto simp: normalize_repo_path_def resolve_repo_path_def rmap_exn_eq_Inr rbind_eq_Inr
      lexical_repo_path_iff)

lemma resolve_output_path_inside:
  "resolve_output_path fs root value = Inr p \<Longrightarrow> \<exists>rest. rest \<noteq> [] \<and> p = root @ ''tmp'' # rest"
proof -
  assume a: "resolve_output_path fs root value = Inr p"
  then have p: "prefix root p"
    by (auto simp: resolve_output_path_def rbind_eq_Inr normalize_repo_path_iff Let_def split: if_splits)
  then obtain r where r: "p = root @ r" by (auto simp: prefix_def)
  with a have "2 \<le> length r" "hd r = ''tmp''"
    by (auto simp: resolve_output_path_def rbind_eq_Inr Let_def EPHEMERAL_OUTPUT_ROOT_def split: if_splits)
  then obtain x y z where "r = x # y # z"
    by (metis One_nat_def Suc_le_length_iff numeral_2_eq_2)
  then show ?thesis using r \<open>hd r = _\<close> by auto
qed

lemma map_of_make_parents:
  "make_parents fs cursor ss = Inr fs' \<Longrightarrow> map_of fs p = Some n \<Longrightarrow> map_of fs' p = Some n"
proof (induction ss arbitrary: fs cursor)
  case Nil
  then show ?case by simp
next
  case (Cons s ss)
  show ?case
  proof (cases "map_of fs (cursor @ [s])")
    case None
    then have "map_of (AList.update (cursor @ [s]) Dir fs) p = Some n"
      using Cons.prems(2) by (auto simp: update_conv')
    then show ?thesis using Cons.IH Cons.prems(1) None by (simp add: Let_def)
  next
    case (Some m)
    then show ?thesis using Cons by (cases m) (auto simp: Let_def)
  qed
qed

lemma map_of_make_parents_new:
  "make_parents fs cursor ss = Inr fs' \<Longrightarrow> map_of fs p = None \<Longrightarrow>
     map_of fs' p = None \<or> map_of fs' p = Some Dir"
proof (induction ss arbitrary: fs cursor)
  case Nil
  then show ?case by simp
next
  case (Cons s ss)
  show ?case
  proof (cases "map_of fs (cursor @ [s])")
    case None
    show ?thesis
    proof (cases "p = cursor @ [s]")
      case True
      then have "map_of (AList.update (cursor @ [s]) Dir fs) p = Some Dir"
        by (simp add: update_conv')
      moreover have "make_parents (AList.update (cursor @ [s]) Dir fs) (cursor @ [s]) ss = Inr fs'"
        using Cons.prems(1) None by (simp add: Let_def)
      ultimately show ?thesis by (simp add: map_of_make_parents)
    next
      case False
      then have "map_of (AList.update (cursor @ [s]) Dir fs) p = None"
        using Cons.prems(2) by (simp add: update_conv')
      then show ?thesis using Cons.IH Cons.prems(1) None by (simp add: Let_def)
    qed
  next
    case (Some m)
    then show ?thesis using Cons by (cases m) (auto simp: Let_def)
  qed
qed

text \<open>The bytes at a path, for a file.\<close>

definition file_at :: "fs \<Rightarrow> path \<Rightarrow> byte list option" where
  "file_at fs p = (case map_of fs p of Some (File raw) \<Rightarrow> Some raw | _ \<Rightarrow> None)"

lemma file_at_mkdir_parents [simp]:
  "mkdir_parents fs q = Inr fs' \<Longrightarrow> file_at fs' p = file_at fs p"
  unfolding mkdir_parents_def file_at_def
  by (cases "map_of fs p") (auto dest: map_of_make_parents map_of_make_parents_new)

lemma file_at_replace: "replace_file fs q raw = Inr fs' \<Longrightarrow> file_at fs' p = (if p = q then Some raw else file_at fs p)"
  by (auto simp: replace_file_def res_simps file_at_def update_conv' split: if_splits)
    (metis file_at_def file_at_mkdir_parents)+

lemma file_at_link: "link_file fs q raw = Inr fs' \<Longrightarrow> file_at fs' p = (if p = q then Some raw else file_at fs p)"
  by (auto simp: link_file_def res_simps file_at_def update_conv' split: if_splits)
    (metis file_at_def file_at_mkdir_parents)+

lemma file_at_mkdir: "mkdir fs q = Inr fs' \<Longrightarrow> file_at fs' p = file_at fs p"
  by (auto simp: mkdir_def file_at_def update_conv' split: if_splits)

lemma file_at_mkdir_new: "mkdir_new fs q = Inr fs' \<Longrightarrow> file_at fs' p = file_at fs p"
  by (auto simp: mkdir_new_def res_simps file_at_mkdir)

lemma file_at_unlink: "unlink fs q = Inr fs' \<Longrightarrow> p \<noteq> q \<Longrightarrow> file_at fs' p = file_at fs p"
  by (auto simp: unlink_def file_at_def delete_conv' split: if_splits)

lemma file_at_rmdir: "rmdir_present fs q = Inr fs' \<Longrightarrow> file_at fs' p = file_at fs p"
  by (auto simp: rmdir_present_def file_at_def delete_conv' split: if_splits option.splits node.splits)

lemma map_of_rmtree: "map_of (rmtree fs q) p = (if prefix q p then None else map_of fs p)"
  unfolding rmtree_def by (induction fs) auto

lemma file_at_rmtree: "\<not> prefix q p \<Longrightarrow> file_at (rmtree fs q) p = file_at fs p"
  by (simp add: file_at_def map_of_rmtree)

lemma file_at_read: "file_at fs p = Some raw \<Longrightarrow> fs_read fs p = Inr raw"
  by (simp add: file_at_def fs_read_def split: option.splits node.splits)

lemma file_at_glob:
  "file_at fs (p @ [x, name]) \<noteq> None \<Longrightarrow> p @ [x, name] \<in> set (glob_child fs p name)"
  by (auto simp: file_at_def glob_child_def image_iff split: option.splits dest!: map_of_SomeD)
    (metis fst_conv map_of_SomeD)

section \<open>Properties\<close>

lemma normalize_repo_path_no_link:
  assumes "normalize_repo_path fs root value label = Inr p"
    and "strict_prefix root q" and "prefix q p"
  shows "\<not> path_is_link_or_reparse fs q"
proof -
  have p: "prefix root p" and no: "\<forall>n \<in> {1..length p - length root}.
        \<not> path_is_link_or_reparse fs (root @ take n (drop (length root) p))"
    using assms(1) by (auto simp: normalize_repo_path_iff)
  obtain r where r: "q = root @ r" "r \<noteq> []"
    using assms(2) by (auto simp: strict_prefix_def prefix_def)
  obtain t where t: "p = root @ r @ t" using assms(3) r by (auto simp: prefix_def)
  have "length r \<in> {1..length p - length root}" using r t by (cases r) auto
  with no have "\<not> path_is_link_or_reparse fs (root @ take (length r) (drop (length root) p))" by blast
  then show ?thesis using r t by simp
qed

text \<open>
  C38: Every output path the pipeline accepts lies strictly below the repository's \<open>tmp\<close>
  directory, has no empty, dot or dot-dot component left, is reached through no link or
  junction, and does not name a directory; whatever the path that was asked for.
\<close>

theorem resolve_output_path_confined:
  assumes "resolve_output_path fs root value = Inr p"
  shows "(\<exists>rest. rest \<noteq> [] \<and> p = root @ ''tmp'' # rest) \<and>
      list_all (\<lambda>s. s \<noteq> [] \<and> s \<noteq> ''.'' \<and> s \<noteq> ''..'') p \<and> map_of fs p \<noteq> Some Dir \<and>
      (\<forall>q. strict_prefix root q \<longrightarrow> prefix q p \<longrightarrow> \<not> path_is_link_or_reparse fs q)"
proof -
  have n: "normalize_repo_path fs root value ''deployment plan output'' = Inr p"
    using assms by (auto simp: resolve_output_path_def rbind_eq_Inr Let_def split: if_splits)
  have "list_all (\<lambda>s. s \<noteq> [] \<and> s \<noteq> ''.'' \<and> s \<noteq> ''..'') p"
    using n normpath_normal[of "[]"] by (simp add: normalize_repo_path_iff)
  moreover have "map_of fs p \<noteq> Some Dir"
    using assms n by (auto simp: resolve_output_path_def Let_def path_exists_def path_is_file_def
        split: if_splits)
  ultimately show ?thesis
    using resolve_output_path_inside[OF assms] normalize_repo_path_no_link[OF n] by blast
qed

theorem resolve_output_path_confined_witness:
  "resolve_output_path [] [''repo''] (Rel [''tmp'', ''..'', ''tmp'', ''plan.json'']) =
     Inr [''repo'', ''tmp'', ''plan.json''] \<and>
   (\<exists>rest. rest \<noteq> [] \<and> [''repo'', ''tmp'', ''plan.json''] = [''repo''] @ ''tmp'' # rest)"
proof -
  have r: "resolve_output_path [] [''repo''] (Rel [''tmp'', ''..'', ''tmp'', ''plan.json'']) =
     Inr [''repo'', ''tmp'', ''plan.json'']"
    by code_simp
  then show ?thesis using resolve_output_path_confined[OF r] by blast
qed

end
