(* ===== verification/Py_Values.thy ===== *)
theory Py_Values
  imports Json_Text "HOL-Library.Sublist"
begin

text \<open>
  What the modelled code uses of Python's strings and of its operations on values of any type:
  \<open>in\<close>, \<open>replace\<close>, \<open>strip\<close>, \<open>repr\<close>, \<open>str\<close>, \<open>int\<close>, subscripts, truth, iteration, \<open>set\<close> and
  \<open>sorted\<close>. Characters beyond ASCII are printable, and are neither white space nor digits.
\<close>

section \<open>Text\<close>

fun contains :: "string \<Rightarrow> string \<Rightarrow> bool" where
  "contains needle [] = (needle = [])"
| "contains needle (c # cs) = (prefix needle (c # cs) \<or> contains needle cs)"

text \<open>\<open>repr(s)\<close>; a printable character, and any character beyond ASCII, stands for itself.\<close>

definition repr_char :: "char \<Rightarrow> char \<Rightarrow> string" where
  "repr_char quote c =
     (if c = quote \<or> c = CHR 0x5C then [CHR 0x5C, c]
      else if c = CHR 0x0A then [CHR 0x5C, CHR ''n'']
      else if c = CHR 0x0D then [CHR 0x5C, CHR ''r'']
      else if c = CHR 0x09 then [CHR 0x5C, CHR ''t'']
      else if (of_char c :: nat) < 32 \<or> (of_char c :: nat) = 127
      then [CHR 0x5C, CHR ''x''] @ byte_hex (of_nat (of_char c))
      else [c])"

definition py_repr :: "string \<Rightarrow> string" where
  "py_repr s =
     (let quote = (if CHR 0x27 \<in> set s \<and> CHR 0x22 \<notin> set s then CHR 0x22 else CHR 0x27)
      in [quote] @ concat (map (repr_char quote) s) @ [quote])"

text \<open>\<open>f"{i:04d}"\<close> and \<open>str.upper\<close> on the ASCII letters.\<close>

definition dec4 :: "int \<Rightarrow> string" where
  "dec4 i =
     (let s = dec_int \<bar>i\<bar>; sign = (if i < 0 then ''-'' else '''')
      in sign @ replicate (4 - length sign - length s) (CHR ''0'') @ s)"

definition upper_char :: "char \<Rightarrow> char" where
  "upper_char c = (if is_lower c then char_of ((of_char c :: nat) - 32) else c)"

definition upper :: "string \<Rightarrow> string" where
  "upper s = map upper_char s"

text \<open>\<open>str.strip\<close> on ASCII white space.\<close>

definition int_space :: "char \<Rightarrow> bool" where
  "int_space c \<longleftrightarrow> of_char c = (32 :: nat) \<or> 9 \<le> (of_char c :: nat) \<and> (of_char c :: nat) \<le> 13 \<or>
     28 \<le> (of_char c :: nat) \<and> (of_char c :: nat) \<le> 31"

definition strip :: "string \<Rightarrow> string" where
  "strip s = rev (dropWhile int_space (rev (dropWhile int_space s)))"

text \<open>\<open>s.replace(old, new)\<close> for a non-empty \<open>old\<close>, and \<open>s.removeprefix(p)\<close>.\<close>

function replace_all :: "string \<Rightarrow> string \<Rightarrow> string \<Rightarrow> string" where
  "replace_all old new [] = []"
| "replace_all old new (c # cs) =
     (if old \<noteq> [] \<and> prefix old (c # cs) then new @ replace_all old new (drop (length old) (c # cs))
      else c # replace_all old new cs)"
  by pat_completeness auto
termination
  by (relation "measure (\<lambda>(old, new, s). length s)") auto

definition removeprefix :: "string \<Rightarrow> string \<Rightarrow> string" where
  "removeprefix p s = (if prefix p s then drop (length p) s else s)"

text \<open>\<open>int(s)\<close>: white space around it, a sign, digits with single underscores between them.\<close>

definition py_int :: "string \<Rightarrow> int res" where
  "py_int s =
     (let t = strip s;
          negative = (t \<noteq> [] \<and> hd t = CHR ''-'');
          body = (if t \<noteq> [] \<and> (hd t = CHR ''-'' \<or> hd t = CHR ''+'') then tl t else t);
          groups = split_on (CHR ''_'') body
      in if list_all (\<lambda>g. g \<noteq> [] \<and> list_all is_digit g) groups
         then Inr (if negative then - dec_value (concat groups) else dec_value (concat groups))
         else Inl (ValueError (''invalid literal for int() with base 10: '' @ py_repr s)))"

text \<open>\<open>repr\<close> of a list of strings.\<close>

definition py_repr_list :: "string list \<Rightarrow> string" where
  "py_repr_list xs = ''['' @ join '', '' (map py_repr xs) @ '']''"

section \<open>Values\<close>

definition type_name :: "json \<Rightarrow> string" where
  "type_name v =
     (case v of JNull \<Rightarrow> ''NoneType'' | JBool _ \<Rightarrow> ''bool'' | JInt _ \<Rightarrow> ''int'' | JStr _ \<Rightarrow> ''str''
      | JList _ \<Rightarrow> ''list'' | JDict _ \<Rightarrow> ''dict'')"

fun repr_json :: "json \<Rightarrow> string" where
  "repr_json JNull = ''None''"
| "repr_json (JBool b) = (if b then ''True'' else ''False'')"
| "repr_json (JInt i) = dec_int i"
| "repr_json (JStr s) = py_repr s"
| "repr_json (JList vs) = ''['' @ join '', '' (map repr_json vs) @ '']''"
| "repr_json (JDict d) = ''{'' @ join '', '' (map (\<lambda>(k, v). py_repr k @ '': '' @ repr_json v) d) @ ''}''"

definition str_json :: "json \<Rightarrow> string" where
  "str_json v = (case v of JStr s \<Rightarrow> s | _ \<Rightarrow> repr_json v)"

text \<open>\<open>bool(v)\<close>.\<close>

definition truthy :: "json \<Rightarrow> bool" where
  "truthy v =
     (case v of JNull \<Rightarrow> False | JBool b \<Rightarrow> b | JInt i \<Rightarrow> i \<noteq> 0 | JStr s \<Rightarrow> s \<noteq> [] | JList vs \<Rightarrow> vs \<noteq> []
      | JDict d \<Rightarrow> d \<noteq> [])"

text \<open>\<open>value[key]\<close> on a value that need not be an object.\<close>

definition subscript :: "json \<Rightarrow> string \<Rightarrow> json res" where
  "subscript v key =
     (case v of
        JDict d \<Rightarrow> dsub d key
      | JList _ \<Rightarrow> Inl (TypeError ''list indices must be integers or slices, not str'')
      | JStr _ \<Rightarrow> Inl (TypeError (''string indices must be integers, not '' @ py_repr ''str''))
      | JNull \<Rightarrow> Inl (TypeError (py_repr ''NoneType'' @ '' object is not subscriptable''))
      | JBool _ \<Rightarrow> Inl (TypeError (py_repr ''bool'' @ '' object is not subscriptable''))
      | JInt _ \<Rightarrow> Inl (TypeError (py_repr ''int'' @ '' object is not subscriptable'')))"

text \<open>\<open>v[k][l]...\<close>.\<close>

fun sub_path :: "json \<Rightarrow> string list \<Rightarrow> json res" where
  "sub_path v [] = Inr v"
| "sub_path v (k # ks) = rbind (subscript v k) (\<lambda>w. sub_path w ks)"

text \<open>\<open>iter(v)\<close>: the items of a list, the names of an object, the characters of a string.\<close>

definition py_iter :: "json \<Rightarrow> json list res" where
  "py_iter v =
     (case v of
        JList vs \<Rightarrow> Inr vs
      | JDict d \<Rightarrow> Inr (map JStr (dkeys d))
      | JStr s \<Rightarrow> Inr (map (\<lambda>n. JStr (utf8_char n)) (utf8_points s))
      | _ \<Rightarrow> Inl (TypeError (py_repr (type_name v) @ '' object is not iterable'')))"

text \<open>\<open>v in container\<close>.\<close>

definition py_in :: "json \<Rightarrow> json \<Rightarrow> bool res" where
  "py_in v container =
     (case container of
        JList vs \<Rightarrow> Inr (list_ex (py_eq v) vs)
      | JDict d \<Rightarrow> (case v of JList _ \<Rightarrow> Inl (unhashable ''list'') | JDict _ \<Rightarrow> Inl (unhashable ''dict'')
          | JStr s \<Rightarrow> Inr (dmem s d) | _ \<Rightarrow> Inr False)
      | JStr s \<Rightarrow> (case v of JStr t \<Rightarrow> Inr (contains t s)
          | _ \<Rightarrow> Inl (TypeError (py_repr ''in <string>'' @ '' requires string as left operand, not '' @ type_name v)))
      | _ \<Rightarrow> Inl (TypeError (''argument of type '' @ py_repr (type_name container) @ '' is not iterable'')))"

definition hashable :: "json \<Rightarrow> unit res" where
  "hashable v =
     (case v of JList _ \<Rightarrow> Inl (unhashable ''list'') | JDict _ \<Rightarrow> Inl (unhashable ''dict'') | _ \<Rightarrow> Inr ())"

text \<open>\<open>set(vs)\<close>: the first of equal values is kept.\<close>

definition py_member :: "json \<Rightarrow> json list \<Rightarrow> bool" where
  "py_member v vs \<longleftrightarrow> list_ex (py_eq v) vs"

definition add_member :: "json list \<Rightarrow> json \<Rightarrow> json list res" where
  "add_member acc v = rbind (hashable v) (\<lambda>_. Inr (if py_member v acc then acc else acc @ [v]))"

fun py_set_from :: "json list \<Rightarrow> json list \<Rightarrow> json list res" where
  "py_set_from acc [] = Inr acc"
| "py_set_from acc (v # vs) = rbind (add_member acc v) (\<lambda>acc'. py_set_from acc' vs)"

definition py_set :: "json list \<Rightarrow> json list res" where
  "py_set vs = py_set_from [] vs"

definition set_eq :: "json list \<Rightarrow> json list \<Rightarrow> bool" where
  "set_eq vs ws \<longleftrightarrow> list_all (\<lambda>v. py_member v ws) vs \<and> list_all (\<lambda>w. py_member w vs) ws"

text \<open>
  \<open>sorted(vs)\<close> of values of one type; the message names the types of a pair that cannot be
  compared.
\<close>

definition sort_values :: "json list \<Rightarrow> json list res" where
  "sort_values vs =
     (if length vs \<le> 1 then Inr vs
      else if list_all (\<lambda>v. case v of JInt _ \<Rightarrow> True | JBool _ \<Rightarrow> True | _ \<Rightarrow> False) vs
      then Inr (sort_key (\<lambda>v. case v of JInt i \<Rightarrow> i | JBool b \<Rightarrow> of_bool b | _ \<Rightarrow> 0) vs)
      else if list_all (\<lambda>v. case v of JStr _ \<Rightarrow> True | _ \<Rightarrow> False) vs
      then Inr (sort_key (\<lambda>v. case v of JStr s \<Rightarrow> s | _ \<Rightarrow> []) vs)
      else Inl (TypeError (py_repr ''<'' @ '' not supported between instances of '' @ py_repr (type_name (vs ! 1)) @
        '' and '' @ py_repr (type_name (hd vs)))))"

text \<open>\<open>len(v)\<close> and \<open>sep.join(vs)\<close>.\<close>

definition py_len :: "json \<Rightarrow> nat res" where
  "py_len v =
     (case v of
        JList vs \<Rightarrow> Inr (length vs)
      | JDict d \<Rightarrow> Inr (length d)
      | JStr s \<Rightarrow> Inr (length (utf8_points s))
      | _ \<Rightarrow> Inl (TypeError (''object of type '' @ py_repr (type_name v) @ '' has no len()'')))"

definition join_values :: "string \<Rightarrow> json list \<Rightarrow> string res" where
  "join_values sep vs =
     rbind (each (\<lambda>i v. case v of JStr s \<Rightarrow> Inr s
         | _ \<Rightarrow> Inl (TypeError (''sequence item '' @ dec i @ '': expected str instance, '' @ type_name v @ '' found''))) 0 vs)
       (\<lambda>ss. Inr (join sep ss))"

text \<open>A dictionary with keys of any type: \<open>d.get(k)\<close> and \<open>d[k] = v\<close>.\<close>

definition key_get :: "(json \<times> 'a) list \<Rightarrow> json \<Rightarrow> 'a option res" where
  "key_get g k = rbind (hashable k) (\<lambda>_. Inr (map_option snd (find (\<lambda>entry. py_eq (fst entry) k) g)))"

fun key_put :: "(json \<times> 'a) list \<Rightarrow> json \<Rightarrow> 'a \<Rightarrow> (json \<times> 'a) list" where
  "key_put [] k v = [(k, v)]"
| "key_put ((k', v') # g) k v = (if py_eq k' k then (k', v) # g else (k', v') # key_put g k v)"

text \<open>\<open>{item[key]: item for item in items}\<close>.\<close>

fun index_by :: "string \<Rightarrow> (json \<times> json) list \<Rightarrow> json list \<Rightarrow> (json \<times> json) list res" where
  "index_by key g [] = Inr g"
| "index_by key g (item # items) =
     rbind (subscript item key) (\<lambda>k. rbind (hashable k) (\<lambda>_. index_by key (key_put g k item) items))"

end
