(* ===== verification/Effects.thy ===== *)
theory Effects
  imports Files Py_Values
begin

text \<open>
  Effects as explicit state passing. The world is the file system, the trace of what the
  program has done so far, and the two local variables of \<open>execute_plan\<close> its exception
  handler reads (the in-memory journal and \<open>broadcast_attempted\<close>). Everything the program
  does not decide (replies of the RPC node, what a child process does, name resolution,
  the clock, the other processes on the machine, I/O failures, a crash) is the environment:
  a record of functions of the trace, over which every theorem quantifies.

  An \<open>io\<close> computation maps a world to a result and a world. Before every primitive step the
  environment may change the file system (\<open>interfere\<close>) and may make the step fail
  (\<open>fault\<close>): a failure with an ordinary exception is an I/O error, one with
  \<^const>\<open>KeyboardInterrupt\<close> an interrupt, and one with \<^const>\<open>Halted\<close> a crash, after which
  neither handlers nor \<open>finally\<close> blocks run. A theorem about the final world for every
  environment therefore speaks about every point at which the program can be cut off.
\<close>

section \<open>Environment and world\<close>

datatype event =
    Rpc string "json list" "json res"
  | Command "string list" "exn option"
  | Resolved string int
  | Replaced path
  | Published path
  | Made path
  | Removed path
  | Observed
  | Ticked
  | Slept
  | Fault exn

text \<open>One immutable file version, and what the validation of a release output returns.\<close>

record release_snapshot =
  snap_path :: path
  snap_raw :: "byte list"
  snap_sha256 :: string

record validated_output =
  vo_receipt :: json
  vo_receipt_snapshot :: release_snapshot
  vo_config_snapshot :: release_snapshot
  vo_foundry_config_snapshot :: release_snapshot
  vo_artifact_snapshots :: "release_snapshot list"

text \<open>The values \<open>eth_abi.encode\<close> is given.\<close>

datatype abi =
    AInt int
  | ABool bool
  | AStr string
  | ABytes "byte list"
  | AList "abi list"
  | ATuple "abi list"
  | ARaw json

text \<open>A child process: its exit status, output and error output, or why it was not run.\<close>

datatype completed =
    Exited int string string
  | NotRun exn

text \<open>
  A socket address tuple as \<open>getaddrinfo\<close> returns it: whether the family is \<open>AF_INET\<close> or
  \<open>AF_INET6\<close>, and the address text.
\<close>

record env =
  hash :: hashes
  encode_abi :: "string list \<Rightarrow> abi list \<Rightarrow> byte list res"
  schema_defect :: "json \<Rightarrow> string option"
  schema_errors :: "json \<Rightarrow> json \<Rightarrow> (json list \<times> string) list"
  interfere :: "event list \<Rightarrow> fs \<Rightarrow> fs"
  fault :: "event list \<Rightarrow> exn option"
  rpc_reply :: "event list \<Rightarrow> string \<Rightarrow> json list \<Rightarrow> json res"
  run :: "event list \<Rightarrow> string list \<Rightarrow> (string \<times> string) list \<Rightarrow> fs \<Rightarrow> completed \<times> fs"
  getaddrinfo :: "event list \<Rightarrow> string \<Rightarrow> int \<Rightarrow> (bool \<times> string) list res"
  monotonic :: "event list \<Rightarrow> int"
  environ :: "(string \<times> string) list"
  uuid4_hex :: "event list \<Rightarrow> string"
  release_output :: "event list \<Rightarrow> path \<Rightarrow> path \<Rightarrow> path \<Rightarrow> path \<Rightarrow> validated_output res"
  is_nfc :: "string \<Rightarrow> bool"

record world =
  files :: fs
  trace :: "event list"
  journal :: dict
  broadcast_attempted :: bool

type_synonym 'a io = "world \<Rightarrow> 'a res \<times> world"

section \<open>Combinators\<close>

definition io_return :: "'a \<Rightarrow> 'a io" where
  "io_return x w = (Inr x, w)"

definition io_raise :: "exn \<Rightarrow> 'a io" where
  "io_raise e w = (Inl e, w)"

definition lift :: "'a res \<Rightarrow> 'a io" where
  "lift r w = (r, w)"

definition io_bind :: "'a io \<Rightarrow> ('a \<Rightarrow> 'b io) \<Rightarrow> 'b io" where
  "io_bind m f w = (case m w of (Inl e, w') \<Rightarrow> (Inl e, w') | (Inr x, w') \<Rightarrow> f x w')"

definition io_then :: "'a io \<Rightarrow> 'b io \<Rightarrow> 'b io" where
  "io_then m n = io_bind m (\<lambda>_. n)"

text \<open>\<open>if not b: raise e\<close>, and \<open>if b: m\<close>.\<close>

definition require :: "bool \<Rightarrow> exn \<Rightarrow> unit io" where
  "require b e w = (if b then Inr () else Inl e, w)"

definition io_when :: "bool \<Rightarrow> unit io \<Rightarrow> unit io" where
  "io_when b m = (if b then m else io_return ())"

text \<open>\<open>try: m except Exception as e: h(e)\<close>.\<close>

definition io_catch :: "'a io \<Rightarrow> (exn \<Rightarrow> 'a io) \<Rightarrow> 'a io" where
  "io_catch m h w =
     (case m w of
        (Inl e, w') \<Rightarrow> if caught e then h e w' else (Inl e, w')
      | (Inr x, w') \<Rightarrow> (Inr x, w'))"

text \<open>\<open>try: m except C as e: raise D(...)\<close>, for a choice of exceptions.\<close>

definition io_rename :: "(exn \<Rightarrow> exn) \<Rightarrow> 'a io \<Rightarrow> 'a io" where
  "io_rename h m w = (case m w of (r, w') \<Rightarrow> (rmap_exn h r, w'))"

text \<open>\<open>try: m finally: fin\<close>; after a crash nothing runs.\<close>

definition io_finally :: "'a io \<Rightarrow> unit io \<Rightarrow> 'a io" where
  "io_finally m fin w =
     (case m w of (r, w') \<Rightarrow>
        if r = Inl Halted then (r, w')
        else (case fin w' of (Inl e, w'') \<Rightarrow> (Inl e, w'') | (Inr _, w'') \<Rightarrow> (r, w'')))"

text \<open>\<open>for i, x in enumerate(xs, start): acc = f(acc, i, x)\<close>.\<close>

fun io_fold :: "('b \<Rightarrow> nat \<Rightarrow> 'a \<Rightarrow> 'b io) \<Rightarrow> 'b \<Rightarrow> nat \<Rightarrow> 'a list \<Rightarrow> 'b io" where
  "io_fold f acc i [] = io_return acc"
| "io_fold f acc i (x # xs) = io_bind (f acc i x) (\<lambda>acc'. io_fold f acc' (Suc i) xs)"

lemmas run_defs = io_bind_def io_then_def io_return_def lift_def require_def

section \<open>Primitive steps\<close>

definition step :: "env \<Rightarrow> (event list \<Rightarrow> fs \<Rightarrow> event \<times> 'a res \<times> fs) \<Rightarrow> 'a io" where
  "step E act w =
     (let fs0 = interfere E (trace w) (files w) in
      case fault E (trace w) of
        Some e \<Rightarrow> (Inl e, w\<lparr>files := fs0, trace := trace w @ [Fault e]\<rparr>)
      | None \<Rightarrow>
          (case act (trace w) fs0 of (ev, r, fs1) \<Rightarrow>
             (r, w\<lparr>files := fs1, trace := trace w @ [ev]\<rparr>)))"

text \<open>A step that changes the file system, and leaves it as it is when it fails.\<close>

definition mutate :: "env \<Rightarrow> event \<Rightarrow> (fs \<Rightarrow> fs res) \<Rightarrow> unit io" where
  "mutate E ev f =
     step E (\<lambda>_ fs. case f fs of Inl e \<Rightarrow> (ev, Inl e, fs) | Inr fs' \<Rightarrow> (ev, Inr (), fs'))"

definition observe :: "env \<Rightarrow> (fs \<Rightarrow> 'a res) \<Rightarrow> 'a io" where
  "observe E f = step E (\<lambda>_ fs. (Observed, f fs, fs))"

type_synonym rpc_caller = "string \<Rightarrow> json list \<Rightarrow> json io"

definition rpc_call :: "env \<Rightarrow> rpc_caller" where
  "rpc_call E method params =
     step E (\<lambda>tr fs. let r = rpc_reply E tr method params in (Rpc method params r, r, fs))"

text \<open>
  \<open>default_command_runner\<close>: a non-zero exit status raises with the output of the process, in
  which the values of the variables that may hold a secret are replaced.
\<close>

definition SECRET_MARKERS :: "string list" where
  "SECRET_MARKERS = [''URL'', ''KEY'', ''TOKEN'', ''PASSWORD'', ''MNEMONIC'', ''SECRET'']"

definition secret_variable :: "string \<times> string \<Rightarrow> bool" where
  "secret_variable entry \<longleftrightarrow>
     snd entry \<noteq> [] \<and> list_ex (\<lambda>marker. contains marker (upper (fst entry))) SECRET_MARKERS"

definition redaction :: "string \<Rightarrow> string" where
  "redaction key = ''<redacted:'' @ key @ ''>''"

definition redact :: "(string \<times> string) list \<Rightarrow> string \<Rightarrow> string" where
  "redact variables detail =
     foldl (\<lambda>text entry. if secret_variable entry then replace_all (snd entry) (redaction (fst entry)) text
        else text) detail variables"

definition command_detail :: "string \<Rightarrow> string \<Rightarrow> string" where
  "command_detail out err = join [CHR 0x0A] (map strip (filter (\<lambda>part. strip part \<noteq> []) [out, err]))"

definition command_failure :: "(string \<times> string) list \<Rightarrow> completed \<Rightarrow> exn option" where
  "command_failure variables c =
     (case c of
        NotRun e \<Rightarrow> Some e
      | Exited code out err \<Rightarrow>
          if code = 0 then None
          else Some (CanonicalExecutionError (''canonical broadcaster command failed with exit '' @ dec_int code @
            '': '' @ redact variables (command_detail out err))))"

definition run_command :: "env \<Rightarrow> string list \<Rightarrow> (string \<times> string) list \<Rightarrow> unit io" where
  "run_command E cmd variables =
     step E (\<lambda>tr fs. case run E tr cmd variables fs of (c, fs') \<Rightarrow>
       let failure = command_failure variables c in
       (Command cmd failure, (case failure of None \<Rightarrow> Inr () | Some e \<Rightarrow> Inl e), fs'))"

definition clock :: "env \<Rightarrow> int io" where
  "clock E = step E (\<lambda>tr fs. (Ticked, Inr (monotonic E tr), fs))"

definition sleeper :: "env \<Rightarrow> unit io" where
  "sleeper E = step E (\<lambda>_ fs. (Slept, Inr (), fs))"

definition resolver :: "env \<Rightarrow> string \<Rightarrow> int \<Rightarrow> (bool \<times> string) list io" where
  "resolver E host port = step E (\<lambda>tr fs. (Resolved host port, getaddrinfo E tr host port, fs))"

definition fresh_session_id :: "env \<Rightarrow> string io" where
  "fresh_session_id E = step E (\<lambda>tr fs. (Observed, Inr (uuid4_hex E tr), fs))"

definition get_journal :: "dict io" where
  "get_journal w = (Inr (journal w), w)"

definition set_journal :: "dict \<Rightarrow> unit io" where
  "set_journal j w = (Inr (), w\<lparr>journal := j\<rparr>)"

definition get_attempted :: "bool io" where
  "get_attempted w = (Inr (broadcast_attempted w), w)"

definition set_attempted :: "bool \<Rightarrow> unit io" where
  "set_attempted b w = (Inr (), w\<lparr>broadcast_attempted := b\<rparr>)"

text \<open>\<open>journal[k] = v\<close>.\<close>

definition journal_set :: "string \<Rightarrow> json \<Rightarrow> unit io" where
  "journal_set k v w = (Inr (), w\<lparr>journal := dset (journal w) k v\<rparr>)"

section \<open>Writers\<close>

definition write_bytes_atomic :: "env \<Rightarrow> path \<Rightarrow> byte list \<Rightarrow> unit io" where
  "write_bytes_atomic E p raw = mutate E (Replaced p) (\<lambda>fs. replace_file fs p raw)"

definition write_json_atomic :: "env \<Rightarrow> path \<Rightarrow> json \<Rightarrow> unit io" where
  "write_json_atomic E p v = write_bytes_atomic E p (str_bytes (json_text v))"

definition write_json_exclusive :: "env \<Rightarrow> path \<Rightarrow> json \<Rightarrow> unit io" where
  "write_json_exclusive E p v =
     mutate E (Published p) (\<lambda>fs.
       rmap_exn (\<lambda>e. case e of
           FileExistsError _ \<Rightarrow> CanonicalExecutionError
             (''refusing to overwrite existing execution receipt '' @ path_text p)
         | OSError m \<Rightarrow> CanonicalExecutionError
             (''cannot publish execution receipt '' @ path_text p @ '': '' @ m)
         | _ \<Rightarrow> e)
       (link_file fs p (str_bytes (json_text v))))"

definition read_bytes :: "env \<Rightarrow> path \<Rightarrow> byte list io" where
  "read_bytes E p = observe E (\<lambda>fs. fs_read fs p)"

section \<open>Triples and invariants\<close>

text \<open>
  \<open>triple P m Q R\<close>: from a world with \<open>P\<close>, \<open>m\<close> returns with \<open>Q\<close> or raises with \<open>R\<close>.
\<close>

definition triple ::
  "(world \<Rightarrow> bool) \<Rightarrow> 'a io \<Rightarrow> ('a \<Rightarrow> world \<Rightarrow> bool) \<Rightarrow> (exn \<Rightarrow> world \<Rightarrow> bool) \<Rightarrow> bool" where
  "triple P m Q R \<longleftrightarrow>
     (\<forall>w. P w \<longrightarrow> (case m w of (Inl e, w') \<Rightarrow> R e w' | (Inr x, w') \<Rightarrow> Q x w'))"

definition keeps :: "(world \<Rightarrow> bool) \<Rightarrow> 'a io \<Rightarrow> bool" where
  "keeps I m \<longleftrightarrow> triple I m (\<lambda>_. I) (\<lambda>_. I)"

named_theorems keeps_rules \<open>computations that preserve an invariant\<close>

lemma tripleI:
  "(\<And>w e w'. P w \<Longrightarrow> m w = (Inl e, w') \<Longrightarrow> R e w') \<Longrightarrow>
   (\<And>w x w'. P w \<Longrightarrow> m w = (Inr x, w') \<Longrightarrow> Q x w') \<Longrightarrow> triple P m Q R"
  by (auto simp: triple_def split: prod.splits sum.splits)

lemma triple_returns: "triple P m Q R \<Longrightarrow> P w \<Longrightarrow> m w = (Inr x, w') \<Longrightarrow> Q x w'"
  by (force simp: triple_def)

lemma triple_raises: "triple P m Q R \<Longrightarrow> P w \<Longrightarrow> m w = (Inl e, w') \<Longrightarrow> R e w'"
  by (force simp: triple_def)

lemma triple_weaken:
  "triple P m Q R \<Longrightarrow> (\<And>w. P' w \<Longrightarrow> P w) \<Longrightarrow> (\<And>x w. Q x w \<Longrightarrow> Q' x w) \<Longrightarrow>
   (\<And>e w. R e w \<Longrightarrow> R' e w) \<Longrightarrow> triple P' m Q' R'"
  by (rule tripleI) (blast dest: triple_returns triple_raises)+

lemma triple_return: "(\<And>w. P w \<Longrightarrow> Q x w) \<Longrightarrow> triple P (io_return x) Q R"
  by (simp add: triple_def io_return_def)

lemma triple_raise: "(\<And>w. P w \<Longrightarrow> R e w) \<Longrightarrow> triple P (io_raise e) Q R"
  by (simp add: triple_def io_raise_def)

lemma triple_lift:
  "(\<And>w x. P w \<Longrightarrow> r = Inr x \<Longrightarrow> Q x w) \<Longrightarrow> (\<And>w e. P w \<Longrightarrow> r = Inl e \<Longrightarrow> R e w) \<Longrightarrow> triple P (lift r) Q R"
  by (cases r) (simp_all add: triple_def lift_def)

lemma triple_bind:
  assumes "triple P m Q' R" and "\<And>x. triple (Q' x) (f x) Q R"
  shows "triple P (io_bind m f) Q R"
  unfolding triple_def
proof (intro allI impI)
  fix w assume w: "P w"
  show "case io_bind m f w of (Inl e, w') \<Rightarrow> R e w' | (Inr x, w') \<Rightarrow> Q x w'"
  proof (cases "m w")
    case (Pair r w')
    show ?thesis
    proof (cases r)
      case (Inl e)
      then show ?thesis using Pair triple_raises[OF assms(1) w] by (simp add: io_bind_def)
    next
      case (Inr x)
      then have "Q' x w'" using Pair triple_returns[OF assms(1) w] by simp
      then show ?thesis using assms(2)[of x] Pair Inr by (simp add: io_bind_def triple_def)
    qed
  qed
qed

lemma triple_then:
  "triple P m (\<lambda>_. Q') R \<Longrightarrow> triple Q' n Q R \<Longrightarrow> triple P (io_then m n) Q R"
  unfolding io_then_def by (rule triple_bind)

lemma triple_require:
  "(\<And>w. P w \<Longrightarrow> b \<Longrightarrow> Q () w) \<Longrightarrow> (\<And>w. P w \<Longrightarrow> \<not> b \<Longrightarrow> R e w) \<Longrightarrow> triple P (require b e) Q R"
  by (simp add: triple_def require_def)

lemma triple_when:
  "(b \<Longrightarrow> triple P m Q R) \<Longrightarrow> (\<And>w. P w \<Longrightarrow> \<not> b \<Longrightarrow> Q () w) \<Longrightarrow> triple P (io_when b m) Q R"
  by (simp add: io_when_def triple_return)

lemma triple_if:
  "(b \<Longrightarrow> triple P m Q R) \<Longrightarrow> (\<not> b \<Longrightarrow> triple P n Q R) \<Longrightarrow> triple P (if b then m else n) Q R"
  by simp

lemma triple_rename:
  "triple P m Q (\<lambda>e. R (h e)) \<Longrightarrow> triple P (io_rename h m) Q R"
  by (fastforce simp: triple_def io_rename_def rmap_exn_def split: prod.splits sum.splits)

lemma triple_catch:
  assumes "triple P m Q R'" and "\<And>e. caught e \<Longrightarrow> triple (R' e) (h e) Q R"
    and "\<And>e w. \<not> caught e \<Longrightarrow> R' e w \<Longrightarrow> R e w"
  shows "triple P (io_catch m h) Q R"
  unfolding triple_def
proof (intro allI impI)
  fix w assume w: "P w"
  show "case io_catch m h w of (Inl e, w') \<Rightarrow> R e w' | (Inr x, w') \<Rightarrow> Q x w'"
  proof (cases "m w")
    case (Pair r w')
    show ?thesis
    proof (cases r)
      case (Inl e)
      then have "R' e w'" using Pair triple_raises[OF assms(1) w] by simp
      then show ?thesis using assms(2)[of e] assms(3)[of e] Pair Inl
        by (simp add: io_catch_def triple_def)
    next
      case (Inr x)
      then show ?thesis using Pair triple_returns[OF assms(1) w] by (simp add: io_catch_def)
    qed
  qed
qed

lemma triple_finally:
  assumes "triple P m Q' R'"
    and "\<And>x. triple (Q' x) fin (\<lambda>_. Q x) R"
    and "\<And>e. e \<noteq> Halted \<Longrightarrow> triple (R' e) fin (\<lambda>_. R e) R"
    and "\<And>w. R' Halted w \<Longrightarrow> R Halted w"
  shows "triple P (io_finally m fin) Q R"
  unfolding triple_def
proof (intro allI impI)
  fix w assume w: "P w"
  show "case io_finally m fin w of (Inl e, w') \<Rightarrow> R e w' | (Inr x, w') \<Rightarrow> Q x w'"
  proof (cases "m w")
    case (Pair r w')
    show ?thesis
    proof (cases r)
      case (Inl e)
      then have e: "R' e w'" using Pair triple_raises[OF assms(1) w] by simp
      show ?thesis
      proof (cases "e = Halted")
        case True
        then show ?thesis using e assms(4) Pair Inl by (simp add: io_finally_def)
      next
        case False
        then show ?thesis using e assms(3)[OF False] Pair Inl
          by (auto simp: io_finally_def triple_def split: prod.splits sum.splits)
      qed
    next
      case (Inr x)
      then have "Q' x w'" using Pair triple_returns[OF assms(1) w] by simp
      then show ?thesis using assms(2)[of x] Pair Inr
        by (auto simp: io_finally_def triple_def split: prod.splits sum.splits)
    qed
  qed
qed

lemma triple_fold:
  assumes "\<And>acc i x. x \<in> set xs \<Longrightarrow> triple (J acc i) (f acc i x) (\<lambda>acc'. J acc' (Suc i)) R"
  shows "triple (J acc i) (io_fold f acc i xs) (\<lambda>acc'. J acc' (i + length xs)) R"
  using assms
proof (induction xs arbitrary: acc i)
  case Nil
  then show ?case by (simp add: triple_return)
next
  case (Cons x xs)
  have "triple (J acc' (Suc i)) (io_fold f acc' (Suc i) xs) (\<lambda>acc'. J acc' (i + length (x # xs))) R" for acc'
    using Cons.IH[of acc' "Suc i"] Cons.prems by simp
  moreover have "triple (J acc i) (f acc i x) (\<lambda>acc'. J acc' (Suc i)) R"
    using Cons.prems by simp
  ultimately show ?case
    unfolding io_fold.simps by (intro triple_bind[where Q' = "\<lambda>acc'. J acc' (Suc i)"])
qed

lemma triple_step:
  assumes "\<And>w e. P w \<Longrightarrow> fault E (trace w) = Some e \<Longrightarrow>
      R e (w\<lparr>files := interfere E (trace w) (files w), trace := trace w @ [Fault e]\<rparr>)"
    and "\<And>w ev r fs. P w \<Longrightarrow> fault E (trace w) = None \<Longrightarrow>
      act (trace w) (interfere E (trace w) (files w)) = (ev, r, fs) \<Longrightarrow>
      (case r of Inl e \<Rightarrow> R e (w\<lparr>files := fs, trace := trace w @ [ev]\<rparr>)
       | Inr x \<Rightarrow> Q x (w\<lparr>files := fs, trace := trace w @ [ev]\<rparr>))"
  shows "triple P (step E act) Q R"
  unfolding triple_def
proof (intro allI impI)
  fix w assume w: "P w"
  obtain ev r fs where act: "act (trace w) (interfere E (trace w) (files w)) = (ev, r, fs)"
    by (cases "act (trace w) (interfere E (trace w) (files w))")
  show "case step E act w of (Inl e, w') \<Rightarrow> R e w' | (Inr x, w') \<Rightarrow> Q x w'"
    using assms(1)[OF w] assms(2)[OF w _ act] act
    by (cases "fault E (trace w)"; cases r) (simp_all add: step_def)
qed

subsection \<open>Invariants\<close>

lemma keeps_return [keeps_rules]: "keeps I (io_return x)"
  by (simp add: keeps_def triple_return)

lemma keeps_raise [keeps_rules]: "keeps I (io_raise e)"
  by (simp add: keeps_def triple_raise)

lemma keeps_lift [keeps_rules]: "keeps I (lift r)"
  unfolding keeps_def by (rule triple_lift)

lemma keeps_require [keeps_rules]: "keeps I (require b e)"
  unfolding keeps_def by (rule triple_require)

lemma keeps_bind [keeps_rules]: "keeps I m \<Longrightarrow> (\<And>x. keeps I (f x)) \<Longrightarrow> keeps I (io_bind m f)"
  unfolding keeps_def by (rule triple_bind)

lemma keeps_then [keeps_rules]: "keeps I m \<Longrightarrow> keeps I n \<Longrightarrow> keeps I (io_then m n)"
  unfolding keeps_def by (rule triple_then)

lemma keeps_when [keeps_rules]: "keeps I m \<Longrightarrow> keeps I (io_when b m)"
  unfolding keeps_def by (rule triple_when)

lemma keeps_if [keeps_rules]: "keeps I m \<Longrightarrow> keeps I n \<Longrightarrow> keeps I (if b then m else n)"
  by simp

lemma keeps_rename [keeps_rules]: "keeps I m \<Longrightarrow> keeps I (io_rename h m)"
  unfolding keeps_def by (rule triple_rename)

lemma keeps_catch [keeps_rules]: "keeps I m \<Longrightarrow> (\<And>e. keeps I (h e)) \<Longrightarrow> keeps I (io_catch m h)"
  unfolding keeps_def by (rule triple_catch)

lemma keeps_finally [keeps_rules]: "keeps I m \<Longrightarrow> keeps I fin \<Longrightarrow> keeps I (io_finally m fin)"
  unfolding keeps_def by (rule triple_finally)

lemma keeps_fold [keeps_rules]: "(\<And>acc i x. keeps I (f acc i x)) \<Longrightarrow> keeps I (io_fold f acc i xs)"
  unfolding keeps_def by (rule triple_fold[where J = "\<lambda>_ _. I"])

lemma keeps_case_prod [keeps_rules]: "(\<And>a b. keeps I (f a b)) \<Longrightarrow> keeps I (case p of (a, b) \<Rightarrow> f a b)"
  by (cases p) simp

lemma keeps_case_option [keeps_rules]:
  "keeps I m \<Longrightarrow> (\<And>x. keeps I (f x)) \<Longrightarrow> keeps I (case v of None \<Rightarrow> m | Some x \<Rightarrow> f x)"
  by (cases v) simp_all

lemma keepsD: "keeps I m \<Longrightarrow> I w \<Longrightarrow> I (snd (m w))"
  by (cases "m w"; cases "fst (m w)") (auto simp: keeps_def triple_def)

lemma returnsI: "fst (m w) = r \<Longrightarrow> \<exists>w'. m w = (r, w')"
  by (cases "m w") simp

lemma keeps_run: "keeps I m \<Longrightarrow> m w = (r, w') \<Longrightarrow> I w \<Longrightarrow> I w'"
  using keepsD[of I m w] by simp

lemma keepsI: "(\<And>w. I w \<Longrightarrow> I (snd (m w))) \<Longrightarrow> keeps I m"
  unfolding keeps_def triple_def by (metis (mono_tags, lifting) old.prod.case old.sum.exhaust old.sum.simps(5,6) snd_conv surj_pair)

lemma io_bind_Inr:
  "io_bind m f w = (Inr y, w'') \<longleftrightarrow> (\<exists>x w'. m w = (Inr x, w') \<and> f x w' = (Inr y, w''))"
  by (auto simp: io_bind_def split: prod.splits sum.splits)

lemma io_then_Inr:
  "io_then m n w = (Inr y, w'') \<longleftrightarrow> (\<exists>x w'. m w = (Inr x, w') \<and> n w' = (Inr y, w''))"
  by (simp add: io_then_def io_bind_Inr)

lemma lift_Inr: "lift r w = (Inr x, w') \<longleftrightarrow> r = Inr x \<and> w' = w"
  by (auto simp: lift_def)

lemma require_Inr: "require b e w = (Inr x, w') \<longleftrightarrow> b \<and> w' = w"
  by (auto simp: require_def)

lemma io_return_Inr: "io_return x w = (Inr y, w') \<longleftrightarrow> y = x \<and> w' = w"
  by (auto simp: io_return_def)

lemma io_raise_Inr: "io_raise e w = (Inr y, w') \<longleftrightarrow> False"
  by (auto simp: io_raise_def)

lemma io_rename_Inr: "io_rename h m w = (Inr y, w') \<longleftrightarrow> m w = (Inr y, w')"
  by (auto simp: io_rename_def rmap_exn_def split: prod.splits sum.splits)

lemma io_when_Inr: "io_when b m w = (Inr u, w') \<longleftrightarrow> (if b then m w = (Inr u, w') else w' = w)"
  by (auto simp: io_when_def io_return_def)

lemmas io_success = io_bind_Inr io_then_Inr lift_Inr require_Inr io_return_Inr io_raise_Inr
  io_rename_Inr io_when_Inr

text \<open>Elimination of a run that returned, one step at a time.\<close>

lemma io_bind_liftE:
  "io_bind (lift r) f w = (Inr y, w'') \<Longrightarrow> (\<And>x. r = Inr x \<Longrightarrow> f x w = (Inr y, w'') \<Longrightarrow> P) \<Longrightarrow> P"
  by (auto simp: io_success)

lemma io_then_liftE:
  "io_then (lift r) n w = (Inr y, w'') \<Longrightarrow> (\<And>x. r = Inr x \<Longrightarrow> n w = (Inr y, w'') \<Longrightarrow> P) \<Longrightarrow> P"
  by (auto simp: io_success)

lemma io_then_requireE:
  "io_then (require b e) n w = (Inr y, w'') \<Longrightarrow> (b \<Longrightarrow> n w = (Inr y, w'') \<Longrightarrow> P) \<Longrightarrow> P"
  by (auto simp: io_success)

lemma io_bind_returnE:
  "io_bind (io_return x) f w = (Inr y, w'') \<Longrightarrow> (f x w = (Inr y, w'') \<Longrightarrow> P) \<Longrightarrow> P"
  by (auto simp: io_success)

lemma io_bindE:
  "io_bind m f w = (Inr y, w'') \<Longrightarrow> (\<And>x w'. m w = (Inr x, w') \<Longrightarrow> f x w' = (Inr y, w'') \<Longrightarrow> P) \<Longrightarrow> P"
  by (auto simp: io_success)

lemma io_thenE:
  "io_then m n w = (Inr y, w'') \<Longrightarrow> (\<And>x w'. m w = (Inr x, w') \<Longrightarrow> n w' = (Inr y, w'') \<Longrightarrow> P) \<Longrightarrow> P"
  by (auto simp: io_success)

lemma io_returnE: "io_return x w = (Inr y, w') \<Longrightarrow> (y = x \<Longrightarrow> w' = w \<Longrightarrow> P) \<Longrightarrow> P"
  by (simp add: io_success)

lemma io_liftE: "lift r w = (Inr y, w') \<Longrightarrow> (r = Inr y \<Longrightarrow> w' = w \<Longrightarrow> P) \<Longrightarrow> P"
  by (simp add: io_success)

lemma io_requireE: "require b e w = (Inr u, w') \<Longrightarrow> (b \<Longrightarrow> w' = w \<Longrightarrow> P) \<Longrightarrow> P"
  by (simp add: io_success)

lemma io_renameE: "io_rename h m w = (Inr y, w') \<Longrightarrow> (m w = (Inr y, w') \<Longrightarrow> P) \<Longrightarrow> P"
  by (simp add: io_success)

lemma io_prodE:
  "(case p of (a, b) \<Rightarrow> f a b) w = (Inr y, w') \<Longrightarrow> (\<And>a b. p = (a, b) \<Longrightarrow> f a b w = (Inr y, w') \<Longrightarrow> P) \<Longrightarrow> P"
  by (cases p) auto

lemmas io_elims = io_bind_liftE io_then_liftE io_then_requireE io_bind_returnE io_bindE io_thenE
  io_returnE io_liftE io_requireE io_renameE io_prodE

section \<open>A quiet environment\<close>

text \<open>
  Nothing interferes and nothing fails; no node, no resolver and no child process answers.
  Concrete runs update the fields they need.
\<close>

definition quiet_env :: env where
  "quiet_env = \<lparr>
     hash = \<lparr>sha256 = (\<lambda>_. replicate 32 0), keccak = (\<lambda>_. replicate 32 0)\<rparr>,
     encode_abi = (\<lambda>_ _. Inr []),
     schema_defect = (\<lambda>_. None),
     schema_errors = (\<lambda>_ _. []),
     interfere = (\<lambda>_ fs. fs),
     fault = (\<lambda>_. None),
     rpc_reply = (\<lambda>_ _ _. Inl (CanonicalExecutionError ''no reply'')),
     run = (\<lambda>_ _ _ fs. (Exited 0 [] [], fs)),
     getaddrinfo = (\<lambda>_ _ _. Inl (OSError ''no resolver'')),
     monotonic = (\<lambda>_. 0),
     environ = [],
     uuid4_hex = (\<lambda>_. ''00''),
     release_output = (\<lambda>_ _ _ _ _. Inl (ReleaseBuildError ''no release'')),
     is_nfc = (\<lambda>_. True)\<rparr>"

definition empty_world :: world where
  "empty_world = \<lparr>files = [], trace = [], journal = [], broadcast_attempted = False\<rparr>"

end
