(* ===== verification/Ip_Address.thy ===== *)
theory Ip_Address
  imports Json_Text "HOL-Library.Product_Lexorder"
begin

unbundle bit_operations_syntax

text \<open>
  What the executor's RPC endpoint policy uses of the standard library: IPv4 and IPv6
  addresses as \<open>ipaddress\<close> parses, classifies and prints them (the tables are those of the
  pinned Python 3.12), \<open>socket.inet_aton\<close>, and the host and port of a URL as \<open>urlparse\<close>
  finds them. Addresses are machine words of 32 and 128 bits. A host name with a byte outside
  ASCII is treated as an invalid URL (\<open>urlparse\<close> accepts some after normalisation).
\<close>

section \<open>Addresses\<close>

datatype ip = V4 "32 word" | V6 "128 word"

definition ip_version :: "ip \<Rightarrow> nat" where
  "ip_version a = (case a of V4 _ \<Rightarrow> 4 | V6 _ \<Rightarrow> 6)"

definition ip_value :: "ip \<Rightarrow> int" where
  "ip_value a = (case a of V4 w \<Rightarrow> uint w | V6 w \<Rightarrow> uint w)"

text \<open>\<open>(version, packed)\<close>, the executor's sort key.\<close>

definition ip_key :: "ip \<Rightarrow> nat \<times> int" where
  "ip_key a = (ip_version a, ip_value a)"

section \<open>Parsing\<close>

fun all_some :: "'a option list \<Rightarrow> 'a list option" where
  "all_some [] = Some []"
| "all_some (None # xs) = None"
| "all_some (Some x # xs) = map_option (\<lambda>ys. x # ys) (all_some xs)"

definition parse_octet :: "string \<Rightarrow> int option" where
  "parse_octet s =
     (if s = [] \<or> \<not> list_all is_digit s \<or> 3 < length s \<or> (s \<noteq> ''0'' \<and> hd s = CHR ''0'')
      then None
      else let n = dec_value s in if 255 < n then None else Some n)"

definition base256 :: "int list \<Rightarrow> int" where
  "base256 ns = foldl (\<lambda>a n. 256 * a + n) 0 ns"

definition parse_ipv4 :: "string \<Rightarrow> int option" where
  "parse_ipv4 s =
     (let octets = split_on (CHR ''.'') s in
      if length octets \<noteq> 4 then None
      else map_option base256 (all_some (map parse_octet octets)))"

definition parse_hextet :: "string \<Rightarrow> int option" where
  "parse_hextet s =
     (if s = [] \<or> \<not> list_all is_hex s \<or> 4 < length s then None else Some (hex_value s))"

definition base65536 :: "int list \<Rightarrow> int" where
  "base65536 ns = foldl (\<lambda>a n. 65536 * a + n) 0 ns"

text \<open>An IPv4-style last part becomes two hextets.\<close>

definition expand_ipv4_suffix :: "string list \<Rightarrow> string list option" where
  "expand_ipv4_suffix parts =
     (if CHR ''.'' \<in> set (last parts)
      then map_option (\<lambda>n. butlast parts @ [int_digits 16 (n div 65536), int_digits 16 (n mod 65536)])
             (parse_ipv4 (last parts))
      else Some parts)"

text \<open>The inner positions at which a part is empty.\<close>

definition skip_indexes :: "string list \<Rightarrow> nat list" where
  "skip_indexes parts = filter (\<lambda>i. parts ! i = []) [1..<length parts - 1]"

definition hextets :: "string list \<Rightarrow> int list option" where
  "hextets parts = all_some (map parse_hextet parts)"

definition parse_ipv6_parts :: "string list \<Rightarrow> int option" where
  "parse_ipv6_parts parts =
     (if 9 < length parts then None
      else case skip_indexes parts of
        [] \<Rightarrow>
          if length parts \<noteq> 8 then None else map_option base65536 (hextets parts)
      | [skip] \<Rightarrow>
          let lead = (hd parts = []); trail = (last parts = []);
              parts_hi = (if lead then skip - 1 else skip);
              parts_lo = (if trail then length parts - skip - 2 else length parts - skip - 1) in
          if (lead \<and> parts_hi \<noteq> 0) \<or> (trail \<and> parts_lo \<noteq> 0) \<or> 7 < parts_hi + parts_lo then None
          else
            (case hextets (take parts_hi parts) of None \<Rightarrow> None
             | Some hi \<Rightarrow>
                 (case hextets (drop (length parts - parts_lo) parts) of None \<Rightarrow> None
                  | Some lo \<Rightarrow>
                      Some (base65536 (hi @ replicate (8 - (parts_hi + parts_lo)) 0 @ lo))))
      | _ \<Rightarrow> None)"

definition parse_ipv6 :: "string \<Rightarrow> int option" where
  "parse_ipv6 s =
     (let parts = split_on (CHR '':'') s in
      if length parts < 3 then None
      else Option.bind (expand_ipv4_suffix parts) parse_ipv6_parts)"

text \<open>\<open>s.partition(c)\<close>: what precedes the first \<open>c\<close>, whether there is one, and what follows.\<close>

definition partition_at :: "char \<Rightarrow> string \<Rightarrow> string \<times> bool \<times> string" where
  "partition_at c s =
     (takeWhile (\<lambda>d. d \<noteq> c) s, c \<in> set s, drop 1 (dropWhile (\<lambda>d. d \<noteq> c) s))"

definition ip_address :: "string \<Rightarrow> ip option" where
  "ip_address s =
     (if CHR ''/'' \<in> set s then None
      else case parse_ipv4 s of
        Some n \<Rightarrow> Some (V4 (of_int n))
      | None \<Rightarrow>
          (case partition_at (CHR ''%'') s of (addr, scoped, scope) \<Rightarrow>
             if scoped \<and> (scope = [] \<or> CHR ''%'' \<in> set scope) then None
             else map_option (\<lambda>n. V6 (of_int n)) (parse_ipv6 addr)))"

text \<open>The C library's \<open>inet_aton\<close>: one to four parts, decimal, octal or hexadecimal.\<close>

definition is_octal :: "char \<Rightarrow> bool" where
  "is_octal c \<longleftrightarrow> is_digit c \<and> c \<noteq> CHR ''8'' \<and> c \<noteq> CHR ''9''"

definition octal_value :: "string \<Rightarrow> int" where
  "octal_value s = foldl (\<lambda>n c. 8 * n + (of_char c - 48)) 0 s"

definition c_number :: "string \<Rightarrow> int \<times> string" where
  "c_number s =
     (if (take 2 s = ''0x'' \<or> take 2 s = ''0X'') \<and> takeWhile is_hex (drop 2 s) \<noteq> []
      then (hex_value (takeWhile is_hex (drop 2 s)), dropWhile is_hex (drop 2 s))
      else if take 1 s = ''0'' then (octal_value (takeWhile is_octal s), dropWhile is_octal s)
      else (dec_value (takeWhile is_digit s), dropWhile is_digit s))"

definition is_space :: "char \<Rightarrow> bool" where
  "is_space c \<longleftrightarrow> (of_char c :: nat) = 32 \<or> 9 \<le> (of_char c :: nat) \<and> (of_char c :: nat) \<le> 13"

fun aton :: "nat \<Rightarrow> int list \<Rightarrow> string \<Rightarrow> int option" where
  "aton dots acc s =
     (if take 1 s = [] \<or> \<not> is_digit (hd s) then None
      else case c_number s of (v, rest) \<Rightarrow>
        if 4294967295 < v then None
        else if take 1 rest = ''.'' then
          (case dots of 0 \<Rightarrow> None
           | Suc left \<Rightarrow> if 255 < v then None else aton left (acc @ [v]) (drop 1 rest))
        else if rest \<noteq> [] \<and> \<not> is_space (hd rest) then None
        else if 256 ^ (4 - length acc) \<le> v then None
        else Some (base256 (acc @ replicate (4 - length acc) 0) + v))"

declare aton.simps [simp del]

definition inet_aton :: "string \<Rightarrow> ip option" where
  "inet_aton s = map_option (\<lambda>n. V4 (of_int n)) (aton 3 [] s)"

section \<open>Classification\<close>

type_synonym 'w network = "'w word \<times> nat"

definition in_net4 :: "32 word \<Rightarrow> 32 network \<Rightarrow> bool" where
  "in_net4 a n = (case n of (base, len) \<Rightarrow> drop_bit (32 - len) a = drop_bit (32 - len) base)"

definition in_net6 :: "128 word \<Rightarrow> 128 network \<Rightarrow> bool" where
  "in_net6 a n = (case n of (base, len) \<Rightarrow> drop_bit (128 - len) a = drop_bit (128 - len) base)"

definition private4 :: "32 network list" where
  "private4 =
     [(0x00000000, 8), (0x0A000000, 8), (0x7F000000, 8), (0xA9FE0000, 16), (0xAC100000, 12),
      (0xC0000000, 24), (0xC00000AA, 31), (0xC0000200, 24), (0xC0A80000, 16), (0xC6120000, 15),
      (0xC6336400, 24), (0xCB007100, 24), (0xF0000000, 4), (0xFFFFFFFF, 32)]"

definition private4_exceptions :: "32 network list" where
  "private4_exceptions = [(0xC0000009, 32), (0xC000000A, 32)]"

definition shared4 :: "32 network" where
  "shared4 = (0x64400000, 10)"

definition private6 :: "128 network list" where
  "private6 =
     [(1, 128), (0, 128), (0xFFFF00000000, 96), (push_bit 80 0x0064FF9B0001, 48), (push_bit 112 0x0100, 64),
      (push_bit 112 0x2001, 23), (push_bit 96 0x20010DB8, 32), (push_bit 112 0x2002, 16),
      (push_bit 112 0xFC00, 7), (push_bit 112 0xFE80, 10)]"

definition private6_exceptions :: "128 network list" where
  "private6_exceptions =
     [(push_bit 96 0x20010001 + 1, 128), (push_bit 96 0x20010001 + 2, 128),
      (push_bit 96 0x20010003, 32), (push_bit 80 0x200100040112, 48),
      (push_bit 96 0x20010020, 28), (push_bit 96 0x20010030, 28)]"

definition reserved6 :: "128 network list" where
  "reserved6 =
     [(0, 8), (push_bit 112 0x0100, 8), (push_bit 112 0x0200, 7), (push_bit 112 0x0400, 6),
      (push_bit 112 0x0800, 5), (push_bit 112 0x1000, 4), (push_bit 112 0x4000, 3),
      (push_bit 112 0x6000, 3), (push_bit 112 0x8000, 3), (push_bit 112 0xA000, 3),
      (push_bit 112 0xC000, 3), (push_bit 112 0xE000, 4), (push_bit 112 0xF000, 5),
      (push_bit 112 0xF800, 6), (push_bit 112 0xFE00, 9)]"

definition is_private4 :: "32 word \<Rightarrow> bool" where
  "is_private4 a \<longleftrightarrow> list_ex (in_net4 a) private4 \<and> \<not> list_ex (in_net4 a) private4_exceptions"

definition ipv4_mapped :: "ip \<Rightarrow> ip option" where
  "ipv4_mapped a =
     (case a of V4 _ \<Rightarrow> None
      | V6 w \<Rightarrow> if drop_bit 32 w = 0xFFFF then Some (V4 (ucast w)) else None)"

fun is_global :: "ip \<Rightarrow> bool" where
  "is_global (V4 a) \<longleftrightarrow> \<not> in_net4 a shared4 \<and> \<not> is_private4 a"
| "is_global (V6 a) \<longleftrightarrow>
     (case ipv4_mapped (V6 a) of
        Some (V4 b) \<Rightarrow> \<not> is_private4 b
      | _ \<Rightarrow> \<not> (list_ex (in_net6 a) private6 \<and> \<not> list_ex (in_net6 a) private6_exceptions))"

fun is_loopback :: "ip \<Rightarrow> bool" where
  "is_loopback (V4 a) \<longleftrightarrow> in_net4 a (0x7F000000, 8)"
| "is_loopback (V6 a) \<longleftrightarrow> a = 1"

fun is_unspecified :: "ip \<Rightarrow> bool" where
  "is_unspecified (V4 a) \<longleftrightarrow> a = 0"
| "is_unspecified (V6 a) \<longleftrightarrow> a = 0"

fun is_link_local :: "ip \<Rightarrow> bool" where
  "is_link_local (V4 a) \<longleftrightarrow> in_net4 a (0xA9FE0000, 16)"
| "is_link_local (V6 a) \<longleftrightarrow> in_net6 a (push_bit 112 0xFE80, 10)"

fun is_multicast :: "ip \<Rightarrow> bool" where
  "is_multicast (V4 a) \<longleftrightarrow> in_net4 a (0xE0000000, 4)"
| "is_multicast (V6 a) \<longleftrightarrow> in_net6 a (push_bit 112 0xFF00, 8)"

fun is_reserved :: "ip \<Rightarrow> bool" where
  "is_reserved (V4 a) \<longleftrightarrow> in_net4 a (0xF0000000, 4)"
| "is_reserved (V6 a) \<longleftrightarrow> list_ex (in_net6 a) reserved6"

section \<open>Printing\<close>

definition octets4 :: "32 word \<Rightarrow> int list" where
  "octets4 a = (let n = uint a in [n div 16777216, n div 65536 mod 256, n div 256 mod 256, n mod 256])"

definition hextets6 :: "128 word \<Rightarrow> int list" where
  "hextets6 a = map (\<lambda>i. uint (drop_bit (112 - 16 * i) a) mod 65536) [0..<8]"

text \<open>The longest run of zeros, the first of several: its start and its length.\<close>

fun best_zero_run :: "nat \<Rightarrow> nat \<Rightarrow> nat \<times> nat \<Rightarrow> int list \<Rightarrow> nat \<times> nat" where
  "best_zero_run i run best [] = best"
| "best_zero_run i run best (h # hs) =
     (if h = 0 then
        best_zero_run (Suc i) (Suc run)
          (if snd best < Suc run then (Suc i - Suc run, Suc run) else best) hs
      else best_zero_run (Suc i) 0 best hs)"

definition compress_hextets :: "int list \<Rightarrow> string list" where
  "compress_hextets hs =
     (case best_zero_run 0 0 (0, 0) hs of (start, len) \<Rightarrow>
        if 1 < len then
          (if start = 0 then [''''] else []) @ map (int_digits 16) (take start hs) @ [''''] @
          map (int_digits 16) (drop (start + len) hs) @ (if start + len = length hs then [''''] else [])
        else map (int_digits 16) hs)"

definition compressed :: "ip \<Rightarrow> string" where
  "compressed a =
     (case a of V4 w \<Rightarrow> join ''.'' (map dec_int (octets4 w))
      | V6 w \<Rightarrow> join '':'' (compress_hextets (hextets6 w)))"

section \<open>URLs\<close>

definition is_ascii :: "char \<Rightarrow> bool" where
  "is_ascii c \<longleftrightarrow> (of_char c :: nat) < 128"

definition is_alpha :: "char \<Rightarrow> bool" where
  "is_alpha c \<longleftrightarrow> is_lower c \<or> is_upper c"

definition scheme_char :: "char \<Rightarrow> bool" where
  "scheme_char c \<longleftrightarrow> is_alpha c \<or> is_digit c \<or> c \<in> set ''+-.''"

definition rpartition_at :: "char \<Rightarrow> string \<Rightarrow> string" where
  "rpartition_at c s = rev (takeWhile (\<lambda>d. d \<noteq> c) (rev s))"

record url =
  url_scheme :: string
  url_netloc :: string

definition check_bracketed_host :: "string \<Rightarrow> bool" where
  "check_bracketed_host h =
     (if take 1 h = ''v'' then
        (case partition_at (CHR ''.'') (drop 1 h) of (v, dot, rest) \<Rightarrow>
           v \<noteq> [] \<and> list_all is_hex v \<and> dot \<and> rest \<noteq> [])
      else (case ip_address h of Some (V6 _) \<Rightarrow> True | _ \<Rightarrow> False))"

definition urlparse :: "string \<Rightarrow> url option" where
  "urlparse text =
     (let url = filter (\<lambda>c. c \<notin> {CHR 0x09, CHR 0x0A, CHR 0x0D})
                  (dropWhile (\<lambda>c. (of_char c :: nat) \<le> 32) text);
          (front, colon, back) = partition_at (CHR '':'') url;
          has_scheme = (colon \<and> front \<noteq> [] \<and> is_alpha (hd front) \<and> list_all scheme_char front);
          scheme = (if has_scheme then lower front else []);
          rest = (if has_scheme then back else url);
          netloc = (if take 2 rest = ''//''
                    then takeWhile (\<lambda>c. c \<notin> set ''/?#'') (drop 2 rest) else []);
          opened = (CHR ''['' \<in> set netloc); closed = (CHR '']'' \<in> set netloc);
          bracketed = fst (partition_at (CHR '']'') (snd (snd (partition_at (CHR ''['') netloc))))
      in if opened \<noteq> closed then None
         else if opened \<and> \<not> check_bracketed_host bracketed then None
         else if \<not> list_all is_ascii netloc then None
         else Some \<lparr>url_scheme = scheme, url_netloc = netloc\<rparr>)"

definition hostinfo :: "url \<Rightarrow> string \<times> string" where
  "hostinfo u =
     (let info = rpartition_at (CHR ''@'') (url_netloc u) in
      case partition_at (CHR ''['') info of (_, opened, bracketed) \<Rightarrow>
        if opened then
          (case partition_at (CHR '']'') bracketed of (host, _, after) \<Rightarrow>
             (host, snd (snd (partition_at (CHR '':'') after))))
        else
          (case partition_at (CHR '':'') info of (host, _, port) \<Rightarrow> (host, port)))"

definition url_hostname :: "url \<Rightarrow> string option" where
  "url_hostname u =
     (case hostinfo u of (host, _) \<Rightarrow>
        if host = [] then None
        else case partition_at (CHR ''%'') host of (name, percent, zone) \<Rightarrow>
          Some (lower name @ (if percent then CHR ''%'' # zone else [])))"

definition url_port :: "url \<Rightarrow> int option res" where
  "url_port u =
     (case hostinfo u of (_, port) \<Rightarrow>
        if port = [] then Inr None
        else if \<not> list_all is_digit port then Inl (ValueError ''Port could not be cast to integer value'')
        else if 65535 < dec_value port then Inl (ValueError ''Port out of range 0-65535'')
        else Inr (Some (dec_value port)))"

text \<open>\<open>host.rstrip(".").casefold()\<close>.\<close>

definition normalized_host :: "string \<Rightarrow> string" where
  "normalized_host host = lower (rev (dropWhile (\<lambda>c. c = CHR ''.'') (rev host)))"

end
