(* ===== verification/Network.thy ===== *)
theory Network
  imports Effects Ip_Address
begin

text \<open>
  The RPC endpoint policy, execution modes and signer arguments of
  \<open>execute_canonical_deployment_plan.py\<close>, and the CREATE addresses a plan must name.
  Name resolution is a step of the environment; everything else is pure.
\<close>

section \<open>Endpoints\<close>

definition is_loopback_rpc_url :: "string \<Rightarrow> bool" where
  "is_loopback_rpc_url rpc_url =
     (case urlparse rpc_url of None \<Rightarrow> False
      | Some parsed \<Rightarrow>
          (case url_hostname parsed of None \<Rightarrow> False
           | Some host \<Rightarrow>
               if url_scheme parsed \<noteq> ''http'' \<and> url_scheme parsed \<noteq> ''https'' then False
               else
                 let name = normalized_host host in
                 if name = ''localhost'' then True
                 else
                   (case (case ip_address name of Some a \<Rightarrow> Some a | None \<Rightarrow> inet_aton name) of
                      None \<Rightarrow> False
                    | Some address \<Rightarrow>
                        is_loopback address \<or>
                        (case ipv4_mapped address of None \<Rightarrow> False | Some m \<Rightarrow> is_loopback m))))"

definition normalize_ip_address :: "string \<Rightarrow> ip res" where
  "normalize_ip_address value =
     (case ip_address (fst (partition_at (CHR ''%'') value)) of
        None \<Rightarrow> Inl (CanonicalExecutionError ''RPC hostname resolution returned a non-IP address'')
      | Some address \<Rightarrow>
          Inr (case ipv4_mapped address of None \<Rightarrow> address | Some m \<Rightarrow> m))"

definition parse_rpc_endpoint :: "string \<Rightarrow> (string \<times> int) res" where
  "parse_rpc_endpoint rpc_url =
     (let invalid = CanonicalExecutionError ''RPC URL has an invalid hostname or port'' in
      case urlparse rpc_url of None \<Rightarrow> Inl invalid
      | Some parsed \<Rightarrow>
          (case url_port parsed of Inl _ \<Rightarrow> Inl invalid
           | Inr port \<Rightarrow>
               (case url_hostname parsed of
                  None \<Rightarrow> Inl (CanonicalExecutionError ''RPC URL must use http or https with a hostname'')
                | Some host \<Rightarrow>
                    if url_scheme parsed \<noteq> ''http'' \<and> url_scheme parsed \<noteq> ''https''
                    then Inl (CanonicalExecutionError ''RPC URL must use http or https with a hostname'')
                    else
                      let name = normalized_host host in
                      if name = [] then Inl (CanonicalExecutionError ''RPC URL must contain a hostname'')
                      else Inr (name,
                        case port of
                          Some p \<Rightarrow> if p = 0 then (if url_scheme parsed = ''https'' then 443 else 80) else p
                        | None \<Rightarrow> if url_scheme parsed = ''https'' then 443 else 80))))"

definition public_ip :: "ip \<Rightarrow> bool" where
  "public_ip a \<longleftrightarrow>
     is_global a \<and> \<not> is_loopback a \<and> \<not> is_unspecified a \<and> \<not> is_link_local a \<and>
     \<not> is_multicast a \<and> \<not> is_reserved a"

definition require_public_rpc_address :: "ip \<Rightarrow> string res" where
  "require_public_rpc_address address =
     (if \<not> public_ip address
      then Inl (CanonicalExecutionError
        ''live Sepolia RPC resolution must contain only globally routable unicast addresses'')
      else Inr (lower (compressed address)))"

definition address_key :: "string \<Rightarrow> nat \<times> int" where
  "address_key s = (case ip_address s of None \<Rightarrow> (0, 0) | Some a \<Rightarrow> ip_key a)"

text \<open>\<open>tuple(sorted(set(addresses), key=...))\<close>.\<close>

definition sorted_addresses :: "string list \<Rightarrow> string list" where
  "sorted_addresses addresses = sort_key address_key (remdups addresses)"

text \<open>The loop over the answers of the resolver.\<close>

definition public_answers :: "(bool \<times> string) list \<Rightarrow> string list res" where
  "public_answers answers =
     each (\<lambda>_ (is_ip, text).
       if \<not> is_ip
       then Inl (CanonicalExecutionError ''RPC hostname resolution returned a non-IP address family'')
       else
         rbind (x_require_string (JStr text) ''resolved address'') (\<lambda>s.
         rbind (normalize_ip_address s) require_public_rpc_address)) 0 answers"

definition endpoint_literal :: "string \<Rightarrow> ip option" where
  "endpoint_literal host =
     (case normalize_ip_address host of Inr a \<Rightarrow> Some a | Inl _ \<Rightarrow> inet_aton host)"

definition resolve_public_rpc_addresses :: "env \<Rightarrow> string \<Rightarrow> string list io" where
  "resolve_public_rpc_addresses E rpc_url =
     io_bind (lift (parse_rpc_endpoint rpc_url)) (\<lambda>(host, port).
     io_then (require (host \<noteq> ''localhost'')
       (CanonicalExecutionError ''live Sepolia RPC resolution rejects localhost''))
     (case endpoint_literal host of
        Some literal \<Rightarrow>
          io_bind (lift (require_public_rpc_address literal)) (\<lambda>a. io_return [a])
      | None \<Rightarrow>
          io_bind
            (io_rename (\<lambda>e. case e of
                OSError _ \<Rightarrow> CanonicalExecutionError ''live Sepolia RPC hostname resolution failed''
              | _ \<Rightarrow> e) (resolver E host port)) (\<lambda>answers.
          io_bind (lift (public_answers answers)) (\<lambda>addresses.
          io_then (require (addresses \<noteq> [])
            (CanonicalExecutionError ''live Sepolia RPC hostname resolution returned no addresses''))
          (io_return (sorted_addresses addresses))))))"

definition assert_rpc_resolution_unchanged :: "env \<Rightarrow> string \<Rightarrow> string list \<Rightarrow> unit io" where
  "assert_rpc_resolution_unchanged E rpc_url pinned =
     io_bind (resolve_public_rpc_addresses E rpc_url) (\<lambda>current.
     require (current = pinned)
       (CanonicalExecutionError ''live Sepolia RPC resolution changed after authorization''))"

definition resolution_guarded_rpc :: "env \<Rightarrow> rpc_caller \<Rightarrow> string \<Rightarrow> string list \<Rightarrow> rpc_caller" where
  "resolution_guarded_rpc E rpc rpc_url pinned method params =
     io_then (assert_rpc_resolution_unchanged E rpc_url pinned) (rpc method params)"

definition PUBLIC_RPC_RESOLUTION_POLICY :: string where
  "PUBLIC_RPC_RESOLUTION_POLICY = ''all_public_unchanged_before_request_v1''"

definition pinned_rpc_addresses :: "dict \<Rightarrow> string list option res" where
  "pinned_rpc_addresses network =
     (if dget network ''execution_mode'' \<noteq> JStr ''sepolia'' then Inr None
      else
        rbind (x_require_dict (dget network ''rpc_resolution'') ''network.rpc_resolution'') (\<lambda>resolution.
        if dget resolution ''policy'' \<noteq> JStr PUBLIC_RPC_RESOLUTION_POLICY
        then Inl (CanonicalExecutionError ''live Sepolia RPC resolution policy is missing'')
        else if dget resolution ''actual_peer_verified'' \<noteq> JBool False
        then Inl (CanonicalExecutionError ''executor must not claim live RPC peer verification'')
        else
          rbind (x_require_list (dget resolution ''resolved_addresses'')
                   ''network.rpc_resolution.resolved_addresses'') (\<lambda>values.
          rbind (each (\<lambda>i v. x_require_string v
                   (''network.rpc_resolution.resolved_addresses['' @ dec i @ '']'')) 0 values) (\<lambda>addresses.
          if addresses = []
          then Inl (CanonicalExecutionError ''live Sepolia RPC resolution set is empty'')
          else
            rbind (each (\<lambda>_ a. rbind (normalize_ip_address a) require_public_rpc_address) 0 addresses)
              (\<lambda>normal.
            if addresses \<noteq> sorted_addresses normal
            then Inl (CanonicalExecutionError
                   ''live Sepolia RPC resolution set is not exact normalized evidence'')
            else Inr (Some addresses))))))"

section \<open>Execution modes\<close>

definition EXECUTION_MODES :: "string list" where
  "EXECUTION_MODES = [''anvil'', ''local'', ''fork'', ''sepolia'', ''production'']"

definition SEPOLIA_CHAIN_ID :: int where
  "SEPOLIA_CHAIN_ID = 11155111"

definition LOCAL_ANVIL_CHAIN_ID :: int where
  "LOCAL_ANVIL_CHAIN_ID = 31337"

text \<open>The scope of an execution mode, or the reason it is refused.\<close>

definition rpc_scope_of ::
  "string \<Rightarrow> string \<Rightarrow> int \<Rightarrow> bool \<Rightarrow> bool \<Rightarrow> bool \<Rightarrow> bool \<Rightarrow> string res" where
  "rpc_scope_of mode environment chain_id production_candidate loopback authorized ephemeral =
     (if mode = ''anvil'' then
        (if environment \<noteq> ''anvil'' \<or> chain_id \<noteq> LOCAL_ANVIL_CHAIN_ID
         then Inl (CanonicalExecutionError ''anvil mode requires an anvil plan on chain 31337'')
         else if \<not> ephemeral \<or> \<not> loopback
         then Inl (CanonicalExecutionError ''anvil mode requires --local-anvil and a loopback RPC'')
         else Inr ''ephemeral_loopback_anvil'')
      else if mode = ''local'' then
        (if environment \<noteq> ''local'' \<or> chain_id \<noteq> LOCAL_ANVIL_CHAIN_ID \<or> \<not> loopback \<or> ephemeral
         then Inl (CanonicalExecutionError
           ''local mode requires a local chain-31337 plan and an operator-supplied loopback RPC'')
         else Inr ''operator_loopback_local'')
      else if mode = ''fork'' then
        (if environment \<noteq> ''fork'' \<or> chain_id \<noteq> LOCAL_ANVIL_CHAIN_ID \<or> \<not> loopback \<or> ephemeral
         then Inl (CanonicalExecutionError
           ''fork mode requires a fork chain-31337 plan and an operator-supplied loopback RPC'')
         else Inr ''operator_loopback_fork'')
      else if mode = ''sepolia'' then
        (if environment \<noteq> ''testnet'' \<or> chain_id \<noteq> SEPOLIA_CHAIN_ID
         then Inl (CanonicalExecutionError ''sepolia mode requires a testnet plan on chain 11155111'')
         else if ephemeral \<or> \<not> authorized
         then Inl (CanonicalExecutionError ''sepolia mode requires explicit --authorize-live-broadcast'')
         else if loopback
         then Inl (CanonicalExecutionError ''sepolia mode rejects loopback and localhost RPC endpoints'')
         else Inr ''authorized_live_sepolia'')
      else if \<not> production_candidate
      then Inl (CanonicalExecutionError ''production mode refuses a non-production candidate'')
      else Inl (CanonicalExecutionError
             ''production execution remains disabled in the bounded v2 consumer slice''))"

definition execution_network_record ::
  "env \<Rightarrow> dict \<Rightarrow> string \<Rightarrow> string \<Rightarrow> bool \<Rightarrow> bool \<Rightarrow> dict io" where
  "execution_network_record E plan rpc_url mode authorized ephemeral =
     io_then (require (mode \<in> set EXECUTION_MODES)
       (CanonicalExecutionError (''unsupported execution mode '' @ mode)))
     (io_bind (lift (x_require_dict (dget plan ''network'') ''network'')) (\<lambda>network.
      io_bind (lift (x_require_string (dget network ''environment'') ''network.environment'')) (\<lambda>environment.
      io_bind (lift (x_require_integer (dget network ''chain_id'') ''network.chain_id'')) (\<lambda>chain_id.
      io_bind (lift (x_require_dict (dget plan ''release_posture'') ''release_posture'')) (\<lambda>posture.
      io_bind (lift (rpc_scope_of mode environment chain_id
          (dget posture ''production_candidate'' = JBool True)
          (is_loopback_rpc_url rpc_url) authorized ephemeral)) (\<lambda>rpc_scope.
      io_bind (if mode = ''sepolia'' then resolve_public_rpc_addresses E rpc_url else io_return [])
        (\<lambda>resolved.
      io_then (require (\<not> (authorized \<and> mode \<noteq> ''sepolia''))
        (CanonicalExecutionError
          ''--authorize-live-broadcast is accepted only for sepolia in executor v1''))
      (io_return
        ([(''environment'', JStr environment), (''chain_id'', JInt chain_id),
          (''execution_mode'', JStr mode), (''rpc_scope'', JStr rpc_scope)] @
         (if mode = ''sepolia'' then
            [(''rpc_resolution'', JDict
               [(''policy'', JStr PUBLIC_RPC_RESOLUTION_POLICY),
                (''resolved_addresses'', JList (map JStr resolved)),
                (''actual_peer_verified'', JBool False)])]
          else []))))))))))"

section \<open>Signers\<close>

definition SIGNER_MODES :: "string list" where
  "SIGNER_MODES = [''unlocked'', ''ledger'', ''trezor'', ''keystore'']"

definition signer_arguments :: "string \<Rightarrow> string option \<Rightarrow> string option \<Rightarrow> string list res" where
  "signer_arguments mode keystore password_file =
     (if mode \<notin> set SIGNER_MODES
      then Inl (CanonicalExecutionError (''unsupported signer mode '' @ mode))
      else if mode \<noteq> ''keystore'' \<and> (keystore \<noteq> None \<or> password_file \<noteq> None)
      then Inl (CanonicalExecutionError ''--keystore and --password-file require --signer keystore'')
      else if mode = ''keystore'' then
        (case keystore of
           None \<Rightarrow> Inl (CanonicalExecutionError ''--signer keystore requires --keystore'')
         | Some k \<Rightarrow>
             Inr ([''--keystore'', k] @
               (case password_file of None \<Rightarrow> [] | Some p \<Rightarrow> [''--password-file'', p])))
      else if mode = ''unlocked'' then Inr [''--unlocked'']
      else if mode = ''ledger'' then Inr [''--ledger'']
      else Inr [''--trezor''])"

section \<open>Expected CREATE addresses\<close>

definition CANDIDATE_SCHEMA :: string where
  "CANDIDATE_SCHEMA = ''6529stream.canonical-deployment-candidate.v1''"

definition CANDIDATE_V2_SCHEMA :: string where
  "CANDIDATE_V2_SCHEMA = ''6529stream.canonical-deployment-candidate.v2''"

definition expected_create_address :: "hashes \<Rightarrow> string \<Rightarrow> int \<Rightarrow> nat \<Rightarrow> json \<Rightarrow> string res" where
  "expected_create_address H sender starting_nonce index value =
     (let path = ''deployments['' @ dec index @ '']'' in
      rbind (x_require_dict value path) (\<lambda>deployment.
      rbind (x_require_string (dget deployment ''instance_id'') (path @ ''.instance_id'')) (\<lambda>instance_id.
      rbind (x_require_address (dget deployment ''expected_address'') (path @ ''.expected_address'')) (\<lambda>expected.
      rbind (create_address H sender (starting_nonce + int index)) (\<lambda>derived.
      if expected \<noteq> derived
      then Inl (CanonicalExecutionError
        (''deployment '' @ instance_id @ '' expected address '' @ expected @
         '' does not match CREATE address '' @ derived @ '' for sender '' @ sender @
         '' at nonce '' @ dec_int (starting_nonce + int index)))
      else Inr expected)))))"

definition require_v2_expected_create_addresses ::
  "hashes \<Rightarrow> dict \<Rightarrow> string \<Rightarrow> int \<Rightarrow> string list option res" where
  "require_v2_expected_create_addresses H plan sender starting_nonce =
     rbind (x_require_dict (dget plan ''candidate'') ''candidate'') (\<lambda>candidate.
     rbind (x_require_string (dget candidate ''schema_version'') ''candidate.schema_version'') (\<lambda>schema.
     if schema \<noteq> CANDIDATE_V2_SCHEMA then Inr None
     else
       rbind (x_require_list (dget plan ''deployments'') ''deployments'') (\<lambda>deployments.
       rbind (each (expected_create_address H sender starting_nonce) 0 deployments) (\<lambda>addresses.
       Inr (Some addresses)))))"

section \<open>Lemmas\<close>

definition public_text :: "string \<Rightarrow> bool" where
  "public_text s \<longleftrightarrow> (\<exists>a. public_ip a \<and> s = lower (compressed a))"

lemma require_public_iff [res_simps]:
  "require_public_rpc_address a = Inr s \<longleftrightarrow> public_ip a \<and> s = lower (compressed a)"
  by (auto simp: require_public_rpc_address_def)

lemma set_sorted_addresses [simp]: "set (sorted_addresses xs) = set xs"
  by (simp add: sorted_addresses_def)

lemma distinct_sorted_addresses [simp]: "distinct (sorted_addresses xs)"
  by (simp add: sorted_addresses_def)

lemma sorted_addresses_Nil [simp]: "sorted_addresses xs = [] \<longleftrightarrow> xs = []"
  by (metis set_empty set_sorted_addresses)

lemma public_answers_public: "public_answers answers = Inr xs \<Longrightarrow> list_all public_text xs"
  unfolding public_answers_def
  by (auto simp: list_all_iff public_text_def res_simps dest!: each_set split: prod.splits)

lemma resolve_public_sound:
  assumes "resolve_public_rpc_addresses E url w = (Inr addresses, w')"
  shows "addresses \<noteq> [] \<and> distinct addresses \<and> list_all public_text addresses"
proof -
  obtain host port where e: "parse_rpc_endpoint url = Inr (host, port)"
    using assms by (auto simp: resolve_public_rpc_addresses_def io_success)
  show ?thesis
  proof (cases "endpoint_literal host")
    case (Some a)
    then show ?thesis
      using assms e
      by (auto simp: resolve_public_rpc_addresses_def io_success res_simps public_text_def)
  next
    case None
    then obtain answers xs where "public_answers answers = Inr xs" "xs \<noteq> []" "addresses = sorted_addresses xs"
      using assms e by (auto simp: resolve_public_rpc_addresses_def io_success)
    then show ?thesis
      using public_answers_public[of answers xs] by (auto simp: list_all_iff)
  qed
qed

lemma rpc_scope_of_iff:
  "rpc_scope_of mode environment chain candidate loopback authorized ephemeral = Inr scope \<longleftrightarrow>
     (mode = ''anvil'' \<and> environment = ''anvil'' \<and> chain = LOCAL_ANVIL_CHAIN_ID \<and> ephemeral \<and> loopback \<and>
        scope = ''ephemeral_loopback_anvil'') \<or>
     (mode = ''local'' \<and> environment = ''local'' \<and> chain = LOCAL_ANVIL_CHAIN_ID \<and> \<not> ephemeral \<and> loopback \<and>
        scope = ''operator_loopback_local'') \<or>
     (mode = ''fork'' \<and> environment = ''fork'' \<and> chain = LOCAL_ANVIL_CHAIN_ID \<and> \<not> ephemeral \<and> loopback \<and>
        scope = ''operator_loopback_fork'') \<or>
     (mode = ''sepolia'' \<and> environment = ''testnet'' \<and> chain = SEPOLIA_CHAIN_ID \<and> \<not> ephemeral \<and> authorized \<and>
        \<not> loopback \<and> scope = ''authorized_live_sepolia'')"
proof -
  consider "mode = ''anvil''" | "mode = ''local''" | "mode = ''fork''" | "mode = ''sepolia''" |
    "mode \<noteq> ''anvil''" "mode \<noteq> ''local''" "mode \<noteq> ''fork''" "mode \<noteq> ''sepolia''"
    by blast
  then show ?thesis
  proof cases
    case 1
    then show ?thesis by (simp add: rpc_scope_of_def) blast
  next
    case 2
    then show ?thesis by (simp add: rpc_scope_of_def) blast
  next
    case 3
    then show ?thesis by (simp add: rpc_scope_of_def) blast
  next
    case 4
    then show ?thesis by (simp add: rpc_scope_of_def) blast
  next
    case 5
    then show ?thesis by (simp add: rpc_scope_of_def)
  qed
qed

lemma execution_network_record_success:
  assumes "execution_network_record E plan url mode authorized ephemeral w = (Inr net, w')"
  obtains network environment chain posture scope resolved where
    "dget plan ''network'' = JDict network" "dget network ''environment'' = JStr environment"
    "dget network ''chain_id'' = JInt chain"
    "rpc_scope_of mode environment chain (dget posture ''production_candidate'' = JBool True)
       (is_loopback_rpc_url url) authorized ephemeral = Inr scope"
    "authorized \<longrightarrow> mode = ''sepolia''"
    "mode = ''sepolia'' \<longrightarrow> resolved \<noteq> [] \<and> distinct resolved \<and> list_all public_text resolved"
    "net = [(''environment'', JStr environment), (''chain_id'', JInt chain),
          (''execution_mode'', JStr mode), (''rpc_scope'', JStr scope)] @
         (if mode = ''sepolia'' then
            [(''rpc_resolution'', JDict
               [(''policy'', JStr PUBLIC_RPC_RESOLUTION_POLICY),
                (''resolved_addresses'', JList (map JStr resolved)),
                (''actual_peer_verified'', JBool False)])]
          else [])"
proof -
  obtain network environment chain posture scope resolved w1 where
    *: "x_require_dict (dget plan ''network'') ''network'' = Inr network"
    "x_require_string (dget network ''environment'') ''network.environment'' = Inr environment"
    "x_require_integer (dget network ''chain_id'') ''network.chain_id'' = Inr chain"
    "rpc_scope_of mode environment chain (dget posture ''production_candidate'' = JBool True)
       (is_loopback_rpc_url url) authorized ephemeral = Inr scope"
    "(if mode = ''sepolia'' then resolve_public_rpc_addresses E url else io_return []) w = (Inr resolved, w1)"
    "\<not> (authorized \<and> mode \<noteq> ''sepolia'')"
    "net = [(''environment'', JStr environment), (''chain_id'', JInt chain),
          (''execution_mode'', JStr mode), (''rpc_scope'', JStr scope)] @
         (if mode = ''sepolia'' then
            [(''rpc_resolution'', JDict
               [(''policy'', JStr PUBLIC_RPC_RESOLUTION_POLICY),
                (''resolved_addresses'', JList (map JStr resolved)),
                (''actual_peer_verified'', JBool False)])]
          else [])"
    by (insert assms[unfolded execution_network_record_def], elim io_elims) (rule that, assumption+)
  have "mode = ''sepolia'' \<longrightarrow> resolved \<noteq> [] \<and> distinct resolved \<and> list_all public_text resolved"
    using *(5) resolve_public_sound by (auto split: if_splits)
  then show ?thesis
    using *(1-3) *(6) by (intro that[OF _ _ _ *(4) _ _ *(7)]) (simp_all add: res_simps)
qed

lemma resolver_step:
  "resolver E host port w = (Inr answers, w') \<Longrightarrow>
     trace w' = trace w @ [Resolved host port] \<and> getaddrinfo E (trace w) host port = Inr answers"
  by (auto simp: resolver_def step_def Let_def split: option.splits)

lemma rpc_call_step:
  "rpc_call E m ps w = (Inr v, w') \<Longrightarrow>
     trace w' = trace w @ [Rpc m ps (Inr v)] \<and> rpc_reply E (trace w) m ps = Inr v"
  by (auto simp: rpc_call_def step_def Let_def split: option.splits)

section \<open>Properties\<close>

text \<open>
  C30: The executor never gets a network to work on outside its policy: production mode is
  always refused, a live broadcast is authorised exactly in \<open>sepolia\<close> mode, every other mode
  is bound to chain 31337 behind a loopback URL, and \<open>sepolia\<close> mode is bound to chain 11155111
  behind a URL that is not loopback and whose pinned addresses are non-empty, distinct and
  all public unicast addresses.
\<close>

theorem execution_network_record_policy:
  assumes "execution_network_record E plan url mode authorized ephemeral w = (Inr net, w')"
  shows "mode \<noteq> ''production'' \<and> (authorized \<longleftrightarrow> mode = ''sepolia'') \<and>
    (ephemeral \<longleftrightarrow> mode = ''anvil'') \<and>
    (mode \<noteq> ''sepolia'' \<longrightarrow> dget net ''chain_id'' = JInt 31337 \<and> is_loopback_rpc_url url) \<and>
    (mode = ''sepolia'' \<longrightarrow> dget net ''chain_id'' = JInt 11155111 \<and> \<not> is_loopback_rpc_url url \<and>
       (\<exists>addresses. dget net ''rpc_resolution'' = JDict
          [(''policy'', JStr PUBLIC_RPC_RESOLUTION_POLICY),
           (''resolved_addresses'', JList (map JStr addresses)), (''actual_peer_verified'', JBool False)] \<and>
          addresses \<noteq> [] \<and> distinct addresses \<and> list_all public_text addresses))"
proof -
  from assms obtain environment chain posture scope resolved where
    scope: "rpc_scope_of mode environment chain (dget posture ''production_candidate'' = JBool True)
       (is_loopback_rpc_url url) authorized ephemeral = Inr scope"
    and auth: "authorized \<longrightarrow> mode = ''sepolia''"
    and res: "mode = ''sepolia'' \<longrightarrow> resolved \<noteq> [] \<and> distinct resolved \<and> list_all public_text resolved"
    and net: "net = [(''environment'', JStr environment), (''chain_id'', JInt chain),
          (''execution_mode'', JStr mode), (''rpc_scope'', JStr scope)] @
         (if mode = ''sepolia'' then
            [(''rpc_resolution'', JDict
               [(''policy'', JStr PUBLIC_RPC_RESOLUTION_POLICY),
                (''resolved_addresses'', JList (map JStr resolved)),
                (''actual_peer_verified'', JBool False)])]
          else [])"
    by (rule execution_network_record_success) blast
  have chain: "dget net ''chain_id'' = JInt chain" by (simp add: net dget_def)
  show ?thesis
  proof (cases "mode = ''sepolia''")
    case True
    then have "dget net ''rpc_resolution'' = JDict
          [(''policy'', JStr PUBLIC_RPC_RESOLUTION_POLICY),
           (''resolved_addresses'', JList (map JStr resolved)), (''actual_peer_verified'', JBool False)]"
      by (simp add: net dget_def)
    with True scope res chain show ?thesis
      by (auto simp: rpc_scope_of_iff SEPOLIA_CHAIN_ID_def)
  next
    case False
    with scope auth chain show ?thesis
      by (auto simp: rpc_scope_of_iff LOCAL_ANVIL_CHAIN_ID_def)
  qed
qed

definition sepolia_plan :: dict where
  "sepolia_plan =
     [(''network'', JDict [(''environment'', JStr ''testnet''), (''name'', JStr ''sepolia''),
        (''chain_id'', JInt 11155111)]),
      (''release_posture'', JDict [(''production_candidate'', JBool False)])]"

definition sepolia_network :: dict where
  "sepolia_network =
     [(''environment'', JStr ''testnet''), (''chain_id'', JInt 11155111),
      (''execution_mode'', JStr ''sepolia''), (''rpc_scope'', JStr ''authorized_live_sepolia''),
      (''rpc_resolution'', JDict
         [(''policy'', JStr PUBLIC_RPC_RESOLUTION_POLICY),
          (''resolved_addresses'', JList [JStr ''8.8.8.8'']), (''actual_peer_verified'', JBool False)])]"

definition resolving_env :: env where
  "resolving_env = quiet_env\<lparr>
     getaddrinfo := (\<lambda>_ _ _. Inr [(True, ''::ffff:8.8.8.8''), (True, ''8.8.8.8'')]),
     rpc_reply := (\<lambda>_ _ _. Inr (JStr ''0x1''))\<rparr>"

theorem execution_network_record_policy_witness:
  "\<exists>w'. execution_network_record resolving_env sepolia_plan ''https://rpc.example.org'' ''sepolia'' True False
      empty_world = (Inr sepolia_network, w') \<and> \<not> is_loopback_rpc_url ''https://rpc.example.org''"
proof -
  have r: "fst (execution_network_record resolving_env sepolia_plan ''https://rpc.example.org'' ''sepolia''
      True False empty_world) = Inr sepolia_network"
    by code_simp
  then obtain w' where w: "execution_network_record resolving_env sepolia_plan ''https://rpc.example.org''
      ''sepolia'' True False empty_world = (Inr sepolia_network, w')"
    by (elim returnsI[THEN exE]) (rule that)
  from execution_network_record_policy[OF w] have "\<not> is_loopback_rpc_url ''https://rpc.example.org''"
    by simp
  then show ?thesis by (intro exI[of _ w'] conjI w)
qed

text \<open>
  The endpoint resolves to exactly the pinned addresses at this moment: a literal is the one pinned
  address, a host name is resolved anew and all its answers, normalised, are the pinned ones.
\<close>

definition resolves_to :: "env \<Rightarrow> event list \<Rightarrow> string \<Rightarrow> string list \<Rightarrow> bool" where
  "resolves_to E tr url pinned \<longleftrightarrow>
     (\<exists>host port. parse_rpc_endpoint url = Inr (host, port) \<and> host \<noteq> ''localhost'' \<and>
        (case endpoint_literal host of
           Some literal \<Rightarrow> \<exists>address. require_public_rpc_address literal = Inr address \<and> pinned = [address]
         | None \<Rightarrow> fault E tr = None \<and>
             (\<exists>answers addresses. getaddrinfo E tr host port = Inr answers \<and> public_answers answers = Inr addresses \<and>
                addresses \<noteq> [] \<and> sorted_addresses addresses = pinned)))"

text \<open>What the resolution of an endpoint asks for.\<close>

definition lookups :: "string \<Rightarrow> event list" where
  "lookups url =
     (case parse_rpc_endpoint url of
        Inl _ \<Rightarrow> []
      | Inr (host, port) \<Rightarrow> if endpoint_literal host = None then [Resolved host port] else [])"

lemma resolver_run:
  "resolver E host port w = (r, w') \<Longrightarrow>
     (case fault E (trace w) of
        None \<Rightarrow> r = getaddrinfo E (trace w) host port \<and> trace w' = trace w @ [Resolved host port]
      | Some e \<Rightarrow> r = Inl e \<and> trace w' = trace w @ [Fault e])"
  by (auto simp: resolver_def step_def Let_def split: option.splits)

lemma rpc_call_run:
  "rpc_call E m ps w = (r, w') \<Longrightarrow>
     (case fault E (trace w) of
        None \<Rightarrow> r = rpc_reply E (trace w) m ps \<and> trace w' = trace w @ [Rpc m ps r]
      | Some e \<Rightarrow> r = Inl e \<and> trace w' = trace w @ [Fault e])"
  by (auto simp: rpc_call_def step_def Let_def split: option.splits)

lemma assert_resolution_run:
  assumes "assert_rpc_resolution_unchanged E url pinned w = (r, w')"
  shows "if resolves_to E (trace w) url pinned then r = Inr () \<and> trace w' = trace w @ lookups url
    else (\<exists>e. r = Inl e) \<and> (\<exists>evs. trace w' = trace w @ evs \<and> (\<forall>m ps reply. Rpc m ps reply \<notin> set evs))"
proof (cases "parse_rpc_endpoint url")
  case (Inl e)
  then show ?thesis using assms
    by (auto simp: assert_rpc_resolution_unchanged_def resolve_public_rpc_addresses_def run_defs resolves_to_def)
next
  case (Inr endpoint)
  obtain host port where "endpoint = (host, port)" by (cases endpoint)
  note parse = Inr[unfolded this]
  show ?thesis
  proof (cases "host = ''localhost'' \<or> (\<exists>literal. endpoint_literal host = Some literal)")
    case True
    then show ?thesis using assms
      by (auto simp: assert_rpc_resolution_unchanged_def resolve_public_rpc_addresses_def run_defs resolves_to_def
          lookups_def parse split: sum.splits if_splits)
  next
    case False
    obtain a w1 where a: "resolver E host port w = (a, w1)" by (metis surj_pair)
    show ?thesis
    proof (cases a)
      case (Inl e)
      then have "\<not> resolves_to E (trace w) url pinned" "\<exists>ev. trace w1 = trace w @ [ev] \<and> (\<forall>m ps reply. ev \<noteq> Rpc m ps reply)"
        using resolver_run[OF a] False by (auto simp: resolves_to_def parse split: option.splits)
      moreover have "(\<exists>e. r = Inl e) \<and> w' = w1" using assms a Inl False
        by (auto simp: assert_rpc_resolution_unchanged_def resolve_public_rpc_addresses_def run_defs io_rename_def
            rmap_exn_def parse)
      ultimately show ?thesis by auto
    next
      case (Inr answers)
      then have t: "trace w1 = trace w @ [Resolved host port]" "fault E (trace w) = None"
          "getaddrinfo E (trace w) host port = Inr answers"
        using resolver_run[OF a] by (auto split: option.splits)
      have "w' = w1 \<and> (r = Inr () \<and> resolves_to E (trace w) url pinned \<or>
          (\<exists>e. r = Inl e) \<and> \<not> resolves_to E (trace w) url pinned)"
        using assms a Inr False t(2,3)
        by (auto simp: assert_rpc_resolution_unchanged_def resolve_public_rpc_addresses_def run_defs io_rename_def
            rmap_exn_def parse resolves_to_def split: sum.splits if_splits)
      then show ?thesis using t(1) False by (auto simp: lookups_def parse)
    qed
  qed
qed

text \<open>
  C31: Under a pinned resolution a JSON-RPC request is sent exactly when the endpoint, resolved
  anew in the step before (or being a literal), is at the pinned addresses. Then nothing
  happens between resolution and request, and the call ends as the request does; in every other
  case (a name that does not resolve, an answer that is not public, a changed or reordered
  set, an endpoint that is refused, a failure of the resolver) the call raises and no request is sent.
\<close>

theorem resolution_guarded_rpc_fresh:
  assumes "resolution_guarded_rpc E (rpc_call E) url pinned method params w = (r, w')"
  shows "if resolves_to E (trace w) url pinned
    then (\<exists>event. trace w' = trace w @ lookups url @ [event] \<and>
      (event = Rpc method params r \<or> (\<exists>e. event = Fault e \<and> r = Inl e)))
    else (\<exists>e. r = Inl e) \<and> (\<exists>events. trace w' = trace w @ events \<and> (\<forall>m ps reply. Rpc m ps reply \<notin> set events))"
proof -
  obtain q w1 where a: "assert_rpc_resolution_unchanged E url pinned w = (q, w1)" by (metis surj_pair)
  show ?thesis
  proof (cases q)
    case (Inl e)
    then have "w' = w1" "r = Inl e" using assms a by (auto simp: resolution_guarded_rpc_def run_defs)
    then show ?thesis using assert_resolution_run[OF a] Inl by (auto split: if_splits)
  next
    case (Inr u)
    then have "rpc_call E method params w1 = (r, w')" using assms a by (auto simp: resolution_guarded_rpc_def run_defs)
    from rpc_call_run[OF this] show ?thesis
      using assert_resolution_run[OF a] Inr by (auto split: if_splits option.splits)
  qed
qed

theorem resolution_guarded_rpc_fresh_witness:
  "\<exists>w'. resolution_guarded_rpc resolving_env (rpc_call resolving_env) ''https://rpc.example.org'' [''8.8.8.8'']
      ''eth_chainId'' [] empty_world = (Inr (JStr ''0x1''), w') \<and>
    trace w' = [Resolved ''rpc.example.org'' 443, Rpc ''eth_chainId'' [] (Inr (JStr ''0x1''))]"
proof -
  have "fst (resolution_guarded_rpc resolving_env (rpc_call resolving_env) ''https://rpc.example.org''
      [''8.8.8.8''] ''eth_chainId'' [] empty_world) = Inr (JStr ''0x1'')"
    by code_simp
  then obtain w' where w: "resolution_guarded_rpc resolving_env (rpc_call resolving_env)
      ''https://rpc.example.org'' [''8.8.8.8''] ''eth_chainId'' [] empty_world = (Inr (JStr ''0x1''), w')"
    by (elim returnsI[THEN exE]) (rule that)
  have e: "parse_rpc_endpoint ''https://rpc.example.org'' = Inr (''rpc.example.org'', 443)"
    "endpoint_literal ''rpc.example.org'' = None" "fault resolving_env [] = None"
    "getaddrinfo resolving_env [] ''rpc.example.org'' 443 = Inr [(True, ''::ffff:8.8.8.8''), (True, ''8.8.8.8'')]"
    "public_answers [(True, ''::ffff:8.8.8.8''), (True, ''8.8.8.8'')] = Inr [''8.8.8.8'', ''8.8.8.8'']"
    "sorted_addresses [''8.8.8.8'', ''8.8.8.8''] = [''8.8.8.8'']"
    by code_simp+
  have "trace empty_world = []" by (simp add: empty_world_def)
  then have "trace w' = [Resolved ''rpc.example.org'' 443, Rpc ''eth_chainId'' [] (Inr (JStr ''0x1''))]"
    using resolution_guarded_rpc_fresh[OF w] by (simp add: resolves_to_def lookups_def e)
  then show ?thesis by (intro exI[of _ w'] conjI w)
qed

text \<open>
  C33: A v2 plan passes the address check only if the expected address of its i-th
  deployment is, for every i, the address CREATE gives the sender's account at nonce
  \<open>starting_nonce + i\<close>; the addresses returned are those, in order.
\<close>

theorem require_v2_expected_create_addresses_exact:
  assumes "dget plan ''candidate'' = JDict candidate"
    and "dget candidate ''schema_version'' = JStr CANDIDATE_V2_SCHEMA"
    and "require_v2_expected_create_addresses H plan sender nonce = Inr result"
  shows "\<exists>deployments addresses. dget plan ''deployments'' = JList deployments \<and>
    result = Some addresses \<and> length addresses = length deployments \<and>
    (\<forall>i < length deployments. \<exists>d stated. deployments ! i = JDict d \<and>
       dget d ''expected_address'' = JStr stated \<and> addresses ! i = lower stated \<and>
       create_address H sender (nonce + int i) = Inr (addresses ! i))"
proof -
  obtain deployments addresses where d: "dget plan ''deployments'' = JList deployments"
    and e: "each (expected_create_address H sender nonce) 0 deployments = Inr addresses"
    and r: "result = Some addresses"
    using assms by (auto simp: require_v2_expected_create_addresses_def res_simps)
  have "\<exists>d stated. deployments ! i = JDict d \<and> dget d ''expected_address'' = JStr stated \<and>
       addresses ! i = lower stated \<and> create_address H sender (nonce + int i) = Inr (addresses ! i)"
    if "i < length deployments" for i
    using each_nth[OF e that]
    by (auto simp: expected_create_address_def Let_def res_simps x_require_address_iff)
  with each_length[OF e] d r show ?thesis by blast
qed

definition v2_plan :: dict where
  "v2_plan =
     [(''candidate'', JDict [(''schema_version'', JStr CANDIDATE_V2_SCHEMA)]),
      (''deployments'', JList
         [JDict [(''instance_id'', JStr ''a''),
                 (''expected_address'', JStr (''0x'' @ concat (replicate 20 ''00'')))]])]"

theorem require_v2_expected_create_addresses_exact_witness:
  "create_address (hash quiet_env) (''0x'' @ concat (replicate 20 ''aB'')) 7 =
     Inr (''0x'' @ concat (replicate 20 ''00''))"
proof -
  have r: "require_v2_expected_create_addresses (hash quiet_env) v2_plan (''0x'' @ concat (replicate 20 ''aB'')) 7 =
      Inr (Some [''0x'' @ concat (replicate 20 ''00'')])"
    by code_simp
  have c: "dget v2_plan ''candidate'' = JDict [(''schema_version'', JStr CANDIDATE_V2_SCHEMA)]"
    "dget [(''schema_version'', JStr CANDIDATE_V2_SCHEMA)] ''schema_version'' = JStr CANDIDATE_V2_SCHEMA"
    by (simp_all add: v2_plan_def dget_def)
  have d: "dget v2_plan ''deployments'' = JList [JDict [(''instance_id'', JStr ''a''),
      (''expected_address'', JStr (''0x'' @ concat (replicate 20 ''00'')))]]"
    by (simp add: v2_plan_def dget_def)
  from require_v2_expected_create_addresses_exact[OF c r] d show ?thesis by auto
qed

end
