(* ===== verification/Chain.thy ===== *)
theory Chain
  imports Network
begin

text \<open>
  What the executor reads from the chain and from Forge: the record of a broadcast, the
  confirmation wait, the sender's nonce, the verification of a deployment against a JSON-RPC
  node, and the canonical tip. \<open>verify_chain_deployment\<close> is one Python function; here each
  group of its checks is a definition and \<open>verify_chain_deployment\<close> their composition, in the
  order of the code.
\<close>

section \<open>The Forge broadcast record\<close>

definition fail_if :: "bool \<Rightarrow> string \<Rightarrow> unit res" where
  "fail_if b m = (if b then Inl (CanonicalExecutionError m) else Inr ())"

definition require_empty_list :: "json \<Rightarrow> string \<Rightarrow> string \<Rightarrow> unit res" where
  "require_empty_list v field m = rbind (x_require_list v field) (\<lambda>vs. fail_if (vs \<noteq> []) m)"

text \<open>The transaction entry: its hash and contract address.\<close>

definition broadcast_transaction ::
  "dict \<Rightarrow> int \<Rightarrow> string \<Rightarrow> int \<Rightarrow> string \<Rightarrow> string \<Rightarrow> (string \<times> string) res" where
  "broadcast_transaction transaction chain_id sender nonce contract initcode =
     rbind (fail_if (dget transaction ''transactionType'' \<noteq> JStr ''CREATE'')
       ''generic broadcaster retained a non-CREATE transaction'') (\<lambda>_.
     rbind (fail_if (dget transaction ''additionalContracts'' \<noteq> JList [])
       ''generic broadcaster retained unexpected additional contracts'') (\<lambda>_.
     rbind (x_require_hash (dget transaction ''hash'') ''Foundry transaction hash'') (\<lambda>transaction_hash.
     rbind (x_require_address (dget transaction ''contractAddress'')
       ''Foundry transaction contract address'') (\<lambda>contract_address.
     rbind (fail_if (hex_value (drop 2 contract_address) = 0)
       ''Foundry transaction retained the zero contract address'') (\<lambda>_.
     rbind (fail_if (contract_address \<noteq> contract)
       ''Foundry contract address differs from the sender/nonce CREATE address'') (\<lambda>_.
     rbind (x_require_dict (dget transaction ''transaction'') ''Foundry raw transaction'') (\<lambda>raw.
     rbind (fail_if (dget raw ''to'' \<noteq> JNull) ''Foundry CREATE transaction has a recipient'') (\<lambda>_.
     rbind (x_require_address (dget raw ''from'') ''Foundry transaction.from'') (\<lambda>origin.
     rbind (fail_if (origin \<noteq> sender) ''Foundry transaction sender mismatch'') (\<lambda>_.
     rbind (normalize_rpc_quantity (dget raw ''nonce'') ''Foundry transaction.nonce'') (\<lambda>n.
     rbind (fail_if (n \<noteq> nonce) ''Foundry transaction nonce mismatch'') (\<lambda>_.
     rbind (normalize_rpc_quantity (dget raw ''chainId'') ''Foundry transaction.chainId'') (\<lambda>c.
     rbind (fail_if (c \<noteq> chain_id) ''Foundry transaction chain id mismatch'') (\<lambda>_.
     rbind (normalize_rpc_quantity (dget raw ''value'') ''Foundry transaction.value'') (\<lambda>v.
     rbind (fail_if (v \<noteq> 0) ''generic CREATE transaction has nonzero value'') (\<lambda>_.
     rbind (x_require_hex None (dget raw ''input'') ''Foundry transaction.input'') (\<lambda>input.
     rbind (fail_if (input \<noteq> initcode) ''Foundry transaction input differs from canonical initcode'') (\<lambda>_.
     Inr (transaction_hash, contract_address)))))))))))))))))))"

definition broadcast_receipt :: "dict \<Rightarrow> string \<Rightarrow> string \<Rightarrow> string \<Rightarrow> unit res" where
  "broadcast_receipt receipt transaction_hash sender contract_address =
     rbind (x_require_hash (dget receipt ''transactionHash'') ''Foundry receipt transaction hash'') (\<lambda>h.
     rbind (fail_if (h \<noteq> transaction_hash) ''Foundry receipt transaction hash mismatch'') (\<lambda>_.
     rbind (normalize_rpc_quantity (dget receipt ''status'') ''Foundry receipt status'') (\<lambda>s.
     rbind (fail_if (s \<noteq> 1) ''Foundry retained receipt is not successful'') (\<lambda>_.
     rbind (fail_if (dget receipt ''to'' \<noteq> JNull) ''Foundry CREATE receipt has a recipient'') (\<lambda>_.
     rbind (x_require_address (dget receipt ''from'') ''Foundry receipt.from'') (\<lambda>f.
     rbind (fail_if (f \<noteq> sender) ''Foundry receipt sender mismatch'') (\<lambda>_.
     rbind (x_require_address (dget receipt ''contractAddress'') ''Foundry receipt.contractAddress'') (\<lambda>a.
     fail_if (a \<noteq> contract_address) ''Foundry receipt contract address mismatch''))))))))"

definition broadcast_document ::
  "json \<Rightarrow> int \<Rightarrow> string \<Rightarrow> int \<Rightarrow> string \<Rightarrow> string \<Rightarrow> (string \<times> string) res" where
  "broadcast_document value chain_id sender nonce contract initcode =
     rbind (x_require_dict value ''Foundry broadcast'') (\<lambda>document.
     rbind (x_require_integer (dget document ''chain'') ''Foundry broadcast.chain'') (\<lambda>chain.
     rbind (fail_if (chain \<noteq> chain_id) ''Foundry broadcast chain id mismatch'') (\<lambda>_.
     rbind (require_empty_list (dget document ''pending'') ''Foundry broadcast.pending''
       ''Foundry broadcast retains pending transactions'') (\<lambda>_.
     rbind (require_empty_list (dget document ''libraries'') ''Foundry broadcast.libraries''
       ''generic broadcaster unexpectedly records linked libraries'') (\<lambda>_.
     rbind (x_require_list (dget document ''transactions'') ''Foundry broadcast.transactions'') (\<lambda>transactions.
     rbind (fail_if (length transactions \<noteq> 1)
       ''generic broadcaster must retain exactly one transaction per entry'') (\<lambda>_.
     rbind (x_require_dict (hd transactions) ''Foundry broadcast transaction'') (\<lambda>transaction.
     rbind (broadcast_transaction transaction chain_id sender nonce contract initcode)
       (\<lambda>(transaction_hash, contract_address).
     rbind (x_require_list (dget document ''receipts'') ''Foundry broadcast.receipts'') (\<lambda>receipts.
     rbind (fail_if (length receipts \<noteq> 1)
       ''generic broadcaster must retain exactly one receipt per entry'') (\<lambda>_.
     rbind (x_require_dict (hd receipts) ''Foundry retained receipt'') (\<lambda>receipt.
     rbind (broadcast_receipt receipt transaction_hash sender contract_address) (\<lambda>_.
     Inr (transaction_hash, contract_address))))))))))))))"

text \<open>\<open>except (OSError, DeploymentPlanError)\<close> around reading and decoding a file.\<close>

definition cannot :: "string \<Rightarrow> exn \<Rightarrow> exn" where
  "cannot what e =
     (case e of
        OSError m \<Rightarrow> CanonicalExecutionError (what @ '': '' @ m)
      | FileExistsError m \<Rightarrow> CanonicalExecutionError (what @ '': '' @ m)
      | DeploymentPlanError m \<Rightarrow> CanonicalExecutionError (what @ '': '' @ m)
      | _ \<Rightarrow> e)"

definition read_json :: "env \<Rightarrow> string \<Rightarrow> path \<Rightarrow> json io" where
  "read_json E what p =
     io_rename (cannot what)
       (io_bind (read_bytes E p) (\<lambda>raw. lift (decode_json_bytes raw (path_text p))))"

definition transaction_hash_from_broadcast ::
  "env \<Rightarrow> path \<Rightarrow> int \<Rightarrow> string \<Rightarrow> int \<Rightarrow> string \<Rightarrow> string \<Rightarrow> (string \<times> string) io" where
  "transaction_hash_from_broadcast E p chain_id sender nonce contract initcode =
     io_bind (read_json E (''cannot validate Foundry broadcast '' @ path_text p) p) (\<lambda>value.
     lift (broadcast_document value chain_id sender nonce contract initcode))"

definition locate_broadcast :: "env \<Rightarrow> path \<Rightarrow> path io" where
  "locate_broadcast E broadcast_root =
     io_bind (observe E (\<lambda>fs. Inr (rglob fs broadcast_root ''run-latest.json''))) (\<lambda>candidates.
     io_then (require (length candidates = 1) (CanonicalExecutionError
       (''expected exactly one Foundry run-latest.json, found '' @ dec (length candidates))))
     (io_return (hd candidates)))"

section \<open>Confirmations and nonces\<close>

text \<open>
  Times are in milliseconds. Each round of the loop that does not return sleeps one second,
  so \<open>WAIT_FUEL\<close> rounds reach any deadline two minutes away (\<open>wait_for_confirmations_returns\<close>).
\<close>

definition TIMEOUT :: int where
  "TIMEOUT = 120000"

definition WAIT_FUEL :: nat where
  "WAIT_FUEL = 122"

fun wait_loop :: "nat \<Rightarrow> env \<Rightarrow> rpc_caller \<Rightarrow> int \<Rightarrow> int \<Rightarrow> int \<Rightarrow> int \<Rightarrow> int io" where
  "wait_loop 0 E rpc block confirmations required_tip deadline = io_raise Halted"
| "wait_loop (Suc n) E rpc block confirmations required_tip deadline =
     io_bind (rpc ''eth_blockNumber'' []) (\<lambda>reply.
     io_bind (lift (normalize_rpc_quantity reply ''eth_blockNumber'')) (\<lambda>latest.
     if required_tip \<le> latest then io_return latest
     else
       io_bind (clock E) (\<lambda>now.
       if deadline \<le> now
       then io_raise (CanonicalExecutionError
         (''deployment has '' @ dec_int (latest - block + 1) @ '' confirmation(s); '' @
          dec_int confirmations @ '' required''))
       else
         io_then (sleeper E)
           (wait_loop n E rpc block confirmations required_tip deadline))))"

definition wait_for_confirmations :: "env \<Rightarrow> rpc_caller \<Rightarrow> int \<Rightarrow> int \<Rightarrow> int io" where
  "wait_for_confirmations E rpc receipt_block confirmations =
     (let required_tip = receipt_block + max (confirmations - 1) 0 in
      io_bind (clock E) (\<lambda>now.
      wait_loop WAIT_FUEL E rpc receipt_block confirmations required_tip (now + TIMEOUT)))"

definition require_uncontended_sender_nonce :: "rpc_caller \<Rightarrow> string \<Rightarrow> int option \<Rightarrow> int io" where
  "require_uncontended_sender_nonce rpc sender expected_nonce =
     io_bind (rpc ''eth_getTransactionCount'' [JStr sender, JStr ''latest'']) (\<lambda>r1.
     io_bind (lift (normalize_rpc_quantity r1 ''latest sender nonce'')) (\<lambda>latest_nonce.
     io_bind (rpc ''eth_getTransactionCount'' [JStr sender, JStr ''pending'']) (\<lambda>r2.
     io_bind (lift (normalize_rpc_quantity r2 ''pending sender nonce'')) (\<lambda>pending_nonce.
     io_then (require (latest_nonce = pending_nonce) (CanonicalExecutionError
       ''sender has pending transactions; refusing ambiguous nonce ownership''))
     (io_then (require (case expected_nonce of None \<Rightarrow> True | Some n \<Rightarrow> latest_nonce = n)
       (CanonicalExecutionError (''sender nonce interleaving detected: expected '' @
          (case expected_nonce of None \<Rightarrow> [] | Some n \<Rightarrow> dec_int n) @ '', got '' @ dec_int latest_nonce)))
     (io_return latest_nonce))))))"

section \<open>Verification of a deployment\<close>

text \<open>What \<open>verify_chain_deployment\<close> is asked to verify.\<close>

record expectation =
  ex_transaction_hash :: string
  ex_sender :: string
  ex_chain_id :: int
  ex_nonce :: int
  ex_initcode :: string
  ex_contract_address :: string
  ex_runtime :: string
  ex_runtime_hash :: string
  ex_confirmations :: int

text \<open>The fields of the transaction the later checks use.\<close>

record chain_transaction =
  tx_sender :: string
  tx_input :: string
  tx_nonce :: int
  tx_block_hash :: string
  tx_block_number :: int

definition check_transaction :: "expectation \<Rightarrow> json \<Rightarrow> chain_transaction res" where
  "check_transaction X value =
     rbind (x_require_dict value ''eth_getTransactionByHash result'') (\<lambda>transaction.
     rbind (x_require_hash (dget transaction ''hash'') ''transaction.hash'') (\<lambda>h.
     rbind (fail_if (h \<noteq> ex_transaction_hash X) ''deployment transaction hash mismatch'') (\<lambda>_.
     rbind (fail_if (dget transaction ''to'' \<noteq> JNull)
       ''deployment transaction unexpectedly has a recipient'') (\<lambda>_.
     rbind (x_require_address (dget transaction ''from'') ''transaction.from'') (\<lambda>sender.
     rbind (fail_if (sender \<noteq> ex_sender X)
       (''deployment sender mismatch: expected '' @ ex_sender X @ '', got '' @ sender)) (\<lambda>_.
     rbind (x_require_hex None (dget transaction ''input'') ''transaction.input'') (\<lambda>input.
     rbind (fail_if (input \<noteq> ex_initcode X)
       ''actual deployment transaction input differs from canonical initcode'') (\<lambda>_.
     rbind (normalize_rpc_quantity (dget transaction ''value'') ''transaction.value'') (\<lambda>v.
     rbind (fail_if (v \<noteq> 0) ''actual deployment transaction has nonzero value'') (\<lambda>_.
     rbind (normalize_rpc_quantity (dget transaction ''nonce'') ''transaction.nonce'') (\<lambda>nonce.
     rbind (fail_if (nonce \<noteq> ex_nonce X)
       (''deployment nonce mismatch: expected '' @ dec_int (ex_nonce X) @ '', got '' @ dec_int nonce)) (\<lambda>_.
     rbind (if dget transaction ''chainId'' = JNull then Inr ()
            else rbind (normalize_rpc_quantity (dget transaction ''chainId'') ''transaction.chainId'') (\<lambda>c.
              fail_if (c \<noteq> ex_chain_id X) ''deployment transaction chain id mismatch'')) (\<lambda>_.
     rbind (x_require_hash (dget transaction ''blockHash'') ''transaction.blockHash'') (\<lambda>block_hash.
     rbind (normalize_rpc_quantity (dget transaction ''blockNumber'') ''transaction.blockNumber'') (\<lambda>block_number.
     Inr \<lparr>tx_sender = sender, tx_input = input, tx_nonce = nonce, tx_block_hash = block_hash,
          tx_block_number = block_number\<rparr>)))))))))))))))"

text \<open>The receipt's block: the number as it was spelled, its value, and the hash.\<close>

record receipt_block =
  rb_number_hex :: string
  rb_number :: int
  rb_hash :: string

definition check_receipt :: "expectation \<Rightarrow> chain_transaction \<Rightarrow> json \<Rightarrow> receipt_block res" where
  "check_receipt X tx value =
     rbind (x_require_dict value ''eth_getTransactionReceipt result'') (\<lambda>receipt.
     rbind (normalize_rpc_quantity (dget receipt ''status'') ''receipt.status'') (\<lambda>status.
     rbind (fail_if (status \<noteq> 1) ''deployment receipt is not successful'') (\<lambda>_.
     rbind (x_require_address (dget receipt ''contractAddress'') ''receipt.contractAddress'') (\<lambda>contract.
     rbind (fail_if (contract \<noteq> ex_contract_address X)
       ''actual receipt contract address differs from Foundry broadcast'') (\<lambda>_.
     rbind (fail_if (dget receipt ''to'' \<noteq> JNull) ''actual CREATE receipt has a recipient'') (\<lambda>_.
     rbind (x_require_string (dget receipt ''blockNumber'') ''receipt.blockNumber'') (\<lambda>number_hex.
     rbind (normalize_rpc_quantity (JStr number_hex) ''receipt.blockNumber'') (\<lambda>number.
     rbind (x_require_hash (dget receipt ''transactionHash'') ''receipt.transactionHash'') (\<lambda>h.
     rbind (fail_if (h \<noteq> ex_transaction_hash X) ''receipt transaction hash mismatch'') (\<lambda>_.
     rbind (x_require_address (dget receipt ''from'') ''receipt.from'') (\<lambda>sender.
     rbind (fail_if (sender \<noteq> ex_sender X) ''receipt sender mismatch'') (\<lambda>_.
     rbind (x_require_hash (dget receipt ''blockHash'') ''receipt.blockHash'') (\<lambda>block_hash.
     rbind (fail_if (tx_block_hash tx \<noteq> block_hash \<or> tx_block_number tx \<noteq> number)
       ''deployment transaction and receipt block identity mismatch'') (\<lambda>_.
     Inr \<lparr>rb_number_hex = number_hex, rb_number = number, rb_hash = block_hash\<rparr>))))))))))))))"

text \<open>\<open>require_hash(rpc("eth_getBlockByNumber", [number, False]).get("hash"))\<close> and its converse.\<close>

definition block_hash_at :: "rpc_caller \<Rightarrow> string \<Rightarrow> string \<Rightarrow> string \<Rightarrow> string io" where
  "block_hash_at rpc number_hex what field =
     io_bind (rpc ''eth_getBlockByNumber'' [JStr number_hex, JBool False]) (\<lambda>reply.
     io_bind (lift (x_require_dict reply what)) (\<lambda>block.
     lift (x_require_hash (dget block ''hash'') field)))"

definition block_by_hash :: "rpc_caller \<Rightarrow> string \<Rightarrow> string \<Rightarrow> dict io" where
  "block_by_hash rpc block_hash what =
     io_bind (rpc ''eth_getBlockByHash'' [JStr block_hash, JBool False]) (\<lambda>reply.
     lift (x_require_dict reply what))"

text \<open>Both the number and the hash of a block looked up by hash.\<close>

definition check_block_identity :: "dict \<Rightarrow> string \<Rightarrow> int \<Rightarrow> string \<Rightarrow> string \<Rightarrow> unit res" where
  "check_block_identity block label number block_hash message =
     rbind (normalize_rpc_quantity (dget block ''number'') (label @ '' block.number'')) (\<lambda>n.
     if n \<noteq> number then fail_if True message
     else
       rbind (x_require_hash (dget block ''hash'') (label @ '' block.hash'')) (\<lambda>h.
       fail_if (h \<noteq> block_hash) message))"

definition check_canonical_block :: "rpc_caller \<Rightarrow> receipt_block \<Rightarrow> unit io" where
  "check_canonical_block rpc rb =
     io_bind (block_hash_at rpc (rb_number_hex rb) ''eth_getBlockByNumber result'' ''block.hash'') (\<lambda>h.
     io_then (require (h = rb_hash rb) (CanonicalExecutionError ''receipt block is no longer canonical''))
     (io_bind (block_by_hash rpc (rb_hash rb) ''eth_getBlockByHash result'') (\<lambda>block.
      io_bind (lift (normalize_rpc_quantity (dget block ''number'') ''block.number'')) (\<lambda>n.
      require (n = rb_number rb)
        (CanonicalExecutionError ''receipt block hash resolves to the wrong height'')))))"

text \<open>The block at which the runtime is read: the receipt's, or a given tip after it.\<close>

definition runtime_block :: "rpc_caller \<Rightarrow> receipt_block \<Rightarrow> dict option \<Rightarrow> string io" where
  "runtime_block rpc rb verification_tip =
     (case verification_tip of None \<Rightarrow> io_return (rb_hash rb)
      | Some tip \<Rightarrow>
          io_bind (lift (x_require_integer (dget tip ''block_number'') ''verification_tip.block_number''))
            (\<lambda>tip_number.
          io_bind (lift (x_require_hash (dget tip ''block_hash'') ''verification_tip.block_hash''))
            (\<lambda>tip_hash.
          io_then (require (rb_number rb \<le> tip_number) (CanonicalExecutionError
            ''final verification tip predates the deployment receipt''))
          (io_bind (block_hash_at rpc (py_hex tip_number)
             ''verification-tip eth_getBlockByNumber result'' ''verification-tip block.hash'') (\<lambda>h.
          io_then (require (h = tip_hash) (CanonicalExecutionError
            ''final verification tip is no longer canonical''))
          (io_bind (block_by_hash rpc tip_hash ''verification-tip eth_getBlockByHash result'') (\<lambda>block.
          io_then (lift (check_block_identity block ''verification-tip'' tip_number tip_hash
            ''final verification tip hash resolves to the wrong block''))
          (io_return tip_hash))))))))"

definition code_at :: "rpc_caller \<Rightarrow> string \<Rightarrow> string \<Rightarrow> string \<Rightarrow> string io" where
  "code_at rpc contract block_hash field =
     io_bind (rpc ''eth_getCode'' [JStr contract,
       JDict [(''blockHash'', JStr block_hash), (''requireCanonical'', JBool True)]]) (\<lambda>reply.
     lift (x_require_hex None reply field))"

definition text_keccak :: "hashes \<Rightarrow> string \<Rightarrow> string res" where
  "text_keccak H text = rbind (bytes_fromhex (drop 2 text)) (\<lambda>raw. Inr (keccak256_hex H raw))"

text \<open>The runtime at the block, read twice: its text and its hash.\<close>

definition check_runtime ::
  "env \<Rightarrow> rpc_caller \<Rightarrow> expectation \<Rightarrow> string \<Rightarrow> (string \<times> string) io" where
  "check_runtime E rpc X block_hash =
     io_bind (code_at rpc (ex_contract_address X) block_hash ''eth_getCode result'') (\<lambda>runtime.
     io_then (require (runtime \<noteq> ''0x'') (CanonicalExecutionError ''deployed address has no runtime code''))
     (io_bind (lift (text_keccak (hash E) runtime)) (\<lambda>runtime_hash.
      io_then (require (runtime = ex_runtime X) (CanonicalExecutionError
        ''actual deployed runtime bytes differ from canonical runtime bytes''))
      (io_then (require (runtime_hash = ex_runtime_hash X) (CanonicalExecutionError
        ''actual deployed runtime hash differs from canonical runtime hash''))
      (io_bind (code_at rpc (ex_contract_address X) block_hash ''stable eth_getCode result'') (\<lambda>stable.
       io_then (require (stable = ex_runtime X) (CanonicalExecutionError
         ''stable deployed runtime differs from canonical runtime bytes''))
       (io_return (runtime, runtime_hash))))))))"

definition repeated_receipt_matches :: "expectation \<Rightarrow> receipt_block \<Rightarrow> json \<Rightarrow> unit res" where
  "repeated_receipt_matches X rb value =
     rbind (x_require_dict value ''repeated eth_getTransactionReceipt result'') (\<lambda>receipt.
     rbind (x_require_hash (dget receipt ''transactionHash'') ''repeated receipt.transactionHash'') (\<lambda>h.
     rbind (normalize_rpc_quantity (dget receipt ''status'') ''repeated receipt.status'') (\<lambda>status.
     rbind (x_require_address (dget receipt ''from'') ''repeated receipt.from'') (\<lambda>sender.
     rbind (x_require_address (dget receipt ''contractAddress'') ''repeated receipt.contractAddress'') (\<lambda>contract.
     rbind (normalize_rpc_quantity (dget receipt ''blockNumber'') ''repeated receipt.blockNumber'') (\<lambda>number.
     rbind (x_require_hash (dget receipt ''blockHash'') ''repeated receipt.blockHash'') (\<lambda>block_hash.
     fail_if ((h, status, sender, dget receipt ''to'', contract, number, block_hash) \<noteq>
         (ex_transaction_hash X, 1, ex_sender X, JNull, ex_contract_address X, rb_number rb, rb_hash rb))
       ''deployment receipt changed during canonical runtime verification'')))))))"

definition check_stability ::
  "rpc_caller \<Rightarrow> expectation \<Rightarrow> receipt_block \<Rightarrow> string \<Rightarrow> string \<Rightarrow> unit io" where
  "check_stability rpc X rb block_hash runtime =
     io_bind (rpc ''eth_getTransactionReceipt'' [JStr (ex_transaction_hash X)]) (\<lambda>reply.
     io_then (lift (repeated_receipt_matches X rb reply))
     (io_bind (block_hash_at rpc (rb_number_hex rb) ''repeated eth_getBlockByNumber result''
        ''repeated block.hash'') (\<lambda>h.
      io_then (require (h = rb_hash rb) (CanonicalExecutionError
        ''receipt block changed during canonical runtime verification''))
      (io_bind (code_at rpc (ex_contract_address X) block_hash ''repeated eth_getCode result'') (\<lambda>again.
       require (again = runtime) (CanonicalExecutionError
         ''receipt-block runtime changed during canonical verification''))))))"

definition verify_chain_deployment :: "env \<Rightarrow> rpc_caller \<Rightarrow> expectation \<Rightarrow> dict option \<Rightarrow> dict io" where
  "verify_chain_deployment E rpc X verification_tip =
     io_bind (rpc ''eth_getTransactionByHash'' [JStr (ex_transaction_hash X)]) (\<lambda>r1.
     io_bind (lift (check_transaction X r1)) (\<lambda>tx.
     io_bind (rpc ''eth_getTransactionReceipt'' [JStr (ex_transaction_hash X)]) (\<lambda>r2.
     io_bind (lift (check_receipt X tx r2)) (\<lambda>rb.
     io_bind (wait_for_confirmations E rpc (rb_number rb) (ex_confirmations X)) (\<lambda>_.
     io_then (check_canonical_block rpc rb)
     (io_bind (runtime_block rpc rb verification_tip) (\<lambda>runtime_block_hash.
      io_bind (check_runtime E rpc X runtime_block_hash) (\<lambda>(runtime, runtime_hash).
      io_then (check_stability rpc X rb runtime_block_hash runtime)
      (io_bind (lift (text_keccak (hash E) (tx_input tx))) (\<lambda>input_hash.
       io_return
         [(''transaction_hash'', JStr (ex_transaction_hash X)),
          (''transaction_input_keccak256'', JStr input_hash),
          (''sender'', JStr (tx_sender tx)),
          (''contract_address'', JStr (ex_contract_address X)),
          (''block_number'', JInt (rb_number rb)),
          (''block_hash'', JStr (rb_hash rb)),
          (''nonce'', JInt (tx_nonce tx)),
          (''confirmations_verified'', JInt (ex_confirmations X)),
          (''actual_runtime_length_bytes'', JInt (int (length (drop 2 runtime) div 2))),
          (''actual_runtime_keccak256'', JStr runtime_hash)]))))))))))"

section \<open>The canonical tip\<close>

definition capture_canonical_tip :: "rpc_caller \<Rightarrow> dict io" where
  "capture_canonical_tip rpc =
     io_bind (rpc ''eth_blockNumber'' []) (\<lambda>reply.
     io_bind (lift (normalize_rpc_quantity reply ''eth_blockNumber'')) (\<lambda>number.
     io_bind (block_hash_at rpc (py_hex number) ''tip eth_getBlockByNumber result'' ''tip block.hash'') (\<lambda>block_hash.
     io_bind (block_by_hash rpc block_hash ''tip eth_getBlockByHash result'') (\<lambda>block.
     io_then (lift (check_block_identity block ''tip'' number block_hash
       ''canonical tip hash resolves to the wrong block''))
     (io_return [(''block_number'', JInt number), (''block_hash'', JStr block_hash)])))))"

definition assert_canonical_tip_unchanged :: "rpc_caller \<Rightarrow> dict \<Rightarrow> unit io" where
  "assert_canonical_tip_unchanged rpc tip =
     io_bind (lift (x_require_integer (dget tip ''block_number'') ''tip.block_number'')) (\<lambda>number.
     io_bind (lift (x_require_hash (dget tip ''block_hash'') ''tip.block_hash'')) (\<lambda>expected_hash.
     io_bind (rpc ''eth_blockNumber'' []) (\<lambda>reply.
     io_bind (lift (normalize_rpc_quantity reply ''repeated eth_blockNumber'')) (\<lambda>current.
     io_then (require (current = number) (CanonicalExecutionError
       ''canonical tip advanced or regressed during final deployment sweep''))
     (io_bind (block_hash_at rpc (py_hex current) ''repeated tip eth_getBlockByNumber result''
        ''repeated tip block.hash'') (\<lambda>h.
      io_then (require (h = expected_hash) (CanonicalExecutionError
        ''canonical tip changed during final deployment sweep''))
      (io_bind (block_by_hash rpc expected_hash ''repeated tip eth_getBlockByHash result'') (\<lambda>block.
       lift (check_block_identity block ''repeated tip'' number expected_hash
         ''canonical tip hash changed during final deployment sweep'')))))))))"

definition preflight_rpc_capabilities :: "rpc_caller \<Rightarrow> string \<Rightarrow> dict io" where
  "preflight_rpc_capabilities rpc probe_address =
     io_bind (capture_canonical_tip rpc) (\<lambda>tip.
     io_bind (lift (x_require_integer (dget tip ''block_number'') ''tip.block_number'')) (\<lambda>block_number.
     io_bind (lift (x_require_hash (dget tip ''block_hash'') ''tip.block_hash'')) (\<lambda>block_hash.
     io_bind (block_by_hash rpc block_hash ''preflight eth_getBlockByHash result'') (\<lambda>block.
     io_bind (lift (normalize_rpc_quantity (dget block ''number'') ''preflight block.number'')) (\<lambda>n.
     io_then (require (n = block_number) (CanonicalExecutionError
       ''RPC block-hash lookup resolves the canonical tip to the wrong height''))
     (io_bind (lift (x_require_hash (dget block ''hash'') ''preflight block.hash'')) (\<lambda>h.
      io_then (require (h = block_hash) (CanonicalExecutionError
        ''RPC block-hash lookup returned the wrong canonical tip''))
      (io_bind (lift (x_require_address (JStr probe_address) ''preflight probe address'')) (\<lambda>probe.
       io_bind (code_at rpc probe block_hash ''preflight EIP-1898 eth_getCode result'') (\<lambda>_.
       io_then (assert_canonical_tip_unchanged rpc tip)
       (io_return
          [(''block_number'', JInt block_number), (''block_hash'', JStr block_hash),
           (''block_by_hash_verified'', JBool True),
           (''eip_1898_get_code_verified'', JBool True)])))))))))))"

section \<open>The JSON-RPC client\<close>

text \<open>The body of \<open>rpc_client\<close>'s \<open>call\<close>: the request text and the result in a response.\<close>

definition rpc_request :: "int \<Rightarrow> string \<Rightarrow> json list \<Rightarrow> byte list res" where
  "rpc_request request_id method params =
     (if IJSON_SAFE_INTEGER_MAX < request_id
      then Inl (CanonicalExecutionError ''JSON-RPC request id exceeded I-JSON range'')
      else Inr (str_bytes (dumps_compact (JDict
        [(''jsonrpc'', JStr ''2.0''), (''id'', JInt request_id), (''method'', JStr method),
         (''params'', JList params)]))))"

definition same_members :: "dict \<Rightarrow> string list \<Rightarrow> bool" where
  "same_members d ks \<longleftrightarrow> set (dkeys d) = set ks"

definition rpc_result :: "int \<Rightarrow> string \<Rightarrow> byte list res \<Rightarrow> json res" where
  "rpc_result request_id method response =
     (let label = ''<JSON-RPC '' @ method @ '' response>'';
          failed = (\<lambda>e. CanonicalExecutionError
            (''JSON-RPC '' @ method @ '' failed without retaining success ('' @ exn_name e @ '')''))
      in
      rbind (rmap_exn (\<lambda>e. case e of OSError _ \<Rightarrow> failed e | DeploymentPlanError _ \<Rightarrow> failed e | _ \<Rightarrow> e)
        (rbind response (\<lambda>raw. decode_json_bytes raw label))) (\<lambda>value.
      case value of
        JDict decoded \<Rightarrow>
          (if dget decoded ''jsonrpc'' \<noteq> JStr ''2.0'' \<or> dget decoded ''id'' \<noteq> JInt request_id \<or>
              request_id < 0 \<or> IJSON_SAFE_INTEGER_MAX < request_id
           then Inl (CanonicalExecutionError
             (''JSON-RPC '' @ method @ '' returned the wrong protocol version or id''))
           else if same_members decoded [''jsonrpc'', ''id'', ''error'']
           then Inl (CanonicalExecutionError (''JSON-RPC '' @ method @ '' returned an error response''))
           else if \<not> same_members decoded [''jsonrpc'', ''id'', ''result'']
           then Inl (CanonicalExecutionError (''JSON-RPC '' @ method @ '' returned an ambiguous response shape''))
           else dsub decoded ''result'')
      | _ \<Rightarrow> Inl (CanonicalExecutionError (''JSON-RPC '' @ method @ '' returned no object''))))"

section \<open>Passive steps\<close>

text \<open>
  A passive step asks, looks or waits; of the file system it sees what the other processes
  make of it. An invariant closed under passive steps is kept by every computation that is
  made of them, which is all this theory does.
\<close>

fun is_passive :: "event \<Rightarrow> bool" where
  "is_passive (Rpc _ _ _) = True"
| "is_passive (Resolved _ _) = True"
| "is_passive Observed = True"
| "is_passive Ticked = True"
| "is_passive Slept = True"
| "is_passive (Fault _) = True"
| "is_passive _ = False"

definition after :: "env \<Rightarrow> world \<Rightarrow> event \<Rightarrow> world" where
  "after E w ev = w\<lparr>files := interfere E (trace w) (files w), trace := trace w @ [ev]\<rparr>"

locale passive_invariant =
  fixes E :: env and I :: "world \<Rightarrow> bool"
  assumes closed: "I w \<Longrightarrow> is_passive ev \<Longrightarrow> I (after E w ev)"
begin

lemma step_keeps:
  assumes "\<And>tr fs. \<exists>ev r. act tr fs = (ev, r, fs) \<and> is_passive ev"
  shows "keeps I (step E act)"
  unfolding keeps_def
proof (rule triple_step)
  fix w e
  assume "I w"
  then show "I (w\<lparr>files := interfere E (trace w) (files w), trace := trace w @ [Fault e]\<rparr>)"
    using closed[of w "Fault e"] by (simp add: after_def)
next
  fix w ev r fs
  assume w: "I w" and act: "act (trace w) (interfere E (trace w) (files w)) = (ev, r, fs)"
  then have "fs = interfere E (trace w) (files w)" "is_passive ev"
    using assms[of "trace w" "interfere E (trace w) (files w)"] by auto
  then show "case r of Inl e \<Rightarrow> I (w\<lparr>files := fs, trace := trace w @ [ev]\<rparr>)
      | Inr x \<Rightarrow> I (w\<lparr>files := fs, trace := trace w @ [ev]\<rparr>)"
    using closed[OF w] by (simp add: after_def split: sum.split)
qed

lemma observe_keeps: "keeps I (observe E f)"
  unfolding observe_def by (rule step_keeps) simp

lemma read_bytes_keeps: "keeps I (read_bytes E p)"
  unfolding read_bytes_def by (rule observe_keeps)

lemma rpc_call_keeps: "keeps I (rpc_call E m ps)"
  unfolding rpc_call_def by (rule step_keeps) (simp add: Let_def)

lemma clock_keeps: "keeps I (clock E)"
  unfolding clock_def by (rule step_keeps) simp

lemma sleeper_keeps: "keeps I (sleeper E)"
  unfolding sleeper_def by (rule step_keeps) simp

lemma resolver_keeps: "keeps I (resolver E host port)"
  unfolding resolver_def by (rule step_keeps) simp

lemma fresh_session_id_keeps: "keeps I (fresh_session_id E)"
  unfolding fresh_session_id_def by (rule step_keeps) simp

lemmas passive_keeps = observe_keeps read_bytes_keeps rpc_call_keeps clock_keeps sleeper_keeps
  resolver_keeps fresh_session_id_keeps

lemma read_json_keeps: "keeps I (read_json E what p)"
  unfolding read_json_def by (intro keeps_rules passive_keeps)

lemma locate_broadcast_keeps: "keeps I (locate_broadcast E p)"
  unfolding locate_broadcast_def by (intro keeps_rules passive_keeps)

lemma transaction_hash_keeps: "keeps I (transaction_hash_from_broadcast E p c s n a i)"
  unfolding transaction_hash_from_broadcast_def by (intro keeps_rules read_json_keeps)

lemma resolve_public_keeps: "keeps I (resolve_public_rpc_addresses E url)"
  unfolding resolve_public_rpc_addresses_def by (intro keeps_rules passive_keeps)

lemma assert_resolution_keeps: "keeps I (assert_rpc_resolution_unchanged E url pinned)"
  unfolding assert_rpc_resolution_unchanged_def by (intro keeps_rules resolve_public_keeps)

lemma network_record_keeps: "keeps I (execution_network_record E plan url mode authorized ephemeral)"
  unfolding execution_network_record_def by (intro keeps_rules resolve_public_keeps)

lemma guarded_keeps: "keeps I (resolution_guarded_rpc E (rpc_call E) url pinned m ps)"
  unfolding resolution_guarded_rpc_def by (intro keeps_rules assert_resolution_keeps passive_keeps)

lemma wait_loop_keeps: "(\<And>m ps. keeps I (rpc m ps)) \<Longrightarrow> keeps I (wait_loop n E rpc b c t d)"
  by (induction n) (auto intro!: keeps_rules passive_keeps)

lemma wait_keeps: "(\<And>m ps. keeps I (rpc m ps)) \<Longrightarrow> keeps I (wait_for_confirmations E rpc b c)"
  unfolding wait_for_confirmations_def Let_def by (intro keeps_rules passive_keeps wait_loop_keeps)

lemma nonce_keeps:
  "(\<And>m ps. keeps I (rpc m ps)) \<Longrightarrow> keeps I (require_uncontended_sender_nonce rpc sender n)"
  unfolding require_uncontended_sender_nonce_def by (intro keeps_rules)

lemma block_lookup_keeps:
  "(\<And>m ps. keeps I (rpc m ps)) \<Longrightarrow> keeps I (block_hash_at rpc number what field)"
  "(\<And>m ps. keeps I (rpc m ps)) \<Longrightarrow> keeps I (block_by_hash rpc block_hash what)"
  "(\<And>m ps. keeps I (rpc m ps)) \<Longrightarrow> keeps I (code_at rpc contract block_hash field)"
  unfolding block_hash_at_def block_by_hash_def code_at_def by (intro keeps_rules; simp)+

lemma tip_keeps:
  "(\<And>m ps. keeps I (rpc m ps)) \<Longrightarrow> keeps I (capture_canonical_tip rpc)"
  "(\<And>m ps. keeps I (rpc m ps)) \<Longrightarrow> keeps I (assert_canonical_tip_unchanged rpc tip)"
  unfolding capture_canonical_tip_def assert_canonical_tip_unchanged_def
  by (intro keeps_rules block_lookup_keeps; simp)+

lemma preflight_keeps: "(\<And>m ps. keeps I (rpc m ps)) \<Longrightarrow> keeps I (preflight_rpc_capabilities rpc probe)"
  unfolding preflight_rpc_capabilities_def by (intro keeps_rules block_lookup_keeps tip_keeps; simp)

lemma check_keeps:
  "(\<And>m ps. keeps I (rpc m ps)) \<Longrightarrow> keeps I (check_canonical_block rpc rb)"
  "(\<And>m ps. keeps I (rpc m ps)) \<Longrightarrow> keeps I (runtime_block rpc rb tip)"
  "(\<And>m ps. keeps I (rpc m ps)) \<Longrightarrow> keeps I (check_runtime E rpc X bh)"
  "(\<And>m ps. keeps I (rpc m ps)) \<Longrightarrow> keeps I (check_stability rpc X rb bh runtime)"
  unfolding check_canonical_block_def runtime_block_def check_runtime_def check_stability_def
  by (intro keeps_rules block_lookup_keeps; simp)+

lemma verify_keeps:
  "(\<And>m ps. keeps I (rpc m ps)) \<Longrightarrow> keeps I (verify_chain_deployment E rpc X tip)"
  unfolding verify_chain_deployment_def by (intro keeps_rules wait_keeps check_keeps; simp)

end

section \<open>What a JSON-RPC caller records\<close>

text \<open>The trace since \<open>w0\<close> holds the events of \<open>S\<close>.\<close>

definition since :: "world \<Rightarrow> event set \<Rightarrow> world \<Rightarrow> bool" where
  "since w0 S w \<longleftrightarrow> (\<exists>new. trace w = trace w0 @ new \<and> S \<subseteq> set new)"

interpretation seen: passive_invariant E "since w0 S" for E w0 S
  by unfold_locales (auto simp: since_def after_def)

text \<open>
  The contract of the RPC callers: a reply that is returned has been received since, and
  nothing recorded is lost.
\<close>

locale rpc_contract =
  fixes rpc :: rpc_caller
  assumes records: "rpc m ps w = (Inr v, w') \<Longrightarrow> since w0 S w \<Longrightarrow> since w0 (insert (Rpc m ps (Inr v)) S) w'"
    and keeps_seen: "keeps (since w0 S) (rpc m ps)"

definition executor_rpc :: "env \<Rightarrow> string \<Rightarrow> string list option \<Rightarrow> rpc_caller" where
  "executor_rpc E url pinned =
     (case pinned of None \<Rightarrow> rpc_call E
      | Some addresses \<Rightarrow> resolution_guarded_rpc E (rpc_call E) url addresses)"

lemma rpc_call_records:
  "rpc_call E m ps w = (Inr v, w') \<Longrightarrow> since w0 S w \<Longrightarrow> since w0 (insert (Rpc m ps (Inr v)) S) w'"
  using rpc_call_step[of E m ps w v w'] by (auto simp: since_def)

context passive_invariant
begin

lemma executor_rpc_keeps: "keeps I (executor_rpc E url pinned m ps)"
  unfolding executor_rpc_def by (cases pinned) (simp_all add: rpc_call_keeps guarded_keeps)

end

lemma executor_rpc_records:
  assumes "executor_rpc E url pinned m ps w = (Inr v, w')" and "since w0 S w"
  shows "since w0 (insert (Rpc m ps (Inr v)) S) w'"
proof (cases pinned)
  case None
  then show ?thesis using assms rpc_call_records by (simp add: executor_rpc_def)
next
  case (Some addresses)
  then obtain u w1 where
    a: "assert_rpc_resolution_unchanged E url addresses w = (Inr u, w1)"
    and c: "rpc_call E m ps w1 = (Inr v, w')"
    using assms(1) by (auto simp: executor_rpc_def resolution_guarded_rpc_def io_success)
  have "since w0 S w1"
    using keepsD[OF seen.assert_resolution_keeps assms(2), of E url addresses] a by simp
  then show ?thesis by (rule rpc_call_records[OF c])
qed

interpretation chain_rpc: rpc_contract "executor_rpc E url pinned" for E url pinned
  by unfold_locales (auto intro: executor_rpc_records seen.executor_rpc_keeps)

section \<open>What a verified deployment rests on\<close>

lemma fail_if_iff [res_simps]: "fail_if b m = Inr u \<longleftrightarrow> \<not> b"
  by (simp add: fail_if_def)

text \<open>A transaction and a receipt that match an expectation, in one block.\<close>

definition matching_transaction :: "expectation \<Rightarrow> dict \<Rightarrow> string \<Rightarrow> bool" where
  "matching_transaction X tx block_hash \<longleftrightarrow>
     (\<exists>input sender. dget tx ''input'' = JStr input \<and> lower input = ex_initcode X \<and>
        dget tx ''from'' = JStr sender \<and> lower sender = ex_sender X \<and>
        dget tx ''to'' = JNull \<and>
        normalize_rpc_quantity (dget tx ''nonce'') ''transaction.nonce'' = Inr (ex_nonce X) \<and>
        normalize_rpc_quantity (dget tx ''value'') ''transaction.value'' = Inr 0 \<and>
        x_require_hash (dget tx ''blockHash'') ''transaction.blockHash'' = Inr block_hash)"

definition matching_receipt :: "expectation \<Rightarrow> dict \<Rightarrow> int \<Rightarrow> string \<Rightarrow> bool" where
  "matching_receipt X receipt number block_hash \<longleftrightarrow>
     (\<exists>contract. normalize_rpc_quantity (dget receipt ''status'') ''receipt.status'' = Inr 1 \<and>
        dget receipt ''contractAddress'' = JStr contract \<and> lower contract = ex_contract_address X \<and>
        dget receipt ''to'' = JNull \<and>
        normalize_rpc_quantity (dget receipt ''blockNumber'') ''receipt.blockNumber'' = Inr number \<and>
        x_require_hash (dget receipt ''blockHash'') ''receipt.blockHash'' = Inr block_hash)"

lemma check_transaction_success:
  assumes "check_transaction X v = Inr t"
  shows "\<exists>tx. v = JDict tx \<and> matching_transaction X tx (tx_block_hash t) \<and>
    tx_sender t = ex_sender X \<and> tx_input t = ex_initcode X \<and> tx_nonce t = ex_nonce X"
  using assms unfolding check_transaction_def matching_transaction_def
  by (auto simp: res_simps x_require_address_iff x_require_hex_iff)

lemma check_receipt_success:
  assumes "check_receipt X t v = Inr rb"
  shows "\<exists>r. v = JDict r \<and> matching_receipt X r (rb_number rb) (rb_hash rb) \<and> tx_block_hash t = rb_hash rb"
  using assms unfolding check_receipt_def matching_receipt_def
  by (auto simp: res_simps x_require_address_iff)

text \<open>The record of a verified deployment, and the replies it rests on.\<close>

definition verified_record :: "expectation \<Rightarrow> int \<Rightarrow> string \<Rightarrow> string \<Rightarrow> dict" where
  "verified_record X number block_hash input_hash =
     [(''transaction_hash'', JStr (ex_transaction_hash X)),
      (''transaction_input_keccak256'', JStr input_hash),
      (''sender'', JStr (ex_sender X)),
      (''contract_address'', JStr (ex_contract_address X)),
      (''block_number'', JInt number),
      (''block_hash'', JStr block_hash),
      (''nonce'', JInt (ex_nonce X)),
      (''confirmations_verified'', JInt (ex_confirmations X)),
      (''actual_runtime_length_bytes'', JInt (int (length (drop 2 (ex_runtime X)) div 2))),
      (''actual_runtime_keccak256'', JStr (ex_runtime_hash X))]"

definition code_query :: "string \<Rightarrow> string \<Rightarrow> json \<Rightarrow> event" where
  "code_query contract block_hash reply =
     Rpc ''eth_getCode'' [JStr contract,
       JDict [(''blockHash'', JStr block_hash), (''requireCanonical'', JBool True)]] (Inr reply)"

definition transaction_query :: "string \<Rightarrow> dict \<Rightarrow> event" where
  "transaction_query h reply = Rpc ''eth_getTransactionByHash'' [JStr h] (Inr (JDict reply))"

definition receipt_query :: "string \<Rightarrow> dict \<Rightarrow> event" where
  "receipt_query h reply = Rpc ''eth_getTransactionReceipt'' [JStr h] (Inr (JDict reply))"

definition deployment_evidence :: "hashes \<Rightarrow> expectation \<Rightarrow> bool \<Rightarrow> dict \<Rightarrow> event set \<Rightarrow> bool" where
  "deployment_evidence H X at_receipt record events \<longleftrightarrow>
     (\<exists>tx receipt code block_hash number input_hash at.
        transaction_query (ex_transaction_hash X) tx \<in> events \<and>
        receipt_query (ex_transaction_hash X) receipt \<in> events \<and>
        code_query (ex_contract_address X) at (JStr code) \<in> events \<and>
        (at_receipt \<longrightarrow> at = block_hash) \<and>
        matching_transaction X tx block_hash \<and> matching_receipt X receipt number block_hash \<and>
        lower code = ex_runtime X \<and> ex_runtime X \<noteq> ''0x'' \<and>
        text_keccak H (ex_runtime X) = Inr (ex_runtime_hash X) \<and>
        text_keccak H (ex_initcode X) = Inr input_hash \<and>
        record = verified_record X number block_hash input_hash)"

lemma deployment_evidenceI:
  assumes "transaction_query (ex_transaction_hash X) tx \<in> events"
    and "receipt_query (ex_transaction_hash X) receipt \<in> events"
    and "code_query (ex_contract_address X) at (JStr code) \<in> events"
    and "at_receipt \<longrightarrow> at = block_hash"
    and "matching_transaction X tx block_hash" and "matching_receipt X receipt number block_hash"
    and "lower code = ex_runtime X" and "ex_runtime X \<noteq> ''0x''"
    and "text_keccak H (ex_runtime X) = Inr (ex_runtime_hash X)"
    and "text_keccak H (ex_initcode X) = Inr input_hash"
    and "record = verified_record X number block_hash input_hash"
  shows "deployment_evidence H X at_receipt record events"
  unfolding deployment_evidence_def by (intro exI conjI) (rule assms)+

context rpc_contract
begin

lemma code_at_records:
  assumes "code_at rpc a bh field w = (Inr s, w')" and "since w0 S w"
  shows "\<exists>c. lower c = s \<and> since w0 (insert (code_query a bh (JStr c)) S) w'"
  using assms records
  by (auto simp: code_at_def io_success x_require_hex_iff code_query_def)

lemma check_runtime_records:
  assumes "check_runtime E rpc X bh w = (Inr (runtime, h), w')" and "since w0 S w"
  shows "runtime = ex_runtime X \<and> runtime \<noteq> ''0x'' \<and> h = ex_runtime_hash X \<and>
    text_keccak (hash E) runtime = Inr h \<and>
    (\<exists>c. lower c = runtime \<and> since w0 (insert (code_query (ex_contract_address X) bh (JStr c)) S) w')"
proof -
  obtain x hx w1 s w2 where c: "code_at rpc (ex_contract_address X) bh ''eth_getCode result'' w = (Inr x, w1)"
    and r: "x \<noteq> ''0x''" "text_keccak (hash E) x = Inr hx" "x = ex_runtime X" "hx = ex_runtime_hash X"
    and s: "code_at rpc (ex_contract_address X) bh ''stable eth_getCode result'' w1 = (Inr s, w2)"
    and e: "(runtime, h) = (x, hx)" "w' = w2"
    by (insert assms(1)[unfolded check_runtime_def], elim io_elims) (rule that, assumption+)
  have e': "runtime = x" "h = hx" "w' = w2" using e by simp_all
  obtain y where y: "lower y = x" "since w0 (insert (code_query (ex_contract_address X) bh (JStr y)) S) w1"
    using code_at_records[OF c assms(2)] by blast
  then have "since w0 (insert (code_query (ex_contract_address X) bh (JStr y)) S) w'"
    unfolding e' by (intro keeps_run[OF seen.block_lookup_keeps(3)[OF keeps_seen] s])
  with r e' y show ?thesis by blast
qed

lemma verify_records:
  assumes v: "verify_chain_deployment E rpc X tip w = (Inr record, w')" and S: "since w0 S w"
  shows "\<exists>S'. S \<subseteq> S' \<and> since w0 S' w' \<and> deployment_evidence (hash E) X (tip = None) record S'"
proof -
  obtain r1 w1 t r2 w2 rb n w3 u w4 at w5 p w6 runtime h u' w7 ih where
    s1: "rpc ''eth_getTransactionByHash'' [JStr (ex_transaction_hash X)] w = (Inr r1, w1)"
    and t: "check_transaction X r1 = Inr t"
    and s2: "rpc ''eth_getTransactionReceipt'' [JStr (ex_transaction_hash X)] w1 = (Inr r2, w2)"
    and rb: "check_receipt X t r2 = Inr rb"
    and s3: "wait_for_confirmations E rpc (rb_number rb) (ex_confirmations X) w2 = (Inr n, w3)"
    and s4: "check_canonical_block rpc rb w3 = (Inr u, w4)"
    and s5: "runtime_block rpc rb tip w4 = (Inr at, w5)"
    and s6': "check_runtime E rpc X at w5 = (Inr p, w6)"
    and p: "p = (runtime, h)"
    and s7: "check_stability rpc X rb at runtime w6 = (Inr u', w7)"
    and ih: "text_keccak (hash E) (tx_input t) = Inr ih"
    and rec: "record =
         [(''transaction_hash'', JStr (ex_transaction_hash X)),
          (''transaction_input_keccak256'', JStr ih),
          (''sender'', JStr (tx_sender t)),
          (''contract_address'', JStr (ex_contract_address X)),
          (''block_number'', JInt (rb_number rb)),
          (''block_hash'', JStr (rb_hash rb)),
          (''nonce'', JInt (tx_nonce t)),
          (''confirmations_verified'', JInt (ex_confirmations X)),
          (''actual_runtime_length_bytes'', JInt (int (length (drop 2 runtime) div 2))),
          (''actual_runtime_keccak256'', JStr h)]"
    and w': "w' = w7"
    by (insert v[unfolded verify_chain_deployment_def], elim io_elims) (rule that, assumption+)
  have s6: "check_runtime E rpc X at w5 = (Inr (runtime, h), w6)" using s6' p by simp
  obtain tx where tx: "r1 = JDict tx" "matching_transaction X tx (tx_block_hash t)"
    "tx_sender t = ex_sender X" "tx_input t = ex_initcode X" "tx_nonce t = ex_nonce X"
    using check_transaction_success[OF t] by blast
  obtain receipt where receipt: "r2 = JDict receipt" "matching_receipt X receipt (rb_number rb) (rb_hash rb)"
    "tx_block_hash t = rb_hash rb"
    using check_receipt_success[OF rb] by blast
  let ?S = "insert (receipt_query (ex_transaction_hash X) receipt)
     (insert (transaction_query (ex_transaction_hash X) tx) S)"
  have "since w0 ?S w2"
    using records[OF s2 records[OF s1 S]] tx(1) receipt(1)
    by (simp add: receipt_query_def transaction_query_def)
  then have "since w0 ?S w3" by (rule keeps_run[OF seen.wait_keeps[OF keeps_seen] s3])
  then have "since w0 ?S w4" by (rule keeps_run[OF seen.check_keeps(1)[OF keeps_seen] s4])
  then have S5: "since w0 ?S w5" by (rule keeps_run[OF seen.check_keeps(2)[OF keeps_seen] s5])
  obtain code where code: "lower code = runtime" "runtime = ex_runtime X" "runtime \<noteq> ''0x''" "h = ex_runtime_hash X"
    "text_keccak (hash E) runtime = Inr h"
    and S6: "since w0 (insert (code_query (ex_contract_address X) at (JStr code)) ?S) w6"
    using check_runtime_records[OF s6 S5] by blast
  have S7: "since w0 (insert (code_query (ex_contract_address X) at (JStr code)) ?S) w'"
    unfolding w' by (rule keeps_run[OF seen.check_keeps(4)[OF keeps_seen] s7 S6])
  have "tip = None \<longrightarrow> at = rb_hash rb"
    using s5 by (auto simp: runtime_block_def io_success)
  moreover have "record = verified_record X (rb_number rb) (rb_hash rb) ih"
    unfolding rec verified_record_def tx(3,5) code(2,4) ..
  moreover have "matching_transaction X tx (rb_hash rb)" using tx(2) receipt(3) by (simp only:)
  moreover have "text_keccak (hash E) (ex_initcode X) = Inr ih" using ih tx(4) by (simp only:)
  ultimately have "deployment_evidence (hash E) X (tip = None) record
      (insert (code_query (ex_contract_address X) at (JStr code)) ?S)"
    using code receipt(2) by (intro deployment_evidenceI[where tx = tx and receipt = receipt and code = code
        and at = at and block_hash = "rb_hash rb" and number = "rb_number rb" and input_hash = ih]) simp_all
  then show ?thesis by (intro exI[of _ "insert (code_query (ex_contract_address X) at (JStr code)) ?S"])
      (use S7 in blast)
qed

end

section \<open>Termination of the confirmation wait\<close>

definition slept :: "event list \<Rightarrow> nat" where
  "slept tr = length (filter (\<lambda>ev. ev = Slept) tr)"

text \<open>The clock advances by at least a second for every sleep in between.\<close>

definition sleeps_pass :: "env \<Rightarrow> bool" where
  "sleeps_pass E \<longleftrightarrow>
     (\<forall>tr new. monotonic E tr + 1000 * int (slept new) \<le> monotonic E (tr @ new))"

text \<open>The environment neither crashes the program nor stops it in a call.\<close>

definition never_halts :: "env \<Rightarrow> bool" where
  "never_halts E \<longleftrightarrow>
     (\<forall>tr. fault E tr \<noteq> Some Halted) \<and> (\<forall>tr m ps. rpc_reply E tr m ps \<noteq> Inl Halted)"

lemma normalize_rpc_quantity_not_halted: "normalize_rpc_quantity v f \<noteq> Inl Halted"
  by (auto simp: normalize_rpc_quantity_def x_require_string_def Let_def rbind_eq_Inl split: json.splits if_splits)

definition runs_to :: "'a io \<Rightarrow> world \<Rightarrow> ('a \<Rightarrow> event \<Rightarrow> bool) \<Rightarrow> bool" where
  "runs_to m w Q \<longleftrightarrow>
     (case m w of (Inl e, w') \<Rightarrow> e \<noteq> Halted
      | (Inr x, w') \<Rightarrow> \<exists>ev. trace w' = trace w @ [ev] \<and> Q x ev)"

lemma runs_to_cases:
  assumes "runs_to m w Q"
  obtains e w' where "m w = (Inl e, w')" "e \<noteq> Halted"
    | x w' ev where "m w = (Inr x, w')" "trace w' = trace w @ [ev]" "Q x ev"
  using assms by (cases "m w"; cases "fst (m w)") (auto simp: runs_to_def)

lemma steps_run:
  assumes "never_halts E"
  shows "runs_to (rpc_call E m ps) w (\<lambda>_ ev. ev \<noteq> Slept)"
    and "runs_to (clock E) w (\<lambda>now ev. ev = Ticked \<and> now = monotonic E (trace w))"
    and "runs_to (sleeper E) w (\<lambda>_ ev. ev = Slept)"
  using assms
  by (auto simp: runs_to_def never_halts_def rpc_call_def clock_def sleeper_def step_def Let_def
      split: option.splits sum.splits)

lemma slept_simps [simp]: "slept [] = 0" "slept (a @ b) = slept a + slept b"
  "slept [ev] = (if ev = Slept then 1 else 0)"
  by (simp_all add: slept_def)

lemma wait_loop_returns:
  assumes E: "never_halts E" "sleeps_pass E"
    and w: "trace w = tr @ new" and fuel: "slept new \<le> 120" "121 \<le> slept new + n"
    and deadline: "deadline \<le> monotonic E tr + TIMEOUT"
  shows "fst (wait_loop n E (rpc_call E) b c t deadline w) \<noteq> Inl Halted"
  using w fuel
proof (induction n arbitrary: w new)
  case 0
  then show ?case by simp
next
  case (Suc n)
  from steps_run(1)[OF E(1)] show ?case
  proof (cases rule: runs_to_cases[where m = "rpc_call E ''eth_blockNumber'' []" and w = w])
    case (1 e w1)
    then show ?thesis by (simp add: io_bind_def)
  next
    case (2 reply w1 ev)
    show ?thesis
    proof (cases "normalize_rpc_quantity reply ''eth_blockNumber''")
      case (Inl e)
      then show ?thesis
        using 2 normalize_rpc_quantity_not_halted[of reply "''eth_blockNumber''"]
        by (simp add: io_bind_def lift_def)
    next
      case (Inr latest)
      show ?thesis
      proof (cases "t \<le> latest")
        case True
        then show ?thesis using 2 Inr by (simp add: io_bind_def lift_def io_return_def)
      next
        case False
        from steps_run(2)[OF E(1)] show ?thesis
        proof (cases rule: runs_to_cases[where m = "clock E" and w = w1])
          case (1 e w2)
          then show ?thesis using 2 Inr False by (simp add: io_bind_def lift_def)
        next
          case c: (2 now w2 ev2)
          have now: "monotonic E tr + 1000 * int (slept new) \<le> now"
            using E(2) c(3) 2(2,3) Suc.prems(1) unfolding sleeps_pass_def
            by (metis (no_types, opaque_lifting) add_0_right append.assoc slept_simps(2,3))
          show ?thesis
          proof (cases "deadline \<le> now")
            case True
            then show ?thesis using 2 Inr False c by (simp add: io_bind_def lift_def io_raise_def)
          next
            case passing: False
            then have few: "slept new < 120" using now deadline by (simp add: TIMEOUT_def)
            from steps_run(3)[OF E(1)] show ?thesis
            proof (cases rule: runs_to_cases[where m = "sleeper E" and w = w2])
              case (1 e w3)
              then show ?thesis using 2 Inr False c passing by (simp add: io_bind_def io_then_def lift_def)
            next
              case s: (2 u w3 ev3)
              have "fst (wait_loop n E (rpc_call E) b c t deadline w3) \<noteq> Inl Halted"
                by (rule Suc.IH[where new = "new @ [ev, Ticked, Slept]"])
                  (use Suc.prems 2 c s few in \<open>auto simp: slept_def\<close>)
              then show ?thesis using 2 Inr False c passing s by (simp add: io_bind_def io_then_def lift_def)
            qed
          qed
        qed
      qed
    qed
  qed
qed

text \<open>
  C39: The wait for confirmations ends: if the clock advances by a second for every second
  slept, and neither the node nor the machine hangs, \<open>wait_for_confirmations\<close> returns a block
  number or raises; its fuel, one round more than the two minutes of the deadline allow, is
  never used up.
\<close>

theorem wait_for_confirmations_returns:
  assumes "never_halts E" and "sleeps_pass E"
  shows "fst (wait_for_confirmations E (rpc_call E) block confirmations w) \<noteq> Inl Halted"
  using steps_run(2)[OF assms(1)]
proof (cases rule: runs_to_cases[where m = "clock E" and w = w])
  case (1 e w1)
  then show ?thesis by (simp add: wait_for_confirmations_def io_bind_def)
next
  case (2 now w1 ev)
  have "fst (wait_loop WAIT_FUEL E (rpc_call E) block confirmations t (now + TIMEOUT) w1) \<noteq> Inl Halted" for t
    by (rule wait_loop_returns[OF assms, where tr = "trace w" and new = "[ev]"])
      (use 2 in \<open>auto simp: WAIT_FUEL_def\<close>)
  then show ?thesis using 2 by (simp add: wait_for_confirmations_def io_bind_def)
qed

definition ticking_env :: env where
  "ticking_env = quiet_env\<lparr>monotonic := (\<lambda>tr. 1000 * int (slept tr)),
     rpc_reply := (\<lambda>_ _ _. Inr (JStr ''0x5''))\<rparr>"

theorem wait_for_confirmations_returns_witness:
  "fst (wait_for_confirmations ticking_env (rpc_call ticking_env) 7 2 empty_world) \<noteq> Inl Halted"
  by (rule wait_for_confirmations_returns)
    (auto simp: never_halts_def sleeps_pass_def ticking_env_def quiet_env_def)

section \<open>Properties\<close>

lemma not_isl_Inr: "\<not> isl r \<Longrightarrow> (\<And>x. r = Inr x \<Longrightarrow> P) \<Longrightarrow> P"
  by (cases r) auto

text \<open>
  C6: A deployment is reported as verified only on evidence received while it was being
  verified: the node's transaction has the expected sender, nonce, zero value, no recipient
  and the canonical initcode; its receipt is successful, without recipient and for the
  expected contract address, in the same block; and the code at that address, at that block
  or at the given tip, is the expected non-empty runtime with the expected hash. The record
  that is returned holds exactly these values.
\<close>

theorem verify_chain_deployment_evidence:
  assumes "verify_chain_deployment E (executor_rpc E url pinned) X tip w = (Inr record, w')"
  shows "\<exists>new. trace w' = trace w @ new \<and>
    deployment_evidence (hash E) X (tip = None) record (set new)"
proof -
  have "since w {} w" by (simp add: since_def)
  from chain_rpc.verify_records[OF assms this] obtain S' new where
    "trace w' = trace w @ new" "S' \<subseteq> set new" "deployment_evidence (hash E) X (tip = None) record S'"
    by (auto simp: since_def)
  then show ?thesis unfolding deployment_evidence_def by blast
qed

text \<open>A small chain with one deployment in block 5, made by the first broadcast.\<close>

definition demo_sender :: string where
  "demo_sender = ''0x'' @ concat (replicate 20 ''aa'')"

definition demo_contract :: string where
  "demo_contract = ''0x'' @ concat (replicate 20 ''07'')"

definition demo_digest :: string where
  "demo_digest = ''0x'' @ concat (replicate 32 ''07'')"

definition demo_tx_hash :: string where
  "demo_tx_hash = ''0x'' @ concat (replicate 32 ''11'')"

definition demo_block_hash :: string where
  "demo_block_hash = ''0x'' @ concat (replicate 32 ''22'')"

definition is_broadcast :: "event \<Rightarrow> bool" where
  "is_broadcast ev = (case ev of Command cmd _ \<Rightarrow> cmd \<noteq> [] \<and> last cmd = ''--broadcast'' | _ \<Rightarrow> False)"

definition demo_transaction :: json where
  "demo_transaction = JDict [(''hash'', JStr demo_tx_hash), (''from'', JStr demo_sender), (''to'', JNull),
     (''input'', JStr ''0x6001''), (''value'', JStr ''0x0''), (''nonce'', JStr ''0x0''),
     (''blockHash'', JStr demo_block_hash), (''blockNumber'', JStr ''0x5'')]"

definition demo_receipt :: json where
  "demo_receipt = JDict [(''transactionHash'', JStr demo_tx_hash), (''status'', JStr ''0x1''),
     (''from'', JStr demo_sender), (''to'', JNull), (''contractAddress'', JStr demo_contract),
     (''blockHash'', JStr demo_block_hash), (''blockNumber'', JStr ''0x5'')]"

definition demo_node :: "event list \<Rightarrow> string \<Rightarrow> json list \<Rightarrow> json res" where
  "demo_node tr method params = Inr
     (if method = ''eth_chainId'' then JStr ''0x7a69''
      else if method = ''eth_blockNumber'' then JStr ''0x5''
      else if method = ''eth_getTransactionCount''
      then JStr (if list_ex is_broadcast tr then ''0x1'' else ''0x0'')
      else if method = ''eth_getTransactionByHash'' then demo_transaction
      else if method = ''eth_getTransactionReceipt'' then demo_receipt
      else if method = ''eth_getCode'' then JStr (if hd params = JStr demo_contract then ''0x60'' else ''0x'')
      else JDict [(''hash'', JStr demo_block_hash), (''number'', JStr ''0x5'')])"

definition demo_env :: env where
  "demo_env = quiet_env\<lparr>
     hash := \<lparr>sha256 = (\<lambda>_. replicate 32 9), keccak = (\<lambda>_. replicate 32 7)\<rparr>,
     rpc_reply := demo_node\<rparr>"

definition demo_expectation :: expectation where
  "demo_expectation = \<lparr>ex_transaction_hash = demo_tx_hash, ex_sender = demo_sender, ex_chain_id = 31337,
     ex_nonce = 0, ex_initcode = ''0x6001'', ex_contract_address = demo_contract, ex_runtime = ''0x60'',
     ex_runtime_hash = demo_digest, ex_confirmations = 1\<rparr>"

abbreviation demo_rpc :: rpc_caller where
  "demo_rpc \<equiv> executor_rpc demo_env ''http://127.0.0.1'' None"

definition demo_block :: json where
  "demo_block = JDict [(''hash'', JStr demo_block_hash), (''number'', JStr ''0x5'')]"

lemma demo_reply:
  "demo_rpc m ps w = (demo_node (trace w) m ps,
     w\<lparr>trace := trace w @ [Rpc m ps (demo_node (trace w) m ps)]\<rparr>)"
  by (simp add: executor_rpc_def rpc_call_def step_def demo_env_def quiet_env_def Let_def)

lemma demo_clock: "clock demo_env w = (Inr 0, w\<lparr>trace := trace w @ [Ticked]\<rparr>)"
  by (simp add: clock_def step_def demo_env_def quiet_env_def Let_def)

lemma demo_replies [simp]:
  "demo_node tr ''eth_blockNumber'' ps = Inr (JStr ''0x5'')"
  "demo_node tr ''eth_getTransactionByHash'' ps = Inr demo_transaction"
  "demo_node tr ''eth_getTransactionReceipt'' ps = Inr demo_receipt"
  "demo_node tr ''eth_getCode'' (JStr demo_contract # ps) = Inr (JStr ''0x60'')"
  "demo_node tr ''eth_getBlockByNumber'' ps = Inr demo_block"
  "demo_node tr ''eth_getBlockByHash'' ps = Inr demo_block"
  by (simp_all add: demo_node_def demo_block_def)

lemma demo_checks:
  "check_transaction demo_expectation demo_transaction = Inr \<lparr>tx_sender = demo_sender,
     tx_input = ''0x6001'', tx_nonce = 0, tx_block_hash = demo_block_hash, tx_block_number = 5\<rparr>"
  "check_receipt demo_expectation \<lparr>tx_sender = demo_sender, tx_input = ''0x6001'', tx_nonce = 0,
     tx_block_hash = demo_block_hash, tx_block_number = 5\<rparr> demo_receipt =
     Inr \<lparr>rb_number_hex = ''0x5'', rb_number = 5, rb_hash = demo_block_hash\<rparr>"
  "repeated_receipt_matches demo_expectation
     \<lparr>rb_number_hex = ''0x5'', rb_number = 5, rb_hash = demo_block_hash\<rparr> demo_receipt = Inr ()"
  "text_keccak (hash demo_env) ''0x60'' = Inr demo_digest"
  "text_keccak (hash demo_env) ''0x6001'' = Inr demo_digest"
  by code_simp+

lemma demo_fields:
  "x_require_dict demo_block f = Inr [(''hash'', JStr demo_block_hash), (''number'', JStr ''0x5'')]"
  "x_require_hash (JStr demo_block_hash) f = Inr demo_block_hash"
  "normalize_rpc_quantity (JStr ''0x5'') f = Inr 5"
  "x_require_hex None (JStr ''0x60'') f = Inr ''0x60''"
  by code_simp+

lemma demo_loop: "wait_loop (Suc n) demo_env demo_rpc b c 5 d w =
    (Inr 5, w\<lparr>trace := trace w @ [Rpc ''eth_blockNumber'' [] (Inr (JStr ''0x5''))]\<rparr>)"
  by (simp add: run_defs demo_reply demo_fields)

lemma demo_verified:
  "fst (verify_chain_deployment demo_env demo_rpc demo_expectation None w) =
     Inr (verified_record demo_expectation 5 demo_block_hash demo_digest)"
proof -
  let ?X = demo_expectation
  have X: "ex_transaction_hash ?X = demo_tx_hash" "ex_contract_address ?X = demo_contract"
    "ex_runtime ?X = ''0x60''" "ex_runtime_hash ?X = demo_digest" "ex_confirmations ?X = 1"
    "ex_sender ?X = demo_sender" "ex_nonce ?X = 0" "ex_initcode ?X = ''0x6001''"
    by (simp_all add: demo_expectation_def)
  show ?thesis
    by (simp add: verify_chain_deployment_def run_defs demo_reply demo_clock demo_checks demo_fields
      wait_for_confirmations_def check_canonical_block_def block_hash_at_def block_by_hash_def
      runtime_block_def check_runtime_def code_at_def check_stability_def X demo_loop WAIT_FUEL_def
      verified_record_def dget_def numeral_eq_Suc Let_def del: wait_loop.simps)
qed

theorem verify_chain_deployment_evidence_witness:
  "\<exists>r w'. verify_chain_deployment demo_env demo_rpc demo_expectation None empty_world = (Inr r, w') \<and>
     deployment_evidence (hash demo_env) demo_expectation True r (set (trace w'))"
proof -
  obtain r w' where w: "verify_chain_deployment demo_env demo_rpc demo_expectation None empty_world =
      (Inr r, w')"
    by (cases "verify_chain_deployment demo_env demo_rpc demo_expectation None empty_world")
      (use demo_verified[of empty_world] in simp)
  from verify_chain_deployment_evidence[OF w] have
    "deployment_evidence (hash demo_env) demo_expectation True r (set (trace w'))"
    by (simp add: empty_world_def)
  with w show ?thesis by blast
qed

end
