(* ===== verification/Journal.thy ===== *)
theory Journal
  imports Chain
begin

text \<open>
  The execution journals and the lock of the executor
  (\<open>require_matching_journal_identity\<close>, \<open>require_coherent_prebroadcast_journal\<close>,
  \<open>reject_ambiguous_journals\<close>, \<open>mark_ephemeral_chain_destroyed\<close>, \<open>acquire_execution_lock\<close>,
  \<open>release_execution_lock\<close>): when a journal left by an earlier session stops a new one, when
  it may be discarded, and why two sessions never work for the same chain and sender.
\<close>

section \<open>Identity of an execution\<close>

definition JOURNAL_IDENTITY_FIELDS :: "string list" where
  "JOURNAL_IDENTITY_FIELDS =
     [''schema_version'', ''execution_key'', ''plan_sha256'', ''candidate_id'',
      ''release_receipt_sha256'', ''target_catalog_sha256'', ''release_config_sha256'',
      ''release_foundry_config_sha256'', ''executor_script_sha256'',
      ''executor_foundry_config_sha256'', ''executor_driver_sha256'',
      ''execution_schema_sha256'', ''network'', ''chain_id'', ''sender'',
      ''deployment_authority'']"

definition RETRY_SAFE_JOURNAL_STATUSES :: "string list" where
  "RETRY_SAFE_JOURNAL_STATUSES = [''preflight'', ''failed_preflight'']"

definition FINAL_JOURNAL_STATUS :: string where
  "FINAL_JOURNAL_STATUS = ''verified''"

definition require_matching_journal_identity :: "dict \<Rightarrow> dict \<Rightarrow> path \<Rightarrow> unit res" where
  "require_matching_journal_identity jnl expected p =
     (case find (\<lambda>field. \<not> dmem field expected \<or> \<not> py_eq (dget jnl field) (dget expected field))
         JOURNAL_IDENTITY_FIELDS of
        None \<Rightarrow> Inr ()
      | Some field \<Rightarrow> Inl (CanonicalExecutionError
          (''prior execution journal identity is malformed or changed at '' @ field @ '': '' @ path_text p)))"

section \<open>Journals written before any broadcast\<close>

definition safe_count :: "json \<Rightarrow> bool" where
  "safe_count v = (case v of JInt i \<Rightarrow> 0 \<le> i \<and> i \<le> IJSON_SAFE_INTEGER_MAX | _ \<Rightarrow> False)"

definition rpc_evidence_ok :: "dict \<Rightarrow> bool" where
  "rpc_evidence_ok evidence \<longleftrightarrow>
     same_members evidence [''block_number'', ''block_hash'', ''block_by_hash_verified'', ''eip_1898_get_code_verified''] \<and>
     safe_count (dget evidence ''block_number'') \<and>
     dget evidence ''block_by_hash_verified'' = JBool True \<and>
     dget evidence ''eip_1898_get_code_verified'' = JBool True"

definition nonempty_string :: "json \<Rightarrow> bool" where
  "nonempty_string v = (case v of JStr s \<Rightarrow> s \<noteq> [] | _ \<Rightarrow> False)"

definition prebroadcast_fields :: "json \<Rightarrow> string list" where
  "prebroadcast_fields status =
     JOURNAL_IDENTITY_FIELDS @
     [''status'', ''success'', ''active_deployment'', ''verified_deployments'', ''rpc_preflight'', ''initial_nonce''] @
     (if status = JStr ''failed_preflight'' then [''failure_type'', ''failure''] else [])"

definition require_coherent_prebroadcast_journal :: "dict \<Rightarrow> path \<Rightarrow> unit res" where
  "require_coherent_prebroadcast_journal jnl p =
     (let status = dget jnl ''status'' in
      rbind (fail_if (\<not> set (dkeys jnl) \<subseteq> set (prebroadcast_fields status))
        (''retry-safe pre-broadcast journal has unexpected state: '' @ path_text p)) (\<lambda>_.
      rbind (set_member RETRY_SAFE_JOURNAL_STATUSES status) (\<lambda>retry_safe.
      rbind (fail_if (\<not> retry_safe \<or>
          \<not> dmem ''success'' jnl \<or> dget jnl ''success'' \<noteq> JBool False \<or>
          \<not> dmem ''active_deployment'' jnl \<or> dget jnl ''active_deployment'' \<noteq> JNull \<or>
          \<not> dmem ''verified_deployments'' jnl \<or> dget jnl ''verified_deployments'' \<noteq> JList [])
        (''retry-safe pre-broadcast journal is incoherent: '' @ path_text p)) (\<lambda>_.
      rbind (if dmem ''rpc_preflight'' jnl then
               rbind (x_require_dict (dget jnl ''rpc_preflight'')
                 (''retry-safe journal '' @ path_text p @ ''.rpc_preflight'')) (\<lambda>evidence.
               rbind (fail_if (\<not> rpc_evidence_ok evidence)
                 (''retry-safe pre-broadcast journal has malformed RPC evidence: '' @ path_text p)) (\<lambda>_.
               rbind (x_require_hash (dget evidence ''block_hash'')
                 (''retry-safe journal '' @ path_text p @ ''.rpc_preflight.block_hash'')) (\<lambda>_. Inr ())))
             else Inr ()) (\<lambda>_.
      rbind (fail_if (dmem ''initial_nonce'' jnl \<and> \<not> safe_count (dget jnl ''initial_nonce''))
        (''retry-safe pre-broadcast journal has malformed nonce evidence: '' @ path_text p)) (\<lambda>_.
      rbind (fail_if (status = JStr ''preflight'' \<and> (dmem ''failure_type'' jnl \<or> dmem ''failure'' jnl))
        (''active preflight journal contains failure state: '' @ path_text p)) (\<lambda>_.
      fail_if (status = JStr ''failed_preflight'' \<and>
          (\<not> nonempty_string (dget jnl ''failure_type'') \<or> \<not> nonempty_string (dget jnl ''failure'')))
        (''failed-preflight journal lacks exact failure state: '' @ path_text p))))))))"

section \<open>Classification of the journals of earlier sessions\<close>

definition destroyed_ephemeral :: "dict \<Rightarrow> dict \<Rightarrow> bool" where
  "destroyed_ephemeral jnl network \<longleftrightarrow>
     dget jnl ''ephemeral_chain_destroyed'' = JBool True \<and>
     dget jnl ''success'' = JBool False \<and>
     dget network ''execution_mode'' = JStr ''anvil'' \<and>
     dget network ''rpc_scope'' = JStr ''ephemeral_loopback_anvil''"

text \<open>The body of the loop over the journals, after the file has been decoded.\<close>

definition classify_journal ::
  "dict \<Rightarrow> string \<Rightarrow> int \<Rightarrow> string \<Rightarrow> string \<Rightarrow> path \<Rightarrow> json \<Rightarrow> unit res" where
  "classify_journal expected plan_sha256 chain_id sender expected_key p value =
     rbind (x_require_dict value (''execution journal '' @ path_text p)) (\<lambda>jnl.
     let exact_tuple = py_eq (dget jnl ''plan_sha256'') (JStr plan_sha256) \<and>
           py_eq (dget jnl ''chain_id'') (JInt chain_id) \<and>
           py_eq (dget jnl ''sender'') (JStr sender) in
     if \<not> py_eq (dget jnl ''execution_key'') (JStr expected_key) \<and> \<not> exact_tuple then Inr ()
     else
       rbind (require_matching_journal_identity jnl expected p) (\<lambda>_.
       let status = dget jnl ''status'' in
       rbind (set_member RETRY_SAFE_JOURNAL_STATUSES status) (\<lambda>retry_safe.
       if retry_safe then require_coherent_prebroadcast_journal jnl p
       else
         rbind (if status = JStr ''discarded_ephemeral_chain''
                then rbind (x_require_dict (dget jnl ''network'')
                    (''execution journal '' @ path_text p @ ''.network''))
                  (\<lambda>network. Inr (destroyed_ephemeral jnl network))
                else Inr False) (\<lambda>discarded.
         fail_if (\<not> discarded)
           (''prior canonical execution is terminal or unresolved; reconcile its exact journal and chain state before retrying: '' @
            path_text p)))))"

definition classify_file :: "env \<Rightarrow> dict \<Rightarrow> string \<Rightarrow> int \<Rightarrow> string \<Rightarrow> string \<Rightarrow> path \<Rightarrow> unit io" where
  "classify_file E expected plan_sha256 chain_id sender expected_key p =
     io_bind (read_json E (''cannot safely classify prior execution journal '' @ path_text p) p) (\<lambda>value.
     lift (classify_journal expected plan_sha256 chain_id sender expected_key p value))"

definition JOURNAL_NAME :: string where
  "JOURNAL_NAME = ''execution-journal.json''"

definition reject_ambiguous_journals :: "env \<Rightarrow> path \<Rightarrow> dict \<Rightarrow> unit io" where
  "reject_ambiguous_journals E session_parent expected =
     io_then (case find (\<lambda>field. \<not> dmem field expected) JOURNAL_IDENTITY_FIELDS of
         None \<Rightarrow> io_return ()
       | Some field \<Rightarrow> io_raise (CanonicalExecutionError
           (''expected execution journal identity is missing '' @ field)))
     (io_bind (lift (x_require_string (dget expected ''plan_sha256'') ''expected journal plan_sha256'')) (\<lambda>plan_sha256.
     io_bind (lift (x_require_integer (dget expected ''chain_id'') ''expected journal chain_id'')) (\<lambda>chain_id.
     io_bind (lift (x_require_address (dget expected ''sender'') ''expected journal sender'')) (\<lambda>sender.
     io_bind (lift (x_require_string (dget expected ''execution_key'') ''expected journal execution_key'')) (\<lambda>expected_key.
     io_bind (observe E (\<lambda>fs. Inr (path_exists fs session_parent))) (\<lambda>present.
     if \<not> present then io_return ()
     else
       io_bind (observe E (\<lambda>fs. Inr (glob_child fs session_parent JOURNAL_NAME))) (\<lambda>paths.
       io_fold (\<lambda>_ _. classify_file E expected plan_sha256 chain_id sender expected_key) () 0 paths)))))))"

section \<open>Discarding the journal of an ephemeral chain\<close>

definition destructible :: "dict \<Rightarrow> unit res" where
  "destructible jnl =
     (if dget jnl ''status'' = JStr FINAL_JOURNAL_STATUS
      then fail_if (dget jnl ''success'' \<noteq> JBool True)
        ''verified ephemeral journal must retain success before destruction''
      else if dget jnl ''status'' = JStr ''awaiting_ephemeral_chain_destruction''
      then fail_if (dget jnl ''success'' \<noteq> JBool False)
        ''failed ephemeral journal cannot claim success before destruction''
      else fail_if True ''ephemeral journal is not in a destructible terminal state'')"

definition discarded :: "dict \<Rightarrow> dict" where
  "discarded jnl =
     dset (dset (dset jnl ''status'' (JStr ''discarded_ephemeral_chain'')) ''success'' (JBool False))
       ''ephemeral_chain_destroyed'' (JBool True)"

definition mark_ephemeral_chain_destroyed :: "env \<Rightarrow> path \<Rightarrow> unit io" where
  "mark_ephemeral_chain_destroyed E p =
     io_bind (read_json E (''cannot prove ephemeral-chain destruction for '' @ path_text p) p) (\<lambda>value.
     io_bind (lift (x_require_dict value (''execution journal '' @ path_text p))) (\<lambda>jnl.
     io_bind (lift (x_require_dict (dget jnl ''network'')
       (''execution journal '' @ path_text p @ ''.network''))) (\<lambda>network.
     io_then (require (dget network ''execution_mode'' = JStr ''anvil'' \<and>
         dget network ''rpc_scope'' = JStr ''ephemeral_loopback_anvil'')
       (CanonicalExecutionError ''only an executor-owned ephemeral Anvil journal can be discarded''))
     (io_then (lift (destructible jnl))
     (write_json_atomic E p (JDict (discarded jnl)))))))"

section \<open>The execution lock\<close>

definition lock_path_of :: "path \<Rightarrow> string \<Rightarrow> path" where
  "lock_path_of session_parent lock_key = session_parent @ [''.locks'', lock_key]"

definition lock_held :: "path \<Rightarrow> exn \<Rightarrow> exn" where
  "lock_held p e =
     (case e of FileExistsError _ \<Rightarrow> CanonicalExecutionError
        (''another canonical execution is active or left a stale lock for this repository-local chain/sender: '' @
         path_text p)
      | _ \<Rightarrow> e)"

definition acquire_execution_lock :: "env \<Rightarrow> path \<Rightarrow> string \<Rightarrow> string \<Rightarrow> path io" where
  "acquire_execution_lock E session_parent lock_key session_id =
     (let lock_path = lock_path_of session_parent lock_key in
      io_then (mutate E (Made (session_parent @ [''.locks'']))
        (\<lambda>fs. mkdir_parents fs (session_parent @ [''.locks''])))
      (io_then (io_rename (lock_held lock_path) (mutate E (Made lock_path) (\<lambda>fs. mkdir fs lock_path)))
      (io_then (write_json_atomic E (lock_path @ [''owner.json''])
         (JDict [(''sender_lock_key'', JStr lock_key), (''session_id'', JStr session_id)]))
      (io_return lock_path))))"

definition release_execution_lock :: "env \<Rightarrow> path \<Rightarrow> unit io" where
  "release_execution_lock E lock_path =
     io_then (mutate E (Removed (lock_path @ [''owner.json''])) (\<lambda>fs. unlink fs (lock_path @ [''owner.json''])))
     (mutate E (Removed lock_path) (\<lambda>fs. rmdir_present fs lock_path))"

section \<open>Unresolved journals\<close>

text \<open>
  The identity of an execution: a value for every field, of the types
  \<open>reject_ambiguous_journals\<close> asks for.
\<close>

definition execution_identity :: "dict \<Rightarrow> bool" where
  "execution_identity expected \<longleftrightarrow>
     set JOURNAL_IDENTITY_FIELDS \<subseteq> set (dkeys expected) \<and>
     (\<exists>s. dget expected ''execution_key'' = JStr s)"

text \<open>A journal of that execution whose status is none of those that allow a retry.\<close>

definition RETRY_STATUSES :: "string list" where
  "RETRY_STATUSES = ''discarded_ephemeral_chain'' # RETRY_SAFE_JOURNAL_STATUSES"

definition unresolved :: "dict \<Rightarrow> dict \<Rightarrow> bool" where
  "unresolved expected jnl \<longleftrightarrow>
     dget jnl ''execution_key'' = dget expected ''execution_key'' \<and>
     (\<exists>s. dget jnl ''status'' = JStr s \<and> s \<notin> set RETRY_STATUSES)"

lemma find_None_all: "find P xs = None \<longleftrightarrow> (\<forall>x \<in> set xs. \<not> P x)"
  by (auto simp: find_None_iff)

lemma classify_unresolved:
  assumes "unresolved expected jnl" and "dget expected ''execution_key'' = JStr key"
  shows "\<exists>m. classify_journal expected plan chain sender key p (JDict jnl) = Inl (CanonicalExecutionError m)"
proof -
  obtain s where s: "dget jnl ''status'' = JStr s" "s \<notin> set RETRY_STATUSES"
    and k: "dget jnl ''execution_key'' = JStr key"
    using assms by (auto simp: unresolved_def)
  show ?thesis
  proof (cases "find (\<lambda>field. \<not> dmem field expected \<or> \<not> py_eq (dget jnl field) (dget expected field))
      JOURNAL_IDENTITY_FIELDS")
    case None
    then show ?thesis using s k
      by (simp add: classify_journal_def x_require_dict_def require_matching_journal_identity_def fail_if_def
          RETRY_STATUSES_def)
  next
    case (Some f)
    then show ?thesis using k
      by (simp add: classify_journal_def x_require_dict_def require_matching_journal_identity_def)
  qed
qed

section \<open>A file the rest of the machine leaves alone\<close>

definition leaves :: "path \<Rightarrow> (fs \<Rightarrow> fs) \<Rightarrow> bool" where
  "leaves p f \<longleftrightarrow>
     (\<forall>fs. file_at (f fs) p = file_at fs p \<and>
        (\<forall>q. strict_prefix q p \<longrightarrow> path_exists fs q \<longrightarrow> path_exists (f fs) q))"

definition undisturbed :: "env \<Rightarrow> path \<Rightarrow> bool" where
  "undisturbed E p \<longleftrightarrow> (\<forall>tr. leaves p (interfere E tr))"

text \<open>The file at \<open>p\<close> has these bytes, in directories that exist, and keeps them.\<close>

definition holds_file :: "env \<Rightarrow> path \<Rightarrow> byte list \<Rightarrow> path \<Rightarrow> world \<Rightarrow> bool" where
  "holds_file E p raw q w \<longleftrightarrow>
     undisturbed E p \<and> file_at (files w) p = Some raw \<and> strict_prefix q p \<and> path_exists (files w) q"

interpretation held: passive_invariant E "holds_file E p raw q" for E p raw q
  by unfold_locales (auto simp: holds_file_def after_def undisturbed_def leaves_def)

lemma observe_Inr: "observe E f w = (Inr x, w') \<Longrightarrow> f (interfere E (trace w) (files w)) = Inr x"
  by (auto simp: observe_def step_def Let_def split: option.splits prod.splits)

lemma holds_interfere:
  "holds_file E p raw q w \<Longrightarrow> file_at (interfere E (trace w) (files w)) p = Some raw"
  "holds_file E p raw q w \<Longrightarrow> path_exists (interfere E (trace w) (files w)) q"
  by (auto simp: holds_file_def undisturbed_def leaves_def)

text \<open>Reading it back: only the value that was written can come out.\<close>

lemma read_json_held:
  assumes "holds_file E p (str_bytes (json_text v)) q w" and "read_json E what p w = (Inr u, w')"
  shows "u = v"
proof -
  obtain raw w1 where "read_bytes E p w = (Inr raw, w1)"
    and d: "decode_json_bytes raw (path_text p) = Inr u"
    using assms(2) by (auto simp: read_json_def io_success)
  then have "fs_read (interfere E (trace w) (files w)) p = Inr raw"
    unfolding read_bytes_def by (intro observe_Inr)
  then have "raw = str_bytes (json_text v)"
    using file_at_read[OF holds_interfere(1)[OF assms(1)]] by simp
  with d show ?thesis using decode_json_text_eq by blast
qed

lemma io_fold_each:
  assumes "io_fold f acc i xs w = (Inr acc', w')" and "x \<in> set xs"
    and "\<And>a i x. keeps I (f a i x)" and "I w"
  shows "\<exists>a j w1 a' w2. I w1 \<and> f a j x w1 = (Inr a', w2)"
  using assms(1,2,4)
proof (induction xs arbitrary: acc i w)
  case Nil
  then show ?case by simp
next
  case (Cons y ys)
  then obtain b w1 where b: "f acc i y w = (Inr b, w1)" and r: "io_fold f b (Suc i) ys w1 = (Inr acc', w')"
    by (auto simp: io_success)
  have "I w1" by (rule keeps_run[OF assms(3) b Cons.prems(3)])
  show ?case
  proof (cases "x = y")
    case True
    then show ?thesis using b Cons.prems(3) by blast
  next
    case False
    then show ?thesis using Cons.IH[OF r _ \<open>I w1\<close>] Cons.prems(2) by simp
  qed
qed

lemma classify_file_keeps: "keeps (holds_file E p raw q) (classify_file E x plan c s k r)"
  unfolding classify_file_def by (intro keeps_rules held.read_json_keeps)

lemma classify_file_unresolved:
  assumes "holds_file E p (str_bytes (json_text (JDict jnl))) q w" and "unresolved expected jnl"
    and "dget expected ''execution_key'' = JStr key"
  shows "classify_file E expected plan chain sender key p w \<noteq> (Inr u, w')"
proof
  assume "classify_file E expected plan chain sender key p w = (Inr u, w')"
  then obtain v w1 where v: "read_json E (''cannot safely classify prior execution journal '' @ path_text p) p w = (Inr v, w1)"
    and c: "classify_journal expected plan chain sender key p v = Inr u"
    by (auto simp: classify_file_def io_success)
  have "v = JDict jnl" by (rule read_json_held[OF assms(1) v])
  with c classify_unresolved[OF assms(2,3)] show False by (metis Inl_Inr_False)
qed

lemma reject_holding:
  assumes H: "holds_file E p (str_bytes (json_text (JDict jnl))) session_parent w"
    and p: "p = session_parent @ [session_id, JOURNAL_NAME]"
    and n: "unresolved expected jnl" "dget expected ''execution_key'' = JStr key"
  shows "reject_ambiguous_journals E session_parent expected w \<noteq> (Inr u, w')"
proof
  assume r: "reject_ambiguous_journals E session_parent expected w = (Inr u, w')"
  let ?raw = "str_bytes (json_text (JDict jnl))"
  let ?H = "holds_file E p ?raw session_parent"
  obtain x w0 plan chain sender k present w1 where
    f: "(case find (\<lambda>field. \<not> dmem field expected) JOURNAL_IDENTITY_FIELDS of
         None \<Rightarrow> io_return ()
       | Some field \<Rightarrow> io_raise (CanonicalExecutionError
           (''expected execution journal identity is missing '' @ field))) w = (Inr x, w0)"
    and k: "x_require_string (dget expected ''execution_key'') ''expected journal execution_key'' = Inr k"
    and e: "observe E (\<lambda>fs. Inr (path_exists fs session_parent)) w0 = (Inr present, w1)"
    and c: "(if \<not> present then io_return ()
       else io_bind (observe E (\<lambda>fs. Inr (glob_child fs session_parent JOURNAL_NAME))) (\<lambda>paths.
         io_fold (\<lambda>_ _. classify_file E expected plan chain sender k) () 0 paths)) w1 = (Inr u, w')"
    using r unfolding reject_ambiguous_journals_def by (auto simp only: io_success)
  have "w0 = w" using f by (auto simp: io_success split: option.splits)
  then have "present" using observe_Inr[OF e] holds_interfere(2)[OF H] by simp
  then obtain paths w2 where
    g: "observe E (\<lambda>fs. Inr (glob_child fs session_parent JOURNAL_NAME)) w1 = (Inr paths, w2)"
    and l: "io_fold (\<lambda>_ _. classify_file E expected plan chain sender k) () 0 paths w2 = (Inr u, w')"
    using c by (auto simp: io_success)
  have H1: "?H w1" by (rule keeps_run[OF held.observe_keeps e]) (use H \<open>w0 = w\<close> in simp)
  have H2: "?H w2" by (rule keeps_run[OF held.observe_keeps g H1])
  have "paths = glob_child (interfere E (trace w1) (files w1)) session_parent JOURNAL_NAME"
    using observe_Inr[OF g] by simp
  then have "p \<in> set paths"
    using file_at_glob[of _ session_parent session_id JOURNAL_NAME] holds_interfere(1)[OF H1] p by simp
  from io_fold_each[OF l this classify_file_keeps H2]
  obtain w3 a' w4 where "?H w3" "classify_file E expected plan chain sender k p w3 = (Inr a', w4)" by blast
  moreover have "dget expected ''execution_key'' = JStr k" using k by (auto simp: res_simps)
  ultimately show False using classify_file_unresolved[OF _ n(1)] by blast
qed

text \<open>
  C8: A journal left unresolved stops every later attempt. If some session directory holds a
  journal, as the executor writes it, of an execution with the same key and with a status
  other than the retry-safe ones and the one of a destroyed ephemeral chain, then
  \<open>reject_ambiguous_journals\<close> does not return, whatever else lies in the session directory
  and whether or not the journal can be decoded: the execution cannot be repeated.
\<close>

theorem unresolved_journal_blocks:
  assumes "undisturbed E p" and "p = session_parent @ [session_id, JOURNAL_NAME]"
    and "path_exists (files w) session_parent"
    and "file_at (files w) p = Some (str_bytes (json_text (JDict jnl)))"
    and "unresolved expected jnl" and "dget expected ''execution_key'' = JStr key"
  shows "reject_ambiguous_journals E session_parent expected w \<noteq> (Inr u, w')"
  by (rule reject_holding[OF _ assms(2,5,6)]) (use assms(1-4) in \<open>simp add: holds_file_def strict_prefix_def\<close>)

definition demo_identity :: dict where
  "demo_identity =
     (''execution_key'', JStr ''k'') # (''plan_sha256'', JStr ''sha256:00'') # (''chain_id'', JInt 31337) #
     (''sender'', JStr demo_sender) #
     map (\<lambda>f. (f, JNull)) (filter (\<lambda>f. f \<notin> {''execution_key'', ''plan_sha256'', ''chain_id'', ''sender''})
       JOURNAL_IDENTITY_FIELDS)"

definition demo_journal :: dict where
  "demo_journal = demo_identity @ [(''status'', JStr ''broadcasting'')]"

definition demo_journal_world :: world where
  "demo_journal_world = empty_world\<lparr>files :=
     [([''s''], Dir), ([''s'', ''1''], Dir),
      ([''s'', ''1'', JOURNAL_NAME], File (str_bytes (json_text (JDict demo_journal))))]\<rparr>"

theorem unresolved_journal_blocks_witness:
  "\<forall>u w'. reject_ambiguous_journals quiet_env [''s''] demo_identity demo_journal_world \<noteq> (Inr u, w')"
proof (intro allI)
  fix u w'
  show "reject_ambiguous_journals quiet_env [''s''] demo_identity demo_journal_world \<noteq> (Inr u, w')"
  proof (rule unresolved_journal_blocks[where jnl = demo_journal and key = "''k''" and session_id = "''1''"])
    show "undisturbed quiet_env [''s'', ''1'', JOURNAL_NAME]"
      by (simp add: undisturbed_def leaves_def quiet_env_def)
    show "path_exists (files demo_journal_world) [''s'']"
      by (simp add: path_exists_def demo_journal_world_def)
    show "file_at (files demo_journal_world) [''s'', ''1'', JOURNAL_NAME] =
        Some (str_bytes (json_text (JDict demo_journal)))"
      by (simp add: file_at_def demo_journal_world_def)
    show "unresolved demo_identity demo_journal"
      by (simp add: unresolved_def demo_journal_def demo_identity_def dget_def RETRY_STATUSES_def
          RETRY_SAFE_JOURNAL_STATUSES_def JOURNAL_IDENTITY_FIELDS_def)
    show "dget demo_identity ''execution_key'' = JStr ''k''"
      by (simp add: demo_identity_def dget_def)
  qed simp
qed

section \<open>Discarded journals allow a retry\<close>

lemma mutate_Inr:
  "mutate E ev f w = (Inr u, w') \<Longrightarrow>
     f (interfere E (trace w) (files w)) = Inr (files w') \<and> trace w' = trace w @ [ev] \<and>
     journal w' = journal w \<and> broadcast_attempted w' = broadcast_attempted w"
  by (auto simp: mutate_def step_def Let_def split: option.splits sum.splits)

lemma write_json_Inr:
  "write_json_atomic E p v w = (Inr u, w') \<Longrightarrow> file_at (files w') p = Some (str_bytes (json_text v))"
  using mutate_Inr file_at_replace[of _ p] by (fastforce simp: write_json_atomic_def write_bytes_atomic_def)

lemma dget_discarded:
  "dget (discarded jnl) f =
     (if f = ''status'' then JStr ''discarded_ephemeral_chain'' else if f = ''success'' then JBool False
      else if f = ''ephemeral_chain_destroyed'' then JBool True else dget jnl f)"
  by (simp add: discarded_def)

lemma matching_discarded:
  "require_matching_journal_identity (discarded jnl) expected p = require_matching_journal_identity jnl expected p"
proof -
  have "find (\<lambda>f. \<not> dmem f expected \<or> \<not> py_eq (dget (discarded jnl) f) (dget expected f)) JOURNAL_IDENTITY_FIELDS =
      find (\<lambda>f. \<not> dmem f expected \<or> \<not> py_eq (dget jnl f) (dget expected f)) JOURNAL_IDENTITY_FIELDS"
    by (rule find_cong) (auto simp: dget_discarded JOURNAL_IDENTITY_FIELDS_def)
  then show ?thesis by (simp add: require_matching_journal_identity_def)
qed

lemma classify_discarded:
  assumes "require_matching_journal_identity jnl expected p = Inr ()"
    and "dget jnl ''network'' = JDict network"
    and "dget network ''execution_mode'' = JStr ''anvil''"
    and "dget network ''rpc_scope'' = JStr ''ephemeral_loopback_anvil''"
  shows "classify_journal expected plan chain sender key p (JDict (discarded jnl)) = Inr ()"
  using assms
  by (auto simp: classify_journal_def x_require_dict_def matching_discarded dget_discarded Let_def
      RETRY_SAFE_JOURNAL_STATUSES_def destroyed_ephemeral_def fail_if_def)

text \<open>A journal whose chain the executor owned and destroyed, in a state no broadcast can follow.\<close>

definition owned_ephemeral :: "dict \<Rightarrow> bool" where
  "owned_ephemeral jnl \<longleftrightarrow>
     (\<exists>network. dget jnl ''network'' = JDict network \<and> dget network ''execution_mode'' = JStr ''anvil'' \<and>
        dget network ''rpc_scope'' = JStr ''ephemeral_loopback_anvil'')"

definition terminal :: "dict \<Rightarrow> bool" where
  "terminal jnl \<longleftrightarrow> (dget jnl ''status'', dget jnl ''success'') \<in>
     {(JStr ''verified'', JBool True), (JStr ''awaiting_ephemeral_chain_destruction'', JBool False)}"

lemma read_json_run:
  assumes "read_json E what p w = (Inr v, w')"
  obtains raw where "fs_read (interfere E (trace w) (files w)) p = Inr raw" "decode_json_bytes raw (path_text p) = Inr v"
    "trace w' = trace w @ [Observed]"
  using assms by (auto simp: read_json_def io_success read_bytes_def observe_def step_def Let_def split: option.splits)

lemma destructible_iff: "destructible jnl = Inr u \<longleftrightarrow> terminal jnl"
  by (auto simp: destructible_def terminal_def fail_if_iff FINAL_JOURNAL_STATUS_def)

lemma mark_run:
  assumes "mark_ephemeral_chain_destroyed E p w = (Inr u, w')"
  obtains raw jnl w1 where "fs_read (interfere E (trace w) (files w)) p = Inr raw"
    and "decode_json_bytes raw (path_text p) = Inr (JDict jnl)" and "owned_ephemeral jnl" and "terminal jnl"
    and "trace w1 = trace w @ [Observed]" and "write_json_atomic E p (JDict (discarded jnl)) w1 = (Inr u, w')"
proof -
  obtain v w1 jnl network d' where r: "read_json E (''cannot prove ephemeral-chain destruction for '' @ path_text p) p w = (Inr v, w1)"
    and j: "x_require_dict v (''execution journal '' @ path_text p) = Inr jnl"
    and n: "x_require_dict (dget jnl ''network'') (''execution journal '' @ path_text p @ ''.network'') = Inr network"
    and e: "dget network ''execution_mode'' = JStr ''anvil'' \<and>
         dget network ''rpc_scope'' = JStr ''ephemeral_loopback_anvil''"
    and d: "destructible jnl = Inr d'"
    and w: "write_json_atomic E p (JDict (discarded jnl)) w1 = (Inr u, w')"
    using assms unfolding mark_ephemeral_chain_destroyed_def by (auto simp only: io_success)
  have "v = JDict jnl" "dget jnl ''network'' = JDict network" using j n by (simp_all add: res_simps)
  then show thesis
    using that read_json_run[OF r] e d w unfolding owned_ephemeral_def destructible_iff by metis
qed

text \<open>
  C35: \<open>mark_ephemeral_chain_destroyed\<close> turns exactly the journal it finds at its path, and only one
  of an ephemeral chain the executor itself owned that is in one of its two terminal states:
  when it returns, that journal is on disk with its status, success and destruction mark
  changed and every other field as it was, nothing else was written, and a journal so marked stops
  no later attempt with the same identity.
\<close>

theorem mark_ephemeral_chain_destroyed_retry:
  assumes "mark_ephemeral_chain_destroyed E p w = (Inr u, w')"
  shows "\<exists>raw jnl final.
    fs_read (interfere E (trace w) (files w)) p = Inr raw \<and> decode_json_bytes raw (path_text p) = Inr (JDict jnl) \<and>
    owned_ephemeral jnl \<and> terminal jnl \<and>
    file_at (files w') p = Some (str_bytes (json_text (JDict final))) \<and>
    dget final ''status'' = JStr ''discarded_ephemeral_chain'' \<and> dget final ''success'' = JBool False \<and>
    dget final ''ephemeral_chain_destroyed'' = JBool True \<and>
    (\<forall>f. f \<notin> {''status'', ''success'', ''ephemeral_chain_destroyed''} \<longrightarrow> dget final f = dget jnl f) \<and>
    trace w' = trace w @ [Observed, Replaced p] \<and>
    (\<forall>expected plan chain sender key q.
       require_matching_journal_identity jnl expected q = Inr () \<longrightarrow>
       classify_journal expected plan chain sender key q (JDict final) = Inr ())"
proof -
  obtain raw jnl w1 where r: "fs_read (interfere E (trace w) (files w)) p = Inr raw"
      "decode_json_bytes raw (path_text p) = Inr (JDict jnl)" "owned_ephemeral jnl" "terminal jnl"
    and t: "trace w1 = trace w @ [Observed]" and m: "write_json_atomic E p (JDict (discarded jnl)) w1 = (Inr u, w')"
    by (rule mark_run[OF assms])
  have "trace w' = trace w @ [Observed, Replaced p]"
    using mutate_Inr[OF m[unfolded write_json_atomic_def write_bytes_atomic_def]] t by simp
  moreover have "classify_journal expected plan chain sender key q (JDict (discarded jnl)) = Inr ()"
    if "require_matching_journal_identity jnl expected q = Inr ()" for expected plan chain sender key q
    using r(3) classify_discarded[OF that] by (auto simp: owned_ephemeral_def)
  ultimately show ?thesis
    using r write_json_Inr[OF m] by (intro exI[of _ raw] exI[of _ jnl] exI[of _ "discarded jnl"]) (simp add: dget_discarded)
qed

definition demo_anvil_journal :: dict where
  "demo_anvil_journal = [(''status'', JStr ''awaiting_ephemeral_chain_destruction''), (''success'', JBool False),
     (''network'', JDict [(''execution_mode'', JStr ''anvil''), (''rpc_scope'', JStr ''ephemeral_loopback_anvil'')])]"

definition demo_anvil_world :: world where
  "demo_anvil_world = empty_world\<lparr>files :=
     [([''s''], Dir), ([''s'', ''1''], Dir),
      ([''s'', ''1'', JOURNAL_NAME], File (str_bytes (json_text (JDict demo_anvil_journal))))]\<rparr>"

theorem mark_ephemeral_chain_destroyed_retry_witness:
  "\<exists>w'. mark_ephemeral_chain_destroyed quiet_env [''s'', ''1'', JOURNAL_NAME] demo_anvil_world = (Inr (), w') \<and>
     trace w' = [Observed, Replaced [''s'', ''1'', JOURNAL_NAME]]"
proof -
  have "decode_json_bytes (str_bytes (json_text (JDict demo_anvil_journal)))
      (path_text [''s'', ''1'', JOURNAL_NAME]) = Inr (JDict demo_anvil_journal)"
    by (rule decode_json_text; code_simp)
  then have "fst (mark_ephemeral_chain_destroyed quiet_env [''s'', ''1'', JOURNAL_NAME] demo_anvil_world) = Inr ()"
    by (simp add: mark_ephemeral_chain_destroyed_def read_json_def run_defs read_bytes_def observe_def step_def
        Let_def quiet_env_def demo_anvil_world_def fs_read_def io_rename_def x_require_dict_def demo_anvil_journal_def
        dget_def destructible_def FINAL_JOURNAL_STATUS_def fail_if_def write_json_atomic_def write_bytes_atomic_def
        mutate_def replace_file_def parent_def mkdir_parents_def empty_world_def JOURNAL_NAME_def)
  then obtain w' where w: "mark_ephemeral_chain_destroyed quiet_env [''s'', ''1'', JOURNAL_NAME] demo_anvil_world = (Inr (), w')"
    by (elim returnsI[THEN exE]) (rule that)
  have "trace demo_anvil_world = []" by (simp add: demo_anvil_world_def empty_world_def)
  then show ?thesis using mark_ephemeral_chain_destroyed_retry[OF w] w by auto
qed

section \<open>The lock excludes\<close>

lemma map_of_mkdir: "mkdir fs p = Inr fs' \<Longrightarrow> map_of fs p = None \<and> map_of fs' p = Some Dir"
  by (auto simp: mkdir_def update_conv' split: if_splits)

lemma map_of_mkdir_parents_present:
  "mkdir_parents fs q = Inr fs' \<Longrightarrow> map_of fs p = Some n \<Longrightarrow> map_of fs' p = Some n"
  unfolding mkdir_parents_def by (rule map_of_make_parents)

lemma map_of_replace_other:
  "replace_file fs q raw = Inr fs' \<Longrightarrow> map_of fs p = Some Dir \<Longrightarrow> map_of fs' p = Some Dir"
  by (auto simp: replace_file_def res_simps update_conv' dest: map_of_mkdir_parents_present split: if_splits)

text \<open>
  C34: Two sessions never hold the lock of one chain and sender at once: once
  \<open>acquire_execution_lock\<close> has returned, the lock directory is there, and as long as nothing
  removes it a second acquisition under any session id fails.
\<close>

theorem acquire_execution_lock_excludes:
  assumes "acquire_execution_lock E session_parent lock_key session_id w = (Inr lock, w')"
    and "\<forall>tr fs. map_of fs lock = Some Dir \<longrightarrow> map_of (interfere E tr fs) lock = Some Dir"
    and "map_of (files w') lock = Some Dir \<longrightarrow> map_of (files w2) lock = Some Dir"
  shows "map_of (files w') lock = Some Dir \<and>
    acquire_execution_lock E session_parent lock_key other_session w2 \<noteq> (Inr lock2, w3)"
proof -
  let ?p = "lock_path_of session_parent lock_key"
  obtain w0 w1 where p: "lock = ?p"
    and m: "mutate E (Made ?p) (\<lambda>fs. mkdir fs ?p) w0 = (Inr (), w1)"
    and wr: "write_json_atomic E (?p @ [''owner.json''])
         (JDict [(''sender_lock_key'', JStr lock_key), (''session_id'', JStr session_id)]) w1 = (Inr (), w')"
    using assms(1) by (auto simp: acquire_execution_lock_def Let_def io_success)
  have keep: "map_of fs ?p = Some Dir \<Longrightarrow> map_of (interfere E tr fs) ?p = Some Dir" for tr fs
    using assms(2) p by blast
  have "map_of (files w1) ?p = Some Dir"
    using mutate_Inr[OF m] by (blast dest: map_of_mkdir)
  then have w': "map_of (files w') ?p = Some Dir"
    using mutate_Inr[OF wr[unfolded write_json_atomic_def write_bytes_atomic_def]]
    by (auto intro: map_of_replace_other keep)
  moreover have "acquire_execution_lock E session_parent lock_key other_session w2 \<noteq> (Inr lock2, w3)"
  proof
    assume "acquire_execution_lock E session_parent lock_key other_session w2 = (Inr lock2, w3)"
    then obtain u v where
      a: "mutate E (Made (session_parent @ [''.locks'']))
        (\<lambda>fs. mkdir_parents fs (session_parent @ [''.locks''])) w2 = (Inr (), u)"
      and b: "mutate E (Made ?p) (\<lambda>fs. mkdir fs ?p) u = (Inr (), v)"
      by (auto simp: acquire_execution_lock_def Let_def io_success)
    have "map_of (files u) ?p = Some Dir"
      using mutate_Inr[OF a] w' assms(3) p by (auto intro: map_of_mkdir_parents_present keep)
    then show False using mutate_Inr[OF b] keep map_of_mkdir by fastforce
  qed
  ultimately show ?thesis by (simp add: p)
qed

theorem acquire_execution_lock_excludes_witness:
  "\<exists>w'. acquire_execution_lock quiet_env [''s''] ''k'' ''1'' demo_journal_world = (Inr [''s'', ''.locks'', ''k''], w') \<and>
     (\<forall>lock2 w3. acquire_execution_lock quiet_env [''s''] ''k'' ''2'' w' \<noteq> (Inr lock2, w3))"
proof -
  have "fst (acquire_execution_lock quiet_env [''s''] ''k'' ''1'' demo_journal_world) = Inr [''s'', ''.locks'', ''k'']"
    by (simp add: acquire_execution_lock_def lock_path_of_def run_defs Let_def mutate_def step_def quiet_env_def
        demo_journal_world_def write_json_atomic_def write_bytes_atomic_def replace_file_def parent_def
        mkdir_parents_def mkdir_def empty_world_def io_rename_def)
  then obtain w' where w: "acquire_execution_lock quiet_env [''s''] ''k'' ''1'' demo_journal_world =
      (Inr [''s'', ''.locks'', ''k''], w')"
    by (elim returnsI[THEN exE]) (rule that)
  have "acquire_execution_lock quiet_env [''s''] ''k'' ''2'' w' \<noteq> (Inr lock2, w3)" for lock2 w3
    by (rule acquire_execution_lock_excludes[OF w, THEN conjunct2]) (simp_all add: quiet_env_def)
  with w show ?thesis by blast
qed

end
