(* ===== verification/Sources.thy ===== *)
theory Sources
  imports Journal "HOL-Library.Product_Lexorder"
begin

text \<open>
  What the pipeline reads from the repository: documents as immutable snapshots with their
  digests (\<open>load_json_snapshot\<close> and its projections, \<open>file_sha256\<close>,
  \<open>validate_release_file_snapshot\<close>), validated against the checked-in schemas
  (\<open>format_json_schema_path\<close>, \<open>validate_draft_2020_12_schema\<close>). The JSON Schema library is a
  parameter: whether a schema is one, and the errors a value has under it.
\<close>

definition unreadable :: "path \<Rightarrow> exn \<Rightarrow> exn" where
  "unreadable p e =
     (case e of
        OSError m \<Rightarrow> DeploymentPlanError (''cannot read required file '' @ path_text p @ '': '' @ m)
      | FileExistsError m \<Rightarrow> DeploymentPlanError (''cannot read required file '' @ path_text p @ '': '' @ m)
      | _ \<Rightarrow> e)"

definition load_json_snapshot :: "env \<Rightarrow> path \<Rightarrow> (json \<times> byte list \<times> string) io" where
  "load_json_snapshot E p =
     io_bind (io_rename (unreadable p) (read_bytes E p)) (\<lambda>raw.
     io_bind (lift (decode_json_bytes raw (path_text p))) (\<lambda>value.
     io_return (value, raw, sha256_bytes (hash E) raw)))"

definition load_json_with_sha256 :: "env \<Rightarrow> path \<Rightarrow> (json \<times> string) io" where
  "load_json_with_sha256 E p =
     io_bind (load_json_snapshot E p) (\<lambda>(value, _, digest). io_return (value, digest))"

definition load_json :: "env \<Rightarrow> path \<Rightarrow> json io" where
  "load_json E p = io_bind (load_json_with_sha256 E p) (\<lambda>(value, _). io_return value)"

definition file_sha256 :: "env \<Rightarrow> path \<Rightarrow> string io" where
  "file_sha256 E p =
     io_bind (io_rename (unreadable p) (read_bytes E p)) (\<lambda>raw. io_return (sha256_bytes (hash E) raw))"

definition repo_path :: "env \<Rightarrow> path \<Rightarrow> py_path \<Rightarrow> string \<Rightarrow> path io" where
  "repo_path E root value label = observe E (\<lambda>fs. normalize_repo_path fs root value label)"

definition output_path_of :: "env \<Rightarrow> path \<Rightarrow> py_path \<Rightarrow> path io" where
  "output_path_of E root value = observe E (\<lambda>fs. resolve_output_path fs root value)"

text \<open>
  A snapshot the release validation returned. That it is one, with bytes and a text digest,
  is its type here.
\<close>

definition validate_release_file_snapshot ::
  "hashes \<Rightarrow> release_snapshot \<Rightarrow> path \<Rightarrow> string \<Rightarrow> (byte list \<times> string) res" where
  "validate_release_file_snapshot H s expected label =
     (if snap_path s \<noteq> expected
      then Inl (DeploymentPlanError (label @ '' snapshot path mismatch: expected '' @ path_text expected @
             '', got '' @ path_text (snap_path s)))
      else
        let actual = sha256_bytes H (snap_raw s) in
        if snap_sha256 s \<noteq> actual
        then Inl (DeploymentPlanError (label @ '' snapshot digest mismatch: expected '' @ snap_sha256 s @
               '', got '' @ actual))
        else Inr (snap_raw s, actual))"

section \<open>Schemas\<close>

definition JSON_SCHEMA_DRAFT_2020_12 :: string where
  "JSON_SCHEMA_DRAFT_2020_12 = ''https://json-schema.org/draft/2020-12/schema''"

text \<open>A validator path is a list of member names and array indices.\<close>

definition schema_path_part :: "json \<Rightarrow> string" where
  "schema_path_part part =
     (case part of
        JInt i \<Rightarrow> ''['' @ dec_int i @ '']''
      | JStr s \<Rightarrow> ''['' @ quote_ascii s @ '']''
      | _ \<Rightarrow> [])"

definition format_json_schema_path :: "json list \<Rightarrow> string" where
  "format_json_schema_path parts = ''$'' @ concat (map schema_path_part parts)"

definition first_schema_error :: "(json list \<times> string) list \<Rightarrow> (string \<times> string) option" where
  "first_schema_error errors =
     (case sort (map (\<lambda>(parts, m). (format_json_schema_path parts, m)) errors) of
        [] \<Rightarrow> None
      | e # _ \<Rightarrow> Some e)"

definition check_schema :: "env \<Rightarrow> json \<Rightarrow> json \<Rightarrow> string \<Rightarrow> unit res" where
  "check_schema E document value label =
     rbind (require_dict document (label @ '' schema'')) (\<lambda>schema.
     if dget schema ''$schema'' \<noteq> JStr JSON_SCHEMA_DRAFT_2020_12
     then Inl (DeploymentPlanError (label @ '' schema must declare '' @ JSON_SCHEMA_DRAFT_2020_12))
     else
       (case schema_defect E (JDict schema) of
          Some m \<Rightarrow> Inl (DeploymentPlanError (label @ '' schema is not valid Draft 2020-12: '' @ m))
        | None \<Rightarrow>
            (case first_schema_error (schema_errors E (JDict schema) value) of
               Some (location, m) \<Rightarrow> Inl (DeploymentPlanError (label @
                 '' does not satisfy its Draft 2020-12 schema at '' @ location @ '': '' @ m))
             | None \<Rightarrow> Inr ())))"

definition validate_draft_2020_12_schema :: "env \<Rightarrow> path \<Rightarrow> path \<Rightarrow> json \<Rightarrow> string \<Rightarrow> unit io" where
  "validate_draft_2020_12_schema E root schema_path value label =
     io_bind (repo_path E root (Abs (root @ schema_path)) (label @ '' schema'')) (\<lambda>resolved.
     io_bind (load_json E resolved) (\<lambda>document.
     lift (check_schema E document value label)))"

context passive_invariant
begin

lemma load_keeps:
  "keeps I (load_json_snapshot E p)"
  "keeps I (load_json_with_sha256 E p)"
  "keeps I (load_json E p)"
  "keeps I (file_sha256 E p)"
  unfolding load_json_def load_json_with_sha256_def load_json_snapshot_def file_sha256_def
  by (intro keeps_rules passive_keeps)+

lemma path_keeps:
  "keeps I (repo_path E root value label)"
  "keeps I (output_path_of E root value)"
  unfolding repo_path_def output_path_of_def by (intro passive_keeps)+

lemma schema_keeps: "keeps I (validate_draft_2020_12_schema E root schema_path value label)"
  unfolding validate_draft_2020_12_schema_def by (intro keeps_rules load_keeps path_keeps)

end

end
