(* ===== verification/Authority.thy ===== *)
theory Authority
  imports Sources
begin

text \<open>
  What authorises an execution: the plan, which must be byte for byte what the materializer
  produces again (\<open>canonical_plan_snapshot\<close>, \<open>assert_authority_unchanged\<close>,
  \<open>execution_plan_binding\<close>), the generic broadcaster and its compiler closure
  (\<open>validate_broadcaster_source\<close>, \<open>validate_build_closure\<close>, \<open>read_file_snapshot\<close>), the command
  and environment Forge is run with, and the deployments of the plan
  (\<open>deployment_authority_record\<close>, \<open>validate_deployment\<close>).
\<close>

section \<open>The plan\<close>

definition EXECUTABLE_PLAN_STATUSES :: "string list" where
  "EXECUTABLE_PLAN_STATUSES = [''non_production_tooling_only'', ''candidate_complete_tooling_only'']"

text \<open>The posture of a plan that has been matched against its source.\<close>

definition check_plan_posture :: "dict \<Rightarrow> unit res" where
  "check_plan_posture plan =
     rbind (x_require_dict (dget plan ''release_posture'') ''release_posture'') (\<lambda>posture.
     rbind (x_require_dict (dget plan ''candidate'') ''candidate'') (\<lambda>candidate.
     rbind (x_require_string (dget candidate ''schema_version'') ''candidate.schema_version'') (\<lambda>schema.
     rbind (set_member EXECUTABLE_PLAN_STATUSES (dget posture ''status'')) (\<lambda>executable.
     if \<not> executable then fail_if True ''deployment plan does not declare an executable tooling posture''
     else if schema = CANDIDATE_SCHEMA then
       fail_if (dget posture ''production_candidate'' \<noteq> JBool False \<or>
           dget candidate ''candidate_identity_sha256'' \<noteq> JNull \<or>
           dget candidate ''candidate_identity_keccak256'' \<noteq> JNull)
         ''legacy v1 candidate plan has an invalid authority posture''
     else if schema = CANDIDATE_V2_SCHEMA then
       rbind (fail_if (dget posture ''production_candidate'' \<noteq> JBool True)
         ''complete v2 candidate plan must retain its production-candidate flag'') (\<lambda>_.
       rbind (x_require_sha256 (dget candidate ''candidate_identity_sha256'')
         ''candidate.candidate_identity_sha256'') (\<lambda>_.
       rbind (x_require_hash (dget candidate ''candidate_identity_keccak256'')
         ''candidate.candidate_identity_keccak256'') (\<lambda>_. Inr ())))
     else fail_if True (''unsupported deployment candidate schema '' @ py_repr schema)))))"

text \<open>
  \<open>materialize\<close> is the materializer's \<open>materialize_deployment_plan\<close>.
\<close>

type_synonym materialize = "path \<Rightarrow> py_path \<Rightarrow> dict io"

definition canonical_plan_snapshot ::
  "env \<Rightarrow> materialize \<Rightarrow> path \<Rightarrow> py_path \<Rightarrow> path \<Rightarrow> (dict \<times> byte list \<times> string) io" where
  "canonical_plan_snapshot E materialize root candidate_path plan_path =
     io_bind (materialize root candidate_path) (\<lambda>expected.
     let expected_raw = str_bytes (json_text (JDict expected)) in
     io_bind (io_rename (cannot (''cannot read canonical deployment plan '' @ path_text plan_path))
       (read_bytes E plan_path)) (\<lambda>actual_raw.
     io_bind (io_rename as_execution_error (lift (decode_json_bytes actual_raw (path_text plan_path)))) (\<lambda>actual.
     io_then (require (py_eq actual (JDict expected) \<and> actual_raw = expected_raw)
       (CanonicalExecutionError (path_text plan_path @ '' is stale or mutated; rematerialize before execution'')))
     (io_then (lift (check_plan_posture expected))
     (io_return (expected, expected_raw, sha256_bytes (hash E) expected_raw))))))"

definition execution_plan_binding :: "dict \<Rightarrow> string \<Rightarrow> string \<Rightarrow> dict res" where
  "execution_plan_binding plan plan_path plan_sha256 =
     rbind (x_require_dict (dget plan ''candidate'') ''candidate'') (\<lambda>candidate.
     rbind (x_require_dict (dget plan ''release_build'') ''release_build'') (\<lambda>build.
     rbind (x_require_repo_path (JStr plan_path) ''receipt.plan.path'') (\<lambda>path_value.
     rbind (x_require_sha256 (JStr plan_sha256) ''receipt.plan.sha256'') (\<lambda>sha256_value.
     rbind (x_require_identifier (dget candidate ''candidate_id'') ''receipt.plan.candidate_id'') (\<lambda>candidate_id.
     rbind (x_require_string (dget candidate ''schema_version'')
       ''receipt.plan.candidate_schema_version'') (\<lambda>schema_version.
     rbind (x_require_sha256 (dget build ''receipt_sha256'') ''receipt.plan.release_receipt_sha256'') (\<lambda>receipt.
     rbind (x_require_sha256 (dget build ''target_catalog_sha256'') ''receipt.plan.target_catalog_sha256'') (\<lambda>catalog.
     rbind (x_require_sha256 (dget build ''config_sha256'') ''receipt.plan.release_config_sha256'') (\<lambda>config.
     rbind (x_require_sha256 (dget build ''foundry_config_sha256'')
       ''receipt.plan.release_foundry_config_sha256'') (\<lambda>foundry.
     Inr [(''path'', JStr path_value), (''sha256'', JStr sha256_value),
          (''candidate_id'', JStr candidate_id), (''candidate_schema_version'', JStr schema_version),
          (''candidate_identity_sha256'', dget candidate ''candidate_identity_sha256''),
          (''candidate_identity_keccak256'', dget candidate ''candidate_identity_keccak256''),
          (''release_receipt_sha256'', JStr receipt), (''target_catalog_sha256'', JStr catalog),
          (''release_config_sha256'', JStr config), (''release_foundry_config_sha256'', JStr foundry)]))))))))))"

definition assert_authority_unchanged ::
  "env \<Rightarrow> materialize \<Rightarrow> path \<Rightarrow> py_path \<Rightarrow> path \<Rightarrow> string \<Rightarrow> unit io" where
  "assert_authority_unchanged E materialize root candidate_path plan_path expected_plan_sha256 =
     io_bind (canonical_plan_snapshot E materialize root candidate_path plan_path) (\<lambda>(_, _, actual).
     require (actual = expected_plan_sha256)
       (CanonicalExecutionError ''canonical plan authority changed during execution''))"

section \<open>Source snapshots\<close>

definition read_file_snapshot :: "env \<Rightarrow> path \<Rightarrow> string \<Rightarrow> (byte list \<times> string) io" where
  "read_file_snapshot E p label =
     io_bind (io_rename (cannot (''cannot read '' @ label @ '' '' @ path_text p)) (read_bytes E p)) (\<lambda>raw.
     io_return (raw, sha256_bytes (hash E) raw))"

definition assert_file_snapshot_unchanged :: "env \<Rightarrow> path \<Rightarrow> string \<Rightarrow> string \<Rightarrow> unit io" where
  "assert_file_snapshot_unchanged E p expected_sha256 label =
     io_bind (read_file_snapshot E p label) (\<lambda>(_, actual).
     require (actual = expected_sha256) (CanonicalExecutionError (label @ '' changed during execution'')))"

definition FORBIDDEN_TOKENS :: "string list" where
  "FORBIDDEN_TOKENS = [''smart-contracts/'', ''smart-contracts'' @ [CHR 0x5C], ''.creationCode'', ''type('']"

definition REQUIRED_TOKENS :: "string list" where
  "REQUIRED_TOKENS =
     [''sha256(bytes(plan))'',
      ''parseJsonBytes(plan, string.concat(deploymentPath, '' @ [CHR 0x22] @ ''.initcode'' @ [CHR 0x22] @ ''))'',
      ''create(0, add(initcode, 0x20), mload(initcode))'']"

definition check_broadcaster :: "string \<Rightarrow> unit res" where
  "check_broadcaster source =
     (case find (\<lambda>token. contains token source) FORBIDDEN_TOKENS of
        Some token \<Rightarrow> fail_if True (''generic broadcaster contains forbidden token '' @ py_repr token)
      | None \<Rightarrow> fail_if (list_ex (\<lambda>token. \<not> contains token source) REQUIRED_TOKENS)
          ''generic broadcaster does not hash and deploy plan-provided raw initcode'')"

text \<open>The text of a \<open>UnicodeDecodeError\<close> is the library's; only the prefix is modelled.\<close>

definition decode_source :: "path \<Rightarrow> byte list \<Rightarrow> string res" where
  "decode_source p raw =
     (case decode_utf8 raw of
        Some source \<Rightarrow> Inr source
      | None \<Rightarrow> Inl (CanonicalExecutionError (''cannot read generic broadcaster '' @ path_text p @ '': '')))"

definition validate_broadcaster_source :: "env \<Rightarrow> path \<Rightarrow> path \<Rightarrow> string io" where
  "validate_broadcaster_source E root script_path =
     io_bind (repo_path E root (Abs script_path) ''generic broadcaster source'') (\<lambda>p.
     io_bind (io_rename (cannot (''cannot read generic broadcaster '' @ path_text p)) (read_bytes E p)) (\<lambda>raw.
     io_bind (lift (decode_source p raw)) (\<lambda>source.
     io_then (lift (check_broadcaster source))
     (io_return (sha256_bytes (hash E) raw)))))"

text \<open>\<open>set(source_map.values()) != {name}\<close>.\<close>

definition only_value :: "string \<Rightarrow> dict \<Rightarrow> bool res" where
  "only_value name m =
     rbind (each (\<lambda>_ (k, v). set_member [name] v) 0 m) (\<lambda>equal. Inr (equal \<noteq> [] \<and> list_all id equal))"

definition validate_build_closure :: "env \<Rightarrow> path \<Rightarrow> unit io" where
  "validate_build_closure E session_root =
     io_bind (observe E (\<lambda>fs. Inr (glob_json fs (session_root @ [''out'', ''build-info''])))) (\<lambda>candidates.
     io_then (require (length candidates = 1) (CanonicalExecutionError
       (''expected one generic-script build-info file, found '' @ dec (length candidates))))
     (io_bind (read_json E ''cannot validate generic-script build-info'' (hd candidates)) (\<lambda>value.
      io_bind (lift (x_require_dict value ''generic-script build-info'')) (\<lambda>build_info.
      io_bind (lift (x_require_dict (dget build_info ''source_id_to_path'')
        ''generic-script build-info.source_id_to_path'')) (\<lambda>source_map.
      io_bind (lift (only_value ''DeployCanonicalInitcode.s.sol'' source_map)) (\<lambda>only.
      require only (CanonicalExecutionError
        ''generic-script compiler closure contains sources beyond the raw-initcode broadcaster'')))))))"

section \<open>Forge\<close>

definition forge_command :: "path \<Rightarrow> string \<Rightarrow> string list \<Rightarrow> bool \<Rightarrow> string list" where
  "forge_command executor_root sender signer_cli broadcast =
     [''forge'', ''script'',
      path_text (executor_root @ [''DeployCanonicalInitcode.s.sol'']) @ '':DeployCanonicalInitcode'',
      ''--root'', path_text executor_root, ''--contracts'', ''.'',
      ''--config-path'', path_text (executor_root @ [''foundry.toml'']),
      ''--rpc-url'', ''canonical_executor'', ''--sender'', sender, ''--slow''] @ signer_cli @
     (if broadcast then [''--broadcast''] else [])"

definition SAFE_CHILD_ENVIRONMENT :: "string list" where
  "SAFE_CHILD_ENVIRONMENT =
     [''APPDATA'', ''COMSPEC'', ''COMMONPROGRAMFILES'', ''COMMONPROGRAMFILES(X86)'', ''COMMONPROGRAMW6432'',
      ''HOME'', ''HOMEDRIVE'', ''HOMEPATH'', ''LANG'', ''LC_ALL'', ''LOCALAPPDATA'', ''PATH'', ''PATHEXT'',
      ''PROGRAMDATA'', ''PROGRAMFILES'', ''PROGRAMFILES(X86)'', ''PROGRAMW6432'', ''SSL_CERT_DIR'',
      ''SSL_CERT_FILE'', ''SYSTEMROOT'', ''SYSTEMDRIVE'', ''TEMP'', ''TMP'', ''TMPDIR'', ''USERPROFILE'',
      ''USERNAME'', ''WINDIR'']"

text \<open>\<open>d.update(e)\<close> on string dictionaries.\<close>

definition env_update :: "(string \<times> string) list \<Rightarrow> (string \<times> string) list \<Rightarrow> (string \<times> string) list" where
  "env_update d e = foldl (\<lambda>acc (k, v). AList.update k v acc) d e"

definition forge_environment ::
  "(string \<times> string) list \<Rightarrow> string \<Rightarrow> string \<Rightarrow> path \<Rightarrow> string \<Rightarrow> int \<Rightarrow> int \<Rightarrow> path \<Rightarrow> path \<Rightarrow>
   (string \<times> string) list" where
  "forge_environment base rpc_url sender plan_path plan_sha256 index count session_root broadcast_root =
     env_update (filter (\<lambda>(key, _). upper key \<in> set SAFE_CHILD_ENVIRONMENT) base)
       [(''CANONICAL_DEPLOYMENT_RPC_URL'', rpc_url),
        (''CANONICAL_DEPLOYMENT_SENDER'', sender),
        (''CANONICAL_DEPLOYMENT_PLAN_PATH'', path_text plan_path),
        (''CANONICAL_DEPLOYMENT_PLAN_SHA256'', ''0x'' @ removeprefix_sha plan_sha256),
        (''CANONICAL_DEPLOYMENT_INDEX'', dec_int index),
        (''CANONICAL_DEPLOYMENT_COUNT'', dec_int count),
        (''FOUNDRY_OUT'', path_text (session_root @ [''out''])),
        (''FOUNDRY_CACHE_PATH'', path_text (session_root @ [''cache''])),
        (''FOUNDRY_BROADCAST'', path_text broadcast_root)]"

section \<open>Deployments of the plan\<close>

definition deployment_authority_record :: "hashes \<Rightarrow> dict \<Rightarrow> dict res" where
  "deployment_authority_record H deployment =
     rbind (x_require_dict (dget deployment ''target'') ''deployment.target'') (\<lambda>target.
     rbind (x_require_dict (dget deployment ''artifact'') ''deployment.artifact'') (\<lambda>artifact.
     rbind (x_require_dict (dget deployment ''constructor'') ''deployment.constructor'') (\<lambda>constructor.
     rbind (x_require_list (dget deployment ''libraries'') ''deployment.libraries'') (\<lambda>libraries.
     rbind (x_require_list (dget deployment ''immutables'') ''deployment.immutables'') (\<lambda>immutables.
     rbind (x_require_string (dget target ''name'') ''deployment.target.name'') (\<lambda>target_name.
     rbind (x_require_repo_path (dget target ''source'') ''deployment.target.source'') (\<lambda>target_source.
     rbind (x_require_repo_path (dget artifact ''path'') ''deployment.artifact.path'') (\<lambda>artifact_path.
     rbind (x_require_string (dget artifact ''sha256'') ''deployment.artifact.sha256'') (\<lambda>artifact_sha256.
     rbind (x_require_hash (dget deployment ''linked_creation_bytecode_keccak256'')
       ''deployment.linked_creation_bytecode_keccak256'') (\<lambda>linked.
     rbind (x_require_hash (dget deployment ''initcode_keccak256'') ''deployment.initcode_keccak256'') (\<lambda>initcode.
     rbind (x_require_hash (dget deployment ''expected_runtime_keccak256'')
       ''deployment.expected_runtime_keccak256'') (\<lambda>runtime.
     Inr [(''target_name'', JStr target_name), (''target_source'', JStr target_source),
          (''artifact_path'', JStr artifact_path), (''artifact_sha256'', JStr artifact_sha256),
          (''constructor_sha256'', JStr (sha256_bytes H (canonical_json_bytes (JDict constructor)))),
          (''libraries_sha256'', JStr (sha256_bytes H (canonical_json_bytes (JList libraries)))),
          (''immutables_sha256'', JStr (sha256_bytes H (canonical_json_bytes (JList immutables)))),
          (''linked_creation_bytecode_keccak256'', JStr linked),
          (''initcode_keccak256'', JStr initcode),
          (''expected_runtime_keccak256'', JStr runtime)]))))))))))))"

text \<open>A bytecode of a deployment: its length and its hash.\<close>

definition check_code :: "hashes \<Rightarrow> dict \<Rightarrow> string \<Rightarrow> string \<Rightarrow> string \<Rightarrow> string \<Rightarrow> string \<Rightarrow> unit res" where
  "check_code H deployment instance_id what code_field length_field hash_field =
     rbind (x_require_hex None (dget deployment code_field) (''deployment.'' @ code_field)) (\<lambda>code.
     rbind (x_require_integer (dget deployment length_field) (''deployment.'' @ length_field)) (\<lambda>len.
     rbind (fail_if (int (length (drop 2 code) div 2) \<noteq> len)
       (''deployment '' @ instance_id @ '' '' @ what @ '' length does not match its bytes'')) (\<lambda>_.
     rbind (x_require_hash (dget deployment hash_field) (''deployment.'' @ hash_field)) (\<lambda>expected_hash.
     rbind (text_keccak H code) (\<lambda>actual_hash.
     fail_if (actual_hash \<noteq> expected_hash)
       (''deployment '' @ instance_id @ '' '' @ what @ '' hash does not match its bytes''))))))"

definition validate_deployment :: "hashes \<Rightarrow> dict \<Rightarrow> int \<Rightarrow> unit res" where
  "validate_deployment H deployment expected_order =
     rbind (x_require_integer (dget deployment ''order'') ''deployment.order'') (\<lambda>order.
     rbind (fail_if (order \<noteq> expected_order)
       (''deployment order must be contiguous: expected '' @ dec_int expected_order @ '', got '' @ dec_int order)) (\<lambda>_.
     rbind (x_require_string (dget deployment ''instance_id'') ''deployment.instance_id'') (\<lambda>instance_id.
     rbind (check_code H deployment instance_id ''initcode'' ''initcode'' ''initcode_length_bytes''
       ''initcode_keccak256'') (\<lambda>_.
     check_code H deployment instance_id ''runtime'' ''expected_runtime_bytecode''
       ''expected_runtime_length_bytes'' ''expected_runtime_keccak256''))))"

context passive_invariant
begin

lemma snapshot_keeps:
  "keeps I (read_file_snapshot E p label)"
  "keeps I (assert_file_snapshot_unchanged E p sha label)"
  "keeps I (validate_broadcaster_source E root p)"
  "keeps I (validate_build_closure E q)"
  unfolding assert_file_snapshot_unchanged_def read_file_snapshot_def validate_broadcaster_source_def
    validate_build_closure_def
  by (intro keeps_rules passive_keeps path_keeps read_json_keeps)+

lemma authority_keeps:
  assumes "\<And>root c. keeps I (materialize root c)"
  shows "keeps I (canonical_plan_snapshot E materialize root c p)"
    and "keeps I (assert_authority_unchanged E materialize root c p sha)"
  unfolding assert_authority_unchanged_def canonical_plan_snapshot_def Let_def
  by (intro keeps_rules passive_keeps assms)+

end

section \<open>Secrets in failure messages\<close>

lemma contains_iff: "contains needle s \<longleftrightarrow> (\<exists>a b. s = a @ needle @ b)"
proof (induction s)
  case (Cons c cs)
  have "contains needle (c # cs) \<longleftrightarrow> prefix needle (c # cs) \<or> (\<exists>a b. cs = a @ needle @ b)"
    using Cons by simp
  also have "\<dots> \<longleftrightarrow> (\<exists>a b. c # cs = a @ needle @ b)"
  proof
    assume "prefix needle (c # cs) \<or> (\<exists>a b. cs = a @ needle @ b)"
    then show "\<exists>a b. c # cs = a @ needle @ b"
      by (metis append_Cons append_Nil prefix_def)
  next
    assume "\<exists>a b. c # cs = a @ needle @ b"
    then obtain a b where "c # cs = a @ needle @ b" by blast
    then show "prefix needle (c # cs) \<or> (\<exists>a b. cs = a @ needle @ b)"
      by (cases a) (auto simp: prefix_def)
  qed
  finally show ?case .
qed simp

text \<open>
  A text that never closes a bracket it did not open: what matters of \<open>needle\<close> is that it has
  no bracket, so that it can only lie in a piece between brackets.
\<close>

definition plain :: "string \<Rightarrow> bool" where
  "plain s \<longleftrightarrow> CHR ''<'' \<notin> set s \<and> CHR ''>'' \<notin> set s \<and> s \<noteq> []"

definition opaque :: "string \<Rightarrow> string \<Rightarrow> bool" where
  "opaque needle key \<longleftrightarrow> \<not> contains needle (''redacted:'' @ key)"

lemma split_at_bracket:
  assumes "c \<notin> set needle" and "x @ c # y = a @ needle @ b"
  shows "(\<exists>b'. x = a @ needle @ b') \<or> (\<exists>a'. y = a' @ needle @ b)"
  using assms by (auto simp: append_eq_append_conv2 Cons_eq_append_conv append_eq_Cons_conv)

lemma contains_bracket:
  assumes "c \<notin> set needle"
  shows "contains needle (x @ c # y) \<longleftrightarrow> contains needle x \<or> contains needle y"
proof
  assume "contains needle (x @ c # y)"
  then obtain a b where "x @ c # y = a @ needle @ b" by (auto simp: contains_iff)
  from split_at_bracket[OF assms this] show "contains needle x \<or> contains needle y"
    by (auto simp: contains_iff)
next
  assume "contains needle x \<or> contains needle y"
  then show "contains needle (x @ c # y)"
    by (auto simp: contains_iff) (metis append.assoc append_Cons)+
qed

lemma contains_redaction:
  assumes "plain needle"
  shows "contains needle (x @ redaction key @ y) \<longleftrightarrow>
     contains needle x \<or> contains needle (''redacted:'' @ key) \<or> contains needle y"
proof -
  have "x @ redaction key @ y = x @ CHR ''<'' # ((''redacted:'' @ key) @ CHR ''>'' # y)"
    by (simp add: redaction_def)
  then show ?thesis
    using assms contains_bracket[of "CHR ''<''" needle x] contains_bracket[of "CHR ''>''" needle "''redacted:'' @ key" y]
    by (simp add: plain_def)
qed

lemma contains_append: "contains needle s \<Longrightarrow> contains needle (s @ y)"
  by (force simp: contains_iff)

lemma contains_prepend: "contains needle s \<Longrightarrow> contains needle (x @ s)"
  by (auto simp: contains_iff) (metis append.assoc)

lemma contains_subset: "contains needle s \<Longrightarrow> set needle \<subseteq> set s"
  by (auto simp: contains_iff)

lemma contains_drop: "contains needle (drop n s) \<Longrightarrow> contains needle (x @ s)"
  using contains_prepend[of needle "drop n s" "x @ take n s"] by simp

lemma replace_all_keeps:
  assumes "plain needle" "opaque needle key" "\<not> contains needle (x @ s)"
  shows "\<not> contains needle (x @ replace_all old (redaction key) s)"
  using assms(3)
proof (induction old "redaction key" s arbitrary: x rule: replace_all.induct)
  case (2 old c cs)
  show ?case
  proof (cases "old \<noteq> [] \<and> prefix old (c # cs)")
    case True
    have sub: "contains needle x \<Longrightarrow> contains needle (x @ c # cs)"
      "contains needle (drop (length old) (c # cs)) \<Longrightarrow> contains needle (x @ c # cs)"
      by (blast intro: contains_append contains_drop)+
    then have "\<not> contains needle x" "\<not> contains needle ([] @ drop (length old) (c # cs))"
      using 2(3) by auto
    then show ?thesis using 2(1)[OF True, of "[]"] True assms(2)
      by (simp add: contains_redaction[OF assms(1)] opaque_def del: drop_Cons)
  next
    case False
    then have "replace_all old r (c # cs) = c # replace_all old r cs" for r
      by (simp only: replace_all.simps if_False)
    then show ?thesis using 2(2)[OF False, of "x @ [c]"] 2(3) by simp
  qed
qed simp

lemma replace_all_removes:
  assumes "plain old" "opaque old key" "\<forall>a b. x @ s = a @ old @ b \<longrightarrow> length x \<le> length a"
  shows "\<not> contains old (x @ replace_all old (redaction key) s)"
  using assms
proof (induction old "redaction key" s arbitrary: x rule: replace_all.induct)
  case (1 old)
  then show ?case by (auto simp: contains_iff plain_def)
next
  case (2 old c cs)
  have ne: "old \<noteq> []" using 2(3) by (simp add: plain_def)
  show ?case
  proof (cases "prefix old (c # cs)")
    case True
    have "\<not> contains old x"
    proof
      assume "contains old x"
      then obtain a b where "x = a @ old @ b" by (auto simp: contains_iff)
      then have "length x \<le> length a" using 2(5)[rule_format, of a "b @ c # cs"] by simp
      then show False using \<open>x = a @ old @ b\<close> ne by simp
    qed
    moreover have "\<not> contains old ([] @ replace_all old (redaction key) (drop (length old) (c # cs)))"
      by (rule 2(1)) (use ne True 2(3,4) in simp_all)
    ultimately show ?thesis using ne True 2(3,4)
      by (simp add: contains_redaction opaque_def del: drop_Cons)
  next
    case False
    have "\<not> contains old ((x @ [c]) @ replace_all old (redaction key) cs)"
    proof (rule 2(2))
      show "\<forall>a b. (x @ [c]) @ cs = a @ old @ b \<longrightarrow> length (x @ [c]) \<le> length a"
      proof (intro allI impI)
        fix a b assume e: "(x @ [c]) @ cs = a @ old @ b"
        then have "length x \<le> length a" using 2(5) by simp
        moreover have "length x \<noteq> length a"
        proof
          assume "length x = length a"
          then have "c # cs = old @ b" using e by simp
          then show False using False by (auto simp: prefix_def)
        qed
        ultimately show "length (x @ [c]) \<le> length a" by simp
      qed
    qed (use False 2(3,4) in simp_all)
    then show ?thesis using False by simp
  qed
qed

definition redact_step :: "string \<Rightarrow> string \<times> string \<Rightarrow> string" where
  "redact_step text entry =
     (if secret_variable entry then replace_all (snd entry) (redaction (fst entry)) text else text)"

lemma redact_fold: "redact vars detail = foldl redact_step detail vars"
  by (simp add: redact_def redact_step_def[abs_def])

lemma redact_keeps:
  "plain needle \<Longrightarrow> \<forall>(k, v) \<in> set vars. secret_variable (k, v) \<longrightarrow> opaque needle k \<Longrightarrow>
     \<not> contains needle t \<Longrightarrow> \<not> contains needle (foldl redact_step t vars)"
proof (induction vars arbitrary: t)
  case (Cons entry vars)
  have "\<not> contains needle (redact_step t entry)"
    using Cons.prems replace_all_keeps[of needle "fst entry" "[]" t "snd entry"]
    by (cases entry) (auto simp: redact_step_def)
  with Cons show ?case by simp
qed simp

lemma redact_hides:
  assumes "(k, s) \<in> set vars" "secret_variable (k, s)" "plain s"
    and "\<forall>(k', v) \<in> set vars. secret_variable (k', v) \<longrightarrow> opaque s k'"
  shows "\<not> contains s (redact vars detail)"
proof -
  obtain as bs where v: "vars = as @ (k, s) # bs" using assms(1) by (meson split_list)
  have "\<not> contains s (redact_step (foldl redact_step detail as) (k, s))"
    using assms replace_all_removes[of s k "[]"] by (auto simp: redact_step_def)
  then have "\<not> contains s (foldl redact_step (redact_step (foldl redact_step detail as) (k, s)) bs)"
    by (rule redact_keeps[rotated 2]) (use assms(3,4) v in auto)
  then show ?thesis by (simp add: redact_fold v)
qed

definition forge_fields :: "string \<Rightarrow> string \<Rightarrow> path \<Rightarrow> string \<Rightarrow> int \<Rightarrow> int \<Rightarrow> path \<Rightarrow> path \<Rightarrow> (string \<times> string) list" where
  "forge_fields rpc_url sender plan_path plan_sha256 index count session_root broadcast_root =
       [(''CANONICAL_DEPLOYMENT_RPC_URL'', rpc_url),
        (''CANONICAL_DEPLOYMENT_SENDER'', sender),
        (''CANONICAL_DEPLOYMENT_PLAN_PATH'', path_text plan_path),
        (''CANONICAL_DEPLOYMENT_PLAN_SHA256'', ''0x'' @ removeprefix_sha plan_sha256),
        (''CANONICAL_DEPLOYMENT_INDEX'', dec_int index),
        (''CANONICAL_DEPLOYMENT_COUNT'', dec_int count),
        (''FOUNDRY_OUT'', path_text (session_root @ [''out''])),
        (''FOUNDRY_CACHE_PATH'', path_text (session_root @ [''cache''])),
        (''FOUNDRY_BROADCAST'', path_text broadcast_root)]"

lemma forge_environment_fields:
  "forge_environment base u s p h i c r b =
     env_update (filter (\<lambda>(key, _). upper key \<in> set SAFE_CHILD_ENVIRONMENT) base) (forge_fields u s p h i c r b)"
  by (simp add: forge_environment_def forge_fields_def)

lemma env_update_set:
  "set (env_update d e) \<subseteq> set d \<union> set e"
proof (induction e arbitrary: d)
  case (Cons p e)
  have "set (AList.update (fst p) (snd p) d) \<subseteq> insert p (set d)"
    by (induction d) (auto split: if_splits)
  moreover have "env_update d (p # e) = env_update (AList.update (fst p) (snd p) d) e"
    by (simp add: env_update_def case_prod_unfold)
  ultimately show ?case using Cons[of "AList.update (fst p) (snd p) d"] by auto
qed (simp add: env_update_def)

lemma env_update_map_of:
  "distinct (map fst e) \<Longrightarrow> map_of (env_update d e) = map_of d ++ map_of e"
proof (induction e arbitrary: d)
  case (Cons p e)
  have "env_update d (p # e) = env_update (AList.update (fst p) (snd p) d) e"
    by (simp add: env_update_def case_prod_unfold)
  moreover have "map_of e (fst p) = None" using Cons.prems by (simp add: map_of_eq_None_iff)
  ultimately show ?case using Cons by (auto simp: update_conv' map_add_def fun_eq_iff split: option.splits)
qed (simp add: env_update_def)

lemma safe_not_secret: "upper k \<in> set SAFE_CHILD_ENVIRONMENT \<Longrightarrow> \<not> secret_variable (k, v)"
proof -
  have "list_all (\<lambda>n. \<not> list_ex (\<lambda>m. contains m n) SECRET_MARKERS) SAFE_CHILD_ENVIRONMENT" by code_simp
  then show "upper k \<in> set SAFE_CHILD_ENVIRONMENT \<Longrightarrow> \<not> secret_variable (k, v)"
    by (auto simp: list_all_iff secret_variable_def)
qed

lemma forge_secret:
  assumes "(k, v) \<in> set (forge_environment base u s p h i c r b)" "secret_variable (k, v)"
  shows "k = ''CANONICAL_DEPLOYMENT_RPC_URL''"
proof -
  have "list_all (\<lambda>n. \<not> list_ex (\<lambda>m. contains m (upper n)) SECRET_MARKERS)
      [''CANONICAL_DEPLOYMENT_SENDER'', ''CANONICAL_DEPLOYMENT_PLAN_PATH'', ''CANONICAL_DEPLOYMENT_PLAN_SHA256'',
       ''CANONICAL_DEPLOYMENT_INDEX'', ''CANONICAL_DEPLOYMENT_COUNT'', ''FOUNDRY_OUT'', ''FOUNDRY_CACHE_PATH'',
       ''FOUNDRY_BROADCAST'']" by code_simp
  then have n: "\<not> list_ex (\<lambda>m. contains m (upper n)) SECRET_MARKERS"
    if "(n, w) \<in> set (tl (forge_fields u s p h i c r b))" for n w
    using that by (auto simp: forge_fields_def list_all_iff)
  have "(k, v) \<in> set (filter (\<lambda>(key, _). upper key \<in> set SAFE_CHILD_ENVIRONMENT) base) \<union> set (forge_fields u s p h i c r b)"
    using assms(1) env_update_set unfolding forge_environment_fields by blast
  moreover have "(k, v) \<notin> set (filter (\<lambda>(key, _). upper key \<in> set SAFE_CHILD_ENVIRONMENT) base)"
    using assms(2) safe_not_secret by auto
  ultimately have "(k, v) \<in> set (forge_fields u s p h i c r b)" by blast
  then have "(k, v) = hd (forge_fields u s p h i c r b) \<or> (k, v) \<in> set (tl (forge_fields u s p h i c r b))"
    by (simp add: forge_fields_def)
  then show ?thesis
  proof
    assume "(k, v) = hd (forge_fields u s p h i c r b)"
    then show ?thesis by (simp add: forge_fields_def)
  next
    assume "(k, v) \<in> set (tl (forge_fields u s p h i c r b))"
    from n[OF this] assms(2) show ?thesis by (simp add: secret_variable_def)
  qed
qed

text \<open>
  C32: What a failed Forge run printed is put in the exception, and from there in the journal,
  but never with the URL of the RPC node in it (which may carry an API key): every occurrence
  is replaced, and no replacement brings one back.
\<close>

theorem forge_failure_hides_url:
  assumes "plain url" "CHR ''/'' \<in> set url"
    and "command_failure (forge_environment base url sender p h i c r b) (Exited code out err) = Some e"
  shows "\<exists>detail. e = CanonicalExecutionError (''canonical broadcaster command failed with exit '' @
      dec_int code @ '': '' @ detail) \<and> \<not> contains url detail"
proof -
  let ?vars = "forge_environment base url sender p h i c r b"
  have d: "distinct (map fst (forge_fields url sender p h i c r b))" by (simp add: forge_fields_def)
  have "map_of ?vars ''CANONICAL_DEPLOYMENT_RPC_URL'' = Some url"
    unfolding forge_environment_fields env_update_map_of[OF d] by (simp add: forge_fields_def map_add_def)
  then have m: "(''CANONICAL_DEPLOYMENT_RPC_URL'', url) \<in> set ?vars" by (rule map_of_SomeD)
  have "contains ''URL'' (upper ''CANONICAL_DEPLOYMENT_RPC_URL'')" by code_simp
  then have s: "secret_variable (''CANONICAL_DEPLOYMENT_RPC_URL'', url)"
    using assms(1) by (simp add: secret_variable_def plain_def SECRET_MARKERS_def)
  have o: "opaque url ''CANONICAL_DEPLOYMENT_RPC_URL''"
  proof -
    have "CHR ''/'' \<notin> set (''redacted:'' @ ''CANONICAL_DEPLOYMENT_RPC_URL'')" by simp
    then show ?thesis using assms(2) using contains_subset unfolding opaque_def by blast
  qed
  have "\<not> contains url (redact ?vars (command_detail out err))"
    by (rule redact_hides[OF m s assms(1)]) (use o forge_secret in blast)
  then show ?thesis using assms(3) by (auto simp: command_failure_def split: if_splits)
qed

theorem forge_failure_hides_url_witness:
  "\<exists>detail. command_failure (forge_environment [] ''http://k@n/'' ''0x1'' [] ''s'' 0 1 [] []) (Exited 1 ''no http://k@n/'' []) =
     Some (CanonicalExecutionError (''canonical broadcaster command failed with exit '' @ dec_int 1 @ '': '' @ detail)) \<and>
     \<not> contains ''http://k@n/'' detail"
proof -
  let ?r = "command_failure (forge_environment [] ''http://k@n/'' ''0x1'' [] ''s'' 0 1 [] []) (Exited 1 ''no http://k@n/'' [])"
  obtain e where e: "?r = Some e" by (simp add: command_failure_def)
  have "plain ''http://k@n/''" by (simp add: plain_def)
  from forge_failure_hides_url[OF this _ e] show ?thesis using e by auto
qed

end
