(* ===== verification/Linking.thy ===== *)
theory Linking
  imports Encoding "HOL-Library.Product_Lexorder" "HOL-Library.Multiset"
begin

text \<open>
  Linking of artifact bytecode, from \<open>tools/deployment/materialize_canonical_deployment_plan.py\<close>:
  the validated reference tables (\<open>normalize_references\<close>, \<open>normalize_immutable_references\<close>), the
  overlap check, and \<open>materialize_bytecode\<close>, which writes library addresses and immutable
  values into the hexadecimal object and requires that nothing is left unresolved. The
  contract between the patching loop and the reference tables is the locale \<open>range_patch\<close>.
\<close>

section \<open>References\<close>

text \<open>A dictionary \<open>{"start": s, "length": n}\<close> that passed its checks.\<close>

record ref_position =
  ref_start :: int
  ref_length :: int

type_synonym link_id = "string \<times> string"
type_synonym link_table = "(link_id \<times> ref_position list) list"
type_synonym immutable_table = "(string \<times> ref_position list) list"
type_synonym range = "int \<times> int \<times> string"

definition bytecode_object :: "json \<Rightarrow> string \<Rightarrow> string res" where
  "bytecode_object value path =
     rbind (require_dict value path) (\<lambda>container.
     rbind (require_string (dget container ''object'') (path @ ''.object'')) (\<lambda>encoded.
     if encoded = ''0x'' \<or> take 2 encoded \<noteq> ''0x'' \<or> odd (length encoded)
     then Inl (DeploymentPlanError
       (path @ ''.object must be 0x-prefixed even-length artifact bytecode''))
     else Inr (drop 2 encoded)))"

definition indexed :: "string \<Rightarrow> nat \<Rightarrow> string" where
  "indexed path i = path @ ''['' @ dec i @ '']''"

fun first_overlap :: "range list \<Rightarrow> (range \<times> range) option" where
  "first_overlap (previous # current # rest) =
     (if fst current < fst (snd previous) then Some (previous, current)
      else first_overlap (current # rest))"
| "first_overlap _ = None"

definition reject_overlaps :: "range list \<Rightarrow> string \<Rightarrow> unit res" where
  "reject_overlaps ranges path =
     (case first_overlap (sort ranges) of
        None \<Rightarrow> Inr ()
      | Some (previous, current) \<Rightarrow>
          Inl (DeploymentPlanError (path @ '' contains overlapping ranges for '' @
            snd (snd previous) @ '' and '' @ snd (snd current))))"

definition parse_position ::
  "(int \<Rightarrow> int \<Rightarrow> bool) \<Rightarrow> string \<Rightarrow> string \<Rightarrow> nat \<Rightarrow> json \<Rightarrow> ref_position res" where
  "parse_position bad complaint path index position_value =
     (let position_path = indexed path index in
      rbind (require_dict position_value position_path) (\<lambda>position.
      rbind (require_exact_keys position [''start'', ''length''] position_path) (\<lambda>_.
      rbind (require_int (dget position ''start'') (position_path @ ''.start'')) (\<lambda>start.
      rbind (require_int (dget position ''length'') (position_path @ ''.length'')) (\<lambda>len.
      if bad start len then Inl (DeploymentPlanError (position_path @ complaint))
      else Inr \<lparr>ref_start = start, ref_length = len\<rparr>)))))"

definition position_range :: "string \<Rightarrow> ref_position \<Rightarrow> range" where
  "position_range label p = (ref_start p, ref_start p + ref_length p, label)"

definition link_label :: "link_id \<Rightarrow> string" where
  "link_label identity = fst identity @ '':'' @ snd identity"

definition normalize_library ::
  "int \<Rightarrow> string \<Rightarrow> string \<Rightarrow> string \<times> json \<Rightarrow> (link_id \<times> ref_position list) res" where
  "normalize_library byte_length path source_path entry =
     (let (name, positions_value) = entry; name_path = path @ ''.'' @ name in
      rbind (require_solidity_name (JStr name) name_path) (\<lambda>library_name.
      rbind (require_list positions_value name_path) (\<lambda>positions.
      if positions = [] then Inl (DeploymentPlanError (name_path @ '' must contain link positions''))
      else
        rbind (each (parse_position
            (\<lambda>start len. start < 0 \<or> len \<noteq> 20 \<or> start + len > byte_length)
            '' must be a 20-byte in-bounds library link'' name_path) 0 positions)
          (\<lambda>normalized_positions. Inr ((source_path, library_name), normalized_positions)))))"

definition normalize_source ::
  "int \<Rightarrow> string \<Rightarrow> string \<times> json \<Rightarrow> link_table res" where
  "normalize_source byte_length path entry =
     (let (source, libraries_value) = entry in
      rbind (require_safe_relative_path (JStr source) (path @ ''.'' @ source)) (\<lambda>source_path.
      rbind (require_dict libraries_value (path @ ''.'' @ source)) (\<lambda>libraries.
      each (\<lambda>_. normalize_library byte_length (path @ ''.'' @ source) source_path) 0
        (sort_key fst libraries))))"

definition link_ranges :: "link_table \<Rightarrow> range list" where
  "link_ranges t = concat (map (\<lambda>(identity, ps). map (position_range (link_label identity)) ps) t)"

definition immutable_ranges :: "immutable_table \<Rightarrow> range list" where
  "immutable_ranges t = concat (map (\<lambda>(identity, ps). map (position_range identity) ps) t)"

definition normalize_references :: "json \<Rightarrow> int \<Rightarrow> string \<Rightarrow> link_table res" where
  "normalize_references value byte_length path =
     (if value = JNull then Inr []
      else
        rbind (require_dict value path) (\<lambda>references.
        rbind (each (\<lambda>_. normalize_source byte_length path) 0 (sort_key fst references)) (\<lambda>tables.
        let normalized = concat tables in
        rbind (reject_overlaps (link_ranges normalized) path) (\<lambda>_. Inr normalized))))"

definition normalize_immutable ::
  "int \<Rightarrow> string \<Rightarrow> string \<times> json \<Rightarrow> (string \<times> ref_position list) res" where
  "normalize_immutable byte_length path entry =
     (let (immutable_id, positions_value) = entry; id_path = path @ ''.'' @ immutable_id in
      if \<not> UNSIGNED_DECIMAL_RE immutable_id
      then Inl (DeploymentPlanError (path @ '' keys must be canonical decimal AST IDs''))
      else
        rbind (require_list positions_value id_path) (\<lambda>positions.
        if positions = []
        then Inl (DeploymentPlanError (id_path @ '' must contain immutable positions''))
        else
          rbind (each (parse_position (\<lambda>start len. start < 0 \<or> len < 1 \<or> start + len > byte_length)
              '' must be an in-bounds immutable reference'' id_path) 0 positions)
            (\<lambda>normalized_positions. Inr (immutable_id, normalized_positions))))"

definition normalize_immutable_references :: "json \<Rightarrow> int \<Rightarrow> string \<Rightarrow> immutable_table res" where
  "normalize_immutable_references value byte_length path =
     (if value = JNull then Inr []
      else
        rbind (require_dict value path) (\<lambda>references.
        rbind (each (\<lambda>_. normalize_immutable byte_length path) 0 (sort_key fst references))
          (\<lambda>normalized.
        rbind (reject_overlaps (immutable_ranges normalized) path) (\<lambda>_. Inr normalized))))"

definition flatten_reference_ranges :: "link_table \<Rightarrow> immutable_table \<Rightarrow> range list" where
  "flatten_reference_ranges links immutables = link_ranges links @ immutable_ranges immutables"

definition require_disjoint_reference_classes ::
  "link_table \<Rightarrow> immutable_table \<Rightarrow> string \<Rightarrow> unit res" where
  "require_disjoint_reference_classes links immutables path =
     reject_overlaps (flatten_reference_ranges links immutables) path"

section \<open>Patching\<close>

text \<open>\<open>characters[start:end] = new\<close>\<close>

definition slice_assign :: "'a list \<Rightarrow> nat \<Rightarrow> nat \<Rightarrow> 'a list \<Rightarrow> 'a list" where
  "slice_assign xs start stop new = take start xs @ new @ drop (max start stop) xs"

definition write_position :: "string \<Rightarrow> ref_position \<Rightarrow> string \<Rightarrow> string" where
  "write_position encoded p characters =
     slice_assign characters (nat (ref_start p * 2)) (nat ((ref_start p + ref_length p) * 2)) encoded"

fun patch_links :: "(link_id \<times> string) list \<Rightarrow> link_table \<Rightarrow> string \<Rightarrow> string res" where
  "patch_links addresses [] characters = Inr characters"
| "patch_links addresses ((identity, positions) # rest) characters =
     (case map_of addresses identity of
        None \<Rightarrow> Inl (KeyError (link_label identity))
      | Some text \<Rightarrow>
          rbind (bytes_fromhex (drop 2 text)) (\<lambda>address.
          patch_links addresses rest (fold (write_position (bytes_hex address)) positions characters)))"

fun patch_immutable ::
  "string \<Rightarrow> string \<Rightarrow> byte list \<Rightarrow> ref_position list \<Rightarrow> string \<Rightarrow> string res" where
  "patch_immutable path immutable_id encoded [] characters = Inr characters"
| "patch_immutable path immutable_id encoded (p # ps) characters =
     (if int (length encoded) \<noteq> ref_length p
      then Inl (DeploymentPlanError (path @ '' immutable '' @ immutable_id @
             '' must contain exactly '' @ dec_int (ref_length p) @ '' bytes''))
      else patch_immutable path immutable_id encoded ps
             (write_position (bytes_hex encoded) p characters))"

fun patch_immutables ::
  "string \<Rightarrow> (string \<times> string) list \<Rightarrow> immutable_table \<Rightarrow> string \<Rightarrow> string res" where
  "patch_immutables path vals [] characters = Inr characters"
| "patch_immutables path vals ((immutable_id, positions) # rest) characters =
     (case map_of vals immutable_id of
        None \<Rightarrow> Inl (KeyError immutable_id)
      | Some text \<Rightarrow>
          rbind (bytes_fromhex (drop 2 text)) (\<lambda>encoded.
          rbind (patch_immutable path immutable_id encoded positions characters)
            (patch_immutables path vals rest)))"

text \<open>The binding keys that are missing from, or foreign to, the reference table.\<close>

definition binding_details ::
  "string \<Rightarrow> string \<Rightarrow> ('k::linorder \<Rightarrow> string) \<Rightarrow> 'k list \<Rightarrow> 'k list \<Rightarrow> string list" where
  "binding_details missing_text extra_text label expected actual =
     map (\<lambda>k. missing_text @ label k) (sort (filter (\<lambda>k. k \<notin> set actual) expected)) @
     map (\<lambda>k. extra_text @ label k) (sort (filter (\<lambda>k. k \<notin> set expected) actual))"

definition materialize_bytecode ::
  "string \<Rightarrow> link_table \<Rightarrow> (link_id \<times> string) list \<Rightarrow> immutable_table \<Rightarrow> (string \<times> string) list \<Rightarrow>
   string \<Rightarrow> byte list res" where
  "materialize_bytecode object_hex link_references library_addresses immutable_references
     immutable_values path =
     (if set (map fst library_addresses) \<noteq> set (map fst link_references)
      then Inl (DeploymentPlanError
        (path @ '' library bindings do not match artifact references: '' @
         join '', '' (binding_details ''missing '' ''unexpected '' link_label
           (map fst link_references) (map fst library_addresses))))
      else if set (map fst immutable_references) \<noteq> set (map fst immutable_values)
      then Inl (DeploymentPlanError
        (path @ '' immutable bindings do not match artifact references: '' @
         join '', '' (binding_details ''missing immutable '' ''unexpected immutable '' (\<lambda>k. k)
           (map fst immutable_references) (map fst immutable_values))))
      else
        rbind (require_disjoint_reference_classes link_references immutable_references path) (\<lambda>_.
        rbind (patch_links library_addresses (sort_key fst link_references) object_hex) (\<lambda>linked.
        rbind (patch_immutables path immutable_values (sort_key fst immutable_references) linked)
          (\<lambda>resolved.
        if odd (length resolved) \<or> \<not> list_all is_hex resolved
        then Inl (DeploymentPlanError
          (path @ '' remains unresolved after applying declared links and immutables''))
        else bytes_fromhex resolved))))"

section \<open>The overlap check\<close>

definition covers :: "int \<Rightarrow> range \<Rightarrow> bool" where
  "covers k r \<longleftrightarrow> fst r \<le> k \<and> k < fst (snd r)"

definition at_most_one_cover :: "range list \<Rightarrow> bool" where
  "at_most_one_cover rs \<longleftrightarrow> (\<forall>k. length (filter (covers k) rs) \<le> 1)"

definition nonempty_range :: "range \<Rightarrow> bool" where
  "nonempty_range r \<longleftrightarrow> fst r < fst (snd r)"

lemma length_filter_sort [simp]: "length (filter P (sort rs)) = length (filter P (rs :: range list))"
  by (metis mset_filter mset_sort size_mset)

lemma at_most_one_cover_sort: "at_most_one_cover (sort rs) \<longleftrightarrow> at_most_one_cover rs"
  by (simp add: at_most_one_cover_def)

lemma first_overlap_None:
  assumes "first_overlap rs = None" and "list_all nonempty_range rs"
  shows "sorted_wrt (\<lambda>a b. fst (snd a) \<le> fst b) rs"
  using assms
proof (induction rs rule: first_overlap.induct)
  case (1 p c rest)
  then have "fst (snd p) \<le> fst c" "sorted_wrt (\<lambda>a b. fst (snd a) \<le> fst b) (c # rest)"
    by (auto split: if_splits)
  moreover have "fst c < fst (snd c)" using 1 by (simp add: nonempty_range_def)
  ultimately show ?case by fastforce
qed auto

lemma separated_at_most_one:
  "sorted_wrt (\<lambda>a b. fst (snd a) \<le> fst b) rs \<Longrightarrow> at_most_one_cover rs"
proof (induction rs)
  case Nil
  then show ?case by (simp add: at_most_one_cover_def)
next
  case (Cons r rs)
  have "filter (covers k) rs = []" if "covers k r" for k
    using that Cons.prems by (force simp: filter_empty_conv covers_def)
  moreover have "at_most_one_cover rs" using Cons by simp
  ultimately show ?case by (simp add: at_most_one_cover_def)
qed

lemma first_overlap_Some:
  assumes "first_overlap rs = Some (p, c)" and "sorted rs" and "list_all nonempty_range rs"
  shows "\<not> at_most_one_cover rs"
  using assms
proof (induction rs rule: first_overlap.induct)
  case (1 x y rest)
  show ?case
  proof (cases "fst y < fst (snd x)")
    case True
    have "fst x \<le> fst y"
      using "1.prems"(2) by (cases x; cases y) (auto simp: less_eq_prod_def split: prod.splits)
    then have "covers (fst y) x" "covers (fst y) y"
      using True "1.prems"(3) by (auto simp: covers_def nonempty_range_def)
    then have "\<not> length (filter (covers (fst y)) (x # y # rest)) \<le> 1" by simp
    then show ?thesis unfolding at_most_one_cover_def by blast
  next
    case False
    then have ih: "\<not> at_most_one_cover (y # rest)" using 1 by auto
    have "length (filter (covers k) (y # rest)) \<le> length (filter (covers k) (x # y # rest))" for k
      by simp
    with ih show ?thesis unfolding at_most_one_cover_def by (meson order_trans)
  qed
qed auto

lemma reject_overlaps_iff:
  assumes "list_all nonempty_range rs"
  shows "reject_overlaps rs path = Inr () \<longleftrightarrow> at_most_one_cover rs"
proof -
  have ne: "list_all nonempty_range (sort rs)" using assms by (simp add: list_all_iff)
  show ?thesis
  proof (cases "first_overlap (sort rs)")
    case None
    with ne have "at_most_one_cover (sort rs)"
      by (blast intro: separated_at_most_one first_overlap_None)
    with None show ?thesis
      by (simp add: reject_overlaps_def at_most_one_cover_sort)
  next
    case (Some pc)
    with ne show ?thesis
      using first_overlap_Some[of "sort rs"] at_most_one_cover_sort
      by (cases pc) (auto simp: reject_overlaps_def)
  qed
qed

section \<open>Writing disjoint ranges\<close>

text \<open>
  The interface between the patching loops and the tables: a write \<open>put p\<close> replaces exactly
  the elements from \<open>lo p\<close> on by \<open>content p\<close>.
\<close>

locale range_patch =
  fixes put :: "'p \<Rightarrow> 'a list \<Rightarrow> 'a list"
    and lo :: "'p \<Rightarrow> nat"
    and content :: "'p \<Rightarrow> 'a list"
  assumes put_splice:
    "lo p + length (content p) \<le> length xs \<Longrightarrow>
     put p xs = take (lo p) xs @ content p @ drop (lo p + length (content p)) xs"
begin

definition inside :: "nat \<Rightarrow> 'p \<Rightarrow> bool" where
  "inside k p \<longleftrightarrow> lo p \<le> k \<and> k < lo p + length (content p)"

lemma length_put: "lo p + length (content p) \<le> length xs \<Longrightarrow> length (put p xs) = length xs"
  by (simp add: put_splice)

lemma put_inside:
  "lo p + length (content p) \<le> length xs \<Longrightarrow> inside k p \<Longrightarrow> put p xs ! k = content p ! (k - lo p)"
  by (auto simp: put_splice nth_append inside_def min_absorb2)

lemma put_outside:
  "lo p + length (content p) \<le> length xs \<Longrightarrow> k < length xs \<Longrightarrow> \<not> inside k p \<Longrightarrow> put p xs ! k = xs ! k"
  by (auto simp: put_splice nth_append inside_def min_absorb2 not_le not_less)

lemma length_fold_put:
  "list_all (\<lambda>p. lo p + length (content p) \<le> length xs) ps \<Longrightarrow> length (fold put ps xs) = length xs"
  by (induction ps arbitrary: xs) (auto simp: length_put)

lemma fold_put_outside:
  "list_all (\<lambda>p. lo p + length (content p) \<le> length xs) ps \<Longrightarrow> k < length xs \<Longrightarrow>
   list_all (\<lambda>p. \<not> inside k p) ps \<Longrightarrow> fold put ps xs ! k = xs ! k"
  by (induction ps arbitrary: xs) (auto simp: length_put put_outside)

lemma fold_put_inside:
  assumes "list_all (\<lambda>p. lo p + length (content p) \<le> length xs) ps"
    and "\<forall>k. length (filter (inside k) ps) \<le> 1" and "p \<in> set ps" and "inside k p"
  shows "fold put ps xs ! k = content p ! (k - lo p)"
  using assms
proof (induction ps arbitrary: xs)
  case Nil
  then show ?case by simp
next
  case (Cons q qs)
  have len: "length (put q xs) = length xs" using Cons.prems(1) by (simp add: length_put)
  have k: "k < length xs" using Cons.prems(1,3,4) by (auto simp: list_all_iff inside_def)
  have one: "length (filter (inside k) (q # qs)) \<le> 1" for k using Cons.prems(2) by blast
  have rest: "\<forall>k. length (filter (inside k) qs) \<le> 1"
  proof
    fix j
    show "length (filter (inside j) qs) \<le> 1" using one[of j] by (simp split: if_splits)
  qed
  show ?case
  proof (cases "p \<in> set qs")
    case True
    with Cons.IH[of "put q xs"] Cons.prems(1,4) rest len show ?thesis by simp
  next
    case False
    with Cons.prems(3) have "p = q" by simp
    with one[of k] Cons.prems(4) have "list_all (\<lambda>p. \<not> inside k p) qs"
      by (auto simp: list_all_iff filter_empty_conv)
    with Cons.prems(1) len k \<open>p = q\<close> Cons.prems(4) show ?thesis
      by (simp add: fold_put_outside put_inside)
  qed
qed

end

text \<open>A patch of the hexadecimal object: bytes written at a byte offset.\<close>

definition put_bytes :: "nat \<times> byte list \<Rightarrow> string \<Rightarrow> string" where
  "put_bytes p chars = slice_assign chars (2 * fst p) (2 * (fst p + length (snd p))) (bytes_hex (snd p))"

interpretation hex_patch: range_patch put_bytes "\<lambda>p. 2 * fst p" "\<lambda>p. bytes_hex (snd p)"
  by unfold_locales (simp add: put_bytes_def slice_assign_def max_def)

section \<open>The patching loops as lists of patches\<close>

definition table_patches :: "('k \<Rightarrow> byte list) \<Rightarrow> ('k \<times> ref_position list) list \<Rightarrow> (nat \<times> byte list) list" where
  "table_patches val t =
     concat (map (\<lambda>(k, ps). map (\<lambda>p. (nat (ref_start p), val k)) ps) t)"

definition table_ok :: "('k \<Rightarrow> byte list) \<Rightarrow> int \<Rightarrow> ('k \<times> ref_position list) list \<Rightarrow> bool" where
  "table_ok val n t \<longleftrightarrow>
     (\<forall>(k, ps) \<in> set t. \<forall>p \<in> set ps.
        0 \<le> ref_start p \<and> ref_length p = int (length (val k)) \<and> ref_start p + ref_length p \<le> n)"

definition hex_binding :: "('k \<times> string) list \<Rightarrow> 'k \<Rightarrow> byte list" where
  "hex_binding bindings k =
     (case map_of bindings k of None \<Rightarrow> []
      | Some s \<Rightarrow> (case unhex (drop 2 s) of None \<Rightarrow> [] | Some bs \<Rightarrow> bs))"

lemma write_position_put:
  "0 \<le> ref_start p \<Longrightarrow> ref_length p = int (length bs) \<Longrightarrow>
   write_position (bytes_hex bs) p = put_bytes (nat (ref_start p), bs)"
  by (simp add: write_position_def put_bytes_def fun_eq_iff nat_mult_distrib nat_add_distrib
      algebra_simps)

lemma fold_write_position:
  "(\<And>p. p \<in> set ps \<Longrightarrow> 0 \<le> ref_start p \<and> ref_length p = int (length bs)) \<Longrightarrow>
   fold (write_position (bytes_hex bs)) ps chars =
     fold put_bytes (map (\<lambda>p. (nat (ref_start p), bs)) ps) chars"
  by (induction ps arbitrary: chars) (simp_all add: write_position_put)

lemma table_ok_Cons:
  "table_ok val n ((k, ps) # t) \<longleftrightarrow>
     (\<forall>p \<in> set ps. 0 \<le> ref_start p \<and> ref_length p = int (length (val k)) \<and>
        ref_start p + ref_length p \<le> n) \<and> table_ok val n t"
  by (auto simp: table_ok_def)

lemma table_patches_Cons:
  "table_patches val ((k, ps) # t) = map (\<lambda>p. (nat (ref_start p), val k)) ps @ table_patches val t"
  by (simp add: table_patches_def)

lemma patch_links_eq:
  "patch_links addresses t chars = Inr r \<Longrightarrow> table_ok (hex_binding addresses) n t \<Longrightarrow>
   r = fold put_bytes (table_patches (hex_binding addresses) t) chars"
proof (induction t arbitrary: chars)
  case Nil
  then show ?case by (simp add: table_patches_def)
next
  case (Cons e t)
  obtain k ps where e: "e = (k, ps)" by (cases e)
  with Cons.prems(1) obtain s bs where s: "map_of addresses k = Some s" "unhex (drop 2 s) = Some bs"
    and rest: "patch_links addresses t (fold (write_position (bytes_hex bs)) ps chars) = Inr r"
    by (auto simp: res_simps bytes_fromhex_def split: option.splits)
  have bs: "hex_binding addresses k = bs" using s by (simp add: hex_binding_def)
  with Cons.prems(2) e have "\<And>p. p \<in> set ps \<Longrightarrow> 0 \<le> ref_start p \<and> ref_length p = int (length bs)"
    and t: "table_ok (hex_binding addresses) n t" by (auto simp: table_ok_Cons)
  then show ?case
    using Cons.IH[OF rest t] e bs by (simp add: table_patches_Cons fold_write_position)
qed

lemma patch_immutable_eq:
  "patch_immutable path i bs ps chars = Inr r \<Longrightarrow>
   r = fold (write_position (bytes_hex bs)) ps chars \<and> (\<forall>p \<in> set ps. ref_length p = int (length bs))"
  by (induction ps arbitrary: chars) (auto split: if_splits)

lemma patch_immutables_lengths:
  "patch_immutables path vals t chars = Inr r \<Longrightarrow> (k, ps) \<in> set t \<Longrightarrow> p \<in> set ps \<Longrightarrow>
   ref_length p = int (length (hex_binding vals k))"
proof (induction t arbitrary: chars)
  case Nil
  then show ?case by simp
next
  case (Cons e t)
  obtain k' ps' where e: "e = (k', ps')" by (cases e)
  with Cons.prems(1) obtain s bs mid where s: "map_of vals k' = Some s" "unhex (drop 2 s) = Some bs"
    and one: "patch_immutable path k' bs ps' chars = Inr mid"
    and rest: "patch_immutables path vals t mid = Inr r"
    by (auto simp: res_simps bytes_fromhex_def split: option.splits)
  then show ?case
    using Cons.IH[OF rest] Cons.prems(2,3) e patch_immutable_eq[OF one]
    by (auto simp: hex_binding_def)
qed

lemma patch_immutables_eq:
  "patch_immutables path vals t chars = Inr r \<Longrightarrow> table_ok (hex_binding vals) n t \<Longrightarrow>
   r = fold put_bytes (table_patches (hex_binding vals) t) chars"
proof (induction t arbitrary: chars)
  case Nil
  then show ?case by (simp add: table_patches_def)
next
  case (Cons e t)
  obtain k ps where e: "e = (k, ps)" by (cases e)
  with Cons.prems(1) obtain s bs mid where s: "map_of vals k = Some s" "unhex (drop 2 s) = Some bs"
    and one: "patch_immutable path k bs ps chars = Inr mid"
    and rest: "patch_immutables path vals t mid = Inr r"
    by (auto simp: res_simps bytes_fromhex_def split: option.splits)
  have bs: "hex_binding vals k = bs" using s by (simp add: hex_binding_def)
  with Cons.prems(2) e have "\<And>p. p \<in> set ps \<Longrightarrow> 0 \<le> ref_start p \<and> ref_length p = int (length bs)"
    and t: "table_ok (hex_binding vals) n t" by (auto simp: table_ok_Cons)
  then show ?case
    using Cons.IH[OF rest t] e bs patch_immutable_eq[OF one]
    by (simp add: table_patches_Cons fold_write_position)
qed

definition patch_covers :: "nat \<Rightarrow> nat \<times> byte list \<Rightarrow> bool" where
  "patch_covers k p \<longleftrightarrow> fst p \<le> k \<and> k < fst p + length (snd p)"

lemma hex_patch_inside: "hex_patch.inside k p \<longleftrightarrow> patch_covers (k div 2) p"
  by (auto simp: hex_patch.inside_def patch_covers_def)

lemma mset_table_patches: "mset t = mset t' \<Longrightarrow> mset (table_patches v t) = mset (table_patches v t')"
  unfolding table_patches_def by (simp add: mset_concat flip: sum_mset_sum_list)

lemma length_filter_patches:
  "table_ok v n t \<Longrightarrow>
   length (filter (patch_covers k) (table_patches v t)) =
     length (filter (covers (int k)) (concat (map (\<lambda>(i, ps). map (position_range (label i)) ps) t)))"
proof (induction t)
  case Nil
  then show ?case by (simp add: table_patches_def)
next
  case (Cons e t)
  obtain i ps where e: "e = (i, ps)" by (cases e)
  with Cons.prems have ok: "\<forall>p \<in> set ps. 0 \<le> ref_start p \<and> ref_length p = int (length (v i))"
    and t: "table_ok v n t" by (auto simp: table_ok_Cons)
  have "length (filter (patch_covers k) (map (\<lambda>p. (nat (ref_start p), v i)) ps)) =
      length (filter (covers (int k)) (map (position_range (label i)) ps))"
    using ok by (induction ps) (auto simp: patch_covers_def covers_def position_range_def)
  with Cons.IH[OF t] e show ?case by (simp add: table_patches_Cons)
qed

section \<open>Correctness of \<open>materialize_bytecode\<close>\<close>

lemma unhex_drop: "unhex s = Some bs \<Longrightarrow> unhex (drop (2 * k) s) = Some (drop k bs)"
proof (induction k arbitrary: s bs)
  case 0
  then show ?case by simp
next
  case (Suc k)
  then show ?case
    by (cases s rule: unhex.cases) (auto split: option.splits)
qed

lemma unhex_take: "unhex s = Some bs \<Longrightarrow> unhex (take (2 * k) s) = Some (take k bs)"
proof (induction k arbitrary: s bs)
  case 0
  then show ?case by simp
next
  case (Suc k)
  then show ?case
    by (cases s rule: unhex.cases) (auto split: option.splits)
qed

definition link_table_ok :: "int \<Rightarrow> link_table \<Rightarrow> bool" where
  "link_table_ok n t \<longleftrightarrow>
     (\<forall>(k, ps) \<in> set t. \<forall>p \<in> set ps. 0 \<le> ref_start p \<and> ref_length p = 20 \<and> ref_start p + 20 \<le> n)"

definition immutable_table_ok :: "int \<Rightarrow> immutable_table \<Rightarrow> bool" where
  "immutable_table_ok n t \<longleftrightarrow>
     (\<forall>(k, ps) \<in> set t. \<forall>p \<in> set ps.
        0 \<le> ref_start p \<and> 1 \<le> ref_length p \<and> ref_start p + ref_length p \<le> n)"

definition uncovered :: "link_table \<Rightarrow> immutable_table \<Rightarrow> nat \<Rightarrow> bool" where
  "uncovered links imms i \<longleftrightarrow>
     list_all (\<lambda>r. \<not> covers (int i) r) (flatten_reference_ranges links imms)"

lemma address_bytes:
  assumes "ADDRESS_RE a"
  shows "\<exists>bs. unhex (drop 2 a) = Some bs \<and> length bs = 20"
proof -
  have "length (drop 2 a) = 40" "list_all is_hex (drop 2 a)"
    using assms by (auto simp: ADDRESS_RE_def)
  moreover from this have "even (length (drop 2 a))" by (metis even_numeral)
  ultimately obtain bs where "unhex (drop 2 a) = Some bs" "length (drop 2 a) = 40"
    using unhex_defined by blast
  then show ?thesis using unhex_length[of "drop 2 a" bs] by auto
qed

lemma hex_binding_address:
  assumes "list_all (\<lambda>(k, a). ADDRESS_RE a) addrs" and "k \<in> set (map fst addrs)"
  shows "length (hex_binding addrs k) = 20"
proof -
  obtain a where "map_of addrs k = Some a"
    using assms(2) by (metis map_of_eq_None_iff not_None_eq set_map)
  moreover from this have "ADDRESS_RE a"
    using assms(1) by (auto simp: list_all_iff dest: map_of_SomeD)
  ultimately show ?thesis
    using address_bytes by (force simp: hex_binding_def split: option.splits)
qed

lemma nonempty_flatten:
  "link_table_ok n links \<Longrightarrow> immutable_table_ok m imms \<Longrightarrow>
   list_all nonempty_range (flatten_reference_ranges links imms)"
  by (fastforce simp: list_all_iff flatten_reference_ranges_def link_ranges_def immutable_ranges_def
      nonempty_range_def position_range_def link_table_ok_def immutable_table_ok_def)

lemma filter_length_mset: "mset xs = mset ys \<Longrightarrow> length (filter P xs) = length (filter P ys)"
  by (metis mset_filter size_mset)

lemma length_filter_concat_sort:
  "length (filter P (concat (map f (sort_key fst t)))) = length (filter P (concat (map f t)))"
  by (rule filter_length_mset) (simp add: mset_concat flip: sum_mset_sum_list)

lemma materialize_bytecode_patches:
  assumes ok: "materialize_bytecode obj links addrs imms vals path = Inr code"
    and links: "link_table_ok (int (length obj div 2)) links"
    and imms: "immutable_table_ok (int (length obj div 2)) imms"
    and addrs: "list_all (\<lambda>(k, a). ADDRESS_RE a) addrs"
  defines "P \<equiv> table_patches (hex_binding addrs) (sort_key fst links) @
               table_patches (hex_binding vals) (sort_key fst imms)"
  shows "unhex (fold put_bytes P obj) = Some code"
    and "list_all (\<lambda>p. 2 * fst p + length (bytes_hex (snd p)) \<le> length obj) P"
    and "\<forall>k. length (filter (patch_covers k) P) \<le> 1"
    and "\<forall>k. length (filter (patch_covers k) P) =
           length (filter (covers (int k)) (flatten_reference_ranges links imms))"
    and "\<forall>(k, ps) \<in> set imms. \<forall>p \<in> set ps. ref_length p = int (length (hex_binding vals k))"
    and "\<forall>(k, ps) \<in> set links. length (hex_binding addrs k) = 20"
proof -
  let ?n = "int (length obj div 2)"
  from ok obtain linked resolved where
    dj: "require_disjoint_reference_classes links imms path = Inr ()"
    and l: "patch_links addrs (sort_key fst links) obj = Inr linked"
    and i: "patch_immutables path vals (sort_key fst imms) linked = Inr resolved"
    and u: "unhex resolved = Some code"
    and keys: "set (map fst addrs) = set (map fst links)"
    by (auto simp: materialize_bytecode_def res_simps bytes_fromhex_def split: option.splits)
  show len20: "\<forall>(k, ps) \<in> set links. length (hex_binding addrs k) = 20"
    using hex_binding_address[OF addrs] keys by force
  show lens: "\<forall>(k, ps) \<in> set imms. \<forall>p \<in> set ps. ref_length p = int (length (hex_binding vals k))"
    using patch_immutables_lengths[OF i] by auto
  have tl: "table_ok (hex_binding addrs) ?n (sort_key fst links)"
    using links len20 by (fastforce simp: table_ok_def link_table_ok_def)
  have ti: "table_ok (hex_binding vals) ?n (sort_key fst imms)"
    using imms lens by (fastforce simp: table_ok_def immutable_table_ok_def)
  have "resolved = fold put_bytes P obj"
    using patch_links_eq[OF l tl] patch_immutables_eq[OF i ti] by (simp add: P_def)
  with u show "unhex (fold put_bytes P obj) = Some code" by simp
  have in_bounds: "2 * fst p + 2 * length (snd p) \<le> length obj"
    if "p \<in> set (table_patches v t)" "table_ok v ?n t"
    for p and v :: "'k \<Rightarrow> byte list" and t
    using that by (fastforce simp: table_patches_def table_ok_def)
  show "list_all (\<lambda>p. 2 * fst p + length (bytes_hex (snd p)) \<le> length obj) P"
    using in_bounds[OF _ tl] in_bounds[OF _ ti] by (auto simp: P_def list_all_iff)
  show eq: "\<forall>k. length (filter (patch_covers k) P) =
      length (filter (covers (int k)) (flatten_reference_ranges links imms))"
  proof
    fix k
    show "length (filter (patch_covers k) P) =
      length (filter (covers (int k)) (flatten_reference_ranges links imms))"
      using length_filter_patches[OF tl, of k link_label] length_filter_patches[OF ti, of k "\<lambda>i. i"]
      by (simp add: P_def flatten_reference_ranges_def link_ranges_def immutable_ranges_def
          length_filter_concat_sort)
  qed
  have "at_most_one_cover (flatten_reference_ranges links imms)"
    using dj reject_overlaps_iff[OF nonempty_flatten[OF links imms]]
    by (simp add: require_disjoint_reference_classes_def)
  with eq show "\<forall>k. length (filter (patch_covers k) P) \<le> 1"
    by (simp add: at_most_one_cover_def)
qed

lemma fold_put_bytes_slice:
  assumes "list_all (\<lambda>p. 2 * fst p + length (bytes_hex (snd p)) \<le> length obj) P"
    and "\<forall>k. length (filter (patch_covers k) P) \<le> 1" and "p \<in> set P"
  shows "take (2 * length (snd p)) (drop (2 * fst p) (fold put_bytes P obj)) = bytes_hex (snd p)"
proof (rule nth_equalityI)
  have "length (fold put_bytes P obj) = length obj"
    using hex_patch.length_fold_put[OF assms(1)] .
  moreover have "2 * fst p + length (bytes_hex (snd p)) \<le> length obj"
    using assms(1,3) by (simp add: list_all_iff)
  ultimately show len: "length (take (2 * length (snd p)) (drop (2 * fst p) (fold put_bytes P obj))) =
      length (bytes_hex (snd p))" by simp
  fix j
  assume "j < length (take (2 * length (snd p)) (drop (2 * fst p) (fold put_bytes P obj)))"
  with len have j: "j < length (bytes_hex (snd p))" by simp
  have "\<forall>k. length (filter (hex_patch.inside k) P) \<le> 1"
    using assms(2) by (simp add: hex_patch_inside[abs_def])
  moreover have "hex_patch.inside (2 * fst p + j) p"
    using j by (simp add: hex_patch.inside_def)
  ultimately have "fold put_bytes P obj ! (2 * fst p + j) = bytes_hex (snd p) ! j"
    using hex_patch.fold_put_inside[OF assms(1) _ assms(3)] by fastforce
  then show "take (2 * length (snd p)) (drop (2 * fst p) (fold put_bytes P obj)) ! j =
      bytes_hex (snd p) ! j"
    using j len by simp
qed

lemma parse_position_ok:
  "parse_position bad complaint path i v = Inr p \<Longrightarrow> \<not> bad (ref_start p) (ref_length p)"
  by (auto simp: parse_position_def Let_def res_simps)

lemma each_parse_position:
  "each (parse_position bad complaint path) 0 vs = Inr ps \<Longrightarrow> p \<in> set ps \<Longrightarrow>
   \<not> bad (ref_start p) (ref_length p)"
  by (drule (1) each_set) (auto dest: parse_position_ok)

lemma normalize_library_ok:
  "normalize_library n path src e = Inr (k, ps) \<Longrightarrow> p \<in> set ps \<Longrightarrow>
   0 \<le> ref_start p \<and> ref_length p = 20 \<and> ref_start p + 20 \<le> n"
  by (auto simp: normalize_library_def Let_def res_simps split: prod.splits dest!: each_parse_position)

lemma normalize_source_ok:
  "normalize_source n path e = Inr t \<Longrightarrow> link_table_ok n t"
  by (auto simp: normalize_source_def Let_def res_simps link_table_ok_def split: prod.splits
      dest!: each_set normalize_library_ok)

lemma link_table_ok_concat: "(\<And>t. t \<in> set ts \<Longrightarrow> link_table_ok n t) \<Longrightarrow> link_table_ok n (concat ts)"
  by (fastforce simp: link_table_ok_def)

lemma normalize_references_ok:
  assumes "normalize_references v n path = Inr t"
  shows "link_table_ok n t" and "at_most_one_cover (link_ranges t)"
proof -
  show ok: "link_table_ok n t"
  proof (cases "v = JNull")
    case True
    with assms show ?thesis by (simp add: normalize_references_def link_table_ok_def)
  next
    case False
    with assms obtain ts d where t: "t = concat ts"
      and ts: "each (\<lambda>_. normalize_source n path) 0 (sort_key fst d) = Inr ts"
      by (auto simp: normalize_references_def res_simps Let_def)
    then show ?thesis
      by (auto intro!: link_table_ok_concat dest!: each_set[OF ts] normalize_source_ok)
  qed
  then have "list_all nonempty_range (link_ranges t)"
    using nonempty_flatten[OF ok, of 0 "[]"]
    by (simp add: immutable_table_ok_def flatten_reference_ranges_def)
  with assms show "at_most_one_cover (link_ranges t)"
    by (auto simp: normalize_references_def res_simps Let_def reject_overlaps_iff at_most_one_cover_def
        link_ranges_def split: if_splits)
qed

lemma normalize_immutable_ok:
  "normalize_immutable n path e = Inr (k, ps) \<Longrightarrow> p \<in> set ps \<Longrightarrow>
   0 \<le> ref_start p \<and> 1 \<le> ref_length p \<and> ref_start p + ref_length p \<le> n"
  by (auto simp: normalize_immutable_def Let_def res_simps split: prod.splits dest!: each_parse_position)

lemma normalize_immutable_references_ok:
  assumes "normalize_immutable_references v n path = Inr t"
  shows "immutable_table_ok n t"
proof (cases "v = JNull")
  case True
  with assms show ?thesis by (simp add: normalize_immutable_references_def immutable_table_ok_def)
next
  case False
  with assms obtain d where ts: "each (\<lambda>_. normalize_immutable n path) 0 (sort_key fst d) = Inr t"
    by (auto simp: normalize_immutable_references_def res_simps)
  show ?thesis
    by (auto simp: immutable_table_ok_def dest!: each_set[OF ts] normalize_immutable_ok)
qed

lemma table_patches_mem:
  "(k, ps) \<in> set t \<Longrightarrow> p \<in> set ps \<Longrightarrow> (nat (ref_start p), v k) \<in> set (table_patches v t)"
  unfolding table_patches_def by (auto intro!: bexI[where x = "(k, ps)"])

section \<open>Properties\<close>

text \<open>
  C27: the overlap check is exact: on ranges that are not empty it passes if and only if no
  byte position lies in two of them.
\<close>
theorem reject_overlaps_exact:
  assumes "list_all nonempty_range ranges"
  shows "reject_overlaps ranges path = Inr () \<longleftrightarrow>
    (\<forall>k. length (filter (covers k) ranges) \<le> 1)"
  using reject_overlaps_iff[OF assms] by (simp add: at_most_one_cover_def)

theorem reject_overlaps_exact_witness:
  "reject_overlaps [(4, 8, ''b''), (0, 4, ''a'')] ''p'' = Inr () \<longleftrightarrow>
    (\<forall>k. length (filter (covers k) [(4, 8, ''b''), (0, 4, ''a'')]) \<le> 1)"
  by (rule reject_overlaps_exact) (simp add: nonempty_range_def)

text \<open>
  C7: linking is exact. When the tables were normalised against the object and the library
  addresses passed their check, a successful \<open>materialize_bytecode\<close> returns code of the
  object's length that holds each library's address at each of its link positions, each
  immutable value at each of its positions, and the object's own byte everywhere else.
\<close>
theorem materialize_bytecode_exact:
  assumes ok: "materialize_bytecode obj links addrs imms vals path = Inr code"
    and links: "normalize_references lv (int (length obj div 2)) lpath = Inr links"
    and imms: "normalize_immutable_references iv (int (length obj div 2)) ipath = Inr imms"
    and addrs: "list_all (\<lambda>(k, a). ADDRESS_RE a) addrs"
  shows "2 * length code = length obj \<and>
    (\<forall>(k, ps) \<in> set links. \<forall>p \<in> set ps.
       take 20 (drop (nat (ref_start p)) code) = hex_binding addrs k) \<and>
    (\<forall>(k, ps) \<in> set imms. \<forall>p \<in> set ps.
       take (nat (ref_length p)) (drop (nat (ref_start p)) code) = hex_binding vals k) \<and>
    (\<forall>i < length code. uncovered links imms i \<longrightarrow>
       byte_hex (code ! i) = lower [obj ! (2 * i), obj ! (2 * i + 1)])"
proof -
  define P where "P = table_patches (hex_binding addrs) (sort_key fst links) @
               table_patches (hex_binding vals) (sort_key fst imms)"
  note patches = materialize_bytecode_patches[OF ok normalize_references_ok(1)[OF links]
      normalize_immutable_references_ok[OF imms] addrs, folded P_def]
  note code = patches(1)
  have len: "length (fold put_bytes P obj) = length obj"
    by (rule hex_patch.length_fold_put[OF patches(2)])
  have slice: "take (length (snd p)) (drop (fst p) code) = snd p" if "p \<in> set P" for p
  proof -
    have "unhex (take (2 * length (snd p)) (drop (2 * fst p) (fold put_bytes P obj))) =
        Some (take (length (snd p)) (drop (fst p) code))"
      by (intro unhex_take unhex_drop code)
    with fold_put_bytes_slice[OF patches(2,3) that] show ?thesis by simp
  qed
  have same: "byte_hex (code ! i) = lower [obj ! (2 * i), obj ! (2 * i + 1)]"
    if i: "i < length code" and u: "uncovered links imms i" for i
  proof -
    let ?r = "fold put_bytes P obj"
    have l: "2 * i + 1 < length obj" using i unhex_length[OF code] len by simp
    have "filter (covers (int i)) (flatten_reference_ranges links imms) = []"
      using u by (simp add: uncovered_def filter_empty_conv list_all_iff)
    then have "filter (patch_covers i) P = []" using patches(4) by (metis length_0_conv)
    then have "list_all (\<lambda>p. \<not> hex_patch.inside (2 * i) p \<and> \<not> hex_patch.inside (2 * i + 1) p) P"
      by (auto simp: list_all_iff hex_patch_inside filter_empty_conv)
    then have r: "?r ! (2 * i) = obj ! (2 * i)" "?r ! (2 * i + 1) = obj ! (2 * i + 1)"
      using l by (auto intro!: hex_patch.fold_put_outside[OF patches(2)] simp: list_all_iff)
    have "bytes_hex (take 1 (drop i code)) = lower (take 2 (drop (2 * i) ?r))"
      using unhex_take[OF unhex_drop[OF code, of i], of 1] by (simp add: bytes_hex_unhex)
    moreover have "take 1 (drop i code) = [code ! i]"
      using i by (simp add: take_Suc_conv_app_nth)
    moreover have "take 2 (drop (2 * i) ?r) = [?r ! (2 * i), ?r ! (2 * i + 1)]"
      using l len by (simp add: numeral_2_eq_2 take_Suc_conv_app_nth)
    ultimately show ?thesis using r by simp
  qed
  have in_links: "(nat (ref_start p), hex_binding addrs k) \<in> set P"
    if "(k, ps) \<in> set links" "p \<in> set ps" for k ps p
    using table_patches_mem[of k ps "sort_key fst links" p "hex_binding addrs"] that
    by (simp add: P_def)
  have in_imms: "(nat (ref_start p), hex_binding vals k) \<in> set P"
    if "(k, ps) \<in> set imms" "p \<in> set ps" for k ps p
    using table_patches_mem[of k ps "sort_key fst imms" p "hex_binding vals"] that
    by (simp add: P_def)
  have "take 20 (drop (nat (ref_start p)) code) = hex_binding addrs k"
    if "(k, ps) \<in> set links" "p \<in> set ps" for k ps p
    using slice[OF in_links[OF that]] patches(6) that(1) by auto
  moreover have "take (nat (ref_length p)) (drop (nat (ref_start p)) code) = hex_binding vals k"
    if "(k, ps) \<in> set imms" "p \<in> set ps" for k ps p
    using slice[OF in_imms[OF that]] patches(5) that by auto
  moreover have "2 * length code = length obj" using unhex_length[OF code] len by simp
  ultimately show ?thesis using same by blast
qed

definition example_object :: string where
  "example_object = ''60'' @ concat (replicate 20 ''00'') @ ''5b'' @ ''000000'' @ ''00''"

definition example_links :: json where
  "example_links = JDict [(''lib/L.sol'', JDict [(''L'', JList [JDict
     [(''start'', JInt 1), (''length'', JInt 20)]])])]"

definition example_immutables :: json where
  "example_immutables = JDict [(''7'', JList [JDict [(''start'', JInt 22), (''length'', JInt 3)]])]"

definition example_address :: string where
  "example_address = ''0x'' @ concat (replicate 20 ''ab'')"

lemma example_links_normal:
  "normalize_references example_links 26 ''p'' =
     Inr [((''lib/L.sol'', ''L''), [\<lparr>ref_start = 1, ref_length = 20\<rparr>])]"
  by code_simp

lemma example_immutables_normal:
  "normalize_immutable_references example_immutables 26 ''p'' =
     Inr [(''7'', [\<lparr>ref_start = 22, ref_length = 3\<rparr>])]"
  by code_simp

lemma example_linked:
  "materialize_bytecode example_object [((''lib/L.sol'', ''L''), [\<lparr>ref_start = 1, ref_length = 20\<rparr>])]
     [((''lib/L.sol'', ''L''), example_address)] [(''7'', [\<lparr>ref_start = 22, ref_length = 3\<rparr>])]
     [(''7'', ''0x010203'')] ''p'' =
   Inr (0x60 # replicate 20 0xab @ [0x5b, 1, 2, 3, 0])"
  by code_simp

theorem materialize_bytecode_exact_witness:
  "take 20 (drop 1 ((0x60 # replicate 20 0xab @ [0x5b, 1, 2, 3, 0]) :: byte list)) =
     hex_binding [((''lib/L.sol'', ''L''), example_address)] (''lib/L.sol'', ''L'')"
proof -
  have len: "length example_object div 2 = 26" by code_simp
  have a: "list_all (\<lambda>(k, a). ADDRESS_RE a) [((''lib/L.sol'', ''L''), example_address)]" by code_simp
  have "hex_binding [((''lib/L.sol'', ''L''), example_address)] (''lib/L.sol'', ''L'') = replicate 20 0xab"
    using materialize_bytecode_exact[OF example_linked, of example_links "''p''"
        example_immutables "''p''"] example_links_normal example_immutables_normal len a
    by simp
  then show ?thesis by simp
qed

end
