(* ===== verification/Abi.thy ===== *)
theory Abi
  imports Authority Linking
begin

text \<open>
  Constructor arguments, from \<open>tools/deployment/materialize_canonical_deployment_plan.py\<close>: the
  constructor an artifact declares (\<open>constructor_inputs\<close>), the canonical type of a Solidity ABI
  parameter (\<open>canonical_abi_type\<close>), the conversion of a JSON argument into the value the ABI
  encoder takes (\<open>normalize_abi_integer\<close>, \<open>normalize_abi_value\<close>) and the encoding that is
  bound to the candidate's digest (\<open>encode_constructor\<close>). The encoder itself, \<open>eth_abi.encode\<close>,
  is a parameter. Digits are the ASCII digits; the text that follows the literal in the
  message of a \<open>ValueError\<close> of \<open>int\<close> is the library's.
\<close>

section \<open>Constructors and types\<close>

definition is_constructor :: "json \<Rightarrow> bool" where
  "is_constructor entry =
     (case entry of JDict d \<Rightarrow> dget d ''type'' = JStr ''constructor'' | _ \<Rightarrow> False)"

definition constructor_inputs :: "dict \<Rightarrow> string \<Rightarrow> dict list res" where
  "constructor_inputs artifact label =
     rbind (require_list (dget artifact ''abi'') (label @ ''.abi'')) (\<lambda>abi.
     case filter is_constructor abi of
       [] \<Rightarrow> Inr []
     | JDict d # [] \<Rightarrow>
         rbind (require_list (dget d ''inputs'') (label @ ''.constructor.inputs'')) (\<lambda>inputs.
         each (\<lambda>i v. require_dict v (indexed (label @ ''.constructor.inputs'') i)) 0 inputs)
     | _ \<Rightarrow> Inl (DeploymentPlanError (label @ '' ABI has more than one constructor'')))"

text \<open>The components of a tuple parameter are smaller than the parameter.\<close>

lemma size_dget:
  assumes "dget d k = v" and "v \<noteq> JNull"
  shows "size v < size (JDict d)"
proof -
  have "(k, v) \<in> set d"
    using assms by (auto simp: dget_def split: option.splits dest: map_of_SomeD)
  then show ?thesis by (induction d) auto
qed

lemma size_in_list: "v \<in> set vs \<Longrightarrow> size v < size (JList vs)"
  by (induction vs) auto

function canonical_abi_type :: "dict \<Rightarrow> string \<Rightarrow> string res" where
  "canonical_abi_type parameter path =
     rbind (require_string (dget parameter ''type'') (path @ ''.type'')) (\<lambda>abi_type.
     if take 5 abi_type \<noteq> ''tuple'' then Inr abi_type
     else
       rbind (require_list (dget parameter ''components'') (path @ ''.components'')) (\<lambda>items.
       rbind (each (\<lambda>i item.
           rbind (require_dict item (indexed (path @ ''.components'') i)) (\<lambda>component.
           canonical_abi_type component (indexed (path @ ''.components'') i))) 0 items) (\<lambda>components.
       Inr (''('' @ join '','' components @ '')'' @ drop 5 abi_type))))"
  by pat_completeness auto
termination
proof (relation "measure (\<lambda>(parameter, path). size (JDict parameter))", goal_cases)
  case (2 parameter path abi_type items i item component)
  then have "JDict component \<in> set items" "dget parameter ''components'' = JList items"
    by (simp_all add: res_simps)
  then have "size (JDict component) < size (JDict parameter)"
    using size_in_list[of "JDict component" items] size_dget[of parameter "''components''" "JList items"] by simp
  then show ?case by simp
qed simp

declare canonical_abi_type.simps [simp del]

section \<open>Values\<close>

text \<open>
  \<open>ARRAY_SUFFIX_RE\<close>: the element type and the digits between the last brackets.
\<close>

definition array_suffix :: "string \<Rightarrow> (string \<times> string) option" where
  "array_suffix s =
     (case rev s of
        [] \<Rightarrow> None
      | close # r \<Rightarrow>
          if close \<noteq> CHR '']'' then None
          else
            (case dropWhile is_digit r of
               [] \<Rightarrow> None
             | open # inner \<Rightarrow>
                 if open = CHR ''['' \<and> inner \<noteq> [] \<and> CHR 0x0A \<notin> set inner
                 then Some (rev inner, rev (takeWhile is_digit r)) else None))"

definition normalize_abi_integer :: "json \<Rightarrow> string \<Rightarrow> bool \<Rightarrow> int res" where
  "normalize_abi_integer value path is_signed =
     (let flavor = (if is_signed then ''signed'' else ''unsigned'');
          refuse = Inl (DeploymentPlanError (path @ '' must be a JSON integer or canonical '' @ flavor @
            '' decimal string'')) in
      case value of
        JBool _ \<Rightarrow> Inl (DeploymentPlanError (path @ '' must be an ABI integer''))
      | JInt i \<Rightarrow> Inr i
      | JStr s \<Rightarrow> if (if is_signed then SIGNED_DECIMAL_RE s else UNSIGNED_DECIMAL_RE s) then py_int s else refuse
      | _ \<Rightarrow> refuse)"

text \<open>The bytes of a hexadecimal argument.\<close>

definition hex_argument :: "json \<Rightarrow> string \<Rightarrow> byte list res" where
  "hex_argument value path = rbind (require_hex True value path) (\<lambda>s. bytes_fromhex (drop 2 s))"

definition abi_width :: "string \<Rightarrow> int res" where
  "abi_width width_text = (if width_text = [] then Inr 256 else py_int width_text)"

definition bad_width :: "int \<Rightarrow> bool" where
  "bad_width width \<longleftrightarrow> width < 8 \<or> 256 < width \<or> width mod 8 \<noteq> 0"

text \<open>The branches for the types that are neither arrays nor tuples.\<close>

definition normalize_elementary :: "string \<Rightarrow> json \<Rightarrow> string \<Rightarrow> abi res" where
  "normalize_elementary abi_type value path =
     (let invalid = Inl (DeploymentPlanError (path @ '' uses invalid ABI type '' @ abi_type));
          outside = Inl (DeploymentPlanError (path @ '' is outside the '' @ abi_type @ '' range'')) in
      if abi_type = ''address'' then rbind (require_address True value path) (\<lambda>s. Inr (AStr s))
      else if abi_type = ''bool'' then rbind (require_bool value path) (\<lambda>b. Inr (ABool b))
      else if abi_type = ''string'' then
        (case value of JStr s \<Rightarrow> Inr (AStr s)
         | _ \<Rightarrow> Inl (DeploymentPlanError (path @ '' must be a string'')))
      else if abi_type = ''bytes'' then rbind (hex_argument value path) (\<lambda>bs. Inr (ABytes bs))
      else if take 5 abi_type = ''bytes'' \<and> drop 5 abi_type \<noteq> [] \<and> list_all is_digit (drop 5 abi_type) then
        rbind (py_int (drop 5 abi_type)) (\<lambda>n.
        if n < 1 \<or> 32 < n then invalid
        else
          rbind (hex_argument value path) (\<lambda>bs.
          if int (length bs) \<noteq> n
          then Inl (DeploymentPlanError (path @ '' must contain exactly '' @ dec_int n @ '' bytes''))
          else Inr (ABytes bs)))
      else if take 4 abi_type = ''uint'' then
        rbind (abi_width (drop 4 abi_type)) (\<lambda>width.
        if bad_width width then invalid
        else
          rbind (normalize_abi_integer value path False) (\<lambda>i.
          if i < 0 \<or> 2 ^ nat width \<le> i then outside else Inr (AInt i)))
      else if take 3 abi_type = ''int'' then
        rbind (abi_width (drop 3 abi_type)) (\<lambda>width.
        if bad_width width then invalid
        else
          rbind (normalize_abi_integer value path True) (\<lambda>i.
          if i < - (2 ^ nat (width - 1)) \<or> 2 ^ nat (width - 1) - 1 < i then outside else Inr (AInt i)))
      else if abi_type = ''function'' then
        rbind (hex_argument value path) (\<lambda>bs.
        if length bs \<noteq> 24 then Inl (DeploymentPlanError (path @ '' must contain 24 bytes''))
        else Inr (ABytes bs))
      else Inr (ARaw value))"

text \<open>A parameter with an array type, made the parameter of its elements.\<close>

definition nested_parameter :: "dict \<Rightarrow> string \<Rightarrow> dict" where
  "nested_parameter parameter inner = dset parameter ''type'' (JStr inner)"

lemma array_suffix_Some:
  "array_suffix s = Some (inner, digits) \<longleftrightarrow>
     s = inner @ ''['' @ digits @ '']'' \<and> inner \<noteq> [] \<and> CHR 0x0A \<notin> set inner \<and> list_all is_digit digits"
proof
  assume a: "array_suffix s = Some (inner, digits)"
  obtain r where r: "rev s = CHR '']'' # r"
    using a by (cases "rev s") (auto simp: array_suffix_def simp del: rev_eq_Cons_iff split: if_splits)
  obtain t where t: "dropWhile is_digit r = CHR ''['' # t" "inner = rev t" "t \<noteq> []" "CHR 0x0A \<notin> set t"
      "digits = rev (takeWhile is_digit r)"
    using a unfolding array_suffix_def r
    by (cases "dropWhile is_digit r") (auto simp del: rev_eq_Cons_iff split: if_splits)
  have "r = rev digits @ CHR ''['' # rev inner" using takeWhile_dropWhile_id[of is_digit r] t by simp
  then have "s = inner @ ''['' @ digits @ '']''" using r by (metis append.assoc append_Cons append_Nil rev.simps(2) rev_append rev_rev_ident)
  then show "s = inner @ ''['' @ digits @ '']'' \<and> inner \<noteq> [] \<and> CHR 0x0A \<notin> set inner \<and> list_all is_digit digits"
    using t by (auto simp: list_all_iff dest: set_takeWhileD)
next
  assume a: "s = inner @ ''['' @ digits @ '']'' \<and> inner \<noteq> [] \<and> CHR 0x0A \<notin> set inner \<and> list_all is_digit digits"
  have n: "\<not> is_digit (CHR ''['')" by (simp add: is_digit_def)
  have d: "x \<in> set (rev digits) \<Longrightarrow> is_digit x" for x using a by (simp add: list_all_iff)
  have "takeWhile is_digit (rev digits @ CHR ''['' # rev inner) = rev digits"
    "dropWhile is_digit (rev digits @ CHR ''['' # rev inner) = CHR ''['' # rev inner"
    using takeWhile_append2[of "rev digits", OF d] dropWhile_append2[of "rev digits", OF d] n by simp_all
  then show "array_suffix s = Some (inner, digits)" using a by (simp add: array_suffix_def)
qed

lemma array_suffix_shorter: "array_suffix s = Some (inner, digits) \<Longrightarrow> length inner < length s"
  by (simp add: array_suffix_Some)

lemma each_require_dict: "each (\<lambda>i item. require_dict item (f i)) k items = Inr ds \<Longrightarrow> items = map JDict ds"
  by (auto simp: each_eq_Inr res_simps intro: nth_equalityI)

function normalize_abi_value :: "dict \<Rightarrow> json \<Rightarrow> string \<Rightarrow> abi res" where
  "normalize_abi_value parameter value path =
     rbind (require_string (dget parameter ''type'') (path @ ''.type'')) (\<lambda>abi_type.
     case array_suffix abi_type of
       Some (inner, declared_size) \<Rightarrow>
         rbind (require_list value path) (\<lambda>vals.
         if declared_size \<noteq> [] \<and> int (length vals) \<noteq> dec_value declared_size
         then Inl (DeploymentPlanError (path @ '' must contain exactly '' @ declared_size @ '' array elements''))
         else
           rbind (each (\<lambda>i item. normalize_abi_value (nested_parameter parameter inner) item (indexed path i)) 0 vals)
             (\<lambda>items. Inr (AList items)))
     | None \<Rightarrow>
         if abi_type = ''tuple'' then
           rbind (require_list value path) (\<lambda>vals.
           rbind (require_list (dget parameter ''components'') (path @ ''.components'')) (\<lambda>items.
           rbind (each (\<lambda>i item. require_dict item (indexed (path @ ''.components'') i)) 0 items) (\<lambda>components.
           if length vals \<noteq> length components
           then Inl (DeploymentPlanError (path @ '' tuple value must contain '' @ dec (length components) @ '' elements''))
           else
             rbind (each (\<lambda>i entry. normalize_abi_value (fst entry) (snd entry) (indexed path i)) 0
               (zip components vals)) (\<lambda>items. Inr (ATuple items)))))
         else normalize_elementary abi_type value path)"
  by pat_completeness auto
termination
proof (relation "measures [\<lambda>(parameter, v, path). size (dget parameter ''components''),
    \<lambda>(parameter, v, path). case dget parameter ''type'' of JStr s \<Rightarrow> length s | _ \<Rightarrow> 0]", goal_cases)
  case (2 parameter v path abi_type vals items components i entry)
  then have "items = map JDict components" "dget parameter ''components'' = JList items"
    by (auto simp: res_simps dest: each_require_dict)
  moreover have "fst entry \<in> set components" using 2 set_zip_leftD[of "fst entry" "snd entry" components vals] by simp
  moreover have "size (dget (fst entry) ''components'') \<le> size (JDict (fst entry))"
    using size_dget[of "fst entry" "''components''"]
    by (cases "dget (fst entry) ''components'' = JNull") (auto intro: less_imp_le)
  ultimately show ?case using size_in_list[of "JDict (fst entry)" items] by simp
next
  case 3
  then show ?case
    using array_suffix_shorter by (auto simp: res_simps nested_parameter_def)
qed simp

declare normalize_abi_value.simps [simp del]

section \<open>The encoded constructor\<close>

text \<open>What a candidate says of a constructor, validated.\<close>

record constructor_spec =
  ct_types :: "string list"
  ct_arguments :: "json list"
  ct_hash :: string

definition encode_constructor ::
  "env \<Rightarrow> dict list \<Rightarrow> constructor_spec \<Rightarrow> string \<Rightarrow> (string list \<times> byte list) res" where
  "encode_constructor E inputs spec label =
     rbind (each (\<lambda>i parameter. canonical_abi_type parameter (indexed (label @ ''.inputs'') i)) 0 inputs)
       (\<lambda>canonical_types.
     if ct_types spec \<noteq> canonical_types
     then Inl (DeploymentPlanError (label @ '' candidate constructor types '' @ py_repr_list (ct_types spec) @
            '' do not match artifact ABI '' @ py_repr_list canonical_types))
     else if length (ct_arguments spec) \<noteq> length inputs
     then Inl (DeploymentPlanError (label @ '' has '' @ dec (length (ct_arguments spec)) @
            '' constructor arguments, expected '' @ dec (length inputs)))
     else
       rbind (each (\<lambda>i entry. normalize_abi_value (fst entry) (snd entry) (indexed (label @ ''.arguments'') i)) 0
         (zip inputs (ct_arguments spec))) (\<lambda>normalized.
       rbind (rmap_exn (\<lambda>e. if caught e then DeploymentPlanError
             (label @ '' constructor arguments cannot be ABI encoded: '' @ exn_text e) else e)
           (encode_abi E canonical_types normalized)) (\<lambda>encoded.
       let actual_hash = keccak256_hex (hash E) encoded in
       if actual_hash \<noteq> ct_hash spec
       then Inl (DeploymentPlanError (label @ '' constructor argument hash mismatch: expected '' @
              ct_hash spec @ '', got '' @ actual_hash))
       else Inr (canonical_types, encoded))))"

section \<open>Integers\<close>

lemma digits_no_underscore: "list_all is_digit s \<Longrightarrow> split_on (CHR ''_'') s = [s]"
  by (induction s) (auto simp: is_digit_def)

lemma dropWhile_hd: "s \<noteq> [] \<Longrightarrow> \<not> P (hd s) \<Longrightarrow> dropWhile P s = s"
  by (cases s) auto

lemma strip_id: "s \<noteq> [] \<Longrightarrow> \<not> int_space (hd s) \<Longrightarrow> \<not> int_space (last s) \<Longrightarrow> strip s = s"
  by (simp add: strip_def dropWhile_hd hd_rev)

lemma digit_not_int_space: "is_digit c \<Longrightarrow> \<not> int_space c"
  by (auto simp: is_digit_def int_space_def)

lemma py_int_unsigned:
  assumes "list_all is_digit s" "s \<noteq> []" shows "py_int s = Inr (dec_value s)"
proof -
  have "is_digit (hd s)" "is_digit (last s)" using assms by (auto simp: list_all_iff)
  then have "strip s = s" "hd s \<noteq> CHR ''-''" "hd s \<noteq> CHR ''+''"
    using strip_id[OF assms(2)] by (auto simp: digit_not_int_space) (auto simp: is_digit_def)
  then show ?thesis using assms digits_no_underscore[OF assms(1)] by (simp add: py_int_def Let_def)
qed

lemma py_int_negative:
  assumes "list_all is_digit s" "s \<noteq> []" shows "py_int (CHR ''-'' # s) = Inr (- dec_value s)"
proof -
  have "is_digit (last s)" using assms by (auto simp: list_all_iff)
  then have "strip (CHR ''-'' # s) = CHR ''-'' # s"
    using strip_id[of "CHR ''-'' # s"] assms(2) by (simp add: digit_not_int_space) (simp add: int_space_def)
  then show ?thesis using assms digits_no_underscore[OF assms(1)] by (simp add: py_int_def Let_def)
qed

lemma digit_char_of_digit: "is_digit c \<Longrightarrow> digit_char (of_char c - 48) = c"
  by (auto simp: digit_char.simps is_digit_def)

lemma dec_append: "0 < m \<Longrightarrow> k < 10 \<Longrightarrow> dec (10 * m + k) = dec m @ [digit_char k]"
  using dec.simps[of "10 * m + k"] by simp

lemma char_digit:
  assumes "is_digit c"
  obtains k where "k < 10" "of_char c = 48 + int k" "c = digit_char k"
proof -
  have d: "48 \<le> (of_char c :: nat)" "(of_char c :: nat) \<le> 57" using assms by (simp_all add: is_digit_def)
  then have "of_char c = 48 + int (of_char c - 48)"
    using of_nat_of_char[of c, where ?'a = int] by (simp add: of_nat_diff del: of_nat_of_char)
  moreover have "c = digit_char (of_char c - 48)" using digit_char_of_digit[OF assms] by simp
  moreover have "(of_char c - 48 :: nat) < 10" using d by simp
  ultimately show ?thesis using that by blast
qed

lemma dec_snoc:
  assumes "is_digit c" "0 < i" shows "dec (nat (10 * i + (of_char c - 48))) = dec (nat i) @ [c]"
proof -
  obtain k where k: "k < 10" "of_char c = 48 + int k" "c = digit_char k" by (rule char_digit[OF assms(1)])
  have "nat (10 * i + (of_char c - 48)) = 10 * nat i + k" using k(2) assms(2) by simp
  then show ?thesis using dec_append[of "nat i" k] k assms(2) by simp
qed

lemma dec_of_value:
  assumes "list_all is_digit s" "s \<noteq> []" "hd s \<noteq> CHR ''0''"
  shows "0 < dec_value s \<and> dec (nat (dec_value s)) = s"
  using assms
proof (induction s rule: rev_induct)
  case (snoc c s)
  have c: "is_digit c" using snoc.prems by simp
  obtain k where k: "k < 10" "of_char c = 48 + int k" "c = digit_char k" by (rule char_digit[OF c])
  show ?case
  proof (cases "s = []")
    case True
    have "digit_char 0 = CHR ''0''" by code_simp
    then have "k \<noteq> 0" using snoc.prems k(3) True by (cases k) auto
    moreover have "dec_value [c] = int k" using k(2) by (simp add: dec_value_def)
    ultimately show ?thesis using True k dec.simps[of k] by simp
  next
    case False
    then have s: "dec (nat (dec_value s)) = s" "0 < dec_value s" using snoc by auto
    then show ?thesis using dec_snoc[OF c s(2)] k by simp
  qed
qed simp

text \<open>The canonical decimal strings are the ones \<open>str\<close> prints.\<close>

lemma UNSIGNED_DECIMAL_RE_dec: "UNSIGNED_DECIMAL_RE s \<longleftrightarrow> (\<exists>n. s = dec n)"
proof
  assume u: "UNSIGNED_DECIMAL_RE s"
  show "\<exists>n. s = dec n"
  proof (cases "s = ''0''")
    case True
    have "dec 0 = ''0''" by code_simp
    then show ?thesis using True by metis
  next
    case False
    then have "list_all is_digit s" "s \<noteq> []" "hd s \<noteq> CHR ''0''"
      using u by (auto simp: UNSIGNED_DECIMAL_RE_def split: list.splits)
    from dec_of_value[OF this] show ?thesis by metis
  qed
next
  assume "\<exists>n. s = dec n"
  then obtain n where n: "s = dec n" by blast
  show "UNSIGNED_DECIMAL_RE s"
    using dec_shape[of n] dec_digits[of n] unfolding n by (auto simp: UNSIGNED_DECIMAL_RE_def)
qed

lemma dec_nonempty: "dec n \<noteq> []"
  using dec_shape[of n] by auto

lemma py_int_dec: "py_int (dec n) = Inr (int n)"
  using py_int_unsigned[OF dec_digits dec_nonempty] by simp

lemma py_int_dec_int: "py_int (dec_int i) = Inr i"
  using py_int_dec[of "nat i"] py_int_negative[OF dec_digits dec_nonempty, of "nat (- i)"]
  by (simp add: dec_int_def)

lemma SIGNED_DECIMAL_RE_dec: "SIGNED_DECIMAL_RE s \<longleftrightarrow> (\<exists>i. s = dec_int i)"
proof
  assume "SIGNED_DECIMAL_RE s"
  then consider "UNSIGNED_DECIMAL_RE s" | t where "s = CHR ''-'' # t" "t \<noteq> ''0''" "UNSIGNED_DECIMAL_RE t"
    by (auto simp: SIGNED_DECIMAL_RE_def split: list.splits)
  then show "\<exists>i. s = dec_int i"
  proof cases
    case 1
    then obtain n where "s = dec n" by (auto simp: UNSIGNED_DECIMAL_RE_dec)
    then have "s = dec_int (int n)" by (simp add: dec_int_def)
    then show ?thesis by blast
  next
    case (2 t)
    then obtain n where n: "t = dec n" by (auto simp: UNSIGNED_DECIMAL_RE_dec)
    have "dec 0 = ''0''" by code_simp
    then have "n \<noteq> 0" using 2(2) n by metis
    then have "s = dec_int (- int n)" using 2(1) n by (simp add: dec_int_def)
    then show ?thesis by blast
  qed
next
  assume "\<exists>i. s = dec_int i"
  then obtain i where i: "s = dec_int i" by blast
  have u: "UNSIGNED_DECIMAL_RE (dec n)" for n using UNSIGNED_DECIMAL_RE_dec by blast
  show "SIGNED_DECIMAL_RE s"
  proof (cases "i < 0")
    case True
    then have "dec (nat (- i)) \<noteq> ''0''" using dec_value_dec[of "nat (- i)"] by (auto simp: dec_value_def)
    then show ?thesis using True u by (simp add: i dec_int_def SIGNED_DECIMAL_RE_def)
  next
    case False
    then show ?thesis using u by (simp add: i dec_int_def SIGNED_DECIMAL_RE_def)
  qed
qed

lemma dec_int_nat: "0 \<le> i \<Longrightarrow> dec_int i = dec (nat i)"
  by (simp add: dec_int_def)

lemma normalize_abi_integer_Inr:
  "normalize_abi_integer v path is_signed = Inr i \<longleftrightarrow>
     v = JInt i \<or> v = JStr (dec_int i) \<and> (is_signed \<or> 0 \<le> i)"
proof (cases v)
  case (JStr s)
  have "(\<exists>n. s = dec n) \<and> py_int s = Inr i \<longleftrightarrow> s = dec_int i \<and> 0 \<le> i"
  proof safe
    fix n assume "py_int (dec n) = Inr i"
    then have "i = int n" by (simp add: py_int_dec)
    then show "dec n = dec_int i" "0 \<le> i" by (simp_all add: dec_int_def)
  next
    assume "0 \<le> i"
    then show "\<exists>n. dec_int i = dec n" by (auto simp: dec_int_nat)
    show "py_int (dec_int i) = Inr i" by (rule py_int_dec_int)
  qed
  moreover have "(\<exists>j. s = dec_int j) \<and> py_int s = Inr i \<longleftrightarrow> s = dec_int i"
    by (auto simp: py_int_dec_int)
  ultimately show ?thesis
    by (auto simp: JStr normalize_abi_integer_def Let_def UNSIGNED_DECIMAL_RE_dec SIGNED_DECIMAL_RE_dec)
qed (auto simp: normalize_abi_integer_def Let_def)

definition abi_parameter :: "string \<Rightarrow> dict" where
  "abi_parameter abi_type = [(''name'', JStr ''x''), (''type'', JStr abi_type)]"

lemma array_suffix_last: "s \<noteq> [] \<Longrightarrow> last s \<noteq> CHR '']'' \<Longrightarrow> array_suffix s = None"
  by (cases "array_suffix s") (auto simp: array_suffix_Some)

lemma normalize_elementary_parameter:
  assumes "s \<noteq> []" "s \<noteq> ''tuple''" "array_suffix s = None"
  shows "normalize_abi_value (abi_parameter s) v path = normalize_elementary s v path"
  using assms by (subst normalize_abi_value.simps) (simp add: abi_parameter_def dget_def require_string_def)

text \<open>
  C26: A fixed-width integer argument is accepted exactly when it is in the range of its type,
  as a JSON integer or as the canonical decimal string of one (without a sign for an unsigned
  type), and what is encoded is that integer. The widths are the multiples of 8 from 8 to 256.
\<close>

theorem normalize_abi_value_integer_exact:
  assumes "8 \<le> w" "w \<le> 256" "8 dvd w"
  shows "(normalize_abi_value (abi_parameter (''uint'' @ dec w)) v path = Inr a \<longleftrightarrow>
      (\<exists>i. a = AInt i \<and> 0 \<le> i \<and> i < 2 ^ w \<and> (v = JInt i \<or> v = JStr (dec_int i)))) \<and>
    (normalize_abi_value (abi_parameter (''int'' @ dec w)) v path = Inr a \<longleftrightarrow>
      (\<exists>i. a = AInt i \<and> - (2 ^ (w - 1)) \<le> i \<and> i < 2 ^ (w - 1) \<and> (v = JInt i \<or> v = JStr (dec_int i))))"
proof -
  have l: "last (dec w) \<noteq> CHR '']''" using dec_digits[of w] dec_nonempty[of w]
    by (auto simp: list_all_iff is_digit_def dest!: last_in_set)
  have n: "dec w \<noteq> []" by (rule dec_nonempty)
  have b: "\<not> bad_width (int w)" using assms by (auto simp: bad_width_def zmod_int dvd_eq_mod_eq_0)
  have w: "abi_width (dec w) = Inr (int w)" using n by (simp add: abi_width_def py_int_dec)
  have m: "nat (int w - 1) = w - 1" using assms(1) by (simp add: nat_diff_distrib)
  have "normalize_abi_value (abi_parameter (''uint'' @ dec w)) v path = normalize_elementary (''uint'' @ dec w) v path"
    using l n by (intro normalize_elementary_parameter array_suffix_last) auto
  moreover have "normalize_elementary (''uint'' @ dec w) v path = Inr a \<longleftrightarrow>
      (\<exists>i. a = AInt i \<and> 0 \<le> i \<and> i < 2 ^ w \<and> (v = JInt i \<or> v = JStr (dec_int i)))"
    using w b by (auto simp: normalize_elementary_def Let_def res_simps normalize_abi_integer_Inr)
  moreover have "normalize_abi_value (abi_parameter (''int'' @ dec w)) v path = normalize_elementary (''int'' @ dec w) v path"
    using l n by (intro normalize_elementary_parameter array_suffix_last) auto
  moreover have "normalize_elementary (''int'' @ dec w) v path = Inr a \<longleftrightarrow>
      (\<exists>i. a = AInt i \<and> - (2 ^ (w - 1)) \<le> i \<and> i < 2 ^ (w - 1) \<and> (v = JInt i \<or> v = JStr (dec_int i)))"
    using w b by (auto simp: normalize_elementary_def Let_def res_simps normalize_abi_integer_Inr m)
  ultimately show ?thesis by simp
qed

theorem normalize_abi_value_integer_exact_witness:
  "normalize_abi_value (abi_parameter (''uint'' @ dec 8)) (JStr (dec_int 255)) ''$'' = Inr (AInt 255) \<and>
   (\<forall>a. normalize_abi_value (abi_parameter (''uint'' @ dec 8)) (JInt 256) ''$'' \<noteq> Inr a)"
  using normalize_abi_value_integer_exact[of 8 "JStr (dec_int 255)" "''$''" "AInt 255"]
    normalize_abi_value_integer_exact[of 8 "JInt 256" "''$''"]
  by auto

end
