(* ===== verification/Candidate.thy ===== *)
theory Candidate
  imports Abi
begin

text \<open>
  The candidate of a deployment and its validation, from
  \<open>tools/deployment/materialize_canonical_deployment_plan.py\<close>: the release build it is bound
  to, and its instances with their target, constructor, libraries and runtime. A dictionary
  with a fixed set of keys that a validator returns is a record. The theorems say what every
  validated candidate is: the instances are numbered from one, have different names, and
  depend only on earlier ones.
\<close>

section \<open>Constants\<close>

definition CANONICAL_RECEIPT :: string where
  "CANONICAL_RECEIPT = ''out-release/release-build-manifest.json''"

definition CANONICAL_CONFIG :: string where
  "CANONICAL_CONFIG = ''release-artifacts/contracts.json''"

definition CANONICAL_FOUNDRY_CONFIG :: string where
  "CANONICAL_FOUNDRY_CONFIG = ''foundry.toml''"

definition NON_PRODUCTION_ENVIRONMENTS :: "string list" where
  "NON_PRODUCTION_ENVIRONMENTS = [''anvil'', ''local'', ''fork'', ''testnet'']"

section \<open>The validated candidate\<close>

record release_binding =
  rb_receipt_path :: string
  rb_receipt_sha256 :: string
  rb_catalog_sha256 :: string
  rb_config_path :: string
  rb_config_sha256 :: string
  rb_foundry_path :: string
  rb_foundry_sha256 :: string

record target =
  tg_kind :: string
  tg_name :: string
  tg_source :: string
  tg_artifact_path :: string
  tg_artifact_sha256 :: string

record library =
  lb_source :: string
  lb_name :: string
  lb_address :: string

record runtime_spec =
  rt_immutables :: "(string \<times> string) list"
  rt_hash :: string

text \<open>
  An instance; the last field holds the two members only a complete v2 candidate has
  (\<open>expected_address\<close> and \<open>expected_linked_creation_keccak256\<close>).
\<close>

record deployable =
  dp_order :: int
  dp_id :: string
  dp_profile :: "int option"
  dp_target :: target
  dp_depends :: "string list"
  dp_constructor :: constructor_spec
  dp_libraries :: "library list"
  dp_runtime :: runtime_spec
  dp_initcode_hash :: string
  dp_v2 :: "(string \<times> string) option"

record candidate =
  cd_schema :: string
  cd_id :: string
  cd_kind :: string
  cd_production :: bool
  cd_network :: dict
  cd_binding :: release_binding
  cd_instances :: "deployable list"
  cd_identity :: "(string \<times> string) option"

section \<open>Validation\<close>

definition plan_error :: "string \<Rightarrow> 'a res" where
  "plan_error m = Inl (DeploymentPlanError m)"

definition canonical_path :: "json \<Rightarrow> string \<Rightarrow> string \<Rightarrow> string \<Rightarrow> string res" where
  "canonical_path value path canonical complaint =
     rbind (require_safe_relative_path value path) (\<lambda>s.
     if s \<noteq> canonical then plan_error (path @ complaint) else Inr s)"

definition validate_release_build_binding :: "json \<Rightarrow> release_binding res" where
  "validate_release_build_binding value =
     (let p = ''candidate.release_build'' in
      rbind (require_dict value p) (\<lambda>binding.
      rbind (require_exact_keys binding
        [''receipt_path'', ''receipt_sha256'', ''target_catalog_sha256'', ''config_path'', ''config_sha256'',
         ''foundry_config_path'', ''foundry_config_sha256''] p) (\<lambda>_.
      rbind (canonical_path (dget binding ''receipt_path'') (p @ ''.receipt_path'') CANONICAL_RECEIPT
        ('' must name the canonical '' @ CANONICAL_RECEIPT)) (\<lambda>receipt_path.
      rbind (canonical_path (dget binding ''config_path'') (p @ ''.config_path'') CANONICAL_CONFIG
        ('' must name the canonical '' @ CANONICAL_CONFIG)) (\<lambda>config_path.
      rbind (canonical_path (dget binding ''foundry_config_path'') (p @ ''.foundry_config_path'')
        CANONICAL_FOUNDRY_CONFIG '' must name foundry.toml'') (\<lambda>foundry_config_path.
      rbind (require_sha256 (dget binding ''receipt_sha256'') (p @ ''.receipt_sha256'')) (\<lambda>receipt_sha256.
      rbind (require_sha256 (dget binding ''target_catalog_sha256'') (p @ ''.target_catalog_sha256'')) (\<lambda>catalog_sha256.
      rbind (require_sha256 (dget binding ''config_sha256'') (p @ ''.config_sha256'')) (\<lambda>config_sha256.
      rbind (require_sha256 (dget binding ''foundry_config_sha256'') (p @ ''.foundry_config_sha256'')) (\<lambda>foundry_sha256.
      Inr \<lparr>rb_receipt_path = receipt_path, rb_receipt_sha256 = receipt_sha256,
        rb_catalog_sha256 = catalog_sha256, rb_config_path = config_path, rb_config_sha256 = config_sha256,
        rb_foundry_path = foundry_config_path, rb_foundry_sha256 = foundry_sha256\<rparr>))))))))))"

definition validate_target :: "json \<Rightarrow> string \<Rightarrow> target res" where
  "validate_target value path =
     rbind (require_dict value path) (\<lambda>t.
     rbind (require_exact_keys t [''kind'', ''name'', ''source'', ''artifact_relative_path'', ''artifact_sha256''] path) (\<lambda>_.
     rbind (require_string (dget t ''kind'') (path @ ''.kind'')) (\<lambda>kind.
     if kind \<noteq> ''production_contract'' then plan_error (path @ ''.kind must be production_contract'')
     else
       rbind (require_solidity_name (dget t ''name'') (path @ ''.name'')) (\<lambda>name.
       rbind (require_safe_relative_path (dget t ''source'') (path @ ''.source'')) (\<lambda>source.
       rbind (require_safe_relative_path (dget t ''artifact_relative_path'') (path @ ''.artifact_relative_path''))
         (\<lambda>artifact_path.
       rbind (require_sha256 (dget t ''artifact_sha256'') (path @ ''.artifact_sha256'')) (\<lambda>artifact_sha256.
       Inr \<lparr>tg_kind = kind, tg_name = name, tg_source = source, tg_artifact_path = artifact_path,
         tg_artifact_sha256 = artifact_sha256\<rparr>)))))))"

definition validate_constructor :: "json \<Rightarrow> string \<Rightarrow> constructor_spec res" where
  "validate_constructor value path =
     rbind (require_dict value path) (\<lambda>c.
     rbind (require_exact_keys c [''types'', ''arguments'', ''encoded_args_keccak256''] path) (\<lambda>_.
     rbind (require_list (dget c ''types'') (path @ ''.types'')) (\<lambda>raw_types.
     rbind (each (\<lambda>i item. require_string item (indexed (path @ ''.types'') i)) 0 raw_types) (\<lambda>types.
     rbind (require_list (dget c ''arguments'') (path @ ''.arguments'')) (\<lambda>arguments.
     if length types \<noteq> length arguments
     then plan_error (path @ ''.types and '' @ path @ ''.arguments must have the same length'')
     else
       rbind (require_keccak (dget c ''encoded_args_keccak256'') (path @ ''.encoded_args_keccak256'')) (\<lambda>digest.
       Inr \<lparr>ct_types = types, ct_arguments = arguments, ct_hash = digest\<rparr>))))))"

definition validate_library :: "json \<Rightarrow> string \<Rightarrow> library res" where
  "validate_library value item_path =
     rbind (require_dict value item_path) (\<lambda>l.
     rbind (require_exact_keys l [''source'', ''name'', ''address''] item_path) (\<lambda>_.
     rbind (require_safe_relative_path (dget l ''source'') (item_path @ ''.source'')) (\<lambda>source.
     rbind (require_solidity_name (dget l ''name'') (item_path @ ''.name'')) (\<lambda>name.
     rbind (require_address False (dget l ''address'') (item_path @ ''.address'')) (\<lambda>address.
     Inr \<lparr>lb_source = source, lb_name = name, lb_address = address\<rparr>)))))"

definition library_identity :: "library \<Rightarrow> link_id" where
  "library_identity l = (lb_source l, lb_name l)"

fun validate_libraries_from :: "link_id set \<Rightarrow> nat \<Rightarrow> json list \<Rightarrow> string \<Rightarrow> library list res" where
  "validate_libraries_from seen i [] path = Inr []"
| "validate_libraries_from seen i (item # items) path =
     rbind (validate_library item (indexed path i)) (\<lambda>l.
     let identity = library_identity l in
     if identity \<in> seen then plan_error (path @ '' contains duplicate library binding '' @ link_label identity)
     else
       rbind (validate_libraries_from (insert identity seen) (Suc i) items path) (\<lambda>ls.
       Inr (l # ls)))"

definition validate_libraries :: "json \<Rightarrow> string \<Rightarrow> library list res" where
  "validate_libraries value path =
     rbind (require_list value path) (\<lambda>items. validate_libraries_from {} 0 items path)"

definition validate_runtime :: "json \<Rightarrow> string \<Rightarrow> runtime_spec res" where
  "validate_runtime value path =
     rbind (require_dict value path) (\<lambda>r.
     rbind (require_exact_keys r [''immutable_values'', ''expected_keccak256''] path) (\<lambda>_.
     rbind (require_dict (dget r ''immutable_values'') (path @ ''.immutable_values'')) (\<lambda>vals.
     rbind (each (\<lambda>_ entry. let (immutable_id, encoded) = entry in
         if \<not> UNSIGNED_DECIMAL_RE immutable_id
         then plan_error (path @ ''.immutable_values keys must be canonical decimal AST IDs'')
         else
           rbind (require_hex False encoded (path @ ''.immutable_values.'' @ immutable_id)) (\<lambda>s.
           Inr (immutable_id, s))) 0 (sort_key fst vals)) (\<lambda>immutables.
     rbind (require_keccak (dget r ''expected_keccak256'') (path @ ''.expected_keccak256'')) (\<lambda>digest.
     Inr \<lparr>rt_immutables = immutables, rt_hash = digest\<rparr>)))))"

definition validate_profile :: "json \<Rightarrow> string \<Rightarrow> int option res" where
  "validate_profile value path =
     (if value = JNull then Inr None
      else
        rbind (require_int value path) (\<lambda>i.
        if i < 1 then plan_error (path @ '' must be positive'') else Inr (Some i)))"

definition validate_depends :: "json \<Rightarrow> string \<Rightarrow> string list res" where
  "validate_depends value path =
     rbind (require_list value path) (\<lambda>items.
     rbind (each (\<lambda>i item. require_identifier item (indexed path i)) 0 items) (\<lambda>depends_on.
     if \<not> distinct depends_on then plan_error (path @ '' must not contain duplicates'')
     else Inr depends_on))"

definition validate_instance :: "json \<Rightarrow> nat \<Rightarrow> deployable res" where
  "validate_instance value index =
     (let path = indexed ''candidate.instances'' index in
      rbind (require_dict value path) (\<lambda>item.
      rbind (require_exact_keys item
        [''order'', ''instance_id'', ''profile_entry_id'', ''target'', ''depends_on'', ''constructor'',
         ''libraries'', ''runtime'', ''expected_initcode_keccak256''] path) (\<lambda>_.
      rbind (require_int (dget item ''order'') (path @ ''.order'')) (\<lambda>order.
      if order \<noteq> int (index + 1)
      then plan_error (path @ ''.order must be contiguous and equal '' @ dec (index + 1))
      else
        rbind (validate_profile (dget item ''profile_entry_id'') (path @ ''.profile_entry_id'')) (\<lambda>profile_entry_id.
        rbind (validate_depends (dget item ''depends_on'') (path @ ''.depends_on'')) (\<lambda>depends_on.
        rbind (require_identifier (dget item ''instance_id'') (path @ ''.instance_id'')) (\<lambda>instance_id.
        rbind (validate_target (dget item ''target'') (path @ ''.target'')) (\<lambda>tgt.
        rbind (validate_constructor (dget item ''constructor'') (path @ ''.constructor'')) (\<lambda>ctor.
        rbind (validate_libraries (dget item ''libraries'') (path @ ''.libraries'')) (\<lambda>libraries.
        rbind (validate_runtime (dget item ''runtime'') (path @ ''.runtime'')) (\<lambda>runtime.
        rbind (require_keccak (dget item ''expected_initcode_keccak256'') (path @ ''.expected_initcode_keccak256''))
          (\<lambda>digest.
        Inr \<lparr>dp_order = order, dp_id = instance_id, dp_profile = profile_entry_id, dp_target = tgt,
          dp_depends = depends_on, dp_constructor = ctor, dp_libraries = libraries, dp_runtime = runtime,
          dp_initcode_hash = digest, dp_v2 = None\<rparr>))))))))))))"

text \<open>Every dependency names an instance seen before.\<close>

fun check_dependencies :: "string \<Rightarrow> string set \<Rightarrow> deployable list \<Rightarrow> unit res" where
  "check_dependencies what seen [] = Inr ()"
| "check_dependencies what seen (d # ds) =
     (case find (\<lambda>dependency. dependency \<notin> seen) (dp_depends d) of
        Some dependency \<Rightarrow> plan_error (dp_id d @ '' dependency '' @ dependency @ '' must name an earlier '' @ what)
      | None \<Rightarrow> check_dependencies what (insert (dp_id d) seen) ds)"

definition validate_network :: "json \<Rightarrow> dict res" where
  "validate_network value =
     rbind (require_dict value ''candidate.network'') (\<lambda>network.
     rbind (require_exact_keys network [''environment'', ''chain_id''] ''candidate.network'') (\<lambda>_.
     rbind (require_string (dget network ''environment'') ''candidate.network.environment'') (\<lambda>environment.
     if environment \<notin> set NON_PRODUCTION_ENVIRONMENTS
     then plan_error ''candidate.network.environment must be explicitly non-production''
     else
       rbind (require_int (dget network ''chain_id'') ''candidate.network.chain_id'') (\<lambda>chain_id.
       if chain_id < 1 then plan_error ''candidate.network.chain_id must be positive''
       else Inr [(''environment'', JStr environment), (''chain_id'', JInt chain_id)]))))"

definition validate_instances :: "json \<Rightarrow> deployable list res" where
  "validate_instances value =
     rbind (require_list value ''candidate.instances'') (\<lambda>raw_instances.
     if raw_instances = [] then plan_error ''candidate.instances must not be empty''
     else
       rbind (each (\<lambda>i item. validate_instance item i) 0 raw_instances) (\<lambda>instances.
       if \<not> distinct (map dp_id instances) then plan_error ''candidate instance IDs must be unique''
       else if \<not> distinct (List.map_filter dp_profile instances)
       then plan_error ''candidate non-null profile_entry_id values must be unique''
       else
         rbind (check_dependencies ''candidate instance'' {} instances) (\<lambda>_. Inr instances)))"

definition validate_candidate :: "json \<Rightarrow> candidate res" where
  "validate_candidate value =
     rbind (require_dict value ''candidate'') (\<lambda>c.
     rbind (require_exact_keys c
       [''schema_version'', ''candidate_id'', ''candidate_kind'', ''production_candidate'', ''readiness_evidence'',
        ''network'', ''release_build'', ''instances''] ''candidate'') (\<lambda>_.
     if dget c ''schema_version'' \<noteq> JStr CANDIDATE_SCHEMA
     then plan_error (''candidate.schema_version must be '' @ CANDIDATE_SCHEMA)
     else if dget c ''candidate_kind'' \<noteq> JStr ''non_production_fixture''
     then plan_error ''candidate.candidate_kind must be non_production_fixture in v1''
     else
       rbind (require_bool (dget c ''production_candidate'') ''candidate.production_candidate'') (\<lambda>production.
       if production
       then plan_error ''v1 materializer refuses production candidates until #656 supplies the strict instance-aware candidate model''
       else
         rbind (require_bool (dget c ''readiness_evidence'') ''candidate.readiness_evidence'') (\<lambda>readiness.
         if readiness then plan_error ''v1 materializer output is not release-readiness evidence''
         else
           rbind (validate_network (dget c ''network'')) (\<lambda>network.
           rbind (validate_instances (dget c ''instances'')) (\<lambda>instances.
           rbind (require_identifier (dget c ''candidate_id'') ''candidate.candidate_id'') (\<lambda>candidate_id.
           rbind (validate_release_build_binding (dget c ''release_build'')) (\<lambda>binding.
           Inr \<lparr>cd_schema = CANDIDATE_SCHEMA, cd_id = candidate_id, cd_kind = ''non_production_fixture'',
             cd_production = False, cd_network = network, cd_binding = binding, cd_instances = instances,
             cd_identity = None\<rparr>))))))))"

section \<open>What a validated candidate is\<close>

text \<open>Every dependency of an instance is the name of an earlier one.\<close>

definition earlier_dependencies :: "deployable list \<Rightarrow> bool" where
  "earlier_dependencies ds \<longleftrightarrow>
     (\<forall>i < length ds. \<forall>n \<in> set (dp_depends (ds ! i)). \<exists>j < i. n = dp_id (ds ! j))"

definition deployable_ok :: "deployable \<Rightarrow> bool" where
  "deployable_ok d \<longleftrightarrow>
     IDENTIFIER_RE (dp_id d) \<and> KECCAK_RE (dp_initcode_hash d) \<and>
     KECCAK_RE (rt_hash (dp_runtime d)) \<and> KECCAK_RE (ct_hash (dp_constructor d)) \<and>
     list_all (\<lambda>l. ADDRESS_RE (lb_address l)) (dp_libraries d) \<and>
     distinct (map library_identity (dp_libraries d)) \<and>
     length (ct_types (dp_constructor d)) = length (ct_arguments (dp_constructor d)) \<and>
     tg_kind (dp_target d) = ''production_contract'' \<and> REPO_PATH_RE (tg_artifact_path (dp_target d)) \<and>
     SHA256_RE (tg_artifact_sha256 (dp_target d))"

definition plan_order :: "deployable list \<Rightarrow> bool" where
  "plan_order ds \<longleftrightarrow>
     map dp_order ds = map int [1..<Suc (length ds)] \<and> distinct (map dp_id ds) \<and> earlier_dependencies ds"

lemma check_dependencies_ok:
  assumes "check_dependencies what seen ds = Inr u"
  shows "\<forall>i < length ds. \<forall>n \<in> set (dp_depends (ds ! i)). n \<in> seen \<or> (\<exists>j < i. n = dp_id (ds ! j))"
  using assms
proof (induction ds arbitrary: seen)
  case (Cons d ds)
  then have d: "set (dp_depends d) \<subseteq> seen"
    and ds: "check_dependencies what (insert (dp_id d) seen) ds = Inr u"
    by (auto simp: plan_error_def find_None_iff split: option.splits)
  show ?case
  proof (intro allI impI ballI)
    fix i n assume i: "i < length (d # ds)" and n: "n \<in> set (dp_depends ((d # ds) ! i))"
    show "n \<in> seen \<or> (\<exists>j < i. n = dp_id ((d # ds) ! j))"
    proof (cases i)
      case 0
      then show ?thesis using n d by auto
    next
      case (Suc k)
      then have "n \<in> insert (dp_id d) seen \<or> (\<exists>j < k. n = dp_id (ds ! j))"
        using Cons.IH[OF ds] i n by simp
      then show ?thesis using Suc by (auto intro: exI[of _ 0] exI[of _ "Suc _"])
    qed
  qed
qed simp

lemma check_dependencies_earlier: "check_dependencies what {} ds = Inr u \<Longrightarrow> earlier_dependencies ds"
  using check_dependencies_ok[of what "{}" ds u] by (simp add: earlier_dependencies_def)

lemma plan_error_Inr [simp]: "plan_error m \<noteq> Inr x"
  by (simp add: plan_error_def)

lemma plan_error_eq [res_simps]: "plan_error m = Inr x \<longleftrightarrow> False"
  by simp

lemma validate_libraries_from_ok:
  "validate_libraries_from seen i items path = Inr ls \<Longrightarrow>
     list_all (\<lambda>l. ADDRESS_RE (lb_address l)) ls \<and> distinct (map library_identity ls) \<and>
     library_identity ` set ls \<inter> seen = {}"
proof (induction items arbitrary: seen i ls)
  case (Cons item items)
  then obtain l ls' where l: "validate_library item (indexed path i) = Inr l" "library_identity l \<notin> seen"
    "validate_libraries_from (insert (library_identity l) seen) (Suc i) items path = Inr ls'" "ls = l # ls'"
    by (auto simp: Let_def res_simps split: if_splits)
  have "ADDRESS_RE (lb_address l)" using l(1)
    by (auto simp: validate_library_def res_simps require_address_iff ADDRESS_RE_lower)
  then show ?case using Cons.IH[OF l(3)] l by auto
qed simp

lemma validate_libraries_ok:
  "validate_libraries v path = Inr ls \<Longrightarrow>
     list_all (\<lambda>l. ADDRESS_RE (lb_address l)) ls \<and> distinct (map library_identity ls)"
  by (auto simp: validate_libraries_def res_simps dest: validate_libraries_from_ok)

lemma validate_target_ok:
  "validate_target v path = Inr t \<Longrightarrow>
     tg_kind t = ''production_contract'' \<and> REPO_PATH_RE (tg_artifact_path t) \<and> SHA256_RE (tg_artifact_sha256 t)"
  by (auto simp: validate_target_def res_simps split: if_splits)

lemma validate_constructor_ok:
  "validate_constructor v path = Inr c \<Longrightarrow> length (ct_types c) = length (ct_arguments c) \<and> KECCAK_RE (ct_hash c)"
  by (auto simp: validate_constructor_def res_simps split: if_splits)

lemma validate_runtime_ok: "validate_runtime v path = Inr r \<Longrightarrow> KECCAK_RE (rt_hash r)"
  by (auto simp: validate_runtime_def res_simps)

lemma validate_instance_ok:
  assumes "validate_instance v i = Inr d"
  shows "deployable_ok d \<and> dp_order d = int (i + 1)"
proof -
  let ?path = "indexed ''candidate.instances'' i"
  obtain item where "IDENTIFIER_RE (dp_id d)" "KECCAK_RE (dp_initcode_hash d)" "dp_order d = int (i + 1)"
    and t: "validate_target (dget item ''target'') (?path @ ''.target'') = Inr (dp_target d)"
    and c: "validate_constructor (dget item ''constructor'') (?path @ ''.constructor'') = Inr (dp_constructor d)"
    and l: "validate_libraries (dget item ''libraries'') (?path @ ''.libraries'') = Inr (dp_libraries d)"
    and r: "validate_runtime (dget item ''runtime'') (?path @ ''.runtime'') = Inr (dp_runtime d)"
    using assms by (auto simp: validate_instance_def Let_def res_simps split: if_splits)
  then show ?thesis
    using validate_target_ok[OF t] validate_constructor_ok[OF c] validate_libraries_ok[OF l] validate_runtime_ok[OF r]
    by (simp add: deployable_ok_def)
qed

lemma each_validate_instance_ok:
  assumes "each (\<lambda>i item. validate_instance item i) 0 items = Inr ds"
  shows "list_all deployable_ok ds" and "map dp_order ds = map int [1..<Suc (length ds)]"
proof -
  have d: "deployable_ok (ds ! j) \<and> dp_order (ds ! j) = int (j + 1)" if "j < length ds" for j
    using each_nth[OF assms, of j] that each_length[OF assms] validate_instance_ok by simp
  then show "list_all deployable_ok ds" by (simp add: list_all_length)
  show "map dp_order ds = map int [1..<Suc (length ds)]"
    by (rule nth_equalityI) (use d in \<open>simp_all del: upt_Suc\<close>)
qed

lemma validate_instances_ok:
  assumes "validate_instances v = Inr ds"
  shows "ds \<noteq> [] \<and> plan_order ds \<and> list_all deployable_ok ds"
proof -
  obtain items u where "items \<noteq> []" and e: "each (\<lambda>i item. validate_instance item i) 0 items = Inr ds"
    and "distinct (map dp_id ds)" and "check_dependencies ''candidate instance'' {} ds = Inr u"
    using assms by (auto simp: validate_instances_def res_simps split: if_splits)
  then show ?thesis
    using each_validate_instance_ok[OF e] each_length[OF e]
    by (auto simp: plan_order_def intro: check_dependencies_earlier)
qed

lemma validate_candidate_ok:
  assumes "validate_candidate v = Inr c"
  shows "cd_instances c \<noteq> [] \<and> plan_order (cd_instances c) \<and> list_all deployable_ok (cd_instances c) \<and>
    \<not> cd_production c \<and> cd_schema c = CANDIDATE_SCHEMA \<and> cd_identity c = None \<and>
    (\<exists>environment chain_id. cd_network c = [(''environment'', JStr environment), (''chain_id'', JInt chain_id)] \<and>
       environment \<in> set NON_PRODUCTION_ENVIRONMENTS \<and> 1 \<le> chain_id)"
proof -
  obtain d where i: "validate_instances (dget d ''instances'') = Inr (cd_instances c)"
    and n: "validate_network (dget d ''network'') = Inr (cd_network c)"
    and "\<not> cd_production c" "cd_schema c = CANDIDATE_SCHEMA" "cd_identity c = None"
    using assms by (auto simp: validate_candidate_def res_simps split: if_splits)
  moreover have "\<exists>environment chain_id. cd_network c = [(''environment'', JStr environment), (''chain_id'', JInt chain_id)] \<and>
       environment \<in> set NON_PRODUCTION_ENVIRONMENTS \<and> 1 \<le> chain_id"
    using n by (force simp: validate_network_def res_simps not_less split: if_splits)
  ultimately show ?thesis using validate_instances_ok[OF i] by blast
qed

text \<open>
  C25: A v1 candidate that passes validation is a well-ordered set of deployables: at least one,
  numbered from 1 without gaps, with different names, each depending only on earlier ones,
  each with well-formed digests, distinct library bindings to addresses and as many constructor
  arguments as types; it is no production candidate, and its network is a non-production one.
\<close>

theorem validate_candidate_ordered:
  assumes "validate_candidate v = Inr c"
  shows "cd_instances c \<noteq> [] \<and> plan_order (cd_instances c) \<and> list_all deployable_ok (cd_instances c) \<and>
    \<not> cd_production c \<and> cd_schema c = CANDIDATE_SCHEMA \<and> cd_identity c = None \<and>
    (\<exists>environment chain_id. cd_network c = [(''environment'', JStr environment), (''chain_id'', JInt chain_id)] \<and>
       environment \<in> set NON_PRODUCTION_ENVIRONMENTS \<and> 1 \<le> chain_id)"
  using validate_candidate_ok[OF assms] .

definition demo_digest :: string where
  "demo_digest = ''0x'' @ replicate 64 (CHR ''a'')"

definition demo_sha :: string where
  "demo_sha = ''sha256:'' @ replicate 64 (CHR ''a'')"

definition demo_instance :: "nat \<Rightarrow> string \<Rightarrow> string list \<Rightarrow> json" where
  "demo_instance order name depends = JDict
     [(''order'', JInt (int order)), (''instance_id'', JStr name), (''profile_entry_id'', JNull),
      (''target'', JDict [(''kind'', JStr ''production_contract''), (''name'', JStr ''Core''),
         (''source'', JStr ''src/Core.sol''), (''artifact_relative_path'', JStr ''Core.sol/Core.json''),
         (''artifact_sha256'', JStr demo_sha)]),
      (''depends_on'', JList (map JStr depends)),
      (''constructor'', JDict [(''types'', JList []), (''arguments'', JList []),
         (''encoded_args_keccak256'', JStr demo_digest)]),
      (''libraries'', JList []),
      (''runtime'', JDict [(''immutable_values'', JDict []), (''expected_keccak256'', JStr demo_digest)]),
      (''expected_initcode_keccak256'', JStr demo_digest)]"

definition demo_candidate :: json where
  "demo_candidate = JDict
     [(''schema_version'', JStr CANDIDATE_SCHEMA), (''candidate_id'', JStr ''demo''),
      (''candidate_kind'', JStr ''non_production_fixture''), (''production_candidate'', JBool False),
      (''readiness_evidence'', JBool False),
      (''network'', JDict [(''environment'', JStr ''anvil''), (''chain_id'', JInt 31337)]),
      (''release_build'', JDict
        [(''receipt_path'', JStr CANONICAL_RECEIPT), (''receipt_sha256'', JStr demo_sha),
         (''target_catalog_sha256'', JStr demo_sha), (''config_path'', JStr CANONICAL_CONFIG),
         (''config_sha256'', JStr demo_sha), (''foundry_config_path'', JStr CANONICAL_FOUNDRY_CONFIG),
         (''foundry_config_sha256'', JStr demo_sha)]),
      (''instances'', JList [demo_instance 1 ''core'' [], demo_instance 2 ''minter'' [''core'']])]"

theorem validate_candidate_ordered_witness:
  "\<exists>c. validate_candidate demo_candidate = Inr c \<and> earlier_dependencies (cd_instances c)"
proof -
  have "\<not> isl (validate_candidate demo_candidate)" by code_simp
  then obtain c where c: "validate_candidate demo_candidate = Inr c"
    by (cases "validate_candidate demo_candidate") auto
  then show ?thesis using validate_candidate_ordered[OF c] by (auto simp: plan_order_def)
qed

end
