(* ===== verification/Checker.thy ===== *)
theory Checker
  imports Candidate
begin

text \<open>
  The completeness audit of a v2 candidate, from
  \<open>tools/deployment/check_canonical_deployment_candidate.py\<close>: its canonical bytes (RFC 8785,
  \<open>_jcs_bytes\<close>) and identity, the checks that reject it, and the list of blockers that must
  be empty for it to be complete. What the code reads with subscripts stays JSON here, and a
  missing member is the \<open>KeyError\<close> it is in the code. The NFC normalisation of a string is
  the Unicode database's: \<open>is_nfc\<close> is a parameter.
\<close>

section \<open>Constants\<close>

definition CANDIDATE_SCHEMA_VERSION :: string where
  "CANDIDATE_SCHEMA_VERSION = ''6529stream.canonical-deployment-candidate.v2''"

definition PROFILE_SCHEMA_VERSION :: string where
  "PROFILE_SCHEMA_VERSION = ''6529stream.genesis-deployment-profile.v2''"

definition PROFILE_ENTRY_COUNT :: nat where
  "PROFILE_ENTRY_COUNT = 37"

definition DEFAULT_SCHEMA :: path where
  "DEFAULT_SCHEMA = [''deployments'', ''schema'', ''canonical-deployment-candidate.v2.schema.json'']"

definition DEFAULT_PROFILE :: path where
  "DEFAULT_PROFILE = [''release-artifacts'', ''genesis-deployment-profile.json'']"

definition DEFAULT_SOURCE_LAYOUT :: path where
  "DEFAULT_SOURCE_LAYOUT = [''smart-contracts'', ''source-layout.json'']"

definition DEFAULT_RISK_REGISTER :: path where
  "DEFAULT_RISK_REGISTER = [''release-artifacts'', ''latest'', ''risk-register.json'']"

definition GOVERNANCE_RISK_ID :: string where
  "GOVERNANCE_RISK_ID = ''RISK-GOV-003''"

definition GOVERNANCE_RISK_REQUIRED :: dict where
  "GOVERNANCE_RISK_REQUIRED =
     [(''severity'', JStr ''high''), (''status'', JStr ''open_blocker''), (''risk_acceptance'', JNull)]"

definition FORBIDDEN_RAW_CANDIDATE_KEYS :: "string list" where
  "FORBIDDEN_RAW_CANDIDATE_KEYS =
     [''candidate_sha256'', ''candidate_artifact_sha256'', ''raw_candidate_sha256'']"

definition candidate_error :: "string \<Rightarrow> 'a res" where
  "candidate_error m = Inl (CandidateError m)"

lemma candidate_error_Inr [simp, res_simps]: "candidate_error m = Inr x \<longleftrightarrow> False"
  by (simp add: candidate_error_def)

text \<open>\<open>except DeploymentPlanError as exc: raise CandidateError(str(exc))\<close>.\<close>

definition as_candidate_error :: "exn \<Rightarrow> exn" where
  "as_candidate_error e = (case e of DeploymentPlanError m \<Rightarrow> CandidateError m | _ \<Rightarrow> e)"

section \<open>Reading\<close>

definition load_object :: "env \<Rightarrow> path \<Rightarrow> string \<Rightarrow> (dict \<times> string) io" where
  "load_object E p label =
     io_bind (io_rename as_candidate_error (load_json_with_sha256 E p)) (\<lambda>(v, digest).
     case v of JDict d \<Rightarrow> io_return (d, digest)
     | _ \<Rightarrow> lift (candidate_error (label @ '' root must be an object'')))"

definition resolve_path :: "env \<Rightarrow> path \<Rightarrow> py_path \<Rightarrow> string \<Rightarrow> path io" where
  "resolve_path E root relative label = io_rename as_candidate_error (repo_path E root relative label)"

definition validate_schema :: "env \<Rightarrow> path \<Rightarrow> path \<Rightarrow> dict \<Rightarrow> unit io" where
  "validate_schema E root schema_path candidate =
     io_rename as_candidate_error
       (validate_draft_2020_12_schema E root schema_path (JDict candidate) ''canonical deployment candidate v2'')"

section \<open>Canonical bytes and identity\<close>

definition jcs_escape :: "char \<Rightarrow> string" where
  "jcs_escape c =
     (let n = of_char c :: nat in
      if n = 34 then [CHR 0x5C, CHR 0x22]
      else if n = 92 then [CHR 0x5C, CHR 0x5C]
      else if n = 8 then CHR 0x5C # ''b''
      else if n = 9 then CHR 0x5C # ''t''
      else if n = 10 then CHR 0x5C # ''n''
      else if n = 12 then CHR 0x5C # ''f''
      else if n = 13 then CHR 0x5C # ''r''
      else if n \<le> 31 then CHR 0x5C # ''u'' @ hex4 n
      else [c])"

text \<open>Without surrogates the strict UTF-8 encoding cannot fail.\<close>

definition jcs_quote :: "env \<Rightarrow> string \<Rightarrow> string \<Rightarrow> string res" where
  "jcs_quote E s path =
     (if has_surrogate s then candidate_error (path @ '' contains a lone UTF-16 surrogate'')
      else if \<not> is_nfc E s then candidate_error (path @ '' is not NFC-normalized'')
      else Inr (CHR 0x22 # concat (map jcs_escape s) @ [CHR 0x22]))"

text \<open>\<open>value.encode("utf-16-be")\<close>.\<close>

definition utf16_units :: "nat \<Rightarrow> nat list" where
  "utf16_units n =
     (if n < 65536 then [n] else [55296 + (n - 65536) div 1024, 56320 + (n - 65536) mod 1024])"

definition utf16_be :: "string \<Rightarrow> nat list" where
  "utf16_be s = concat (map (\<lambda>u. [u div 256, u mod 256]) (concat (map utf16_units (utf8_points s))))"

definition utf16_sort_key :: "env \<Rightarrow> string \<Rightarrow> nat list res" where
  "utf16_sort_key E s = rbind (jcs_quote E s ''object member name'') (\<lambda>_. Inr (utf16_be s))"

function jcs_encode :: "env \<Rightarrow> json \<Rightarrow> string \<Rightarrow> string res" where
  "jcs_encode E JNull path = Inr ''null''"
| "jcs_encode E (JBool b) path = Inr (if b then ''true'' else ''false'')"
| "jcs_encode E (JInt i) path =
     (if \<bar>i\<bar> > IJSON_SAFE_INTEGER_MAX
      then candidate_error (path @ '' is outside the I-JSON safe-integer range'') else Inr (dec_int i))"
| "jcs_encode E (JStr s) path = jcs_quote E s path"
| "jcs_encode E (JList vs) path =
     rbind (each (\<lambda>i v. jcs_encode E v (indexed path i)) 0 vs) (\<lambda>items.
     Inr (''['' @ join '','' items @ '']''))"
| "jcs_encode E (JDict d) path =
     rbind (each (\<lambda>_ entry. utf16_sort_key E (fst entry)) 0 d) (\<lambda>_.
     rbind (each (\<lambda>_ entry.
         rbind (jcs_quote E (fst entry) (path @ '' member name'')) (\<lambda>name.
         rbind (jcs_encode E (snd entry) (path @ ''.'' @ fst entry)) (\<lambda>text.
         Inr (name @ '':'' @ text)))) 0 (sort_key (\<lambda>entry. utf16_be (fst entry)) d)) (\<lambda>members.
     Inr (''{'' @ join '','' members @ ''}'')))"
  by pat_completeness auto
termination
proof (relation "measure (\<lambda>(E, v, path). size v)", goal_cases)
  case (2 E vs path i v)
  then show ?case using size_in_list by simp
next
  case (3 E d path u i entry name)
  then have "(fst entry, snd entry) \<in> set d" by simp
  then have "size (snd entry) < size (JDict d)" by (induction d) auto
  then show ?case by simp
qed simp

definition jcs_bytes :: "env \<Rightarrow> json \<Rightarrow> string \<Rightarrow> byte list res" where
  "jcs_bytes E v path = rbind (jcs_encode E v path) (\<lambda>s. Inr (str_bytes s))"

definition candidate_identity :: "env \<Rightarrow> dict \<Rightarrow> (string \<times> string) res" where
  "candidate_identity E candidate =
     (if \<not> dmem ''retained_evidence'' candidate
      then candidate_error ''candidate.retained_evidence is required''
      else
        rbind (jcs_bytes E (JDict (filter (\<lambda>(key, _). key \<noteq> ''retained_evidence'') candidate)) ''candidate identity'')
          (\<lambda>encoded. Inr (sha256_bytes (hash E) encoded, keccak256_hex (hash E) encoded)))"

section \<open>The checks that reject\<close>

definition risk_rows :: "json list \<Rightarrow> dict list" where
  "risk_rows risks = List.map_filter (\<lambda>risk. case risk of
     JDict d \<Rightarrow> if dget d ''id'' = JStr GOVERNANCE_RISK_ID then Some d else None | _ \<Rightarrow> None) risks"

definition check_governance_risk :: "dict \<Rightarrow> unit res" where
  "check_governance_risk register =
     (case dget register ''risks'' of
        JList risks \<Rightarrow>
          (case risk_rows risks of
             [risk] \<Rightarrow>
               (case find (\<lambda>(key, expected). \<not> py_eq (dget risk key) expected) GOVERNANCE_RISK_REQUIRED of
                  None \<Rightarrow> Inr ()
                | Some (key, expected) \<Rightarrow> candidate_error
                    (GOVERNANCE_RISK_ID @ ''.'' @ key @ '' must remain '' @ repr_json expected))
           | _ \<Rightarrow> candidate_error (''risk register must contain exactly one '' @ GOVERNANCE_RISK_ID @ '' row''))
      | _ \<Rightarrow> candidate_error ''risk register risks must be an array'')"

definition validate_governance_risk :: "env \<Rightarrow> path \<Rightarrow> path \<Rightarrow> unit io" where
  "validate_governance_risk E root risk_path =
     io_bind (resolve_path E root (Rel risk_path) ''risk register'') (\<lambda>resolved.
     io_bind (load_object E resolved ''risk register'') (\<lambda>(register, _).
     lift (check_governance_risk register)))"

definition release_build_identity :: "dict \<Rightarrow> dict res" where
  "release_build_identity candidate =
     rbind (dsub candidate ''release_build'') (\<lambda>build.
     rbind (subscript build ''receipt_sha256'') (\<lambda>receipt.
     rbind (subscript build ''target_catalog_sha256'') (\<lambda>catalog.
     rbind (subscript build ''config_sha256'') (\<lambda>config.
     rbind (subscript build ''foundry_config_sha256'') (\<lambda>foundry.
     Inr [(''receipt_sha256'', receipt), (''target_catalog_sha256'', catalog), (''config_sha256'', config),
          (''foundry_config_sha256'', foundry)])))))"

function reject_raw_candidate_digest :: "json \<Rightarrow> string \<Rightarrow> string \<Rightarrow> unit res" where
  "reject_raw_candidate_digest v raw path =
     (case v of
        JStr s \<Rightarrow>
          if contains raw s \<or> contains (removeprefix ''sha256:'' raw) s
          then candidate_error (path @ '' must not contain the raw candidate artifact SHA-256'') else Inr ()
      | JList vs \<Rightarrow>
          rbind (each (\<lambda>i item. reject_raw_candidate_digest item raw (indexed path i)) 0 vs) (\<lambda>_. Inr ())
      | JDict d \<Rightarrow>
          rbind (each (\<lambda>_ entry.
              if fst entry \<in> set FORBIDDEN_RAW_CANDIDATE_KEYS
              then candidate_error (path @ ''.'' @ fst entry @ '' is a forbidden raw-candidate digest field'')
              else reject_raw_candidate_digest (snd entry) raw (path @ ''.'' @ fst entry)) 0 d) (\<lambda>_. Inr ())
      | _ \<Rightarrow> Inr ())"
  by pat_completeness auto
termination
proof (relation "measure (\<lambda>(v, raw, path). size v)", goal_cases)
  case (2 v raw path vs i item)
  then show ?case using size_in_list by simp
next
  case (3 v raw path d i entry)
  then have "(fst entry, snd entry) \<in> set d" by simp
  then have "size (snd entry) < size (JDict d)" by (induction d) auto
  then show ?case using 3 by simp
qed simp

declare reject_raw_candidate_digest.simps [simp del]

section \<open>Retained evidence\<close>

text \<open>The values of the fields, if all are strings; the first that is not ends the search.\<close>

fun string_fields :: "json \<Rightarrow> string list \<Rightarrow> string list option res" where
  "string_fields v [] = Inr (Some [])"
| "string_fields v (k # ks) =
     rbind (subscript v k) (\<lambda>w. case w of
         JStr s \<Rightarrow> rbind (string_fields v ks) (\<lambda>r. Inr (map_option ((#) s) r))
       | _ \<Rightarrow> Inr None)"

definition check_evidence ::
  "env \<Rightarrow> dict \<Rightarrow> json \<Rightarrow> dict \<Rightarrow> string \<Rightarrow> string \<Rightarrow> string \<Rightarrow> string \<Rightarrow> unit res" where
  "check_evidence E candidate binding evidence evidence_sha256 identity_sha256 identity_keccak256 raw_sha256 =
     rbind (subscript binding ''sha256'') (\<lambda>bound_sha256.
     if \<not> py_eq bound_sha256 (JStr evidence_sha256)
     then candidate_error ''candidate.retained_evidence SHA-256 does not match retained bytes''
     else
       rbind (subscript binding ''schema_version'') (\<lambda>schema_version.
       if \<not> py_eq (dget evidence ''schema_version'') schema_version
       then candidate_error ''candidate.retained_evidence schema_version does not match envelope''
       else
         rbind (reject_raw_candidate_digest (JDict evidence) raw_sha256 ''retained_evidence'') (\<lambda>_.
         rbind (dsub candidate ''candidate_id'') (\<lambda>candidate_id.
         rbind (dsub candidate ''source_commit'') (\<lambda>source_commit.
         rbind (release_build_identity candidate) (\<lambda>build.
         if \<not> py_eq (dget evidence ''candidate_identity'') (JDict
              [(''candidate_id'', candidate_id), (''candidate_identity_sha256'', JStr identity_sha256),
               (''candidate_identity_keccak256'', JStr identity_keccak256), (''source_commit'', source_commit),
               (''release_build'', JDict build)])
         then candidate_error ''retained evidence candidate_identity does not match candidate''
         else Inr ()))))))"

definition validate_retained_evidence ::
  "env \<Rightarrow> path \<Rightarrow> dict \<Rightarrow> string \<Rightarrow> string \<Rightarrow> string \<Rightarrow> unit io" where
  "validate_retained_evidence E root candidate identity_sha256 identity_keccak256 raw_sha256 =
     io_bind (lift (dsub candidate ''retained_evidence'')) (\<lambda>binding.
     io_bind (lift (subscript binding ''status'')) (\<lambda>status.
     if status \<noteq> JStr ''bound'' then io_return ()
     else
       io_bind (lift (string_fields binding [''schema_version'', ''path'', ''sha256''])) (\<lambda>fields.
       case fields of
         Some [_, location, _] \<Rightarrow>
           io_bind (resolve_path E root (parse_path location) ''canonical retained evidence'') (\<lambda>evidence_path.
           io_bind (observe E (\<lambda>fs. Inr (path_is_file fs evidence_path))) (\<lambda>present.
           io_then (require present
             (CandidateError (''canonical retained evidence does not exist: '' @ location)))
           (io_bind (load_object E evidence_path ''canonical retained evidence'') (\<lambda>(evidence, evidence_sha256).
            lift (check_evidence E candidate binding evidence evidence_sha256 identity_sha256 identity_keccak256
              raw_sha256)))))
       | _ \<Rightarrow> lift (candidate_error ''bound retained_evidence requires schema_version, path, and sha256''))))"

section \<open>Blockers\<close>

text \<open>What a check adds to the list, and checks one after the other.\<close>

definition noted :: "bool \<Rightarrow> string \<Rightarrow> string list" where
  "noted b m = (if b then [m] else [])"

fun collect :: "string list res list \<Rightarrow> string list res" where
  "collect [] = Inr []"
| "collect (m # ms) = rbind m (\<lambda>xs. rbind (collect ms) (\<lambda>ys. Inr (xs @ ys)))"

text \<open>\<open>if v[path] != w: blockers.append(m)\<close>, and the text of a field.\<close>

definition differs :: "json \<Rightarrow> string list \<Rightarrow> json \<Rightarrow> string \<Rightarrow> string list res" where
  "differs v path w m = rbind (sub_path v path) (\<lambda>u. Inr (noted (\<not> py_eq u w) m))"

definition fields_differ :: "json \<Rightarrow> string list \<Rightarrow> json \<Rightarrow> string list \<Rightarrow> string \<Rightarrow> string list res" where
  "fields_differ v path w path' m = rbind (sub_path v path) (\<lambda>u. rbind (sub_path w path') (\<lambda>u'. Inr (noted (\<not> py_eq u u') m)))"

definition sets_differ :: "json \<Rightarrow> string \<Rightarrow> json \<Rightarrow> string \<Rightarrow> string \<Rightarrow> string list res" where
  "sets_differ entry expected_key item actual_key m =
     rbind (rbind (subscript entry expected_key) (\<lambda>v. rbind (py_iter v) py_set)) (\<lambda>expected.
     rbind (rbind (subscript item actual_key) (\<lambda>v. rbind (py_iter v) py_set)) (\<lambda>actual.
     Inr (noted (\<not> set_eq actual expected) m)))"

text \<open>\<open>len(vs) != len(set(vs))\<close>.\<close>

definition has_duplicates :: "json list \<Rightarrow> bool res" where
  "has_duplicates vs = rbind (py_set vs) (\<lambda>s. Inr (length vs \<noteq> length s))"

definition profile_label :: "json \<Rightarrow> string res" where
  "profile_label entry =
     rbind (subscript entry ''id'') (\<lambda>i. rbind (subscript entry ''key'') (\<lambda>key.
     Inr (''profile entry '' @ str_json i @ '' ('' @ str_json key @ '')'')))"

definition match_blockers :: "json \<Rightarrow> json \<Rightarrow> string \<Rightarrow> string list res" where
  "match_blockers item entry label =
     rbind (sub_path entry [''implementation'', ''mode'']) (\<lambda>mode.
     rbind (sub_path entry [''implementation'', ''names'']) (\<lambda>allowed_names.
     rbind (subscript entry ''approved_aliases'') (\<lambda>approved_aliases.
     rbind (subscript item ''implementation_match'') (\<lambda>found.
     rbind (sub_path item [''target'', ''name'']) (\<lambda>name.
     if found = JStr ''approved_alias'' then
       rbind (py_in name approved_aliases) (\<lambda>known.
       Inr (noted (\<not> known) (label @ '' uses an unapproved implementation alias'')))
     else
       rbind (if truthy allowed_names then py_in name allowed_names else Inr True) (\<lambda>known.
       Inr (noted (\<not> py_eq found mode)
              (label @ '' implementation_match must be '' @ repr_json mode @ '', got '' @ repr_json found) @
            noted (\<not> known) (label @ '' target '' @ repr_json name @ '' is not an approved implementation''))))))))"

definition implementation_blockers :: "json \<Rightarrow> json \<Rightarrow> string list res" where
  "implementation_blockers item entry =
     rbind (profile_label entry) (\<lambda>label. collect
       [fields_differ item [''profile_entry_key''] entry [''key''] (label @ '' profile_entry_key mismatch''),
        fields_differ item [''deployment_scope''] entry [''deployment_scope''] (label @ '' deployment_scope mismatch''),
        match_blockers item entry label,
        sets_differ entry ''required_interfaces'' item ''verified_interfaces''
          (label @ '' verified interface set mismatch''),
        sets_differ entry ''required_markers'' item ''verified_markers''
          (label @ '' verified marker set mismatch'')])"

text \<open>\<open>[item[key] for item in items]\<close>.\<close>

definition column :: "string \<Rightarrow> json list \<Rightarrow> json list res" where
  "column key items = each (\<lambda>_ item. subscript item key) 0 items"

text \<open>\<open>{item[key] for item in items}\<close>.\<close>

fun set_column :: "string \<Rightarrow> json list \<Rightarrow> json list \<Rightarrow> json list res" where
  "set_column key acc [] = Inr acc"
| "set_column key acc (item # items) =
     rbind (subscript item key) (\<lambda>v. rbind (add_member acc v) (\<lambda>acc'. set_column key acc' items))"

definition duplicates :: "string \<Rightarrow> json list \<Rightarrow> string \<Rightarrow> string list res" where
  "duplicates key items m =
     rbind (column key items) (\<lambda>vs. rbind (has_duplicates vs) (\<lambda>b. Inr (noted b m)))"

definition order_blockers :: "json \<Rightarrow> nat \<Rightarrow> string \<Rightarrow> string list res" where
  "order_blockers item index what =
     differs item [''order''] (JInt (int index + 1)) (indexed what index @ ''.order must equal '' @ dec (index + 1))"

definition on_chain_blockers :: "json \<Rightarrow> string \<Rightarrow> bool \<Rightarrow> string list res" where
  "on_chain_blockers item label verify_source =
     rbind (sub_path item [''on_chain'', ''status'']) (\<lambda>status.
     if status \<noteq> JStr ''observed'' then Inr [label @ '' lacks on-chain evidence'']
     else collect
       ([fields_differ item [''on_chain'', ''initcode_keccak256''] item [''expected_initcode_keccak256'']
           (label @ '' initcode hash mismatch''),
         fields_differ item [''on_chain'', ''runtime_code_keccak256''] item [''runtime'', ''expected_keccak256'']
           (label @ '' runtime hash mismatch'')] @
        (if verify_source then [differs item [''on_chain'', ''source_verification_status''] (JStr ''verified'')
           (label @ '' is not source verified'')] else [])))"

definition review_blockers :: "json \<Rightarrow> string \<Rightarrow> string list res" where
  "review_blockers item label = differs item [''review_status''] (JStr ''reviewed'') (label @ '' is not reviewed'')"

definition cardinality_blockers :: "json \<Rightarrow> string \<Rightarrow> string list res" where
  "cardinality_blockers item label =
     rbind (rbind (sub_path item [''constructor'', ''types'']) py_len) (\<lambda>n.
     rbind (rbind (sub_path item [''constructor'', ''arguments'']) py_len) (\<lambda>m.
     Inr (noted (n \<noteq> m) (label @ '' constructor type/argument cardinality mismatch''))))"

text \<open>The body of the loop over the instances, without the grouping by profile entry.\<close>

definition instance_checks :: "nat \<Rightarrow> json \<Rightarrow> string list res" where
  "instance_checks index item =
     rbind (subscript item ''instance_id'') (\<lambda>instance_id.
     let label = ''candidate instance '' @ str_json instance_id in collect
       [order_blockers item index ''candidate.instances'',
        rbind (subscript item ''profile_entry_id'') (\<lambda>k. rbind (hashable k) (\<lambda>_. Inr [])),
        cardinality_blockers item label,
        on_chain_blockers item label True,
        review_blockers item label])"

text \<open>\<open>by_profile_id.setdefault(profile_id, []).append(instance)\<close>, for every instance.\<close>

fun group_by :: "string \<Rightarrow> (json \<times> json list) list \<Rightarrow> json list \<Rightarrow> (json \<times> json list) list res" where
  "group_by key g [] = Inr g"
| "group_by key g (item # items) =
     rbind (subscript item key) (\<lambda>k.
     rbind (key_get g k) (\<lambda>old.
     group_by key (key_put g k ((case old of None \<Rightarrow> [] | Some vs \<Rightarrow> vs) @ [item])) items))"

definition entry_blockers :: "(json \<times> json list) list \<Rightarrow> json \<Rightarrow> string list res" where
  "entry_blockers by_profile_id entry =
     rbind (subscript entry ''id'') (\<lambda>i.
     rbind (key_get by_profile_id i) (\<lambda>matches.
     case matches of
       Some [item] \<Rightarrow> implementation_blockers item entry
     | Some (_ # _ # _) \<Rightarrow> Inr [''duplicate profile entry id '' @ str_json i]
     | _ \<Rightarrow> rbind (profile_label entry) (\<lambda>label. Inr [label @ '' is missing a concrete candidate instance''])))"

definition single_groups :: "(json \<times> json list) list \<Rightarrow> (json \<times> json) list" where
  "single_groups g = List.map_filter (\<lambda>(k, vs). case vs of [v] \<Rightarrow> Some (k, v) | _ \<Rightarrow> None) g"

definition alias_blockers :: "(json \<times> json) list \<Rightarrow> json \<Rightarrow> string list res" where
  "alias_blockers one_by_profile_id entry =
     rbind (subscript entry ''id'') (\<lambda>i.
     rbind (key_get one_by_profile_id i) (\<lambda>found.
     case found of None \<Rightarrow> Inr []
     | Some item \<Rightarrow>
         rbind (rbind (subscript entry ''distinct_from'') py_iter) (\<lambda>others.
         collect (map (\<lambda>other_id.
           rbind (key_get one_by_profile_id other_id) (\<lambda>other.
           case other of None \<Rightarrow> Inr []
           | Some other_item \<Rightarrow>
               rbind (profile_label entry) (\<lambda>label.
               rbind (subscript item ''address'') (\<lambda>address.
               rbind (subscript other_item ''address'') (\<lambda>other_address.
               Inr (noted (py_eq address other_address)
                 (label @ '' aliases distinct profile entry '' @ str_json other_id))))))) others))))"

text \<open>Dependencies must name an earlier deployable.\<close>

definition one_dependency_blocker :: "json list \<Rightarrow> string \<Rightarrow> json \<Rightarrow> string list res" where
  "one_dependency_blocker seen label dependency =
     rbind (hashable dependency) (\<lambda>_.
     Inr (noted (\<not> py_member dependency seen)
       (label @ '' dependency '' @ str_json dependency @ '' is missing or not earlier'')))"

definition dependency_step :: "string \<Rightarrow> string \<Rightarrow> json list \<Rightarrow> json \<Rightarrow> (string list \<times> json) res" where
  "dependency_step key what seen item =
     rbind (subscript item key) (\<lambda>name.
     rbind (rbind (subscript item ''depends_on'') py_iter) (\<lambda>dependencies.
     rbind (collect (map (one_dependency_blocker seen (what @ str_json name)) dependencies)) (\<lambda>found.
     Inr (found, name))))"

fun dependency_blockers :: "string \<Rightarrow> string \<Rightarrow> json list \<Rightarrow> json list \<Rightarrow> string list res" where
  "dependency_blockers key what seen [] = Inr []"
| "dependency_blockers key what seen (item # items) =
     rbind (dependency_step key what seen item) (\<lambda>(found, name).
     rbind (dependency_blockers key what (name # seen) items) (\<lambda>rest. Inr (found @ rest)))"

definition instance_blockers :: "dict \<Rightarrow> dict \<Rightarrow> string list res" where
  "instance_blockers candidate profile =
     rbind (rbind (dsub candidate ''instances'') py_iter) (\<lambda>items.
     rbind (collect [duplicates ''instance_id'' items ''candidate instance IDs are duplicated'',
        duplicates ''address'' items ''candidate instance addresses are duplicated'']) (\<lambda>b1.
     rbind (each instance_checks 0 items) (\<lambda>b2.
     rbind (group_by ''profile_entry_id'' [] items) (\<lambda>by_profile_id.
     rbind (rbind (dsub profile ''entries'') py_iter) (\<lambda>entries.
     rbind (set_column ''id'' [] entries) (\<lambda>profile_ids.
     rbind (sort_values (filter (\<lambda>k. \<not> py_member k profile_ids) (map fst by_profile_id))) (\<lambda>extra.
     rbind (collect (map (entry_blockers by_profile_id) entries)) (\<lambda>b4.
     rbind (collect (map (alias_blockers (single_groups by_profile_id)) entries)) (\<lambda>b5.
     rbind (dependency_blockers ''instance_id'' ''candidate instance '' [] items) (\<lambda>b6.
     Inr (b1 @ concat b2 @ map (\<lambda>k. ''candidate has extra profile entry id '' @ str_json k) extra @ b4 @ b5 @ b6)))))))))))"

section \<open>Blockers of the libraries and of the bindings\<close>

fun library_checks :: "json list \<Rightarrow> nat \<Rightarrow> json list \<Rightarrow> string list res" where
  "library_checks seen index [] = Inr []"
| "library_checks seen index (item # items) =
     rbind (order_blockers item index ''linked_libraries'') (\<lambda>b1.
     rbind (dependency_step ''library_id'' ''linked library '' seen item) (\<lambda>(b2, name).
     let label = ''linked library '' @ str_json name in
     rbind (collect [on_chain_blockers item label False, review_blockers item label]) (\<lambda>b3.
     rbind (library_checks (name # seen) (Suc index) items) (\<lambda>rest. Inr (b1 @ b2 @ b3 @ rest)))))"

definition expected_reference :: "json \<Rightarrow> json res" where
  "expected_reference linked =
     rbind (subscript linked ''library_id'') (\<lambda>library_id.
     rbind (sub_path linked [''target'', ''source'']) (\<lambda>source.
     rbind (sub_path linked [''target'', ''name'']) (\<lambda>name.
     rbind (subscript linked ''address'') (\<lambda>address.
     Inr (JDict [(''library_id'', library_id), (''source'', source), (''name'', name), (''address'', address)])))))"

text \<open>What one reference to a library adds to the blockers, and to the set of used libraries.\<close>

definition reference_step ::
  "(json \<times> json) list \<Rightarrow> string \<Rightarrow> json \<Rightarrow> (string list \<times> json list) res" where
  "reference_step inventory consumer_id reference =
     rbind (subscript reference ''library_id'') (\<lambda>library_id.
     rbind (key_get inventory library_id) (\<lambda>found.
     case found of
       None \<Rightarrow> Inr ([consumer_id @ '' references missing linked library '' @ str_json library_id], [])
     | Some linked \<Rightarrow>
         rbind (expected_reference linked) (\<lambda>expected.
         Inr (noted (\<not> py_eq reference expected)
                (consumer_id @ '' linked-library reference '' @ str_json library_id @
                 '' does not match the closed inventory''), [library_id]))))"

definition consumer_id_of :: "dict \<Rightarrow> string" where
  "consumer_id_of d =
     str_json (if dmem ''instance_id'' d then dget d ''instance_id'' else dget d ''library_id'')"

text \<open>Subscripts have already shown that a consumer is an object.\<close>

definition consumer_steps ::
  "(json \<times> json) list \<Rightarrow> json \<Rightarrow> (string list \<times> json list) list res" where
  "consumer_steps inventory consumer =
     (case consumer of
        JDict d \<Rightarrow>
          rbind (rbind (dsub d ''linked_libraries'') py_iter) (\<lambda>references.
          each (\<lambda>_. reference_step inventory (consumer_id_of d)) 0 references)
      | _ \<Rightarrow> Inl (TypeError (py_repr (type_name consumer) @ '' object has no attribute get'')))"

definition unreferenced_blockers :: "(json \<times> json) list \<Rightarrow> json list \<Rightarrow> string list res" where
  "unreferenced_blockers inventory used =
     (let unreferenced = filter (\<lambda>k. \<not> py_member k used) (map fst inventory) in
      if unreferenced = [] then Inr []
      else
        rbind (rbind (sort_values unreferenced) (join_values '', '')) (\<lambda>names.
        Inr [''linked-library inventory contains unreferenced entries: '' @ names]))"

definition library_blockers :: "dict \<Rightarrow> string list res" where
  "library_blockers candidate =
     rbind (rbind (dsub candidate ''linked_libraries'') py_iter) (\<lambda>libraries.
     rbind (collect [duplicates ''library_id'' libraries ''linked-library IDs are duplicated'',
        duplicates ''address'' libraries ''linked-library addresses are duplicated'']) (\<lambda>b1.
     rbind (index_by ''library_id'' [] libraries) (\<lambda>inventory.
     rbind (library_checks [] 0 libraries) (\<lambda>b2.
     rbind (rbind (dsub candidate ''instances'') py_iter) (\<lambda>items.
     rbind (each (\<lambda>_. consumer_steps inventory) 0 (libraries @ items)) (\<lambda>steps.
     rbind (unreferenced_blockers inventory (concat (map snd (concat steps)))) (\<lambda>b4.
     Inr (b1 @ b2 @ concat (map fst (concat steps)) @ b4))))))))"

definition deployable_address_blockers :: "dict \<Rightarrow> string list res" where
  "deployable_address_blockers candidate =
     rbind (rbind (rbind (dsub candidate ''instances'') py_iter) (set_column ''address'' [])) (\<lambda>instance_addresses.
     rbind (rbind (rbind (dsub candidate ''linked_libraries'') py_iter) (set_column ''address'' [])) (\<lambda>library_addresses.
     rbind (sort_values (filter (\<lambda>a. py_member a library_addresses) instance_addresses)) (\<lambda>collisions.
     if collisions = [] then Inr []
     else
       rbind (join_values '', '' collisions) (\<lambda>names.
       Inr [''linked-library and candidate-instance addresses collide: '' @ names]))))"

definition target_blockers :: "(json \<times> json) list \<Rightarrow> json \<Rightarrow> string \<Rightarrow> string list res" where
  "target_blockers table binding m =
     rbind (subscript binding ''target_id'') (\<lambda>target_id.
     rbind (key_get table target_id) (\<lambda>found.
     case found of
       None \<Rightarrow> Inr [m]
     | Some item \<Rightarrow> fields_differ item [''address''] binding [''address''] m))"

fun binding_steps ::
  "(json \<times> json) list \<Rightarrow> (json \<times> json) list \<Rightarrow> string \<Rightarrow> (json \<times> json) list \<Rightarrow> json list \<Rightarrow> string list res" where
  "binding_steps instances libraries label seen [] = Inr []"
| "binding_steps instances libraries label seen (binding # bindings) =
     rbind (subscript binding ''kind'') (\<lambda>kind.
     rbind (subscript binding ''name'') (\<lambda>name.
     rbind (hashable kind) (\<lambda>_. rbind (hashable name) (\<lambda>_.
     rbind (subscript binding ''target_kind'') (\<lambda>target_kind.
     rbind (if target_kind = JStr ''candidate_instance''
            then target_blockers instances binding
              (label @ '' binding '' @ str_json name @ '' does not match its candidate target'')
            else if target_kind = JStr ''linked_library''
            then target_blockers libraries binding
              (label @ '' binding '' @ str_json name @ '' does not match its library target'')
            else Inr []) (\<lambda>b.
     rbind (binding_steps instances libraries label ((kind, name) # seen) bindings) (\<lambda>rest.
     Inr (noted (list_ex (\<lambda>(k, n). py_eq k kind \<and> py_eq n name) seen)
            (label @ '' has duplicate binding '' @ str_json kind @ '':'' @ str_json name) @ b @ rest))))))))"

definition instance_binding_blockers ::
  "(json \<times> json) list \<Rightarrow> (json \<times> json) list \<Rightarrow> json \<Rightarrow> string list res" where
  "instance_binding_blockers instances libraries item =
     rbind (rbind (subscript item ''authority_dependency_bindings'') py_iter) (\<lambda>bindings.
     rbind (subscript item ''instance_id'') (\<lambda>instance_id.
     binding_steps instances libraries (''candidate instance '' @ str_json instance_id) [] bindings))"

definition binding_blockers :: "dict \<Rightarrow> string list res" where
  "binding_blockers candidate =
     rbind (rbind (dsub candidate ''instances'') py_iter) (\<lambda>items.
     rbind (index_by ''instance_id'' [] items) (\<lambda>instances.
     rbind (rbind (rbind (dsub candidate ''linked_libraries'') py_iter) (index_by ''library_id'' [])) (\<lambda>libraries.
     collect (map (instance_binding_blockers instances libraries) items))))"

section \<open>Blockers of the candidate itself\<close>

text \<open>\<open>any(v[key] is None for key in keys)\<close>.\<close>

fun any_null :: "json \<Rightarrow> string list \<Rightarrow> bool res" where
  "any_null v [] = Inr False"
| "any_null v (k # ks) = rbind (subscript v k) (\<lambda>w. if w = JNull then Inr True else any_null v ks)"

definition unbound :: "dict \<Rightarrow> string \<Rightarrow> string \<Rightarrow> string list \<Rightarrow> string \<Rightarrow> string list res" where
  "unbound candidate key status keys m =
     rbind (dsub candidate key) (\<lambda>binding.
     rbind (subscript binding ''status'') (\<lambda>s.
     rbind (if s \<noteq> JStr status then Inr True else any_null binding keys) (\<lambda>b. Inr (noted b m))))"

definition top_level_blockers :: "dict \<Rightarrow> string list res" where
  "top_level_blockers candidate = collect
     [rbind (dsub candidate ''status'') (\<lambda>v. Inr (noted (v \<noteq> JStr ''complete'') ''candidate status is planning'')),
      rbind (dsub candidate ''production_candidate'') (\<lambda>v.
        Inr (noted (v \<noteq> JBool True) ''candidate is not frozen as a production candidate'')),
      rbind (dsub candidate ''source_commit'') (\<lambda>v.
        Inr (noted (v = JNull) ''candidate source commit is not frozen'')),
      unbound candidate ''source_layout'' ''complete'' [''manifest_path'', ''manifest_sha256'']
        ''source layout remains pending issue #716'',
      unbound candidate ''genesis_profile'' ''complete'' [''sha256''] ''genesis profile identity is not frozen'',
      unbound candidate ''governed_parameter_inventory'' ''complete'' [''identity_sha256'']
        ''governed_parameter_inventory identity remains a serialized dependency'',
      unbound candidate ''record_family_authorization'' ''complete'' [''identity_sha256'']
        ''record_family_authorization identity remains a serialized dependency'',
      unbound candidate ''release_build'' ''complete''
        [''receipt_sha256'', ''target_catalog_sha256'', ''config_sha256'', ''foundry_config_sha256'']
        ''canonical release build identity is not complete'',
      unbound candidate ''retained_evidence'' ''bound'' [''schema_version'', ''path'', ''sha256'']
        ''canonical retained evidence is not bound'']"

section \<open>The audit\<close>

record candidate_audit =
  au_candidate_id :: json
  au_identity_sha256 :: string
  au_identity_keccak256 :: string
  au_raw_sha256 :: string
  au_profile_entries :: nat
  au_instances :: nat
  au_libraries :: nat
  au_blockers :: "string list"

definition profile_entries :: "dict \<Rightarrow> json list res" where
  "profile_entries profile =
     (if dget profile ''schema_version'' \<noteq> JStr PROFILE_SCHEMA_VERSION
      then candidate_error (''genesis profile schema_version must be '' @ PROFILE_SCHEMA_VERSION)
      else
        (case dget profile ''entries'' of
           JList entries \<Rightarrow>
             if length entries \<noteq> PROFILE_ENTRY_COUNT
             then candidate_error (''genesis profile must contain exactly '' @ dec PROFILE_ENTRY_COUNT @ '' entries'')
             else Inr entries
         | _ \<Rightarrow> candidate_error (''genesis profile must contain exactly '' @ dec PROFILE_ENTRY_COUNT @ '' entries'')))"

definition check_source_layout :: "env \<Rightarrow> path \<Rightarrow> dict \<Rightarrow> unit io" where
  "check_source_layout E root candidate =
     io_bind (lift (dsub candidate ''source_layout'')) (\<lambda>binding.
     io_bind (lift (subscript binding ''manifest_path'')) (\<lambda>manifest_path.
     if manifest_path = JNull then io_return ()
     else if manifest_path \<noteq> JStr (as_posix DEFAULT_SOURCE_LAYOUT)
     then lift (candidate_error ''candidate source-layout path is noncanonical'')
     else
       io_bind (resolve_path E root (Rel DEFAULT_SOURCE_LAYOUT) ''source-layout manifest'') (\<lambda>p.
       io_bind (load_object E p ''source-layout manifest'') (\<lambda>(_, digest).
       io_bind (lift (subscript binding ''manifest_sha256'')) (\<lambda>bound.
       require (bound = JStr digest) (CandidateError ''candidate source-layout SHA-256 mismatch''))))))"

definition check_profile_binding :: "dict \<Rightarrow> dict \<Rightarrow> path \<Rightarrow> string \<Rightarrow> json list \<Rightarrow> unit res" where
  "check_profile_binding candidate profile profile_path profile_sha256 entries =
     rbind (dsub candidate ''genesis_profile'') (\<lambda>binding.
     rbind (subscript binding ''path'') (\<lambda>p.
     if p \<noteq> JStr (as_posix profile_path) then candidate_error ''candidate genesis-profile path is noncanonical''
     else
       rbind (subscript binding ''sha256'') (\<lambda>digest.
       if digest \<noteq> JNull \<and> digest \<noteq> JStr profile_sha256
       then candidate_error ''candidate genesis-profile SHA-256 mismatch''
       else
         rbind (subscript binding ''entry_count'') (\<lambda>n.
         if \<not> py_eq n (JInt (int (length entries)))
         then candidate_error ''candidate genesis-profile entry count mismatch''
         else
           rbind (dsub candidate ''factory_spawned_exclusions'') (\<lambda>exclusions.
           rbind (dsub profile ''factory_spawned_exclusions'') (\<lambda>profile_exclusions.
           if \<not> py_eq exclusions profile_exclusions
           then candidate_error ''candidate factory-spawned exclusions must exactly match the profile''
           else
             rbind (dsub candidate ''out_of_inventory'') (\<lambda>out.
             rbind (dsub profile ''out_of_inventory'') (\<lambda>profile_out.
             if \<not> py_eq out profile_out
             then candidate_error ''candidate out-of-inventory rows must exactly match the profile''
             else Inr ()))))))))"

definition all_blockers :: "dict \<Rightarrow> dict \<Rightarrow> string list res" where
  "all_blockers candidate profile = collect
     [top_level_blockers candidate, instance_blockers candidate profile, library_blockers candidate,
      deployable_address_blockers candidate, binding_blockers candidate]"

definition make_audit ::
  "dict \<Rightarrow> string \<times> string \<Rightarrow> string \<Rightarrow> json list \<Rightarrow> string list \<Rightarrow> candidate_audit res" where
  "make_audit candidate identity raw_sha256 entries blockers =
     rbind (dsub candidate ''candidate_id'') (\<lambda>candidate_id.
     rbind (rbind (dsub candidate ''instances'') py_len) (\<lambda>instances.
     rbind (rbind (dsub candidate ''linked_libraries'') py_len) (\<lambda>libraries.
     Inr \<lparr>au_candidate_id = candidate_id, au_identity_sha256 = fst identity,
       au_identity_keccak256 = snd identity, au_raw_sha256 = raw_sha256,
       au_profile_entries = length entries, au_instances = instances, au_libraries = libraries,
       au_blockers = blockers\<rparr>)))"

definition audit_candidate ::
  "env \<Rightarrow> path \<Rightarrow> py_path \<Rightarrow> path \<Rightarrow> path \<Rightarrow> path \<Rightarrow> candidate_audit io" where
  "audit_candidate E root candidate_path schema_path profile_path risk_path =
     io_then (validate_governance_risk E root risk_path)
     (io_bind (resolve_path E root candidate_path ''candidate'') (\<lambda>resolved.
      io_bind (load_object E resolved ''canonical deployment candidate v2'') (\<lambda>(candidate, raw_sha256).
      io_then (validate_schema E root schema_path candidate)
      (io_bind (lift (dsub candidate ''schema_version'')) (\<lambda>version.
       io_then (require (version = JStr CANDIDATE_SCHEMA_VERSION)
         (CandidateError (''candidate schema_version must be '' @ CANDIDATE_SCHEMA_VERSION)))
       (io_bind (resolve_path E root (Rel profile_path) ''genesis profile'') (\<lambda>resolved_profile.
        io_bind (load_object E resolved_profile ''genesis profile'') (\<lambda>(profile, profile_sha256).
        io_bind (lift (profile_entries profile)) (\<lambda>entries.
        io_then (check_source_layout E root candidate)
        (io_then (lift (check_profile_binding candidate profile profile_path profile_sha256 entries))
        (io_bind (lift (candidate_identity E candidate)) (\<lambda>identity.
         io_then (validate_retained_evidence E root candidate (fst identity) (snd identity) raw_sha256)
         (io_bind (lift (all_blockers candidate profile)) (\<lambda>blockers.
          lift (make_audit candidate identity raw_sha256 entries blockers)))))))))))))))"

definition require_complete_candidate :: "env \<Rightarrow> path \<Rightarrow> py_path \<Rightarrow> candidate_audit io" where
  "require_complete_candidate E root candidate_path =
     io_bind (audit_candidate E root candidate_path DEFAULT_SCHEMA DEFAULT_PROFILE DEFAULT_RISK_REGISTER) (\<lambda>audit.
     io_then (require (au_blockers audit = [])
       (CandidateError (''canonical deployment candidate v2 is incomplete:'' @ [CHR 0x0A] @ ''- '' @
          join ([CHR 0x0A] @ ''- '') (au_blockers audit))))
     (io_return audit))"

section \<open>Canonical bytes\<close>

text \<open>
  C36: The identity of a candidate does not depend on the evidence that is later bound to it:
  replacing \<open>retained_evidence\<close> leaves both digests as they are, so that the evidence can name
  the identity without a cycle.
\<close>

theorem candidate_identity_ignores_evidence:
  "candidate_identity E (dset candidate ''retained_evidence'' v) =
     candidate_identity E (dset candidate ''retained_evidence'' w)"
proof -
  have f: "filter (\<lambda>(key, _). key \<noteq> k) (dset candidate k x) = filter (\<lambda>(key, _). key \<noteq> k) candidate" for k x
    unfolding dset_def by (induction candidate) auto
  show ?thesis by (simp only: candidate_identity_def f dmem_dset)
qed

lemma sort_key_cong_order:
  assumes "\<And>x y. x \<in> set xs \<Longrightarrow> y \<in> set xs \<Longrightarrow> f x \<le> f y \<longleftrightarrow> g x \<le> g y"
  shows "sort_key f xs = sort_key g xs"
proof -
  have i: "(\<And>y. y \<in> set ys \<Longrightarrow> f x \<le> f y \<longleftrightarrow> g x \<le> g y) \<Longrightarrow> insort_key f x ys = insort_key g x ys" for x ys
    by (induction ys) auto
  have "set zs \<subseteq> set xs \<Longrightarrow> sort_key f zs = sort_key g zs" for zs
  proof (induction zs)
    case (Cons z zs)
    then have "sort_key f zs = sort_key g zs" "insort_key f z (sort_key g zs) = insort_key g z (sort_key g zs)"
      using assms by (auto intro!: i)
    then show ?case by simp
  qed simp
  then show ?thesis by blast
qed

definition ascii_text :: "string \<Rightarrow> bool" where
  "ascii_text s \<longleftrightarrow> list_all (\<lambda>c. (of_char c :: nat) < 127) s"

fun ascii_json :: "json \<Rightarrow> bool" where
  "ascii_json (JInt i) = (\<bar>i\<bar> \<le> IJSON_SAFE_INTEGER_MAX)"
| "ascii_json (JStr s) = ascii_text s"
| "ascii_json (JList vs) = list_all ascii_json vs"
| "ascii_json (JDict d) = list_all (\<lambda>(k, v). ascii_text k \<and> ascii_json v) d"
| "ascii_json _ = True"

lemma ascii_points: "ascii_text s \<Longrightarrow> utf8_points s = map of_char s"
  by (induction s) (auto simp: ascii_text_def)

lemma ascii_utf16: "ascii_text s \<Longrightarrow> utf16_be s = concat (map (\<lambda>c. [0, of_char c]) s)"
  by (induction s) (auto simp: ascii_text_def utf16_be_def ascii_points utf16_units_def)

lemma char_le_iff: "(c :: char) \<le> d \<longleftrightarrow> (of_char c :: nat) \<le> of_char d"
  by (simp add: less_eq_char_def)

lemma char_less_iff: "(c :: char) < d \<longleftrightarrow> (of_char c :: nat) < of_char d"
  by (simp add: less_char_def)

lemma utf16_order: "ascii_text s \<Longrightarrow> ascii_text t \<Longrightarrow> utf16_be s \<le> utf16_be t \<longleftrightarrow> s \<le> t"
proof (induction s arbitrary: t)
  case (Cons c s)
  then show ?case
    by (cases t) (auto simp: ascii_utf16 ascii_text_def char_less_iff)
qed (simp add: ascii_utf16)

lemma ascii_no_surrogate: "ascii_text s \<Longrightarrow> \<not> has_surrogate s"
  by (induction s rule: has_surrogate.induct) (auto simp: ascii_text_def)

lemma jcs_escape_ascii: "(of_char c :: nat) < 127 \<Longrightarrow> jcs_escape c = ascii_escape (of_char c)"
  by (auto simp: jcs_escape_def ascii_escape_def short_escape_def unicode_escape_def Let_def)

lemma jcs_quote_ascii:
  assumes "ascii_text s" "is_nfc E s" shows "jcs_quote E s path = Inr (quote_ascii s)"
proof -
  have "map jcs_escape s = map ascii_escape (utf8_points s)"
    using assms(1) by (simp add: ascii_points jcs_escape_ascii ascii_text_def list_all_iff)
  then show ?thesis using assms by (simp add: jcs_quote_def quote_ascii_def ascii_no_surrogate)
qed

lemma each_all_Inr:
  assumes "\<And>i x. x \<in> set xs \<Longrightarrow> f i x = Inr (g x)" shows "each f k xs = Inr (map g xs)"
  using assms by (induction xs arbitrary: k) auto

lemma sort_key_map_second:
  "sort_key fst (map (\<lambda>p. (fst p, h (snd p))) d) = map (\<lambda>p. (fst p, h (snd p))) (sort_key fst d)"
proof (induction d)
  case (Cons p d)
  have "insort_key fst (fst p, h (snd p)) (map (\<lambda>p. (fst p, h (snd p))) e) =
      map (\<lambda>p. (fst p, h (snd p))) (insort_key fst p e)" for e
    by (induction e) auto
  then show ?case using Cons by simp
qed simp

text \<open>
  C37: On the documents the pipeline itself writes (ASCII text, safe integers) the two canonical
  encoders agree: the RFC 8785 bytes of the checker are the bytes of the materializer's
  \<open>canonical_json_bytes\<close>. (Beyond ASCII they differ: one escapes, the other does not.)
\<close>

theorem jcs_bytes_canonical:
  assumes "ascii_json v" and "\<forall>s. ascii_text s \<longrightarrow> is_nfc E s"
  shows "jcs_bytes E v path = Inr (canonical_json_bytes v)"
proof -
  have "ascii_json v \<Longrightarrow> jcs_encode E v path = Inr (dumps_compact (sort_members v))"
  proof (induction v arbitrary: path)
    case (JList vs)
    then have "each (\<lambda>i v. jcs_encode E v (indexed path i)) 0 vs = Inr (map (\<lambda>v. dumps_compact (sort_members v)) vs)"
      by (intro each_all_Inr) (auto simp: list_all_iff)
    then show ?case by (simp add: comp_def)
  next
    case (JDict d)
    have a: "ascii_text (fst e)" "ascii_json (snd e)" if "e \<in> set d" for e
      using that JDict.prems by (auto simp: list_all_iff)
    have k: "each (\<lambda>_ entry. utf16_sort_key E (fst entry)) 0 d = Inr (map (\<lambda>e. utf16_be (fst e)) d)"
      using a(1) assms(2) by (intro each_all_Inr) (simp add: utf16_sort_key_def jcs_quote_ascii)
    have s: "sort_key (\<lambda>entry. utf16_be (fst entry)) d = sort_key fst d"
      using a(1) by (intro sort_key_cong_order) (simp add: utf16_order)
    have "each (\<lambda>_ entry.
         rbind (jcs_quote E (fst entry) (path @ '' member name'')) (\<lambda>name.
         rbind (jcs_encode E (snd entry) (path @ ''.'' @ fst entry)) (\<lambda>text.
         Inr (name @ '':'' @ text)))) 0 (sort_key fst d) =
       Inr (map (\<lambda>e. quote_ascii (fst e) @ '':'' @ dumps_compact (sort_members (snd e))) (sort_key fst d))"
    proof (intro each_all_Inr)
      fix i :: nat and e assume "e \<in> set (sort_key fst d)"
      then have e: "e \<in> set d" by simp
      have "jcs_encode E (snd e) p = Inr (dumps_compact (sort_members (snd e)))" for p
        using JDict.IH[of e "snd e"] e a(2)[OF e] by (simp add: snds.intros prod_set_simps)
      then show "rbind (jcs_quote E (fst e) (path @ '' member name'')) (\<lambda>name.
         rbind (jcs_encode E (snd e) (path @ ''.'' @ fst e)) (\<lambda>text.
         Inr (name @ '':'' @ text))) = Inr (quote_ascii (fst e) @ '':'' @ dumps_compact (sort_members (snd e)))"
        using a(1)[OF e] assms(2) by (simp add: jcs_quote_ascii)
    qed
    then show ?case
      using k s sort_key_map_second[of sort_members d] by (simp add: comp_def case_prod_unfold)
  qed (auto simp: jcs_quote_ascii assms(2))
  then show ?thesis using assms(1) by (simp add: jcs_bytes_def canonical_json_bytes_def)
qed

theorem jcs_bytes_canonical_witness:
  "jcs_bytes quiet_env (JDict [(''b'', JInt 1), (''a'', JStr ''x'')]) ''$'' =
     Inr (canonical_json_bytes (JDict [(''b'', JInt 1), (''a'', JStr ''x'')]))"
  by (rule jcs_bytes_canonical) (simp_all add: ascii_text_def quiet_env_def IJSON_SAFE_INTEGER_MAX_def)

section \<open>What an empty list of blockers means\<close>

text \<open>A hashable value, up to Python's equality.\<close>

definition norm_value :: "json \<Rightarrow> json" where
  "norm_value v = (case v of JBool b \<Rightarrow> JInt (if b then 1 else 0) | _ \<Rightarrow> v)"

lemma hashable_eq: "hashable v = Inr u \<Longrightarrow> py_eq v w \<longleftrightarrow> norm_value v = norm_value w"
  by (cases v; cases w) (auto simp: hashable_def norm_value_def)

lemma hashable_refl: "hashable v = Inr u \<Longrightarrow> py_eq v v"
  by (simp add: hashable_eq)

lemma noted_Nil [simp]: "noted b m = [] \<longleftrightarrow> \<not> b"
  by (simp add: noted_def)

lemma collect_Nil: "collect ms = Inr [] \<longleftrightarrow> (\<forall>m \<in> set ms. m = Inr [])"
  by (induction ms) (auto simp: res_simps)

lemma py_set_from_length: "py_set_from acc vs = Inr s \<Longrightarrow> length s \<le> length acc + length vs"
proof (induction vs arbitrary: acc)
  case (Cons v vs)
  then obtain acc' where "add_member acc v = Inr acc'" "py_set_from acc' vs = Inr s" by (auto simp: res_simps)
  with Cons.IH[of acc'] show ?case by (auto simp: add_member_def res_simps split: if_splits)
qed simp

lemma py_set_from_distinct:
  "py_set_from acc vs = Inr s \<Longrightarrow> length s = length acc + length vs \<Longrightarrow>
     distinct vs \<and> (\<forall>v \<in> set vs. \<not> py_member v acc)"
proof (induction vs arbitrary: acc)
  case (Cons v vs)
  then obtain acc' u where a: "hashable v = Inr u" "acc' = (if py_member v acc then acc else acc @ [v])"
    and s: "py_set_from acc' vs = Inr s" by (auto simp: res_simps add_member_def)
  have n: "\<not> py_member v acc"
    using py_set_from_length[OF s] a(2) Cons.prems(2) by auto
  then have i: "distinct vs \<and> (\<forall>w \<in> set vs. \<not> py_member w (acc @ [v]))"
    using Cons.IH[OF s] a(2) Cons.prems(2) by simp
  then have "v \<notin> set vs" using hashable_refl[OF a(1)] by (auto simp: py_member_def)
  then show ?case using i n by (auto simp: py_member_def)
qed simp

lemma duplicates_Nil: "duplicates key items m = Inr [] \<Longrightarrow> \<exists>vs. column key items = Inr vs \<and> distinct vs"
  using py_set_from_distinct[of "[]"] by (auto simp: duplicates_def has_duplicates_def py_set_def res_simps)

lemma set_column_member:
  "set_column key acc items = Inr s \<Longrightarrow> set acc \<subseteq> set s \<and>
     (\<forall>item \<in> set items. \<exists>v w. subscript item key = Inr v \<and> hashable v = Inr () \<and> w \<in> set s \<and>
        norm_value w = norm_value v)"
proof (induction items arbitrary: acc)
  case (Cons item items)
  then obtain v acc' where v: "subscript item key = Inr v" "hashable v = Inr ()"
    "acc' = (if py_member v acc then acc else acc @ [v])" "set_column key acc' items = Inr s"
    by (auto simp: res_simps add_member_def)
  note IH = Cons.IH[OF v(4)]
  have "\<exists>w \<in> set acc'. norm_value w = norm_value v"
    using v(2,3) by (auto simp: py_member_def list_ex_iff hashable_eq)
  then obtain w where w: "w \<in> set s" "norm_value w = norm_value v" using IH by blast
  then have "\<exists>v w. subscript item key = Inr v \<and> hashable v = Inr () \<and> w \<in> set s \<and> norm_value w = norm_value v"
    using v(1,2) by blast
  moreover have "set acc \<subseteq> set acc'" using v(3) by auto
  ultimately show ?case using IH by simp blast
qed simp

lemma sort_values_Nil: "sort_values vs = Inr [] \<Longrightarrow> vs = []"
  by (auto simp: sort_values_def split: if_splits dest: arg_cong[where f = length])

lemma rbindE: "rbind m f = Inr y \<Longrightarrow> (\<And>x. m = Inr x \<Longrightarrow> f x = Inr y \<Longrightarrow> thesis) \<Longrightarrow> thesis"
  by (cases m) auto

lemma norm_hashable: "norm_value v = norm_value w \<Longrightarrow> hashable v = Inr u \<Longrightarrow> hashable w = Inr u"
  by (cases v; cases w) (auto simp: norm_value_def hashable_def)

lemma dsub_dget: "dsub d k = Inr v \<Longrightarrow> dget d k = v"
  by (simp add: dsub_eq_Inr)

lemma deployable_address_Inr:
  assumes "deployable_address_blockers candidate = Inr []"
    and "py_iter (dget candidate ''instances'') = Inr items" "py_iter (dget candidate ''linked_libraries'') = Inr libs"
  shows "\<exists>A B. set_column ''address'' [] items = Inr A \<and> set_column ''address'' [] libs = Inr B \<and>
    sort_values (filter (\<lambda>a. py_member a B) A) = Inr []"
  using assms(1) unfolding deployable_address_blockers_def
proof (elim rbindE)
  fix A B collisions items' libs' v w
  assume "dsub candidate ''instances'' = Inr v" "py_iter v = Inr items'" "set_column ''address'' [] items' = Inr A"
    and "dsub candidate ''linked_libraries'' = Inr w" "py_iter w = Inr libs'" "set_column ''address'' [] libs' = Inr B"
    and s: "sort_values (filter (\<lambda>a. py_member a B) A) = Inr collisions"
    and c: "(if collisions = [] then Inr [] else rbind (join_values '', '' collisions) (\<lambda>names.
       Inr [''linked-library and candidate-instance addresses collide: '' @ names])) = Inr []"
  then have "set_column ''address'' [] items = Inr A" "set_column ''address'' [] libs = Inr B"
    using assms(2,3) by (simp_all add: dsub_dget)
  moreover have "collisions = []" using c by (auto split: if_splits elim: rbindE)
  ultimately show ?thesis using s by blast
qed

lemma no_collision:
  assumes "deployable_address_blockers candidate = Inr []"
    and "py_iter (dget candidate ''instances'') = Inr items" "py_iter (dget candidate ''linked_libraries'') = Inr libs"
    and "i \<in> set items" "l \<in> set libs"
  shows "subscript i ''address'' \<noteq> subscript l ''address''"
proof
  assume eq: "subscript i ''address'' = subscript l ''address''"
  obtain A B where A: "set_column ''address'' [] items = Inr A" and B: "set_column ''address'' [] libs = Inr B"
    and s: "sort_values (filter (\<lambda>a. py_member a B) A) = Inr []"
    using deployable_address_Inr[OF assms(1-3)] by blast
  obtain v a where a: "subscript i ''address'' = Inr v" "hashable v = Inr ()" "a \<in> set A" "norm_value a = norm_value v"
    using set_column_member[OF A] assms(4) by blast
  obtain w b where b: "subscript l ''address'' = Inr w" "b \<in> set B" "norm_value b = norm_value w"
    using set_column_member[OF B] assms(5) by blast
  have "w = v" using eq a(1) b(1) by simp
  then have "norm_value a = norm_value b" using a(4) b(3) by simp
  moreover have "hashable a = Inr ()" using norm_hashable[OF a(4)[symmetric] a(2)] .
  ultimately have "py_eq a b" by (simp add: hashable_eq)
  then have "py_member a B" using b(2) by (auto simp: py_member_def list_ex_iff)
  then show False using sort_values_Nil[OF s] a(3) by (auto simp: filter_empty_conv)
qed

lemma dependency_blockers_Nil:
  assumes "dependency_blockers key what seen items = Inr []" and "i < length items"
  shows "\<exists>ds. rbind (subscript (items ! i) ''depends_on'') py_iter = Inr ds \<and>
    (\<forall>d \<in> set ds. py_member d seen \<or> (\<exists>j < i. \<exists>n. subscript (items ! j) key = Inr n \<and> py_eq d n))"
  using assms
proof (induction items arbitrary: seen i)
  case (Cons item items)
  then obtain name ds where n: "subscript item key = Inr name"
    and ds: "rbind (subscript item ''depends_on'') py_iter = Inr ds"
    and c: "collect (map (one_dependency_blocker seen (what @ str_json name)) ds) = Inr []"
    and r: "dependency_blockers key what (name # seen) items = Inr []"
    by (auto simp: dependency_step_def res_simps)
  show ?case
  proof (cases i)
    case 0
    have "py_member d seen" if "d \<in> set ds" for d
      using c that by (auto simp: collect_Nil one_dependency_blocker_def res_simps)
    then show ?thesis using 0 ds by auto
  next
    case (Suc k)
    then have "k < length items" using Cons.prems(2) by simp
    from Cons.IH[OF r this] obtain es where es: "rbind (subscript (items ! k) ''depends_on'') py_iter = Inr es"
      and m: "\<And>d. d \<in> set es \<Longrightarrow> py_member d (name # seen) \<or> (\<exists>j < k. \<exists>n. subscript (items ! j) key = Inr n \<and> py_eq d n)"
      by blast
    have "py_member d seen \<or> (\<exists>j < i. \<exists>n. subscript ((item # items) ! j) key = Inr n \<and> py_eq d n)" if "d \<in> set es" for d
      using m[OF that] n Suc by (auto simp: py_member_def intro: exI[of _ 0] exI[of _ "Suc _"])
    then show ?thesis using es Suc by auto
  qed
qed simp

definition group_of :: "(json \<times> json list) list \<Rightarrow> json \<Rightarrow> json list" where
  "group_of g k = (case find (\<lambda>entry. norm_value (fst entry) = norm_value k) g of None \<Rightarrow> [] | Some (_, vs) \<Rightarrow> vs)"

definition matching :: "string \<Rightarrow> json \<Rightarrow> json list \<Rightarrow> json list" where
  "matching key k items = filter (\<lambda>item. \<exists>v. subscript item key = Inr v \<and> norm_value v = norm_value k) items"

definition hashable_keys :: "(json \<times> 'a) list \<Rightarrow> bool" where
  "hashable_keys g \<longleftrightarrow> (\<forall>(k, v) \<in> set g. hashable k = Inr ())"

lemma find_py_eq:
  "hashable_keys g \<Longrightarrow> find (\<lambda>entry. py_eq (fst entry) k) g = find (\<lambda>entry. norm_value (fst entry) = norm_value k) g"
  by (rule find_cong) (auto simp: hashable_keys_def hashable_eq)

lemma key_put_hashable: "hashable_keys g \<Longrightarrow> hashable k = Inr () \<Longrightarrow> hashable_keys (key_put g k v)"
  by (induction g k v rule: key_put.induct) (auto simp: hashable_keys_def)

lemma group_of_put:
  "hashable_keys g \<Longrightarrow> group_of (key_put g k vs) j = (if norm_value k = norm_value j then vs else group_of g j)"
  by (induction g k vs rule: key_put.induct) (auto simp: hashable_keys_def group_of_def hashable_eq)

lemma group_by_matching:
  "group_by key g items = Inr g' \<Longrightarrow> hashable_keys g \<Longrightarrow>
     hashable_keys g' \<and> group_of g' k = group_of g k @ matching key k items"
proof (induction items arbitrary: g)
  case (Cons item items)
  obtain v old where v: "subscript item key = Inr v" "key_get g v = Inr old"
    and r: "group_by key (key_put g v ((case old of None \<Rightarrow> [] | Some vs \<Rightarrow> vs) @ [item])) items = Inr g'"
    by (insert Cons.prems(1)[unfolded group_by.simps], elim rbindE) (rule that, assumption+)
  have h: "hashable v = Inr ()" using v(2) by (auto simp: key_get_def elim: rbindE)
  have o: "(case old of None \<Rightarrow> [] | Some vs \<Rightarrow> vs) = group_of g v"
    using v(2) h Cons.prems(2) by (auto simp: key_get_def find_py_eq group_of_def split: option.splits)
  from Cons.IH[OF r key_put_hashable[OF Cons.prems(2) h]] o
  have i: "hashable_keys g'" "group_of g' k = group_of (key_put g v (group_of g v @ [item])) k @ matching key k items"
    by simp_all
  have "group_of (key_put g v (group_of g v @ [item])) k @ matching key k items =
      group_of g k @ matching key k (item # items)"
  proof (cases "norm_value v = norm_value k")
    case True
    then have "group_of g v = group_of g k" by (simp add: group_of_def)
    then show ?thesis using True v(1) by (simp add: group_of_put[OF Cons.prems(2)] matching_def)
  next
    case False
    then show ?thesis using v(1) by (simp add: group_of_put[OF Cons.prems(2)] matching_def)
  qed
  with i show ?case by simp
qed (simp add: matching_def)

lemma entry_blockers_Nil:
  assumes "group_by key [] items = Inr g" "entry_blockers g entry = Inr []"
  shows "\<exists>k item. subscript entry ''id'' = Inr k \<and> matching key k items = [item]"
proof -
  obtain k found where k: "subscript entry ''id'' = Inr k" "key_get g k = Inr found"
    and c: "(case found of Some [item] \<Rightarrow> implementation_blockers item entry
     | Some (_ # _ # _) \<Rightarrow> Inr [''duplicate profile entry id '' @ str_json k]
     | _ \<Rightarrow> rbind (profile_label entry) (\<lambda>label. Inr [label @ '' is missing a concrete candidate instance''])) = Inr []"
    by (insert assms(2)[unfolded entry_blockers_def], elim rbindE) (rule that, assumption+)
  obtain item where f: "found = Some [item]"
    using c by (auto split: option.splits list.splits elim: rbindE)
  have "hashable_keys g" and m: "group_of g k = matching key k items"
    using group_by_matching[OF assms(1), of k] by (simp_all add: hashable_keys_def group_of_def)
  then have "group_of g k = [item]"
    using k(2) f by (auto simp: key_get_def find_py_eq group_of_def elim!: rbindE split: option.splits)
  then show ?thesis using k(1) m by auto
qed

text \<open>What the audit promises of the instances and libraries of a candidate without blockers.\<close>

definition complete_deployables :: "dict \<Rightarrow> dict \<Rightarrow> json list \<Rightarrow> json list \<Rightarrow> json list \<Rightarrow> bool" where
  "complete_deployables candidate profile items libs entries \<longleftrightarrow>
     py_iter (dget candidate ''instances'') = Inr items \<and>
     py_iter (dget candidate ''linked_libraries'') = Inr libs \<and>
     py_iter (dget profile ''entries'') = Inr entries \<and>
     (\<exists>ids. column ''instance_id'' items = Inr ids \<and> distinct ids) \<and>
     (\<exists>addresses. column ''address'' items = Inr addresses \<and> distinct addresses) \<and>
     (\<exists>ids. column ''library_id'' libs = Inr ids \<and> distinct ids) \<and>
     (\<exists>addresses. column ''address'' libs = Inr addresses \<and> distinct addresses) \<and>
     (\<forall>i \<in> set items. \<forall>l \<in> set libs. subscript i ''address'' \<noteq> subscript l ''address'') \<and>
     (\<forall>i < length items. \<exists>ds. rbind (subscript (items ! i) ''depends_on'') py_iter = Inr ds \<and>
        (\<forall>d \<in> set ds. \<exists>j < i. \<exists>n. subscript (items ! j) ''instance_id'' = Inr n \<and> py_eq d n)) \<and>
     (\<forall>entry \<in> set entries. \<exists>k item. subscript entry ''id'' = Inr k \<and> matching ''profile_entry_id'' k items = [item])"

lemma instance_blockers_Nil:
  assumes "instance_blockers candidate profile = Inr []"
  shows "\<exists>items entries g. py_iter (dget candidate ''instances'') = Inr items \<and>
    py_iter (dget profile ''entries'') = Inr entries \<and>
    duplicates ''instance_id'' items ''candidate instance IDs are duplicated'' = Inr [] \<and>
    duplicates ''address'' items ''candidate instance addresses are duplicated'' = Inr [] \<and>
    group_by ''profile_entry_id'' [] items = Inr g \<and>
    (\<forall>entry \<in> set entries. entry_blockers g entry = Inr []) \<and>
    dependency_blockers ''instance_id'' ''candidate instance '' [] items = Inr []"
  using assms unfolding instance_blockers_def
  by (elim rbindE) (auto simp: dsub_dget collect_Nil simp del: collect.simps)

lemma library_blockers_Nil:
  assumes "library_blockers candidate = Inr []"
  shows "\<exists>libs. py_iter (dget candidate ''linked_libraries'') = Inr libs \<and>
    duplicates ''library_id'' libs ''linked-library IDs are duplicated'' = Inr [] \<and>
    duplicates ''address'' libs ''linked-library addresses are duplicated'' = Inr []"
  using assms unfolding library_blockers_def
  by (elim rbindE) (auto simp: dsub_dget collect_Nil simp del: collect.simps)

text \<open>
  C9: A v2 candidate without blockers is complete and unambiguous: its names and its addresses
  are pairwise different, also across libraries and instances, every dependency is met by an
  earlier instance, and every entry of the genesis profile is implemented by exactly one
  instance.
\<close>

theorem all_blockers_complete:
  assumes "all_blockers candidate profile = Inr []"
  shows "(\<exists>items libs entries. complete_deployables candidate profile items libs entries) \<and>
    dget candidate ''status'' = JStr ''complete'' \<and> dget candidate ''production_candidate'' = JBool True"
proof -
  have b: "top_level_blockers candidate = Inr []" "instance_blockers candidate profile = Inr []"
    "library_blockers candidate = Inr []" "deployable_address_blockers candidate = Inr []"
    using assms unfolding all_blockers_def collect_Nil by simp_all
  obtain items entries g where i: "py_iter (dget candidate ''instances'') = Inr items"
    "py_iter (dget profile ''entries'') = Inr entries"
    "duplicates ''instance_id'' items ''candidate instance IDs are duplicated'' = Inr []"
    "duplicates ''address'' items ''candidate instance addresses are duplicated'' = Inr []"
    "group_by ''profile_entry_id'' [] items = Inr g" "\<forall>entry \<in> set entries. entry_blockers g entry = Inr []"
    "dependency_blockers ''instance_id'' ''candidate instance '' [] items = Inr []"
    using instance_blockers_Nil[OF b(2)] by blast
  obtain libs where l: "py_iter (dget candidate ''linked_libraries'') = Inr libs"
    "duplicates ''library_id'' libs ''linked-library IDs are duplicated'' = Inr []"
    "duplicates ''address'' libs ''linked-library addresses are duplicated'' = Inr []"
    using library_blockers_Nil[OF b(3)] by blast
  have "\<exists>ds. rbind (subscript (items ! j) ''depends_on'') py_iter = Inr ds \<and>
      (\<forall>d \<in> set ds. \<exists>k < j. \<exists>n. subscript (items ! k) ''instance_id'' = Inr n \<and> py_eq d n)" if "j < length items" for j
    using dependency_blockers_Nil[OF i(7) that] by (simp add: py_member_def)
  then have "complete_deployables candidate profile items libs entries"
    unfolding complete_deployables_def
    using i(1,2) l(1) duplicates_Nil[OF i(3)] duplicates_Nil[OF i(4)] duplicates_Nil[OF l(2)] duplicates_Nil[OF l(3)]
      no_collision[OF b(4) i(1) l(1)] entry_blockers_Nil[OF i(5)] i(6) by blast
  moreover have "dget candidate ''status'' = JStr ''complete''" "dget candidate ''production_candidate'' = JBool True"
    using b(1) unfolding top_level_blockers_def collect_Nil by (auto simp: dsub_dget elim!: rbindE)
  ultimately show ?thesis by blast
qed

definition complete_instance :: json where
  "complete_instance = JDict
     [(''order'', JInt 1), (''instance_id'', JStr ''core''), (''profile_entry_id'', JInt 1),
      (''profile_entry_key'', JStr ''core''), (''deployment_scope'', JStr ''genesis''),
      (''implementation_match'', JStr ''named''), (''address'', JStr ''0x01''),
      (''target'', JDict [(''name'', JStr ''Core''), (''source'', JStr ''src/Core.sol'')]),
      (''verified_interfaces'', JList [JStr ''ICore'']), (''verified_markers'', JList []),
      (''constructor'', JDict [(''types'', JList []), (''arguments'', JList [])]),
      (''depends_on'', JList []), (''linked_libraries'', JList []),
      (''authority_dependency_bindings'', JList []),
      (''expected_initcode_keccak256'', JStr ''0x02''),
      (''runtime'', JDict [(''expected_keccak256'', JStr ''0x03'')]),
      (''on_chain'', JDict [(''status'', JStr ''observed''), (''initcode_keccak256'', JStr ''0x02''),
         (''runtime_code_keccak256'', JStr ''0x03''), (''source_verification_status'', JStr ''verified'')]),
      (''review_status'', JStr ''reviewed'')]"

definition complete_candidate :: dict where
  "complete_candidate =
     [(''status'', JStr ''complete''), (''production_candidate'', JBool True), (''source_commit'', JStr ''c''),
      (''source_layout'', JDict [(''status'', JStr ''complete''), (''manifest_path'', JStr ''m''), (''manifest_sha256'', JStr ''d'')]),
      (''genesis_profile'', JDict [(''status'', JStr ''complete''), (''sha256'', JStr ''d'')]),
      (''governed_parameter_inventory'', JDict [(''status'', JStr ''complete''), (''identity_sha256'', JStr ''d'')]),
      (''record_family_authorization'', JDict [(''status'', JStr ''complete''), (''identity_sha256'', JStr ''d'')]),
      (''release_build'', JDict [(''status'', JStr ''complete''), (''receipt_sha256'', JStr ''d''),
         (''target_catalog_sha256'', JStr ''d''), (''config_sha256'', JStr ''d''), (''foundry_config_sha256'', JStr ''d'')]),
      (''retained_evidence'', JDict [(''status'', JStr ''bound''), (''schema_version'', JStr ''v''), (''path'', JStr ''p''),
         (''sha256'', JStr ''d'')]),
      (''instances'', JList [complete_instance]), (''linked_libraries'', JList [])]"

definition complete_profile :: dict where
  "complete_profile = [(''entries'', JList [JDict
     [(''id'', JInt 1), (''key'', JStr ''core''), (''deployment_scope'', JStr ''genesis''),
      (''implementation'', JDict [(''mode'', JStr ''named''), (''names'', JList [JStr ''Core''])]),
      (''approved_aliases'', JList []), (''required_interfaces'', JList [JStr ''ICore'']),
      (''required_markers'', JList []), (''distinct_from'', JList [])]])]"

theorem all_blockers_complete_witness:
  "\<exists>items libs entries. complete_deployables complete_candidate complete_profile items libs entries"
proof -
  have "all_blockers complete_candidate complete_profile = Inr []" by code_simp
  from all_blockers_complete[OF this] show ?thesis by blast
qed

end
