(* ===== verification/Executor.thy ===== *)
theory Executor
  imports Authority
begin

text \<open>
  \<open>execute_plan\<close>, in the phases of the code: the snapshot of the sources, the network and
  plan checks, the session and its lock, the simulation and preflight, the deployments one
  after the other, the final sweep, the receipt and its publication, with the exception
  handler and the \<open>finally\<close> block around them. The local variables that live across phases are
  the records \<open>source\<close>, \<open>access\<close>, \<open>deployments\<close>, \<open>session\<close> and \<open>prepared\<close>; the two that the
  exception handler reads, \<open>journal\<close> and \<open>broadcast_attempted\<close>, are in the world.
\<close>

section \<open>Requests and constants\<close>

text \<open>The arguments of \<open>execute_plan\<close>, the repository root resolved.\<close>

record request =
  rq_root :: path
  rq_candidate :: py_path
  rq_plan :: py_path
  rq_output :: "py_path option"
  rq_rpc_url :: string
  rq_sender :: string
  rq_signer_cli :: "string list"
  rq_mode :: string
  rq_authorized :: bool
  rq_ephemeral :: bool
  rq_confirmations :: int

definition EXECUTION_SCHEMA :: string where
  "EXECUTION_SCHEMA = ''6529stream.canonical-deployment-execution.v1''"

definition JOURNAL_SCHEMA :: string where
  "JOURNAL_SCHEMA = ''6529stream.canonical-deployment-execution-journal.v1''"

definition GENERATED_BY :: string where
  "GENERATED_BY = ''tools/deployment/execute_canonical_deployment_plan.py:2''"

definition DEFAULT_SCRIPT :: path where
  "DEFAULT_SCRIPT = [''deployment-script'', ''DeployCanonicalInitcode.s.sol'']"

definition DEFAULT_FOUNDRY_CONFIG :: path where
  "DEFAULT_FOUNDRY_CONFIG = [''deployment-script'', ''foundry.toml'']"

definition EXECUTOR_DRIVER_PATH :: path where
  "EXECUTOR_DRIVER_PATH = [''tools'', ''deployment'', ''execute_canonical_deployment_plan.py'']"

definition EXECUTION_SCHEMA_PATH :: path where
  "EXECUTION_SCHEMA_PATH = [''deployments'', ''schema'', ''canonical-deployment-execution.schema.json'']"

definition STAGING_ROOT :: path where
  "STAGING_ROOT = [''deployments'', ''.canonical-deployment-run'']"

definition SESSION_ROOT :: path where
  "SESSION_ROOT = [''tmp'', ''canonical-deployment-run'']"

section \<open>The snapshot of the sources\<close>

record source =
  s_plan_path :: path
  s_output :: "path option"
  s_plan :: dict
  s_plan_raw :: "byte list"
  s_plan_sha :: string
  s_script_path :: path
  s_script_raw :: "byte list"
  s_script_sha :: string
  s_foundry_path :: path
  s_foundry_raw :: "byte list"
  s_foundry_sha :: string
  s_driver_path :: path
  s_driver_sha :: string
  s_schema_path :: path
  s_schema_sha :: string

definition read_source :: "env \<Rightarrow> materialize \<Rightarrow> request \<Rightarrow> source io" where
  "read_source E materialize rq =
     (let root = rq_root rq in
      io_bind (output_path_of E root (rq_plan rq)) (\<lambda>plan_path.
      io_bind (case rq_output rq of None \<Rightarrow> io_return None
               | Some p \<Rightarrow> io_bind (output_path_of E root p) (\<lambda>q. io_return (Some q))) (\<lambda>output.
      io_bind (canonical_plan_snapshot E materialize root (rq_candidate rq) plan_path) (\<lambda>(plan, plan_raw, plan_sha).
      io_bind (repo_path E root (Abs (root @ DEFAULT_SCRIPT)) ''generic broadcaster source'') (\<lambda>script_path.
      io_bind (validate_broadcaster_source E root script_path) (\<lambda>script_sha.
      io_bind (repo_path E root (Abs (root @ DEFAULT_FOUNDRY_CONFIG)) ''generic broadcaster Foundry config'') (\<lambda>foundry_path.
      io_bind (repo_path E root (Abs (root @ EXECUTOR_DRIVER_PATH)) ''canonical executor driver'') (\<lambda>driver_path.
      io_bind (repo_path E root (Abs (root @ EXECUTION_SCHEMA_PATH)) ''canonical execution receipt schema'') (\<lambda>schema_path.
      io_bind (read_file_snapshot E script_path ''generic broadcaster source'') (\<lambda>(script_raw, snapshot_sha).
      io_then (require (snapshot_sha = script_sha)
        (CanonicalExecutionError ''generic broadcaster source changed while being validated''))
      (io_bind (read_file_snapshot E foundry_path ''generic broadcaster Foundry config'') (\<lambda>(foundry_raw, foundry_sha).
      io_bind (read_file_snapshot E driver_path ''canonical executor driver'') (\<lambda>(_, driver_sha).
      io_bind (read_file_snapshot E schema_path ''canonical execution receipt schema'') (\<lambda>(_, schema_sha).
      io_return
        \<lparr>s_plan_path = plan_path, s_output = output, s_plan = plan, s_plan_raw = plan_raw,
         s_plan_sha = plan_sha, s_script_path = script_path, s_script_raw = script_raw,
         s_script_sha = script_sha, s_foundry_path = foundry_path, s_foundry_raw = foundry_raw,
         s_foundry_sha = foundry_sha, s_driver_path = driver_path, s_driver_sha = driver_sha,
         s_schema_path = schema_path, s_schema_sha = schema_sha\<rparr>))))))))))))))"

section \<open>Network and plan checks\<close>

record access =
  a_sender :: string
  a_network :: dict
  a_chain_id :: int
  a_pinned :: "string list option"

definition access_rpc :: "env \<Rightarrow> request \<Rightarrow> access \<Rightarrow> rpc_caller" where
  "access_rpc E rq a = executor_rpc E (rq_rpc_url rq) (a_pinned a)"

definition open_network :: "env \<Rightarrow> request \<Rightarrow> dict \<Rightarrow> access io" where
  "open_network E rq plan =
     io_bind (lift (x_require_address (JStr (rq_sender rq)) ''sender'')) (\<lambda>sender.
     io_bind (execution_network_record E plan (rq_rpc_url rq) (rq_mode rq) (rq_authorized rq) (rq_ephemeral rq))
       (\<lambda>network.
     io_bind (lift (x_require_integer (dget network ''chain_id'') ''network.chain_id'')) (\<lambda>chain_id.
     io_bind (lift (pinned_rpc_addresses network)) (\<lambda>pinned.
     let a = \<lparr>a_sender = sender, a_network = network, a_chain_id = chain_id, a_pinned = pinned\<rparr> in
     io_bind (access_rpc E rq a ''eth_chainId'' []) (\<lambda>reply.
     io_bind (lift (normalize_rpc_quantity reply ''eth_chainId'')) (\<lambda>actual.
     io_then (require (actual = chain_id) (CanonicalExecutionError
       (''RPC chain id '' @ dec_int actual @ '' does not match plan chain id '' @ dec_int chain_id)))
     (io_return a)))))))"

record deployments =
  d_list :: "dict list"
  d_v2 :: bool
  d_nonce :: "int option"
  d_addresses :: "string list option"

definition validate_deployments :: "hashes \<Rightarrow> dict list \<Rightarrow> unit res" where
  "validate_deployments H ds =
     rbind (each (\<lambda>i d. validate_deployment H d (int (i + 1))) 0 ds) (\<lambda>_. Inr ())"

definition check_deployments :: "env \<Rightarrow> request \<Rightarrow> source \<Rightarrow> access \<Rightarrow> deployments io" where
  "check_deployments E rq src a =
     (let plan = s_plan src in
      io_bind (lift (x_require_list (dget plan ''deployments'') ''deployments'')) (\<lambda>items.
      io_bind (lift (each (\<lambda>i item. x_require_dict item (''deployments['' @ dec i @ '']'')) 0 items)) (\<lambda>ds.
      io_then (require (ds \<noteq> []) (CanonicalExecutionError ''canonical deployment plan has no deployments''))
      (io_then (require (1 \<le> rq_confirmations rq) (CanonicalExecutionError ''confirmations must be at least one''))
      (io_then (case s_output src of None \<Rightarrow> io_return ()
          | Some p \<Rightarrow> io_bind (observe E (\<lambda>fs. Inr (path_exists fs p))) (\<lambda>present.
              require (\<not> present) (CanonicalExecutionError
                (''refusing to overwrite existing execution receipt '' @ path_text p))))
      (io_bind (lift (x_require_dict (dget plan ''candidate'') ''candidate'')) (\<lambda>candidate.
       if dget candidate ''schema_version'' = JStr CANDIDATE_V2_SCHEMA then
         io_then (lift (validate_deployments (hash E) ds))
         (io_bind (require_uncontended_sender_nonce (access_rpc E rq a) (a_sender a) None) (\<lambda>nonce.
          io_bind (lift (require_v2_expected_create_addresses (hash E) plan (a_sender a) nonce)) (\<lambda>addresses.
          io_return \<lparr>d_list = ds, d_v2 = True, d_nonce = Some nonce, d_addresses = addresses\<rparr>)))
       else io_return \<lparr>d_list = ds, d_v2 = False, d_nonce = None, d_addresses = None\<rparr>)))))))"

section \<open>The session\<close>

record session =
  ss_id :: string
  ss_staging :: path
  ss_root :: path
  ss_parent :: path
  ss_lock_key :: string
  ss_identity :: dict

definition journal_path :: "session \<Rightarrow> path" where
  "journal_path ss = ss_root ss @ [JOURNAL_NAME]"

definition journal_identity ::
  "hashes \<Rightarrow> source \<Rightarrow> access \<Rightarrow> dict list \<Rightarrow> string \<Rightarrow> dict res" where
  "journal_identity H src a ds key =
     (let plan = s_plan src in
      rbind (rbind (dsub plan ''candidate'') (\<lambda>c. subscript c ''candidate_id'')) (\<lambda>candidate_id.
      rbind (rbind (dsub plan ''release_build'') (\<lambda>b. subscript b ''receipt_sha256'')) (\<lambda>receipt.
      rbind (rbind (dsub plan ''release_build'') (\<lambda>b. subscript b ''target_catalog_sha256'')) (\<lambda>catalog.
      rbind (rbind (dsub plan ''release_build'') (\<lambda>b. subscript b ''config_sha256'')) (\<lambda>config.
      rbind (rbind (dsub plan ''release_build'') (\<lambda>b. subscript b ''foundry_config_sha256'')) (\<lambda>foundry.
      rbind (each (\<lambda>_ d. deployment_authority_record H d) 0 ds) (\<lambda>authority.
      Inr [(''schema_version'', JStr JOURNAL_SCHEMA), (''execution_key'', JStr key),
           (''plan_sha256'', JStr (s_plan_sha src)), (''candidate_id'', candidate_id),
           (''release_receipt_sha256'', receipt), (''target_catalog_sha256'', catalog),
           (''release_config_sha256'', config), (''release_foundry_config_sha256'', foundry),
           (''executor_script_sha256'', JStr (s_script_sha src)),
           (''executor_foundry_config_sha256'', JStr (s_foundry_sha src)),
           (''executor_driver_sha256'', JStr (s_driver_sha src)),
           (''execution_schema_sha256'', JStr (s_schema_sha src)),
           (''network'', JDict (a_network a)), (''chain_id'', JInt (a_chain_id a)),
           (''sender'', JStr (a_sender a)), (''deployment_authority'', JList (map JDict authority))])))))))"

definition session_of :: "env \<Rightarrow> request \<Rightarrow> source \<Rightarrow> access \<Rightarrow> dict list \<Rightarrow> session io" where
  "session_of E rq src a ds =
     (let root = rq_root rq in
      io_bind (fresh_session_id E) (\<lambda>session_id.
      io_bind (repo_path E root (Abs (root @ STAGING_ROOT)) ''canonical deployment staging root'') (\<lambda>staging_parent.
      io_bind (repo_path E root (Abs (root @ SESSION_ROOT)) ''canonical deployment session root'') (\<lambda>session_parent.
      io_bind (lift (execution_key (hash E) (s_plan_sha src) (a_chain_id a) (a_sender a))) (\<lambda>key.
      io_bind (lift (sender_lock_key (hash E) (a_chain_id a) (a_sender a))) (\<lambda>lock_key.
      io_bind (lift (journal_identity (hash E) src a ds key)) (\<lambda>identity.
      io_return \<lparr>ss_id = session_id, ss_staging = staging_parent @ [session_id],
        ss_root = session_parent @ [session_id], ss_parent = session_parent,
        ss_lock_key = lock_key, ss_identity = identity\<rparr>)))))))"

definition initial_journal :: "dict \<Rightarrow> dict" where
  "initial_journal identity =
     dmerge identity [(''status'', JStr ''preflight''), (''success'', JBool False),
       (''active_deployment'', JNull), (''verified_deployments'', JList [])]"

definition write_journal :: "env \<Rightarrow> session \<Rightarrow> unit io" where
  "write_journal E ss = io_bind get_journal (\<lambda>jnl. write_json_atomic E (journal_path ss) (JDict jnl))"

definition executor_dir :: "session \<Rightarrow> path" where
  "executor_dir ss = ss_staging ss @ [''executor'']"

definition staged_script :: "session \<Rightarrow> path" where
  "staged_script ss = executor_dir ss @ [''DeployCanonicalInitcode.s.sol'']"

definition staged_foundry :: "session \<Rightarrow> path" where
  "staged_foundry ss = executor_dir ss @ [''foundry.toml'']"

definition staged_plan :: "session \<Rightarrow> path" where
  "staged_plan ss = ss_staging ss @ [''deployments'', ''canonical-deployment-plan.json'']"

definition make_dir :: "env \<Rightarrow> path \<Rightarrow> unit io" where
  "make_dir E p = mutate E (Made p) (\<lambda>fs. mkdir fs p)"

definition make_session_dir :: "env \<Rightarrow> path \<Rightarrow> unit io" where
  "make_session_dir E p = mutate E (Made p) (\<lambda>fs. mkdir_new fs p)"

text \<open>
  The first \<open>try\<close> block: the session is set up from the snapshots, never from the sources
  again, and its first journal is written. Returns the path of the receipt.
\<close>

definition stage :: "env \<Rightarrow> request \<Rightarrow> source \<Rightarrow> session \<Rightarrow> path io" where
  "stage E rq src ss =
     (let root = rq_root rq in
      io_then (reject_ambiguous_journals E (ss_parent ss) (ss_identity ss))
      (io_then (make_session_dir E (ss_staging ss))
      (io_then (make_session_dir E (ss_root ss))
      (io_bind (case s_output src of Some p \<Rightarrow> io_return p
                | None \<Rightarrow> output_path_of E root (Abs (ss_root ss @ [''execution-receipt.json'']))) (\<lambda>output.
       io_then (repo_path E root (Abs (ss_staging ss)) ''canonical deployment staging session'')
       (io_then (repo_path E root (Abs (ss_root ss)) ''canonical deployment execution session'')
       (io_then (make_dir E (executor_dir ss))
       (io_then (make_dir E (ss_staging ss @ [''deployments'']))
       (io_then (write_bytes_atomic E (staged_script ss) (s_script_raw src))
       (io_then (write_bytes_atomic E (staged_foundry ss) (s_foundry_raw src))
       (io_then (write_bytes_atomic E (staged_plan ss) (s_plan_raw src))
       (io_bind (validate_broadcaster_source E root (staged_script ss)) (\<lambda>staged_sha.
        io_then (require (staged_sha = s_script_sha src)
          (CanonicalExecutionError ''staged generic broadcaster differs from its validated snapshot''))
        (io_bind (read_bytes E (staged_foundry ss)) (\<lambda>raw.
         io_then (require (sha256_bytes (hash E) raw = s_foundry_sha src)
           (CanonicalExecutionError ''staged Foundry config differs from its validated snapshot''))
         (io_then (set_journal (initial_journal (ss_identity ss)))
         (io_then (write_journal E ss)
         (io_return output))))))))))))))))))"

definition lock_of :: "session \<Rightarrow> path" where
  "lock_of ss = lock_path_of (ss_parent ss) (ss_lock_key ss)"

definition open_session :: "env \<Rightarrow> request \<Rightarrow> source \<Rightarrow> session \<Rightarrow> path io" where
  "open_session E rq src ss =
     io_then (acquire_execution_lock E (ss_parent ss) (ss_lock_key ss) (ss_id ss))
     (io_catch (stage E rq src ss)
       (\<lambda>e. io_then (release_execution_lock E (lock_of ss)) (io_raise e)))"

section \<open>Simulation and preflight\<close>

definition assert_staged :: "env \<Rightarrow> source \<Rightarrow> session \<Rightarrow> unit io" where
  "assert_staged E src ss =
     io_then (assert_file_snapshot_unchanged E (staged_script ss) (s_script_sha src)
       ''staged generic broadcaster source'')
     (assert_file_snapshot_unchanged E (staged_foundry ss) (s_foundry_sha src)
       ''staged generic broadcaster Foundry config'')"

definition assert_pinned :: "env \<Rightarrow> request \<Rightarrow> access \<Rightarrow> unit io" where
  "assert_pinned E rq a =
     (case a_pinned a of None \<Rightarrow> io_return ()
      | Some addresses \<Rightarrow> assert_rpc_resolution_unchanged E (rq_rpc_url rq) addresses)"

definition simulate :: "env \<Rightarrow> materialize \<Rightarrow> request \<Rightarrow> source \<Rightarrow> access \<Rightarrow> session \<Rightarrow> deployments \<Rightarrow> unit io" where
  "simulate E materialize rq src a ss ds =
     io_then (if d_v2 ds then io_return () else lift (validate_deployments (hash E) (d_list ds)))
     (io_then (assert_staged E src ss)
     (io_then (assert_pinned E rq a)
     (io_then (run_command E (forge_command (executor_dir ss) (a_sender a) (rq_signer_cli rq) False)
       (forge_environment (environ E) (rq_rpc_url rq) (a_sender a) (staged_plan ss) (s_plan_sha src)
         0 (int (length (d_list ds))) (ss_root ss) (ss_root ss @ [''simulation''])))
     (io_then (assert_staged E src ss)
     (io_then (validate_build_closure E (ss_root ss))
     (assert_authority_unchanged E materialize (rq_root rq) (rq_candidate rq) (s_plan_path src)
       (s_plan_sha src)))))))"

definition preflight :: "env \<Rightarrow> request \<Rightarrow> access \<Rightarrow> session \<Rightarrow> deployments \<Rightarrow> int io" where
  "preflight E rq a ss ds =
     (let rpc = access_rpc E rq a in
      io_bind (preflight_rpc_capabilities rpc (a_sender a)) (\<lambda>evidence.
      io_then (journal_set ''rpc_preflight'' (JDict evidence))
      (io_then (write_journal E ss)
      (io_bind (require_uncontended_sender_nonce rpc (a_sender a) (d_nonce ds)) (\<lambda>observed.
       let initial_nonce = (case d_nonce ds of None \<Rightarrow> observed | Some n \<Rightarrow> n) in
       io_then (journal_set ''initial_nonce'' (JInt initial_nonce))
       (io_then (journal_set ''status'' (JStr ''broadcasting''))
       (io_then (write_journal E ss)
       (io_return initial_nonce))))))))"

section \<open>One deployment\<close>

record prepared =
  p_order :: int
  p_instance :: string
  p_nonce :: int
  p_initcode :: string
  p_address :: string
  p_active :: dict

definition address_of :: "hashes \<Rightarrow> access \<Rightarrow> deployments \<Rightarrow> nat \<Rightarrow> int \<Rightarrow> string res" where
  "address_of H a ds index nonce =
     (case d_addresses ds of
        Some addresses \<Rightarrow>
          if index < length addresses then Inr (addresses ! index)
          else Inl (IndexError ''list index out of range'')
      | None \<Rightarrow> create_address H (a_sender a) nonce)"

text \<open>The nonce is checked, and the deployment is in the journal as prepared, before anything is sent.\<close>

definition prepare_deployment ::
  "env \<Rightarrow> request \<Rightarrow> access \<Rightarrow> session \<Rightarrow> deployments \<Rightarrow> int \<Rightarrow> nat \<Rightarrow> dict \<Rightarrow> prepared io" where
  "prepare_deployment E rq a ss ds initial_nonce index deployment =
     io_bind (lift (rbind (dsub deployment ''order'') (\<lambda>v. x_require_integer v ''deployment.order''))) (\<lambda>order.
     io_bind (lift (x_require_string (dget deployment ''instance_id'') ''deployment.instance_id'')) (\<lambda>instance_id.
     let nonce = initial_nonce + int index in
     io_then (require_uncontended_sender_nonce (access_rpc E rq a) (a_sender a) (Some nonce))
     (io_bind (lift (x_require_hex None (dget deployment ''initcode'') ''deployment.initcode'')) (\<lambda>initcode.
      io_bind (lift (address_of (hash E) a ds index nonce)) (\<lambda>address.
      io_bind (lift (dsub deployment ''initcode_keccak256'')) (\<lambda>initcode_hash.
      let active = [(''status'', JStr ''prepared''), (''order'', JInt order), (''instance_id'', JStr instance_id),
            (''nonce'', JInt nonce), (''expected_contract_address'', JStr address),
            (''initcode_keccak256'', initcode_hash)] in
      io_then (journal_set ''active_deployment'' (JDict active))
      (io_then (write_journal E ss)
      (io_return \<lparr>p_order = order, p_instance = instance_id, p_nonce = nonce, p_initcode = initcode,
         p_address = address, p_active = active\<rparr>))))))))"

definition broadcast_dir :: "session \<Rightarrow> int \<Rightarrow> path" where
  "broadcast_dir ss order = ss_root ss @ [''broadcast-'' @ dec4 order]"

definition broadcast_command :: "request \<Rightarrow> access \<Rightarrow> session \<Rightarrow> string list" where
  "broadcast_command rq a ss = forge_command (executor_dir ss) (a_sender a) (rq_signer_cli rq) True"

definition broadcast_environment ::
  "env \<Rightarrow> request \<Rightarrow> source \<Rightarrow> access \<Rightarrow> session \<Rightarrow> nat \<Rightarrow> int \<Rightarrow> (string \<times> string) list" where
  "broadcast_environment E rq src a ss index order =
     forge_environment (environ E) (rq_rpc_url rq) (a_sender a) (staged_plan ss) (s_plan_sha src)
       (int index) 1 (ss_root ss) (broadcast_dir ss order)"

text \<open>The broadcast itself; what Forge recorded of it is put in the journal.\<close>

definition broadcast_deployment ::
  "env \<Rightarrow> request \<Rightarrow> source \<Rightarrow> access \<Rightarrow> session \<Rightarrow> nat \<Rightarrow> prepared \<Rightarrow> string io" where
  "broadcast_deployment E rq src a ss index p =
     io_then (assert_staged E src ss)
     (io_then (set_attempted True)
     (io_then (assert_pinned E rq a)
     (io_then (run_command E (broadcast_command rq a ss) (broadcast_environment E rq src a ss index (p_order p)))
     (io_then (assert_staged E src ss)
     (io_then (validate_build_closure E (ss_root ss))
     (io_bind (locate_broadcast E (broadcast_dir ss (p_order p))) (\<lambda>latest.
      io_bind (transaction_hash_from_broadcast E latest (a_chain_id a) (a_sender a) (p_nonce p) (p_address p)
        (p_initcode p)) (\<lambda>(transaction_hash, contract_address).
      io_then (journal_set ''active_deployment'' (JDict (dmerge (p_active p)
        [(''status'', JStr ''submitted''), (''transaction_hash'', JStr transaction_hash),
         (''contract_address'', JStr contract_address)])))
      (io_then (write_journal E ss)
      (io_return transaction_hash))))))))))"

definition expectation_of ::
  "request \<Rightarrow> access \<Rightarrow> string \<Rightarrow> int \<Rightarrow> string \<Rightarrow> string \<Rightarrow> string \<Rightarrow> string \<Rightarrow> expectation" where
  "expectation_of rq a transaction_hash nonce initcode address runtime runtime_hash =
     \<lparr>ex_transaction_hash = transaction_hash, ex_sender = a_sender a, ex_chain_id = a_chain_id a,
      ex_nonce = nonce, ex_initcode = initcode, ex_contract_address = address, ex_runtime = runtime,
      ex_runtime_hash = runtime_hash, ex_confirmations = rq_confirmations rq\<rparr>"

definition deployment_record :: "hashes \<Rightarrow> prepared \<Rightarrow> dict \<Rightarrow> dict \<Rightarrow> dict res" where
  "deployment_record H p deployment verified =
     rbind (dsub deployment ''initcode_length_bytes'') (\<lambda>initcode_length.
     rbind (dsub deployment ''initcode_keccak256'') (\<lambda>initcode_hash.
     rbind (dsub deployment ''expected_runtime_length_bytes'') (\<lambda>runtime_length.
     rbind (dsub deployment ''expected_runtime_keccak256'') (\<lambda>runtime_hash.
     rbind (deployment_authority_record H deployment) (\<lambda>authority.
     Inr (dmerge
       [(''order'', JInt (p_order p)), (''instance_id'', JStr (p_instance p)),
        (''expected_contract_address'', JStr (p_address p)),
        (''initcode_length_bytes'', initcode_length), (''initcode_keccak256'', initcode_hash),
        (''expected_runtime_length_bytes'', runtime_length), (''expected_runtime_keccak256'', runtime_hash),
        (''authority'', JDict authority)] verified))))))"

definition settle_deployment ::
  "env \<Rightarrow> materialize \<Rightarrow> request \<Rightarrow> source \<Rightarrow> access \<Rightarrow> session \<Rightarrow> dict list \<Rightarrow> dict \<Rightarrow> prepared \<Rightarrow> string \<Rightarrow>
   dict list io" where
  "settle_deployment E materialize rq src a ss retained deployment p transaction_hash =
     (let rpc = access_rpc E rq a in
      io_bind (lift (x_require_hex None (dget deployment ''expected_runtime_bytecode'')
        ''deployment.expected_runtime_bytecode'')) (\<lambda>runtime.
      io_bind (lift (x_require_hash (dget deployment ''expected_runtime_keccak256'')
        ''deployment.expected_runtime_keccak256'')) (\<lambda>runtime_hash.
      io_bind (verify_chain_deployment E rpc
        (expectation_of rq a transaction_hash (p_nonce p) (p_initcode p) (p_address p) runtime runtime_hash)
        None) (\<lambda>verified.
      io_then (require_uncontended_sender_nonce rpc (a_sender a) (Some (p_nonce p + 1)))
      (io_bind (lift (deployment_record (hash E) p deployment verified)) (\<lambda>retained_record.
       io_then (journal_set ''active_deployment'' JNull)
       (io_then (journal_set ''verified_deployments'' (JList (map JDict (retained @ [retained_record]))))
       (io_then (write_journal E ss)
       (io_then (assert_authority_unchanged E materialize (rq_root rq) (rq_candidate rq) (s_plan_path src)
          (s_plan_sha src))
       (io_return (retained @ [retained_record])))))))))))"

definition deploy_one ::
  "env \<Rightarrow> materialize \<Rightarrow> request \<Rightarrow> source \<Rightarrow> access \<Rightarrow> session \<Rightarrow> deployments \<Rightarrow> int \<Rightarrow> dict list \<Rightarrow> nat \<Rightarrow> dict \<Rightarrow>
   dict list io" where
  "deploy_one E materialize rq src a ss ds initial_nonce retained index deployment =
     io_bind (prepare_deployment E rq a ss ds initial_nonce index deployment) (\<lambda>p.
     io_bind (broadcast_deployment E rq src a ss index p) (\<lambda>transaction_hash.
     settle_deployment E materialize rq src a ss retained deployment p transaction_hash))"

section \<open>The final sweep\<close>

definition reverify ::
  "env \<Rightarrow> request \<Rightarrow> access \<Rightarrow> dict \<Rightarrow> nat \<Rightarrow> dict \<times> dict \<Rightarrow> unit io" where
  "reverify E rq a final_tip index entry =
     (let (deployment, retained_record) = entry;
          r = (\<lambda>f. ''retained['' @ dec index @ ''].'' @ f);
          d = (\<lambda>f. ''deployments['' @ dec index @ ''].'' @ f) in
      io_bind (lift (x_require_hash (dget retained_record ''transaction_hash'') (r ''transaction_hash''))) (\<lambda>transaction_hash.
      io_bind (lift (x_require_integer (dget retained_record ''nonce'') (r ''nonce''))) (\<lambda>nonce.
      io_bind (lift (x_require_hex None (dget deployment ''initcode'') (d ''initcode''))) (\<lambda>initcode.
      io_bind (lift (x_require_address (dget retained_record ''expected_contract_address'')
        (r ''expected_contract_address''))) (\<lambda>address.
      io_bind (lift (x_require_hex None (dget deployment ''expected_runtime_bytecode'')
        (d ''expected_runtime_bytecode''))) (\<lambda>runtime.
      io_bind (lift (x_require_hash (dget deployment ''expected_runtime_keccak256'')
        (d ''expected_runtime_keccak256''))) (\<lambda>runtime_hash.
      io_bind (verify_chain_deployment E (access_rpc E rq a)
        (expectation_of rq a transaction_hash nonce initcode address runtime runtime_hash)
        (Some final_tip)) (\<lambda>reverified.
      case find (\<lambda>(field, value). \<not> py_eq (dget retained_record field) value) reverified of
        None \<Rightarrow> io_return ()
      | Some (field, _) \<Rightarrow>
          io_bind (lift (dsub retained_record ''instance_id'')) (\<lambda>instance_id.
          io_raise (CanonicalExecutionError (''deployment '' @
            (case instance_id of JStr s \<Rightarrow> s | _ \<Rightarrow> []) @ '' changed during final sweep at '' @ field)))))))))))"

definition final_sweep :: "env \<Rightarrow> request \<Rightarrow> access \<Rightarrow> dict list \<Rightarrow> dict list \<Rightarrow> dict io" where
  "final_sweep E rq a ds retained =
     (let rpc = access_rpc E rq a in
      io_bind (capture_canonical_tip rpc) (\<lambda>final_tip.
      io_then (io_fold (\<lambda>_ index entry. reverify E rq a final_tip index entry) () 0 (zip ds retained))
      (io_then (assert_canonical_tip_unchanged rpc final_tip)
      (io_return final_tip))))"

section \<open>The receipt\<close>

definition execution_receipt ::
  "request \<Rightarrow> source \<Rightarrow> access \<Rightarrow> session \<Rightarrow> dict list \<Rightarrow> dict \<Rightarrow> dict res" where
  "execution_receipt rq src a ss retained final_tip =
     (let plan = s_plan src; root = rq_root rq in
      rbind (x_require_dict (dget plan ''release_posture'') ''release_posture'') (\<lambda>posture.
      rbind (rbind (dsub plan ''candidate'') (\<lambda>c. subscript c ''schema_version'')) (\<lambda>schema.
      let v2 = (schema = JStr CANDIDATE_V2_SCHEMA) in
      rbind (dsub posture ''production_candidate'') (\<lambda>production.
      rbind (repo_relative root (s_plan_path src)) (\<lambda>plan_text.
      rbind (execution_plan_binding plan plan_text (s_plan_sha src)) (\<lambda>binding.
      rbind (dsub final_tip ''block_number'') (\<lambda>tip_number.
      rbind (dsub final_tip ''block_hash'') (\<lambda>tip_hash.
      rbind (rbind (repo_relative root (ss_root ss)) (\<lambda>text.
        x_require_repo_path (JStr text) ''receipt.executor.output_root'')) (\<lambda>output_root.
      Inr
        [(''schema_version'', JStr EXECUTION_SCHEMA),
         (''generated_by'', JStr GENERATED_BY),
         (''release_posture'', JDict
           [(''production_candidate'', production), (''readiness_evidence'', JBool False),
            (''status'', JStr (if v2 then ''candidate_complete_execution_only'' else ''non_production_execution_only'')),
            (''note'', JStr (if v2
               then ''This receipt binds a checker-complete candidate but does not authorize production execution or establish release readiness.''
               else ''This receipt does not authorize a production broadcast or establish release readiness.''))]),
         (''plan'', JDict binding),
         (''network'', JDict (a_network a)),
         (''finalization'', JDict
           [(''tip_block_number'', tip_number), (''tip_block_hash'', tip_hash),
            (''confirmations_required'', JInt (rq_confirmations rq)),
            (''deployments_reverified'', JInt (int (length retained))),
            (''tip_unchanged_during_final_sweep'', JBool True)]),
         (''executor'', JDict
           [(''script_path'', JStr (as_posix DEFAULT_SCRIPT)), (''script_sha256'', JStr (s_script_sha src)),
            (''foundry_config_path'', JStr (as_posix DEFAULT_FOUNDRY_CONFIG)),
            (''foundry_config_sha256'', JStr (s_foundry_sha src)),
            (''driver_path'', JStr (as_posix EXECUTOR_DRIVER_PATH)), (''driver_sha256'', JStr (s_driver_sha src)),
            (''receipt_schema_path'', JStr (as_posix EXECUTION_SCHEMA_PATH)),
            (''receipt_schema_sha256'', JStr (s_schema_sha src)),
            (''output_root'', JStr output_root),
            (''compiler_output_isolated_from'', JStr ''out-release'')]),
         (''deployments'', JList (map JDict retained))])))))))))"

section \<open>Publication\<close>

definition assert_sources_unchanged :: "env \<Rightarrow> source \<Rightarrow> unit io" where
  "assert_sources_unchanged E src =
     io_then (assert_file_snapshot_unchanged E (s_script_path src) (s_script_sha src) ''generic broadcaster source'')
     (io_then (assert_file_snapshot_unchanged E (s_foundry_path src) (s_foundry_sha src)
        ''generic broadcaster Foundry config'')
     (io_then (assert_file_snapshot_unchanged E (s_driver_path src) (s_driver_sha src) ''canonical executor driver'')
     (assert_file_snapshot_unchanged E (s_schema_path src) (s_schema_sha src)
        ''canonical execution receipt schema'')))"

definition publish :: "env \<Rightarrow> request \<Rightarrow> source \<Rightarrow> session \<Rightarrow> path \<Rightarrow> dict \<Rightarrow> dict io" where
  "publish E rq src ss output receipt =
     io_then (assert_sources_unchanged E src)
     (io_then (validate_draft_2020_12_schema E (rq_root rq) EXECUTION_SCHEMA_PATH (JDict receipt)
        ''canonical deployment execution receipt'')
     (io_then (journal_set ''status'' (JStr ''publishing''))
     (io_then (journal_set ''success'' (JBool False))
     (io_then (write_journal E ss)
     (io_then (write_json_exclusive E output (JDict receipt))
     (io_then (journal_set ''status'' (JStr FINAL_JOURNAL_STATUS))
     (io_then (journal_set ''success'' (JBool True))
     (io_bind (lift (repo_relative (rq_root rq) output)) (\<lambda>receipt_path.
      io_then (journal_set ''receipt_path'' (JStr receipt_path))
      (io_then (journal_set ''receipt_sha256''
         (JStr (sha256_bytes (hash E) (str_bytes (json_text (JDict receipt))))))
      (io_then (write_journal E ss)
      (io_return receipt))))))))))))"

section \<open>The whole execution\<close>

text \<open>\<open>str(exc)\<close>: of a \<open>KeyError\<close> it is the \<open>repr\<close> of the key.\<close>

definition failure_text :: "exn \<Rightarrow> string" where
  "failure_text e = (case e of KeyError k \<Rightarrow> py_repr k | _ \<Rightarrow> exn_text e)"

definition record_failure :: "env \<Rightarrow> request \<Rightarrow> session \<Rightarrow> exn \<Rightarrow> 'a io" where
  "record_failure E rq ss e =
     io_bind get_attempted (\<lambda>attempted.
     io_then (journal_set ''status'' (JStr
       (if rq_ephemeral rq then ''awaiting_ephemeral_chain_destruction''
        else if \<not> attempted then ''failed_preflight'' else ''failed_or_ambiguous'')))
     (io_then (journal_set ''success'' (JBool False))
     (io_then (journal_set ''failure_type'' (JStr (exn_name e)))
     (io_then (journal_set ''failure'' (JStr (failure_text e)))
     (io_then (write_journal E ss)
     (io_raise e))))))"

definition clean_up :: "env \<Rightarrow> session \<Rightarrow> unit io" where
  "clean_up E ss =
     io_then (mutate E (Removed (ss_staging ss)) (\<lambda>fs. Inr (rmtree fs (ss_staging ss))))
     (release_execution_lock E (lock_of ss))"

definition deploy_all ::
  "env \<Rightarrow> materialize \<Rightarrow> request \<Rightarrow> source \<Rightarrow> access \<Rightarrow> session \<Rightarrow> deployments \<Rightarrow> int \<Rightarrow> dict list io" where
  "deploy_all E materialize rq src a ss ds initial_nonce =
     io_fold (deploy_one E materialize rq src a ss ds initial_nonce) [] 0 (d_list ds)"

definition execute_session ::
  "env \<Rightarrow> materialize \<Rightarrow> request \<Rightarrow> source \<Rightarrow> access \<Rightarrow> session \<Rightarrow> deployments \<Rightarrow> path \<Rightarrow> dict io" where
  "execute_session E materialize rq src a ss ds output =
     io_then (simulate E materialize rq src a ss ds)
     (io_bind (preflight E rq a ss ds) (\<lambda>initial_nonce.
      io_bind (deploy_all E materialize rq src a ss ds initial_nonce) (\<lambda>retained.
      io_bind (final_sweep E rq a (d_list ds) retained) (\<lambda>final_tip.
      io_bind (lift (execution_receipt rq src a ss retained final_tip)) (\<lambda>receipt.
      publish E rq src ss output receipt)))))"

definition run_session ::
  "env \<Rightarrow> materialize \<Rightarrow> request \<Rightarrow> source \<Rightarrow> access \<Rightarrow> session \<Rightarrow> deployments \<Rightarrow> path \<Rightarrow> dict io" where
  "run_session E materialize rq src a ss ds output =
     io_then (set_attempted False)
     (io_finally
       (io_catch (execute_session E materialize rq src a ss ds output) (record_failure E rq ss))
       (clean_up E ss))"

definition execute_plan :: "env \<Rightarrow> materialize \<Rightarrow> request \<Rightarrow> dict io" where
  "execute_plan E materialize rq =
     io_bind (read_source E materialize rq) (\<lambda>src.
     io_bind (open_network E rq (s_plan src)) (\<lambda>a.
     io_bind (check_deployments E rq src a) (\<lambda>ds.
     io_bind (session_of E rq src a (d_list ds)) (\<lambda>ss.
     io_bind (open_session E rq src ss) (\<lambda>output.
     run_session E materialize rq src a ss ds output)))))"

end
