(* ===== verification/Safety.thy ===== *)
theory Safety
  imports Executor
begin

text \<open>
  What an execution is judged by. The assertions here are about the journal in memory, the flag
  \<open>broadcast_attempted\<close>, the journal on disk and whether a broadcast was sent; a triple for
  every phase of \<open>execute_plan\<close> says how it moves between them, on return, on an exception and
  at a crash. The theorems at the end are about whole executions.
\<close>

section \<open>What an execution is judged by\<close>

text \<open>
  A broadcast has been sent, or may have been: the command was started, whatever came of it.
\<close>

definition sent :: "event list \<Rightarrow> bool" where
  "sent tr \<longleftrightarrow> (\<exists>ev \<in> set tr. is_broadcast ev)"

lemma sent_simps [simp]: "\<not> sent []" "sent (a @ b) \<longleftrightarrow> sent a \<or> sent b" "sent [ev] \<longleftrightarrow> is_broadcast ev"
  by (auto simp: sent_def)

lemma passive_not_broadcast: "is_passive ev \<Longrightarrow> \<not> is_broadcast ev"
  by (cases ev) (auto simp: is_broadcast_def)

text \<open>Nobody but the executor writes the file at \<open>p\<close>: no other process, and not Forge.\<close>

definition guarded :: "env \<Rightarrow> path \<Rightarrow> bool" where
  "guarded E p \<longleftrightarrow>
     (\<forall>tr fs. file_at (interfere E tr fs) p = file_at fs p) \<and>
     (\<forall>tr cmd vars fs. file_at (snd (run E tr cmd vars fs)) p = file_at fs p)"

text \<open>An assertion about the journal in memory, \<open>broadcast_attempted\<close>, the journal on disk, and what was sent.\<close>

type_synonym assertion = "dict \<Rightarrow> bool \<Rightarrow> byte list option \<Rightarrow> bool \<Rightarrow> bool"

definition viewing :: "env \<Rightarrow> path \<Rightarrow> assertion \<Rightarrow> world \<Rightarrow> bool" where
  "viewing E p P w \<longleftrightarrow>
     guarded E p \<and> P (journal w) (broadcast_attempted w) (file_at (files w) p) (sent (trace w))"

interpretation watched: passive_invariant E "viewing E p P" for E p P
  by unfold_locales (auto simp: viewing_def after_def guarded_def passive_not_broadcast)

lemma viewing_mono: "viewing E p P w \<Longrightarrow> (\<And>j a f s. P j a f s \<Longrightarrow> Q j a f s) \<Longrightarrow> viewing E p Q w"
  by (simp add: viewing_def)

section \<open>Steps that change something\<close>

text \<open>A change elsewhere in the file system.\<close>

lemma mutate_keeps_viewing:
  assumes "\<not> is_broadcast ev"
    and "\<And>fs fs'. f fs = Inr fs' \<Longrightarrow> file_at fs p \<noteq> None \<or> elsewhere \<Longrightarrow> file_at fs' p = file_at fs p"
    and "\<And>j a f s. P j a f s \<Longrightarrow> f \<noteq> None \<or> elsewhere"
  shows "keeps (viewing E p P) (mutate E ev f)"
proof (rule keepsI)
  fix w assume w: "viewing E p P w"
  let ?fs = "interfere E (trace w) (files w)"
  have fs: "file_at ?fs p = file_at (files w) p" using w by (simp add: viewing_def guarded_def)
  have "file_at ?fs p \<noteq> None \<or> elsewhere" using w assms(3) fs by (auto simp: viewing_def)
  then have "f ?fs = Inr fs' \<Longrightarrow> file_at fs' p = file_at (files w) p" for fs'
    using assms(2)[of ?fs fs'] fs by simp
  then show "viewing E p P (snd (mutate E ev f w))"
    using w fs assms(1)
    by (auto simp: viewing_def mutate_def step_def Let_def is_broadcast_def split: option.splits sum.splits)
qed

lemma mutate_elsewhere:
  assumes "\<not> is_broadcast ev" and "\<And>fs fs'. f fs = Inr fs' \<Longrightarrow> file_at fs' p = file_at fs p"
  shows "keeps (viewing E p P) (mutate E ev f)"
  by (rule mutate_keeps_viewing[where elsewhere = True]) (use assms in auto)

lemma other_file_keeps:
  "p \<noteq> q \<Longrightarrow> keeps (viewing E p P) (write_bytes_atomic E q raw)"
  "p \<noteq> q \<Longrightarrow> keeps (viewing E p P) (write_json_atomic E q v)"
  unfolding write_json_atomic_def write_bytes_atomic_def
  by (rule mutate_elsewhere; simp add: is_broadcast_def file_at_replace)+

lemma make_dir_keeps:
  "keeps (viewing E p P) (make_dir E q)"
  "keeps (viewing E p P) (make_session_dir E q)"
  unfolding make_dir_def make_session_dir_def
  by (rule mutate_elsewhere; simp add: is_broadcast_def file_at_mkdir file_at_mkdir_new)+

lemma link_file_present:
  assumes "link_file fs q raw = Inr fs'" and "file_at fs p \<noteq> None"
  shows "file_at fs' p = file_at fs p"
proof -
  obtain fs1 where m: "mkdir_parents fs (parent q) = Inr fs1" and q: "map_of fs1 q = None"
    using assms(1) by (auto simp: link_file_def rbind_eq_Inr split: if_splits)
  have "file_at fs1 p \<noteq> None" using assms(2) m by simp
  with q have "p \<noteq> q" by (auto simp: file_at_def)
  then show ?thesis using file_at_link[OF assms(1)] by simp
qed

lemma exclusive_keeps:
  assumes "\<And>j a f s. P j a f s \<Longrightarrow> f \<noteq> None"
  shows "keeps (viewing E p P) (write_json_exclusive E q v)"
  unfolding write_json_exclusive_def
proof (rule mutate_keeps_viewing[where elsewhere = False])
  fix fs fs'
  assume "rmap_exn (\<lambda>e. case e of
           FileExistsError _ \<Rightarrow> CanonicalExecutionError
             (''refusing to overwrite existing execution receipt '' @ path_text q)
         | OSError m \<Rightarrow> CanonicalExecutionError
             (''cannot publish execution receipt '' @ path_text q @ '': '' @ m)
         | _ \<Rightarrow> e)
       (link_file fs q (str_bytes (json_text v))) = Inr fs'" and "file_at fs p \<noteq> None \<or> False"
  then show "file_at fs' p = file_at fs p"
    by (intro link_file_present[where q = q and raw = "str_bytes (json_text v)"])
      (simp_all only: rmap_exn_eq_Inr simp_thms)
qed (use assms in \<open>auto simp: is_broadcast_def\<close>)

definition apart :: "session \<Rightarrow> path \<Rightarrow> bool" where
  "apart ss p \<longleftrightarrow> p \<noteq> lock_of ss @ [''owner.json''] \<and> \<not> prefix (ss_staging ss) p"

lemma acquire_keeps:
  "apart ss p \<Longrightarrow> keeps (viewing E p P) (acquire_execution_lock E (ss_parent ss) (ss_lock_key ss) sid)"
  unfolding acquire_execution_lock_def Let_def
  by (intro keeps_rules mutate_elsewhere other_file_keeps)
    (auto simp: is_broadcast_def apart_def lock_of_def file_at_mkdir)

lemma release_keeps: "apart ss p \<Longrightarrow> keeps (viewing E p P) (release_execution_lock E (lock_of ss))"
  unfolding release_execution_lock_def
  by (intro keeps_rules mutate_elsewhere) (auto simp: is_broadcast_def apart_def file_at_unlink file_at_rmdir)

lemma clean_up_keeps: "apart ss p \<Longrightarrow> keeps (viewing E p P) (clean_up E ss)"
  unfolding clean_up_def
  by (intro keeps_rules mutate_elsewhere release_keeps) (auto simp: is_broadcast_def apart_def file_at_rmtree)

lemma staged_apart:
  assumes "apart ss p"
  shows "p \<noteq> staged_script ss" "p \<noteq> staged_foundry ss" "p \<noteq> staged_plan ss"
  using assms by (auto simp: apart_def staged_script_def staged_foundry_def staged_plan_def executor_dir_def)

section \<open>The journal and the flag\<close>

definition journal_bytes :: "dict \<Rightarrow> byte list" where
  "journal_bytes j = str_bytes (json_text (JDict j))"

lemma journal_set_triple:
  assumes "\<And>j a f s. P j a f s \<Longrightarrow> Q (dset j k v) a f s"
  shows "triple (viewing E p P) (journal_set k v) (\<lambda>_. viewing E p Q) R"
  using assms by (auto simp: triple_def journal_set_def viewing_def)

lemma set_journal_triple:
  assumes "\<And>j a f s. P j a f s \<Longrightarrow> Q jnl a f s"
  shows "triple (viewing E p P) (set_journal jnl) (\<lambda>_. viewing E p Q) R"
  using assms by (auto simp: triple_def set_journal_def viewing_def)

lemma set_attempted_triple:
  assumes "\<And>j a f s. P j a f s \<Longrightarrow> Q j b f s"
  shows "triple (viewing E p P) (set_attempted b) (\<lambda>_. viewing E p Q) R"
  using assms by (auto simp: triple_def set_attempted_def viewing_def)

lemma write_journal_triple:
  assumes "\<And>j a f s. P j a f s \<Longrightarrow> Q j a (Some (journal_bytes j)) s"
  shows "triple (viewing E (journal_path ss) P) (write_journal E ss) (\<lambda>_. viewing E (journal_path ss) Q)
    (\<lambda>_. viewing E (journal_path ss) P)"
proof (rule tripleI)
  let ?p = "journal_path ss"
  fix w u w'
  assume w: "viewing E ?p P w" and r: "write_journal E ss w = (Inr u, w')"
  then have m: "write_json_atomic E ?p (JDict (journal w)) w = (Inr u, w')"
    by (simp add: write_journal_def io_bind_def get_journal_def)
  then have "trace w' = trace w @ [Replaced ?p]" "journal w' = journal w"
    "broadcast_attempted w' = broadcast_attempted w"
    using mutate_Inr by (auto simp: write_json_atomic_def write_bytes_atomic_def)
  moreover have "file_at (files w') ?p = Some (journal_bytes (journal w))"
    using write_json_Inr[OF m] by (simp add: journal_bytes_def)
  ultimately show "viewing E ?p Q w'"
    using w assms by (auto simp: viewing_def is_broadcast_def)
next
  let ?p = "journal_path ss"
  fix w e w'
  assume w: "viewing E ?p P w" and r: "write_journal E ss w = (Inl e, w')"
  then have "write_json_atomic E ?p (JDict (journal w)) w = (Inl e, w')"
    by (simp add: write_journal_def io_bind_def get_journal_def)
  then show "viewing E ?p P w'"
    using w by (auto simp: viewing_def guarded_def write_json_atomic_def write_bytes_atomic_def mutate_def
        step_def Let_def is_broadcast_def split: option.splits sum.splits)
qed

lemma run_command_keeps:
  assumes "\<And>j a f s. P j a f s \<Longrightarrow> last cmd = ''--broadcast'' \<Longrightarrow> P j a f True"
  shows "keeps (viewing E p P) (run_command E cmd vars)"
proof (rule keepsI)
  fix w assume w: "viewing E p P w"
  let ?fs = "interfere E (trace w) (files w)"
  obtain failure fs' where r: "run E (trace w) cmd vars ?fs = (failure, fs')"
    by (cases "run E (trace w) cmd vars ?fs")
  have g: "guarded E p" using w by (simp add: viewing_def)
  then have "file_at (snd (run E (trace w) cmd vars ?fs)) p = file_at ?fs p"
    unfolding guarded_def by blast
  then have "file_at fs' p = file_at (files w) p"
    using g r by (simp add: guarded_def)
  moreover have "P (journal w) (broadcast_attempted w) (file_at (files w) p)
      (sent (trace w) \<or> cmd \<noteq> [] \<and> last cmd = ''--broadcast'')"
    using w assms by (cases "cmd \<noteq> [] \<and> last cmd = ''--broadcast''") (auto simp: viewing_def)
  ultimately show "viewing E p P (snd (run_command E cmd vars w))"
    using w r g
    by (auto simp: viewing_def guarded_def run_command_def step_def Let_def is_broadcast_def split: option.splits)
qed

section \<open>The assertions of an execution\<close>

text \<open>
  The journal in memory names the execution; it has a status that stops later attempts; the
  journal on disk names the execution and has such a status.
\<close>

definition names :: "json \<Rightarrow> dict \<Rightarrow> bool" where
  "names key j \<longleftrightarrow> dget j ''execution_key'' = key"

definition open_status :: "dict \<Rightarrow> bool" where
  "open_status j \<longleftrightarrow> (\<exists>s. dget j ''status'' = JStr s \<and> s \<notin> set RETRY_STATUSES)"

definition stops_later :: "json \<Rightarrow> byte list option \<Rightarrow> bool" where
  "stops_later key f \<longleftrightarrow> (\<exists>j. f = Some (journal_bytes j) \<and> names key j \<and> open_status j)"

definition BEFORE :: "json \<Rightarrow> assertion" where
  "BEFORE key j attempted f s \<longleftrightarrow> names key j \<and> \<not> attempted \<and> \<not> s"

definition SAFE :: "json \<Rightarrow> assertion" where
  "SAFE key j attempted f s \<longleftrightarrow> names key j \<and> (s \<longrightarrow> attempted) \<and> (attempted \<longrightarrow> stops_later key f)"

definition BROADCASTING :: "json \<Rightarrow> assertion" where
  "BROADCASTING key j attempted f s \<longleftrightarrow>
     names key j \<and> open_status j \<and> (s \<longrightarrow> attempted) \<and> stops_later key f"

definition ATTEMPTED :: "json \<Rightarrow> assertion" where
  "ATTEMPTED key j attempted f s \<longleftrightarrow> BROADCASTING key j attempted f s \<and> attempted"

lemmas assertions = BEFORE_def SAFE_def BROADCASTING_def ATTEMPTED_def

lemma names_dset [simp]: "k \<noteq> ''execution_key'' \<Longrightarrow> names key (dset j k v) = names key j"
  by (simp add: names_def)

lemma open_status_dset [simp]: "k \<noteq> ''status'' \<Longrightarrow> open_status (dset j k v) = open_status j"
  by (simp add: open_status_def)

lemma open_status_set:
  "open_status (dset j ''status'' (JStr s)) \<longleftrightarrow> s \<notin> set RETRY_STATUSES"
  by (simp add: open_status_def)

lemma stops_later_intro: "names key j \<Longrightarrow> open_status j \<Longrightarrow> stops_later key (Some (journal_bytes j))"
  by (auto simp: stops_later_def)

lemma stops_later_Some: "stops_later key f \<Longrightarrow> f \<noteq> None"
  by (auto simp: stops_later_def)

text \<open>
  A procedure that only asks, looks and waits keeps every invariant closed under such steps.
  \<open>materialize_deployment_plan\<close> is one.
\<close>

definition passive_procedure :: "env \<Rightarrow> 'a io \<Rightarrow> bool" where
  "passive_procedure E m \<longleftrightarrow> (\<forall>I. passive_invariant E I \<longrightarrow> keeps I m)"

lemma passive_viewing: "passive_procedure E m \<Longrightarrow> keeps (viewing E p P) m"
  using watched.passive_invariant_axioms by (auto simp: passive_procedure_def)

lemma last_forge_command:
  "''--broadcast'' \<notin> set signer_cli \<Longrightarrow> last (forge_command root sender signer_cli False) \<noteq> ''--broadcast''"
  by (cases "signer_cli = []") (auto simp: forge_command_def dest: last_in_set)

lemmas watched_rules = watched.passive_keeps watched.path_keeps watched.load_keeps watched.schema_keeps
  watched.snapshot_keeps watched.authority_keeps watched.read_json_keeps watched.locate_broadcast_keeps
  watched.transaction_hash_keeps watched.nonce_keeps watched.tip_keeps watched.preflight_keeps
  watched.verify_keeps watched.executor_rpc_keeps watched.assert_resolution_keeps

lemma pinned_keeps: "keeps (viewing E p P) (assert_pinned E rq a)"
  unfolding assert_pinned_def by (intro keeps_rules watched_rules)

lemma staged_keeps: "keeps (viewing E p P) (assert_staged E src ss)"
  unfolding assert_staged_def by (intro keeps_rules watched_rules)

lemma rpc_keeps: "keeps (viewing E p P) (access_rpc E rq a m ps)"
  unfolding access_rpc_def by (rule watched.executor_rpc_keeps)

lemma simulate_keeps:
  assumes "\<And>root c. passive_procedure E (materialize root c)" and "''--broadcast'' \<notin> set (rq_signer_cli rq)"
  shows "keeps (viewing E p P) (simulate E materialize rq src a ss ds)"
  unfolding simulate_def
  by (intro keeps_rules staged_keeps pinned_keeps run_command_keeps watched.snapshot_keeps
      watched.authority_keeps passive_viewing assms(1))
    (use last_forge_command[OF assms(2)] in blast)

section \<open>The phases\<close>

lemma triple_keep:
  assumes "keeps (viewing E p P) m" and "\<And>j a f s. P j a f s \<Longrightarrow> R j a f s"
  shows "triple (viewing E p P) m (\<lambda>_. viewing E p P) (\<lambda>_. viewing E p R)"
  using assms(1) unfolding keeps_def
  by (rule triple_weaken) (auto intro: viewing_mono assms(2))

lemma triple_enter:
  assumes "triple (viewing E p P) m Q (\<lambda>_. viewing E p R)" and "\<And>j a f s. P' j a f s \<Longrightarrow> P j a f s"
    and "\<And>j a f s. R j a f s \<Longrightarrow> R' j a f s"
  shows "triple (viewing E p P') m Q (\<lambda>_. viewing E p R')"
  using assms(1) by (rule triple_weaken) (auto intro: viewing_mono assms(2,3))

lemma journal_set_keeps:
  "(\<And>j a f s. P j a f s \<Longrightarrow> P (dset j k v) a f s) \<Longrightarrow> keeps (viewing E p P) (journal_set k v)"
  unfolding keeps_def by (rule journal_set_triple)

lemma write_journal_keeps:
  "(\<And>j a f s. P j a f s \<Longrightarrow> P j a (Some (journal_bytes j)) s) \<Longrightarrow>
     keeps (viewing E (journal_path ss) P) (write_journal E ss)"
  unfolding keeps_def by (rule write_journal_triple)

lemma preflight_triple:
  "triple (viewing E (journal_path ss) (BEFORE key)) (preflight E rq a ss ds)
     (\<lambda>_. viewing E (journal_path ss) (BROADCASTING key)) (\<lambda>_. viewing E (journal_path ss) (SAFE key))"
proof -
  let ?V = "viewing E (journal_path ss)"
  let ?open = "\<lambda>j a f s. BEFORE key j a f s \<and> open_status j"
  have keep: "keeps (?V (BEFORE key)) m \<Longrightarrow>
      triple (?V (BEFORE key)) m (\<lambda>_. ?V (BEFORE key)) (\<lambda>_. ?V (SAFE key))" for m :: "'x io"
    by (rule triple_keep) (auto simp: assertions)
  have last: "triple (?V ?open) (write_journal E ss) (\<lambda>_. ?V (BROADCASTING key)) (\<lambda>_. ?V (SAFE key))"
    by (rule triple_enter[OF write_journal_triple[where P = ?open]])
      (auto simp: assertions intro: stops_later_intro)
  show ?thesis
    unfolding preflight_def Let_def
    apply (rule triple_bind[OF keep]) apply (rule watched.preflight_keeps, rule rpc_keeps)
    apply (rule triple_then[OF keep]) apply (rule journal_set_keeps, simp add: assertions)
    apply (rule triple_then[OF keep]) apply (rule write_journal_keeps, simp add: assertions)
    apply (rule triple_bind[OF keep]) apply (rule watched.nonce_keeps, rule rpc_keeps)
    apply (rule triple_then[OF keep]) apply (rule journal_set_keeps, simp add: assertions)
    apply (rule triple_then[where Q' = "?V ?open"])
     apply (rule journal_set_triple)
     apply (simp add: assertions open_status_set RETRY_STATUSES_def RETRY_SAFE_JOURNAL_STATUSES_def)
    apply (rule triple_then[OF last])
    apply (rule triple_return)
    apply assumption
    done
qed

lemma broadcasting_set [simp]:
  "k \<notin> {''execution_key'', ''status''} \<Longrightarrow> BROADCASTING key (dset j k v) a f s = BROADCASTING key j a f s"
  "k \<notin> {''execution_key'', ''status''} \<Longrightarrow> ATTEMPTED key (dset j k v) a f s = ATTEMPTED key j a f s"
  by (simp_all add: assertions)

lemma broadcasting_status:
  "s' \<notin> set RETRY_STATUSES \<Longrightarrow> BROADCASTING key j a f s \<Longrightarrow>
     BROADCASTING key (dset j ''status'' (JStr s')) a f s"
  by (simp add: assertions open_status_set)

lemma broadcasting_written:
  "BROADCASTING key j a f s \<Longrightarrow> BROADCASTING key j a (Some (journal_bytes j)) s"
  "ATTEMPTED key j a f s \<Longrightarrow> ATTEMPTED key j a (Some (journal_bytes j)) s"
  by (auto simp: assertions intro: stops_later_intro)

lemma prepare_keeps:
  "keeps (viewing E (journal_path ss) (BROADCASTING key)) (prepare_deployment E rq a ss ds n i d)"
  unfolding prepare_deployment_def Let_def
  by (intro keeps_rules watched.nonce_keeps rpc_keeps journal_set_keeps write_journal_keeps broadcasting_written)
    (assumption | simp)+

lemma broadcast_keeps:
  "keeps (viewing E (journal_path ss) (BROADCASTING key)) (broadcast_deployment E rq src a ss i p)"
proof -
  let ?V = "viewing E (journal_path ss)"
  have drop: "keeps (?V (ATTEMPTED key)) m \<Longrightarrow>
      triple (?V (ATTEMPTED key)) m (\<lambda>_. ?V (BROADCASTING key)) (\<lambda>_. ?V (BROADCASTING key))" for m :: "'x io"
    unfolding keeps_def by (erule triple_weaken) (auto elim: viewing_mono simp: assertions)
  have flag: "triple (?V (BROADCASTING key)) (set_attempted True) (\<lambda>_. ?V (ATTEMPTED key)) (\<lambda>_. ?V (BROADCASTING key))"
    by (rule set_attempted_triple) (simp add: assertions)
  show ?thesis
    unfolding keeps_def broadcast_deployment_def
    by (intro triple_then[OF staged_keeps[unfolded keeps_def]] triple_then[OF flag] drop
        keeps_rules pinned_keeps staged_keeps run_command_keeps watched.snapshot_keeps
        watched.locate_broadcast_keeps watched.transaction_hash_keeps journal_set_keeps write_journal_keeps
        broadcasting_written)
      (assumption | simp add: assertions)+
qed

lemma settle_keeps:
  assumes "\<And>root c. passive_procedure E (materialize root c)"
  shows "keeps (viewing E (journal_path ss) (BROADCASTING key))
    (settle_deployment E materialize rq src a ss retained d p h)"
  unfolding settle_deployment_def Let_def
  by (intro keeps_rules watched.verify_keeps watched.nonce_keeps rpc_keeps journal_set_keeps
      write_journal_keeps broadcasting_written watched.authority_keeps passive_viewing assms)
    (assumption | simp)+

lemma deploy_all_keeps:
  assumes "\<And>root c. passive_procedure E (materialize root c)"
  shows "keeps (viewing E (journal_path ss) (BROADCASTING key))
    (deploy_all E materialize rq src a ss ds n)"
  unfolding deploy_all_def deploy_one_def
  by (intro keeps_rules prepare_keeps broadcast_keeps settle_keeps assms)

lemma final_sweep_keeps: "keeps (viewing E p P) (final_sweep E rq a ds retained)"
  unfolding final_sweep_def reverify_def Let_def
  by (intro keeps_rules watched.tip_keeps rpc_keeps watched.verify_keeps)

lemma publish_keeps:
  "keeps (viewing E (journal_path ss) (BROADCASTING key)) (publish E rq src ss output receipt)"
proof -
  have s: "''publishing'' \<notin> set RETRY_STATUSES" "FINAL_JOURNAL_STATUS \<notin> set RETRY_STATUSES"
    by (simp_all add: RETRY_STATUSES_def RETRY_SAFE_JOURNAL_STATUSES_def FINAL_JOURNAL_STATUS_def)
  show ?thesis
    unfolding publish_def assert_sources_unchanged_def
    by (intro keeps_rules watched.snapshot_keeps watched.schema_keeps journal_set_keeps write_journal_keeps
        broadcasting_written exclusive_keeps broadcasting_status s)
      (assumption | simp | auto simp: assertions dest: stops_later_Some)+
qed

lemma get_attempted_triple:
  "(\<And>b. triple (viewing E p (\<lambda>j a f s. P j a f s \<and> a = b)) (g b) Q R) \<Longrightarrow>
     triple (viewing E p P) (io_bind get_attempted g) Q R"
  unfolding triple_def by (auto simp: io_bind_def get_attempted_def viewing_def)

lemma record_failure_triple:
  "triple (viewing E (journal_path ss) (SAFE key)) (record_failure E rq ss e)
     (\<lambda>_. viewing E (journal_path ss) (SAFE key)) (\<lambda>_. viewing E (journal_path ss) (SAFE key))"
  unfolding record_failure_def
proof (rule get_attempted_triple)
  fix b
  let ?V = "viewing E (journal_path ss)"
  let ?P = "\<lambda>j a f s. SAFE key j a f s \<and> a = b"
  let ?Q = "\<lambda>j a f s. SAFE key j a f s \<and> a = b \<and> (a \<longrightarrow> open_status j)"
  let ?status = "if rq_ephemeral rq then ''awaiting_ephemeral_chain_destruction''
        else if \<not> b then ''failed_preflight'' else ''failed_or_ambiguous''"
  have set: "triple (?V ?P) (journal_set ''status'' (JStr ?status)) (\<lambda>_. ?V ?Q) (\<lambda>_. ?V (SAFE key))"
    by (rule journal_set_triple)
      (auto simp: SAFE_def open_status_set RETRY_STATUSES_def RETRY_SAFE_JOURNAL_STATUSES_def)
  have keep: "keeps (?V ?Q) m \<Longrightarrow> triple (?V ?Q) m (\<lambda>_. ?V ?Q) (\<lambda>_. ?V (SAFE key))" for m :: "unit io"
    by (rule triple_keep) auto
  show "triple (?V ?P) (io_then (journal_set ''status'' (JStr ?status))
      (io_then (journal_set ''success'' (JBool False))
      (io_then (journal_set ''failure_type'' (JStr (exn_name e)))
      (io_then (journal_set ''failure'' (JStr (failure_text e)))
      (io_then (write_journal E ss) (io_raise e)))))) (\<lambda>_. ?V (SAFE key)) (\<lambda>_. ?V (SAFE key))"
    apply (rule triple_then[OF set])
    apply (rule triple_then[OF keep], rule journal_set_keeps, simp add: SAFE_def)+
    apply (rule triple_then[OF keep], rule write_journal_keeps)
     apply (auto simp: SAFE_def intro: stops_later_intro)[1]
    apply (rule triple_raise)
    apply (auto elim: viewing_mono)
    done
qed

lemma execute_session_triple:
  assumes m: "\<And>root c. passive_procedure E (materialize root c)" and b: "''--broadcast'' \<notin> set (rq_signer_cli rq)"
  shows "triple (viewing E (journal_path ss) (BEFORE key)) (execute_session E materialize rq src a ss ds output)
     (\<lambda>_. viewing E (journal_path ss) (SAFE key)) (\<lambda>_. viewing E (journal_path ss) (SAFE key))"
proof -
  let ?V = "viewing E (journal_path ss)"
  have before: "keeps (?V (BEFORE key)) m \<Longrightarrow>
      triple (?V (BEFORE key)) m (\<lambda>_. ?V (BEFORE key)) (\<lambda>_. ?V (SAFE key))" for m :: "'x io"
    by (rule triple_keep) (auto simp: assertions)
  have during: "keeps (?V (BROADCASTING key)) m \<Longrightarrow>
      triple (?V (BROADCASTING key)) m (\<lambda>_. ?V (BROADCASTING key)) (\<lambda>_. ?V (SAFE key))" for m :: "'x io"
    by (rule triple_keep) (auto simp: assertions)
  have done': "keeps (?V (BROADCASTING key)) m \<Longrightarrow>
      triple (?V (BROADCASTING key)) m (\<lambda>_. ?V (SAFE key)) (\<lambda>_. ?V (SAFE key))" for m :: "'x io"
    unfolding keeps_def by (erule triple_weaken) (auto elim: viewing_mono simp: assertions)
  show ?thesis
    unfolding execute_session_def
    apply (rule triple_then[OF before], rule simulate_keeps[OF m b])
    apply (rule triple_bind[OF preflight_triple])
    apply (rule triple_bind[OF during], rule deploy_all_keeps[OF m])
    apply (rule triple_bind[OF during], rule final_sweep_keeps)
    apply (rule triple_bind[OF during], rule keeps_lift)
    apply (rule done', rule publish_keeps)
    done
qed

lemma run_session_triple:
  assumes m: "\<And>root c. passive_procedure E (materialize root c)" and b: "''--broadcast'' \<notin> set (rq_signer_cli rq)"
    and apart: "apart ss (journal_path ss)"
  shows "triple (viewing E (journal_path ss) (\<lambda>j a f s. names key j \<and> \<not> s))
     (run_session E materialize rq src a ss ds output)
     (\<lambda>_. viewing E (journal_path ss) (SAFE key)) (\<lambda>_. viewing E (journal_path ss) (SAFE key))"
proof -
  let ?V = "viewing E (journal_path ss)"
  have clean: "triple (?V (SAFE key)) (clean_up E ss) (\<lambda>_. ?V (SAFE key)) (\<lambda>_. ?V (SAFE key))"
    using clean_up_keeps[OF apart] by (simp add: keeps_def)
  have body: "triple (?V (BEFORE key))
      (io_catch (execute_session E materialize rq src a ss ds output) (record_failure E rq ss))
      (\<lambda>_. ?V (SAFE key)) (\<lambda>_. ?V (SAFE key))"
    by (rule triple_catch[OF execute_session_triple[OF m b] record_failure_triple])
  have flag: "triple (?V (\<lambda>j a f s. names key j \<and> \<not> s)) (set_attempted False) (\<lambda>_. ?V (BEFORE key)) (\<lambda>_. ?V (SAFE key))"
    by (rule set_attempted_triple) (simp add: assertions)
  show ?thesis
    unfolding run_session_def
    by (rule triple_then[OF flag], rule triple_finally[OF body clean clean])
qed

section \<open>Up to the session\<close>

definition unsent :: "world \<Rightarrow> bool" where
  "unsent w \<longleftrightarrow> \<not> sent (trace w)"

interpretation silent: passive_invariant E unsent for E
  by unfold_locales (auto simp: unsent_def after_def passive_not_broadcast)

lemma passive_unsent: "passive_procedure E m \<Longrightarrow> keeps unsent m"
  using silent.passive_invariant_axioms by (auto simp: passive_procedure_def)

lemma mutate_unsent: "\<not> is_broadcast ev \<Longrightarrow> keeps unsent (mutate E ev f)"
  by (rule keepsI) (auto simp: unsent_def mutate_def step_def Let_def is_broadcast_def split: option.splits sum.splits)

context passive_invariant
begin

lemma read_source_keeps:
  "(\<And>root c. keeps I (materialize root c)) \<Longrightarrow> keeps I (read_source E materialize rq)"
  unfolding read_source_def Let_def
  by (intro keeps_rules path_keeps snapshot_keeps authority_keeps)

lemma open_network_keeps: "keeps I (open_network E rq plan)"
  unfolding open_network_def Let_def access_rpc_def
  by (intro keeps_rules network_record_keeps executor_rpc_keeps)

lemma check_deployments_keeps: "keeps I (check_deployments E rq src a)"
  unfolding check_deployments_def Let_def access_rpc_def
  by (intro keeps_rules passive_keeps nonce_keeps executor_rpc_keeps)

lemma session_of_keeps: "keeps I (session_of E rq src a ds)"
  unfolding session_of_def Let_def by (intro keeps_rules passive_keeps path_keeps)

lemma reject_keeps: "keeps I (reject_ambiguous_journals E q expected)"
  unfolding reject_ambiguous_journals_def classify_file_def
  by (intro keeps_rules passive_keeps read_json_keeps)

end

lemma acquire_unsent: "keeps unsent (acquire_execution_lock E q k sid)"
  unfolding acquire_execution_lock_def Let_def write_json_atomic_def write_bytes_atomic_def
  by (intro keeps_rules mutate_unsent) (simp_all add: is_broadcast_def)

lemma release_unsent: "keeps unsent (release_execution_lock E q)"
  unfolding release_execution_lock_def by (intro keeps_rules mutate_unsent) (simp_all add: is_broadcast_def)

lemma set_journal_unsent: "keeps unsent (set_journal j)"
  by (rule keepsI) (simp add: set_journal_def unsent_def)

lemma write_journal_unsent: "keeps unsent (write_journal E ss)"
proof (rule keepsI)
  fix w assume "unsent w"
  moreover have "keeps unsent (write_json_atomic E (journal_path ss) (JDict (journal w)))"
    unfolding write_json_atomic_def write_bytes_atomic_def by (intro mutate_unsent) (simp add: is_broadcast_def)
  ultimately show "unsent (snd (write_journal E ss w))"
    by (simp add: write_journal_def io_bind_def get_journal_def keepsD)
qed

lemma stage_unsent: "keeps unsent (stage E rq src ss)"
  unfolding stage_def Let_def make_dir_def make_session_dir_def write_bytes_atomic_def
  by (intro keeps_rules silent.reject_keeps mutate_unsent silent.path_keeps silent.snapshot_keeps
      silent.passive_keeps set_journal_unsent write_journal_unsent)
    (simp_all add: is_broadcast_def)

lemma open_session_unsent: "keeps unsent (open_session E rq src ss)"
  unfolding open_session_def by (intro keeps_rules acquire_unsent stage_unsent release_unsent)

text \<open>The session an execution works in.\<close>

lemma normpath_append: "normpath acc (xs @ ys) = normpath (rev (normpath acc xs)) ys"
  by (induction acc xs rule: normpath.induct) auto

lemma repo_path_Inr:
  assumes "repo_path E root (Abs (root @ q)) label w = (Inr p, w')" and "normpath [] root = root"
    and "list_all (\<lambda>s. s \<notin> {[], ''.'', ''..''}) q"
  shows "p = root @ q"
proof -
  have "normpath acc q = rev acc @ q" for acc
    using assms(3) by (induction q arbitrary: acc) auto
  moreover have "p = normpath [] (root @ q)"
    using observe_Inr assms(1) by (fastforce simp: repo_path_def normalize_repo_path_iff path_join_def)
  ultimately show ?thesis by (simp add: normpath_append assms(2))
qed

lemma session_of_Inr:
  assumes "session_of E rq src a ds w = (Inr ss, w')" and "normpath [] (rq_root rq) = rq_root rq"
  obtains key tr where "execution_key (hash E) (s_plan_sha src) (a_chain_id a) (a_sender a) = Inr key"
    and "dget (ss_identity ss) ''execution_key'' = JStr key"
    and "ss_parent ss = rq_root rq @ SESSION_ROOT" and "ss_root ss = ss_parent ss @ [uuid4_hex E tr]"
    and "ss_staging ss = rq_root rq @ STAGING_ROOT @ [uuid4_hex E tr]"
proof -
  obtain sid w1 staging w2 sparent w3 key lock_key identity where
    i: "fresh_session_id E w = (Inr sid, w1)"
    and st: "repo_path E (rq_root rq) (Abs (rq_root rq @ STAGING_ROOT)) ''canonical deployment staging root'' w1 = (Inr staging, w2)"
    and sp: "repo_path E (rq_root rq) (Abs (rq_root rq @ SESSION_ROOT)) ''canonical deployment session root'' w2 = (Inr sparent, w3)"
    and k: "execution_key (hash E) (s_plan_sha src) (a_chain_id a) (a_sender a) = Inr key"
    and "sender_lock_key (hash E) (a_chain_id a) (a_sender a) = Inr lock_key"
    and j: "journal_identity (hash E) src a ds key = Inr identity"
    and ss: "ss = \<lparr>ss_id = sid, ss_staging = staging @ [sid], ss_root = sparent @ [sid], ss_parent = sparent,
        ss_lock_key = lock_key, ss_identity = identity\<rparr>" and "w' = w3"
    by (insert assms(1)[unfolded session_of_def Let_def], elim io_elims) (rule that, assumption+)
  have "sid = uuid4_hex E (trace w)"
    using i by (auto simp: fresh_session_id_def step_def Let_def split: option.splits)
  moreover have "staging = rq_root rq @ STAGING_ROOT" "sparent = rq_root rq @ SESSION_ROOT"
    by (rule repo_path_Inr[OF st assms(2)], simp add: STAGING_ROOT_def,
        rule repo_path_Inr[OF sp assms(2)], simp add: SESSION_ROOT_def)
  moreover have "dget identity ''execution_key'' = JStr key"
    using j by (auto simp: journal_identity_def Let_def rbind_eq_Inr dget_def)
  ultimately show ?thesis using that[of key "trace w"] k ss by simp
qed

lemma write_journal_same: "write_journal E ss w = (Inr u, w') \<Longrightarrow> journal w' = journal w"
  using mutate_Inr
  by (fastforce simp: write_journal_def write_json_atomic_def write_bytes_atomic_def io_bind_def get_journal_def)

lemma stage_Inr:
  assumes "stage E rq src ss w = (Inr output, w')"
  shows "journal w' = initial_journal (ss_identity ss)"
    and "\<exists>u w1. reject_ambiguous_journals E (ss_parent ss) (ss_identity ss) w = (Inr u, w1)"
proof -
  obtain u w1 w2 w3 v w4 where r: "reject_ambiguous_journals E (ss_parent ss) (ss_identity ss) w = (Inr u, w1)"
    and s: "set_journal (initial_journal (ss_identity ss)) w2 = (Inr v, w3)"
    and j: "write_journal E ss w3 = (Inr w4, w')"
    by (insert assms[unfolded stage_def Let_def], elim io_elims) (hypsubst, rule that, assumption+)
  show "journal w' = initial_journal (ss_identity ss)"
    using write_journal_same[OF j] s by (auto simp: set_journal_def)
  show "\<exists>u w1. reject_ambiguous_journals E (ss_parent ss) (ss_identity ss) w = (Inr u, w1)"
    using r by blast
qed

lemma open_session_Inr:
  assumes "open_session E rq src ss w = (Inr output, w')"
  obtains w1 where "acquire_execution_lock E (ss_parent ss) (ss_lock_key ss) (ss_id ss) w = (Inr (lock_of ss), w1)"
    and "stage E rq src ss w1 = (Inr output, w')"
proof -
  obtain lock w1 where a: "acquire_execution_lock E (ss_parent ss) (ss_lock_key ss) (ss_id ss) w = (Inr lock, w1)"
    and c: "io_catch (stage E rq src ss) (\<lambda>e. io_then (release_execution_lock E (lock_of ss)) (io_raise e)) w1
      = (Inr output, w')"
    using assms by (auto simp only: open_session_def io_success)
  have "stage E rq src ss w1 = (Inr output, w')"
    using c by (auto simp: io_catch_def io_then_def io_bind_def io_raise_def split: prod.splits sum.splits if_splits)
  moreover have "lock = lock_of ss"
    using a by (auto simp: acquire_execution_lock_def Let_def io_success lock_of_def)
  ultimately show ?thesis using a that by blast
qed

lemma last_append_neq: "last p \<noteq> last q \<Longrightarrow> p \<noteq> q"
  by blast

lemma apart_journal:
  assumes "ss_parent ss = root @ SESSION_ROOT" "ss_root ss = ss_parent ss @ [sid]"
    and "ss_staging ss = root @ STAGING_ROOT @ [sid]"
  shows "apart ss (journal_path ss)"
proof -
  have "journal_path ss \<noteq> lock_of ss @ [''owner.json'']"
    by (simp add: journal_path_def JOURNAL_NAME_def)
  moreover have "\<not> prefix (ss_staging ss) (journal_path ss)"
    using assms by (simp add: journal_path_def SESSION_ROOT_def STAGING_ROOT_def)
  ultimately show ?thesis by (simp add: apart_def)
qed

lemma bind_sent:
  assumes "io_bind m f w = (r, w')" and "keeps unsent m" and "unsent w" and "\<not> unsent w'"
  obtains x w1 where "m w = (Inr x, w1)" and "unsent w1" and "f x w1 = (r, w')"
proof (cases "m w")
  case (Pair s w1)
  have u: "unsent w1" by (rule keeps_run[OF assms(2) Pair assms(3)])
  show ?thesis
  proof (cases s)
    case (Inl e)
    then show ?thesis using assms(1,4) Pair u by (simp add: io_bind_def)
  next
    case (Inr x)
    then show ?thesis using assms(1) Pair u that by (simp add: io_bind_def)
  qed
qed

lemma triple_end: "triple P m (\<lambda>_. Q) (\<lambda>_. Q) \<Longrightarrow> P w \<Longrightarrow> m w = (r, w') \<Longrightarrow> Q w'"
  using keeps_def by (cases r) (auto dest: triple_returns triple_raises)

lemma names_initial:
  "dget identity ''execution_key'' = JStr key \<Longrightarrow> names (JStr key) (initial_journal identity)"
  by (simp add: names_def initial_journal_def dget_def map_of_dmerge)

text \<open>The file of a session's journal, and that a journal there is unresolved.\<close>

definition journal_file :: "request \<Rightarrow> string \<Rightarrow> path" where
  "journal_file rq sid = rq_root rq @ SESSION_ROOT @ [sid, JOURNAL_NAME]"

definition unresolved_on_disk :: "request \<Rightarrow> string \<Rightarrow> string \<Rightarrow> world \<Rightarrow> bool" where
  "unresolved_on_disk rq sid key w \<longleftrightarrow>
     (\<exists>jnl. file_at (files w) (journal_file rq sid) = Some (str_bytes (json_text (JDict jnl))) \<and>
        unresolved [(''execution_key'', JStr key)] jnl)"

definition run_key :: "env \<Rightarrow> materialize \<Rightarrow> request \<Rightarrow> world \<Rightarrow> string \<Rightarrow> bool" where
  "run_key E materialize rq w key \<longleftrightarrow>
     (\<exists>src w1 a w2. read_source E materialize rq w = (Inr src, w1) \<and>
        open_network E rq (s_plan src) w1 = (Inr a, w2) \<and>
        execution_key (hash E) (s_plan_sha src) (a_chain_id a) (a_sender a) = Inr key)"

lemma unresolved_key:
  "names (JStr key) j \<Longrightarrow> open_status j \<Longrightarrow> unresolved [(''execution_key'', JStr key)] j"
  by (simp add: unresolved_def names_def open_status_def dget_def)

lemma run_crash_safe:
  assumes "\<And>root c. passive_procedure E (materialize root c)"
    and "''--broadcast'' \<notin> set (rq_signer_cli rq)" and "normpath [] (rq_root rq) = rq_root rq"
    and "\<And>sid. guarded E (journal_file rq sid)"
    and "\<not> sent (trace w)" and "execute_plan E materialize rq w = (r, w')" and "sent (trace w')"
  shows "\<exists>key sid. run_key E materialize rq w key \<and> unresolved_on_disk rq sid key w'"
proof -
  have mat: "keeps unsent (materialize root c)" for root c by (rule passive_unsent[OF assms(1)])
  have u: "unsent w" and nu: "\<not> unsent w'" using assms(5,7) by (auto simp: unsent_def)
  obtain src w1 where 1: "read_source E materialize rq w = (Inr src, w1)" "unsent w1"
    and r1: "io_bind (open_network E rq (s_plan src)) (\<lambda>a.
       io_bind (check_deployments E rq src a) (\<lambda>ds.
       io_bind (session_of E rq src a (d_list ds)) (\<lambda>ss.
       io_bind (open_session E rq src ss) (\<lambda>output.
       run_session E materialize rq src a ss ds output)))) w1 = (r, w')"
    by (rule bind_sent[OF assms(6)[unfolded execute_plan_def] silent.read_source_keeps[OF mat] u nu])
  obtain a w2 where 2: "open_network E rq (s_plan src) w1 = (Inr a, w2)" "unsent w2"
    and r2: "io_bind (check_deployments E rq src a) (\<lambda>ds.
       io_bind (session_of E rq src a (d_list ds)) (\<lambda>ss.
       io_bind (open_session E rq src ss) (\<lambda>output.
       run_session E materialize rq src a ss ds output))) w2 = (r, w')"
    by (rule bind_sent[OF r1 silent.open_network_keeps 1(2) nu])
  obtain ds w3 where 3: "unsent w3" and r3: "io_bind (session_of E rq src a (d_list ds)) (\<lambda>ss.
       io_bind (open_session E rq src ss) (\<lambda>output.
       run_session E materialize rq src a ss ds output)) w3 = (r, w')"
    by (rule bind_sent[OF r2 silent.check_deployments_keeps 2(2) nu])
  obtain ss w4 where s: "session_of E rq src a (d_list ds) w3 = (Inr ss, w4)" and 4: "unsent w4"
    and r4: "io_bind (open_session E rq src ss) (\<lambda>output.
       run_session E materialize rq src a ss ds output) w4 = (r, w')"
    by (rule bind_sent[OF r3 silent.session_of_keeps 3 nu])
  obtain out w5 where o: "open_session E rq src ss w4 = (Inr out, w5)" and 5: "unsent w5"
    and r5: "run_session E materialize rq src a ss ds out w5 = (r, w')"
    by (rule bind_sent[OF r4 open_session_unsent 4 nu])
  obtain key tr where k: "execution_key (hash E) (s_plan_sha src) (a_chain_id a) (a_sender a) = Inr key"
    and i: "dget (ss_identity ss) ''execution_key'' = JStr key"
    and p: "ss_parent ss = rq_root rq @ SESSION_ROOT" "ss_root ss = ss_parent ss @ [uuid4_hex E tr]"
      "ss_staging ss = rq_root rq @ STAGING_ROOT @ [uuid4_hex E tr]"
    by (rule session_of_Inr[OF s assms(3)])
  let ?sid = "uuid4_hex E tr"
  have jp: "journal_path ss = journal_file rq ?sid"
    using p by (simp add: journal_path_def journal_file_def)
  have "journal w5 = initial_journal (ss_identity ss)"
    by (rule open_session_Inr[OF o]) (rule stage_Inr)
  then have "viewing E (journal_path ss) (\<lambda>j a f s. names (JStr key) j \<and> \<not> s) w5"
    using 5 names_initial[OF i] assms(4) jp by (simp add: viewing_def unsent_def)
  from triple_end[OF run_session_triple[OF assms(1,2) apart_journal[OF p]] this r5]
  have "stops_later (JStr key) (file_at (files w') (journal_path ss))"
    using assms(7) by (simp add: viewing_def SAFE_def)
  then obtain j where "file_at (files w') (journal_file rq ?sid) = Some (journal_bytes j)"
    "names (JStr key) j" "open_status j"
    by (auto simp: stops_later_def jp)
  then have "unresolved_on_disk rq ?sid key w'"
    unfolding unresolved_on_disk_def journal_bytes_def by (blast intro: unresolved_key)
  moreover have "run_key E materialize rq w key"
    unfolding run_key_def using 1(1) 2(1) k by blast
  ultimately show ?thesis by blast
qed

section \<open>A second execution\<close>

lemma mutate_keeps_holding:
  assumes "\<And>fs fs'. f fs = Inr fs' \<Longrightarrow> file_at fs p = Some raw \<Longrightarrow> file_at fs' p = Some raw"
    and "\<And>fs fs'. f fs = Inr fs' \<Longrightarrow> path_exists fs q \<Longrightarrow> path_exists fs' q"
  shows "keeps (holds_file E p raw q) (mutate E ev f)"
proof (rule keepsI)
  fix w assume H: "holds_file E p raw q w"
  note i = holds_interfere[OF H]
  show "holds_file E p raw q (snd (mutate E ev f w))"
    using H i assms[of "interfere E (trace w) (files w)"]
    by (auto simp: holds_file_def mutate_def step_def Let_def split: option.splits sum.splits)
qed

lemma path_exists_iff: "path_exists fs q \<longleftrightarrow> (\<exists>n. map_of fs q = Some n \<and> n \<noteq> Link None)"
  by (auto simp: path_exists_def split: option.splits node.splits)

lemma path_exists_mkdir_parents: "mkdir_parents fs a = Inr fs' \<Longrightarrow> path_exists fs q \<Longrightarrow> path_exists fs' q"
  by (auto simp: path_exists_iff dest: map_of_mkdir_parents_present)

lemma path_exists_mkdir: "mkdir fs a = Inr fs' \<Longrightarrow> path_exists fs q \<Longrightarrow> path_exists fs' q"
  by (auto simp: mkdir_def path_exists_iff update_conv' split: if_splits)

lemma path_exists_replace: "replace_file fs a raw = Inr fs' \<Longrightarrow> path_exists fs q \<Longrightarrow> path_exists fs' q"
  by (auto simp: replace_file_def res_simps path_exists_iff update_conv' split: if_splits
      dest: map_of_mkdir_parents_present)

lemma acquire_keeps_holding:
  "p \<noteq> lock_path_of sp k @ [''owner.json''] \<Longrightarrow>
     keeps (holds_file E p raw q) (acquire_execution_lock E sp k sid)"
  unfolding acquire_execution_lock_def Let_def write_json_atomic_def write_bytes_atomic_def
  by (intro keeps_rules mutate_keeps_holding)
    (auto simp: file_at_mkdir file_at_replace intro: path_exists_mkdir_parents path_exists_mkdir path_exists_replace)

lemma stage_blocked:
  assumes "holds_file E p (str_bytes (json_text (JDict jnl))) (ss_parent ss) w"
    and "p = ss_parent ss @ [sid, JOURNAL_NAME]"
    and "unresolved [(''execution_key'', JStr key)] jnl" and "dget (ss_identity ss) ''execution_key'' = JStr key"
  shows "stage E rq src ss w \<noteq> (Inr output, w')"
proof
  assume "stage E rq src ss w = (Inr output, w')"
  from stage_Inr(2)[OF this]
  obtain u w1 where "reject_ambiguous_journals E (ss_parent ss) (ss_identity ss) w = (Inr u, w1)" by blast
  moreover have "unresolved (ss_identity ss) jnl"
    using assms(3,4) by (simp add: unresolved_def dget_def)
  ultimately show False using reject_holding[OF assms(1,2) _ assms(4)] by blast
qed

lemma open_session_blocked:
  assumes "holds_file E p (str_bytes (json_text (JDict jnl))) (ss_parent ss) w"
    and "p = ss_parent ss @ [sid, JOURNAL_NAME]"
    and "unresolved [(''execution_key'', JStr key)] jnl" and "dget (ss_identity ss) ''execution_key'' = JStr key"
  shows "open_session E rq src ss w \<noteq> (Inr output, w')"
proof
  assume "open_session E rq src ss w = (Inr output, w')"
  from this obtain w1 where a: "acquire_execution_lock E (ss_parent ss) (ss_lock_key ss) (ss_id ss) w = (Inr (lock_of ss), w1)"
    and s: "stage E rq src ss w1 = (Inr output, w')" by (rule open_session_Inr)
  have "p \<noteq> lock_path_of (ss_parent ss) (ss_lock_key ss) @ [''owner.json'']"
    by (simp add: assms(2) JOURNAL_NAME_def)
  from keeps_run[OF acquire_keeps_holding[OF this] a assms(1)] s assms(2-4) stage_blocked
  show False by blast
qed

lemma passive_held: "passive_procedure E m \<Longrightarrow> keeps (holds_file E p raw q) m"
  using held.passive_invariant_axioms by (auto simp: passive_procedure_def)

lemma keeps_conj: "keeps I m \<Longrightarrow> keeps J m \<Longrightarrow> keeps (\<lambda>w. I w \<and> J w) m"
  by (rule keepsI) (simp add: keepsD)

lemma triple_keeps: "keeps I m \<Longrightarrow> (\<And>w. I w \<Longrightarrow> R w) \<Longrightarrow> triple I m (\<lambda>_. I) (\<lambda>_. R)"
  unfolding keeps_def by (erule triple_weaken)

text \<open>The rest of a run whose key is that of a journal left open: it cannot return, and sends nothing.\<close>

lemma rest_blocked:
  fixes sid :: string
  assumes "normpath [] (rq_root rq) = rq_root rq"
    and k: "execution_key (hash E) (s_plan_sha src) (a_chain_id a) (a_sender a) = Inr key"
    and jnl: "unresolved [(''execution_key'', JStr key)] jnl"
  defines "I \<equiv> \<lambda>w. holds_file E (journal_file rq sid) (str_bytes (json_text (JDict jnl))) (rq_root rq @ SESSION_ROOT) w
    \<and> unsent w"
  shows "triple I (io_bind (check_deployments E rq src a) (\<lambda>ds.
      io_bind (session_of E rq src a (d_list ds)) (\<lambda>ss.
      io_bind (open_session E rq src ss) (\<lambda>out.
      run_session E materialize rq src a ss ds out)))) (\<lambda>_ _. False) (\<lambda>_. unsent)"
proof (rule triple_bind[where Q' = "\<lambda>_. I"])
  show "triple I (check_deployments E rq src a) (\<lambda>_. I) (\<lambda>_. unsent)"
    by (rule triple_keeps) (simp_all add: I_def keeps_conj held.check_deployments_keeps silent.check_deployments_keeps)
  fix ds
  let ?good = "\<lambda>ss. ss_parent ss = rq_root rq @ SESSION_ROOT \<and> dget (ss_identity ss) ''execution_key'' = JStr key"
  show "triple I (io_bind (session_of E rq src a (d_list ds)) (\<lambda>ss.
      io_bind (open_session E rq src ss) (\<lambda>out.
      run_session E materialize rq src a ss ds out))) (\<lambda>_ _. False) (\<lambda>_. unsent)"
  proof (rule triple_bind[where Q' = "\<lambda>ss w. I w \<and> ?good ss"])
    have c: "keeps I (session_of E rq src a (d_list ds))"
      by (simp add: I_def keeps_conj held.session_of_keeps silent.session_of_keeps)
    show "triple I (session_of E rq src a (d_list ds)) (\<lambda>ss w. I w \<and> ?good ss) (\<lambda>_. unsent)"
    proof (rule tripleI)
      fix w e w' assume "I w" "session_of E rq src a (d_list ds) w = (Inl e, w')"
      with keeps_run[OF c] show "unsent w'" by (auto simp: I_def)
    next
      fix w ss w' assume "I w" and s: "session_of E rq src a (d_list ds) w = (Inr ss, w')"
      then have "I w'" using keeps_run[OF c] by blast
      moreover have "?good ss" using k by (rule_tac session_of_Inr[OF s assms(1)]) simp
      ultimately show "I w' \<and> ?good ss" by blast
    qed
    fix ss
    show "triple (\<lambda>w. I w \<and> ?good ss) (io_bind (open_session E rq src ss) (\<lambda>out.
      run_session E materialize rq src a ss ds out)) (\<lambda>_ _. False) (\<lambda>_. unsent)"
    proof (rule triple_bind[where Q' = "\<lambda>_ _. False"])
      show "triple (\<lambda>w. I w \<and> ?good ss) (open_session E rq src ss) (\<lambda>_ _. False) (\<lambda>_. unsent)"
      proof (rule tripleI)
        fix w e w' assume "I w \<and> ?good ss" "open_session E rq src ss w = (Inl e, w')"
        with keeps_run[OF open_session_unsent] show "unsent w'" by (auto simp: I_def)
      next
        fix w out w' assume "I w \<and> ?good ss" "open_session E rq src ss w = (Inr out, w')"
        with open_session_blocked[where p = "journal_file rq sid" and sid = sid, OF _ _ jnl] show False
          by (auto simp: I_def journal_file_def)
      qed
    qed (simp add: triple_def)
  qed
qed

lemma triple_false: "triple P m (\<lambda>_ _. False) (\<lambda>_. Q) \<Longrightarrow> P w \<Longrightarrow> \<exists>e w'. m w = (Inl e, w') \<and> Q w'"
  by (cases "m w"; cases "fst (m w)") (auto dest: triple_returns triple_raises)

lemma run_blocked:
  assumes "\<And>root c. passive_procedure E (materialize root c)"
    and "normpath [] (rq_root rq) = rq_root rq"
    and "undisturbed E (journal_file rq sid)"
    and "path_exists (files w) (rq_root rq @ SESSION_ROOT)"
    and "unresolved_on_disk rq sid key w" and "run_key E materialize rq w key"
    and "\<not> sent (trace w)"
  shows "\<exists>e w'. execute_plan E materialize rq w = (Inl e, w') \<and> \<not> sent (trace w')"
proof -
  obtain src w1 a w2 where 1: "read_source E materialize rq w = (Inr src, w1)"
    and 2: "open_network E rq (s_plan src) w1 = (Inr a, w2)"
    and k: "execution_key (hash E) (s_plan_sha src) (a_chain_id a) (a_sender a) = Inr key"
    using assms(6) unfolding run_key_def by blast
  obtain jnl where jnl: "file_at (files w) (journal_file rq sid) = Some (str_bytes (json_text (JDict jnl)))"
    "unresolved [(''execution_key'', JStr key)] jnl"
    using assms(5) unfolding unresolved_on_disk_def by blast
  let ?H = "holds_file E (journal_file rq sid) (str_bytes (json_text (JDict jnl))) (rq_root rq @ SESSION_ROOT)"
  have m: "keeps ?H (materialize root c)" "keeps unsent (materialize root c)" for root c
    by (rule passive_held[OF assms(1)], rule passive_unsent[OF assms(1)])
  have "?H w" and "unsent w"
    using assms(3,4,7) jnl(1) by (simp_all add: holds_file_def journal_file_def strict_prefix_def unsent_def)
  then have "?H w1" and "unsent w1"
    using keeps_run[OF held.read_source_keeps[OF m(1)] 1] keeps_run[OF silent.read_source_keeps[OF m(2)] 1] by blast+
  then have "?H w2 \<and> unsent w2"
    using keeps_run[OF held.open_network_keeps 2] keeps_run[OF silent.open_network_keeps 2] by blast
  from triple_false[OF rest_blocked[OF assms(2) k jnl(2)] this]
  show ?thesis
    unfolding execute_plan_def unsent_def by (simp add: io_bind_def 1 2)
qed

end
