(* ===== verification/Materializer.thy ===== *)
theory Materializer
  imports Checker Safety
begin

text \<open>
  The materializer of deployment plans, from
  \<open>tools/deployment/materialize_canonical_deployment_plan.py\<close>: the projection of a complete v2
  candidate (\<open>validate_complete_v2_candidate\<close>), the target catalog of the release receipt and
  the binding of a candidate to the snapshots of its release build
  (\<open>validate_receipt_binding\<close>), the code and hashes of one deployment
  (\<open>materialize_instance\<close>), the plan (\<open>materialize_deployment_plan\<close>), and writing and checking
  it (\<open>write_output\<close>, \<open>check_output\<close>, \<open>main\<close>). The validation of the release output itself is
  the parameter \<open>release_output\<close> of the environment.
\<close>


section \<open>Constants\<close>

definition PLAN_SCHEMA :: string where
  "PLAN_SCHEMA = ''6529stream.canonical-deployment-plan.v1''"

definition PLAN_GENERATOR :: string where
  "PLAN_GENERATOR = ''tools/deployment/materialize_canonical_deployment_plan.py:4''"

definition CANDIDATE_SCHEMA_PATH :: path where
  "CANDIDATE_SCHEMA_PATH = [''deployments'', ''schema'', ''canonical-deployment-candidate.schema.json'']"

definition PLAN_SCHEMA_PATH :: path where
  "PLAN_SCHEMA_PATH = [''deployments'', ''schema'', ''canonical-deployment-plan.schema.json'']"

definition EIP3860_MAX_INITCODE_SIZE :: nat where
  "EIP3860_MAX_INITCODE_SIZE = 49152"

section \<open>Complete v2 candidates\<close>

definition v2_library_binding :: "string \<Rightarrow> nat \<Rightarrow> json \<Rightarrow> json res" where
  "v2_library_binding path index item =
     rbind (require_dict item (indexed path index)) (\<lambda>reference.
     rbind (require_exact_keys reference [''library_id'', ''source'', ''name'', ''address''] (indexed path index)) (\<lambda>_.
     rbind (dsub reference ''source'') (\<lambda>source.
     rbind (dsub reference ''name'') (\<lambda>name.
     rbind (dsub reference ''address'') (\<lambda>address.
     Inr (JDict [(''source'', source), (''name'', name), (''address'', address)]))))))"

definition v2_library_bindings :: "json \<Rightarrow> string \<Rightarrow> json list res" where
  "v2_library_bindings value path =
     rbind (require_list value path) (\<lambda>references. each (v2_library_binding path) 0 references)"

definition v2_deployable_projection ::
  "json \<Rightarrow> nat \<Rightarrow> string \<Rightarrow> int option \<Rightarrow> string \<Rightarrow> deployable res" where
  "v2_deployable_projection value index identifier_key profile_entry_id path =
     rbind (require_dict value path) (\<lambda>item.
     rbind (v2_library_bindings (dget item ''linked_libraries'') (path @ ''.linked_libraries'')) (\<lambda>libraries.
     rbind (validate_instance (JDict
         [(''order'', JInt (int index + 1)), (''instance_id'', dget item identifier_key),
          (''profile_entry_id'', case profile_entry_id of None \<Rightarrow> JNull | Some i \<Rightarrow> JInt i),
          (''target'', dget item ''target''), (''depends_on'', dget item ''depends_on''),
          (''constructor'', dget item ''constructor''), (''libraries'', JList libraries),
          (''runtime'', dget item ''runtime''),
          (''expected_initcode_keccak256'', dget item ''expected_initcode_keccak256'')]) index) (\<lambda>validated.
     rbind (require_address False (dget item ''address'') (path @ ''.address'')) (\<lambda>address.
     rbind (require_keccak (dget item ''expected_linked_creation_keccak256'')
         (path @ ''.expected_linked_creation_keccak256'')) (\<lambda>linked.
     Inr (validated\<lparr>dp_v2 := Some (address, linked)\<rparr>))))))"

definition v2_library :: "nat \<Rightarrow> json \<Rightarrow> deployable res" where
  "v2_library index library =
     v2_deployable_projection library index ''library_id'' None (indexed ''candidate.linked_libraries'' index)"

definition v2_instance :: "nat \<Rightarrow> nat \<Rightarrow> json \<Rightarrow> deployable res" where
  "v2_instance libraries index item =
     (let path = indexed ''candidate.instances'' index in
      rbind (require_dict item path) (\<lambda>d.
      rbind (require_int (dget d ''profile_entry_id'') (path @ ''.profile_entry_id'')) (\<lambda>profile_entry_id.
      v2_deployable_projection item (libraries + index) ''instance_id'' (Some profile_entry_id) path)))"

definition v2_deployables :: "dict \<Rightarrow> deployable list res" where
  "v2_deployables candidate =
     rbind (require_list (dget candidate ''linked_libraries'') ''candidate.linked_libraries'') (\<lambda>libraries.
     rbind (require_list (dget candidate ''instances'') ''candidate.instances'') (\<lambda>instances.
     rbind (each v2_library 0 libraries) (\<lambda>projected_libraries.
     rbind (each (v2_instance (length libraries)) 0 instances) (\<lambda>projected_instances.
     let projected = projected_libraries @ projected_instances in
     if projected = [] then plan_error ''complete canonical deployment candidate v2 has no deployables''
     else if \<not> distinct (map dp_id projected)
     then plan_error ''canonical deployment candidate v2 deployable IDs collide''
     else rbind (check_dependencies ''candidate deployable'' {} projected) (\<lambda>_. Inr projected)))))"

definition v2_network :: "dict \<Rightarrow> dict res" where
  "v2_network network =
     rbind (require_string (dget network ''environment'') ''candidate.network.environment'') (\<lambda>environment.
     rbind (require_identifier (dget network ''name'') ''candidate.network.name'') (\<lambda>name.
     rbind (require_int (dget network ''chain_id'') ''candidate.network.chain_id'') (\<lambda>chain_id.
     Inr [(''environment'', JStr environment), (''name'', JStr name), (''chain_id'', JInt chain_id)])))"

definition v2_binding :: "dict \<Rightarrow> release_binding res" where
  "v2_binding release_binding = validate_release_build_binding (JDict (map (\<lambda>key. (key, dget release_binding key))
     [''receipt_path'', ''receipt_sha256'', ''target_catalog_sha256'', ''config_path'', ''config_sha256'',
      ''foundry_config_path'', ''foundry_config_sha256'']))"

text \<open>The projection of a candidate whose audit found nothing missing.\<close>

definition project_v2 :: "dict \<Rightarrow> string \<times> string \<Rightarrow> Candidate.candidate res" where
  "project_v2 candidate identity =
     rbind (v2_deployables candidate) (\<lambda>projected.
     rbind (require_dict (dget candidate ''release_build'') ''candidate.release_build'') (\<lambda>release_binding.
     rbind (require_dict (dget candidate ''network'') ''candidate.network'') (\<lambda>network.
     rbind (require_identifier (dget candidate ''candidate_id'') ''candidate.candidate_id'') (\<lambda>candidate_id.
     rbind (v2_network network) (\<lambda>projected_network.
     rbind (v2_binding release_binding) (\<lambda>binding.
     Inr \<lparr>cd_schema = CANDIDATE_V2_SCHEMA, cd_id = candidate_id, cd_kind = ''genesis_release_candidate'',
       cd_production = True, cd_network = projected_network, cd_binding = binding, cd_instances = projected,
       cd_identity = Some identity\<rparr>))))))"

definition as_plan_error :: "exn \<Rightarrow> exn" where
  "as_plan_error e =
     (case e of CandidateError m \<Rightarrow> DeploymentPlanError m | ValueError m \<Rightarrow> DeploymentPlanError m | _ \<Rightarrow> e)"

definition audited_candidate :: "env \<Rightarrow> path \<Rightarrow> path \<Rightarrow> candidate_audit io" where
  "audited_candidate E root candidate_path =
     io_rename as_plan_error
       (io_bind (lift (case relative_to candidate_path root of
            None \<Rightarrow> Inl (ValueError (path_text candidate_path @ '' is not in the subpath of '' @ path_text root))
          | Some relative \<Rightarrow> Inr relative)) (\<lambda>relative.
        require_complete_candidate E root (Rel relative)))"

definition validate_complete_v2_candidate :: "env \<Rightarrow> path \<Rightarrow> path \<Rightarrow> (Candidate.candidate \<times> string) io" where
  "validate_complete_v2_candidate E root candidate_path =
     io_bind (audited_candidate E root candidate_path) (\<lambda>audit.
     io_bind (load_json_with_sha256 E candidate_path) (\<lambda>(candidate_value, candidate_sha).
     io_bind (lift (require_dict candidate_value ''candidate'')) (\<lambda>candidate.
     io_then (require (candidate_sha = au_raw_sha256 audit)
       (DeploymentPlanError ''canonical deployment candidate v2 changed after completeness audit''))
     (io_bind (lift (rmap_exn (\<lambda>e. case e of CandidateError m \<Rightarrow> DeploymentPlanError m | _ \<Rightarrow> e)
         (candidate_identity E candidate))) (\<lambda>identity.
      io_then (require (identity = (au_identity_sha256 audit, au_identity_keccak256 audit))
        (DeploymentPlanError ''canonical deployment candidate v2 identity changed after audit''))
      (io_bind (lift (project_v2 candidate identity)) (\<lambda>projected.
       io_return (projected, candidate_sha))))))))"


section \<open>The release receipt\<close>

definition catalog_record :: "json \<Rightarrow> string \<Rightarrow> target res" where
  "catalog_record item path =
     rbind (require_dict item path) (\<lambda>t.
     rbind (require_string (dget t ''kind'') (path @ ''.kind'')) (\<lambda>kind.
     rbind (require_solidity_name (dget t ''name'') (path @ ''.name'')) (\<lambda>name.
     rbind (require_safe_relative_path (dget t ''source'') (path @ ''.source'')) (\<lambda>source.
     rbind (require_safe_relative_path (dget t ''artifact_relative_path'') (path @ ''.artifact_relative_path''))
       (\<lambda>artifact_path.
     rbind (require_sha256 (dget t ''artifact_sha256'') (path @ ''.artifact_sha256'')) (\<lambda>artifact_sha256.
     Inr \<lparr>tg_kind = kind, tg_name = name, tg_source = source, tg_artifact_path = artifact_path,
       tg_artifact_sha256 = artifact_sha256\<rparr>))))))"

type_synonym target_id = "string \<times> string \<times> string"

definition target_identity :: "target \<Rightarrow> target_id" where
  "target_identity t = (tg_kind t, tg_name t, tg_source t)"

fun catalog_from :: "target_id list \<Rightarrow> nat \<Rightarrow> json list \<Rightarrow> target list res" where
  "catalog_from identities index [] = Inr []"
| "catalog_from identities index (item # items) =
     rbind (catalog_record item (indexed ''release receipt.targets'' index)) (\<lambda>entry.
     if target_identity entry \<in> set identities
     then plan_error (''release receipt contains a duplicate target identity: '' @
       join '':'' [tg_kind entry, tg_name entry, tg_source entry])
     else
       rbind (catalog_from (target_identity entry # identities) (Suc index) items) (\<lambda>catalog.
       Inr (entry # catalog)))"

definition target_catalog :: "dict \<Rightarrow> target list res" where
  "target_catalog receipt =
     rbind (require_list (dget receipt ''targets'') ''release receipt.targets'') (\<lambda>records.
     rbind (catalog_from [] 0 records) (\<lambda>catalog.
     if catalog = [] then plan_error ''release receipt target catalog must not be empty'' else Inr catalog))"

definition target_json :: "target \<Rightarrow> json" where
  "target_json t = JDict
     [(''kind'', JStr (tg_kind t)), (''name'', JStr (tg_name t)), (''source'', JStr (tg_source t)),
      (''artifact_relative_path'', JStr (tg_artifact_path t)), (''artifact_sha256'', JStr (tg_artifact_sha256 t))]"

definition catalog_sha256 :: "hashes \<Rightarrow> target list \<Rightarrow> string" where
  "catalog_sha256 H catalog = sha256_bytes H (canonical_json_bytes (JList (map target_json catalog)))"

definition target_catalog_sha256 :: "hashes \<Rightarrow> dict \<Rightarrow> string res" where
  "target_catalog_sha256 H receipt = rbind (target_catalog receipt) (\<lambda>catalog. Inr (catalog_sha256 H catalog))"

definition receipt_target_map :: "target list \<Rightarrow> (target_id \<times> target) list" where
  "receipt_target_map catalog = rev (map (\<lambda>item. (target_identity item, item)) catalog)"

definition default_receipt_validator ::
  "env \<Rightarrow> path \<Rightarrow> path \<Rightarrow> path \<Rightarrow> path \<Rightarrow> validated_output io" where
  "default_receipt_validator E root config_path foundry_config_path output_dir =
     step E (\<lambda>tr fs. (Observed,
       rmap_exn (\<lambda>e. case e of
           ReleaseBuildError m \<Rightarrow> DeploymentPlanError (''canonical release build validation failed: '' @ m)
         | _ \<Rightarrow> e)
         (release_output E tr root config_path foundry_config_path output_dir), fs))"

section \<open>The binding of a candidate to its release build\<close>

record release_paths =
  rp_config :: path
  rp_foundry :: path
  rp_output :: path
  rp_receipt :: path

definition release_paths_of :: "env \<Rightarrow> path \<Rightarrow> release_binding \<Rightarrow> release_paths io" where
  "release_paths_of E root binding =
     io_bind (repo_path E root (parse_path (rb_config_path binding)) ''candidate release config'') (\<lambda>config_path.
     io_bind (repo_path E root (parse_path (rb_foundry_path binding)) ''candidate Foundry config'') (\<lambda>foundry_path.
     io_bind (repo_path E root (Rel [''out-release'']) ''canonical release output'') (\<lambda>output_dir.
     io_bind (repo_path E root (parse_path (rb_receipt_path binding)) ''canonical release receipt'') (\<lambda>receipt_path.
     io_return \<lparr>rp_config = config_path, rp_foundry = foundry_path, rp_output = output_dir,
       rp_receipt = receipt_path\<rparr>))))"

definition stale :: "string \<Rightarrow> string \<Rightarrow> string \<Rightarrow> unit res" where
  "stale what expected actual =
     (if actual \<noteq> expected
      then plan_error (what @ '' is stale: expected '' @ expected @ '', got '' @ actual) else Inr ())"

definition check_receipt_snapshot ::
  "hashes \<Rightarrow> release_binding \<Rightarrow> release_paths \<Rightarrow> validated_output \<Rightarrow> (dict \<times> string) res" where
  "check_receipt_snapshot H binding ps out =
     rbind (require_dict (vo_receipt out) ''validated release receipt'') (\<lambda>validated_receipt.
     rbind (validate_release_file_snapshot H (vo_receipt_snapshot out) (rp_receipt ps) ''canonical release receipt'')
       (\<lambda>(receipt_raw, receipt_sha).
     rbind (decode_json_bytes receipt_raw (path_text (rp_receipt ps))) (\<lambda>receipt_value.
     rbind (require_dict receipt_value ''canonical release receipt'') (\<lambda>receipt.
     if \<not> py_eq (JDict receipt) (JDict validated_receipt)
     then plan_error ''validated release receipt snapshot disagrees''
     else
       rbind (stale ''candidate release receipt hash'' (rb_receipt_sha256 binding) receipt_sha) (\<lambda>_.
       Inr (receipt, receipt_sha))))))"

definition check_config_snapshots ::
  "hashes \<Rightarrow> release_binding \<Rightarrow> release_paths \<Rightarrow> validated_output \<Rightarrow> unit res" where
  "check_config_snapshots H binding ps out =
     rbind (validate_release_file_snapshot H (vo_config_snapshot out) (rp_config ps) ''candidate release config'')
       (\<lambda>(config_raw, config_sha).
     rbind (stale ''candidate release config hash'' (rb_config_sha256 binding) config_sha) (\<lambda>_.
     rbind (decode_json_bytes config_raw (path_text (rp_config ps))) (\<lambda>config_value.
     rbind (require_dict config_value ''candidate release config'') (\<lambda>_.
     rbind (validate_release_file_snapshot H (vo_foundry_config_snapshot out) (rp_foundry ps)
         ''candidate Foundry config'') (\<lambda>(_, foundry_sha).
     stale ''candidate Foundry config hash'' (rb_foundry_sha256 binding) foundry_sha)))))"

definition check_receipt_source :: "release_binding \<Rightarrow> dict \<Rightarrow> unit res" where
  "check_receipt_source binding receipt =
     rbind (require_dict (dget receipt ''source'') ''release receipt.source'') (\<lambda>source.
     if dget source ''config'' \<noteq> JStr (rb_config_path binding)
     then plan_error ''candidate release config path mismatches receipt''
     else if dget source ''config_sha256'' \<noteq> JStr (rb_config_sha256 binding)
     then plan_error ''candidate release config hash mismatches receipt''
     else if dget source ''foundry_config'' \<noteq> JStr (rb_foundry_path binding)
     then plan_error ''candidate Foundry config path mismatches receipt''
     else if dget source ''foundry_config_sha256'' \<noteq> JStr (rb_foundry_sha256 binding)
     then plan_error ''candidate Foundry config hash mismatches receipt''
     else Inr ())"

definition checked_catalog :: "hashes \<Rightarrow> release_binding \<Rightarrow> dict \<Rightarrow> target list res" where
  "checked_catalog H binding receipt =
     rbind (target_catalog receipt) (\<lambda>catalog.
     rbind (stale ''candidate target catalog hash'' (rb_catalog_sha256 binding) (catalog_sha256 H catalog)) (\<lambda>_.
     Inr catalog))"

fun expected_artifacts ::
  "env \<Rightarrow> path \<Rightarrow> path \<Rightarrow> (path \<times> target) list \<Rightarrow> target list \<Rightarrow> (path \<times> target) list io" where
  "expected_artifacts E root output_dir found [] = io_return found"
| "expected_artifacts E root output_dir found (t # ts) =
     io_bind (repo_path E root (Abs (path_join output_dir (parse_path (tg_artifact_path t))))
       (''validated release artifact '' @ tg_source t @ '':'' @ tg_name t)) (\<lambda>artifact_path.
     if artifact_path \<in> fst ` set found
     then lift (plan_error (''release receipt contains duplicate artifact path: '' @ path_text artifact_path))
     else expected_artifacts E root output_dir (found @ [(artifact_path, t)]) ts)"

fun artifact_bytes ::
  "hashes \<Rightarrow> (path \<times> target) list \<Rightarrow> nat \<Rightarrow> (path \<times> byte list) list \<Rightarrow> release_snapshot list \<Rightarrow>
   (path \<times> byte list) list res" where
  "artifact_bytes H expected index found [] = Inr found"
| "artifact_bytes H expected index found (s # ss) =
     (case map_of expected (snap_path s) of
        None \<Rightarrow> plan_error (''validated release artifact snapshot set contains an unexpected path: '' @
          path_text (snap_path s))
      | Some t \<Rightarrow>
          rbind (validate_release_file_snapshot H s (snap_path s)
            (''validated release artifact snapshot '' @ dec index)) (\<lambda>(artifact_raw, artifact_sha).
          if artifact_sha \<noteq> tg_artifact_sha256 t
          then plan_error (''validated release artifact hash is stale or mutated: expected '' @
            tg_artifact_sha256 t @ '', got '' @ artifact_sha)
          else if snap_path s \<in> fst ` set found
          then plan_error (''validated release artifact snapshot set contains a duplicate path: '' @
            path_text (snap_path s))
          else artifact_bytes H expected (Suc index) (found @ [(snap_path s, artifact_raw)]) ss))"

type_synonym artifacts = "(path \<times> dict) list"

definition decode_artifact :: "(path \<times> byte list) list \<Rightarrow> path \<Rightarrow> (path \<times> dict) res" where
  "decode_artifact raws p =
     (case map_of raws p of
        None \<Rightarrow> Inl (KeyError (path_text p))
      | Some raw \<Rightarrow>
          rbind (decode_json_bytes raw (path_text p)) (\<lambda>v.
          rbind (require_dict v (path_text p)) (\<lambda>artifact. Inr (p, artifact))))"

definition release_artifacts ::
  "hashes \<Rightarrow> (path \<times> target) list \<Rightarrow> validated_output \<Rightarrow> artifacts res" where
  "release_artifacts H expected out =
     rbind (artifact_bytes H expected 0 [] (vo_artifact_snapshots out)) (\<lambda>raws.
     let missing = sort (filter (\<lambda>p. p \<notin> fst ` set raws) (map fst expected)) in
     if missing \<noteq> []
     then plan_error (''validated release artifact snapshot set is incomplete: '' @ join '', '' (map path_text missing))
     else each (\<lambda>_. decode_artifact raws) 0 (sort (map fst expected)))"

record bound_release =
  br_receipt :: dict
  br_receipt_path :: path
  br_receipt_sha :: string
  br_catalog :: "target list"
  br_artifacts :: artifacts

definition validate_receipt_binding :: "env \<Rightarrow> path \<Rightarrow> Candidate.candidate \<Rightarrow> bound_release io" where
  "validate_receipt_binding E root c =
     (let binding = cd_binding c in
      io_bind (release_paths_of E root binding) (\<lambda>ps.
      io_bind (default_receipt_validator E root (rp_config ps) (rp_foundry ps) (rp_output ps)) (\<lambda>out.
      io_bind (lift (check_receipt_snapshot (hash E) binding ps out)) (\<lambda>(receipt, receipt_sha).
      io_then (lift (check_config_snapshots (hash E) binding ps out))
      (io_then (lift (check_receipt_source binding receipt))
      (io_bind (lift (checked_catalog (hash E) binding receipt)) (\<lambda>catalog.
       io_bind (expected_artifacts E root (rp_output ps) [] catalog) (\<lambda>expected.
       io_bind (lift (release_artifacts (hash E) expected out)) (\<lambda>artifacts.
       io_return \<lparr>br_receipt = receipt, br_receipt_path = rp_receipt ps, br_receipt_sha = receipt_sha,
         br_catalog = catalog, br_artifacts = artifacts\<rparr>)))))))))"


section \<open>One deployment\<close>

definition instance_label :: "deployable \<Rightarrow> string" where
  "instance_label d = ''candidate instance '' @ dp_id d"

definition check_target :: "(target_id \<times> target) list \<Rightarrow> deployable \<Rightarrow> unit res" where
  "check_target targets d =
     (case map_of targets (target_identity (dp_target d)) of
        None \<Rightarrow> plan_error (instance_label d @ '' target does not exist in the canonical release receipt'')
      | Some t \<Rightarrow>
          if dp_target d \<noteq> t
          then plan_error (instance_label d @ '' target binding does not exactly match the release receipt'')
          else Inr ())"

text \<open>
  \<open>(repo_root / "out-release").resolve()\<close> is the path itself: a link there has just been
  refused by \<open>normalize_repo_path\<close>.
\<close>

definition find_artifact :: "env \<Rightarrow> path \<Rightarrow> artifacts \<Rightarrow> deployable \<Rightarrow> dict io" where
  "find_artifact E root artifacts d =
     io_bind (repo_path E root
         (case parse_path (tg_artifact_path (dp_target d)) of Rel p \<Rightarrow> Rel (''out-release'' # p) | Abs p \<Rightarrow> Abs p)
         (instance_label d @ '' artifact'')) (\<lambda>artifact_path.
     lift (if relative_to artifact_path (root @ [''out-release'']) = None
       then plan_error (instance_label d @ '' artifact path contaminates a non-canonical output'')
       else
         (case map_of artifacts artifact_path of
            None \<Rightarrow> plan_error (instance_label d @ '' artifact is missing from validated release snapshots'')
          | Some artifact \<Rightarrow> Inr artifact)))"

record artifact_code =
  ac_creation :: string
  ac_runtime :: string
  ac_creation_links :: link_table
  ac_runtime_links :: link_table
  ac_immutables :: immutable_table

definition artifact_code_of :: "dict \<Rightarrow> string \<Rightarrow> artifact_code res" where
  "artifact_code_of artifact label =
     (let code = label @ ''.bytecode''; deployed = label @ ''.deployedBytecode'' in
      rbind (require_dict (dget artifact ''bytecode'') code) (\<lambda>bytecode.
      rbind (require_dict (dget artifact ''deployedBytecode'') deployed) (\<lambda>deployed_bytecode.
      rbind (bytecode_object (JDict bytecode) code) (\<lambda>creation.
      rbind (bytecode_object (JDict deployed_bytecode) deployed) (\<lambda>runtime.
      let creation_length = int (length creation div 2); runtime_length = int (length runtime div 2) in
      rbind (normalize_references (dget bytecode ''linkReferences'') creation_length (code @ ''.linkReferences''))
        (\<lambda>creation_links.
      rbind (normalize_references (dget deployed_bytecode ''linkReferences'') runtime_length
        (deployed @ ''.linkReferences'')) (\<lambda>runtime_links.
      rbind (normalize_immutable_references (dget deployed_bytecode ''immutableReferences'') runtime_length
        (deployed @ ''.immutableReferences'')) (\<lambda>immutables.
      Inr \<lparr>ac_creation = creation, ac_runtime = runtime, ac_creation_links = creation_links,
        ac_runtime_links = runtime_links, ac_immutables = immutables\<rparr>))))))))"

definition library_addresses :: "library list \<Rightarrow> (link_id \<times> string) list" where
  "library_addresses ls = map (\<lambda>l. (library_identity l, lb_address l)) ls"

definition expected_libraries :: "artifact_code \<Rightarrow> link_id list" where
  "expected_libraries code = remdups (map fst (ac_creation_links code) @ map fst (ac_runtime_links code))"

definition bound_addresses :: "(link_id \<times> string) list \<Rightarrow> link_table \<Rightarrow> (link_id \<times> string) list res" where
  "bound_addresses addresses links =
     each (\<lambda>_ entry. case map_of addresses (fst entry) of
         None \<Rightarrow> Inl (KeyError (link_label (fst entry)))
       | Some address \<Rightarrow> Inr (fst entry, address)) 0 links"

text \<open>The linked creation code and the runtime code.\<close>

definition link_code :: "deployable \<Rightarrow> artifact_code \<Rightarrow> (byte list \<times> byte list) res" where
  "link_code d code =
     (let label = instance_label d; addresses = library_addresses (dp_libraries d);
          expected = expected_libraries code in
      if set (map fst addresses) \<noteq> set expected
      then plan_error (label @ '' library bindings do not match creation/runtime references: '' @
        join '', '' (binding_details ''missing '' ''unexpected '' link_label expected (map fst addresses)))
      else
        rbind (bound_addresses addresses (ac_creation_links code)) (\<lambda>creation_addresses.
        rbind (materialize_bytecode (ac_creation code) (ac_creation_links code) creation_addresses [] []
          (label @ ''.creation'')) (\<lambda>linked_creation.
        rbind (bound_addresses addresses (ac_runtime_links code)) (\<lambda>runtime_addresses.
        rbind (materialize_bytecode (ac_runtime code) (ac_runtime_links code) runtime_addresses
          (ac_immutables code) (rt_immutables (dp_runtime d)) (label @ ''.runtime'')) (\<lambda>expected_runtime.
        Inr (linked_creation, expected_runtime))))))"

definition check_code_hashes :: "hashes \<Rightarrow> deployable \<Rightarrow> byte list \<Rightarrow> byte list \<Rightarrow> unit res" where
  "check_code_hashes H d initcode expected_runtime =
     (let label = instance_label d in
      if EIP3860_MAX_INITCODE_SIZE < length initcode
      then plan_error (label @ '' full initcode is '' @ dec (length initcode) @
        '' bytes, exceeding the EIP-3860 limit of '' @ dec EIP3860_MAX_INITCODE_SIZE @ '' bytes'')
      else if keccak256_hex H initcode \<noteq> dp_initcode_hash d
      then plan_error (label @ '' full initcode hash mismatch: expected '' @ dp_initcode_hash d @ '', got '' @
        keccak256_hex H initcode)
      else if keccak256_hex H expected_runtime \<noteq> rt_hash (dp_runtime d)
      then plan_error (label @ '' expected runtime hash mismatch: expected '' @ rt_hash (dp_runtime d) @
        '', got '' @ keccak256_hex H expected_runtime)
      else Inr ())"

definition position_json :: "ref_position \<Rightarrow> json" where
  "position_json p = JDict [(''start'', JInt (ref_start p)), (''length'', JInt (ref_length p))]"

definition positions_of :: "('k \<times> ref_position list) list \<Rightarrow> 'k \<Rightarrow> json" where
  "positions_of table key =
     JList (map position_json (case map_of table key of None \<Rightarrow> [] | Some ps \<Rightarrow> ps))"

definition link_record :: "deployable \<Rightarrow> artifact_code \<Rightarrow> link_id \<Rightarrow> json res" where
  "link_record d code identity =
     (case map_of (library_addresses (dp_libraries d)) identity of
        None \<Rightarrow> Inl (KeyError (link_label identity))
      | Some address \<Rightarrow> Inr (JDict
          [(''source'', JStr (fst identity)), (''name'', JStr (snd identity)), (''address'', JStr address),
           (''creation_positions'', positions_of (ac_creation_links code) identity),
           (''runtime_positions'', positions_of (ac_runtime_links code) identity)]))"

definition immutable_record :: "deployable \<Rightarrow> string \<times> ref_position list \<Rightarrow> json res" where
  "immutable_record d entry =
     (case map_of (rt_immutables (dp_runtime d)) (fst entry) of
        None \<Rightarrow> Inl (KeyError (fst entry))
      | Some encoded \<Rightarrow> Inr (JDict
          [(''ast_id'', JStr (fst entry)), (''value'', JStr encoded),
           (''runtime_positions'', JList (map position_json (snd entry)))]))"

definition prefixed_hex :: "byte list \<Rightarrow> string" where
  "prefixed_hex bs = ''0x'' @ bytes_hex bs"

definition constructor_json ::
  "hashes \<Rightarrow> deployable \<Rightarrow> dict list \<Rightarrow> string list \<Rightarrow> byte list \<Rightarrow> json" where
  "constructor_json H d inputs canonical_types encoded = JDict
     [(''abi_inputs'', JList (map JDict inputs)), (''canonical_types'', JList (map JStr canonical_types)),
      (''arguments'', JList (ct_arguments (dp_constructor d))), (''encoded_args'', JStr (prefixed_hex encoded)),
      (''encoded_args_keccak256'', JStr (keccak256_hex H encoded))]"

definition deployment_json ::
  "hashes \<Rightarrow> deployable \<Rightarrow> json \<Rightarrow> json list \<Rightarrow> json list \<Rightarrow> byte list \<Rightarrow> byte list \<Rightarrow> byte list \<Rightarrow> dict" where
  "deployment_json H d constructor_record link_records immutable_records linked_creation encoded expected_runtime =
     (let initcode = linked_creation @ encoded; t = dp_target d in
      [(''order'', JInt (dp_order d)), (''instance_id'', JStr (dp_id d)),
       (''profile_entry_id'', case dp_profile d of None \<Rightarrow> JNull | Some i \<Rightarrow> JInt i),
       (''target'', target_json t), (''depends_on'', JList (map JStr (dp_depends d))),
       (''artifact'', JDict [(''path'', JStr (''out-release/'' @ tg_artifact_path t)),
         (''sha256'', JStr (tg_artifact_sha256 t))]),
       (''constructor'', constructor_record), (''libraries'', JList link_records),
       (''immutables'', JList immutable_records),
       (''linked_creation_bytecode'', JStr (prefixed_hex linked_creation)),
       (''linked_creation_bytecode_keccak256'', JStr (keccak256_hex H linked_creation)),
       (''initcode'', JStr (prefixed_hex initcode)), (''initcode_length_bytes'', JInt (int (length initcode))),
       (''initcode_keccak256'', JStr (keccak256_hex H initcode)),
       (''expected_runtime_bytecode'', JStr (prefixed_hex expected_runtime)),
       (''expected_runtime_length_bytes'', JInt (int (length expected_runtime))),
       (''expected_runtime_keccak256'', JStr (keccak256_hex H expected_runtime))] @
      (case dp_v2 d of None \<Rightarrow> [] | Some (address, _) \<Rightarrow> [(''expected_address'', JStr address)]))"

definition materialize_code :: "env \<Rightarrow> deployable \<Rightarrow> dict \<Rightarrow> dict res" where
  "materialize_code E d artifact =
     (let label = instance_label d in
      rbind (constructor_inputs artifact label) (\<lambda>inputs.
      rbind (encode_constructor E inputs (dp_constructor d) (label @ ''.constructor'')) (\<lambda>(canonical_types, encoded).
      rbind (artifact_code_of artifact label) (\<lambda>code.
      rbind (link_code d code) (\<lambda>(linked_creation, expected_runtime).
      rbind (check_code_hashes (hash E) d (linked_creation @ encoded) expected_runtime) (\<lambda>_.
      rbind (each (\<lambda>_. link_record d code) 0 (sort (expected_libraries code))) (\<lambda>link_records.
      rbind (each (\<lambda>_. immutable_record d) 0 (sort_key (\<lambda>entry. dec_value (fst entry)) (ac_immutables code)))
        (\<lambda>immutable_records.
      Inr (deployment_json (hash E) d (constructor_json (hash E) d inputs canonical_types encoded) link_records
        immutable_records linked_creation encoded expected_runtime)))))))))"

definition materialize_instance ::
  "env \<Rightarrow> path \<Rightarrow> (target_id \<times> target) list \<Rightarrow> artifacts \<Rightarrow> deployable \<Rightarrow> dict io" where
  "materialize_instance E root targets artifacts d =
     io_then (lift (check_target targets d))
     (io_bind (find_artifact E root artifacts d) (\<lambda>artifact.
      lift (materialize_code E d artifact)))"

section \<open>The plan\<close>

text \<open>A v2 deployment also has the linked creation code the candidate committed to.\<close>

definition check_linked :: "Candidate.candidate \<Rightarrow> deployable \<Rightarrow> dict \<Rightarrow> unit res" where
  "check_linked c d deployment =
     (if cd_schema c \<noteq> CANDIDATE_V2_SCHEMA then Inr ()
      else
        rbind (dsub deployment ''linked_creation_bytecode_keccak256'') (\<lambda>actual.
        case dp_v2 d of
          None \<Rightarrow> Inl (KeyError ''expected_linked_creation_keccak256'')
        | Some (_, linked) \<Rightarrow>
            if actual \<noteq> JStr linked
            then plan_error (''candidate deployable '' @ dp_id d @
              '' linked creation bytecode hash does not match the checker-complete v2 binding'')
            else Inr ()))"

definition materialize_one ::
  "env \<Rightarrow> path \<Rightarrow> Candidate.candidate \<Rightarrow> bound_release \<Rightarrow> dict list \<Rightarrow> nat \<Rightarrow> deployable \<Rightarrow> dict list io" where
  "materialize_one E root c br deployments i d =
     io_bind (materialize_instance E root (receipt_target_map (br_catalog br)) (br_artifacts br) d) (\<lambda>deployment.
     io_then (lift (check_linked c d deployment))
     (io_return (deployments @ [deployment])))"

definition read_candidate :: "env \<Rightarrow> path \<Rightarrow> path \<Rightarrow> (Candidate.candidate \<times> string) io" where
  "read_candidate E root candidate_path =
     io_bind (load_json_with_sha256 E candidate_path) (\<lambda>(candidate_value, candidate_sha).
     io_bind (lift (require_dict candidate_value ''candidate'')) (\<lambda>candidate_object.
     if dget candidate_object ''schema_version'' = JStr CANDIDATE_V2_SCHEMA
     then validate_complete_v2_candidate E root candidate_path
     else
       io_bind (lift (validate_candidate candidate_value)) (\<lambda>c.
       io_then (validate_draft_2020_12_schema E root CANDIDATE_SCHEMA_PATH candidate_value ''deployment candidate'')
       (io_return (c, candidate_sha)))))"

definition posture_json :: "Candidate.candidate \<Rightarrow> json" where
  "posture_json c =
     (let is_v2 = cd_schema c = CANDIDATE_V2_SCHEMA in JDict
        [(''production_candidate'', JBool (cd_production c)), (''readiness_evidence'', JBool False),
         (''status'', JStr (if is_v2 then ''candidate_complete_tooling_only'' else ''non_production_tooling_only'')),
         (''note'', JStr
           (if is_v2 then ''This plan binds a checker-complete candidate but does not authorize production execution or establish release readiness.''
            else ''This plan does not close issues #656 or #677, authorize a broadcast, or establish public-beta or production readiness.''))])"

definition candidate_json :: "Candidate.candidate \<Rightarrow> string \<Rightarrow> string \<Rightarrow> json" where
  "candidate_json c path candidate_sha = JDict
     [(''path'', JStr path), (''sha256'', JStr candidate_sha), (''schema_version'', JStr (cd_schema c)),
      (''candidate_id'', JStr (cd_id c)), (''candidate_kind'', JStr (cd_kind c)),
      (''candidate_identity_sha256'', case cd_identity c of None \<Rightarrow> JNull | Some (s, _) \<Rightarrow> JStr s),
      (''candidate_identity_keccak256'', case cd_identity c of None \<Rightarrow> JNull | Some (_, k) \<Rightarrow> JStr k)]"

definition release_json :: "hashes \<Rightarrow> Candidate.candidate \<Rightarrow> bound_release \<Rightarrow> string \<Rightarrow> dict \<Rightarrow> json" where
  "release_json H c br receipt_path policy = JDict
     [(''receipt_path'', JStr receipt_path), (''receipt_sha256'', JStr (br_receipt_sha br)),
      (''target_catalog_sha256'', JStr (catalog_sha256 H (br_catalog br))),
      (''config_path'', JStr (rb_config_path (cd_binding c))),
      (''config_sha256'', JStr (rb_config_sha256 (cd_binding c))),
      (''foundry_config_path'', JStr (rb_foundry_path (cd_binding c))),
      (''foundry_config_sha256'', JStr (rb_foundry_sha256 (cd_binding c))),
      (''compiler_policy'', JDict policy)]"

definition plan_json ::
  "hashes \<Rightarrow> path \<Rightarrow> path \<Rightarrow> Candidate.candidate \<Rightarrow> string \<Rightarrow> bound_release \<Rightarrow> dict list \<Rightarrow> dict res" where
  "plan_json H root candidate_path c candidate_sha br deployments =
     rbind (repo_relative root candidate_path) (\<lambda>path.
     rbind (repo_relative root (br_receipt_path br)) (\<lambda>receipt_path.
     rbind (require_dict (dget (br_receipt br) ''policy'') ''release receipt.policy'') (\<lambda>policy.
     Inr [(''schema_version'', JStr PLAN_SCHEMA), (''generated_by'', JStr PLAN_GENERATOR),
          (''release_posture'', posture_json c), (''candidate'', candidate_json c path candidate_sha),
          (''network'', JDict (cd_network c)), (''release_build'', release_json H c br receipt_path policy),
          (''deployments'', JList (map JDict deployments))])))"

definition materialize_deployment_plan :: "env \<Rightarrow> materialize" where
  "materialize_deployment_plan E root value =
     io_bind (repo_path E root value ''deployment candidate'') (\<lambda>candidate_path.
     io_bind (read_candidate E root candidate_path) (\<lambda>(c, candidate_sha).
     io_bind (validate_receipt_binding E root c) (\<lambda>br.
     io_bind (io_fold (materialize_one E root c br) [] 0 (cd_instances c)) (\<lambda>deployments.
     io_bind (lift (plan_json (hash E) root candidate_path c candidate_sha br deployments)) (\<lambda>plan.
     io_then (validate_draft_2020_12_schema E root PLAN_SCHEMA_PATH (JDict plan) ''canonical deployment plan'')
     (io_return plan))))))"

section \<open>Writing and checking the plan\<close>

text \<open>
  The temporary file of \<open>write_output\<close> belongs to the process; it is read back, and renamed
  over the output in one step.
\<close>

definition check_reparse :: "path \<Rightarrow> json \<Rightarrow> unit res" where
  "check_reparse p v =
     rbind (decode_json_bytes (str_bytes (json_text v)) (path_text p)) (\<lambda>reparsed.
     if \<not> py_eq reparsed v then plan_error ''deployment plan output did not reparse to the materialized value''
     else Inr ())"

definition write_output :: "env \<Rightarrow> path \<Rightarrow> py_path \<Rightarrow> json \<Rightarrow> unit io" where
  "write_output E root value v =
     io_bind (output_path_of E root value) (\<lambda>p.
     io_then (mutate E (Made (parent p)) (\<lambda>fs. mkdir_parents fs (parent p)))
     (io_then (io_bind (repo_path E root (Abs (parent p)) ''deployment plan output parent'') (\<lambda>_. io_return ()))
     (io_then (lift (check_reparse p v))
     (write_bytes_atomic E p (str_bytes (json_text v))))))"

definition check_output :: "env \<Rightarrow> path \<Rightarrow> dict \<Rightarrow> unit io" where
  "check_output E p plan =
     io_bind (observe E (\<lambda>fs. Inr (path_is_file fs p))) (\<lambda>present.
     io_then (require present
       (DeploymentPlanError (path_text p @ '' is missing; rerun without --check to materialize it'')))
     (io_bind (io_rename (\<lambda>e. case e of
           OSError m \<Rightarrow> DeploymentPlanError (''cannot read deployment plan '' @ path_text p @ '': '' @ m)
         | FileExistsError m \<Rightarrow> DeploymentPlanError (''cannot read deployment plan '' @ path_text p @ '': '' @ m)
         | _ \<Rightarrow> e) (read_bytes E p)) (\<lambda>raw.
      io_bind (lift (decode_json_bytes raw (path_text p))) (\<lambda>actual.
      require (py_eq actual (JDict plan) \<and> raw = str_bytes (json_text (JDict plan)))
        (DeploymentPlanError (path_text p @ '' is stale; rerun without --check to materialize it''))))))"

text \<open>\<open>main\<close>: relative arguments are taken from the repository root; the exit status.\<close>

definition materializer_main :: "env \<Rightarrow> path \<Rightarrow> py_path \<Rightarrow> py_path \<Rightarrow> bool \<Rightarrow> int io" where
  "materializer_main E root candidate_arg output_arg check_only =
     io_catch
       (io_bind (output_path_of E root (Abs (path_join root output_arg))) (\<lambda>output_path.
        io_bind (materialize_deployment_plan E root (Abs (path_join root candidate_arg))) (\<lambda>plan.
        io_then (if check_only then check_output E output_path plan
                 else write_output E root (Abs output_path) (JDict plan))
        (io_return 0))))
       (\<lambda>e. case e of DeploymentPlanError _ \<Rightarrow> io_return 1 | _ \<Rightarrow> io_raise e)"

section \<open>The materializer only reads\<close>

lemma keeps_case_list [keeps_rules]:
  "keeps I a \<Longrightarrow> (\<And>x xs. keeps I (f x xs)) \<Longrightarrow> keeps I (case l of [] \<Rightarrow> a | x # xs \<Rightarrow> f x xs)"
  by (cases l) simp_all

lemma keeps_case_dict [keeps_rules]:
  "keeps I a \<Longrightarrow> (\<And>d. keeps I (f d)) \<Longrightarrow> keeps I (case v of JDict d \<Rightarrow> f d | _ \<Rightarrow> a)"
  by (cases v) simp_all

context passive_invariant
begin

lemma checker_reads_keep:
  "keeps I (resolve_path E root p label)"
  "keeps I (load_object E q label)"
  "keeps I (validate_schema E root s d)"
  unfolding resolve_path_def load_object_def validate_schema_def
  by (intro keeps_rules path_keeps load_keeps schema_keeps)+

lemma checker_keeps:
  "keeps I (validate_governance_risk E root s)"
  "keeps I (check_source_layout E root d)"
  unfolding validate_governance_risk_def check_source_layout_def
  by (intro keeps_rules checker_reads_keep)+

lemma evidence_keeps: "keeps I (validate_retained_evidence E root d a b c)"
  unfolding validate_retained_evidence_def by (intro keeps_rules passive_keeps checker_reads_keep)

lemma audit_keeps: "keeps I (audit_candidate E root p s q r)"
  unfolding audit_candidate_def by (intro keeps_rules checker_reads_keep checker_keeps evidence_keeps)

lemma complete_keeps: "keeps I (require_complete_candidate E root p)"
  unfolding require_complete_candidate_def by (intro keeps_rules audit_keeps)

lemma read_candidate_keeps: "keeps I (read_candidate E root p)"
  unfolding read_candidate_def validate_complete_v2_candidate_def audited_candidate_def
  by (intro keeps_rules complete_keeps load_keeps schema_keeps)

lemma expected_artifacts_keeps: "keeps I (expected_artifacts E root out found ts)"
proof (induction ts arbitrary: found)
  case Nil
  show ?case unfolding expected_artifacts.simps by (intro keeps_rules)
next
  case (Cons t ts)
  show ?case unfolding expected_artifacts.simps by (intro keeps_rules path_keeps Cons.IH)
qed

lemma binding_keeps: "keeps I (validate_receipt_binding E root c)"
  unfolding validate_receipt_binding_def release_paths_of_def default_receipt_validator_def Let_def
  by (intro keeps_rules path_keeps expected_artifacts_keeps step_keeps) simp

lemma materialize_one_keeps: "keeps I (materialize_one E root c br ds i d)"
  unfolding materialize_one_def materialize_instance_def find_artifact_def
  by (intro keeps_rules path_keeps)

lemma materialize_keeps: "keeps I (materialize_deployment_plan E root value)"
  unfolding materialize_deployment_plan_def
  by (intro keeps_rules path_keeps read_candidate_keeps binding_keeps materialize_one_keeps schema_keeps)

end

lemma materialize_passive: "passive_procedure E (materialize_deployment_plan E root value)"
  by (auto simp: passive_procedure_def intro: passive_invariant.materialize_keeps)

section \<open>A materialized deployment is what its candidate committed to\<close>

text \<open>
  The initcode of the deployment is linked creation code followed by encoded arguments, within
  the EIP-3860 limit, and every digest the candidate holds for it is the digest of the bytes
  the deployment holds.
\<close>

definition committed :: "hashes \<Rightarrow> deployable \<Rightarrow> dict \<Rightarrow> bool" where
  "committed H d dep \<longleftrightarrow>
     (\<exists>creation encoded runtime.
        dget dep ''instance_id'' = JStr (dp_id d) \<and> dget dep ''order'' = JInt (dp_order d) \<and>
        dget dep ''target'' = target_json (dp_target d) \<and>
        dget dep ''linked_creation_bytecode'' = JStr (prefixed_hex creation) \<and>
        dget dep ''initcode'' = JStr (prefixed_hex (creation @ encoded)) \<and>
        dget dep ''initcode_length_bytes'' = JInt (int (length (creation @ encoded))) \<and>
        length (creation @ encoded) \<le> 49152 \<and>
        keccak256_hex H encoded = ct_hash (dp_constructor d) \<and>
        keccak256_hex H (creation @ encoded) = dp_initcode_hash d \<and>
        dget dep ''initcode_keccak256'' = JStr (dp_initcode_hash d) \<and>
        dget dep ''expected_runtime_bytecode'' = JStr (prefixed_hex runtime) \<and>
        dget dep ''expected_runtime_length_bytes'' = JInt (int (length runtime)) \<and>
        keccak256_hex H runtime = rt_hash (dp_runtime d) \<and>
        dget dep ''expected_runtime_keccak256'' = JStr (rt_hash (dp_runtime d)) \<and>
        dget dep ''linked_creation_bytecode_keccak256'' = JStr (keccak256_hex H creation) \<and>
        dget dep ''expected_address'' =
          (case dp_v2 d of None \<Rightarrow> JNull | Some (address, _) \<Rightarrow> JStr address))"

lemma encode_constructor_hash:
  "encode_constructor E inputs spec label = Inr (types, encoded) \<Longrightarrow>
     keccak256_hex (hash E) encoded = ct_hash spec"
  by (auto simp: encode_constructor_def Let_def res_simps split: if_splits)

lemma check_code_hashes_iff:
  "check_code_hashes H d initcode runtime = Inr () \<longleftrightarrow>
     length initcode \<le> 49152 \<and> keccak256_hex H initcode = dp_initcode_hash d \<and>
     keccak256_hex H runtime = rt_hash (dp_runtime d)"
  by (simp add: check_code_hashes_def Let_def plan_error_def EIP3860_MAX_INITCODE_SIZE_def not_less)

lemma materialize_code_Inr:
  assumes "materialize_code E d artifact = Inr dep"
  obtains ctor links imms creation encoded runtime where
    "dep = deployment_json (hash E) d ctor links imms creation encoded runtime"
    "keccak256_hex (hash E) encoded = ct_hash (dp_constructor d)"
    "check_code_hashes (hash E) d (creation @ encoded) runtime = Inr ()"
  using assms unfolding materialize_code_def Let_def
  by (elim rbindE) (auto dest: encode_constructor_hash elim!: rbindE split: prod.splits)

lemma deployment_json_committed:
  assumes "keccak256_hex H encoded = ct_hash (dp_constructor d)"
    and "check_code_hashes H d (creation @ encoded) runtime = Inr ()"
  shows "committed H d (deployment_json H d ctor links imms creation encoded runtime)"
  unfolding committed_def
  by (rule exI[of _ creation], rule exI[of _ encoded], rule exI[of _ runtime])
    (use assms in \<open>simp add: check_code_hashes_iff deployment_json_def Let_def dget_def split: option.split\<close>)

lemma materialize_instance_Inr:
  assumes "materialize_instance E root targets artifacts d w = (Inr dep, w')"
  shows "map_of targets (target_identity (dp_target d)) = Some (dp_target d) \<and> committed (hash E) d dep"
proof -
  obtain w1 w2 u artifact where t: "check_target targets d = Inr u" and c: "materialize_code E d artifact = Inr dep"
    using assms unfolding materialize_instance_def
    by (elim io_elims) auto
  have "map_of targets (target_identity (dp_target d)) = Some (dp_target d)"
    using t by (simp add: check_target_def plan_error_def split: option.splits if_splits)
  moreover have "committed (hash E) d dep"
    using c by (rule materialize_code_Inr) (simp add: deployment_json_committed)
  ultimately show ?thesis by blast
qed

definition settles :: "env \<Rightarrow> Candidate.candidate \<Rightarrow> bound_release \<Rightarrow> deployable \<Rightarrow> dict \<Rightarrow> bool" where
  "settles E c br d dep \<longleftrightarrow>
     dp_target d \<in> set (br_catalog br) \<and> committed (hash E) d dep \<and> check_linked c d dep = Inr ()"

lemma map_of_receipt_targets: "map_of (receipt_target_map catalog) k = Some t \<Longrightarrow> t \<in> set catalog"
  by (auto simp: receipt_target_map_def dest!: map_of_SomeD)

lemma materialize_one_Inr:
  assumes "materialize_one E root c br acc i d w = (Inr deps, w')"
  obtains dep where "deps = acc @ [dep]" and "settles E c br d dep"
proof -
  obtain dep w1 where m: "materialize_instance E root (receipt_target_map (br_catalog br)) (br_artifacts br) d w = (Inr dep, w1)"
    and l: "check_linked c d dep = Inr ()" and d: "deps = acc @ [dep]"
    using assms unfolding materialize_one_def by (elim io_elims) auto
  have "settles E c br d dep"
    using materialize_instance_Inr[OF m] l by (auto simp: settles_def dest: map_of_receipt_targets)
  with d show thesis by (rule that)
qed

lemma materialize_all_Inr:
  assumes "io_fold (materialize_one E root c br) acc i ds w = (Inr deps, w')"
  shows "\<exists>new. deps = acc @ new \<and> list_all2 (settles E c br) ds new"
  using assms
proof (induction ds arbitrary: acc i w)
  case Nil
  then show ?case by (simp add: io_return_def)
next
  case (Cons d ds)
  then obtain acc' w1 where o: "materialize_one E root c br acc i d w = (Inr acc', w1)"
    and r: "io_fold (materialize_one E root c br) acc' (Suc i) ds w1 = (Inr deps, w')"
    unfolding io_fold.simps by (elim io_elims) blast
  obtain dep where "acc' = acc @ [dep]" "settles E c br d dep" by (rule materialize_one_Inr[OF o])
  then obtain new where "deps = acc @ dep # new" "list_all2 (settles E c br) (d # ds) (dep # new)"
    using Cons.IH[OF r] by auto
  then show ?case by blast
qed

text \<open>What the candidates of both schemas have in common once they are validated.\<close>

definition valid_candidate :: "Candidate.candidate \<Rightarrow> bool" where
  "valid_candidate c \<longleftrightarrow> cd_instances c \<noteq> [] \<and> plan_order (cd_instances c) \<and> list_all deployable_ok (cd_instances c)"

lemma project_v2_instances:
  "project_v2 candidate identity = Inr c \<Longrightarrow> v2_deployables candidate = Inr (cd_instances c) \<and>
     cd_schema c = CANDIDATE_V2_SCHEMA \<and> cd_production c \<and> cd_identity c = Some identity"
  by (auto simp: project_v2_def elim!: rbindE)

lemma projection_ok:
  assumes "v2_deployable_projection value index key profile path = Inr d"
  shows "deployable_ok d \<and> dp_order d = int index + 1 \<and> dp_v2 d \<noteq> None"
proof -
  obtain v d0 a l where v: "validate_instance v index = Inr d0" and d: "d = d0\<lparr>dp_v2 := Some (a, l)\<rparr>"
    using assms unfolding v2_deployable_projection_def by (elim rbindE) auto
  from validate_instance_ok[OF v] show ?thesis by (auto simp: d deployable_ok_def)
qed

lemma v2_deployables_ok:
  assumes "v2_deployables candidate = Inr ds"
  shows "ds \<noteq> [] \<and> plan_order ds \<and> list_all deployable_ok ds"
proof -
  obtain libs items ls ms u where l: "each v2_library 0 libs = Inr ls" and m: "each (v2_instance (length libs)) 0 items = Inr ms"
    and ds: "ds = ls @ ms" "ds \<noteq> []" "distinct (map dp_id ds)" and c: "check_dependencies ''candidate deployable'' {} ds = Inr u"
    using assms by (auto simp: v2_deployables_def plan_error_def Let_def elim!: rbindE split: if_splits)
  have "deployable_ok (ls ! j) \<and> dp_order (ls ! j) = int (j + 1)" if "j < length ls" for j
    using each_nth[OF l, of j] that each_length[OF l] projection_ok by (auto simp: v2_library_def)
  moreover have "deployable_ok (ms ! j) \<and> dp_order (ms ! j) = int (length ls + j + 1)" if "j < length ms" for j
    using each_nth[OF m, of j] that each_length[OF m] each_length[OF l]
    by (auto simp: v2_instance_def Let_def dest!: projection_ok elim!: rbindE)
  ultimately have d: "deployable_ok (ds ! j) \<and> dp_order (ds ! j) = int (j + 1)" if "j < length ds" for j
    using that by (force simp: ds(1) nth_append)
  have "map dp_order ds = map int [1..<Suc (length ds)]"
    by (rule nth_equalityI) (use d in \<open>simp_all del: upt_Suc\<close>)
  then show ?thesis
    using ds d check_dependencies_earlier[OF c] by (simp add: plan_order_def list_all_length)
qed

lemma v2_candidate_Inr:
  assumes "validate_complete_v2_candidate E root p w = (Inr (c, sha), w')"
  shows "valid_candidate c \<and> cd_schema c = CANDIDATE_V2_SCHEMA \<and> cd_production c \<and>
    (\<exists>candidate identity. candidate_identity E candidate = Inr identity \<and> cd_identity c = Some identity)"
proof -
  obtain w1 w2 audit v candidate identity where
      i: "rmap_exn (\<lambda>e. case e of CandidateError m \<Rightarrow> DeploymentPlanError m | _ \<Rightarrow> e) (candidate_identity E candidate) = Inr identity"
    and p: "project_v2 candidate identity = Inr c"
    using assms unfolding validate_complete_v2_candidate_def by (elim io_elims) auto
  have "candidate_identity E candidate = Inr identity" using i by (simp only: rmap_exn_eq_Inr)
  then have "\<exists>candidate identity'. candidate_identity E candidate = Inr identity' \<and> cd_identity c = Some identity'"
    using project_v2_instances[OF p] by blast
  then show ?thesis
    using project_v2_instances[OF p] v2_deployables_ok[of candidate "cd_instances c"] unfolding valid_candidate_def by blast
qed

lemma read_candidate_Inr:
  assumes "read_candidate E root p w = (Inr (c, sha), w')"
  shows "valid_candidate c \<and>
    (cd_schema c = CANDIDATE_SCHEMA \<and> \<not> cd_production c \<and> cd_identity c = None \<or>
     cd_schema c = CANDIDATE_V2_SCHEMA \<and> cd_production c \<and>
       (\<exists>candidate identity. candidate_identity E candidate = Inr identity \<and> cd_identity c = Some identity))"
proof -
  obtain v w1 d sha' where l: "(if dget d ''schema_version'' = JStr CANDIDATE_V2_SCHEMA then validate_complete_v2_candidate E root p
     else io_bind (lift (validate_candidate v)) (\<lambda>c. io_then
       (validate_draft_2020_12_schema E root CANDIDATE_SCHEMA_PATH v ''deployment candidate'') (io_return (c, sha')))) w1 = (Inr (c, sha), w')"
    using assms unfolding read_candidate_def by (elim io_elims) auto
  show ?thesis
  proof (cases "dget d ''schema_version'' = JStr CANDIDATE_V2_SCHEMA")
    case True
    then show ?thesis using l v2_candidate_Inr by auto
  next
    case False
    with l have "io_bind (lift (validate_candidate v)) (\<lambda>c. io_then
       (validate_draft_2020_12_schema E root CANDIDATE_SCHEMA_PATH v ''deployment candidate'') (io_return (c, sha'))) w1 = (Inr (c, sha), w')"
      by simp
    then have "validate_candidate v = Inr c" by (elim io_elims) auto
    from validate_candidate_ok[OF this] show ?thesis by (simp add: valid_candidate_def)
  qed
qed

section \<open>The plan and the candidate file\<close>

text \<open>Other processes leave what is read at \<open>p\<close> alone.\<close>

definition steady :: "env \<Rightarrow> path \<Rightarrow> bool" where
  "steady E p \<longleftrightarrow> (\<forall>tr fs. fs_read (interfere E tr fs) p = fs_read fs p)"

definition reads_as :: "env \<Rightarrow> path \<Rightarrow> byte list res \<Rightarrow> world \<Rightarrow> bool" where
  "reads_as E p x w \<longleftrightarrow> steady E p \<and> fs_read (files w) p = x"

interpretation unchanged: passive_invariant E "reads_as E p x" for E p x
  by unfold_locales (auto simp: reads_as_def steady_def after_def)

lemma audited_keeps: "keeps (reads_as E p x) (audited_candidate E root q)"
  unfolding audited_candidate_def by (intro keeps_rules unchanged.complete_keeps)

lemma load_run:
  assumes "load_json_with_sha256 E p w = (Inr (v, sha), w')"
  obtains raw where "decode_json_bytes raw (path_text p) = Inr v" "sha = sha256_bytes (hash E) raw"
    "\<And>x. reads_as E p x w \<Longrightarrow> x = Inr raw"
proof -
  obtain raw where "fs_read (interfere E (trace w) (files w)) p = Inr raw" "decode_json_bytes raw (path_text p) = Inr v"
      "sha = sha256_bytes (hash E) raw"
    using assms by (auto simp: load_json_with_sha256_def load_json_snapshot_def read_bytes_def io_success dest!: observe_Inr)
  then show thesis by (intro that) (auto simp: reads_as_def steady_def)
qed

text \<open>
  The candidate a document states: the document itself when it is of the first schema, the
  projection of a complete one of the second, with its identity.
\<close>

definition states :: "env \<Rightarrow> dict \<Rightarrow> Candidate.candidate \<Rightarrow> bool" where
  "states E d c \<longleftrightarrow>
     cd_schema c = CANDIDATE_SCHEMA \<and> validate_candidate (JDict d) = Inr c \<or>
     cd_schema c = CANDIDATE_V2_SCHEMA \<and>
       (\<exists>identity. candidate_identity E d = Inr identity \<and> project_v2 d identity = Inr c)"

lemma v2_candidate_run:
  assumes "validate_complete_v2_candidate E root p w = (Inr (c, sha), w')"
  obtains raw d where "decode_json_bytes raw (path_text p) = Inr (JDict d)" "sha = sha256_bytes (hash E) raw"
    "cd_schema c = CANDIDATE_V2_SCHEMA" "states E d c" "\<And>x. reads_as E p x w \<Longrightarrow> x = Inr raw"
proof -
  obtain audit w1 v sha' w2 d identity where a: "audited_candidate E root p w = (Inr audit, w1)"
    and l: "load_json_with_sha256 E p w1 = (Inr (v, sha), w2)"
    and d: "require_dict v ''candidate'' = Inr d"
    and i: "rmap_exn (\<lambda>e. case e of CandidateError m \<Rightarrow> DeploymentPlanError m | _ \<Rightarrow> e) (candidate_identity E d) = Inr identity"
    and p: "project_v2 d identity = Inr c"
    using assms unfolding validate_complete_v2_candidate_def by (elim io_elims) auto
  obtain raw where r: "decode_json_bytes raw (path_text p) = Inr v" "sha = sha256_bytes (hash E) raw"
    "\<And>x. reads_as E p x w1 \<Longrightarrow> x = Inr raw"
    by (rule load_run[OF l]) blast
  have "reads_as E p x w \<Longrightarrow> x = Inr raw" for x
    using r(3) keeps_run[OF audited_keeps a] by blast
  moreover have "v = JDict d" using d by (simp add: res_simps)
  moreover have "cd_schema c = CANDIDATE_V2_SCHEMA" using project_v2_instances[OF p] by simp
  moreover have "states E d c"
    using i p \<open>cd_schema c = _\<close> by (auto simp: states_def rmap_exn_eq_Inr)
  ultimately show thesis using that r(1,2) by blast
qed

lemma read_candidate_run:
  assumes "read_candidate E root p w = (Inr (c, sha), w')"
  obtains raw d where "decode_json_bytes raw (path_text p) = Inr (JDict d)" "sha = sha256_bytes (hash E) raw" "states E d c"
    "\<And>x. reads_as E p x w \<Longrightarrow>
       x = Inr raw \<and> (dget d ''schema_version'' = JStr CANDIDATE_V2_SCHEMA \<longleftrightarrow> cd_schema c = CANDIDATE_V2_SCHEMA)"
proof -
  obtain v w1 d sha' where l: "load_json_with_sha256 E p w = (Inr (v, sha'), w1)" and d: "require_dict v ''candidate'' = Inr d"
    and r: "(if dget d ''schema_version'' = JStr CANDIDATE_V2_SCHEMA then validate_complete_v2_candidate E root p
     else io_bind (lift (validate_candidate v)) (\<lambda>c. io_then
       (validate_draft_2020_12_schema E root CANDIDATE_SCHEMA_PATH v ''deployment candidate'') (io_return (c, sha')))) w1 = (Inr (c, sha), w')"
    using assms unfolding read_candidate_def by (elim io_elims) auto
  have v: "v = JDict d" using d by (simp add: res_simps)
  obtain raw where raw: "decode_json_bytes raw (path_text p) = Inr v" "sha' = sha256_bytes (hash E) raw"
    "\<And>x. reads_as E p x w \<Longrightarrow> x = Inr raw"
    by (rule load_run[OF l]) blast
  show thesis
  proof (cases "dget d ''schema_version'' = JStr CANDIDATE_V2_SCHEMA")
    case True
    then have r': "validate_complete_v2_candidate E root p w1 = (Inr (c, sha), w')" using r by simp
    obtain raw' d' where c: "decode_json_bytes raw' (path_text p) = Inr (JDict d')" "sha = sha256_bytes (hash E) raw'"
      "cd_schema c = CANDIDATE_V2_SCHEMA" "states E d' c" "\<And>x. reads_as E p x w1 \<Longrightarrow> x = Inr raw'"
      by (rule v2_candidate_run[OF r']) blast
    have "x = Inr raw' \<and> (dget d' ''schema_version'' = JStr CANDIDATE_V2_SCHEMA \<longleftrightarrow> cd_schema c = CANDIDATE_V2_SCHEMA)"
      if x: "reads_as E p x w" for x
    proof -
      have "x = Inr raw'" using c(5) keeps_run[OF unchanged.load_keeps(2) l x] by blast
      then have "raw' = raw" using raw(3)[OF x] by simp
      then have "d' = d" using raw(1) c(1) v by simp
      then show ?thesis using True c(3) \<open>x = Inr raw'\<close> by simp
    qed
    then show thesis by (rule that[OF c(1,2,4)])
  next
    case False
    with r have "io_bind (lift (validate_candidate v)) (\<lambda>c. io_then
       (validate_draft_2020_12_schema E root CANDIDATE_SCHEMA_PATH v ''deployment candidate'') (io_return (c, sha'))) w1 = (Inr (c, sha), w')"
      by simp
    then have c: "validate_candidate v = Inr c" "sha = sha'" by (elim io_elims; auto)+
    have s: "cd_schema c = CANDIDATE_SCHEMA" using validate_candidate_ok[OF c(1)] by simp
    moreover have "CANDIDATE_SCHEMA \<noteq> CANDIDATE_V2_SCHEMA" by code_simp
    ultimately show thesis
      using that[of raw d] raw c False v by (auto simp: states_def)
  qed
qed

lemma repo_path_run: "repo_path E root value label w = (Inr p, w') \<Longrightarrow>
    normalize_repo_path (interfere E (trace w) (files w)) root value label = Inr p"
  unfolding repo_path_def by (rule observe_Inr)

text \<open>The release build a candidate is bound to.\<close>

definition bound_to :: "hashes \<Rightarrow> Candidate.candidate \<Rightarrow> bound_release \<Rightarrow> bool" where
  "bound_to H c br \<longleftrightarrow>
     (\<exists>raw label. decode_json_bytes raw label = Inr (JDict (br_receipt br)) \<and>
        sha256_bytes H raw = rb_receipt_sha256 (cd_binding c)) \<and>
     br_receipt_sha br = rb_receipt_sha256 (cd_binding c) \<and>
     target_catalog (br_receipt br) = Inr (br_catalog br) \<and>
     catalog_sha256 H (br_catalog br) = rb_catalog_sha256 (cd_binding c)"

lemma stale_iff: "stale what expected actual = Inr u \<longleftrightarrow> actual = expected"
  by (simp add: stale_def plan_error_def)

lemma validate_receipt_binding_Inr:
  assumes "validate_receipt_binding E root c w = (Inr br, w')"
  shows "bound_to (hash E) c br"
proof -
  obtain ps out receipt sha catalog where r: "check_receipt_snapshot (hash E) (cd_binding c) ps out = Inr (receipt, sha)"
    and c: "checked_catalog (hash E) (cd_binding c) receipt = Inr catalog"
    and b: "br_receipt br = receipt" "br_receipt_sha br = sha" "br_catalog br = catalog"
    using assms unfolding validate_receipt_binding_def Let_def by (elim io_elims) auto
  have "sha = rb_receipt_sha256 (cd_binding c) \<and> sha = sha256_bytes (hash E) (snap_raw (vo_receipt_snapshot out)) \<and>
      decode_json_bytes (snap_raw (vo_receipt_snapshot out)) (path_text (rp_receipt ps)) = Inr (JDict receipt)"
    using r by (auto simp: check_receipt_snapshot_def validate_release_file_snapshot_def plan_error_def stale_iff Let_def
        res_simps elim!: rbindE split: if_splits)
  moreover have "target_catalog receipt = Inr catalog" "catalog_sha256 (hash E) catalog = rb_catalog_sha256 (cd_binding c)"
    using c by (auto simp: checked_catalog_def stale_iff elim!: rbindE)
  ultimately show ?thesis by (auto simp: bound_to_def b)
qed

lemma materialize_plan_run:
  assumes "materialize_deployment_plan E root value w = (Inr plan, w')"
  obtains p c sha br deps w1 w2 where "read_candidate E root p w1 = (Inr (c, sha), w2)"
    and "bound_to (hash E) c br" and "list_all2 (settles E c br) (cd_instances c) deps"
    and "plan_json (hash E) root p c sha br deps = Inr plan"
    and "repo_path E root value ''deployment candidate'' w = (Inr p, w1)"
proof -
  obtain p c sha br deps w1 w2 w3 w4 where 0: "repo_path E root value ''deployment candidate'' w = (Inr p, w1)"
    and 1: "read_candidate E root p w1 = (Inr (c, sha), w2)"
    and 2: "validate_receipt_binding E root c w2 = (Inr br, w3)"
    and 3: "io_fold (materialize_one E root c br) [] 0 (cd_instances c) w3 = (Inr deps, w4)"
    and 4: "plan_json (hash E) root p c sha br deps = Inr plan"
    using assms unfolding materialize_deployment_plan_def by (elim io_elims) auto
  from materialize_all_Inr[OF 3] have "list_all2 (settles E c br) (cd_instances c) deps" by simp
  from that[OF 1 validate_receipt_binding_Inr[OF 2] this 4 0] show thesis .
qed

lemma plan_json_fields:
  assumes "plan_json H root p c sha br deps = Inr plan"
  shows "dget plan ''deployments'' = JList (map JDict deps)" "dget plan ''release_posture'' = posture_json c"
    "\<exists>path. dget plan ''candidate'' = candidate_json c path sha" "dget plan ''network'' = JDict (cd_network c)"
    "\<exists>receipt_path policy. dget plan ''release_build'' = release_json H c br receipt_path policy"
  using assms by (auto simp: plan_json_def dget_def elim!: rbindE) blast?

lemma plan_json_all:
  assumes "plan_json H root p c sha br deps = Inr plan"
  obtains path receipt_path policy where "repo_relative root p = Inr path" "repo_relative root (br_receipt_path br) = Inr receipt_path"
    "dget (br_receipt br) ''policy'' = JDict policy"
    "dget plan ''candidate'' = candidate_json c path sha" "dget plan ''network'' = JDict (cd_network c)"
    "dget plan ''release_posture'' = posture_json c"
    "dget plan ''release_build'' = release_json H c br receipt_path policy"
    "dget plan ''deployments'' = JList (map JDict deps)"
  using assms by (auto simp: plan_json_def dget_def res_simps elim!: rbindE)

text \<open>
  C4: A materialized plan is exactly what the candidate file committed to. The candidate is the one
  stated by bytes whose SHA-256 the plan names, which are the bytes of the file at the given path
  when other processes leave that file alone; it is well-ordered, and schema, identity, network
  and release binding of the plan are its own. The release receipt is a document with
  the digest the candidate is bound to, and so is its target catalog. The plan has one deployment
  per instance, in order; the target of each is in that catalog, and its bytes and digests
  (arguments, linked creation code of a v2 candidate, initcode within the EIP-3860 limit, runtime) are
  those the candidate names.
\<close>

theorem materialized_plan_committed:
  assumes "materialize_deployment_plan E root value w = (Inr plan, w')"
  shows "\<exists>p raw d c br deps path receipt_path policy.
    normalize_repo_path (interfere E (trace w) (files w)) root value ''deployment candidate'' = Inr p \<and>
    (steady E p \<longrightarrow> fs_read (files w) p = Inr raw \<and>
       (dget d ''schema_version'' = JStr CANDIDATE_V2_SCHEMA \<longleftrightarrow> cd_schema c = CANDIDATE_V2_SCHEMA)) \<and>
    decode_json_bytes raw (path_text p) = Inr (JDict d) \<and> states E d c \<and> valid_candidate c \<and>
    bound_to (hash E) c br \<and> dget (br_receipt br) ''policy'' = JDict policy \<and>
    repo_relative root p = Inr path \<and> repo_relative root (br_receipt_path br) = Inr receipt_path \<and>
    dget plan ''candidate'' = candidate_json c path (sha256_bytes (hash E) raw) \<and>
    dget plan ''network'' = JDict (cd_network c) \<and> dget plan ''release_posture'' = posture_json c \<and>
    dget plan ''release_build'' = release_json (hash E) c br receipt_path policy \<and>
    dget plan ''deployments'' = JList (map JDict deps) \<and> list_all2 (settles E c br) (cd_instances c) deps"
proof -
  obtain p c sha br deps w1 w2 where r: "read_candidate E root p w1 = (Inr (c, sha), w2)"
    and b: "bound_to (hash E) c br" "list_all2 (settles E c br) (cd_instances c) deps"
    and j: "plan_json (hash E) root p c sha br deps = Inr plan"
    and p: "repo_path E root value ''deployment candidate'' w = (Inr p, w1)"
    by (rule materialize_plan_run[OF assms])
  obtain raw d where d: "decode_json_bytes raw (path_text p) = Inr (JDict d)" "sha = sha256_bytes (hash E) raw" "states E d c"
    and s: "\<And>x. reads_as E p x w1 \<Longrightarrow>
      x = Inr raw \<and> (dget d ''schema_version'' = JStr CANDIDATE_V2_SCHEMA \<longleftrightarrow> cd_schema c = CANDIDATE_V2_SCHEMA)"
    by (rule read_candidate_run[OF r]) blast
  obtain path receipt_path policy where "repo_relative root p = Inr path" "repo_relative root (br_receipt_path br) = Inr receipt_path"
    "dget (br_receipt br) ''policy'' = JDict policy"
    "dget plan ''candidate'' = candidate_json c path sha" "dget plan ''network'' = JDict (cd_network c)"
    "dget plan ''release_posture'' = posture_json c" "dget plan ''release_build'' = release_json (hash E) c br receipt_path policy"
    "dget plan ''deployments'' = JList (map JDict deps)"
    by (rule plan_json_all[OF j])
  moreover have "reads_as E p (fs_read (files w) p) w1" if "steady E p"
    using keeps_run[OF unchanged.path_keeps(1) p] that by (simp add: reads_as_def)
  ultimately show ?thesis
    using repo_path_run[OF p] d b s read_candidate_Inr[OF r]
    by (intro exI[of _ p] exI[of _ raw] exI[of _ d] exI[of _ c] exI[of _ br] exI[of _ deps] exI[of _ path]
        exI[of _ receipt_path] exI[of _ policy]) blast
qed

section \<open>A materialized plan passes the executor's checks\<close>

lemma check_code_ok:
  assumes "dget d cf = JStr (prefixed_hex bs)" "dget d lf = JInt (int (length bs))"
    and "dget d hf = JStr (keccak256_hex H bs)" "KECCAK_RE (keccak256_hex H bs)"
  shows "check_code H d i what cf lf hf = Inr ()"
proof -
  have "lower (prefixed_hex bs) = prefixed_hex bs"
    using lower_hex_lower[OF bytes_hex_is_hex_lower, of bs] by (simp add: prefixed_hex_def lower_def lower_char_def is_upper_def)
  moreover have "HEX_RE (prefixed_hex bs)" unfolding prefixed_hex_def by (rule HEX_RE_bytes_hex)
  ultimately have "x_require_hex None (JStr (prefixed_hex bs)) f = Inr (prefixed_hex bs)" for f
    by (simp add: x_require_hex_def x_require_string_def prefixed_hex_def)
  moreover have "x_require_hash (JStr (keccak256_hex H bs)) f = Inr (keccak256_hex H bs)" for f
    using assms(4) by (simp add: x_require_hash_def x_require_string_def KECCAK_RE_def HEX_HASH_LENGTH_def keccak256_hex_def)
  ultimately show ?thesis
    unfolding check_code_def using assms(1-3)
    by (simp add: x_require_integer_def text_keccak_def prefixed_hex_def fail_if_def)
qed

lemma validate_deployment_committed:
  assumes "committed H d dep" and "deployable_ok d" and "dp_order d = n"
  shows "validate_deployment H dep n = Inr ()"
proof -
  obtain creation encoded runtime where dep: "dget dep ''instance_id'' = JStr (dp_id d)" "dget dep ''order'' = JInt n"
      "dget dep ''initcode'' = JStr (prefixed_hex (creation @ encoded))"
      "dget dep ''initcode_length_bytes'' = JInt (int (length (creation @ encoded)))"
      "dget dep ''initcode_keccak256'' = JStr (keccak256_hex H (creation @ encoded))"
      "dget dep ''expected_runtime_bytecode'' = JStr (prefixed_hex runtime)"
      "dget dep ''expected_runtime_length_bytes'' = JInt (int (length runtime))"
      "dget dep ''expected_runtime_keccak256'' = JStr (keccak256_hex H runtime)"
    and k: "KECCAK_RE (keccak256_hex H (creation @ encoded))" "KECCAK_RE (keccak256_hex H runtime)"
    using assms by (auto simp: committed_def deployable_ok_def)
  have "dp_id d \<noteq> []" using assms(2) by (auto simp: deployable_ok_def IDENTIFIER_RE_def)
  then show ?thesis
    using check_code_ok[OF dep(3,4,5) k(1)] check_code_ok[OF dep(6,7,8) k(2)]
    by (simp add: validate_deployment_def dep(1,2) x_require_integer_def x_require_string_def fail_if_def)
qed

lemma validate_deployments_committed:
  assumes "list_all2 (settles E c br) ds deps" and "plan_order ds" and "list_all deployable_ok ds"
  shows "validate_deployments (hash E) deps = Inr ()"
proof -
  have len: "length deps = length ds" using assms(1) by (simp add: list_all2_lengthD)
  have "validate_deployment (hash E) (deps ! i) (int (i + 1)) = Inr ()" if "i < length deps" for i
  proof -
    have "map dp_order ds ! i = map int [1..<Suc (length ds)] ! i" using assms(2) by (simp only: plan_order_def)
    then have o: "dp_order (ds ! i) = int (i + 1)" using that len by (simp del: upt_Suc)
    have "committed (hash E) (ds ! i) (deps ! i)" "deployable_ok (ds ! i)"
      using assms(1,3) that len by (auto simp: list_all2_conv_all_nth settles_def list_all_length)
    then show ?thesis using o by (rule validate_deployment_committed)
  qed
  then have "each (\<lambda>i d. validate_deployment (hash E) d (int (i + 1))) 0 deps = Inr (map (\<lambda>_. ()) deps)"
    by (simp add: each_eq_Inr)
  then show ?thesis by (simp add: validate_deployments_def)
qed

lemma candidate_identity_form:
  "candidate_identity E candidate = Inr identity \<Longrightarrow>
     \<exists>raw. identity = (sha256_bytes (hash E) raw, keccak256_hex (hash E) raw)"
  by (auto simp: candidate_identity_def elim!: rbindE split: if_splits)

lemma x_require_digests:
  "SHA256_RE s \<Longrightarrow> x_require_sha256 (JStr s) f = Inr s"
  "KECCAK_RE k \<Longrightarrow> x_require_hash (JStr k) f = Inr k"
  by (auto simp: x_require_sha256_def require_sha256_def require_string_def SHA256_RE_def
      x_require_hash_def x_require_string_def HEX_HASH_LENGTH_def KECCAK_RE_def)

lemma posture_fields:
  obtains d where "posture_json c = JDict d" and "dget d ''production_candidate'' = JBool (cd_production c)"
    and "\<exists>s \<in> set EXECUTABLE_PLAN_STATUSES. dget d ''status'' = JStr s"
  by (rule that, unfold posture_json_def Let_def, rule refl) (simp_all add: dget_def EXECUTABLE_PLAN_STATUSES_def)

lemma candidate_fields:
  obtains d where "candidate_json c path sha = JDict d" and "dget d ''schema_version'' = JStr (cd_schema c)"
    and "dget d ''candidate_identity_sha256'' = (case cd_identity c of None \<Rightarrow> JNull | Some (s, _) \<Rightarrow> JStr s)"
    and "dget d ''candidate_identity_keccak256'' = (case cd_identity c of None \<Rightarrow> JNull | Some (_, k) \<Rightarrow> JStr k)"
  by (rule that, unfold candidate_json_def, rule refl) (simp_all add: dget_def)

lemma check_plan_posture_ok:
  assumes "dget plan ''release_posture'' = posture_json c" and "dget plan ''candidate'' = candidate_json c path sha"
    and "cd_schema c = CANDIDATE_SCHEMA \<and> \<not> cd_production c \<and> cd_identity c = None \<or>
     cd_schema c = CANDIDATE_V2_SCHEMA \<and> cd_production c \<and>
       (\<exists>s k. cd_identity c = Some (s, k) \<and> SHA256_RE s \<and> KECCAK_RE k)"
  shows "check_plan_posture plan = Inr ()"
proof -
  have n: "CANDIDATE_V2_SCHEMA \<noteq> CANDIDATE_SCHEMA" "CANDIDATE_SCHEMA \<noteq> []" "CANDIDATE_V2_SCHEMA \<noteq> []"
    by (simp_all add: CANDIDATE_V2_SCHEMA_def CANDIDATE_SCHEMA_def)
  obtain d where d: "posture_json c = JDict d" "dget d ''production_candidate'' = JBool (cd_production c)"
    "\<exists>s \<in> set EXECUTABLE_PLAN_STATUSES. dget d ''status'' = JStr s" by (rule posture_fields)
  obtain e where e: "candidate_json c path sha = JDict e" "dget e ''schema_version'' = JStr (cd_schema c)"
    "dget e ''candidate_identity_sha256'' = (case cd_identity c of None \<Rightarrow> JNull | Some (s, _) \<Rightarrow> JStr s)"
    "dget e ''candidate_identity_keccak256'' = (case cd_identity c of None \<Rightarrow> JNull | Some (_, k) \<Rightarrow> JStr k)"
    by (rule candidate_fields)
  have s: "set_member EXECUTABLE_PLAN_STATUSES (dget d ''status'') = Inr True"
    using d(3) by (auto simp: set_member_def)
  from assms(3) show ?thesis
    unfolding check_plan_posture_def assms(1,2) d(1) e(1)
    using n by (auto simp: s d(2) e(2-4) x_require_dict_def x_require_string_def fail_if_def x_require_digests)
qed

text \<open>
  C5: Every plan the materializer returns passes the executor's own checks of a plan: its posture
  is executable under the schema of its candidate, its deployments are numbered without gaps,
  and the length and digest it states for each initcode and runtime are those of the bytes.
\<close>

theorem materialized_plan_executable:
  assumes "wf_hashes (hash E)" and "materialize_deployment_plan E root value w = (Inr plan, w')"
  shows "check_plan_posture plan = Inr () \<and>
    (\<exists>deps. deps \<noteq> [] \<and> dget plan ''deployments'' = JList (map JDict deps) \<and>
       validate_deployments (hash E) deps = Inr ())"
proof -
  obtain p c sha br deps w1 w2 where 1: "read_candidate E root p w1 = (Inr (c, sha), w2)"
    and 2: "list_all2 (settles E c br) (cd_instances c) deps" and 3: "plan_json (hash E) root p c sha br deps = Inr plan"
    by (rule materialize_plan_run[OF assms(2)]) blast
  obtain path where "dget plan ''candidate'' = candidate_json c path sha" using plan_json_fields(3)[OF 3] by blast
  moreover have "cd_schema c = CANDIDATE_SCHEMA \<and> \<not> cd_production c \<and> cd_identity c = None \<or>
     cd_schema c = CANDIDATE_V2_SCHEMA \<and> cd_production c \<and>
       (\<exists>s k. cd_identity c = Some (s, k) \<and> SHA256_RE s \<and> KECCAK_RE k)"
    using read_candidate_Inr[OF 1] candidate_identity_form SHA256_RE_sha256_bytes[OF assms(1)]
      KECCAK_RE_keccak256_hex[OF assms(1)] by fast
  ultimately have "check_plan_posture plan = Inr ()"
    by (rule check_plan_posture_ok[OF plan_json_fields(2)[OF 3]])
  moreover have "validate_deployments (hash E) deps = Inr ()" "deps \<noteq> []"
    using 2 read_candidate_Inr[OF 1] validate_deployments_committed by (auto simp: valid_candidate_def)
  ultimately show ?thesis using plan_json_fields(1)[OF 3] by blast
qed

end
