(* ===== verification/Pipeline.thy ===== *)
theory Pipeline
  imports Materializer
begin

text \<open>
  The executor over the materializer: \<open>execute_plan\<close> of
  \<open>tools/deployment/execute_canonical_deployment_plan.py\<close> calls \<open>materialize_deployment_plan\<close>
  of \<open>tools/deployment/materialize_canonical_deployment_plan.py\<close> when it starts and after every
  deployment. What holds of whole runs of the two together, and of two runs one after the
  other.
\<close>

text \<open>\<open>execute_plan\<close> with the materializer it imports.\<close>

definition execute_canonical_plan :: "env \<Rightarrow> request \<Rightarrow> dict io" where
  "execute_canonical_plan E rq = execute_plan E (materialize_deployment_plan E) rq"

definition canonical_key :: "env \<Rightarrow> request \<Rightarrow> world \<Rightarrow> string \<Rightarrow> bool" where
  "canonical_key E rq w key \<longleftrightarrow> run_key E (materialize_deployment_plan E) rq w key"

lemma canonical_key_unique: "canonical_key E rq w key \<Longrightarrow> canonical_key E rq w key' \<Longrightarrow> key = key'"
  by (auto simp: canonical_key_def run_key_def)

lemma canonical_crash_safe:
  assumes "''--broadcast'' \<notin> set (rq_signer_cli rq)" and "normpath [] (rq_root rq) = rq_root rq"
    and "\<And>sid. guarded E (journal_file rq sid)"
    and "\<not> sent (trace w)" and "execute_canonical_plan E rq w = (r, w')" and "sent (trace w')"
  shows "\<exists>key sid. canonical_key E rq w key \<and> unresolved_on_disk rq sid key w'"
  using run_crash_safe[OF materialize_passive assms(1,2,3,4) assms(5)[unfolded execute_canonical_plan_def] assms(6)]
  by (simp add: canonical_key_def)

lemma canonical_blocked:
  assumes "normpath [] (rq_root rq) = rq_root rq" and "undisturbed E (journal_file rq sid)"
    and "path_exists (files w) (rq_root rq @ SESSION_ROOT)"
    and "unresolved_on_disk rq sid key w" and "canonical_key E rq w key" and "\<not> sent (trace w)"
  shows "\<exists>e w'. execute_canonical_plan E rq w = (Inl e, w') \<and> \<not> sent (trace w')"
  unfolding execute_canonical_plan_def
  by (rule run_blocked[OF materialize_passive assms(1-4) assms(5)[unfolded canonical_key_def] assms(6)])

text \<open>
  C1: Crash safety. Whenever a run of \<open>execute_plan\<close> has sent a broadcast (and then returned,
  raised, or been killed at any step, with faults and interference anywhere but on the
  journals), its journal is on disk, is of the run's execution key (plan digest, chain id,
  sender), and has a status that no later run takes for a safe retry.
\<close>

theorem execute_plan_crash_safe:
  assumes "''--broadcast'' \<notin> set (rq_signer_cli rq)" and "normpath [] (rq_root rq) = rq_root rq"
    and "\<And>sid. guarded E (journal_file rq sid)"
    and "\<not> sent (trace w)" and "execute_canonical_plan E rq w = (r, w')" and "sent (trace w')"
  shows "\<exists>key sid. canonical_key E rq w key \<and> unresolved_on_disk rq sid key w'"
  using assms by (rule canonical_crash_safe)

text \<open>
  C3: A run whose execution key is that of a journal left open raises and sends nothing,
  whatever the node answers, whatever fails, and whatever else is in the file system.
\<close>

theorem execute_plan_blocked:
  assumes "normpath [] (rq_root rq) = rq_root rq" and "undisturbed E (journal_file rq sid)"
    and "path_exists (files w) (rq_root rq @ SESSION_ROOT)"
    and "unresolved_on_disk rq sid key w" and "canonical_key E rq w key" and "\<not> sent (trace w)"
  shows "\<exists>e w'. execute_canonical_plan E rq w = (Inl e, w') \<and> \<not> sent (trace w')"
  using assms by (rule canonical_blocked)

text \<open>
  C2: No deployment is broadcast by two runs. When a run has sent a broadcast, however it
  ended, every later run (another process, another environment) of the same repository with
  the same execution key that finds the journals as the first left them raises without
  sending anything.
\<close>

theorem never_broadcast_twice:
  assumes "''--broadcast'' \<notin> set (rq_signer_cli rq)" and "normpath [] (rq_root rq) = rq_root rq"
    and "\<And>sid. guarded E (journal_file rq sid)" and "\<not> sent (trace w)"
    and "execute_canonical_plan E rq w = (r, w')" and "sent (trace w')"
    and "rq_root rq' = rq_root rq" and "\<And>sid. undisturbed E' (journal_file rq' sid)"
    and "\<And>sid. file_at (files v) (journal_file rq sid) = file_at (files w') (journal_file rq sid)"
    and "path_exists (files v) (rq_root rq @ SESSION_ROOT)" and "\<not> sent (trace v)"
    and "canonical_key E rq w key" and "canonical_key E' rq' v key"
  shows "\<exists>e v'. execute_canonical_plan E' rq' v = (Inl e, v') \<and> \<not> sent (trace v')"
proof -
  obtain sid where "unresolved_on_disk rq sid key w'"
    using canonical_crash_safe[OF assms(1-6)] canonical_key_unique[OF assms(12)] by blast
  then have u: "unresolved_on_disk rq' sid key v"
    using assms(7,9) by (simp add: unresolved_on_disk_def journal_file_def)
  show ?thesis
    by (rule canonical_blocked[OF _ _ _ u assms(13,11)]) (use assms(2,7,8,10) in simp_all)
qed

end
