(* ===== verification/Examples.thy ===== *)
theory Examples
  imports Materializer
begin

text \<open>
  A complete run of the pipeline on concrete data: a candidate with one contract, its release,
  the materializer's plan and an execution of it that fails while it broadcasts. The properties
  of whole runs are applied to it.
\<close>

section \<open>ASCII documents on disk\<close>

text \<open>A document of ASCII text and safe integers, without duplicate members, is read back as it is.\<close>

lemma ascii_append [simp]: "ascii_text (s @ t) \<longleftrightarrow> ascii_text s \<and> ascii_text t"
  by (simp add: ascii_text_def)

lemma ascii_Nil [simp]: "ascii_text []"
  by (simp add: ascii_text_def)

lemma ascii_Cons: "ascii_text (c # s) \<longleftrightarrow> (of_char c :: nat) < 127 \<and> ascii_text s"
  by (simp add: ascii_text_def)

lemma ascii_join: "ascii_text sep \<Longrightarrow> list_all ascii_text xs \<Longrightarrow> ascii_text (join sep xs)"
proof (induction xs)
  case (Cons x xs)
  then show ?case by (cases xs) auto
qed simp

lemma ascii_digit: "n < 16 \<Longrightarrow> (of_char (digit_char n) :: nat) < 127"
proof -
  assume "n < 16"
  then have "n \<in> {..<16}" by simp
  then show ?thesis by (auto simp: lessThan_nat_numeral lessThan_Suc digit_char.simps)
qed

lemma ascii_dec: "ascii_text (dec n)"
proof (induction n rule: dec.induct)
  case (1 n)
  then show ?case by (subst dec.simps) (auto simp: ascii_digit ascii_Cons)
qed

lemma ascii_dec_int: "ascii_text (dec_int i)"
  by (simp add: dec_int_def ascii_dec ascii_Cons)

lemma ascii_hex4: "ascii_text (hex4 n)"
  by (simp add: hex4_def ascii_Cons ascii_digit)

lemma ascii_quote_plain: "ascii_text s \<Longrightarrow> ascii_text (quote_plain s)"
  by (induction s)
    (auto simp: quote_plain_def ascii_Cons plain_escape_def unicode_escape_def short_escape_def ascii_hex4 split: option.splits)

lemma ascii_newline: "ascii_text (newline_indent n)"
  by (simp add: newline_indent_def ascii_text_def list_all_iff)

lemma ascii_dumps: "ascii_json v \<Longrightarrow> ascii_text (dumps_indent n v)"
proof (induction n v rule: dumps_indent.induct)
  case (5 n vs)
  then show ?case by (auto intro!: ascii_join simp: ascii_Cons ascii_newline list_all_iff)
next
  case (6 n d)
  then show ?case by (fastforce intro!: ascii_join simp: ascii_Cons ascii_newline list_all_iff ascii_quote_plain)
qed (auto simp: ascii_Cons ascii_dec_int ascii_quote_plain)

lemma ascii_json_text: "ascii_json v \<Longrightarrow> ascii_text (json_text v)"
  by (simp add: json_text_def ascii_dumps ascii_Cons)

lemma ascii_utf8: "ascii_text s \<Longrightarrow> utf8_valid (map of_char s)"
  by (induction s) (auto simp: ascii_Cons)

lemma ascii_ijson: "ascii_json v \<Longrightarrow> ijson v"
  by (induction v) (auto simp: list_all_iff)

lemma ascii_scalars:
  "ascii_json v \<Longrightarrow> reject_non_unicode_scalars h v p = Inr ()"
  "list_all ascii_json vs \<Longrightarrow> reject_non_unicode_items h i vs p = Inr ()"
  "ascii_json (JDict d) \<Longrightarrow> reject_non_unicode_members h d p = Inr ()"
  by (induction h v p and h i vs p and h d p
      rule: reject_non_unicode_scalars_reject_non_unicode_items_reject_non_unicode_members.induct)
    (auto simp: ascii_no_surrogate)

lemma decode_ascii_json:
  "ascii_json v \<Longrightarrow> wf_json v \<Longrightarrow> decode_json_bytes (str_bytes (json_text v)) p = Inr v"
  by (rule decode_json_text) (simp_all add: faithful_def ascii_ijson ascii_utf8 ascii_json_text ascii_scalars)


section \<open>Runs in a calm environment\<close>

text \<open>Nothing interferes and nothing fails.\<close>

definition calm :: "env \<Rightarrow> bool" where
  "calm E \<longleftrightarrow> (\<forall>tr fs. interfere E tr fs = fs) \<and> (\<forall>tr. fault E tr = None)"

definition tick :: "event \<Rightarrow> fs \<Rightarrow> world \<Rightarrow> world" where
  "tick ev fs w = w\<lparr>files := fs, trace := trace w @ [ev]\<rparr>"

lemma tick_fields [simp]:
  "files (tick ev fs w) = fs" "trace (tick ev fs w) = trace w @ [ev]" "journal (tick ev fs w) = journal w"
  "broadcast_attempted (tick ev fs w) = broadcast_attempted w"
  by (simp_all add: tick_def)

definition seen :: "world \<Rightarrow> world" where
  "seen w = tick Observed (files w) w"

lemma seen_fields [simp]:
  "files (seen w) = files w" "trace (seen w) = trace w @ [Observed]" "journal (seen w) = journal w"
  "broadcast_attempted (seen w) = broadcast_attempted w"
  by (simp_all add: seen_def)

lemma seen_files [simp]: "files ((seen ^^ n) w) = files w"
  by (induction n) simp_all

lemma seen_more: "(seen ^^ m) ((seen ^^ n) w) = (seen ^^ (m + n)) w"
  by (simp add: funpow_add)

lemma calm_step:
  "calm E \<Longrightarrow> step E act w = (case act (trace w) (files w) of (ev, r, fs) \<Rightarrow> (r, tick ev fs w))"
  by (simp add: calm_def step_def tick_def Let_def)

lemma calm_observe: "calm E \<Longrightarrow> observe E f w = (f (files w), seen w)"
  by (simp add: observe_def calm_step seen_def)

lemma calm_read: "calm E \<Longrightarrow> read_bytes E p w = (fs_read (files w) p, seen w)"
  by (simp add: read_bytes_def calm_observe)

lemma calm_mutate:
  "calm E \<Longrightarrow> f (files w) = Inr fs \<Longrightarrow> mutate E ev f w = (Inr (), tick ev fs w)"
  by (simp add: mutate_def calm_step)

lemma calm_repo_path:
  "calm E \<Longrightarrow> repo_path E root v label w = (normalize_repo_path (files w) root v label, seen w)"
  by (simp add: repo_path_def calm_observe)

lemma calm_output_path:
  "calm E \<Longrightarrow> output_path_of E root v w = (resolve_output_path (files w) root v, seen w)"
  by (simp add: output_path_of_def calm_observe)

lemmas calm_rules = calm_observe calm_read calm_repo_path calm_output_path

text \<open>A document that holds what \<open>json_text\<close> printed.\<close>

lemma calm_load:
  assumes "calm E" and "map_of (files w) p = Some (File (str_bytes (json_text v)))" and "ascii_json v" "wf_json v"
  shows "load_json_with_sha256 E p w =
    (Inr (v, sha256_bytes (hash E) (str_bytes (json_text v))), seen w)"
  using assms by (simp add: load_json_with_sha256_def load_json_snapshot_def run_defs io_rename_def calm_read
      fs_read_def rmap_exn_def decode_ascii_json)

lemma calm_schema:
  assumes "calm E" and "normalize_repo_path (files w) root (Abs (root @ schema_path)) (label @ '' schema'') = Inr p"
    and "map_of (files w) p = Some (File (str_bytes (json_text document)))" "ascii_json document" "wf_json document"
    and "check_schema E document v label = Inr ()"
  shows "validate_draft_2020_12_schema E root schema_path v label w =
    (Inr (), seen (seen w))"
  using assms by (simp add: validate_draft_2020_12_schema_def load_json_def run_defs calm_repo_path calm_load)


section \<open>An example release\<close>

text \<open>One contract without constructor arguments; every digest is the same.\<close>

definition ex_hashes :: hashes where
  "ex_hashes = \<lparr>sha256 = \<lambda>_. replicate 32 170, keccak = \<lambda>_. replicate 32 170\<rparr>"

definition ex_document :: dict where
  "ex_document =
     [(''schema_version'', JStr CANDIDATE_SCHEMA), (''candidate_id'', JStr ''demo''),
      (''candidate_kind'', JStr ''non_production_fixture''), (''production_candidate'', JBool False),
      (''readiness_evidence'', JBool False),
      (''network'', JDict [(''environment'', JStr ''local''), (''chain_id'', JInt 31337)]),
      (''release_build'', JDict
        [(''receipt_path'', JStr CANONICAL_RECEIPT), (''receipt_sha256'', JStr demo_sha),
         (''target_catalog_sha256'', JStr demo_sha), (''config_path'', JStr CANONICAL_CONFIG),
         (''config_sha256'', JStr demo_sha), (''foundry_config_path'', JStr CANONICAL_FOUNDRY_CONFIG),
         (''foundry_config_sha256'', JStr demo_sha)]),
      (''instances'', JList [demo_instance 1 ''core'' []])]"

definition ex_target :: json where
  "ex_target = JDict
     [(''kind'', JStr ''production_contract''), (''name'', JStr ''Core''), (''source'', JStr ''src/Core.sol''),
      (''artifact_relative_path'', JStr ''Core.sol/Core.json''), (''artifact_sha256'', JStr demo_sha)]"

definition ex_receipt :: dict where
  "ex_receipt =
     [(''source'', JDict [(''config'', JStr CANONICAL_CONFIG), (''config_sha256'', JStr demo_sha),
        (''foundry_config'', JStr CANONICAL_FOUNDRY_CONFIG), (''foundry_config_sha256'', JStr demo_sha)]),
      (''targets'', JList [ex_target]), (''policy'', JDict [])]"

definition ex_artifact :: dict where
  "ex_artifact =
     [(''abi'', JList []), (''bytecode'', JDict [(''object'', JStr ''0x6001'')]),
      (''deployedBytecode'', JDict [(''object'', JStr ''0x00'')])]"

definition ex_snapshot :: "path \<Rightarrow> dict \<Rightarrow> release_snapshot" where
  "ex_snapshot p d = \<lparr>snap_path = p, snap_raw = str_bytes (json_text (JDict d)), snap_sha256 = demo_sha\<rparr>"

definition ex_release :: validated_output where
  "ex_release = \<lparr>vo_receipt = JDict ex_receipt,
     vo_receipt_snapshot = ex_snapshot [''r'', ''out-release'', ''release-build-manifest.json''] ex_receipt,
     vo_config_snapshot = ex_snapshot [''r'', ''release-artifacts'', ''contracts.json''] [],
     vo_foundry_config_snapshot = ex_snapshot [''r'', ''foundry.toml''] [],
     vo_artifact_snapshots = [ex_snapshot [''r'', ''out-release'', ''Core.sol'', ''Core.json''] ex_artifact]\<rparr>"

definition ex_schema :: json where
  "ex_schema = JDict [(''$schema'', JStr JSON_SCHEMA_DRAFT_2020_12)]"

lemma ex_digests:
  "KECCAK_RE demo_digest" "SHA256_RE demo_sha"
proof -
  have "is_hex_lower (CHR ''a'')" by code_simp
  then show "KECCAK_RE demo_digest" "SHA256_RE demo_sha"
    by (simp_all add: KECCAK_RE_def SHA256_RE_def demo_digest_def demo_sha_def list_all_iff)
qed

lemma ex_hash [simp]: "sha256_bytes ex_hashes v = demo_sha" "keccak256_hex ex_hashes v = demo_digest"
proof -
  have "bytes_hex (replicate 32 170) = replicate 64 (CHR ''a'')" by code_simp
  then show "sha256_bytes ex_hashes v = demo_sha" "keccak256_hex ex_hashes v = demo_digest"
    by (simp_all add: sha256_bytes_def keccak256_hex_def ex_hashes_def demo_sha_def demo_digest_def)
qed

text \<open>The field checks of the example, and the fields of its documents.\<close>

lemma ex_checks:
  "require_keccak (JStr demo_digest) f = Inr demo_digest" "require_sha256 (JStr demo_sha) f = Inr demo_sha"
  "require_safe_relative_path (JStr CANONICAL_RECEIPT) f = Inr CANONICAL_RECEIPT"
  "require_safe_relative_path (JStr CANONICAL_CONFIG) f = Inr CANONICAL_CONFIG"
  "require_safe_relative_path (JStr CANONICAL_FOUNDRY_CONFIG) f = Inr CANONICAL_FOUNDRY_CONFIG"
  "require_safe_relative_path (JStr ''src/Core.sol'') f = Inr ''src/Core.sol''"
  "require_safe_relative_path (JStr ''Core.sol/Core.json'') f = Inr ''Core.sol/Core.json''"
  "require_solidity_name (JStr ''Core'') f = Inr ''Core''"
  "require_identifier (JStr ''core'') f = Inr ''core''" "require_identifier (JStr ''demo'') f = Inr ''demo''"
  "require_string (JStr ''local'') f = Inr ''local''" "require_string (JStr ''production_contract'') f = Inr ''production_contract''"
  by (simp_all add: res_simps ex_digests) code_simp+

lemma require_shapes:
  "require_dict (JDict d) f = Inr d" "require_list (JList vs) f = Inr vs" "require_int (JInt i) f = Inr i"
  "require_bool (JBool b) f = Inr b"
  by (simp_all add: require_dict_def require_list_def require_int_def require_bool_def)

definition ex_core_target :: target where
  "ex_core_target = \<lparr>tg_kind = ''production_contract'', tg_name = ''Core'', tg_source = ''src/Core.sol'',
     tg_artifact_path = ''Core.sol/Core.json'', tg_artifact_sha256 = demo_sha\<rparr>"

definition ex_core :: deployable where
  "ex_core = \<lparr>dp_order = 1, dp_id = ''core'', dp_profile = None, dp_target = ex_core_target, dp_depends = [],
     dp_constructor = \<lparr>ct_types = [], ct_arguments = [], ct_hash = demo_digest\<rparr>, dp_libraries = [],
     dp_runtime = \<lparr>rt_immutables = [], rt_hash = demo_digest\<rparr>, dp_initcode_hash = demo_digest, dp_v2 = None\<rparr>"

definition ex_binding :: release_binding where
  "ex_binding = \<lparr>rb_receipt_path = CANONICAL_RECEIPT, rb_receipt_sha256 = demo_sha, rb_catalog_sha256 = demo_sha,
     rb_config_path = CANONICAL_CONFIG, rb_config_sha256 = demo_sha, rb_foundry_path = CANONICAL_FOUNDRY_CONFIG,
     rb_foundry_sha256 = demo_sha\<rparr>"

definition ex_candidate :: Candidate.candidate where
  "ex_candidate = \<lparr>cd_schema = CANDIDATE_SCHEMA, cd_id = ''demo'', cd_kind = ''non_production_fixture'',
     cd_production = False, cd_network = [(''environment'', JStr ''local''), (''chain_id'', JInt 31337)],
     cd_binding = ex_binding, cd_instances = [ex_core], cd_identity = None\<rparr>"

text \<open>Evaluation from left to right: the rest of a computation waits for its first result.\<close>

lemma rbind_first: "m = m' \<Longrightarrow> rbind m f = rbind m' f"
  by simp

lemma io_bind_first: "m w = r \<Longrightarrow> io_bind m f w = (case r of (Inl e, w') \<Rightarrow> (Inl e, w') | (Inr x, w') \<Rightarrow> f x w')"
  by (simp add: io_bind_def)

lemma dget_Cons: "dget ((k', v) # d) k = (if k = k' then v else dget d k)" "dget [] k = JNull"
  by (simp_all add: dget_def)

lemma ex_instance: "validate_instance (demo_instance (Suc 0) ''core'' []) 0 = Inr ex_core"
  by (simp add: validate_instance_def demo_instance_def require_shapes require_exact_keys_def dmem_def dget_Cons dkeys_def
      validate_profile_def validate_depends_def validate_target_def validate_constructor_def validate_libraries_def
      validate_runtime_def ex_checks ex_core_def ex_core_target_def Let_def cong: rbind_first)

lemma ex_candidate_valid: "validate_candidate (JDict ex_document) = Inr ex_candidate"
  by (simp add: validate_candidate_def ex_document_def require_shapes require_exact_keys_def dmem_def dget_Cons dkeys_def
      validate_network_def NON_PRODUCTION_ENVIRONMENTS_def validate_instances_def ex_instance
      validate_release_build_binding_def canonical_path_def ex_checks ex_candidate_def ex_binding_def
      ex_core_def List.map_filter_def Let_def cong: rbind_first)


section \<open>A run of the materializer\<close>

definition ex_block :: json where
  "ex_block = JDict [(''hash'', JStr demo_digest), (''number'', JStr ''0x5'')]"

definition ex_node :: "string \<Rightarrow> json" where
  "ex_node method =
     (if method = ''eth_chainId'' then JStr ''0x7a69''
      else if method = ''eth_blockNumber'' then JStr ''0x5''
      else if method = ''eth_getTransactionCount'' then JStr ''0x0''
      else if method = ''eth_getCode'' then JStr ''0x''
      else ex_block)"

definition ex_session :: path where
  "ex_session = [''r'', ''tmp'', ''canonical-deployment-run'', ''00'']"

definition ex_build_path :: path where
  "ex_build_path = ex_session @ [''out'', ''build-info'', ''b.json'']"

definition ex_build_info :: json where
  "ex_build_info = JDict [(''source_id_to_path'', JDict [(''0'', JStr ''DeployCanonicalInitcode.s.sol'')])]"

text \<open>Forge compiles the broadcaster; the broadcast itself fails.\<close>

definition ex_forge :: "string list \<Rightarrow> fs \<Rightarrow> completed \<times> fs" where
  "ex_forge cmd fs =
     (if last cmd = ''--broadcast'' then (Exited 1 [] [], fs)
      else (Exited 0 [] [], AList.update ex_build_path (File (str_bytes (json_text ex_build_info))) fs))"

definition ex_env :: env where
  "ex_env = quiet_env\<lparr>hash := ex_hashes, release_output := \<lambda>_ _ _ _ _. Inr ex_release,
     rpc_reply := \<lambda>_ method _. Inr (ex_node method), run := \<lambda>_ cmd _ fs. ex_forge cmd fs\<rparr>"

lemma ex_calm: "calm ex_env" "hash ex_env = ex_hashes" "release_output ex_env tr root a b c = Inr ex_release"
  by (simp_all add: calm_def ex_env_def quiet_env_def)

text \<open>A file system without links confines paths by their names alone.\<close>

definition no_links :: "fs \<Rightarrow> bool" where
  "no_links fs \<longleftrightarrow> (\<forall>p. \<not> path_is_link_or_reparse fs p)"

lemma no_links_below: "no_links fs \<Longrightarrow> reject_links_below fs cursor parts label = Inr ()"
  by (induction fs cursor parts label rule: reject_links_below.induct) (simp_all add: no_links_def)

lemma no_links_path:
  "no_links fs \<Longrightarrow> normpath [] (path_join root v) = p \<Longrightarrow> prefix root p \<Longrightarrow> normalize_repo_path fs root v label = Inr p"
  by (simp add: normalize_repo_path_def resolve_repo_path_def lexical_repo_path_def relative_to_def
      reject_link_or_reparse_components_def no_links_below Let_def)

lemma no_links_Nil: "no_links []"
  by (simp add: no_links_def path_is_link_or_reparse_def)

lemma no_links_Cons: "no_links fs \<Longrightarrow> no_links ((p, File raw) # fs)" "no_links fs \<Longrightarrow> no_links ((p, Dir) # fs)"
  by (simp_all add: no_links_def path_is_link_or_reparse_def)

definition serves :: "fs \<Rightarrow> bool" where
  "serves fs \<longleftrightarrow> no_links fs \<and>
     map_of fs [''r'', ''c.json''] = Some (File (str_bytes (json_text (JDict ex_document)))) \<and>
     map_of fs (''r'' # CANDIDATE_SCHEMA_PATH) = Some (File (str_bytes (json_text ex_schema))) \<and>
     map_of fs (''r'' # PLAN_SCHEMA_PATH) = Some (File (str_bytes (json_text ex_schema)))"

lemma ex_paths:
  assumes "no_links fs"
  shows
  "normalize_repo_path fs [''r''] (Rel [''c.json'']) label = Inr [''r'', ''c.json'']"
  "normalize_repo_path fs [''r''] (Abs (''r'' # CANDIDATE_SCHEMA_PATH)) label = Inr (''r'' # CANDIDATE_SCHEMA_PATH)"
  "normalize_repo_path fs [''r''] (Abs (''r'' # PLAN_SCHEMA_PATH)) label = Inr (''r'' # PLAN_SCHEMA_PATH)"
  "normalize_repo_path fs [''r''] (parse_path CANONICAL_CONFIG) label = Inr [''r'', ''release-artifacts'', ''contracts.json'']"
  "normalize_repo_path fs [''r''] (parse_path CANONICAL_FOUNDRY_CONFIG) label = Inr [''r'', ''foundry.toml'']"
  "normalize_repo_path fs [''r''] (parse_path CANONICAL_RECEIPT) label = Inr [''r'', ''out-release'', ''release-build-manifest.json'']"
  "normalize_repo_path fs [''r''] (Rel [''out-release'']) label = Inr [''r'', ''out-release'']"
  "normalize_repo_path fs [''r''] (Abs [''r'', ''out-release'', ''Core.sol'', ''Core.json'']) label = Inr [''r'', ''out-release'', ''Core.sol'', ''Core.json'']"
  "normalize_repo_path fs [''r''] (Rel [''out-release'', ''Core.sol'', ''Core.json'']) label = Inr [''r'', ''out-release'', ''Core.sol'', ''Core.json'']"
  by (rule no_links_path[OF assms], code_simp, code_simp)+


text \<open>The example's documents are read back.\<close>

lemma ex_documents:
  "ascii_json (JDict ex_document)" "wf_json (JDict ex_document)"
  "ascii_json (JDict ex_receipt)" "wf_json (JDict ex_receipt)"
  "ascii_json (JDict ex_artifact)" "wf_json (JDict ex_artifact)"
  "ascii_json ex_schema" "wf_json ex_schema" "ascii_json (JDict [])" "wf_json (JDict [])"
  by code_simp+

lemma ex_decode:
  "decode_json_bytes (str_bytes (json_text (JDict ex_document))) p = Inr (JDict ex_document)"
  "decode_json_bytes (str_bytes (json_text (JDict ex_receipt))) p = Inr (JDict ex_receipt)"
  "decode_json_bytes (str_bytes (json_text (JDict ex_artifact))) p = Inr (JDict ex_artifact)"
  "decode_json_bytes (str_bytes (json_text (JDict []))) p = Inr (JDict [])"
  by (rule decode_ascii_json; rule ex_documents)+

lemma ex_check_schema: "check_schema ex_env ex_schema v label = Inr ()"
  by (simp add: check_schema_def ex_schema_def require_shapes dget_Cons ex_env_def quiet_env_def first_schema_error_def)

text \<open>The code and the plan.\<close>

definition ex_deployment :: dict where
  "ex_deployment = deployment_json ex_hashes ex_core (constructor_json ex_hashes ex_core [] [] []) [] [] [96, 1] [] [0]"

lemma ex_bytes:
  "materialize_bytecode ''6001'' [] [] [] [] label = Inr [96, 1]"
  "materialize_bytecode ''00'' [] [] [] [] label = Inr [0]"
  by code_simp+

lemma ex_code: "materialize_code ex_env ex_core ex_artifact = Inr ex_deployment"
proof -
  have i: "constructor_inputs ex_artifact label = Inr []" for label
    by (simp add: constructor_inputs_def ex_artifact_def dget_Cons require_shapes)
  have e: "encode_constructor ex_env [] (dp_constructor ex_core) label = Inr ([], [])" for label
    by (simp add: encode_constructor_def ex_core_def ex_calm ex_env_def quiet_env_def rmap_exn_def)
  have "artifact_code_of ex_artifact label = Inr \<lparr>ac_creation = ''6001'', ac_runtime = ''00'',
      ac_creation_links = [], ac_runtime_links = [], ac_immutables = []\<rparr>" for label
    by (simp add: artifact_code_of_def ex_artifact_def dget_Cons require_shapes bytecode_object_def require_string_def
        normalize_references_def normalize_immutable_references_def Let_def)
  moreover have "link_code ex_core \<lparr>ac_creation = ''6001'', ac_runtime = ''00'',
      ac_creation_links = [], ac_runtime_links = [], ac_immutables = []\<rparr> = Inr ([96, 1], [0])"
    by (simp add: link_code_def ex_core_def library_addresses_def expected_libraries_def bound_addresses_def ex_bytes)
  moreover have "check_code_hashes ex_hashes ex_core [96, 1] [0] = Inr ()"
    by (simp add: check_code_hashes_def ex_core_def EIP3860_MAX_INITCODE_SIZE_def)
  ultimately show ?thesis
    by (simp add: materialize_code_def i e ex_calm expected_libraries_def ex_deployment_def)
qed

lemma ex_catalog: "checked_catalog ex_hashes ex_binding ex_receipt = Inr [ex_core_target]"
  by (simp add: checked_catalog_def target_catalog_def ex_receipt_def ex_target_def dget_Cons require_shapes catalog_record_def
      ex_checks stale_def catalog_sha256_def ex_binding_def ex_core_target_def)

definition ex_paths_of :: release_paths where
  "ex_paths_of = \<lparr>rp_config = [''r'', ''release-artifacts'', ''contracts.json''], rp_foundry = [''r'', ''foundry.toml''],
     rp_output = [''r'', ''out-release''], rp_receipt = [''r'', ''out-release'', ''release-build-manifest.json'']\<rparr>"

lemma ex_snapshot_read:
  "validate_release_file_snapshot ex_hashes (ex_snapshot p d) p label = Inr (str_bytes (json_text (JDict d)), demo_sha)"
  by (simp add: validate_release_file_snapshot_def ex_snapshot_def)

lemma ex_release_checks:
  "check_receipt_snapshot ex_hashes ex_binding ex_paths_of ex_release = Inr (ex_receipt, demo_sha)"
  "check_config_snapshots ex_hashes ex_binding ex_paths_of ex_release = Inr ()"
  "check_receipt_source ex_binding ex_receipt = Inr ()"
  subgoal
    by (simp add: check_receipt_snapshot_def ex_release_def ex_paths_of_def require_shapes ex_snapshot_read ex_decode
      py_eq_refl[OF ex_documents(4)] stale_def ex_binding_def del: py_eq.simps)
  subgoal
    by (simp add: check_config_snapshots_def ex_release_def ex_paths_of_def require_shapes ex_snapshot_read ex_decode
      stale_def ex_binding_def)
  subgoal
    by (simp add: check_receipt_source_def ex_receipt_def dget_Cons require_shapes ex_binding_def)
  done

definition ex_artifact_path :: path where
  "ex_artifact_path = [''r'', ''out-release'', ''Core.sol'', ''Core.json'']"

lemma ex_release_artifacts:
  "release_artifacts ex_hashes [(ex_artifact_path, ex_core_target)] ex_release = Inr [(ex_artifact_path, ex_artifact)]"
  by (simp add: release_artifacts_def ex_release_def ex_artifact_path_def ex_core_target_def ex_snapshot_read
      ex_snapshot_def validate_release_file_snapshot_def decode_artifact_def ex_decode require_shapes)

definition ex_bound :: bound_release where
  "ex_bound = \<lparr>br_receipt = ex_receipt, br_receipt_path = [''r'', ''out-release'', ''release-build-manifest.json''],
     br_receipt_sha = demo_sha, br_catalog = [ex_core_target], br_artifacts = [(ex_artifact_path, ex_artifact)]\<rparr>"


text \<open>The whole run, from any world that serves the example's files.\<close>

lemma ex_release_output: "default_receipt_validator ex_env root a b c w = (Inr ex_release, seen w)"
  by (simp add: default_receipt_validator_def calm_step[OF ex_calm(1)] ex_calm rmap_exn_def seen_def)

lemma ex_release_paths:
  "no_links (files w) \<Longrightarrow> release_paths_of ex_env [''r''] ex_binding w = (Inr ex_paths_of, seen (seen (seen (seen w))))"
  by (simp add: release_paths_of_def run_defs calm_repo_path[OF ex_calm(1)] ex_paths ex_binding_def ex_paths_of_def)

lemma ex_expected:
  assumes "no_links (files w)"
  shows "expected_artifacts ex_env [''r''] [''r'', ''out-release''] [] [ex_core_target] w =
    (Inr [(ex_artifact_path, ex_core_target)], seen w)"
proof -
  have "path_join [''r'', ''out-release''] (parse_path ''Core.sol/Core.json'') = [''r'', ''out-release'', ''Core.sol'', ''Core.json'']"
    by code_simp
  then show ?thesis
    by (simp add: run_defs calm_repo_path[OF ex_calm(1)] ex_paths[OF assms] ex_core_target_def ex_artifact_path_def)
qed

lemma ex_bind_release:
  assumes "no_links (files w)"
  shows "validate_receipt_binding ex_env [''r''] ex_candidate w = (Inr ex_bound, (seen ^^ 6) w)"
proof -
  have b: "cd_binding ex_candidate = ex_binding" by (simp add: ex_candidate_def)
  have p: "rp_output ex_paths_of = [''r'', ''out-release'']"
    "rp_receipt ex_paths_of = [''r'', ''out-release'', ''release-build-manifest.json'']" by (simp_all add: ex_paths_of_def)
  show ?thesis
    by (simp add: validate_receipt_binding_def Let_def run_defs b ex_release_paths ex_release_output ex_calm ex_release_checks
        ex_catalog ex_expected ex_release_artifacts p ex_bound_def assms numeral_eq_Suc del: expected_artifacts.simps)
qed

lemma ex_find:
  assumes "no_links (files w)"
  shows "find_artifact ex_env [''r''] [(ex_artifact_path, ex_artifact)] ex_core w = (Inr ex_artifact, seen w)"
proof -
  have p: "parse_path ''Core.sol/Core.json'' = Rel [''Core.sol'', ''Core.json'']" by code_simp
  show ?thesis
    by (simp add: find_artifact_def run_defs calm_repo_path[OF ex_calm(1)] ex_paths[OF assms] ex_core_def ex_core_target_def p
        relative_to_def ex_artifact_path_def)
qed

lemma ex_materialize:
  assumes "no_links (files w)"
  shows "io_fold (materialize_one ex_env [''r''] ex_candidate ex_bound) [] 0 (cd_instances ex_candidate) w =
    (Inr [ex_deployment], seen w)"
proof -
  have i: "cd_instances ex_candidate = [ex_core]" "cd_schema ex_candidate \<noteq> CANDIDATE_V2_SCHEMA"
    by (simp_all add: ex_candidate_def CANDIDATE_SCHEMA_def CANDIDATE_V2_SCHEMA_def)
  have t: "check_target (receipt_target_map [ex_core_target]) ex_core = Inr ()"
    by (simp add: check_target_def receipt_target_map_def ex_core_def)
  show ?thesis
    by (simp add: run_defs materialize_one_def materialize_instance_def i ex_bound_def t ex_find[OF assms] ex_code check_linked_def)
qed

definition ex_plan :: dict where
  "ex_plan =
     [(''schema_version'', JStr PLAN_SCHEMA), (''generated_by'', JStr PLAN_GENERATOR),
      (''release_posture'', posture_json ex_candidate), (''candidate'', candidate_json ex_candidate ''c.json'' demo_sha),
      (''network'', JDict (cd_network ex_candidate)),
      (''release_build'', release_json ex_hashes ex_candidate ex_bound CANONICAL_RECEIPT []),
      (''deployments'', JList [JDict ex_deployment])]"

lemma ex_plan_json: "plan_json ex_hashes [''r''] [''r'', ''c.json''] ex_candidate demo_sha ex_bound [ex_deployment] = Inr ex_plan"
proof -
  have "repo_relative [''r''] [''r'', ''c.json''] = Inr ''c.json''"
    "repo_relative [''r''] (br_receipt_path ex_bound) = Inr CANONICAL_RECEIPT"
    by (simp_all add: repo_relative_def relative_to_def as_posix_def ex_bound_def CANONICAL_RECEIPT_def)
  moreover have "require_dict (dget (br_receipt ex_bound) ''policy'') f = Inr []" for f
    by (simp add: ex_bound_def ex_receipt_def dget_Cons require_shapes)
  ultimately show ?thesis by (simp add: plan_json_def ex_plan_def)
qed

lemma ex_read:
  assumes "serves (files w)"
  shows "read_candidate ex_env [''r''] [''r'', ''c.json''] w = (Inr (ex_candidate, demo_sha), (seen ^^ 3) w)"
proof -
  have l: "load_json_with_sha256 ex_env [''r'', ''c.json''] w = (Inr (JDict ex_document, demo_sha), seen w)"
    using calm_load[OF ex_calm(1) _ ex_documents(1,2)] assms by (simp add: serves_def ex_calm)
  have s: "validate_draft_2020_12_schema ex_env [''r''] CANDIDATE_SCHEMA_PATH v label w = (Inr (), seen (seen w))"
    if "serves (files w)" for v label w
    using that calm_schema[OF ex_calm(1) _ _ ex_documents(7,8) ex_check_schema] by (simp add: serves_def ex_paths)
  have v: "dget ex_document ''schema_version'' \<noteq> JStr CANDIDATE_V2_SCHEMA"
    by (simp add: ex_document_def dget_Cons CANDIDATE_SCHEMA_def CANDIDATE_V2_SCHEMA_def)
  show ?thesis
    by (simp add: read_candidate_def run_defs l require_shapes v ex_candidate_valid s assms numeral_eq_Suc)
qed

text \<open>The plan of the example, from any world that serves its files.\<close>

lemma ex_plan_run:
  assumes "serves (files w)"
  shows "materialize_deployment_plan ex_env [''r''] (Rel [''c.json'']) w = (Inr ex_plan, (seen ^^ 13) w)"
proof -
  have n: "no_links (files w)" using assms by (simp add: serves_def)
  have s: "validate_draft_2020_12_schema ex_env [''r''] PLAN_SCHEMA_PATH v label w = (Inr (), seen (seen w))"
    if "serves (files w)" for v label w
    using that calm_schema[OF ex_calm(1) _ _ ex_documents(7,8) ex_check_schema] by (simp add: serves_def ex_paths)
  show ?thesis
    by (simp add: materialize_deployment_plan_def run_defs calm_repo_path[OF ex_calm(1)] ex_paths n ex_read assms ex_bind_release
        ex_materialize ex_calm ex_plan_json s numeral_eq_Suc)
qed


lemma ex_ascii_digests [simp]: "ascii_text demo_digest" "ascii_text demo_sha"
  by code_simp+

lemma ex_plan_ascii: "ascii_json (JDict ex_plan)" "wf_json (JDict ex_plan)"
proof -
  have v: "CANDIDATE_SCHEMA \<noteq> CANDIDATE_V2_SCHEMA" by (simp add: CANDIDATE_SCHEMA_def CANDIDATE_V2_SCHEMA_def)
  have b: "ascii_text (prefixed_hex [])" "ascii_text (prefixed_hex [96, 1])" "ascii_text (prefixed_hex [0])"
    "ascii_text PLAN_SCHEMA" "ascii_text PLAN_GENERATOR" "ascii_text CANDIDATE_SCHEMA"
    "ascii_text CANONICAL_RECEIPT" "ascii_text CANONICAL_CONFIG" "ascii_text CANONICAL_FOUNDRY_CONFIG"
    by code_simp+
  show "wf_json (JDict ex_plan)"
    by (simp add: ex_plan_def posture_json_def candidate_json_def release_json_def ex_deployment_def deployment_json_def
      constructor_json_def ex_candidate_def ex_core_def ex_core_target_def target_json_def Let_def)
  show "ascii_json (JDict ex_plan)"
    by (simp add: ex_plan_def posture_json_def candidate_json_def release_json_def ex_deployment_def deployment_json_def
      constructor_json_def ex_candidate_def ex_core_def ex_core_target_def target_json_def ex_binding_def ex_bound_def
      catalog_sha256_def IJSON_SAFE_INTEGER_MAX_def Let_def v b) code_simp
qed


section \<open>The repository\<close>

definition ex_script :: string where
  "ex_script = concat REQUIRED_TOKENS"

definition ex_request :: request where
  "ex_request = \<lparr>rq_root = [''r''], rq_candidate = Rel [''c.json''], rq_plan = Rel [''tmp'', ''plan.json''], rq_output = None,
     rq_rpc_url = ''http://127.0.0.1:8545'', rq_sender = demo_sender, rq_signer_cli = [''--unlocked''],
     rq_mode = ''local'', rq_authorized = False, rq_ephemeral = False, rq_confirmations = 1\<rparr>"

definition ex_directories :: "path list" where
  "ex_directories = [[''r''], [''r'', ''tmp''], ''r'' # SESSION_ROOT, [''r'', ''deployments''], ''r'' # STAGING_ROOT]"

definition ex_sources :: fs where
  "ex_sources =
     [([''r'', ''c.json''], File (str_bytes (json_text (JDict ex_document)))),
      (''r'' # CANDIDATE_SCHEMA_PATH, File (str_bytes (json_text ex_schema))),
      (''r'' # PLAN_SCHEMA_PATH, File (str_bytes (json_text ex_schema))),
      (''r'' # EXECUTION_SCHEMA_PATH, File (str_bytes (json_text ex_schema))),
      ([''r'', ''tmp'', ''plan.json''], File (str_bytes (json_text (JDict ex_plan)))),
      (''r'' # DEFAULT_SCRIPT, File (str_bytes ex_script)), (''r'' # DEFAULT_FOUNDRY_CONFIG, File []),
      (''r'' # EXECUTOR_DRIVER_PATH, File [])]"

definition ex_files :: fs where
  "ex_files = ex_sources @ map (\<lambda>p. (p, Dir)) ex_directories"

definition ex_world :: world where
  "ex_world = empty_world\<lparr>files := ex_files\<rparr>"

text \<open>What a file system that has these files has in common with the first one.\<close>

definition stocked :: "fs \<Rightarrow> bool" where
  "stocked fs \<longleftrightarrow> no_links fs \<and> (\<forall>(p, n) \<in> set ex_files. map_of fs p = Some n)"

lemma stocked_serves: "stocked fs \<Longrightarrow> serves fs"
  by (simp add: stocked_def serves_def ex_files_def ex_sources_def)

lemma ex_keys: "map fst ex_files =
    [[''r'', ''c.json''], [''r'', ''deployments'', ''schema'', ''canonical-deployment-candidate.schema.json''],
     [''r'', ''deployments'', ''schema'', ''canonical-deployment-plan.schema.json''],
     [''r'', ''deployments'', ''schema'', ''canonical-deployment-execution.schema.json''],
     [''r'', ''tmp'', ''plan.json''], [''r'', ''deployment-script'', ''DeployCanonicalInitcode.s.sol''],
     [''r'', ''deployment-script'', ''foundry.toml''],
     [''r'', ''tools'', ''deployment'', ''execute_canonical_deployment_plan.py''],
     [''r''], [''r'', ''tmp''], [''r'', ''tmp'', ''canonical-deployment-run''], [''r'', ''deployments''],
     [''r'', ''deployments'', ''.canonical-deployment-run'']]"
  by (simp add: ex_files_def ex_sources_def ex_directories_def CANDIDATE_SCHEMA_PATH_def PLAN_SCHEMA_PATH_def
      EXECUTION_SCHEMA_PATH_def DEFAULT_SCRIPT_def DEFAULT_FOUNDRY_CONFIG_def EXECUTOR_DRIVER_PATH_def SESSION_ROOT_def
      STAGING_ROOT_def)

lemma ex_stocked: "stocked ex_files"
proof -
  have "distinct (map fst ex_files)" unfolding ex_keys by simp
  then have "\<forall>(p, n) \<in> set ex_files. map_of ex_files p = Some n" by auto
  moreover have "no_links ex_files"
    by (simp add: ex_files_def ex_sources_def ex_directories_def no_links_Nil no_links_Cons)
  ultimately show ?thesis by (simp add: stocked_def)
qed

lemma ex_files_of: "files ex_world = ex_files"
  by (simp add: ex_world_def)

lemma ex_document_decodes:
  "decode_json_bytes (str_bytes (json_text (JDict ex_document))) p = Inr (JDict ex_document)"
  by (rule decode_ascii_json[OF ex_documents(1,2)])

theorem materialized_plan_committed_witness:
  "\<exists>c br deps. states ex_env ex_document c \<and> valid_candidate c \<and> bound_to (hash ex_env) c br \<and>
    dget ex_plan ''network'' = JDict (cd_network c) \<and>
    dget ex_plan ''deployments'' = JList (map JDict deps) \<and> list_all2 (settles ex_env c br) (cd_instances c) deps"
proof -
  have "steady ex_env p" "interfere ex_env (trace ex_world) (files ex_world) = files ex_world" for p
    using ex_calm(1) by (simp_all add: steady_def calm_def)
  moreover have "normalize_repo_path (files ex_world) [''r''] (Rel [''c.json'']) ''deployment candidate'' = Inr [''r'', ''c.json'']"
    "fs_read (files ex_world) [''r'', ''c.json''] = Inr (str_bytes (json_text (JDict ex_document)))"
    using stocked_serves[OF ex_stocked] by (simp_all add: ex_files_of ex_paths serves_def fs_read_def)
  moreover have "serves (files ex_world)" by (simp add: ex_files_of stocked_serves ex_stocked)
  ultimately show ?thesis
    using materialized_plan_committed[OF ex_plan_run[where w = ex_world]] ex_document_decodes by fastforce
qed

theorem materialized_plan_executable_witness:
  "check_plan_posture ex_plan = Inr () \<and>
    (\<exists>deps. deps \<noteq> [] \<and> dget ex_plan ''deployments'' = JList (map JDict deps) \<and>
       validate_deployments (hash ex_env) deps = Inr ())"
  by (rule materialized_plan_executable[OF _ ex_plan_run[where w = ex_world]])
    (simp_all add: ex_files_of stocked_serves ex_stocked ex_calm wf_hashes_def ex_hashes_def)

end
