(* ===== verification/Example_Run.thy ===== *)
theory Example_Run
  imports Pipeline Examples
begin

text \<open>
  The execution of the example's plan, step by step: the sources are read, the network and the
  deployments accepted, the session opened, the plan simulated, the first deployment prepared
  and broadcast; the broadcast fails, the failure is recorded and the session cleaned up. Then
  the same command again. The properties of whole runs are applied to both.
\<close>

section \<open>The sources\<close>

abbreviation ex_mat :: materialize where
  "ex_mat \<equiv> materialize_deployment_plan ex_env"

lemma stocked_at:
  assumes "stocked fs"
  shows "map_of fs [''r'', ''tmp'', ''plan.json''] = Some (File (str_bytes (json_text (JDict ex_plan))))"
    "map_of fs (''r'' # DEFAULT_SCRIPT) = Some (File (str_bytes ex_script))"
    "map_of fs (''r'' # DEFAULT_FOUNDRY_CONFIG) = Some (File [])" "map_of fs (''r'' # EXECUTOR_DRIVER_PATH) = Some (File [])"
    "map_of fs (''r'' # EXECUTION_SCHEMA_PATH) = Some (File (str_bytes (json_text ex_schema)))"
    "map_of fs [''r''] = Some Dir" "map_of fs [''r'', ''tmp''] = Some Dir" "map_of fs [''r'', ''deployments''] = Some Dir"
    "map_of fs (''r'' # SESSION_ROOT) = Some Dir" "map_of fs (''r'' # STAGING_ROOT) = Some Dir" "no_links fs"
  using assms by (simp_all add: stocked_def ex_files_def ex_sources_def ex_directories_def)

lemma ex_more_paths:
  assumes "no_links fs"
  shows
    "normalize_repo_path fs [''r''] (Abs (''r'' # DEFAULT_SCRIPT)) label = Inr (''r'' # DEFAULT_SCRIPT)"
    "normalize_repo_path fs [''r''] (Abs (''r'' # DEFAULT_FOUNDRY_CONFIG)) label = Inr (''r'' # DEFAULT_FOUNDRY_CONFIG)"
    "normalize_repo_path fs [''r''] (Abs (''r'' # EXECUTOR_DRIVER_PATH)) label = Inr (''r'' # EXECUTOR_DRIVER_PATH)"
    "normalize_repo_path fs [''r''] (Abs (''r'' # EXECUTION_SCHEMA_PATH)) label = Inr (''r'' # EXECUTION_SCHEMA_PATH)"
    "normalize_repo_path fs [''r''] (Abs (''r'' # SESSION_ROOT)) label = Inr (''r'' # SESSION_ROOT)"
    "normalize_repo_path fs [''r''] (Abs (''r'' # STAGING_ROOT)) label = Inr (''r'' # STAGING_ROOT)"
    "normalize_repo_path fs [''r''] (Rel [''tmp'', ''plan.json'']) label = Inr [''r'', ''tmp'', ''plan.json'']"
  by (rule no_links_path[OF assms], code_simp, code_simp)+

lemma ex_script_ok: "check_broadcaster ex_script = Inr ()" "decode_source p (str_bytes ex_script) = Inr ex_script"
proof -
  show "check_broadcaster ex_script = Inr ()" by code_simp
  have "ascii_text ex_script" by code_simp
  then show "decode_source p (str_bytes ex_script) = Inr ex_script"
    by (simp add: decode_source_def decode_utf8_str_bytes ascii_utf8)
qed

definition ex_source :: source where
  "ex_source =
     \<lparr>s_plan_path = [''r'', ''tmp'', ''plan.json''], s_output = None, s_plan = ex_plan,
      s_plan_raw = str_bytes (json_text (JDict ex_plan)), s_plan_sha = demo_sha,
      s_script_path = ''r'' # DEFAULT_SCRIPT, s_script_raw = str_bytes ex_script, s_script_sha = demo_sha,
      s_foundry_path = ''r'' # DEFAULT_FOUNDRY_CONFIG, s_foundry_raw = [], s_foundry_sha = demo_sha,
      s_driver_path = ''r'' # EXECUTOR_DRIVER_PATH, s_driver_sha = demo_sha,
      s_schema_path = ''r'' # EXECUTION_SCHEMA_PATH, s_schema_sha = demo_sha\<rparr>"

lemma ex_plan_fields:
  "dget ex_plan ''release_posture'' = posture_json ex_candidate"
  "dget ex_plan ''candidate'' = candidate_json ex_candidate ''c.json'' demo_sha"
  "dget ex_plan ''network'' = JDict (cd_network ex_candidate)"
  "dget ex_plan ''release_build'' = release_json ex_hashes ex_candidate ex_bound CANONICAL_RECEIPT []"
  "dget ex_plan ''deployments'' = JList [JDict ex_deployment]"
  by (simp_all add: ex_plan_def dget_Cons)

lemma ex_posture: "check_plan_posture ex_plan = Inr ()"
  by (rule check_plan_posture_ok[OF ex_plan_fields(1,2)]) (simp add: ex_candidate_def)

lemma ex_snapshot_plan:
  assumes "stocked (files w)"
  shows "canonical_plan_snapshot ex_env ex_mat [''r''] (Rel [''c.json'']) [''r'', ''tmp'', ''plan.json''] w =
    (Inr (ex_plan, str_bytes (json_text (JDict ex_plan)), demo_sha), (seen ^^ 14) w)"
proof -
  have d: "decode_json_bytes (str_bytes (json_text (JDict ex_plan))) p = Inr (JDict ex_plan)" for p
    by (rule decode_ascii_json) (rule ex_plan_ascii)+
  have e: "py_eq (JDict ex_plan) (JDict ex_plan)" by (rule py_eq_refl) (rule ex_plan_ascii)
  show ?thesis
    by (simp add: canonical_plan_snapshot_def Let_def run_defs ex_plan_run[OF stocked_serves] assms io_rename_def
        calm_read[OF ex_calm(1)] fs_read_def stocked_at d e rmap_exn_def ex_posture ex_calm del: py_eq.simps)
      (simp add: numeral_eq_Suc)
qed

lemma ex_validate_script:
  assumes "no_links (files w)" and "map_of (files w) p = Some (File (str_bytes ex_script))"
    and "normalize_repo_path (files w) [''r''] (Abs p) ''generic broadcaster source'' = Inr p"
  shows "validate_broadcaster_source ex_env [''r''] p w = (Inr demo_sha, seen (seen w))"
  using assms by (simp add: validate_broadcaster_source_def run_defs calm_repo_path[OF ex_calm(1)] io_rename_def
      calm_read[OF ex_calm(1)] fs_read_def rmap_exn_def ex_script_ok ex_calm)

lemma ex_read_snapshot:
  "map_of (files w) p = Some (File raw) \<Longrightarrow> read_file_snapshot ex_env p label w = (Inr (raw, demo_sha), seen w)"
  by (simp add: read_file_snapshot_def run_defs io_rename_def calm_read[OF ex_calm(1)] fs_read_def rmap_exn_def ex_calm)

lemma ex_plan_output: "no_links fs \<Longrightarrow> map_of fs [''r'', ''tmp'', ''plan.json''] = Some (File raw) \<Longrightarrow>
    resolve_output_path fs [''r''] (Rel [''tmp'', ''plan.json'']) = Inr [''r'', ''tmp'', ''plan.json'']"
  by (simp add: resolve_output_path_def ex_more_paths EPHEMERAL_OUTPUT_ROOT_def path_exists_def path_is_file_def)

lemma ex_read_source:
  assumes "stocked (files w)"
  shows "\<exists>n. read_source ex_env ex_mat ex_request w = (Inr ex_source, (seen ^^ n) w)"
proof -
  have n: "(seen ^^ k) (seen w) = (seen ^^ Suc k) w" for k by (simp add: funpow_swap1)
  show ?thesis
    by (rule exI[of _ 25])
      (simp add: read_source_def Let_def run_defs ex_request_def calm_output_path[OF ex_calm(1)] ex_plan_output stocked_at assms
        ex_snapshot_plan calm_repo_path[OF ex_calm(1)] ex_more_paths ex_validate_script ex_read_snapshot ex_source_def n
        numeral_eq_Suc)
qed


section \<open>Network, deployments and session\<close>

text \<open>A call of the example's node.\<close>

definition asked :: "string \<Rightarrow> json list \<Rightarrow> world \<Rightarrow> world" where
  "asked m ps w = tick (Rpc m ps (Inr (ex_node m))) (files w) w"

lemma asked_fields [simp]:
  "files (asked m ps w) = files w" "journal (asked m ps w) = journal w"
  "broadcast_attempted (asked m ps w) = broadcast_attempted w"
  by (simp_all add: asked_def)

lemma ex_rpc: "executor_rpc ex_env url None m ps w = (Inr (ex_node m), asked m ps w)"
  by (simp add: executor_rpc_def rpc_call_def calm_step[OF ex_calm(1)] asked_def Let_def)
    (simp add: ex_env_def Let_def)

lemma ex_replies:
  "ex_node ''eth_chainId'' = JStr ''0x7a69''" "ex_node ''eth_blockNumber'' = JStr ''0x5''"
  "ex_node ''eth_getTransactionCount'' = JStr ''0x0''" "ex_node ''eth_getCode'' = JStr ''0x''"
  "ex_node ''eth_getBlockByNumber'' = ex_block" "ex_node ''eth_getBlockByHash'' = ex_block"
  by (simp_all add: ex_node_def)

lemma ex_quantities:
  "normalize_rpc_quantity (JStr ''0x7a69'') f = Inr 31337" "normalize_rpc_quantity (JStr ''0x5'') f = Inr 5"
  "normalize_rpc_quantity (JStr ''0x0'') f = Inr 0" "x_require_address (JStr demo_sender) f = Inr demo_sender"
  "x_require_hash (JStr demo_digest) f = Inr demo_digest" "x_require_hex None (JStr ''0x'') f = Inr ''0x''"
  by code_simp+

definition ex_network :: dict where
  "ex_network = [(''environment'', JStr ''local''), (''chain_id'', JInt 31337), (''execution_mode'', JStr ''local''),
     (''rpc_scope'', JStr ''operator_loopback_local'')]"

definition ex_access :: access where
  "ex_access = \<lparr>a_sender = demo_sender, a_network = ex_network, a_chain_id = 31337, a_pinned = None\<rparr>"

lemma x_shapes:
  "x_require_dict (JDict d) f = Inr d" "x_require_list (JList vs) f = Inr vs" "x_require_integer (JInt i) f = Inr i"
  "s \<noteq> [] \<Longrightarrow> x_require_string (JStr s) f = Inr s"
  by (simp_all add: x_require_dict_def x_require_list_def x_require_integer_def x_require_string_def)

lemma ex_loopback: "is_loopback_rpc_url ''http://127.0.0.1:8545''"
  by code_simp

lemma ex_open_network:
  "open_network ex_env ex_request ex_plan w = (Inr ex_access, asked ''eth_chainId'' [] w)"
proof -
  have n: "cd_network ex_candidate = [(''environment'', JStr ''local''), (''chain_id'', JInt 31337)]"
    by (simp add: ex_candidate_def)
  obtain posture where p: "posture_json ex_candidate = JDict posture" by (rule posture_fields)
  have r: "execution_network_record ex_env ex_plan ''http://127.0.0.1:8545'' ''local'' False False w = (Inr ex_network, w)" for w
    by (simp add: execution_network_record_def run_defs EXECUTION_MODES_def ex_plan_fields n p x_shapes dget_Cons rpc_scope_of_def
        LOCAL_ANVIL_CHAIN_ID_def ex_loopback ex_network_def)
  have i: "pinned_rpc_addresses ex_network = Inr None"
    by (simp add: pinned_rpc_addresses_def ex_network_def dget_Cons)
  show ?thesis
    by (simp add: open_network_def run_defs ex_request_def ex_quantities r i access_rpc_def Let_def ex_rpc ex_replies)
      (simp add: ex_access_def ex_network_def dget_Cons x_shapes run_defs ex_rpc ex_replies ex_quantities)
qed

definition ex_deployments :: deployments where
  "ex_deployments = \<lparr>d_list = [ex_deployment], d_v2 = False, d_nonce = None, d_addresses = None\<rparr>"

lemma ex_check_deployments: "check_deployments ex_env ex_request ex_source ex_access w = (Inr ex_deployments, w)"
proof -
  obtain c where c: "candidate_json ex_candidate ''c.json'' demo_sha = JDict c"
    "dget c ''schema_version'' = JStr (cd_schema ex_candidate)" by (rule candidate_fields)
  have "cd_schema ex_candidate \<noteq> CANDIDATE_V2_SCHEMA"
    by (simp add: ex_candidate_def CANDIDATE_SCHEMA_def CANDIDATE_V2_SCHEMA_def)
  then show ?thesis
    by (simp add: check_deployments_def Let_def run_defs ex_source_def ex_plan_fields x_shapes c ex_request_def ex_deployments_def)
qed


definition ex_key :: string where
  "ex_key = replicate 64 (CHR ''a'')"

lemma ex_keys_of:
  "execution_key ex_hashes s c demo_sender = Inr ex_key" "sender_lock_key ex_hashes c demo_sender = Inr ex_key"
  by (simp_all add: execution_key_def sender_lock_key_def ex_quantities ex_key_def removeprefix_sha_def demo_sha_def)

lemma ex_deployment_fields:
  "dget ex_deployment ''target'' = target_json ex_core_target"
  "dget ex_deployment ''artifact'' = JDict [(''path'', JStr ''out-release/Core.sol/Core.json''), (''sha256'', JStr demo_sha)]"
  "dget ex_deployment ''constructor'' = constructor_json ex_hashes ex_core [] [] []"
  "dget ex_deployment ''libraries'' = JList []" "dget ex_deployment ''immutables'' = JList []"
  "dget ex_deployment ''linked_creation_bytecode_keccak256'' = JStr demo_digest"
  "dget ex_deployment ''initcode_keccak256'' = JStr demo_digest"
  "dget ex_deployment ''expected_runtime_keccak256'' = JStr demo_digest"
  "dget ex_deployment ''order'' = JInt 1" "dget ex_deployment ''instance_id'' = JStr ''core''"
  "dget ex_deployment ''initcode'' = JStr ''0x6001''"
  by (simp_all add: ex_deployment_def deployment_json_def dget_Cons ex_core_def ex_core_target_def Let_def) code_simp?

lemma ex_authority: "\<exists>d. deployment_authority_record ex_hashes ex_deployment = Inr d"
proof -
  have r: "x_require_repo_path (JStr ''src/Core.sol'') f = Inr ''src/Core.sol''"
    "x_require_repo_path (JStr ''out-release/Core.sol/Core.json'') f = Inr ''out-release/Core.sol/Core.json''" for f
    by code_simp+
  have n: "demo_sha \<noteq> []" by (simp add: demo_sha_def)
  show ?thesis
    by (simp add: deployment_authority_record_def ex_deployment_fields target_json_def constructor_json_def ex_core_target_def
      x_shapes dget_Cons r n ex_quantities)
qed

lemma ex_identity:
  obtains identity where "journal_identity ex_hashes ex_source ex_access [ex_deployment] ex_key = Inr identity"
    and "find (\<lambda>field. \<not> dmem field identity) JOURNAL_IDENTITY_FIELDS = None"
    and "dget identity ''plan_sha256'' = JStr demo_sha" "dget identity ''chain_id'' = JInt 31337"
    and "dget identity ''sender'' = JStr demo_sender" "dget identity ''execution_key'' = JStr ex_key"
proof -
  obtain d where a: "deployment_authority_record ex_hashes ex_deployment = Inr d" using ex_authority by blast
  obtain candidate id where c: "candidate_json ex_candidate ''c.json'' demo_sha = JDict candidate"
    "dsub candidate ''candidate_id'' = Inr id"
    by (rule that, unfold candidate_json_def, rule refl) (simp add: dsub_def)
  obtain build r1 r2 r3 r4 where r: "release_json ex_hashes ex_candidate ex_bound CANONICAL_RECEIPT [] = JDict build"
    "dsub build ''receipt_sha256'' = Inr r1" "dsub build ''target_catalog_sha256'' = Inr r2"
    "dsub build ''config_sha256'' = Inr r3" "dsub build ''foundry_config_sha256'' = Inr r4"
    by (rule that, unfold release_json_def, rule refl) (simp_all add: dsub_def)
  have p: "dsub ex_plan ''candidate'' = Inr (JDict candidate)" "dsub ex_plan ''release_build'' = Inr (JDict build)"
    by (simp_all add: dsub_def ex_plan_def c r)
  have j: "journal_identity ex_hashes ex_source ex_access [ex_deployment] ex_key = Inr
     [(''schema_version'', JStr JOURNAL_SCHEMA), (''execution_key'', JStr ex_key), (''plan_sha256'', JStr demo_sha),
      (''candidate_id'', id), (''release_receipt_sha256'', r1), (''target_catalog_sha256'', r2),
      (''release_config_sha256'', r3), (''release_foundry_config_sha256'', r4),
      (''executor_script_sha256'', JStr demo_sha), (''executor_foundry_config_sha256'', JStr demo_sha),
      (''executor_driver_sha256'', JStr demo_sha), (''execution_schema_sha256'', JStr demo_sha),
      (''network'', JDict ex_network), (''chain_id'', JInt 31337), (''sender'', JStr demo_sender),
      (''deployment_authority'', JList [JDict d])]"
    by (simp add: journal_identity_def Let_def ex_source_def ex_access_def a p subscript_def c r)
  show thesis
    by (rule that[OF j]) (simp_all add: dget_Cons dmem_def JOURNAL_IDENTITY_FIELDS_def)
qed

definition ex_staging :: path where
  "ex_staging = [''r'', ''deployments'', ''.canonical-deployment-run'', ''00'']"

lemma ex_session_of:
  assumes "stocked (files w)"
  obtains ss where "session_of ex_env ex_request ex_source ex_access [ex_deployment] w = (Inr ss, seen (seen (seen w)))"
    and "ss_staging ss = ex_staging" "ss_root ss = ex_session" "ss_parent ss = ''r'' # SESSION_ROOT" "ss_id ss = ''00''"
    and "ss_lock_key ss = ex_key"
    and "find (\<lambda>field. \<not> dmem field (ss_identity ss)) JOURNAL_IDENTITY_FIELDS = None"
    and "dget (ss_identity ss) ''plan_sha256'' = JStr demo_sha" "dget (ss_identity ss) ''chain_id'' = JInt 31337"
    and "dget (ss_identity ss) ''sender'' = JStr demo_sender" "dget (ss_identity ss) ''execution_key'' = JStr ex_key"
proof -
  obtain identity where i: "journal_identity ex_hashes ex_source ex_access [ex_deployment] ex_key = Inr identity"
    and f: "find (\<lambda>field. \<not> dmem field identity) JOURNAL_IDENTITY_FIELDS = None"
    "dget identity ''plan_sha256'' = JStr demo_sha" "dget identity ''chain_id'' = JInt 31337"
    "dget identity ''sender'' = JStr demo_sender" "dget identity ''execution_key'' = JStr ex_key"
    by (rule ex_identity)
  have u: "fresh_session_id ex_env w = (Inr ''00'', seen w)"
    by (simp add: fresh_session_id_def calm_step[OF ex_calm(1)] seen_def) (simp add: ex_env_def quiet_env_def)
  have s: "s_plan_sha ex_source = demo_sha" "a_chain_id ex_access = 31337" "a_sender ex_access = demo_sender"
    by (simp_all add: ex_source_def ex_access_def)
  have e: "ex_staging = ''r'' # STAGING_ROOT @ [''00'']" "ex_session = ''r'' # SESSION_ROOT @ [''00'']"
    by (simp_all add: ex_staging_def ex_session_def STAGING_ROOT_def SESSION_ROOT_def)
  show thesis
    by (rule that[where ss = "\<lparr>ss_id = ''00'', ss_staging = ex_staging, ss_root = ex_session, ss_parent = ''r'' # SESSION_ROOT,
          ss_lock_key = ex_key, ss_identity = identity\<rparr>"])
      (simp_all add: session_of_def Let_def run_defs u calm_repo_path[OF ex_calm(1)] ex_request_def ex_more_paths
        stocked_at assms ex_calm s ex_keys_of i f e)
qed


section \<open>Directories and files\<close>

lemma calm_mutate_eq:
  "calm E \<Longrightarrow> mutate E ev f w =
    (case f (files w) of Inl e \<Rightarrow> (Inl e, tick ev (files w) w) | Inr fs \<Rightarrow> (Inr (), tick ev fs w))"
  by (simp add: mutate_def calm_step split: sum.splits)

fun are_dirs :: "fs \<Rightarrow> path \<Rightarrow> path \<Rightarrow> bool" where
  "are_dirs fs cursor [] \<longleftrightarrow> True"
| "are_dirs fs cursor (s # ss) \<longleftrightarrow> map_of fs (cursor @ [s]) = Some Dir \<and> are_dirs fs (cursor @ [s]) ss"

lemma mkdir_parents_present: "are_dirs fs [] p \<Longrightarrow> mkdir_parents fs p = Inr fs"
proof -
  have "are_dirs fs c p \<Longrightarrow> make_parents fs c p = Inr fs" for c
    by (induction fs c p rule: are_dirs.induct) (simp_all add: Let_def)
  then show "are_dirs fs [] p \<Longrightarrow> mkdir_parents fs p = Inr fs" by (simp add: mkdir_parents_def)
qed

lemma mkdir_parents_last:
  "are_dirs fs [] p \<Longrightarrow> map_of fs (p @ [s]) = None \<Longrightarrow> mkdir_parents fs (p @ [s]) = Inr (AList.update (p @ [s]) Dir fs)"
proof -
  have "are_dirs fs c p \<Longrightarrow> map_of fs (c @ p @ [s]) = None \<Longrightarrow>
      make_parents fs c (p @ [s]) = Inr (AList.update (c @ p @ [s]) Dir fs)" for c
    by (induction fs c p rule: are_dirs.induct) (simp_all add: Let_def)
  then show "are_dirs fs [] p \<Longrightarrow> map_of fs (p @ [s]) = None \<Longrightarrow>
      mkdir_parents fs (p @ [s]) = Inr (AList.update (p @ [s]) Dir fs)"
    by (simp add: mkdir_parents_def)
qed

lemma mkdir_absent:
  "map_of fs p = None \<Longrightarrow> map_of fs (parent p) = Some Dir \<Longrightarrow> mkdir fs p = Inr (AList.update p Dir fs)"
  by (simp add: mkdir_def)

lemma mkdir_new_absent:
  "map_of fs p = None \<Longrightarrow> are_dirs fs [] (parent p) \<Longrightarrow> map_of fs (parent p) = Some Dir \<Longrightarrow>
    mkdir_new fs p = Inr (AList.update p Dir fs)"
  by (simp add: mkdir_new_def mkdir_parents_present mkdir_absent)

lemma replace_present:
  "are_dirs fs [] (parent p) \<Longrightarrow> map_of fs p \<noteq> Some Dir \<Longrightarrow> replace_file fs p raw = Inr (AList.update p (File raw) fs)"
  by (simp add: replace_file_def mkdir_parents_present)

lemma no_links_update: "no_links fs \<Longrightarrow> \<forall>t. n \<noteq> Link t \<Longrightarrow> no_links (AList.update p n fs)"
  by (auto simp: no_links_def path_is_link_or_reparse_def update_conv' split: node.splits)

lemma stocked_update:
  "stocked fs \<Longrightarrow> p \<notin> set (map fst ex_files) \<Longrightarrow> \<forall>t. n \<noteq> Link t \<Longrightarrow> stocked (AList.update p n fs)"
proof -
  assume a: "stocked fs" "p \<notin> set (map fst ex_files)" "\<forall>t. n \<noteq> Link t"
  have "map_of (AList.update p n fs) q = Some m" if "(q, m) \<in> set ex_files" for q m
  proof -
    have "q \<in> set (map fst ex_files)" using that by force
    then have "q \<noteq> p" using a(2) by blast
    then show ?thesis using a(1) that by (auto simp: stocked_def update_conv')
  qed
  moreover have "no_links (AList.update p n fs)" by (rule no_links_update) (use a in \<open>simp_all add: stocked_def\<close>)
  ultimately show "stocked (AList.update p n fs)" by (auto simp: stocked_def)
qed

lemma ex_absent: "p \<notin> set (map fst ex_files) \<Longrightarrow> map_of ex_files p = None"
  by (simp add: map_of_eq_None_iff)


section \<open>The session is opened\<close>

definition ex_locks :: path where
  "ex_locks = [''r'', ''tmp'', ''canonical-deployment-run'', ''.locks'']"

definition ex_lock :: path where
  "ex_lock = ex_locks @ [ex_key]"

text \<open>The files of an open session.\<close>

definition opened :: "fs \<Rightarrow> bool" where
  "opened fs \<longleftrightarrow> stocked fs \<and> map_of fs ex_session = Some Dir \<and>
     map_of fs (ex_staging @ [''executor'', ''DeployCanonicalInitcode.s.sol'']) = Some (File (str_bytes ex_script)) \<and>
     map_of fs (ex_staging @ [''executor'', ''foundry.toml'']) = Some (File []) \<and>
     (\<forall>q \<in> set (map fst fs). prefix (ex_session @ [''out'']) q \<longrightarrow> q = ex_build_path) \<and>
     map_of fs (ex_session @ [JOURNAL_NAME]) \<noteq> Some Dir"

lemma opened_update:
  assumes "opened fs" and "p \<notin> set (map fst ex_files)" and "\<forall>t. n \<noteq> Link t"
    and "p \<notin> {ex_session, ex_staging @ [''executor'', ''DeployCanonicalInitcode.s.sol''], ex_staging @ [''executor'', ''foundry.toml'']}"
    and "prefix (ex_session @ [''out'']) p \<Longrightarrow> p = ex_build_path" and "n \<noteq> Dir"
  shows "opened (AList.update p n fs)"
  using assms stocked_update[OF _ assms(2,3)] by (auto simp: opened_def update_conv' dom_update)

lemma ex_acquire:
  assumes "ss_parent ss = ''r'' # SESSION_ROOT" "ss_lock_key ss = ex_key" and "files w = ex_files"
  shows "\<exists>w1 raw. acquire_execution_lock ex_env (ss_parent ss) (ss_lock_key ss) (ss_id ss) w = (Inr ex_lock, w1) \<and>
    files w1 = AList.update (ex_lock @ [''owner.json'']) (File raw) (AList.update ex_lock Dir (AList.update ex_locks Dir ex_files))"
proof -
  have l: "''r'' # SESSION_ROOT @ [''.locks''] = ex_locks" "''r'' # SESSION_ROOT @ [''.locks'', ex_key] = ex_lock"
    by (simp_all add: SESSION_ROOT_def ex_locks_def ex_lock_def)
  let ?f1 = "AList.update ex_locks Dir ex_files" and ?f2 = "AList.update ex_lock Dir (AList.update ex_locks Dir ex_files)"
  have d: "map_of ex_files [''r''] = Some Dir" "map_of ex_files [''r'', ''tmp''] = Some Dir"
    "map_of ex_files [''r'', ''tmp'', ''canonical-deployment-run''] = Some Dir"
    using stocked_at(6,7,9)[OF ex_stocked] by (simp_all add: SESSION_ROOT_def)
  have a: "map_of ex_files ex_locks = None" "map_of ex_files ex_lock = None" "map_of ex_files (ex_lock @ [''owner.json'']) = None"
    by (rule ex_absent, unfold ex_keys, simp add: ex_locks_def ex_lock_def)+
  have 1: "mkdir_parents ex_files ex_locks = Inr ?f1"
    unfolding ex_locks_def using mkdir_parents_last[of ex_files "[''r'', ''tmp'', ''canonical-deployment-run'']" "''.locks''"] d a
    by (simp add: ex_locks_def)
  have 2: "mkdir ?f1 ex_lock = Inr ?f2"
    by (rule mkdir_absent) (simp_all add: update_conv' a parent_def, simp_all add: ex_lock_def)
  have 3: "replace_file ?f2 (ex_lock @ [''owner.json'']) raw = Inr (AList.update (ex_lock @ [''owner.json'']) (File raw) ?f2)" for raw
    by (rule replace_present)
      (simp_all add: update_conv' a parent_def, simp_all add: update_conv' ex_lock_def ex_locks_def d)
  show ?thesis
    by (simp add: assms acquire_execution_lock_def Let_def run_defs lock_path_of_def l calm_mutate_eq[OF ex_calm(1)]
        write_json_atomic_def write_bytes_atomic_def io_rename_def rmap_exn_def 1 2 3) (rule exI, rule refl)
qed


text \<open>The files after each step of the staging.\<close>

definition ex_fs1 :: "byte list \<Rightarrow> fs" where
  "ex_fs1 raw = AList.update (ex_lock @ [''owner.json'']) (File raw) (AList.update ex_lock Dir (AList.update ex_locks Dir ex_files))"

definition ex_fs2 :: "byte list \<Rightarrow> fs" where
  "ex_fs2 raw = AList.update ex_session Dir (AList.update ex_staging Dir (ex_fs1 raw))"

definition ex_fs3 :: "byte list \<Rightarrow> fs" where
  "ex_fs3 raw = AList.update (ex_staging @ [''deployments'']) Dir (AList.update (ex_staging @ [''executor'']) Dir (ex_fs2 raw))"

definition ex_fs4 :: "byte list \<Rightarrow> fs" where
  "ex_fs4 raw = AList.update (ex_staging @ [''deployments'', ''canonical-deployment-plan.json'']) (File (str_bytes (json_text (JDict ex_plan))))
     (AList.update (ex_staging @ [''executor'', ''foundry.toml'']) (File [])
       (AList.update (ex_staging @ [''executor'', ''DeployCanonicalInitcode.s.sol'']) (File (str_bytes ex_script)) (ex_fs3 raw)))"

lemmas ex_fs_defs = ex_fs1_def ex_fs2_def ex_fs3_def ex_fs4_def

lemmas ex_dirs_defs = ex_session_def ex_staging_def ex_lock_def ex_locks_def
lemmas ex_no_file = ex_absent[unfolded ex_keys]
lemmas stocked_more = stocked_update[unfolded ex_keys]

lemma ex_fs_stocked: "stocked (ex_fs1 raw)" "stocked (ex_fs2 raw)" "stocked (ex_fs3 raw)" "stocked (ex_fs4 raw)"
  by (simp_all add: ex_fs_defs ex_dirs_defs stocked_more ex_stocked)

lemma ex_fs_absent:
  "map_of (ex_fs1 raw) ex_staging = None" "map_of (AList.update ex_staging Dir (ex_fs1 raw)) ex_session = None"
  "map_of (ex_fs2 raw) (ex_session @ [''execution-receipt.json'']) = None"
  "map_of (ex_fs2 raw) (ex_staging @ [''executor'']) = None"
  "map_of (AList.update (ex_staging @ [''executor'']) Dir (ex_fs2 raw)) (ex_staging @ [''deployments'']) = None"
  "map_of (ex_fs4 raw) (ex_session @ [JOURNAL_NAME]) = None"
  by (simp_all add: ex_fs_defs ex_dirs_defs update_conv' ex_no_file JOURNAL_NAME_def)


lemma ex_dirs_at:
  "map_of ex_files [''r''] = Some Dir" "map_of ex_files [''r'', ''tmp''] = Some Dir"
  "map_of ex_files [''r'', ''tmp'', ''canonical-deployment-run''] = Some Dir"
  "map_of ex_files [''r'', ''deployments''] = Some Dir"
  "map_of ex_files [''r'', ''deployments'', ''.canonical-deployment-run''] = Some Dir"
  using stocked_at(6-10)[OF ex_stocked] by (simp_all add: SESSION_ROOT_def STAGING_ROOT_def)

lemma ex_made:
  "mkdir_new (ex_fs1 raw) ex_staging = Inr (AList.update ex_staging Dir (ex_fs1 raw))"
  "mkdir_new (AList.update ex_staging Dir (ex_fs1 raw)) ex_session = Inr (ex_fs2 raw)"
  "mkdir (ex_fs2 raw) (ex_staging @ [''executor'']) = Inr (AList.update (ex_staging @ [''executor'']) Dir (ex_fs2 raw))"
  "mkdir (AList.update (ex_staging @ [''executor'']) Dir (ex_fs2 raw)) (ex_staging @ [''deployments'']) = Inr (ex_fs3 raw)"
proof -
  show "mkdir_new (ex_fs1 raw) ex_staging = Inr (AList.update ex_staging Dir (ex_fs1 raw))"
    by (rule mkdir_new_absent[OF ex_fs_absent(1)]) (simp_all add: ex_fs_defs ex_dirs_defs update_conv' ex_dirs_at parent_def)
  show "mkdir_new (AList.update ex_staging Dir (ex_fs1 raw)) ex_session = Inr (ex_fs2 raw)"
    unfolding ex_fs2_def
    by (rule mkdir_new_absent[OF ex_fs_absent(2)]) (simp_all add: ex_fs_defs ex_dirs_defs update_conv' ex_dirs_at parent_def)
  show "mkdir (ex_fs2 raw) (ex_staging @ [''executor'']) = Inr (AList.update (ex_staging @ [''executor'']) Dir (ex_fs2 raw))"
    by (rule mkdir_absent[OF ex_fs_absent(4)]) (simp add: ex_fs_defs ex_dirs_defs update_conv' parent_def)
  show "mkdir (AList.update (ex_staging @ [''executor'']) Dir (ex_fs2 raw)) (ex_staging @ [''deployments'']) = Inr (ex_fs3 raw)"
    unfolding ex_fs3_def by (rule mkdir_absent[OF ex_fs_absent(5)]) (simp add: ex_fs_defs ex_dirs_defs update_conv' parent_def)
qed

lemma ex_written:
  "replace_file (ex_fs3 raw) (ex_staging @ [''executor'', ''DeployCanonicalInitcode.s.sol'']) (str_bytes ex_script) =
     Inr (AList.update (ex_staging @ [''executor'', ''DeployCanonicalInitcode.s.sol'']) (File (str_bytes ex_script)) (ex_fs3 raw))"
  "replace_file (AList.update (ex_staging @ [''executor'', ''DeployCanonicalInitcode.s.sol'']) (File (str_bytes ex_script)) (ex_fs3 raw))
      (ex_staging @ [''executor'', ''foundry.toml'']) [] =
     Inr (AList.update (ex_staging @ [''executor'', ''foundry.toml'']) (File [])
       (AList.update (ex_staging @ [''executor'', ''DeployCanonicalInitcode.s.sol'']) (File (str_bytes ex_script)) (ex_fs3 raw)))"
  "replace_file (AList.update (ex_staging @ [''executor'', ''foundry.toml'']) (File [])
       (AList.update (ex_staging @ [''executor'', ''DeployCanonicalInitcode.s.sol'']) (File (str_bytes ex_script)) (ex_fs3 raw)))
      (ex_staging @ [''deployments'', ''canonical-deployment-plan.json'']) (str_bytes (json_text (JDict ex_plan))) = Inr (ex_fs4 raw)"
  unfolding ex_fs4_def
  by (rule replace_present; simp add: ex_fs_defs ex_dirs_defs update_conv' ex_dirs_at ex_no_file parent_def)+

lemma ex_journal_written:
  "replace_file (ex_fs4 raw) (ex_session @ [JOURNAL_NAME]) jnl = Inr (AList.update (ex_session @ [JOURNAL_NAME]) (File jnl) (ex_fs4 raw))"
  by (rule replace_present) (simp_all add: ex_fs_defs ex_dirs_defs update_conv' ex_dirs_at ex_no_file parent_def JOURNAL_NAME_def)

lemma keys_update: "set (map fst (AList.update k v al)) = insert k (set (map fst al))"
  by (simp add: dom_update)

lemma ex_no_journals: "glob_child (ex_fs1 raw) (''r'' # SESSION_ROOT) JOURNAL_NAME = []"
proof -
  have k: "ex_key \<noteq> ''execution-journal.json''" by code_simp
  have "\<forall>q \<in> set (map fst (ex_fs1 raw)). \<not> (length q = length (''r'' # SESSION_ROOT) + 2 \<and>
      prefix (''r'' # SESSION_ROOT) q \<and> last q = JOURNAL_NAME)"
    unfolding ex_fs1_def keys_update ex_keys
    by (simp add: SESSION_ROOT_def ex_lock_def ex_locks_def JOURNAL_NAME_def k)
  then show ?thesis by (simp add: glob_child_def filter_False)
qed

lemma ex_opened: "opened (AList.update (ex_session @ [JOURNAL_NAME]) (File jnl) (ex_fs4 raw))"
proof -
  have "\<forall>q \<in> set (map fst (AList.update (ex_session @ [JOURNAL_NAME]) (File jnl) (ex_fs4 raw))).
      prefix (ex_session @ [''out'']) q \<longrightarrow> q = ex_build_path"
    unfolding ex_fs_defs keys_update ex_keys by (simp add: ex_dirs_defs JOURNAL_NAME_def)
  moreover have "stocked (AList.update (ex_session @ [JOURNAL_NAME]) (File jnl) (ex_fs4 raw))"
    by (rule stocked_more[OF ex_fs_stocked(4)]) (simp_all add: ex_dirs_defs JOURNAL_NAME_def)
  ultimately show ?thesis
    unfolding opened_def by (simp add: ex_fs_defs ex_dirs_defs update_conv' JOURNAL_NAME_def)
qed

lemma ex_stage:
  assumes "files w = ex_fs1 raw" and "ss_staging ss = ex_staging" "ss_root ss = ex_session" "ss_parent ss = ''r'' # SESSION_ROOT"
    and "find (\<lambda>field. \<not> dmem field (ss_identity ss)) JOURNAL_IDENTITY_FIELDS = None"
    and "dget (ss_identity ss) ''plan_sha256'' = JStr demo_sha" "dget (ss_identity ss) ''chain_id'' = JInt 31337"
    and "dget (ss_identity ss) ''sender'' = JStr demo_sender" "dget (ss_identity ss) ''execution_key'' = JStr ex_key"
  shows "\<exists>w1 jnl. stage ex_env ex_request ex_source ss w = (Inr (ex_session @ [''execution-receipt.json'']), w1) \<and>
    files w1 = AList.update (ex_session @ [JOURNAL_NAME]) (File jnl) (ex_fs4 raw)"
proof -
  have d: "demo_sha \<noteq> []" "ex_key \<noteq> []" by (simp_all add: demo_sha_def ex_key_def)
  have r: "\<exists>w1. reject_ambiguous_journals ex_env (''r'' # SESSION_ROOT) (ss_identity ss) w = (Inr (), w1) \<and> files w1 = files w"
    using stocked_at(9)[OF ex_fs_stocked(1), of raw]
    by (simp add: reject_ambiguous_journals_def run_defs assms x_shapes d ex_quantities calm_observe[OF ex_calm(1)]
        path_exists_def ex_no_journals)
  have n: "no_links (ex_fs2 raw)" "no_links (ex_fs4 raw)" using ex_fs_stocked[of raw] by (simp_all add: stocked_def)
  have p: "normalize_repo_path fs [''r''] (Abs ex_staging) label = Inr ex_staging"
    "normalize_repo_path fs [''r''] (Abs ex_session) label = Inr ex_session"
    "normalize_repo_path fs [''r''] (Abs (ex_staging @ [''executor'', ''DeployCanonicalInitcode.s.sol''])) label =
       Inr (ex_staging @ [''executor'', ''DeployCanonicalInitcode.s.sol''])"
    "normalize_repo_path fs [''r''] (Abs (ex_session @ [''execution-receipt.json''])) label = Inr (ex_session @ [''execution-receipt.json''])"
    if "no_links fs" for fs label
    by (rule no_links_path[OF that], code_simp, code_simp)+
  have o: "resolve_output_path (ex_fs2 raw) [''r''] (Abs (ex_session @ [''execution-receipt.json''])) =
      Inr (ex_session @ [''execution-receipt.json''])"
    by (simp add: resolve_output_path_def p n path_exists_def ex_fs_absent) (simp add: ex_session_def EPHEMERAL_OUTPUT_ROOT_def)
  have m: "map_of (ex_fs4 raw) (ex_staging @ [''executor'', ''DeployCanonicalInitcode.s.sol'']) = Some (File (str_bytes ex_script))"
    "map_of (ex_fs4 raw) (ex_staging @ [''executor'', ''foundry.toml'']) = Some (File [])"
    using ex_opened[of _ raw] by (simp_all add: opened_def update_conv' ex_dirs_defs split: if_splits)
  have f: "rq_root ex_request = [''r'']" "s_output ex_source = None" "s_script_raw ex_source = str_bytes ex_script"
    "s_foundry_raw ex_source = []" "s_plan_raw ex_source = str_bytes (json_text (JDict ex_plan))"
    "s_script_sha ex_source = demo_sha" "s_foundry_sha ex_source = demo_sha"
    by (simp_all add: ex_request_def ex_source_def)
  obtain w1 where w1: "reject_ambiguous_journals ex_env (''r'' # SESSION_ROOT) (ss_identity ss) w = (Inr (), w1)"
    "files w1 = ex_fs1 raw" using r assms(1) by auto
  show ?thesis
    by (simp add: stage_def Let_def run_defs f w1 assms(2-4) make_session_dir_def make_dir_def calm_mutate_eq[OF ex_calm(1)] ex_made
        calm_output_path[OF ex_calm(1)] o calm_repo_path[OF ex_calm(1)] p n executor_dir_def staged_script_def staged_foundry_def
        staged_plan_def write_bytes_atomic_def ex_written ex_validate_script m calm_read[OF ex_calm(1)] fs_read_def ex_calm
        set_journal_def write_journal_def get_journal_def write_json_atomic_def journal_path_def ex_journal_written)
      (intro exI, rule refl)?
qed


lemma ex_open_session:
  assumes "files w = ex_files" and "ss_staging ss = ex_staging" "ss_root ss = ex_session" "ss_parent ss = ''r'' # SESSION_ROOT"
    and "ss_lock_key ss = ex_key" and "find (\<lambda>field. \<not> dmem field (ss_identity ss)) JOURNAL_IDENTITY_FIELDS = None"
    and "dget (ss_identity ss) ''plan_sha256'' = JStr demo_sha" "dget (ss_identity ss) ''chain_id'' = JInt 31337"
    and "dget (ss_identity ss) ''sender'' = JStr demo_sender" "dget (ss_identity ss) ''execution_key'' = JStr ex_key"
  shows "\<exists>w1. open_session ex_env ex_request ex_source ss w = (Inr (ex_session @ [''execution-receipt.json'']), w1) \<and> opened (files w1)"
proof -
  obtain w1 raw where 1: "acquire_execution_lock ex_env (ss_parent ss) (ss_lock_key ss) (ss_id ss) w = (Inr ex_lock, w1)"
    "files w1 = ex_fs1 raw" using ex_acquire[OF assms(4,5,1)] unfolding ex_fs1_def by blast
  obtain w2 jnl where 2: "stage ex_env ex_request ex_source ss w1 = (Inr (ex_session @ [''execution-receipt.json'']), w2)"
    "files w2 = AList.update (ex_session @ [JOURNAL_NAME]) (File jnl) (ex_fs4 raw)"
    using ex_stage[OF 1(2) assms(2-4,6-10)] by blast
  show ?thesis
    using ex_opened by (simp add: open_session_def run_defs 1 io_catch_def 2)
qed

section \<open>Up to the broadcast\<close>

lemma opened_at:
  assumes "opened fs"
  shows "stocked fs" "map_of fs ex_session = Some Dir"
    "map_of fs (ex_staging @ [''executor'', ''DeployCanonicalInitcode.s.sol'']) = Some (File (str_bytes ex_script))"
    "map_of fs (ex_staging @ [''executor'', ''foundry.toml'']) = Some (File [])"
  using assms by (simp_all add: opened_def)

lemma opened_journal:
  assumes "opened fs"
  shows "replace_file fs (ex_session @ [JOURNAL_NAME]) jnl = Inr (AList.update (ex_session @ [JOURNAL_NAME]) (File jnl) fs)"
    and "opened (AList.update (ex_session @ [JOURNAL_NAME]) (File jnl) fs)"
proof -
  note s = stocked_at[OF opened_at(1)[OF assms]]
  have d: "are_dirs fs [] ex_session"
    using s opened_at(2)[OF assms] by (simp add: ex_session_def SESSION_ROOT_def)
  show "replace_file fs (ex_session @ [JOURNAL_NAME]) jnl = Inr (AList.update (ex_session @ [JOURNAL_NAME]) (File jnl) fs)"
    by (rule replace_present) (use assms d in \<open>simp_all add: parent_def opened_def\<close>)
  show "opened (AList.update (ex_session @ [JOURNAL_NAME]) (File jnl) fs)"
    by (rule opened_update[OF assms, unfolded ex_keys]) (simp_all add: ex_dirs_defs JOURNAL_NAME_def)
qed

definition built :: "fs \<Rightarrow> bool" where
  "built fs \<longleftrightarrow> opened fs \<and> map_of fs ex_build_path = Some (File (str_bytes (json_text ex_build_info)))"

lemma built_more:
  "opened fs \<Longrightarrow> built (AList.update ex_build_path (File (str_bytes (json_text ex_build_info))) fs)"
  "built fs \<Longrightarrow> built (AList.update (ex_session @ [JOURNAL_NAME]) (File jnl) fs)"
proof -
  show "built (AList.update ex_build_path (File (str_bytes (json_text ex_build_info))) fs)" if "opened fs"
    unfolding built_def
    by (rule conjI, rule opened_update[OF that, unfolded ex_keys])
      (simp_all add: ex_dirs_defs ex_build_path_def update_conv')
  show "built (AList.update (ex_session @ [JOURNAL_NAME]) (File jnl) fs)" if "built fs"
    using that opened_journal(2)[of fs] by (simp add: built_def update_conv' ex_build_path_def JOURNAL_NAME_def)
qed

lemma sort_single: "set xs = {x} \<Longrightarrow> sort (remdups xs) = [x]" for x :: "'a :: linorder"
  by (simp flip: sorted_list_of_set_sort_remdups)

lemma ex_glob:
  assumes "built fs"
  shows "glob_json fs (ex_session @ [''out'', ''build-info'']) = [ex_build_path]"
  unfolding glob_json_def
proof (rule sort_single, rule set_eqI, rule iffI)
  fix q assume "q \<in> set (filter (\<lambda>q. length q = length (ex_session @ [''out'', ''build-info'']) + 1 \<and>
    prefix (ex_session @ [''out'', ''build-info'']) q \<and> suffix ''.json'' (last q)) (map fst fs))"
  then have "q \<in> set (map fst fs)" "prefix (ex_session @ [''out'', ''build-info'']) q" by simp_all
  moreover from this(2) have "prefix (ex_session @ [''out'']) q" by (auto simp: ex_session_def prefix_def)
  ultimately have "q = ex_build_path" using assms unfolding built_def opened_def by blast
  then show "q \<in> {ex_build_path}" by simp
next
  fix q assume "q \<in> {ex_build_path}"
  moreover have "ex_build_path \<in> set (map fst fs)"
  proof -
    have "(ex_build_path, File (str_bytes (json_text ex_build_info))) \<in> set fs"
      by (rule map_of_SomeD) (use assms in \<open>simp add: built_def\<close>)
    then show ?thesis by (force intro: rev_image_eqI)
  qed
  ultimately show "q \<in> set (filter (\<lambda>q. length q = length (ex_session @ [''out'', ''build-info'']) + 1 \<and>
    prefix (ex_session @ [''out'', ''build-info'']) q \<and> suffix ''.json'' (last q)) (map fst fs))"
    by (simp add: ex_build_path_def suffix_def)
qed


lemma ex_closure:
  assumes "built (files w)"
  shows "validate_build_closure ex_env ex_session w = (Inr (), seen (seen w))"
proof -
  have "ascii_json ex_build_info" "wf_json ex_build_info" by code_simp+
  then have d: "decode_json_bytes (str_bytes (json_text ex_build_info)) p = Inr ex_build_info" for p
    by (rule decode_ascii_json)
  have b: "map_of (files w) ex_build_path = Some (File (str_bytes (json_text ex_build_info)))"
    using assms by (simp add: built_def)
  have o: "only_value ''DeployCanonicalInitcode.s.sol'' [(''0'', JStr ''DeployCanonicalInitcode.s.sol'')] = Inr True"
    by (simp add: only_value_def set_member_def)
  have x: "ex_build_info = JDict [(''source_id_to_path'', JDict [(''0'', JStr ''DeployCanonicalInitcode.s.sol'')])]"
    by (simp add: ex_build_info_def)
  show ?thesis
    by (simp add: validate_build_closure_def run_defs calm_observe[OF ex_calm(1)] ex_glob assms read_json_def io_rename_def
        calm_read[OF ex_calm(1)] fs_read_def b d rmap_exn_def) (simp add: x x_shapes dget_Cons o run_defs)
qed

lemma ex_assert_staged:
  assumes "opened (files w)" and "ss_staging ss = ex_staging"
  shows "assert_staged ex_env ex_source ss w = (Inr (), seen (seen w))"
proof -
  have f: "s_script_sha ex_source = demo_sha" "s_foundry_sha ex_source = demo_sha" by (simp_all add: ex_source_def)
  show ?thesis
    by (simp add: assert_staged_def run_defs assert_file_snapshot_unchanged_def staged_script_def staged_foundry_def executor_dir_def
      assms(2) ex_read_snapshot opened_at[OF assms(1)] f)
qed

lemma ex_deployments_valid: "validate_deployments ex_hashes [ex_deployment] = Inr ()"
proof -
  have "no_links (files ex_world)" using ex_stocked by (simp add: ex_files_of stocked_def)
  from materialize_all_Inr[OF ex_materialize[OF this]]
  have "list_all2 (settles ex_env ex_candidate ex_bound) (cd_instances ex_candidate) [ex_deployment]" by simp
  then have "validate_deployments (hash ex_env) [ex_deployment] = Inr ()"
    by (rule validate_deployments_committed) (use validate_candidate_ok[OF ex_candidate_valid] in simp_all)
  then show ?thesis by (simp add: ex_calm)
qed

text \<open>Running Forge.\<close>

lemma ex_run:
  "run_command ex_env cmd vars w =
    (if last cmd = ''--broadcast''
     then (Inl (the (command_failure vars (Exited 1 [] []))), tick (Command cmd (command_failure vars (Exited 1 [] []))) (files w) w)
     else (Inr (), tick (Command cmd None) (snd (ex_forge cmd (files w))) w))"
proof -
  have "run ex_env tr cmd vars fs = ex_forge cmd fs" for tr fs by (simp add: ex_env_def)
  then show ?thesis
    by (simp add: run_command_def calm_step[OF ex_calm(1)] ex_forge_def command_failure_def Let_def)
qed

lemma ex_simulate:
  assumes "opened (files w)" and "ss_staging ss = ex_staging" "ss_root ss = ex_session"
  shows "\<exists>w1. simulate ex_env ex_mat ex_request ex_source ex_access ss ex_deployments w = (Inr (), w1) \<and> built (files w1)"
proof -
  let ?cmd = "forge_command (executor_dir ss) (a_sender ex_access) (rq_signer_cli ex_request) False"
  have l: "last ?cmd \<noteq> ''--broadcast''" by (rule last_forge_command) (simp add: ex_request_def)
  have n: "a_pinned ex_access = None" "rq_root ex_request = [''r'']" "rq_candidate ex_request = Rel [''c.json'']"
    "s_plan_path ex_source = [''r'', ''tmp'', ''plan.json'']" "s_plan_sha ex_source = demo_sha"
    "d_v2 ex_deployments = False" "d_list ex_deployments = [ex_deployment]"
    by (simp_all add: ex_access_def ex_request_def ex_source_def ex_deployments_def)
  have b: "built (AList.update ex_build_path (File (str_bytes (json_text ex_build_info))) (files w))" by (rule built_more) fact
  then have o: "opened (AList.update ex_build_path (File (str_bytes (json_text ex_build_info))) (files w))" by (simp add: built_def)
  show ?thesis
    by (simp add: simulate_def run_defs n ex_calm ex_deployments_valid ex_assert_staged assms assert_pinned_def ex_run l ex_forge_def
        b o ex_closure assert_authority_unchanged_def ex_snapshot_plan opened_at[OF o])
qed


lemma ex_write_journal:
  assumes "built (files w)" and "ss_root ss = ex_session"
  shows "\<exists>w1. write_journal ex_env ss w = (Inr (), w1) \<and> built (files w1) \<and> trace w1 = trace w @ [Replaced (journal_path ss)]"
  using assms built_more(2) opened_journal(1)[of "files w"]
  by (simp add: write_journal_def run_defs get_journal_def write_json_atomic_def write_bytes_atomic_def calm_mutate_eq[OF ex_calm(1)]
      journal_path_def built_def[of "files w"])

lemma ex_nonce:
  "e = None \<or> e = Some 0 \<Longrightarrow>
   \<exists>w1. require_uncontended_sender_nonce (executor_rpc ex_env url None) s e w = (Inr 0, w1) \<and> files w1 = files w"
  by (auto simp: require_uncontended_sender_nonce_def run_defs ex_rpc ex_replies ex_quantities)

lemma ex_capabilities:
  "\<exists>evidence w1. preflight_rpc_capabilities (executor_rpc ex_env url None) demo_sender w = (Inr evidence, w1) \<and> files w1 = files w"
proof -
  have b: "x_require_dict ex_block f = Inr [(''hash'', JStr demo_digest), (''number'', JStr ''0x5'')]" for f
    by (simp add: ex_block_def x_shapes)
  show ?thesis
    by (simp add: preflight_rpc_capabilities_def capture_canonical_tip_def block_hash_at_def block_by_hash_def check_block_identity_def
        assert_canonical_tip_unchanged_def code_at_def run_defs ex_rpc ex_replies ex_quantities b dget_Cons x_shapes fail_if_def)
qed

lemma ex_preflight:
  assumes "built (files w)" and "ss_root ss = ex_session"
  shows "\<exists>w1. preflight ex_env ex_request ex_access ss ex_deployments w = (Inr 0, w1) \<and> built (files w1)"
proof -
  have a: "a_pinned ex_access = None" "a_sender ex_access = demo_sender" "d_nonce ex_deployments = None"
    by (simp_all add: ex_access_def ex_deployments_def)
  let ?rpc = "executor_rpc ex_env (rq_rpc_url ex_request) None"
  obtain evidence w1 where 1: "preflight_rpc_capabilities ?rpc demo_sender w = (Inr evidence, w1)" "files w1 = files w"
    using ex_capabilities by blast
  let ?w1 = "w1\<lparr>journal := dset (journal w1) ''rpc_preflight'' (JDict evidence)\<rparr>"
  obtain w2 where 2: "write_journal ex_env ss ?w1 = (Inr (), w2)" "built (files w2)"
    using ex_write_journal[of ?w1] assms 1(2) by auto
  obtain w3 where 3: "require_uncontended_sender_nonce ?rpc demo_sender None w2 = (Inr 0, w3)" "files w3 = files w2"
    using ex_nonce by blast
  let ?w3 = "w3\<lparr>journal := dset (dset (journal w3) ''initial_nonce'' (JInt 0)) ''status'' (JStr ''broadcasting'')\<rparr>"
  obtain w4 where 4: "write_journal ex_env ss ?w3 = (Inr (), w4)" "built (files w4)"
    using ex_write_journal[of ?w3] assms 2(2) 3(2) by auto
  show ?thesis
    by (simp add: preflight_def Let_def run_defs access_rpc_def a 1 journal_set_def 2 3 4)
qed

lemma ex_prepare:
  assumes "built (files w)" and "ss_root ss = ex_session"
  shows "\<exists>p w1. prepare_deployment ex_env ex_request ex_access ss ex_deployments 0 0 ex_deployment w = (Inr p, w1) \<and> built (files w1)"
proof -
  have a: "a_pinned ex_access = None" "a_sender ex_access = demo_sender" "d_addresses ex_deployments = None"
    by (simp_all add: ex_access_def ex_deployments_def)
  have d: "dsub ex_deployment ''order'' = Inr (JInt 1)" "dsub ex_deployment ''initcode_keccak256'' = Inr (JStr demo_digest)"
    by (simp_all add: dsub_def ex_deployment_def deployment_json_def Let_def ex_core_def)
  have x: "x_require_hex None (JStr ''0x6001'') f = Inr ''0x6001''" for f by code_simp
  obtain address where c: "create_address ex_hashes demo_sender 0 = Inr address"
  proof -
    have "bytes_fromhex (drop 2 demo_sender) = Inr (replicate 20 170)" by code_simp
    then show thesis by (simp add: create_address_def ex_quantities that Let_def)
  qed
  let ?rpc = "executor_rpc ex_env (rq_rpc_url ex_request) None"
  obtain w1 where 1: "require_uncontended_sender_nonce ?rpc demo_sender (Some 0) w = (Inr 0, w1)" "files w1 = files w"
    using ex_nonce by blast
  have "\<forall>j. \<exists>w2. write_journal ex_env ss (w1\<lparr>journal := j\<rparr>) = (Inr (), w2) \<and> built (files w2)"
  proof
    fix j
    show "\<exists>w2. write_journal ex_env ss (w1\<lparr>journal := j\<rparr>) = (Inr (), w2) \<and> built (files w2)"
      using ex_write_journal[of "w1\<lparr>journal := j\<rparr>"] assms 1(2) by auto
  qed
  then obtain W where W: "write_journal ex_env ss (w1\<lparr>journal := j\<rparr>) = (Inr (), W j)" "built (files (W j))" for j
    by metis
  show ?thesis
    by (simp add: prepare_deployment_def Let_def run_defs access_rpc_def a d x_shapes ex_deployment_fields 1 x address_of_def
        ex_calm c journal_set_def W)
qed


section \<open>The broadcast, and what follows\<close>

lemma ex_broadcast:
  assumes "built (files w)" and "ss_staging ss = ex_staging"
  shows "\<exists>m w1. broadcast_deployment ex_env ex_request ex_source ex_access ss 0 p w = (Inl (CanonicalExecutionError m), w1) \<and>
    sent (trace w1) \<and> built (files w1)"
proof -
  have l: "last (broadcast_command ex_request ex_access ss) = ''--broadcast''" "broadcast_command ex_request ex_access ss \<noteq> []"
    by (simp_all add: broadcast_command_def forge_command_def)
  have o: "opened (files w)" using assms(1) by (simp add: built_def)
  have a: "a_pinned ex_access = None" by (simp add: ex_access_def)
  show ?thesis
    by (simp add: broadcast_deployment_def run_defs ex_assert_staged assms o set_attempted_def assert_pinned_def a ex_run l
        command_failure_def is_broadcast_def sent_def)
qed

lemma ex_record:
  assumes "built (files w)" and "ss_root ss = ex_session" and "sent (trace w)"
  shows "\<exists>w1. record_failure ex_env ex_request ss e w = (Inl e, w1) \<and> sent (trace w1) \<and> built (files w1)"
proof -
  have "\<exists>w1. write_journal ex_env ss (w\<lparr>journal := j\<rparr>) = (Inr (), w1) \<and> sent (trace w1) \<and> built (files w1)" for j
    using ex_write_journal[of "w\<lparr>journal := j\<rparr>" ss] assms by auto
  then obtain W where "write_journal ex_env ss (w\<lparr>journal := j\<rparr>) = (Inr (), W j)" "sent (trace (W j))" "built (files (W j))" for j
    by metis
  then show ?thesis
    by (simp add: record_failure_def run_defs get_attempted_def journal_set_def io_raise_def)
qed

text \<open>What the clean-up removes is not one of the first files.\<close>

lemma stocked_subset:
  assumes "stocked fs" and "\<And>q. q \<in> set (map fst ex_files) \<Longrightarrow> map_of fs' q = map_of fs q"
    and "\<And>q n. map_of fs' q = Some n \<Longrightarrow> map_of fs q = Some n"
  shows "stocked fs'"
proof -
  have "no_links fs'"
    unfolding no_links_def
  proof
    fix q
    have "\<not> path_is_link_or_reparse fs q" using assms(1) by (simp add: stocked_def no_links_def)
    then show "\<not> path_is_link_or_reparse fs' q"
      using assms(3)[of q] by (auto simp: path_is_link_or_reparse_def split: option.splits node.splits)
  qed
  moreover have "map_of fs' q = Some n" if "(q, n) \<in> set ex_files" for q n
    using assms(1) assms(2)[of q] that by (force simp: stocked_def)
  ultimately show ?thesis by (auto simp: stocked_def)
qed

lemma stocked_delete: "stocked fs \<Longrightarrow> p \<notin> set (map fst ex_files) \<Longrightarrow> stocked (AList.delete p fs)"
  by (erule stocked_subset) (auto simp: delete_conv' split: if_splits)

lemma stocked_rmtree: "stocked fs \<Longrightarrow> (\<forall>q \<in> set (map fst ex_files). \<not> prefix p q) \<Longrightarrow> stocked (rmtree fs p)"
  by (erule stocked_subset) (auto simp: map_of_rmtree split: if_splits)

lemma ex_clean_up:
  assumes "stocked (files w)" and "ss_staging ss = ex_staging" "ss_parent ss = ''r'' # SESSION_ROOT" "ss_lock_key ss = ex_key"
    and "sent (trace w)" and "clean_up ex_env ss w = (r, w1)"
  shows "sent (trace w1) \<and> stocked (files w1)"
proof -
  have l: "lock_of ss = ex_lock" by (simp add: lock_of_def lock_path_of_def assms SESSION_ROOT_def ex_lock_def ex_locks_def)
  have 1: "stocked (rmtree (files w) ex_staging)"
    by (rule stocked_rmtree[OF assms(1)], unfold ex_keys) (simp add: ex_staging_def)
  have d: "stocked fs \<Longrightarrow> stocked (AList.delete (ex_lock @ [''owner.json'']) fs)" "stocked fs \<Longrightarrow> stocked (AList.delete ex_lock fs)" for fs
    by (erule stocked_delete, unfold ex_keys, simp add: ex_lock_def ex_locks_def)+
  show ?thesis
    using assms(5,6) 1
    by (auto simp: clean_up_def release_execution_lock_def run_defs calm_mutate_eq[OF ex_calm(1)] assms(2) l unlink_def rmdir_present_def d
        split: if_splits option.splits node.splits)
qed

lemma ex_run_session:
  assumes "opened (files w)" and "ss_staging ss = ex_staging" "ss_root ss = ex_session"
    and "ss_parent ss = ''r'' # SESSION_ROOT" "ss_lock_key ss = ex_key"
  shows "\<exists>r w1. run_session ex_env ex_mat ex_request ex_source ex_access ss ex_deployments out w = (r, w1) \<and>
    sent (trace w1) \<and> stocked (files w1)"
proof -
  let ?w = "w\<lparr>broadcast_attempted := False\<rparr>"
  obtain w1 where 1: "simulate ex_env ex_mat ex_request ex_source ex_access ss ex_deployments ?w = (Inr (), w1)" "built (files w1)"
    using ex_simulate[of ?w] assms by auto
  obtain w2 where 2: "preflight ex_env ex_request ex_access ss ex_deployments w1 = (Inr 0, w2)" "built (files w2)"
    using ex_preflight[OF 1(2) assms(3)] by blast
  obtain p w3 where 3: "prepare_deployment ex_env ex_request ex_access ss ex_deployments 0 0 ex_deployment w2 = (Inr p, w3)" "built (files w3)"
    using ex_prepare[OF 2(2) assms(3)] by blast
  obtain m w4 where 4: "broadcast_deployment ex_env ex_request ex_source ex_access ss 0 p w3 = (Inl (CanonicalExecutionError m), w4)"
    "sent (trace w4)" "built (files w4)"
    using ex_broadcast[OF 3(2) assms(2)] by blast
  have d: "d_list ex_deployments = [ex_deployment]" by (simp add: ex_deployments_def)
  have x: "execute_session ex_env ex_mat ex_request ex_source ex_access ss ex_deployments out ?w = (Inl (CanonicalExecutionError m), w4)"
    by (simp add: execute_session_def run_defs 1 2 deploy_all_def d deploy_one_def 3 4)
  obtain w5 where 5: "record_failure ex_env ex_request ss (CanonicalExecutionError m) w4 = (Inl (CanonicalExecutionError m) :: dict res, w5)"
    "sent (trace w5)" "built (files w5)"
    using ex_record[OF 4(3) assms(3) 4(2)] by blast
  obtain r6 w6 where 6: "clean_up ex_env ss w5 = (r6, w6)" by fastforce
  have "sent (trace w6) \<and> stocked (files w6)"
    by (rule ex_clean_up[OF _ assms(2,4,5) 5(2) 6]) (use 5(3) in \<open>simp add: built_def opened_def\<close>)
  then show ?thesis
    by (cases r6) (simp_all add: run_session_def run_defs set_attempted_def io_finally_def io_catch_def x 5 6)
qed


section \<open>The properties of whole runs, on the example\<close>

lemma ex_run_key:
  assumes "stocked (files w)"
  shows "canonical_key ex_env ex_request w ex_key"
proof -
  obtain n where r: "read_source ex_env ex_mat ex_request w = (Inr ex_source, (seen ^^ n) w)"
    using ex_read_source[OF assms] by blast
  have s: "s_plan ex_source = ex_plan" "s_plan_sha ex_source = demo_sha" "a_chain_id ex_access = 31337" "a_sender ex_access = demo_sender"
    by (simp_all add: ex_source_def ex_access_def)
  show ?thesis
    unfolding canonical_key_def run_key_def using r
    by (intro exI conjI) (assumption, simp add: s ex_open_network, simp add: s ex_calm ex_keys_of)
qed

lemma ex_execute:
  obtains r w where "execute_canonical_plan ex_env ex_request ex_world = (r, w)" and "sent (trace w)" and "stocked (files w)"
proof -
  have f: "stocked (files ex_world)" "files ex_world = ex_files" by (simp_all add: ex_files_of ex_stocked)
  obtain n where 1: "read_source ex_env ex_mat ex_request ex_world = (Inr ex_source, (seen ^^ n) ex_world)"
    using ex_read_source[OF f(1)] by blast
  have s: "s_plan ex_source = ex_plan" "d_list ex_deployments = [ex_deployment]"
    by (simp_all add: ex_source_def ex_deployments_def)
  let ?w = "asked ''eth_chainId'' [] ((seen ^^ n) ex_world)"
  obtain ss where ss: "session_of ex_env ex_request ex_source ex_access [ex_deployment] ?w = (Inr ss, seen (seen (seen ?w)))"
    "ss_staging ss = ex_staging" "ss_root ss = ex_session" "ss_parent ss = ''r'' # SESSION_ROOT" "ss_lock_key ss = ex_key"
    "find (\<lambda>field. \<not> dmem field (ss_identity ss)) JOURNAL_IDENTITY_FIELDS = None"
    "dget (ss_identity ss) ''plan_sha256'' = JStr demo_sha" "dget (ss_identity ss) ''chain_id'' = JInt 31337"
    "dget (ss_identity ss) ''sender'' = JStr demo_sender" "dget (ss_identity ss) ''execution_key'' = JStr ex_key"
    by (rule ex_session_of[of ?w]) (simp add: f ex_stocked)
  have "files (seen (seen (seen ?w))) = ex_files" by (simp add: f)
  then obtain w1 where 2: "open_session ex_env ex_request ex_source ss (seen (seen (seen ?w))) =
      (Inr (ex_session @ [''execution-receipt.json'']), w1)" "opened (files w1)"
    using ex_open_session[OF _ ss(2-10)] by blast
  obtain r w2 where 3: "run_session ex_env ex_mat ex_request ex_source ex_access ss ex_deployments
      (ex_session @ [''execution-receipt.json'']) w1 = (r, w2)" "sent (trace w2)" "stocked (files w2)"
    using ex_run_session[OF 2(2) ss(2-5)] by blast
  have "execute_canonical_plan ex_env ex_request ex_world = (r, w2)"
    by (simp add: execute_canonical_plan_def execute_plan_def io_bind_def 1 s ex_open_network ex_check_deployments ss(1) 2(1) 3(1))
  then show thesis using that 3 by blast
qed

lemma ex_conditions:
  "''--broadcast'' \<notin> set (rq_signer_cli ex_request)" "normpath [] (rq_root ex_request) = rq_root ex_request"
  "guarded ex_env (journal_file ex_request sid)" "undisturbed ex_env (journal_file ex_request sid)" "\<not> sent (trace ex_world)"
proof -
  have "ex_build_path \<noteq> journal_file ex_request sid"
    by (auto simp: ex_build_path_def journal_file_def JOURNAL_NAME_def dest: arg_cong[of _ _ last])
  then show "guarded ex_env (journal_file ex_request sid)"
    by (auto simp: guarded_def ex_env_def quiet_env_def ex_forge_def file_at_def update_conv')
  show "undisturbed ex_env (journal_file ex_request sid)"
    by (simp add: undisturbed_def leaves_def ex_env_def quiet_env_def)
qed (simp_all add: ex_request_def ex_world_def empty_world_def)

lemma ex_root: "rq_root ex_request @ SESSION_ROOT = ''r'' # SESSION_ROOT"
  by (simp add: ex_request_def)

theorem execute_plan_crash_safe_witness:
  "\<exists>r w' key sid. execute_canonical_plan ex_env ex_request ex_world = (r, w') \<and> sent (trace w') \<and>
     canonical_key ex_env ex_request ex_world key \<and> unresolved_on_disk ex_request sid key w'"
proof -
  obtain r w' where "execute_canonical_plan ex_env ex_request ex_world = (r, w')" "sent (trace w')" by (rule ex_execute)
  with execute_plan_crash_safe[OF ex_conditions(1,2,3,5) this] show ?thesis by blast
qed

text \<open>Another run finds a journal that was left while broadcasting.\<close>

definition ex_left :: world where
  "ex_left = ex_world\<lparr>files := AList.update (ex_session @ [JOURNAL_NAME])
     (File (str_bytes (json_text (JDict [(''execution_key'', JStr ex_key), (''status'', JStr ''broadcasting'')])))) ex_files\<rparr>"

lemma ex_left_stocked: "stocked (files ex_left)"
  unfolding ex_left_def by (simp, rule stocked_more[OF ex_stocked]) (simp_all add: ex_session_def JOURNAL_NAME_def)

theorem execute_plan_blocked_witness:
  "\<exists>e w'. execute_canonical_plan ex_env ex_request ex_left = (Inl e, w') \<and> \<not> sent (trace w')"
proof (rule execute_plan_blocked[OF ex_conditions(2,4)])
  show "path_exists (files ex_left) (rq_root ex_request @ SESSION_ROOT)"
    unfolding ex_root using stocked_at(9)[OF ex_left_stocked] by (simp add: path_exists_def)
  have "file_at (files ex_left) (journal_file ex_request ''00'') =
      Some (str_bytes (json_text (JDict [(''execution_key'', JStr ex_key), (''status'', JStr ''broadcasting'')])))"
    by (simp add: ex_left_def journal_file_def ex_request_def ex_session_def SESSION_ROOT_def file_at_def update_conv')
  moreover have "unresolved [(''execution_key'', JStr ex_key)] [(''execution_key'', JStr ex_key), (''status'', JStr ''broadcasting'')]"
    by (simp add: unresolved_def dget_Cons RETRY_STATUSES_def RETRY_SAFE_JOURNAL_STATUSES_def)
  ultimately show "unresolved_on_disk ex_request ''00'' ex_key ex_left" unfolding unresolved_on_disk_def by blast
  show "canonical_key ex_env ex_request ex_left ex_key" by (rule ex_run_key[OF ex_left_stocked])
  show "\<not> sent (trace ex_left)" by (simp add: ex_left_def ex_world_def empty_world_def)
qed

text \<open>The run of the example, and the same command once more.\<close>

theorem never_broadcast_twice_witness:
  "\<exists>r w'. execute_canonical_plan ex_env ex_request ex_world = (r, w') \<and> sent (trace w') \<and>
     (\<exists>e v'. execute_canonical_plan ex_env ex_request (empty_world\<lparr>files := files w'\<rparr>) = (Inl e, v') \<and> \<not> sent (trace v'))"
proof -
  obtain r w' where x: "execute_canonical_plan ex_env ex_request ex_world = (r, w')" "sent (trace w')"
    and s: "stocked (files w')" by (rule ex_execute)
  let ?v = "empty_world\<lparr>files := files w'\<rparr>"
  have p: "path_exists (files ?v) (rq_root ex_request @ SESSION_ROOT)"
    unfolding ex_root using stocked_at(9)[OF s] by (simp add: path_exists_def)
  have t: "\<not> sent (trace ?v)" by (simp add: empty_world_def)
  have "files ?v = files w'" by simp
  then have "\<exists>e v'. execute_canonical_plan ex_env ex_request ?v = (Inl e, v') \<and> \<not> sent (trace v')"
    using never_broadcast_twice[OF ex_conditions(1,2,3,5) x refl ex_conditions(4) _ p t ex_run_key ex_run_key]
      ex_stocked ex_files_of s by (simp add: empty_world_def)
  with x show ?thesis by blast
qed

end
