(* ===== verification/Keccak.thy ===== *)
theory Keccak
  imports Encoding
begin

unbundle bit_operations_syntax

text \<open>
  The Keccak-256 of \<open>tools/protocol/check_drop_authorization_fixtures.py\<close>, written out in
  integers with masks (\<open>rotl64\<close>, \<open>keccak_f1600\<close>, \<open>keccak256\<close>), and the specification it is
  compared with: the permutation of FIPS 202 on a 5 by 5 array of 64-bit lanes, with its
  rotation offsets and round constants computed by the algorithms of the standard, in a sponge
  with the padding of Keccak.
\<close>

section \<open>The code\<close>

definition MASK_64 :: int where
  "MASK_64 = push_bit 64 1 - 1"

definition KECCAK_ROUNDS :: "int list" where
  "KECCAK_ROUNDS =
     [0x0000000000000001, 0x0000000000008082, 0x800000000000808A, 0x8000000080008000,
      0x000000000000808B, 0x0000000080000001, 0x8000000080008081, 0x8000000000008009,
      0x000000000000008A, 0x0000000000000088, 0x0000000080008009, 0x000000008000000A,
      0x000000008000808B, 0x800000000000008B, 0x8000000000008089, 0x8000000000008003,
      0x8000000000008002, 0x8000000000000080, 0x000000000000800A, 0x800000008000000A,
      0x8000000080008081, 0x8000000000008080, 0x0000000080000001, 0x8000000080008008]"

definition RHO_OFFSETS :: "nat list list" where
  "RHO_OFFSETS =
     [[0, 36, 3, 41, 18], [1, 44, 10, 45, 2], [62, 6, 43, 15, 61], [28, 55, 25, 21, 56],
      [27, 20, 39, 8, 14]]"

definition rotl64 :: "int \<Rightarrow> nat \<Rightarrow> int" where
  "rotl64 v shift =
     (if shift = 0 then v AND MASK_64
      else (push_bit shift v OR drop_bit (64 - shift) v) AND MASK_64)"

text \<open>The loops \<open>for x in range(5): for y in range(5)\<close>.\<close>

definition grid :: "(nat \<times> nat) list" where
  "grid = List.product [0..<5] [0..<5]"

definition column_parity :: "int list \<Rightarrow> int list" where
  "column_parity state =
     map (\<lambda>x. state ! x XOR state ! (x + 5) XOR state ! (x + 10) XOR state ! (x + 15) XOR state ! (x + 20)) [0..<5]"

definition theta :: "int list \<Rightarrow> int list" where
  "theta state =
     (let c = column_parity state;
          d = map (\<lambda>x. c ! ((x + 4) mod 5) XOR rotl64 (c ! ((x + 1) mod 5)) 1) [0..<5] in
      fold (\<lambda>(x, y) st. st[x + 5 * y := st ! (x + 5 * y) XOR d ! x]) grid state)"

definition rho_pi :: "int list \<Rightarrow> int list" where
  "rho_pi state =
     fold (\<lambda>(x, y) b. b[y + 5 * ((2 * x + 3 * y) mod 5) := rotl64 (state ! (x + 5 * y)) (RHO_OFFSETS ! x ! y)])
       grid (replicate 25 0)"

definition chi :: "int list \<Rightarrow> int list \<Rightarrow> int list" where
  "chi b state =
     fold (\<lambda>(x, y) st. st[x + 5 * y :=
         (b ! (x + 5 * y) XOR (NOT (b ! ((x + 1) mod 5 + 5 * y)) AND b ! ((x + 2) mod 5 + 5 * y))) AND MASK_64])
       grid state"

definition keccak_round :: "int \<Rightarrow> int list \<Rightarrow> int list" where
  "keccak_round round_constant state =
     (let st = theta state; st' = chi (rho_pi st) st in st'[0 := st' ! 0 XOR round_constant])"

definition keccak_f1600 :: "int list \<Rightarrow> int list" where
  "keccak_f1600 state = fold keccak_round KECCAK_ROUNDS state"

text \<open>\<open>int.from_bytes(b, "little")\<close> and \<open>v.to_bytes(n, "little")\<close> of a value that fits.\<close>

fun from_little :: "byte list \<Rightarrow> int" where
  "from_little [] = 0"
| "from_little (b # bs) = uint b + 256 * from_little bs"

fun to_little :: "nat \<Rightarrow> int \<Rightarrow> byte list" where
  "to_little 0 v = []"
| "to_little (Suc n) v = word_of_int v # to_little n (v div 256)"

definition RATE :: nat where
  "RATE = 136"

definition pad_keccak :: "byte list \<Rightarrow> byte list" where
  "pad_keccak data =
     (let pad_len = RATE - length data mod RATE in
      if pad_len = 1 then data @ [0x81] else data @ [0x01] @ replicate (pad_len - 2) 0x00 @ [0x80])"

definition absorb_block :: "byte list \<Rightarrow> int list \<Rightarrow> int list" where
  "absorb_block block state =
     keccak_f1600 (fold (\<lambda>lane st. st[lane := st ! lane XOR from_little (take 8 (drop (lane * 8) block))])
       [0..<RATE div 8] state)"

definition blocks :: "byte list \<Rightarrow> byte list list" where
  "blocks padded = map (\<lambda>i. take RATE (drop (i * RATE) padded)) [0..<length padded div RATE]"

fun squeeze_lanes :: "int list \<Rightarrow> nat list \<Rightarrow> byte list \<Rightarrow> byte list" where
  "squeeze_lanes state [] out = out"
| "squeeze_lanes state (lane # lanes) out =
     (let out' = out @ to_little 8 (state ! lane) in
      if 32 \<le> length out' then out' else squeeze_lanes state lanes out')"

lemma length_to_little [simp]: "length (to_little n v) = n"
  by (induction n arbitrary: v) simp_all

lemma length_squeeze_lanes: "length out \<le> length (squeeze_lanes state lanes out)"
proof (induction lanes arbitrary: out)
  case (Cons lane lanes)
  show ?case using Cons.IH[of "out @ to_little 8 (state ! lane)"] by (simp add: Let_def)
qed simp

function squeeze :: "int list \<Rightarrow> byte list \<Rightarrow> byte list" where
  "squeeze state out =
     (if 32 \<le> length out then out
      else
        let out' = squeeze_lanes state [0..<RATE div 8] out in
        squeeze (if length out' < 32 then keccak_f1600 state else state) out')"
  by pat_completeness auto
termination
proof (relation "measure (\<lambda>(state, out). 32 - length out)")
  fix state :: "int list" and out out' :: "byte list"
  assume "\<not> 32 \<le> length out" and "out' = squeeze_lanes state [0..<RATE div 8] out"
  moreover have "length out < length (squeeze_lanes state [0..<RATE div 8] out)"
    using length_squeeze_lanes[of "out @ to_little 8 (state ! 0)" state "[1..<17]"]
    by (simp add: RATE_def upt_rec[of 0] Let_def)
  ultimately show "((if length out' < 32 then keccak_f1600 state else state, out'), state, out) \<in> measure (\<lambda>(state, out). 32 - length out)"
    by simp
qed simp

declare squeeze.simps [simp del]

definition keccak256 :: "byte list \<Rightarrow> byte list" where
  "keccak256 data =
     take 32 (squeeze (fold absorb_block (blocks (pad_keccak data)) (replicate 25 0)) [])"

definition keccak_hex :: "byte list \<Rightarrow> string" where
  "keccak_hex data = ''0x'' @ bytes_hex (keccak256 data)"


section \<open>FIPS 202\<close>

type_synonym lanes = "nat \<Rightarrow> nat \<Rightarrow> 64 word"

definition fips_parity :: "lanes \<Rightarrow> nat \<Rightarrow> 64 word" where
  "fips_parity A x = A x 0 XOR A x 1 XOR A x 2 XOR A x 3 XOR A x 4"

definition fips_theta :: "lanes \<Rightarrow> lanes" where
  "fips_theta A x y =
     A x y XOR (fips_parity A ((x + 4) mod 5) XOR word_rotl 1 (fips_parity A ((x + 1) mod 5)))"

text \<open>Algorithm 2: the offset of a lane is given by when the walk from (1, 0) meets it.\<close>

fun rho_walk :: "nat \<Rightarrow> nat \<times> nat" where
  "rho_walk 0 = (1, 0)"
| "rho_walk (Suc t) = (case rho_walk t of (x, y) \<Rightarrow> (y, (2 * x + 3 * y) mod 5))"

definition fips_offset :: "nat \<Rightarrow> nat \<Rightarrow> nat" where
  "fips_offset x y =
     (case find (\<lambda>t. rho_walk t = (x, y)) [0..<24] of
        None \<Rightarrow> 0
      | Some t \<Rightarrow> (t + 1) * (t + 2) div 2 mod 64)"

definition fips_rho :: "lanes \<Rightarrow> lanes" where
  "fips_rho A x y = word_rotl (fips_offset x y) (A x y)"

definition fips_pi :: "lanes \<Rightarrow> lanes" where
  "fips_pi A x y = A ((x + 3 * y) mod 5) x"

definition fips_chi :: "lanes \<Rightarrow> lanes" where
  "fips_chi A x y = A x y XOR (NOT (A ((x + 1) mod 5) y) AND A ((x + 2) mod 5) y)"

text \<open>Algorithm 5: a linear feedback shift register of eight bits.\<close>

definition lfsr_step :: "bool list \<Rightarrow> bool list" where
  "lfsr_step r =
     (let s = False # r; b = s ! 8 in
      take 8 (s[0 := s ! 0 \<noteq> b, 4 := s ! 4 \<noteq> b, 5 := s ! 5 \<noteq> b, 6 := s ! 6 \<noteq> b]))"

definition fips_rc :: "nat \<Rightarrow> bool" where
  "fips_rc t = hd ((lfsr_step ^^ (t mod 255)) (True # replicate 7 False))"

definition fips_round_constant :: "nat \<Rightarrow> 64 word" where
  "fips_round_constant i =
     fold (\<lambda>j w. if fips_rc (j + 7 * i) then w OR push_bit (2 ^ j - 1) 1 else w) [0..<7] 0"

definition fips_iota :: "nat \<Rightarrow> lanes \<Rightarrow> lanes" where
  "fips_iota i A x y = (if x = 0 \<and> y = 0 then A x y XOR fips_round_constant i else A x y)"

definition fips_round :: "nat \<Rightarrow> lanes \<Rightarrow> lanes" where
  "fips_round i A = fips_iota i (fips_chi (fips_pi (fips_rho (fips_theta A))))"

definition fips_keccak_f :: "lanes \<Rightarrow> lanes" where
  "fips_keccak_f A = fold fips_round [0..<24] A"

text \<open>The tables of the code are the ones the standard computes.\<close>

lemma rho_offsets_fips: "x < 5 \<Longrightarrow> y < 5 \<Longrightarrow> RHO_OFFSETS ! x ! y = fips_offset x y"
proof -
  have "\<forall>x \<in> set [0..<5]. \<forall>y \<in> set [0..<5]. RHO_OFFSETS ! x ! y = fips_offset x y" by code_simp
  then show "x < 5 \<Longrightarrow> y < 5 \<Longrightarrow> RHO_OFFSETS ! x ! y = fips_offset x y" by simp
qed

fun lfsr_run :: "bool list \<Rightarrow> nat \<Rightarrow> bool list" where
  "lfsr_run r 0 = []"
| "lfsr_run r (Suc n) = hd r # lfsr_run (lfsr_step r) n"

lemma nth_lfsr_run: "t < n \<Longrightarrow> lfsr_run r n ! t = hd ((lfsr_step ^^ t) r)"
proof (induction n arbitrary: r t)
  case (Suc n)
  then show ?case by (cases t) (simp_all add: funpow_swap1)
qed simp

lemma fips_rc_run: "t < 168 \<Longrightarrow> fips_rc t = lfsr_run (True # replicate 7 False) 168 ! t"
  by (simp add: nth_lfsr_run fips_rc_def)

definition constant_of :: "bool list \<Rightarrow> nat \<Rightarrow> 64 word" where
  "constant_of bits i = fold (\<lambda>j w. if bits ! (j + 7 * i) then w OR push_bit (2 ^ j - 1) 1 else w) [0..<7] 0"

lemma round_constant_run:
  assumes "i < 24"
  shows "fips_round_constant i = constant_of (lfsr_run (True # replicate 7 False) 168) i"
  unfolding fips_round_constant_def constant_of_def
  by (rule fold_cong[OF refl refl]) (use assms in \<open>auto simp: fips_rc_run\<close>)

lemma constants_computed:
  "map (\<lambda>i. uint (constant_of (lfsr_run (True # replicate 7 False) 168) i)) [0..<24] = KECCAK_ROUNDS"
  by code_simp

lemma rounds_fips: "KECCAK_ROUNDS = map (\<lambda>i. uint (fips_round_constant i)) [0..<24]"
  unfolding constants_computed[symmetric] by (simp add: round_constant_run)

section \<open>Lanes as masked integers\<close>

lemma mask_64: "MASK_64 = mask 64"
  by (simp add: MASK_64_def mask_eq_exp_minus_1)

lemma rotl64_word: "n < 64 \<Longrightarrow> rotl64 (uint w) n = uint (word_rotl n (w :: 64 word))"
proof (rule bit_eqI)
  fix k
  assume n: "n < 64"
  have "(k + 64 - n) mod 64 = (if n \<le> k then k - n else k + 64 - n)" if "k < 64"
  proof (cases "n \<le> k")
    case True
    then have "(k + 64 - n) mod 64 = ((k - n) + 64) mod 64" by (simp add: add.commute)
    also have "\<dots> = k - n" using that by (simp only: mod_add_self2) simp
    finally show ?thesis using True by simp
  qed (use that n in simp)
  note i = this
  show "bit (rotl64 (uint w) n) k = bit (uint (word_rotl n w)) k"
  proof (cases "n = 0 \<or> 64 \<le> k")
    case True
    then show ?thesis by (auto simp: rotl64_def mask_64 bit_simps)
  next
    case False
    then have k: "n \<noteq> 0" "k < 64" by simp_all
    show ?thesis
    proof (cases "n \<le> k")
      case True
      have "\<not> bit w (64 - n + k)" using bit_imp_le_length[of w "64 - n + k"] True n by auto
      then show ?thesis using True k n i by (simp add: rotl64_def mask_64 bit_simps)
    next
      case False
      moreover have "k + 64 - n = 64 + k - n" by simp
      ultimately show ?thesis using k n i by (simp add: rotl64_def mask_64 bit_simps)
    qed
  qed
qed

lemma chi_word: "(uint a XOR (NOT (uint b) AND uint c)) AND MASK_64 = uint (a XOR (NOT b AND c))" for a b c :: "64 word"
  unfolding mask_64 by (rule bit_eqI) (auto simp: bit_simps dest: bit_imp_le_length)

lemma xor_word: "uint a XOR uint b = uint (a XOR b)" for a b :: "64 word"
  by (simp add: unsigned_xor_eq)


section \<open>The permutation\<close>

text \<open>A loop that updates every cell of a list once.\<close>

lemma length_fold_update [simp]: "length (fold (\<lambda>p st. st[f p := g p st]) ps st) = length st"
  by (induction ps arbitrary: st) simp_all

lemma fold_update_other:
  "i \<notin> set (map f ps) \<Longrightarrow> fold (\<lambda>p st. st[f p := g p (st ! f p)]) ps st ! i = st ! i"
  by (induction ps arbitrary: st) auto

lemma fold_update_nth:
  assumes "distinct (map f ps)" and "p \<in> set ps" and "f p < length st"
  shows "fold (\<lambda>p st. st[f p := g p (st ! f p)]) ps st ! f p = g p (st ! f p)"
  using assms
proof (induction ps arbitrary: st)
  case (Cons q ps)
  show ?case
  proof (cases "p = q")
    case True
    then show ?thesis using Cons.prems by (simp add: fold_update_other)
  next
    case False
    then have "p \<in> set ps" "f p \<noteq> f q" using Cons.prems by (auto simp: rev_image_eqI)
    then show ?thesis using Cons.IH[of "st[f q := g q (st ! f q)]"] Cons.prems by simp
  qed
qed simp

lemma grid_cells: "distinct (map (\<lambda>(x, y). x + 5 * y) grid)" "distinct (map (\<lambda>(x, y). y + 5 * ((2 * x + 3 * y) mod 5)) grid)"
  "set grid = {0..<5} \<times> {0..<5}"
proof -
  show "distinct (map (\<lambda>(x, y). x + 5 * y) grid)" "distinct (map (\<lambda>(x, y). y + 5 * ((2 * x + 3 * y) mod 5)) grid)"
    by code_simp+
  show "set grid = {0..<5} \<times> {0..<5}" by (simp add: grid_def)
qed

definition lane_list :: "lanes \<Rightarrow> int list" where
  "lane_list A = map (\<lambda>i. uint (A (i mod 5) (i div 5))) [0..<25]"

lemma length_lane_list [simp]: "length (lane_list A) = 25"
  by (simp add: lane_list_def)

lemma nth_lane_list: "x < 5 \<Longrightarrow> y < 5 \<Longrightarrow> lane_list A ! (x + 5 * y) = uint (A x y)"
  by (simp add: lane_list_def)

lemma lane_list_eqI:
  assumes "length st = 25" and "\<And>x y. x < 5 \<Longrightarrow> y < 5 \<Longrightarrow> st ! (x + 5 * y) = uint (A x y)"
  shows "st = lane_list A"
proof (rule nth_equalityI)
  fix i assume "i < length st"
  then have "i mod 5 < 5" "i div 5 < 5" using assms(1) by auto
  from assms(2)[OF this] nth_lane_list[OF this] show "st ! i = lane_list A ! i" by simp
qed (simp add: assms(1))

lemma parity_lanes: "x < 5 \<Longrightarrow> column_parity (lane_list A) ! x = uint (fips_parity A x)"
  using nth_lane_list[of x 0 A] nth_lane_list[of x 1 A] nth_lane_list[of x 2 A] nth_lane_list[of x 3 A] nth_lane_list[of x 4 A]
  by (simp add: column_parity_def fips_parity_def xor_word add.commute)

lemma theta_lanes: "theta (lane_list A) = lane_list (fips_theta A)"
proof (rule lane_list_eqI)
  show "length (theta (lane_list A)) = 25" by (simp add: theta_def Let_def case_prod_unfold)
  fix x y :: nat assume xy: "x < 5" "y < 5"
  let ?c = "column_parity (lane_list A)"
  let ?d = "map (\<lambda>x. ?c ! ((x + 4) mod 5) XOR rotl64 (?c ! ((x + 1) mod 5)) 1) [0..<5]"
  have "theta (lane_list A) ! (x + 5 * y) = lane_list A ! (x + 5 * y) XOR ?d ! x"
    using fold_update_nth[of "\<lambda>(x, y). x + 5 * y" grid "(x, y)" "lane_list A" "\<lambda>(x, y) v. v XOR ?d ! x"] xy
    by (simp add: theta_def Let_def case_prod_unfold grid_cells[unfolded case_prod_unfold])
  also have "?d ! x = uint (fips_parity A ((x + 4) mod 5) XOR word_rotl 1 (fips_parity A ((x + 1) mod 5)))"
    using xy by (simp add: parity_lanes rotl64_word xor_word)
  finally show "theta (lane_list A) ! (x + 5 * y) = uint (fips_theta A x y)"
    using xy by (simp add: nth_lane_list fips_theta_def xor_word)
qed


text \<open>The moves of rho and pi, and the inverse of where pi takes a lane from.\<close>

lemma pi_cells:
  assumes "x < 5" and "y < 5"
  shows "((x + 3 * y) mod 5, x) \<in> set grid" and "(\<lambda>(x, y). y + 5 * ((2 * x + 3 * y) mod 5)) ((x + 3 * y) mod 5, x) = x + 5 * y"
proof -
  show "((x + 3 * y) mod 5, x) \<in> set grid" using assms by (simp add: grid_cells)
  have "\<forall>x \<in> set [0..<5]. \<forall>y \<in> set [0..<5]. (2 * ((x + 3 * y) mod 5) + 3 * x) mod 5 = y" by code_simp
  then show "(\<lambda>(x, y). y + 5 * ((2 * x + 3 * y) mod 5)) ((x + 3 * y) mod 5, x) = x + 5 * y"
    using assms by simp
qed

lemma offset_less: "x < 5 \<Longrightarrow> y < 5 \<Longrightarrow> RHO_OFFSETS ! x ! y < 64"
proof -
  have "\<forall>x \<in> set [0..<5]. \<forall>y \<in> set [0..<5]. RHO_OFFSETS ! x ! y < 64" by code_simp
  then show "x < 5 \<Longrightarrow> y < 5 \<Longrightarrow> RHO_OFFSETS ! x ! y < 64" by simp
qed

lemma rho_pi_lanes: "rho_pi (lane_list A) = lane_list (fips_pi (fips_rho A))"
proof (rule lane_list_eqI)
  show "length (rho_pi (lane_list A)) = 25" by (simp add: rho_pi_def case_prod_unfold)
  fix x y :: nat assume xy: "x < 5" "y < 5"
  let ?g = "\<lambda>(x, y) (v :: int). rotl64 (lane_list A ! (x + 5 * y)) (RHO_OFFSETS ! x ! y)"
  let ?x = "(x + 3 * y) mod 5"
  have "rho_pi (lane_list A) ! (x + 5 * y) = ?g (?x, x) (replicate 25 0 ! (x + 5 * y))"
    using fold_update_nth[of "\<lambda>(x, y). y + 5 * ((2 * x + 3 * y) mod 5)" grid "(?x, x)" "replicate 25 0" ?g] xy pi_cells[OF xy]
    by (simp add: rho_pi_def case_prod_unfold grid_cells[unfolded case_prod_unfold])
  also have "\<dots> = uint (fips_pi (fips_rho A) x y)"
    using xy by (simp add: nth_lane_list rotl64_word offset_less rho_offsets_fips[symmetric] fips_pi_def fips_rho_def)
  finally show "rho_pi (lane_list A) ! (x + 5 * y) = uint (fips_pi (fips_rho A) x y)" .
qed

lemma chi_lanes: "length st = 25 \<Longrightarrow> chi (lane_list B) st = lane_list (fips_chi B)"
proof (rule lane_list_eqI)
  assume st: "length st = 25"
  then show "length (chi (lane_list B) st) = 25" by (simp add: chi_def case_prod_unfold)
  fix x y :: nat assume xy: "x < 5" "y < 5"
  let ?b = "lane_list B"
  let ?g = "\<lambda>(x, y) (v :: int). (?b ! (x + 5 * y) XOR (NOT (?b ! ((x + 1) mod 5 + 5 * y)) AND ?b ! ((x + 2) mod 5 + 5 * y))) AND MASK_64"
  have "chi ?b st ! (x + 5 * y) = ?g (x, y) (st ! (x + 5 * y))"
    using fold_update_nth[of "\<lambda>(x, y). x + 5 * y" grid "(x, y)" st ?g] xy st
    by (simp add: chi_def case_prod_unfold grid_cells[unfolded case_prod_unfold])
  also have "\<dots> = uint (fips_chi B x y)"
    using xy by (simp add: nth_lane_list chi_word fips_chi_def)
  finally show "chi ?b st ! (x + 5 * y) = uint (fips_chi B x y)" .
qed

lemma iota_lanes: "(lane_list A)[0 := lane_list A ! 0 XOR uint (fips_round_constant i)] = lane_list (fips_iota i A)"
proof (rule lane_list_eqI)
  fix x y :: nat assume "x < 5" "y < 5"
  then show "(lane_list A)[0 := lane_list A ! 0 XOR uint (fips_round_constant i)] ! (x + 5 * y) = uint (fips_iota i A x y)"
    using nth_lane_list[of 0 0 A] nth_lane_list[of x y A]
    by (cases "x = 0 \<and> y = 0") (auto simp: fips_iota_def xor_word)
qed simp

lemma keccak_round_lanes: "keccak_round (uint (fips_round_constant i)) (lane_list A) = lane_list (fips_round i A)"
  by (simp add: keccak_round_def Let_def theta_lanes rho_pi_lanes chi_lanes iota_lanes fips_round_def)

lemma keccak_f1600_lanes: "keccak_f1600 (lane_list A) = lane_list (fips_keccak_f A)"
proof -
  have "fold keccak_round (map (\<lambda>i. uint (fips_round_constant i)) is) (lane_list A) = lane_list (fold fips_round is A)" for "is"
    by (induction "is" arbitrary: A) (simp_all add: keccak_round_lanes)
  then show ?thesis by (simp add: keccak_f1600_def rounds_fips fips_keccak_f_def)
qed


section \<open>The sponge\<close>

text \<open>
  Bits, the least significant of a byte first; the padding \<open>pad10*1\<close>; and KECCAK[512], whose
  rate is 1088 bits, with 256 bits of output.
\<close>

definition bits_of :: "byte list \<Rightarrow> bool list" where
  "bits_of bs = concat (map (\<lambda>b. map (bit b) [0..<8]) bs)"

definition fips_rate :: nat where
  "fips_rate = 1088"

definition fips_pad :: "bool list \<Rightarrow> bool list" where
  "fips_pad m = m @ True # replicate (nat ((- int (length m) - 2) mod int fips_rate)) False @ [True]"

definition fips_absorb :: "bool list \<Rightarrow> lanes \<Rightarrow> lanes" where
  "fips_absorb block A x y =
     A x y XOR (if 64 * (x + 5 * y) < fips_rate then horner_sum of_bool 2 (take 64 (drop (64 * (x + 5 * y)) block)) else 0)"

definition fips_state_bits :: "lanes \<Rightarrow> bool list" where
  "fips_state_bits A = concat (map (\<lambda>i. map (bit (A (i mod 5) (i div 5))) [0..<64]) [0..<25])"

definition fips_keccak256 :: "bool list \<Rightarrow> bool list" where
  "fips_keccak256 m =
     (let p = fips_pad m in
      take 256 (fips_state_bits (fold (\<lambda>i A. fips_keccak_f (fips_absorb (take fips_rate (drop (i * fips_rate) p)) A))
        [0..<length p div fips_rate] (\<lambda>_ _. 0))))"

lemma bits_of_simps [simp]:
  "bits_of [] = []" "bits_of (b # bs) = map (bit b) [0..<8] @ bits_of bs" "bits_of (xs @ ys) = bits_of xs @ bits_of ys"
  "length (bits_of xs) = 8 * length xs"
  by (induction xs) (simp_all add: bits_of_def)

lemma bits_of_take: "bits_of (take n xs) = take (8 * n) (bits_of xs)"
proof (induction xs arbitrary: n)
  case (Cons x xs)
  then show ?case by (cases n) (simp_all del: upt_Suc)
qed simp

lemma bits_of_drop: "bits_of (drop n xs) = drop (8 * n) (bits_of xs)"
proof (induction xs arbitrary: n)
  case (Cons x xs)
  then show ?case by (cases n) (simp_all del: upt_Suc)
qed simp

lemma bits_of_zero: "bits_of (replicate n 0) = replicate (8 * n) False"
proof (induction n)
  case (Suc n)
  have "map (bit (0 :: byte)) [0..<8] = replicate 8 False" by code_simp
  moreover have "replicate (8 * Suc n) False = replicate 8 False @ replicate (8 * n) False"
    unfolding replicate_add[symmetric] by simp
  ultimately show ?case using Suc by (simp only: replicate_Suc bits_of_simps)
qed simp

lemma bits_of_markers:
  "bits_of [0x01] = True # replicate 7 False" "bits_of [0x80] = replicate 7 False @ [True]"
  "bits_of [0x81] = True # replicate 6 False @ [True]"
  by code_simp+

text \<open>The padding, with its edge case of a single byte.\<close>

lemma bits_of_pad: "bits_of (pad_keccak data) = fips_pad (bits_of data)"
proof -
  define k where "k = RATE - length data mod RATE"
  have k: "1 \<le> k" "k \<le> 136" by (auto simp: k_def RATE_def)
  have "(- int (8 * length data) - 2) mod int fips_rate = int (8 * k) - 2"
  proof -
    have "int (length data) = 136 * int (length data div 136) + int (length data mod 136)"
      using mult_div_mod_eq[of 136 "length data"] by linarith
    moreover have "int k = 136 - int (length data mod 136)" by (simp add: k_def RATE_def of_nat_diff)
    ultimately have "- int (8 * length data) - 2 = (int (8 * k) - 2) + int fips_rate * (- int (length data div 136) - 1)"
      by (simp add: fips_rate_def algebra_simps)
    then have "(- int (8 * length data) - 2) mod int fips_rate = (int (8 * k) - 2) mod int fips_rate"
      by (simp only: mod_mult_self2)
    also have "\<dots> = int (8 * k) - 2" using k by (simp add: fips_rate_def)
    finally show ?thesis .
  qed
  then have j: "nat ((- int (length (bits_of data)) - 2) mod int fips_rate) = 8 * k - 2"
    using k by simp
  show ?thesis
  proof (cases "k = 1")
    case True
    then show ?thesis unfolding fips_pad_def j using bits_of_markers(3) by (simp add: pad_keccak_def k_def[symmetric])
  next
    case False
    then have "8 * k - 2 = 7 + (8 * (k - 2) + 7)" using k by simp
    then have "replicate (8 * k - 2) False = replicate 7 False @ replicate (8 * (k - 2)) False @ replicate 7 False"
      unfolding replicate_add[symmetric] by simp
    then show ?thesis
      unfolding fips_pad_def j using False
      by (simp add: pad_keccak_def k_def[symmetric] Let_def bits_of_zero bits_of_markers[unfolded bits_of_simps append_Nil2])
  qed
qed

lemma length_pad: "length (pad_keccak data) = RATE * (length data div RATE + 1)"
proof -
  have "length data mod RATE < RATE" by (simp add: RATE_def)
  then have "length (pad_keccak data) = length data + (RATE - length data mod RATE)"
    by (auto simp: pad_keccak_def Let_def)
  also have "\<dots> = RATE * (length data div RATE) + RATE"
    using mult_div_mod_eq[of RATE "length data"] \<open>length data mod RATE < RATE\<close> by linarith
  finally show ?thesis by simp
qed


text \<open>A lane read from eight bytes of the block, and written back as eight bytes.\<close>

lemma from_little_bits: "from_little bs = horner_sum of_bool 2 (bits_of bs)"
proof (induction bs)
  case (Cons b bs)
  have "map (bit b) [0..<8] = map (bit (uint b)) [0..<8]" by (simp add: bit_uint_iff)
  then have "horner_sum of_bool 2 (map (bit b) [0..<8]) = uint b"
    by (simp only: horner_sum_bit_eq_take_bit) (simp add: take_bit_eq_mod uint_lt2p[of b, simplified])
  then show ?case using Cons by (simp add: horner_sum_append del: upt_rec_numeral)
qed simp

lemma from_little_word:
  assumes "length bs = 8"
  shows "from_little bs = uint (horner_sum of_bool 2 (bits_of bs) :: 64 word)"
  unfolding from_little_bits by (rule bit_eqI) (use assms in \<open>auto simp: bit_simps\<close>)

lemma bits_of_little: "bits_of (to_little n v) = map (bit v) [0..<8 * n]"
proof (induction n arbitrary: v)
  case (Suc n)
  have "map (bit (word_of_int v :: byte)) [0..<8] = map (bit v) [0..<8]" by (simp add: bit_word_of_int_iff)
  moreover have "map (bit (v div 256)) [0..<8 * n] = map (\<lambda>i. bit v (i + 8)) [0..<8 * n]"
    using drop_bit_eq_div[of 8 v] bit_drop_bit_eq[of 8 v] by (simp add: add.commute)
  moreover have "map (bit v) [0..<8 * Suc n] = map (bit v) [0..<8] @ map (\<lambda>i. bit v (i + 8)) [0..<8 * n]"
    using upt_add_eq_append[of 0 8 "8 * n"] map_add_upt[of 8 "8 * n", symmetric]
    by (simp add: add.commute comp_def)
  ultimately show ?case using Suc by (simp del: upt_rec_numeral)
qed simp

lemma absorb_lanes:
  assumes "length block = RATE"
  shows "absorb_block block (lane_list A) = lane_list (fips_keccak_f (fips_absorb (bits_of block) A))"
proof -
  let ?g = "\<lambda>lane v. v XOR from_little (take 8 (drop (lane * 8) block))"
  let ?st = "fold (\<lambda>lane st. st[lane := ?g lane (st ! lane)]) [0..<17] (lane_list A)"
  have "?st = lane_list (fips_absorb (bits_of block) A)"
  proof (rule lane_list_eqI)
    fix x y :: nat
    assume xy: "x < 5" "y < 5"
    let ?i = "x + 5 * y"
    show "?st ! ?i = uint (fips_absorb (bits_of block) A x y)"
    proof (cases "?i < 17")
      case True
      have "?st ! ?i = ?g ?i (lane_list A ! ?i)"
        using fold_update_nth[of "\<lambda>i. i" "[0..<17]" ?i "lane_list A" ?g] True by simp
      moreover have "from_little (take 8 (drop (?i * 8) block)) = uint (horner_sum of_bool 2 (take 64 (drop (64 * ?i) (bits_of block))) :: 64 word)"
        using from_little_word[of "take 8 (drop (?i * 8) block)"] True assms
        by (simp add: RATE_def bits_of_take bits_of_drop algebra_simps)
      ultimately show ?thesis using True xy by (simp add: fips_absorb_def fips_rate_def nth_lane_list xor_word)
    next
      case False
      then have "?st ! ?i = lane_list A ! ?i"
        using fold_update_other[of ?i "\<lambda>i. i" "[0..<17]" ?g "lane_list A"] by simp
      then show ?thesis using False xy by (simp add: fips_absorb_def fips_rate_def nth_lane_list)
    qed
  qed simp
  then show ?thesis by (simp add: absorb_block_def RATE_def keccak_f1600_lanes)
qed

lemma length_block: "i < length (pad_keccak data) div RATE \<Longrightarrow> length (take RATE (drop (i * RATE) (pad_keccak data))) = RATE"
proof -
  assume "i < length (pad_keccak data) div RATE"
  then have "Suc i \<le> length data div RATE + 1" by (simp add: length_pad RATE_def)
  then have "RATE * Suc i \<le> length (pad_keccak data)" unfolding length_pad by (rule mult_le_mono2)
  then show ?thesis by (simp add: algebra_simps)
qed

lemma absorb_all:
  assumes "\<forall>i \<in> set is. length (take RATE (drop (i * RATE) p)) = RATE"
  shows "fold absorb_block (map (\<lambda>i. take RATE (drop (i * RATE) p)) is) (lane_list A) =
    lane_list (fold (\<lambda>i A. fips_keccak_f (fips_absorb (take fips_rate (drop (i * fips_rate) (bits_of p))) A)) is A)"
  using assms
proof (induction "is" arbitrary: A)
  case (Cons i "is")
  have "bits_of (take RATE (drop (i * RATE) p)) = take fips_rate (drop (i * fips_rate) (bits_of p))"
    by (simp add: bits_of_take bits_of_drop RATE_def fips_rate_def algebra_simps)
  then show ?case using Cons absorb_lanes[of "take RATE (drop (i * RATE) p)" A] by simp
qed simp

lemma squeeze_first: "squeeze st [] = to_little 8 (st ! 0) @ to_little 8 (st ! 1) @ to_little 8 (st ! 2) @ to_little 8 (st ! 3)"
proof -
  have "[0..<RATE div 8] = 0 # 1 # 2 # 3 # [4..<17]" by (simp add: RATE_def upt_rec[of _ 17])
  then have "squeeze_lanes st [0..<RATE div 8] [] = to_little 8 (st ! 0) @ to_little 8 (st ! 1) @ to_little 8 (st ! 2) @ to_little 8 (st ! 3)"
    by (simp add: Let_def)
  then show ?thesis by (subst squeeze.simps, simp add: Let_def, subst squeeze.simps, simp)
qed

lemma state_bits_first:
  "take 256 (fips_state_bits A) = map (bit (A 0 0)) [0..<64] @ map (bit (A 1 0)) [0..<64] @ map (bit (A 2 0)) [0..<64] @ map (bit (A 3 0)) [0..<64]"
proof -
  have "[0..<25 :: nat] = 0 # 1 # 2 # 3 # [4..<25]" by (simp add: upt_rec[of _ 25])
  then show ?thesis by (simp add: fips_state_bits_def del: upt_rec_numeral)
qed

lemma bits_of_squeezed: "bits_of (take 32 (squeeze (lane_list A) [])) = take 256 (fips_state_bits A)"
proof -
  have "bits_of (to_little 8 (uint w)) = map (bit w) [0..<64]" for w :: "64 word"
    by (simp add: bits_of_little bit_uint_iff del: upt_rec_numeral)
  moreover have "lane_list A ! i = uint (A i 0)" if "i < 5" for i
    using nth_lane_list[OF that, of 0 A] by simp
  ultimately show ?thesis unfolding squeeze_first state_bits_first by (simp del: upt_rec_numeral to_little.simps)
qed

lemma keccak256_fips: "bits_of (keccak256 data) = fips_keccak256 (bits_of data)"
proof -
  have zero: "replicate 25 0 = lane_list (\<lambda>_ _. 0)" by (rule lane_list_eqI) simp_all
  have len: "length (bits_of (pad_keccak data)) div fips_rate = length (pad_keccak data) div RATE"
    by (simp add: fips_rate_def RATE_def)
  show ?thesis
    unfolding keccak256_def blocks_def zero fips_keccak256_def Let_def bits_of_pad[symmetric] len
    by (subst absorb_all) (simp_all add: length_block bits_of_squeezed del: length_take)
qed

lemma length_keccak256 [simp]: "length (keccak256 data) = 32"
  by (simp add: keccak256_def squeeze_first)

section \<open>Property\<close>

text \<open>
  C10: The Keccak-256 written out in the checker is the sponge of FIPS 202 over KECCAK-f[1600] with
  capacity 512, 256 bits of output and the original \<open>pad10*1\<close> padding, for every message: the
  tables, the in-place permutation on masked integers, the byte-wise padding with its one-byte
  case, and the little-endian lanes.
\<close>

theorem keccak256_equals_fips202:
  "bits_of (keccak256 data) = fips_keccak256 (bits_of data) \<and> length (keccak256 data) = 32"
  by (simp add: keccak256_fips)

end
