(* ===== verification/Drop_Fixtures.thy ===== *)
theory Drop_Fixtures
  imports Keccak Py_Values
begin

text \<open>
  The checker of drop authorization fixtures, \<open>tools/protocol/check_drop_authorization_fixtures.py\<close>:
  its field checks, the static ABI encoding and the EIP-712 hashes it computes with its own
  Keccak-256, and the validation of a fixture. A document is the value \<open>json.loads\<close> gives for
  the file; a floating-point number in it, which every check treats as it treats null, has no
  counterpart.
\<close>

section \<open>Digits beyond ASCII\<close>

text \<open>
  \<open>str.isdigit\<close> accepts the characters with the Unicode property Digit, \<open>int\<close> converts those
  with the property Decimal: \<open>decimal_point\<close> gives the value of the latter and \<open>digit_point\<close>
  tells the former. The tables are those of the interpreter's Unicode version.
\<close>

record unicode =
  digit_point :: "nat \<Rightarrow> bool"
  decimal_point :: "nat \<Rightarrow> nat option"

definition wf_unicode :: "unicode \<Rightarrow> bool" where
  "wf_unicode U \<longleftrightarrow>
     (\<forall>n v. decimal_point U n = Some v \<longrightarrow> digit_point U n \<and> v < 10) \<and>
     (\<forall>n < 128. decimal_point U n = (if 48 \<le> n \<and> n \<le> 57 then Some (n - 48) else None) \<and>
        digit_point U n = (48 \<le> n \<and> n \<le> 57))"

definition is_digit_str :: "unicode \<Rightarrow> string \<Rightarrow> bool" where
  "is_digit_str U s \<longleftrightarrow> s \<noteq> [] \<and> list_all (digit_point U) (utf8_points s)"

definition MAX_STR_DIGITS :: nat where
  "MAX_STR_DIGITS = 4300"

text \<open>\<open>int(s)\<close> of a string of digits, with the interpreter's limit on its length.\<close>

definition int_of_digits :: "unicode \<Rightarrow> string \<Rightarrow> int res" where
  "int_of_digits U s =
     (let values = map (decimal_point U) (utf8_points s);
          leading = length (takeWhile (\<lambda>v. v \<noteq> None) values) in
      if MAX_STR_DIGITS < leading
      then Inl (ValueError (''Exceeds the limit (4300 digits) for integer string conversion: value has '' @
        dec leading @ '' digits; use sys.set_int_max_str_digits() to increase the limit''))
      else if None \<in> set values
      then Inl (ValueError (''invalid literal for int() with base 10: '' @ py_repr s))
      else Inr (foldl (\<lambda>n v. 10 * n + int (the v)) 0 values))"

section \<open>Field checks\<close>

definition fx_fail :: "string \<Rightarrow> 'a res" where
  "fx_fail m = Inl (DropAuthorizationFixtureError m)"

definition fx_check :: "bool \<Rightarrow> string \<Rightarrow> unit res" where
  "fx_check bad m = (if bad then fx_fail m else Inr ())"

definition fx_require_dict :: "json \<Rightarrow> string \<Rightarrow> dict res" where
  "fx_require_dict v path = (case v of JDict d \<Rightarrow> Inr d | _ \<Rightarrow> fx_fail (path @ '' must be an object''))"

definition fx_require_list :: "json \<Rightarrow> string \<Rightarrow> json list res" where
  "fx_require_list v path = (case v of JList vs \<Rightarrow> Inr vs | _ \<Rightarrow> fx_fail (path @ '' must be an array''))"

definition fx_require_string :: "json \<Rightarrow> string \<Rightarrow> string res" where
  "fx_require_string v path =
     (case v of JStr s \<Rightarrow> if s = [] then fx_fail (path @ '' must be a non-empty string'') else Inr s
      | _ \<Rightarrow> fx_fail (path @ '' must be a non-empty string''))"

definition fx_require_bool :: "json \<Rightarrow> string \<Rightarrow> bool res" where
  "fx_require_bool v path = (case v of JBool b \<Rightarrow> Inr b | _ \<Rightarrow> fx_fail (path @ '' must be a boolean''))"

definition UINT_MAX :: int where
  "UINT_MAX = 2 ^ 256 - 1"

definition fx_require_uint :: "unicode \<Rightarrow> json \<Rightarrow> string \<Rightarrow> int \<Rightarrow> int res" where
  "fx_require_uint U v path max_value =
     (case v of JBool b \<Rightarrow> fx_fail (path @ '' must be an unsigned integer'')
      | _ \<Rightarrow>
        rbind (case v of JInt i \<Rightarrow> Inr i
               | JStr s \<Rightarrow> if is_digit_str U s then int_of_digits U s
                   else fx_fail (path @ '' must be an unsigned integer or decimal string'')
               | _ \<Rightarrow> fx_fail (path @ '' must be an unsigned integer or decimal string'')) (\<lambda>parsed.
        if parsed < 0 \<or> max_value < parsed then fx_fail (path @ '' is outside the uint range'')
        else Inr parsed))"

definition fx_HEX_RE :: "string \<Rightarrow> bool" where
  "fx_HEX_RE s \<longleftrightarrow> take 2 s = ''0x'' \<and> drop 2 s \<noteq> [] \<and> list_all is_hex (drop 2 s)"

definition BYTES32_RE :: "string \<Rightarrow> bool" where
  "BYTES32_RE s \<longleftrightarrow> take 2 s = ''0x'' \<and> length s = 66 \<and> list_all is_hex (drop 2 s)"

definition fx_require_hex :: "json \<Rightarrow> string \<Rightarrow> nat option \<Rightarrow> string res" where
  "fx_require_hex v path length_bytes =
     rbind (fx_require_string v path) (\<lambda>raw.
     if \<not> fx_HEX_RE raw then fx_fail (path @ '' must be 0x-prefixed hex'')
     else case length_bytes of None \<Rightarrow> Inr (lower raw)
       | Some n \<Rightarrow> if length raw \<noteq> 2 + n * 2 then fx_fail (path @ '' must be '' @ dec n @ '' bytes of hex'')
           else Inr (lower raw))"

definition fx_require_address :: "json \<Rightarrow> string \<Rightarrow> string res" where
  "fx_require_address v path =
     rbind (fx_require_string v path) (\<lambda>raw.
     if \<not> ADDRESS_RE raw then fx_fail (path @ '' must be an Ethereum address'') else Inr (lower raw))"

definition fx_require_bytes32 :: "json \<Rightarrow> string \<Rightarrow> string res" where
  "fx_require_bytes32 v path =
     rbind (fx_require_string v path) (\<lambda>raw.
     if \<not> BYTES32_RE raw then fx_fail (path @ '' must be bytes32 hex'') else Inr (lower raw))"

text \<open>\<open>v.lower()\<close>.\<close>

definition lower_of :: "json \<Rightarrow> string res" where
  "lower_of v =
     (case v of JStr s \<Rightarrow> Inr (lower s)
      | _ \<Rightarrow> Inl (AttributeError (py_repr (type_name v) @ '' object has no attribute '' @ py_repr ''lower'')))"

section \<open>Static ABI encoding\<close>

definition encode_uint :: "int \<Rightarrow> byte list" where
  "encode_uint v = to_bytes 32 (nat v)"

definition encode_address :: "string \<Rightarrow> byte list res" where
  "encode_address v = rbind (bytes_fromhex (drop 2 v)) (\<lambda>bs. Inr (replicate 12 0 @ bs))"

definition encode_bytes32 :: "string \<Rightarrow> byte list res" where
  "encode_bytes32 v = bytes_fromhex (drop 2 v)"

definition encode_static :: "unicode \<Rightarrow> string \<times> json \<Rightarrow> byte list res" where
  "encode_static U field =
     (case field of (solidity_type, v) \<Rightarrow>
        if solidity_type = ''uint256'' \<or> solidity_type = ''uint8'' then
          rbind (fx_require_uint U v solidity_type (if solidity_type = ''uint8'' then 2 ^ 8 - 1 else 2 ^ 256 - 1))
            (\<lambda>i. Inr (encode_uint i))
        else if solidity_type = ''address'' then rbind (fx_require_address v solidity_type) encode_address
        else if solidity_type = ''bytes32'' then rbind (fx_require_bytes32 v solidity_type) encode_bytes32
        else fx_fail (''unsupported ABI fixture field type: '' @ solidity_type))"

fun abi_encode_static :: "unicode \<Rightarrow> (string \<times> json) list \<Rightarrow> byte list res" where
  "abi_encode_static U [] = Inr []"
| "abi_encode_static U (field # fs) =
     rbind (encode_static U field) (\<lambda>bs. rbind (abi_encode_static U fs) (\<lambda>rest. Inr (bs @ rest)))"

section \<open>Hashes of typed data\<close>

definition EIP712_NAME :: string where
  "EIP712_NAME = ''6529StreamDrops''"

definition EIP712_VERSION :: string where
  "EIP712_VERSION = ''1''"

definition EIP712_DOMAIN_TYPE :: string where
  "EIP712_DOMAIN_TYPE = ''EIP712Domain(string name,string version,uint256 chainId,address verifyingContract)''"

definition DROP_ID_TYPE :: string where
  "DROP_ID_TYPE = ''DropId(address signer,uint256 signerEpoch,uint256 nonce,uint256 salt)''"

definition DROP_AUTHORIZATION_TYPE :: string where
  "DROP_AUTHORIZATION_TYPE =
     ''DropAuthorization(bytes32 dropId,address poster,address recipient,address payer,'' @
     ''uint256 collectionId,uint8 saleMode,bytes32 tokenDataHash,uint256 price,'' @
     ''uint256 quantity,uint256 auctionReservePrice,uint256 auctionEndTime,uint256 salt,'' @
     ''uint256 nonce,uint256 deadline,uint256 signerEpoch)''"

text \<open>The fields of a type: name and type, in order.\<close>

definition EIP712_DOMAIN_FIELDS :: "(string \<times> string) list" where
  "EIP712_DOMAIN_FIELDS =
     [(''name'', ''string''), (''version'', ''string''), (''chainId'', ''uint256''),
      (''verifyingContract'', ''address'')]"

definition DROP_AUTHORIZATION_FIELDS :: "(string \<times> string) list" where
  "DROP_AUTHORIZATION_FIELDS =
     [(''dropId'', ''bytes32''), (''poster'', ''address''), (''recipient'', ''address''), (''payer'', ''address''),
      (''collectionId'', ''uint256''), (''saleMode'', ''uint8''), (''tokenDataHash'', ''bytes32''),
      (''price'', ''uint256''), (''quantity'', ''uint256''), (''auctionReservePrice'', ''uint256''),
      (''auctionEndTime'', ''uint256''), (''salt'', ''uint256''), (''nonce'', ''uint256''),
      (''deadline'', ''uint256''), (''signerEpoch'', ''uint256'')]"

definition fields_json :: "(string \<times> string) list \<Rightarrow> json" where
  "fields_json fs = JList (map (\<lambda>(n, t). JDict [(''name'', JStr n), (''type'', JStr t)]) fs)"

definition keccak_text :: "string \<Rightarrow> string" where
  "keccak_text s = keccak_hex (str_bytes s)"

definition drop_id_fields :: "string \<Rightarrow> json \<Rightarrow> json \<Rightarrow> json \<Rightarrow> (string \<times> json) list" where
  "drop_id_fields signer epoch nonce salt =
     [(''bytes32'', JStr (keccak_text DROP_ID_TYPE)), (''address'', JStr signer), (''uint256'', epoch),
      (''uint256'', nonce), (''uint256'', salt)]"

record derived =
  dv_drop_id :: string
  dv_token_data_hash :: string
  dv_domain_separator :: string
  dv_struct_hash :: string
  dv_digest :: string

definition compute_drop_id :: "unicode \<Rightarrow> string \<Rightarrow> dict \<Rightarrow> string res" where
  "compute_drop_id U signer message =
     rbind (abi_encode_static U (drop_id_fields signer (dget message ''signerEpoch'') (dget message ''nonce'')
       (dget message ''salt''))) (\<lambda>bs. Inr (keccak_hex bs))"

definition compute_domain_separator :: "unicode \<Rightarrow> dict \<Rightarrow> string res" where
  "compute_domain_separator U domain =
     rbind (fx_require_string (dget domain ''name'') ''domain.name'') (\<lambda>name.
     rbind (fx_require_string (dget domain ''version'') ''domain.version'') (\<lambda>version.
     rbind (abi_encode_static U
       [(''bytes32'', JStr (keccak_text EIP712_DOMAIN_TYPE)), (''bytes32'', JStr (keccak_text name)),
        (''bytes32'', JStr (keccak_text version)), (''uint256'', dget domain ''chainId''),
        (''address'', dget domain ''verifyingContract'')]) (\<lambda>bs. Inr (keccak_hex bs))))"

definition compute_struct_hash :: "unicode \<Rightarrow> dict \<Rightarrow> string res" where
  "compute_struct_hash U message =
     rbind (abi_encode_static U
       ((''bytes32'', JStr (keccak_text DROP_AUTHORIZATION_TYPE)) #
        map (\<lambda>(n, t). (t, dget message n)) DROP_AUTHORIZATION_FIELDS)) (\<lambda>bs. Inr (keccak_hex bs))"

definition compute_digest :: "string \<Rightarrow> string \<Rightarrow> string res" where
  "compute_digest domain_separator struct_hash =
     rbind (bytes_fromhex (drop 2 domain_separator)) (\<lambda>d.
     rbind (bytes_fromhex (drop 2 struct_hash)) (\<lambda>s. Inr (keccak_hex ([0x19, 0x01] @ d @ s))))"

definition compute_derived :: "unicode \<Rightarrow> dict \<Rightarrow> string \<Rightarrow> json \<Rightarrow> derived res" where
  "compute_derived U typed_data token_data signer =
     rbind (fx_require_dict (dget typed_data ''domain'') ''typed_data.domain'') (\<lambda>domain.
     rbind (fx_require_dict (dget typed_data ''message'') ''typed_data.message'') (\<lambda>message.
     rbind (fx_require_address signer ''expected.signer'') (\<lambda>normalized_signer.
     let token_data_hash = keccak_text token_data in
     rbind (compute_drop_id U normalized_signer message) (\<lambda>drop_id.
     rbind (compute_domain_separator U domain) (\<lambda>domain_separator.
     rbind (compute_struct_hash U message) (\<lambda>struct_hash.
     rbind (compute_digest domain_separator struct_hash) (\<lambda>digest.
     Inr \<lparr>dv_drop_id = drop_id, dv_token_data_hash = token_data_hash, dv_domain_separator = domain_separator,
       dv_struct_hash = struct_hash, dv_digest = digest\<rparr>)))))))"

section \<open>Validation of a fixture\<close>

definition SCHEMA_VERSION :: string where
  "SCHEMA_VERSION = ''6529stream.drop-authorization-fixture.v1''"

definition ZERO_ADDRESS :: string where
  "ZERO_ADDRESS = ''0x0000000000000000000000000000000000000000''"

definition validate_types :: "dict \<Rightarrow> string \<Rightarrow> unit res" where
  "validate_types typed_data fixture_id =
     rbind (fx_require_dict (dget typed_data ''types'') (fixture_id @ ''.typed_data.types'')) (\<lambda>types.
     rbind (fx_check (\<not> py_eq (dget types ''EIP712Domain'') (fields_json EIP712_DOMAIN_FIELDS))
       (fixture_id @ '' has an unexpected EIP712Domain field order'')) (\<lambda>_.
     rbind (fx_check (\<not> py_eq (dget types ''DropAuthorization'') (fields_json DROP_AUTHORIZATION_FIELDS))
       (fixture_id @ '' has an unexpected DropAuthorization field order'')) (\<lambda>_.
     fx_check (dget typed_data ''primaryType'' \<noteq> JStr ''DropAuthorization'')
       (fixture_id @ ''.typed_data.primaryType must be DropAuthorization''))))"

definition validate_domain :: "unicode \<Rightarrow> dict \<Rightarrow> string \<Rightarrow> unit res" where
  "validate_domain U typed_data fixture_id =
     rbind (fx_require_dict (dget typed_data ''domain'') (fixture_id @ ''.typed_data.domain'')) (\<lambda>domain.
     rbind (fx_check (set (dkeys domain) \<noteq> set (map fst EIP712_DOMAIN_FIELDS))
       (fixture_id @ ''.typed_data.domain must contain exactly name, version, chainId, verifyingContract'')) (\<lambda>_.
     rbind (dsub domain ''name'') (\<lambda>name.
     rbind (fx_check (name \<noteq> JStr EIP712_NAME) (fixture_id @ ''.domain.name mismatch'')) (\<lambda>_.
     rbind (dsub domain ''version'') (\<lambda>version.
     rbind (fx_check (version \<noteq> JStr EIP712_VERSION) (fixture_id @ ''.domain.version mismatch'')) (\<lambda>_.
     rbind (dsub domain ''chainId'') (\<lambda>chain.
     rbind (fx_require_uint U chain (fixture_id @ ''.domain.chainId'') UINT_MAX) (\<lambda>_.
     rbind (dsub domain ''verifyingContract'') (\<lambda>verifying.
     rbind (fx_require_address verifying (fixture_id @ ''.domain.verifyingContract'')) (\<lambda>_. Inr ()))))))))))"

definition check_field :: "unicode \<Rightarrow> string \<Rightarrow> string \<Rightarrow> json \<Rightarrow> unit res" where
  "check_field U field_path field_type v =
     (if field_type = ''address'' then rbind (fx_require_address v field_path) (\<lambda>_. Inr ())
      else if field_type = ''bytes32'' then rbind (fx_require_bytes32 v field_path) (\<lambda>_. Inr ())
      else if field_type = ''uint8'' then rbind (fx_require_uint U v field_path (2 ^ 8 - 1)) (\<lambda>_. Inr ())
      else rbind (fx_require_uint U v field_path UINT_MAX) (\<lambda>_. Inr ()))"

fun check_fields :: "unicode \<Rightarrow> string \<Rightarrow> dict \<Rightarrow> (string \<times> string) list \<Rightarrow> unit res" where
  "check_fields U fixture_id message [] = Inr ()"
| "check_fields U fixture_id message ((name, field_type) # fs) =
     rbind (dsub message name) (\<lambda>v.
     rbind (check_field U (fixture_id @ ''.typed_data.message.'' @ name) field_type v) (\<lambda>_.
     check_fields U fixture_id message fs))"

text \<open>\<open>message[name].lower()\<close> and \<open>require_uint(message[name], path)\<close>.\<close>

definition lower_at :: "dict \<Rightarrow> string \<Rightarrow> string res" where
  "lower_at message name = rbind (dsub message name) lower_of"

definition uint_at :: "unicode \<Rightarrow> dict \<Rightarrow> string \<Rightarrow> string \<Rightarrow> int res" where
  "uint_at U message name path = rbind (dsub message name) (\<lambda>v. fx_require_uint U v path UINT_MAX)"

definition check_fixed_price :: "unicode \<Rightarrow> string \<Rightarrow> dict \<Rightarrow> unit res" where
  "check_fixed_price U fixture_id message =
     rbind (lower_at message ''recipient'') (\<lambda>recipient.
     rbind (fx_check (recipient = ZERO_ADDRESS) (fixture_id @ ''.recipient must be non-zero for fixed price'')) (\<lambda>_.
     rbind (uint_at U message ''auctionReservePrice'' (fixture_id @ ''.auctionReservePrice'')) (\<lambda>reserve.
     rbind (fx_check (reserve \<noteq> 0) (fixture_id @ ''.auctionReservePrice must be zero for fixed price'')) (\<lambda>_.
     rbind (uint_at U message ''auctionEndTime'' (fixture_id @ ''.auctionEndTime'')) (\<lambda>end_time.
     fx_check (end_time \<noteq> 0) (fixture_id @ ''.auctionEndTime must be zero for fixed price''))))))"

definition check_auction :: "unicode \<Rightarrow> string \<Rightarrow> dict \<Rightarrow> unit res" where
  "check_auction U fixture_id message =
     rbind (lower_at message ''recipient'') (\<lambda>recipient.
     rbind (fx_check (recipient \<noteq> ZERO_ADDRESS) (fixture_id @ ''.recipient must be zero for auction'')) (\<lambda>_.
     rbind (lower_at message ''payer'') (\<lambda>payer.
     rbind (fx_check (payer \<noteq> ZERO_ADDRESS) (fixture_id @ ''.payer must be zero for auction'')) (\<lambda>_.
     rbind (uint_at U message ''price'' (fixture_id @ ''.price'')) (\<lambda>price.
     rbind (fx_check (price \<noteq> 0) (fixture_id @ ''.price must be zero for auction'')) (\<lambda>_.
     rbind (uint_at U message ''auctionEndTime'' (fixture_id @ ''.auctionEndTime'')) (\<lambda>end_time.
     fx_check (end_time = 0) (fixture_id @ ''.auctionEndTime must be non-zero for auction''))))))))"

definition check_terms :: "unicode \<Rightarrow> string \<Rightarrow> string \<Rightarrow> dict \<Rightarrow> unit res" where
  "check_terms U token_data fixture_id message =
     rbind (uint_at U message ''quantity'' (fixture_id @ ''.quantity'')) (\<lambda>quantity.
     rbind (fx_check (quantity \<noteq> 1) (fixture_id @ ''.quantity must be 1'')) (\<lambda>_.
     rbind (lower_at message ''tokenDataHash'') (\<lambda>token_hash.
     rbind (fx_check (token_hash \<noteq> keccak_text token_data) (fixture_id @ ''.tokenDataHash mismatch'')) (\<lambda>_.
     rbind (dsub message ''saleMode'') (\<lambda>mode.
     rbind (fx_require_uint U mode (fixture_id @ ''.saleMode'') (2 ^ 8 - 1)) (\<lambda>sale_mode.
     rbind (lower_at message ''poster'') (\<lambda>poster.
     rbind (fx_check (poster = ZERO_ADDRESS) (fixture_id @ ''.poster must be non-zero'')) (\<lambda>_.
     if sale_mode = 1 then check_fixed_price U fixture_id message
     else if sale_mode = 2 then check_auction U fixture_id message
     else fx_fail (fixture_id @ ''.saleMode must be 1 or 2'')))))))))"

definition validate_message :: "unicode \<Rightarrow> dict \<Rightarrow> string \<Rightarrow> string \<Rightarrow> unit res" where
  "validate_message U typed_data token_data fixture_id =
     rbind (fx_require_dict (dget typed_data ''message'') (fixture_id @ ''.typed_data.message'')) (\<lambda>message.
     rbind (fx_check (set (dkeys message) \<noteq> set (map fst DROP_AUTHORIZATION_FIELDS))
       (fixture_id @ ''.typed_data.message has missing or unexpected fields'')) (\<lambda>_.
     rbind (check_fields U fixture_id message DROP_AUTHORIZATION_FIELDS) (\<lambda>_.
     check_terms U token_data fixture_id message)))"

text \<open>
  \<open>SECRET_KEY_RE.search\<close>: the pattern ignores case, which in Python includes the characters
  beyond ASCII that fold to an ASCII letter (dotted and dotless I, long S, the Kelvin sign).
\<close>

definition fold_point :: "nat \<Rightarrow> nat" where
  "fold_point n =
     (if 65 \<le> n \<and> n \<le> 90 then n + 32 else if n = 0x130 \<or> n = 0x131 then 0x69
      else if n = 0x212A then 0x6B else if n = 0x17F then 0x73 else n)"

definition points_of :: "string \<Rightarrow> nat list" where
  "points_of s = map of_char s"

definition two_words :: "string \<Rightarrow> string \<Rightarrow> nat list \<Rightarrow> bool" where
  "two_words first second s \<longleftrightarrow>
     prefix (points_of first) s \<and>
     (let r = drop (length first) s in
      prefix (points_of second) r \<or> (r \<noteq> [] \<and> hd r \<in> set (points_of ''_ -'') \<and> prefix (points_of second) (tl r)))"

definition secret_at :: "nat list \<Rightarrow> bool" where
  "secret_at s \<longleftrightarrow>
     two_words ''private'' ''key'' s \<or> prefix (points_of ''mnemonic'') s \<or>
     two_words ''seed'' ''phrase'' s \<or> two_words ''secret'' ''key'' s"

definition SECRET_KEY_RE :: "string \<Rightarrow> bool" where
  "SECRET_KEY_RE s \<longleftrightarrow> list_ex secret_at (suffixes (map fold_point (utf8_points s)))"

definition policy_path :: "string \<Rightarrow> bool" where
  "policy_path path \<longleftrightarrow> contains ''no_secret_policy'' path"

definition item_path :: "string \<Rightarrow> nat \<Rightarrow> string" where
  "item_path path i = path @ ''['' @ dec i @ '']''"

fun secret_walk :: "string \<Rightarrow> json \<Rightarrow> string \<Rightarrow> unit res"
  and secret_walk_members :: "string \<Rightarrow> dict \<Rightarrow> string \<Rightarrow> unit res"
  and secret_walk_items :: "string \<Rightarrow> nat \<Rightarrow> json list \<Rightarrow> string \<Rightarrow> unit res" where
  "secret_walk fid (JDict d) path = secret_walk_members fid d path"
| "secret_walk fid (JList vs) path = secret_walk_items fid 0 vs path"
| "secret_walk fid (JStr s) path =
     (if SECRET_KEY_RE s
      then if suffix ''.description'' path \<or> policy_path path then Inr ()
        else fx_fail (fid @ '' contains secret-like text at '' @ path)
      else Inr ())"
| "secret_walk fid JNull path = Inr ()"
| "secret_walk fid (JBool b) path = Inr ()"
| "secret_walk fid (JInt i) path = Inr ()"
| "secret_walk_members fid [] path = Inr ()"
| "secret_walk_members fid ((key, nested) # d) path =
     (if SECRET_KEY_RE key \<and> \<not> policy_path path
      then fx_fail (fid @ '' uses secret-like key name at '' @ path @ ''.'' @ key)
      else rbind (secret_walk fid nested (path @ ''.'' @ key)) (\<lambda>_. secret_walk_members fid d path))"
| "secret_walk_items fid i [] path = Inr ()"
| "secret_walk_items fid i (nested # vs) path =
     rbind (secret_walk fid nested (item_path path i)) (\<lambda>_. secret_walk_items fid (Suc i) vs path)"

definition validate_no_secret_policy :: "dict \<Rightarrow> string \<Rightarrow> unit res" where
  "validate_no_secret_policy fixture fixture_id =
     rbind (fx_require_dict (dget fixture ''no_secret_policy'') (fixture_id @ ''.no_secret_policy'')) (\<lambda>policy.
     rbind (fx_require_bool (dget policy ''key_material_included'') (fixture_id @ ''.key_material_included'')) (\<lambda>b.
     rbind (fx_check b (fixture_id @ '' includes key material'')) (\<lambda>_.
     rbind (fx_require_bool (dget policy ''mnemonic_included'') (fixture_id @ ''.mnemonic_included'')) (\<lambda>b.
     rbind (fx_check b (fixture_id @ '' includes a mnemonic'')) (\<lambda>_.
     rbind (fx_require_bool (dget policy ''production_payload'') (fixture_id @ ''.production_payload'')) (\<lambda>b.
     rbind (fx_check b (fixture_id @ '' claims production payload status'')) (\<lambda>_.
     secret_walk fixture_id (JDict fixture) fixture_id)))))))"

definition check_derived :: "dict \<Rightarrow> string \<Rightarrow> string \<Rightarrow> string \<Rightarrow> unit res" where
  "check_derived expected fixture_id key v =
     rbind (fx_require_bytes32 (dget expected key) (fixture_id @ ''.expected.'' @ key)) (\<lambda>actual.
     fx_check (actual \<noteq> v) (fixture_id @ ''.expected.'' @ key @ '' mismatch: expected '' @ v @ '', got '' @ actual))"

definition check_all_derived :: "dict \<Rightarrow> string \<Rightarrow> derived \<Rightarrow> unit res" where
  "check_all_derived expected fixture_id dv =
     rbind (check_derived expected fixture_id ''drop_id'' (dv_drop_id dv)) (\<lambda>_.
     rbind (check_derived expected fixture_id ''token_data_hash'' (dv_token_data_hash dv)) (\<lambda>_.
     rbind (check_derived expected fixture_id ''domain_separator'' (dv_domain_separator dv)) (\<lambda>_.
     rbind (check_derived expected fixture_id ''struct_hash'' (dv_struct_hash dv)) (\<lambda>_.
     check_derived expected fixture_id ''digest'' (dv_digest dv)))))"

definition check_signature :: "dict \<Rightarrow> string \<Rightarrow> unit res" where
  "check_signature expected fixture_id =
     rbind (fx_require_string (dget expected ''signature_kind'') (fixture_id @ ''.signature_kind'')) (\<lambda>kind.
     rbind (fx_require_hex (dget expected ''signature'') (fixture_id @ ''.expected.signature'') None) (\<lambda>signature.
     if kind = ''eoa_65_byte''
     then fx_check (length signature \<noteq> 132) (fixture_id @ ''.expected.signature must be a 65-byte EOA signature'')
     else if kind = ''erc1271_mock_bytes'' then
       rbind (fx_check (fixture_id \<noteq> ''erc1271-contract-signer'')
         ''only erc1271-contract-signer may use erc1271_mock_bytes'') (\<lambda>_.
       rbind (fx_require_string (dget expected ''erc1271_magic_value'')
         (fixture_id @ ''.expected.erc1271_magic_value'')) (\<lambda>magic.
       fx_check (lower magic \<noteq> ''0x1626ba7e'') (fixture_id @ ''.ERC1271 magic mismatch'')))
     else fx_fail (fixture_id @ ''.signature_kind is unsupported'')))"

definition check_call :: "unicode \<Rightarrow> dict \<Rightarrow> dict \<Rightarrow> string \<Rightarrow> unit res" where
  "check_call U expected message fixture_id =
     rbind (fx_require_dict (dget expected ''call'') (fixture_id @ ''.expected.call'')) (\<lambda>call.
     rbind (fx_check (dget call ''function'' \<noteq> JStr ''mintDrop(DropAuthorization,string,bytes)'')
       (fixture_id @ ''.expected.call.function mismatch'')) (\<lambda>_.
     rbind (fx_require_uint U (dget call ''msg_value_wei'') (fixture_id @ ''.expected.call.msg_value_wei'') UINT_MAX)
       (\<lambda>msg_value.
     rbind (uint_at U message ''price'' (fixture_id @ ''.message.price'')) (\<lambda>price.
     rbind (uint_at U message ''saleMode'' (fixture_id @ ''.message.saleMode'')) (\<lambda>sale_mode.
     rbind (fx_check (sale_mode = 1 \<and> msg_value \<noteq> price)
       (fixture_id @ ''.expected.call.msg_value_wei must equal fixed price'')) (\<lambda>_.
     fx_check (sale_mode = 2 \<and> msg_value \<noteq> 0)
       (fixture_id @ ''.expected.call.msg_value_wei must be zero for auction'')))))))"

definition validate_expected :: "unicode \<Rightarrow> dict \<Rightarrow> dict \<Rightarrow> string \<Rightarrow> string \<Rightarrow> unit res" where
  "validate_expected U fixture typed_data token_data fixture_id =
     rbind (fx_require_dict (dget fixture ''expected'') (fixture_id @ ''.expected'')) (\<lambda>expected.
     rbind (fx_require_address (dget expected ''signer'') (fixture_id @ ''.expected.signer'')) (\<lambda>signer.
     rbind (compute_derived U typed_data token_data (JStr signer)) (\<lambda>dv.
     rbind (check_all_derived expected fixture_id dv) (\<lambda>_.
     rbind (fx_require_dict (dget typed_data ''message'') (fixture_id @ ''.typed_data.message'')) (\<lambda>message.
     rbind (lower_at message ''dropId'') (\<lambda>drop_id.
     rbind (lower_at expected ''drop_id'') (\<lambda>expected_id.
     rbind (fx_check (drop_id \<noteq> expected_id) (fixture_id @ ''.message.dropId mismatch'')) (\<lambda>_.
     rbind (lower_at message ''tokenDataHash'') (\<lambda>token_hash.
     rbind (lower_at expected ''token_data_hash'') (\<lambda>expected_hash.
     rbind (fx_check (token_hash \<noteq> expected_hash) (fixture_id @ ''.message.tokenDataHash mismatch'')) (\<lambda>_.
     rbind (check_signature expected fixture_id) (\<lambda>_.
     check_call U expected message fixture_id))))))))))))"

fun failure_case_ids :: "string \<Rightarrow> nat \<Rightarrow> string list \<Rightarrow> json list \<Rightarrow> string list res" where
  "failure_case_ids fixture_id i found [] = Inr found"
| "failure_case_ids fixture_id i found (c # cs) =
     (let path = fixture_id @ ''.failure_cases['' @ dec i @ '']'' in
      rbind (fx_require_dict c path) (\<lambda>item.
      rbind (fx_require_string (dget item ''id'') (path @ ''.id'')) (\<lambda>case_id.
      rbind (fx_require_string (dget item ''expected_revert'') (path @ ''.expected_revert'')) (\<lambda>_.
      rbind (fx_require_string (dget item ''notes'') (path @ ''.notes'')) (\<lambda>_.
      failure_case_ids fixture_id (Suc i) (List.insert case_id found) cs)))))"

definition validate_failure_cases :: "dict \<Rightarrow> string \<Rightarrow> string list res" where
  "validate_failure_cases fixture fixture_id =
     rbind (fx_require_list (dget fixture ''failure_cases'') (fixture_id @ ''.failure_cases'')) (\<lambda>cases.
     failure_case_ids fixture_id 0 [] cases)"

text \<open>\<open>validate_fixture\<close> from the decoded document on; \<open>stem\<close> is the file name without suffix.\<close>

definition validate_fixture :: "unicode \<Rightarrow> string \<Rightarrow> string \<Rightarrow> json \<Rightarrow> (string \<times> string list) res" where
  "validate_fixture U path stem data =
     rbind (fx_require_dict data path) (\<lambda>fixture.
     rbind (fx_require_string (dget fixture ''fixture_id'') (path @ ''.fixture_id'')) (\<lambda>fixture_id.
     rbind (fx_check (dget fixture ''schema_version'' \<noteq> JStr SCHEMA_VERSION)
       (fixture_id @ ''.schema_version mismatch'')) (\<lambda>_.
     rbind (fx_check (stem \<noteq> fixture_id) (path @ '' filename must match fixture_id'')) (\<lambda>_.
     rbind (fx_require_string (dget fixture ''description'') (fixture_id @ ''.description'')) (\<lambda>_.
     rbind (fx_require_dict (dget fixture ''source'') (fixture_id @ ''.source'')) (\<lambda>source.
     rbind (fx_check (dget source ''contract'' \<noteq> JStr ''smart-contracts/domains/mint/legacy/StreamDrops.sol'')
       (fixture_id @ ''.source.contract mismatch'')) (\<lambda>_.
     rbind (fx_require_list (dget source ''tests'') (fixture_id @ ''.source.tests'')) (\<lambda>_.
     rbind (validate_no_secret_policy fixture fixture_id) (\<lambda>_.
     rbind (fx_require_dict (dget fixture ''typed_data'') (fixture_id @ ''.typed_data'')) (\<lambda>typed_data.
     rbind (validate_types typed_data fixture_id) (\<lambda>_.
     rbind (validate_domain U typed_data fixture_id) (\<lambda>_.
     rbind (fx_require_string (dget fixture ''token_data'') (fixture_id @ ''.token_data'')) (\<lambda>token_data.
     rbind (validate_message U typed_data token_data fixture_id) (\<lambda>_.
     rbind (validate_expected U fixture typed_data token_data fixture_id) (\<lambda>_.
     rbind (validate_failure_cases fixture fixture_id) (\<lambda>cases.
     Inr (fixture_id, cases)))))))))))))))))"

definition REQUIRED_FIXTURE_IDS :: "string list" where
  "REQUIRED_FIXTURE_IDS = [''fixed-price-eoa'', ''auction-eoa'', ''erc1271-contract-signer'']"

definition REQUIRED_FAILURE_CASE_IDS :: "string list" where
  "REQUIRED_FAILURE_CASE_IDS =
     [''wrong_signer'', ''wrong_domain'', ''expired'', ''replayed_or_consumed'', ''cancelled_drop'',
      ''stale_signer_epoch'', ''bad_drop_id'', ''token_data_substitution'', ''zero_address'']"

text \<open>The fixtures part of \<open>validate_all\<close>, over path, stem and document of each file in order.\<close>

fun validate_each :: "unicode \<Rightarrow> string list \<Rightarrow> string list \<Rightarrow> (string \<times> string \<times> json) list \<Rightarrow>
    (string list \<times> string list) res" where
  "validate_each U ids cases [] = Inr (ids, cases)"
| "validate_each U ids cases ((path, stem, data) # fs) =
     rbind (validate_fixture U path stem data) (\<lambda>(fixture_id, found).
     validate_each U (List.insert fixture_id ids) (List.union cases found) fs)"

definition validate_fixtures :: "unicode \<Rightarrow> (string \<times> string \<times> json) list \<Rightarrow> unit res" where
  "validate_fixtures U fs =
     rbind (validate_each U [] [] fs) (\<lambda>(fixture_ids, failure_cases).
     let missing_fixtures = filter (\<lambda>i. i \<notin> set fixture_ids) REQUIRED_FIXTURE_IDS;
         missing_cases = filter (\<lambda>i. i \<notin> set failure_cases) REQUIRED_FAILURE_CASE_IDS in
     rbind (fx_check (missing_fixtures \<noteq> [])
       (''missing required drop authorization fixtures: '' @ join '', '' (sort missing_fixtures))) (\<lambda>_.
     fx_check (missing_cases \<noteq> [])
       (''missing required failure case coverage: '' @ join '', '' (sort missing_cases))))"

section \<open>What the checks accept\<close>

lemma fx_check_iff [res_simps]: "fx_check b m = Inr u \<longleftrightarrow> \<not> b"
  by (simp add: fx_check_def fx_fail_def)

lemma fx_fail_iff [res_simps]: "fx_fail m = Inr x \<longleftrightarrow> False"
  by (simp add: fx_fail_def)

lemma fx_require_dict_iff [res_simps]: "fx_require_dict v f = Inr d \<longleftrightarrow> v = JDict d"
  by (cases v) (simp_all add: fx_require_dict_def fx_fail_def)

lemma fx_require_list_iff [res_simps]: "fx_require_list v f = Inr vs \<longleftrightarrow> v = JList vs"
  by (cases v) (simp_all add: fx_require_list_def fx_fail_def)

lemma fx_require_string_iff [res_simps]: "fx_require_string v f = Inr s \<longleftrightarrow> v = JStr s \<and> s \<noteq> []"
  by (cases v) (auto simp: fx_require_string_def fx_fail_def)

lemma fx_require_bool_iff [res_simps]: "fx_require_bool v f = Inr b \<longleftrightarrow> v = JBool b"
  by (cases v) (simp_all add: fx_require_bool_def fx_fail_def)

lemma lower_of_iff [res_simps]: "lower_of v = Inr t \<longleftrightarrow> (\<exists>s. v = JStr s \<and> t = lower s)"
  by (cases v) (auto simp: lower_of_def)

lemma ADDRESS_RE_nonempty: "ADDRESS_RE s \<Longrightarrow> s \<noteq> []"
  by (auto simp: ADDRESS_RE_def)

lemma BYTES32_RE_nonempty: "BYTES32_RE s \<Longrightarrow> s \<noteq> []"
  by (auto simp: BYTES32_RE_def)

lemma fx_require_address_iff [res_simps]:
  "fx_require_address v f = Inr a \<longleftrightarrow> (\<exists>s. v = JStr s \<and> ADDRESS_RE s \<and> a = lower s)"
  by (auto simp: fx_require_address_def res_simps fx_fail_def ADDRESS_RE_nonempty)

lemma fx_require_bytes32_iff [res_simps]:
  "fx_require_bytes32 v f = Inr a \<longleftrightarrow> (\<exists>s. v = JStr s \<and> BYTES32_RE s \<and> a = lower s)"
  by (auto simp: fx_require_bytes32_def res_simps fx_fail_def BYTES32_RE_nonempty)

text \<open>The integer a value of a \<open>uint\<close> field stands for.\<close>

definition uint_value :: "unicode \<Rightarrow> json \<Rightarrow> int option" where
  "uint_value U v =
     (case v of JInt i \<Rightarrow> Some i
      | JStr s \<Rightarrow> if is_digit_str U s then (case int_of_digits U s of Inl _ \<Rightarrow> None | Inr i \<Rightarrow> Some i) else None
      | _ \<Rightarrow> None)"

lemma fx_require_uint_iff [res_simps]:
  "fx_require_uint U v f m = Inr i \<longleftrightarrow> uint_value U v = Some i \<and> 0 \<le> i \<and> i \<le> m"
  by (cases v) (auto simp: fx_require_uint_def uint_value_def fx_fail_def rbind_def split: sum.splits if_splits)

lemma drop_lower: "drop n (lower s) = lower (drop n s)"
  by (simp add: lower_def drop_map)

lemma BYTES32_RE_lower: "BYTES32_RE s \<Longrightarrow> BYTES32_RE (lower s)"
  using lower_0x_hex[of s] lower_all_hex_lower[of "drop 2 s"] list_all_hex_lowerD[of "drop 2 (lower s)"]
  by (auto simp: BYTES32_RE_def drop_lower)

interpretation fx_bool_field: field_validator fx_require_bool JBool "\<lambda>_. True"
  by unfold_locales (simp_all add: res_simps)

interpretation fx_string_field: field_validator fx_require_string JStr "\<lambda>s. s \<noteq> []"
  by unfold_locales (simp_all add: res_simps)

interpretation fx_address_field: field_validator fx_require_address JStr "\<lambda>a. ADDRESS_RE a \<and> lower a = a"
  by unfold_locales (auto simp: res_simps ADDRESS_RE_lower)

interpretation fx_bytes32_field: field_validator fx_require_bytes32 JStr "\<lambda>a. BYTES32_RE a \<and> lower a = a"
  by unfold_locales (auto simp: res_simps BYTES32_RE_lower)

interpretation fx_uint_field: field_validator "\<lambda>v f. fx_require_uint U v f m" JInt "\<lambda>i. 0 \<le> i \<and> i \<le> m"
  by unfold_locales (auto simp: res_simps uint_value_def)

lemma keccak_hex_form: "BYTES32_RE (keccak_hex bs)" "lower (keccak_hex bs) = keccak_hex bs"
  "bytes_fromhex (drop 2 (keccak_hex bs)) = Inr (keccak256 bs)"
proof -
  show "BYTES32_RE (keccak_hex bs)"
    using bytes_hex_is_hex_lower[of "keccak256 bs"] by (simp add: BYTES32_RE_def keccak_hex_def list_all_hex_lowerD)
  show "lower (keccak_hex bs) = keccak_hex bs"
    using lower_hex_lower[OF bytes_hex_is_hex_lower, of "keccak256 bs"]
    by (simp add: keccak_hex_def lower_def lower_char_def is_upper_def)
  show "bytes_fromhex (drop 2 (keccak_hex bs)) = Inr (keccak256 bs)" by (simp add: keccak_hex_def)
qed

section \<open>The ABI encoding determines the values\<close>

text \<open>What an encoded field stands for.\<close>

datatype static_value = SUint int | SBytes "byte list"

definition static_value :: "unicode \<Rightarrow> string \<times> json \<Rightarrow> static_value option" where
  "static_value U field =
     (case field of (t, v) \<Rightarrow>
        if t = ''uint256'' \<or> t = ''uint8'' then map_option SUint (uint_value U v)
        else (case v of JStr s \<Rightarrow> map_option SBytes (unhex (drop 2 s)) | _ \<Rightarrow> None))"

lemma static_types:
  "encode_static U (t, v) = Inr bs \<Longrightarrow> t \<in> {''uint256'', ''uint8'', ''address'', ''bytes32''}"
  by (auto simp: encode_static_def fx_fail_def split: if_splits)

definition static_word :: "string \<Rightarrow> static_value \<Rightarrow> byte list" where
  "static_word t x =
     (case x of SUint i \<Rightarrow> to_bytes 32 (nat i) | SBytes bs \<Rightarrow> (if t = ''address'' then replicate 12 0 @ bs else bs))"

definition in_type :: "string \<Rightarrow> static_value \<Rightarrow> bool" where
  "in_type t x \<longleftrightarrow>
     (if t = ''uint8'' then (\<exists>i. x = SUint i \<and> 0 \<le> i \<and> i < 2 ^ 8)
      else if t = ''uint256'' then (\<exists>i. x = SUint i \<and> 0 \<le> i \<and> i < 2 ^ 256)
      else if t = ''address'' then (\<exists>bs. x = SBytes bs \<and> length bs = 20)
      else t = ''bytes32'' \<and> (\<exists>bs. x = SBytes bs \<and> length bs = 32))"

lemma ADDRESS_RE_unhex: "ADDRESS_RE s \<Longrightarrow> \<exists>bs. unhex (drop 2 s) = Some bs \<and> length bs = 20"
  using unhex_defined[of "drop 2 s"] unhex_length[of "drop 2 s"] by (fastforce simp: ADDRESS_RE_def)

lemma BYTES32_RE_unhex: "BYTES32_RE s \<Longrightarrow> \<exists>bs. unhex (drop 2 s) = Some bs \<and> length bs = 32"
  using unhex_defined[of "drop 2 s"] unhex_length[of "drop 2 s"] by (fastforce simp: BYTES32_RE_def)

lemma encode_static_Inr:
  assumes "encode_static U (t, v) = Inr w"
  shows "\<exists>x. static_value U (t, v) = Some x \<and> in_type t x \<and> w = static_word t x"
proof -
  consider "t = ''uint256'' \<or> t = ''uint8''" | "t = ''address''" | "t = ''bytes32''"
    using static_types[OF assms] by blast
  then show ?thesis
    by cases (use assms in \<open>auto simp: encode_static_def res_simps static_value_def static_word_def in_type_def
      encode_uint_def encode_address_def encode_bytes32_def bytes_fromhex_def drop_lower
      dest!: ADDRESS_RE_unhex BYTES32_RE_unhex\<close>)
qed

lemma static_word_length: "in_type t x \<Longrightarrow> length (static_word t x) = 32"
  by (auto simp: in_type_def static_word_def split: if_splits)

lemma static_word_inject:
  assumes "in_type t x" and "in_type t y" and "static_word t x = static_word t y"
  shows "x = y"
proof (cases "t = ''uint8'' \<or> t = ''uint256''")
  case True
  then obtain i j where x: "x = SUint i" "0 \<le> i" "i < 2 ^ 256" and y: "y = SUint j" "0 \<le> j" "j < 2 ^ 256"
    using assms(1,2) by (auto simp: in_type_def split: if_splits)
  have "from_bytes (to_bytes 32 (nat i)) = nat i" if "0 \<le> i" "i < 2 ^ 256" for i :: int
    using that by (simp add: from_bytes_to_bytes nat_less_iff)
  then have "nat i = nat j" using assms(3) x y by (simp add: static_word_def) metis
  then show ?thesis using x y by simp
next
  case False
  then show ?thesis using assms by (auto simp: in_type_def static_word_def split: if_splits)
qed

lemma encode_static_length: "encode_static U f = Inr w \<Longrightarrow> length w = 32"
  using encode_static_Inr[of U "fst f" "snd f" w] static_word_length by auto

lemma encode_static_inject:
  assumes "encode_static U f = Inr w" and "encode_static U g = Inr w" and "fst f = fst g"
  shows "static_value U f = static_value U g \<and> static_value U f \<noteq> None"
proof -
  obtain t v v' where f: "f = (t, v)" and g: "g = (t, v')" using assms(3) by (metis prod.collapse)
  obtain x y where "static_value U f = Some x" "in_type t x" "w = static_word t x"
    and "static_value U g = Some y" "in_type t y" "w = static_word t y"
    using encode_static_Inr assms(1,2) unfolding f g by blast
  then show ?thesis using static_word_inject by force
qed

lemma abi_encode_static_length: "abi_encode_static U fs = Inr bs \<Longrightarrow> length bs = 32 * length fs"
proof (induction fs arbitrary: bs)
  case (Cons f fs)
  then obtain w r where "encode_static U f = Inr w" "abi_encode_static U fs = Inr r" "bs = w @ r" by (auto simp: rbind_eq_Inr)
  then show ?case using Cons.IH[of r] encode_static_length[of U f w] by simp
qed simp

lemma abi_encode_static_determines:
  assumes "abi_encode_static U fs = Inr bs" and "abi_encode_static U gs = Inr bs" and "map fst fs = map fst gs"
  shows "list_all2 (\<lambda>f g. static_value U f = static_value U g \<and> static_value U f \<noteq> None) fs gs"
  using assms
proof (induction fs arbitrary: gs bs)
  case (Cons f fs)
  from Cons.prems(3) obtain g gs' where gs: "gs = g # gs'" and t: "fst f = fst g" "map fst fs = map fst gs'" by auto
  from Cons.prems(1,2) obtain w r w' r' where 1: "encode_static U f = Inr w" "abi_encode_static U fs = Inr r" "bs = w @ r"
    and 2: "encode_static U g = Inr w'" "abi_encode_static U gs' = Inr r'" "bs = w' @ r'"
    by (auto simp: gs rbind_eq_Inr)
  then have w: "w = w'" "r = r'"
    using encode_static_length[OF 1(1)] encode_static_length[OF 2(1)] by (auto simp: append_eq_append_conv)
  have "static_value U f = static_value U g \<and> static_value U f \<noteq> None"
    by (rule encode_static_inject[OF 1(1) 2(1)[folded w(1)] t(1)])
  moreover have "list_all2 (\<lambda>f g. static_value U f = static_value U g \<and> static_value U f \<noteq> None) fs gs'"
    by (rule Cons.IH[OF 1(2) 2(2)[folded w(2)] t(2)])
  ultimately show ?case unfolding gs by (rule list_all2_Cons[THEN iffD2, OF conjI])
qed simp

lemma drop_id_determines:
  assumes "abi_encode_static U (drop_id_fields s e n t) = Inr bs"
    and "abi_encode_static U (drop_id_fields s' e' n' t') = Inr bs"
  shows "lower s = lower s' \<and> uint_value U e = uint_value U e' \<and> uint_value U n = uint_value U n' \<and>
    uint_value U t = uint_value U t'"
proof -
  have "list_all2 (\<lambda>f g. static_value U f = static_value U g \<and> static_value U f \<noteq> None)
      (drop_id_fields s e n t) (drop_id_fields s' e' n' t')"
    by (rule abi_encode_static_determines[OF assms]) (simp add: drop_id_fields_def)
  then have v: "static_value U (''address'', JStr s) = static_value U (''address'', JStr s')"
      "static_value U (''uint256'', e) = static_value U (''uint256'', e')"
      "static_value U (''uint256'', n) = static_value U (''uint256'', n')"
      "static_value U (''uint256'', t) = static_value U (''uint256'', t')"
    by (simp_all add: drop_id_fields_def)
  have "ADDRESS_RE s" "ADDRESS_RE s'"
    using assms by (auto simp: drop_id_fields_def rbind_eq_Inr encode_static_def res_simps)
  then obtain bs bs' where u: "unhex (drop 2 s) = Some bs" "unhex (drop 2 s') = Some bs'"
    using ADDRESS_RE_unhex by blast
  then have "lower (drop 2 s) = lower (drop 2 s')" using v(1) by (simp add: static_value_def bytes_hex_unhex[symmetric])
  then have "lower s = lower s'"
    using lower_0x_hex(1)[of s] lower_0x_hex(1)[of s'] \<open>ADDRESS_RE s\<close> \<open>ADDRESS_RE s'\<close> by (simp add: ADDRESS_RE_def)
  moreover have "map_option SUint x = map_option SUint y \<longleftrightarrow> x = y" for x y
    by (cases x; cases y) simp_all
  ultimately show ?thesis using v(2-4) by (simp add: static_value_def)
qed

section \<open>EIP-712\<close>

text \<open>
  The hash to sign as the standard defines it, for types made of strings and static values: the
  fields are read from the document's own \<open>types\<close>, the type is encoded from them, and a value
  is encoded by the type its field has. This is what a wallet computes from the document.
\<close>

definition eip_field :: "json \<Rightarrow> (string \<times> string) option" where
  "eip_field v =
     (case v of JDict d \<Rightarrow> (case (dget d ''name'', dget d ''type'') of (JStr n, JStr t) \<Rightarrow> Some (n, t) | _ \<Rightarrow> None)
      | _ \<Rightarrow> None)"

definition eip_fields :: "json \<Rightarrow> (string \<times> string) list option" where
  "eip_fields v = (case v of JList vs \<Rightarrow> those (map eip_field vs) | _ \<Rightarrow> None)"

definition encode_type :: "string \<Rightarrow> (string \<times> string) list \<Rightarrow> string" where
  "encode_type name fs = name @ ''('' @ join '','' (map (\<lambda>(n, t). t @ '' '' @ n) fs) @ '')''"

definition encode_value :: "unicode \<Rightarrow> string \<Rightarrow> json \<Rightarrow> byte list option" where
  "encode_value U t v =
     (if t = ''string'' then (case v of JStr s \<Rightarrow> Some (keccak256 (str_bytes s)) | _ \<Rightarrow> None)
      else case static_value U (t, v) of None \<Rightarrow> None
        | Some x \<Rightarrow> if in_type t x then Some (static_word t x) else None)"

definition hash_struct :: "unicode \<Rightarrow> dict \<Rightarrow> string \<Rightarrow> dict \<Rightarrow> byte list option" where
  "hash_struct U types name d =
     (case eip_fields (dget types name) of None \<Rightarrow> None
      | Some fs \<Rightarrow> map_option (\<lambda>ws. keccak256 (keccak256 (str_bytes (encode_type name fs)) @ concat ws))
          (those (map (\<lambda>(n, t). encode_value U t (dget d n)) fs)))"

definition eip712_digest :: "unicode \<Rightarrow> dict \<Rightarrow> byte list option" where
  "eip712_digest U typed_data =
     (case (dget typed_data ''types'', dget typed_data ''domain'', dget typed_data ''message'',
         dget typed_data ''primaryType'') of
        (JDict types, JDict domain, JDict message, JStr primary) \<Rightarrow>
          (case (hash_struct U types ''EIP712Domain'' domain, hash_struct U types primary message) of
             (Some d, Some s) \<Rightarrow> Some (keccak256 ([0x19, 0x01] @ d @ s)) | _ \<Rightarrow> None)
      | _ \<Rightarrow> None)"

text \<open>The type strings in the code are the encodings of its field lists.\<close>

lemma encode_type_domain: "encode_type ''EIP712Domain'' EIP712_DOMAIN_FIELDS = EIP712_DOMAIN_TYPE"
  by code_simp

lemma encode_type_drop: "encode_type ''DropAuthorization'' DROP_AUTHORIZATION_FIELDS = DROP_AUTHORIZATION_TYPE"
  by code_simp

lemma eip_field_eq:
  assumes "wf_json v" and "py_eq v (JDict [(''name'', JStr n), (''type'', JStr t)])"
  shows "eip_field v = Some (n, t)"
proof -
  obtain d where v: "v = JDict d" and l: "length d = 2"
    and e: "py_eq_dict d [(''name'', JStr n), (''type'', JStr t)]"
    using assms(2) by (cases v) auto
  have "\<exists>k1 w1 k2 w2. d = [(k1, w1), (k2, w2)]" using l by (auto simp: length_Suc_conv numeral_eq_Suc)
  then show ?thesis using e assms(1) v by (auto simp: eip_field_def dget_def split: if_splits)
qed

lemma eip_fields_json:
  assumes "wf_json v" and "py_eq v (fields_json fs)"
  shows "eip_fields v = Some fs"
proof -
  obtain vs where v: "v = JList vs" and e: "list_all2 py_eq vs (map (\<lambda>(n, t). JDict [(''name'', JStr n), (''type'', JStr t)]) fs)"
    using assms(2) by (cases v) (auto simp: fields_json_def py_eq_list_iff)
  have w: "list_all wf_json vs" using assms(1) v by simp
  have "those (map eip_field vs) = Some fs"
    using e w
  proof (induction vs arbitrary: fs)
    case (Cons x vs)
    then obtain n t fs' where fs: "fs = (n, t) # fs'" and x: "py_eq x (JDict [(''name'', JStr n), (''type'', JStr t)])"
      and r: "list_all2 py_eq vs (map (\<lambda>(n, t). JDict [(''name'', JStr n), (''type'', JStr t)]) fs')"
      by (auto simp: list_all2_Cons1 Cons_eq_map_conv)
    have "wf_json x" "list_all wf_json vs" using Cons.prems(2) by simp_all
    from eip_field_eq[OF this(1) x] Cons.IH[OF r this(2)] fs show ?case by auto
  qed simp
  then show ?thesis by (simp add: eip_fields_def v)
qed

section \<open>Messages\<close>

text \<open>A value fits the type of its field.\<close>

definition fits :: "unicode \<Rightarrow> string \<Rightarrow> json \<Rightarrow> bool" where
  "fits U t v \<longleftrightarrow>
     (if t = ''address'' then \<exists>s. v = JStr s \<and> ADDRESS_RE s
      else if t = ''bytes32'' then \<exists>s. v = JStr s \<and> BYTES32_RE s
      else if t = ''uint8'' then \<exists>i. uint_value U v = Some i \<and> 0 \<le> i \<and> i < 2 ^ 8
      else \<exists>i. uint_value U v = Some i \<and> 0 \<le> i \<and> i < 2 ^ 256)"

lemma check_field_iff: "check_field U p t v = Inr u \<longleftrightarrow> fits U t v"
  by (auto simp: check_field_def fits_def res_simps UINT_MAX_def)

lemma check_fields_iff:
  "check_fields U fid m fs = Inr u \<longleftrightarrow> (\<forall>(n, t) \<in> set fs. dmem n m \<and> fits U t (dget m n))"
proof (induction fs)
  case (Cons f fs)
  then show ?case by (cases f) (auto simp: res_simps check_field_iff dmem_iff)
qed simp

lemma fits_encoded:
  assumes "fits U t v" and "t \<in> {''address'', ''bytes32'', ''uint8'', ''uint256''}"
  shows "\<exists>w. encode_static U (t, v) = Inr w"
proof -
  consider "t = ''uint256''" | "t = ''uint8''" | "t = ''address''" | "t = ''bytes32''" using assms(2) by blast
  then show ?thesis
  proof cases
    case 1
    then obtain i where "uint_value U v = Some i" "0 \<le> i" "i < 2 ^ 256" using assms(1) by (auto simp: fits_def)
    then have "fx_require_uint U v ''uint256'' (2 ^ 256 - 1) = Inr i" by (simp add: fx_require_uint_iff)
    then show ?thesis using 1 by (simp add: encode_static_def)
  next
    case 2
    then obtain i where "uint_value U v = Some i" "0 \<le> i" "i < 2 ^ 8" using assms(1) by (auto simp: fits_def)
    then have "fx_require_uint U v ''uint8'' (2 ^ 8 - 1) = Inr i" by (simp add: fx_require_uint_iff)
    then show ?thesis using 2 by (simp add: encode_static_def)
  next
    case 3
    then obtain s where "v = JStr s" "ADDRESS_RE s" using assms(1) by (auto simp: fits_def)
    then have "fx_require_address v ''address'' = Inr (lower s)" and "\<exists>bs. bytes_fromhex (drop 2 (lower s)) = Inr bs"
      using ADDRESS_RE_unhex[of s] by (auto simp: fx_require_address_iff bytes_fromhex_def drop_lower)
    then show ?thesis using 3 by (auto simp: encode_static_def encode_address_def)
  next
    case 4
    then obtain s where "v = JStr s" "BYTES32_RE s" using assms(1) by (auto simp: fits_def)
    then have "fx_require_bytes32 v ''bytes32'' = Inr (lower s)" and "\<exists>bs. bytes_fromhex (drop 2 (lower s)) = Inr bs"
      using BYTES32_RE_unhex[of s] by (auto simp: fx_require_bytes32_iff bytes_fromhex_def drop_lower)
    then show ?thesis using 4 by (auto simp: encode_static_def encode_bytes32_def)
  qed
qed

lemma abi_encode_total:
  "\<forall>f \<in> set fs. \<exists>w. encode_static U f = Inr w \<Longrightarrow> \<exists>bs. abi_encode_static U fs = Inr bs"
  by (induction fs) (auto simp: rbind_def split: sum.splits)

lemma encoded_value: "encode_static U (t, v) = Inr w \<Longrightarrow> encode_value U t v = Some w"
  using encode_static_Inr[of U t v w] static_types[of U t v w] by (auto simp: encode_value_def)

lemma encoded_values:
  "abi_encode_static U (map (\<lambda>(n, t). (t, dget d n)) fs) = Inr bs \<Longrightarrow>
   \<exists>ws. those (map (\<lambda>(n, t). encode_value U t (dget d n)) fs) = Some ws \<and> concat ws = bs"
proof (induction fs arbitrary: bs)
  case (Cons f fs)
  obtain n t where f: "f = (n, t)" by (cases f)
  from Cons.prems obtain w r where "encode_static U (t, dget d n) = Inr w"
    and "abi_encode_static U (map (\<lambda>(n, t). (t, dget d n)) fs) = Inr r" and "bs = w @ r"
    by (auto simp: f rbind_eq_Inr)
  with Cons.IH encoded_value show ?case by (fastforce simp: f)
qed simp

lemma encode_keccak: "encode_static U (''bytes32'', JStr (keccak_hex bs)) = Inr (keccak256 bs)"
  by (simp add: encode_static_def fx_require_bytes32_def fx_require_string_def keccak_hex_form BYTES32_RE_nonempty
    encode_bytes32_def)

lemma struct_hash_eip:
  assumes "eip_fields (dget types ''DropAuthorization'') = Some DROP_AUTHORIZATION_FIELDS"
    and "compute_struct_hash U m = Inr h"
  shows "\<exists>k. hash_struct U types ''DropAuthorization'' m = Some k \<and> bytes_fromhex (drop 2 h) = Inr k"
proof -
  obtain bs where "abi_encode_static U (map (\<lambda>(n, t). (t, dget m n)) DROP_AUTHORIZATION_FIELDS) = Inr bs"
    and "h = keccak_hex (keccak256 (str_bytes DROP_AUTHORIZATION_TYPE) @ bs)"
    using assms(2) by (auto simp: compute_struct_hash_def keccak_text_def encode_keccak rbind_eq_Inr)
  then show ?thesis
    using encoded_values assms(1)
    by (fastforce simp: hash_struct_def encode_type_drop keccak_hex_form)
qed

lemma domain_separator_eip:
  assumes "eip_fields (dget types ''EIP712Domain'') = Some EIP712_DOMAIN_FIELDS"
    and "compute_domain_separator U d = Inr h"
  shows "\<exists>k. hash_struct U types ''EIP712Domain'' d = Some k \<and> bytes_fromhex (drop 2 h) = Inr k"
proof -
  obtain name version c v where "dget d ''name'' = JStr name" "dget d ''version'' = JStr version"
    and "encode_static U (''uint256'', dget d ''chainId'') = Inr c"
    and "encode_static U (''address'', dget d ''verifyingContract'') = Inr v"
    and "h = keccak_hex (keccak256 (str_bytes EIP712_DOMAIN_TYPE) @ keccak256 (str_bytes name) @ keccak256 (str_bytes version) @ c @ v)"
    using assms(2) by (auto simp: compute_domain_separator_def keccak_text_def encode_keccak rbind_eq_Inr fx_require_string_iff)
  moreover from this have "encode_value U ''uint256'' (dget d ''chainId'') = Some c"
      "encode_value U ''address'' (dget d ''verifyingContract'') = Some v"
    by (simp_all add: encoded_value)
  ultimately show ?thesis
    using assms(1) by (simp add: hash_struct_def encode_type_domain[symmetric])
      (simp add: EIP712_DOMAIN_FIELDS_def encode_value_def[of U "''string''"] keccak_hex_form)
qed

lemma wf_json_dget: "wf_json (JDict d) \<Longrightarrow> wf_json (dget d k)"
  by (auto simp: dget_def list_all_iff split: option.splits dest: map_of_SomeD)

lemma derived_digest:
  assumes "wf_json (JDict td)" and "validate_types td fid = Inr ()" and "compute_derived U td tok signer = Inr dv"
  shows "\<exists>k. eip712_digest U td = Some k \<and> dv_digest dv = ''0x'' @ bytes_hex k"
proof -
  obtain types where types: "dget td ''types'' = JDict types" "dget td ''primaryType'' = JStr ''DropAuthorization''"
    and eq: "py_eq (dget types ''EIP712Domain'') (fields_json EIP712_DOMAIN_FIELDS)"
      "py_eq (dget types ''DropAuthorization'') (fields_json DROP_AUTHORIZATION_FIELDS)"
    using assms(2) by (auto simp: validate_types_def res_simps)
  note member = wf_json_dget
  have "wf_json (JDict types)" using types(1) assms(1) member by metis
  then have f: "eip_fields (dget types ''EIP712Domain'') = Some EIP712_DOMAIN_FIELDS"
      "eip_fields (dget types ''DropAuthorization'') = Some DROP_AUTHORIZATION_FIELDS"
    using eip_fields_json[OF member eq(1)] eip_fields_json[OF member eq(2)] by simp_all
  obtain domain message ds sh dg where d: "dget td ''domain'' = JDict domain" "dget td ''message'' = JDict message"
    and h: "compute_domain_separator U domain = Inr ds" "compute_struct_hash U message = Inr sh"
    and g: "compute_digest ds sh = Inr dg" "dv_digest dv = dg"
    using assms(3) by (auto simp: compute_derived_def Let_def rbind_eq_Inr fx_require_dict_iff)
  show ?thesis
    using domain_separator_eip[OF f(1) h(1)] struct_hash_eip[OF f(2) h(2)] types d g
    by (auto simp: eip712_digest_def compute_digest_def keccak_hex_def)
qed

text \<open>What an accepted message says.\<close>

definition addr :: "dict \<Rightarrow> string \<Rightarrow> string" where
  "addr m n = (case dget m n of JStr s \<Rightarrow> lower s | _ \<Rightarrow> [])"

definition num :: "unicode \<Rightarrow> dict \<Rightarrow> string \<Rightarrow> int" where
  "num U m n = (case uint_value U (dget m n) of None \<Rightarrow> 0 | Some i \<Rightarrow> i)"

definition well_typed :: "unicode \<Rightarrow> (string \<times> string) list \<Rightarrow> dict \<Rightarrow> bool" where
  "well_typed U fs m \<longleftrightarrow> set (dkeys m) = set (map fst fs) \<and> list_all (\<lambda>(n, t). fits U t (dget m n)) fs"

text \<open>The terms of a sale in a mode: 1 is a fixed price, 2 an auction.\<close>

definition terms :: "unicode \<Rightarrow> dict \<Rightarrow> int \<Rightarrow> bool" where
  "terms U m mode \<longleftrightarrow>
     num U m ''quantity'' = 1 \<and> addr m ''poster'' \<noteq> ZERO_ADDRESS \<and>
     (mode = 1 \<and> addr m ''recipient'' \<noteq> ZERO_ADDRESS \<and>
        num U m ''auctionReservePrice'' = 0 \<and> num U m ''auctionEndTime'' = 0 \<or>
      mode = 2 \<and> addr m ''recipient'' = ZERO_ADDRESS \<and> addr m ''payer'' = ZERO_ADDRESS \<and>
        num U m ''price'' = 0 \<and> num U m ''auctionEndTime'' \<noteq> 0)"

definition sale_terms :: "unicode \<Rightarrow> dict \<Rightarrow> bool" where
  "sale_terms U m \<longleftrightarrow> terms U m (num U m ''saleMode'')"

lemma well_typed_field:
  assumes "well_typed U fs m" and "(n, t) \<in> set fs"
  shows "dmem n m" and "fits U t (dget m n)"
  using assms imageI[OF assms(2), of fst] by (auto simp: well_typed_def dmem_def dkeys_def list_all_iff)

lemma dsub_dmem: "dmem n m \<Longrightarrow> dsub m n = Inr (dget m n)"
  by (auto simp: dsub_def dget_def dmem_iff split: option.splits)

lemma lower_at_fits:
  assumes "dmem n m" and "fits U t (dget m n)" and "t = ''address'' \<or> t = ''bytes32''"
  shows "lower_at m n = Inr (addr m n)"
  using assms by (auto simp: lower_at_def dsub_dmem fits_def addr_def lower_of_def)

lemma uint_fits:
  assumes "dmem n m" and "fits U t (dget m n)" and "t = ''uint8'' \<or> t = ''uint256''"
  shows "uint_at U m n p = Inr (num U m n)" and "uint_value U (dget m n) = Some (num U m n)"
    and "0 \<le> num U m n" and "t = ''uint8'' \<Longrightarrow> num U m n < 2 ^ 8" and "num U m n < 2 ^ 256"
proof -
  obtain i where i: "uint_value U (dget m n) = Some i" "0 \<le> i" "i < 2 ^ 256" "t = ''uint8'' \<longrightarrow> i < 2 ^ 8"
    using assms(2,3) by (fastforce simp: fits_def)
  then have "fx_require_uint U (dget m n) p UINT_MAX = Inr i" by (simp add: fx_require_uint_iff UINT_MAX_def)
  then show "uint_at U m n p = Inr (num U m n)" "uint_value U (dget m n) = Some (num U m n)"
    "0 \<le> num U m n" "t = ''uint8'' \<Longrightarrow> num U m n < 2 ^ 8" "num U m n < 2 ^ 256"
    using i assms(1) by (simp_all add: uint_at_def dsub_dmem num_def)
qed

lemma drop_message_fields:
  assumes "well_typed U DROP_AUTHORIZATION_FIELDS m"
  shows "lower_at m ''poster'' = Inr (addr m ''poster'')" "lower_at m ''recipient'' = Inr (addr m ''recipient'')"
    "lower_at m ''payer'' = Inr (addr m ''payer'')" "lower_at m ''tokenDataHash'' = Inr (addr m ''tokenDataHash'')"
    "lower_at m ''dropId'' = Inr (addr m ''dropId'')"
    "uint_at U m ''quantity'' p = Inr (num U m ''quantity'')" "uint_at U m ''price'' p = Inr (num U m ''price'')"
    "uint_at U m ''auctionReservePrice'' p = Inr (num U m ''auctionReservePrice'')"
    "uint_at U m ''auctionEndTime'' p = Inr (num U m ''auctionEndTime'')"
    "uint_at U m ''saleMode'' p = Inr (num U m ''saleMode'')"
    "dsub m ''saleMode'' = Inr (dget m ''saleMode'')"
    "fx_require_uint U (dget m ''saleMode'') p 255 = Inr (num U m ''saleMode'')"
proof -
  note f = well_typed_field[OF assms]
  have t: "(''poster'', ''address'') \<in> set DROP_AUTHORIZATION_FIELDS" "(''recipient'', ''address'') \<in> set DROP_AUTHORIZATION_FIELDS"
    "(''payer'', ''address'') \<in> set DROP_AUTHORIZATION_FIELDS" "(''tokenDataHash'', ''bytes32'') \<in> set DROP_AUTHORIZATION_FIELDS"
    "(''dropId'', ''bytes32'') \<in> set DROP_AUTHORIZATION_FIELDS"
    "(''quantity'', ''uint256'') \<in> set DROP_AUTHORIZATION_FIELDS" "(''price'', ''uint256'') \<in> set DROP_AUTHORIZATION_FIELDS"
    "(''auctionReservePrice'', ''uint256'') \<in> set DROP_AUTHORIZATION_FIELDS"
    "(''auctionEndTime'', ''uint256'') \<in> set DROP_AUTHORIZATION_FIELDS" "(''saleMode'', ''uint8'') \<in> set DROP_AUTHORIZATION_FIELDS"
    by (simp_all add: DROP_AUTHORIZATION_FIELDS_def)
  show "lower_at m ''poster'' = Inr (addr m ''poster'')" "lower_at m ''recipient'' = Inr (addr m ''recipient'')"
    "lower_at m ''payer'' = Inr (addr m ''payer'')" "lower_at m ''tokenDataHash'' = Inr (addr m ''tokenDataHash'')"
    "lower_at m ''dropId'' = Inr (addr m ''dropId'')"
    using lower_at_fits f t(1-5) by blast+
  show "uint_at U m ''quantity'' p = Inr (num U m ''quantity'')" "uint_at U m ''price'' p = Inr (num U m ''price'')"
    "uint_at U m ''auctionReservePrice'' p = Inr (num U m ''auctionReservePrice'')"
    "uint_at U m ''auctionEndTime'' p = Inr (num U m ''auctionEndTime'')"
    "uint_at U m ''saleMode'' p = Inr (num U m ''saleMode'')"
    using uint_fits(1) f t(6-10) by blast+
  show "dsub m ''saleMode'' = Inr (dget m ''saleMode'')" by (rule dsub_dmem[OF f(1)[OF t(10)]])
  show "fx_require_uint U (dget m ''saleMode'') p 255 = Inr (num U m ''saleMode'')"
    using uint_fits(2-4)[OF f(1)[OF t(10)] f(2)[OF t(10)]] by (simp add: fx_require_uint_iff)
qed

lemma well_typed_iff:
  "set (dkeys m) = set (map fst fs) \<and> check_fields U fid m fs = Inr u \<longleftrightarrow> well_typed U fs m"
  by (force simp: well_typed_def check_fields_iff list_all_iff dmem_def dkeys_def)

lemma validate_message_iff:
  "validate_message U td tok fid = Inr () \<longleftrightarrow>
     (\<exists>m. dget td ''message'' = JDict m \<and> well_typed U DROP_AUTHORIZATION_FIELDS m \<and>
        addr m ''tokenDataHash'' = keccak_text tok \<and> sale_terms U m)"
proof (cases "dget td ''message''")
  case (JDict m)
  show ?thesis
  proof (cases "well_typed U DROP_AUTHORIZATION_FIELDS m")
    case True
    note f = drop_message_fields[OF True]
    have "set (dkeys m) = set (map fst DROP_AUTHORIZATION_FIELDS)" "check_fields U fid m DROP_AUTHORIZATION_FIELDS = Inr ()"
      using well_typed_iff[THEN iffD2, OF True] by simp_all
    then have "validate_message U td tok fid = Inr () \<longleftrightarrow> addr m ''tokenDataHash'' = keccak_text tok \<and> sale_terms U m"
      unfolding validate_message_def check_terms_def JDict fx_require_dict_iff[THEN iffD2, OF refl]
      by (auto simp: f rbind_eq_Inr fx_check_iff fx_fail_iff sale_terms_def terms_def check_fixed_price_def check_auction_def)
    then show ?thesis using JDict True by auto
  next
    case False
    then show ?thesis
      using well_typed_iff[of m DROP_AUTHORIZATION_FIELDS U fid "()"] JDict
      by (auto simp: validate_message_def res_simps)
  qed
qed (simp_all add: validate_message_def fx_require_dict_def fx_fail_def)

lemma validate_domain_iff:
  "validate_domain U td fid = Inr () \<longleftrightarrow>
     (\<exists>d. dget td ''domain'' = JDict d \<and> set (dkeys d) = set (map fst EIP712_DOMAIN_FIELDS) \<and>
        dget d ''name'' = JStr EIP712_NAME \<and> dget d ''version'' = JStr EIP712_VERSION \<and>
        fits U ''uint256'' (dget d ''chainId'') \<and> fits U ''address'' (dget d ''verifyingContract''))"
proof (cases "dget td ''domain''")
  case (JDict d)
  show ?thesis
  proof (cases "set (dkeys d) = set (map fst EIP712_DOMAIN_FIELDS)")
    case True
    then have "n \<in> set (map fst EIP712_DOMAIN_FIELDS) \<Longrightarrow> dsub d n = Inr (dget d n)" for n
      by (rule_tac dsub_dmem) (simp add: dmem_def dkeys_def)
    then have s: "dsub d ''name'' = Inr (dget d ''name'')" "dsub d ''version'' = Inr (dget d ''version'')"
      "dsub d ''chainId'' = Inr (dget d ''chainId'')" "dsub d ''verifyingContract'' = Inr (dget d ''verifyingContract'')"
      by (simp_all add: EIP712_DOMAIN_FIELDS_def)
    show ?thesis
      unfolding validate_domain_def JDict fx_require_dict_iff[THEN iffD2, OF refl]
      using True by (auto simp: s res_simps fits_def UINT_MAX_def)
  next
    case False
    then show ?thesis using JDict by (simp add: validate_domain_def res_simps)
  qed
qed (simp_all add: validate_domain_def fx_require_dict_def fx_fail_def)

lemma field_types: "(n, t) \<in> set DROP_AUTHORIZATION_FIELDS \<Longrightarrow> t \<in> {''address'', ''bytes32'', ''uint8'', ''uint256''}"
  by (auto simp: DROP_AUTHORIZATION_FIELDS_def)

lemma address_encoded: "ADDRESS_RE s \<Longrightarrow> \<exists>w. encode_static U (''address'', JStr s) = Inr w"
  by (rule fits_encoded) (simp_all add: fits_def)

lemma compute_struct_hash_total:
  assumes "well_typed U DROP_AUTHORIZATION_FIELDS m"
  shows "\<exists>bs. compute_struct_hash U m = Inr (keccak_hex bs)"
proof -
  have "\<forall>f \<in> set (map (\<lambda>(n, t). (t, dget m n)) DROP_AUTHORIZATION_FIELDS). \<exists>w. encode_static U f = Inr w"
  proof
    fix f assume "f \<in> set (map (\<lambda>(n, t). (t, dget m n)) DROP_AUTHORIZATION_FIELDS)"
    then obtain n t where n: "(n, t) \<in> set DROP_AUTHORIZATION_FIELDS" and f: "f = (t, dget m n)" by auto
    show "\<exists>w. encode_static U f = Inr w"
      unfolding f by (rule fits_encoded[OF well_typed_field(2)[OF assms n] field_types[OF n]])
  qed
  from abi_encode_total[OF this] show ?thesis
    by (auto simp: compute_struct_hash_def keccak_text_def encode_keccak)
qed

lemma compute_drop_id_total:
  assumes "well_typed U DROP_AUTHORIZATION_FIELDS m" and "ADDRESS_RE s"
  shows "\<exists>bs. compute_drop_id U s m = Inr (keccak_hex bs)"
proof -
  have u: "\<exists>w. encode_static U (''uint256'', dget m n) = Inr w" if "(n, ''uint256'') \<in> set DROP_AUTHORIZATION_FIELDS" for n
    using fits_encoded[OF well_typed_field(2)[OF assms(1) that]] by simp
  obtain e n t where "encode_static U (''uint256'', dget m ''signerEpoch'') = Inr e"
    "encode_static U (''uint256'', dget m ''nonce'') = Inr n" "encode_static U (''uint256'', dget m ''salt'') = Inr t"
    using u[of "''signerEpoch''"] u[of "''nonce''"] u[of "''salt''"] by (auto simp: DROP_AUTHORIZATION_FIELDS_def)
  then show ?thesis
    using address_encoded[OF assms(2), of U]
    by (auto simp: compute_drop_id_def drop_id_fields_def keccak_text_def encode_keccak)
qed

lemma compute_domain_total:
  assumes "dget d ''name'' = JStr EIP712_NAME" and "dget d ''version'' = JStr EIP712_VERSION"
    and "fits U ''uint256'' (dget d ''chainId'')" and "fits U ''address'' (dget d ''verifyingContract'')"
  shows "\<exists>bs. compute_domain_separator U d = Inr (keccak_hex bs)"
  using fits_encoded[OF assms(3)] fits_encoded[OF assms(4)]
  by (auto simp: compute_domain_separator_def assms fx_require_string_def EIP712_NAME_def EIP712_VERSION_def
      keccak_text_def encode_keccak)

lemma derived_total:
  assumes "validate_domain U td fid = Inr ()" and "validate_message U td tok fid = Inr ()" and "ADDRESS_RE s"
  shows "\<exists>dv. compute_derived U td tok (JStr s) = Inr dv"
proof -
  obtain d m where d: "dget td ''domain'' = JDict d" "dget d ''name'' = JStr EIP712_NAME" "dget d ''version'' = JStr EIP712_VERSION"
      "fits U ''uint256'' (dget d ''chainId'')" "fits U ''address'' (dget d ''verifyingContract'')"
    and m: "dget td ''message'' = JDict m" "well_typed U DROP_AUTHORIZATION_FIELDS m"
    using assms(1,2) unfolding validate_domain_iff validate_message_iff by blast
  show ?thesis
    using compute_domain_total[OF d(2-5)] compute_struct_hash_total[OF m(2)]
      compute_drop_id_total[OF m(2) ADDRESS_RE_lower[OF assms(3)]] d(1) m(1) assms(3)
    by (auto simp: compute_derived_def fx_require_dict_def fx_require_address_def fx_require_string_def ADDRESS_RE_nonempty
        compute_digest_def keccak_hex_form Let_def)
qed

section \<open>The scan for secrets\<close>

text \<open>Every text the scan looks at: whether it is a name, where it stands, and the text.\<close>

fun spots :: "json \<Rightarrow> string \<Rightarrow> (bool \<times> string \<times> string) list"
  and member_spots :: "dict \<Rightarrow> string \<Rightarrow> (bool \<times> string \<times> string) list"
  and item_spots :: "nat \<Rightarrow> json list \<Rightarrow> string \<Rightarrow> (bool \<times> string \<times> string) list" where
  "spots (JDict d) path = member_spots d path"
| "spots (JList vs) path = item_spots 0 vs path"
| "spots (JStr s) path = [(False, path, s)]"
| "spots JNull path = []"
| "spots (JBool b) path = []"
| "spots (JInt i) path = []"
| "member_spots [] path = []"
| "member_spots ((key, v) # d) path = (True, path, key) # spots v (path @ ''.'' @ key) @ member_spots d path"
| "item_spots i [] path = []"
| "item_spots i (v # vs) path = spots v (item_path path i) @ item_spots (Suc i) vs path"

definition harmless :: "bool \<times> string \<times> string \<Rightarrow> bool" where
  "harmless spot \<longleftrightarrow>
     (case spot of (is_name, path, s) \<Rightarrow>
        SECRET_KEY_RE s \<longrightarrow> policy_path path \<or> (\<not> is_name \<and> suffix ''.description'' path))"

lemma secret_walk_iff:
  "secret_walk fid v path = Inr u \<longleftrightarrow> list_all harmless (spots v path)"
  "secret_walk_members fid d path = Inr u \<longleftrightarrow> list_all harmless (member_spots d path)"
  "secret_walk_items fid i vs path = Inr u \<longleftrightarrow> list_all harmless (item_spots i vs path)"
proof (induction fid v path and fid d path and fid i vs path
    arbitrary: u and u and u rule: secret_walk_secret_walk_members_secret_walk_items.induct)
  case (3 fid s path)
  then show ?case by (auto simp: harmless_def fx_fail_def)
next
  case (8 fid key nested d path)
  then show ?case by (auto simp: harmless_def rbind_eq_Inr fx_fail_def)
next
  case (10 fid i nested vs path)
  then show ?case by (auto simp: rbind_eq_Inr)
qed simp_all

lemma contains_extend: "contains n s \<Longrightarrow> contains n (s @ t)"
proof (induction s)
  case Nil
  then show ?case by (cases t) auto
next
  case (Cons c s)
  then show ?case by (auto intro: prefix_order.trans)
qed

lemma policy_path_below: "policy_path p \<Longrightarrow> policy_path (p @ q)"
  by (simp add: policy_path_def contains_extend)

lemma spots_below:
  "(k, p, s) \<in> set (spots v path) \<Longrightarrow> prefix path p"
  "(k, p, s) \<in> set (member_spots d path) \<Longrightarrow> prefix path p"
  "(k, p, s) \<in> set (item_spots i vs path) \<Longrightarrow> prefix path p"
  by (induction v path and d path and i vs path rule: spots_member_spots_item_spots.induct)
    (auto simp: item_path_def dest: append_prefixD)

lemma secret_walk_disabled:
  assumes "policy_path path"
  shows "secret_walk fid v path = Inr ()"
proof -
  have "harmless x" if "x \<in> set (spots v path)" for x
  proof -
    obtain k p s where x: "x = (k, p, s)" by (cases x)
    then have "prefix path p" using spots_below(1) that by blast
    then obtain q where "p = path @ q" by (auto simp: prefix_def)
    then show ?thesis using policy_path_below[OF assms] x by (simp add: harmless_def)
  qed
  then show ?thesis by (simp add: secret_walk_iff list_all_iff)
qed

section \<open>Errors\<close>

text \<open>
  What the checks can raise: their own exception, or the \<open>ValueError\<close> of \<open>int\<close> on a string that
  \<open>isdigit\<close> accepts. The command line catches the former only.
\<close>

fun own_error :: "exn \<Rightarrow> bool" where
  "own_error (DropAuthorizationFixtureError m) = True"
| "own_error (ValueError m) = True"
| "own_error _ = False"

definition tame :: "'a res \<Rightarrow> bool" where
  "tame r \<longleftrightarrow> (\<forall>e. r = Inl e \<longrightarrow> own_error e)"

named_theorems tame_rules \<open>computations that raise nothing but the checker's errors\<close>

lemma tame_Inr [tame_rules]: "tame (Inr x)"
  by (simp add: tame_def)

lemma tame_fail [tame_rules]: "tame (fx_fail m)"
  by (simp add: tame_def fx_fail_def)

lemma tame_check [tame_rules]: "tame (fx_check b m)"
  by (simp add: tame_def fx_check_def fx_fail_def)

lemma tame_bind [tame_rules]: "tame m \<Longrightarrow> (\<And>x. m = Inr x \<Longrightarrow> tame (f x)) \<Longrightarrow> tame (rbind m f)"
  by (auto simp: tame_def rbind_eq_Inl)

lemma tame_if [tame_rules]: "tame m \<Longrightarrow> tame n \<Longrightarrow> tame (if b then m else n)"
  by simp

lemma tame_field [tame_rules]:
  "tame (fx_require_dict v p)" "tame (fx_require_list v p)" "tame (fx_require_string v p)" "tame (fx_require_bool v p)"
  "tame (fx_require_address v p)" "tame (fx_require_bytes32 v p)" "tame (fx_require_hex v p l)" "tame (fx_require_uint U v p n)"
  by (cases v; auto simp: tame_def fx_require_dict_def fx_require_list_def fx_require_string_def fx_require_bool_def
      fx_require_address_def fx_require_bytes32_def fx_require_hex_def fx_require_uint_def int_of_digits_def fx_fail_def rbind_def Let_def
      split: if_splits option.splits sum.splits)+

lemma tame_dsub: "dmem n d \<Longrightarrow> tame (dsub d n)"
  by (simp add: dsub_dmem tame_Inr)

lemma tame_hex: "list_all is_hex (drop 2 s) \<Longrightarrow> even (length s) \<Longrightarrow> tame (bytes_fromhex (drop 2 s))"
  using unhex_defined[of "drop 2 s"] by (auto simp: bytes_fromhex_def tame_def)

lemma tame_static [tame_rules]: "tame (encode_static U f)"
proof (cases f)
  case (Pair t v)
  have "tame (encode_address s)" if "fx_require_address v p = Inr s" for s p
  proof -
    have "list_all is_hex (drop 2 s)" "even (length s)"
      using that ADDRESS_RE_lower by (auto simp: fx_require_address_iff) (fastforce simp: ADDRESS_RE_def)+
    then show ?thesis by (simp add: encode_address_def tame_bind tame_hex tame_Inr)
  qed
  moreover have "tame (encode_bytes32 s)" if "fx_require_bytes32 v p = Inr s" for s p
  proof -
    have "list_all is_hex (drop 2 s)" "even (length s)"
      using that BYTES32_RE_lower by (auto simp: fx_require_bytes32_iff) (fastforce simp: BYTES32_RE_def)+
    then show ?thesis by (simp add: encode_bytes32_def tame_hex)
  qed
  ultimately show ?thesis
    unfolding Pair encode_static_def prod.case by (intro tame_rules) simp_all
qed

lemma tame_abi [tame_rules]: "tame (abi_encode_static U fs)"
  by (induction fs) (auto intro!: tame_rules)

lemma tame_derived [tame_rules]: "tame (compute_derived U td tok s)"
proof -
  have "tame (compute_digest ds sh)" if "compute_domain_separator U d = Inr ds" "compute_struct_hash U m = Inr sh" for d m ds sh
  proof -
    have "\<exists>a b. ds = keccak_hex a \<and> sh = keccak_hex b"
      using that by (auto simp: compute_domain_separator_def compute_struct_hash_def rbind_eq_Inr)
    then show ?thesis by (auto simp: compute_digest_def keccak_hex_form tame_Inr)
  qed
  then show ?thesis
    unfolding compute_derived_def Let_def compute_drop_id_def
    by (intro tame_rules) (auto simp: compute_domain_separator_def compute_struct_hash_def intro!: tame_rules)
qed

lemma tame_types [tame_rules]: "tame (validate_types td fid)"
  unfolding validate_types_def by (intro tame_rules)

lemma tame_domain [tame_rules]: "tame (validate_domain U td fid)"
  unfolding validate_domain_def
  by (intro tame_rules; rule tame_dsub) (simp_all add: fx_check_iff dmem_def dkeys_def EIP712_DOMAIN_FIELDS_def)

lemma tame_check_fields:
  "set (map fst fs) \<subseteq> set (dkeys m) \<Longrightarrow> tame (check_fields U fid m fs)"
proof (induction fs)
  case (Cons f fs)
  obtain n t where f: "f = (n, t)" by (cases f)
  have "dmem n m" using Cons.prems by (auto simp: f dmem_def dkeys_def)
  then show ?case using Cons by (auto simp: f check_field_def intro!: tame_rules tame_dsub)
qed (simp add: tame_Inr)

lemma tame_message [tame_rules]: "tame (validate_message U td tok fid)"
proof -
  have c: "tame (check_terms U tok fid m)" if "well_typed U DROP_AUTHORIZATION_FIELDS m" for m
    unfolding check_terms_def check_fixed_price_def check_auction_def
    by (intro tame_rules) (auto simp: drop_message_fields[OF that] intro: tame_Inr tame_field)
  show ?thesis
    unfolding validate_message_def
    by (intro tame_rules, rule tame_check_fields, simp add: fx_check_iff, rule c, rule well_typed_iff[THEN iffD1])
      (simp add: fx_check_iff)
qed

lemma tame_walk:
  "tame (secret_walk fid v path)" "tame (secret_walk_members fid d path)" "tame (secret_walk_items fid i vs path)"
  by (induction fid v path and fid d path and fid i vs path rule: secret_walk_secret_walk_members_secret_walk_items.induct)
    (auto intro!: tame_rules)

lemma tame_policy [tame_rules]: "tame (validate_no_secret_policy fixture fid)"
  unfolding validate_no_secret_policy_def by (intro tame_rules tame_walk)

lemma tame_cases: "tame (failure_case_ids fid i found cs)"
  by (induction cs arbitrary: i found) (auto simp: Let_def intro!: tame_rules)

lemma tame_failure_cases [tame_rules]: "tame (validate_failure_cases fixture fid)"
  unfolding validate_failure_cases_def by (intro tame_rules tame_cases)

lemma check_derived_member: "check_derived expected fid k v = Inr u \<Longrightarrow> \<exists>t. lower_at expected k = Inr t"
proof -
  assume "check_derived expected fid k v = Inr u"
  then obtain s where s: "dget expected k = JStr s" by (auto simp: check_derived_def res_simps)
  then have "dmem k expected" by (intro dget_neq_JNull_dmem) simp
  with s show ?thesis by (simp add: lower_at_def dsub_dmem lower_of_def)
qed

lemma tame_expected:
  assumes "validate_message U td tok fid = Inr ()"
  shows "tame (validate_expected U fixture td tok fid)"
proof -
  obtain m where m: "dget td ''message'' = JDict m" and w: "well_typed U DROP_AUTHORIZATION_FIELDS m"
    using assms validate_message_iff by blast
  have d: "tame (check_derived expected fid k v)" for expected k v
    unfolding check_derived_def by (intro tame_rules)
  have a: "tame (check_all_derived expected fid dv)" for expected dv
    unfolding check_all_derived_def by (intro tame_rules d)
  have l: "tame (lower_at expected ''drop_id'')" "tame (lower_at expected ''token_data_hash'')"
    if "check_all_derived expected fid dv = Inr u" for expected dv u
    using that by (auto simp: check_all_derived_def rbind_eq_Inr dest!: check_derived_member intro: tame_Inr)
  have c: "tame (check_signature expected fid)" "tame (check_call U expected m fid)" for expected
    unfolding check_signature_def check_call_def
    by (intro tame_rules; simp add: drop_message_fields[OF w] tame_Inr)+
  show ?thesis
    unfolding validate_expected_def m
    by (intro tame_rules) (auto simp: fx_require_dict_iff drop_message_fields[OF w] intro: a l c tame_Inr)
qed

lemma tame_fixture: "tame (validate_fixture U path stem data)"
  unfolding validate_fixture_def by (intro tame_rules tame_expected) simp_all

lemma digest_agrees:
  assumes "wf_json (JDict fixture)" and "validate_fixture U path stem (JDict fixture) = Inr (fid, cases)"
  shows "\<exists>td expected s k. dget fixture ''typed_data'' = JDict td \<and> dget fixture ''expected'' = JDict expected \<and>
    dget expected ''digest'' = JStr s \<and> eip712_digest U td = Some k \<and> lower s = ''0x'' @ bytes_hex k"
proof -
  obtain td tok where td: "dget fixture ''typed_data'' = JDict td" "validate_types td fid = Inr ()"
    and e: "validate_expected U fixture td tok fid = Inr ()"
    using assms(2) by (auto simp: validate_fixture_def rbind_eq_Inr fx_require_dict_iff fx_require_string_iff)
  obtain expected dv signer where x: "dget fixture ''expected'' = JDict expected"
    and d: "compute_derived U td tok (JStr signer) = Inr dv" and c: "check_all_derived expected fid dv = Inr ()"
    using e by (auto simp: validate_expected_def rbind_eq_Inr fx_require_dict_iff)
  obtain s where s: "dget expected ''digest'' = JStr s" "lower s = dv_digest dv"
    using c by (auto simp: check_all_derived_def check_derived_def rbind_eq_Inr fx_require_bytes32_iff fx_check_iff)
  have "wf_json (JDict td)"
    using td(1) wf_json_dget[OF assms(1)] by metis
  from derived_digest[OF this td(2) d] show ?thesis using td(1) x s by auto
qed

section \<open>Properties\<close>

text \<open>
  C11: An accepted fixture carries the hash to sign: its \<open>expected.digest\<close> is, up to case, the
  EIP-712 hash of its own \<open>typed_data\<close>, computed by the rules of the standard from the types the
  document declares. The type strings, the field order and the encodings written out in the
  checker are those of the standard.
\<close>

theorem fixture_digest_eip712:
  assumes "wf_json (JDict fixture)" and "validate_fixture U path stem (JDict fixture) = Inr (fid, cases)"
  shows "\<exists>td expected s k. dget fixture ''typed_data'' = JDict td \<and> dget fixture ''expected'' = JDict expected \<and>
    dget expected ''digest'' = JStr s \<and> eip712_digest U td = Some k \<and> lower s = ''0x'' @ bytes_hex k"
  using assms by (rule digest_agrees)

text \<open>
  C15: \<open>validate_message\<close> accepts exactly the messages that have the fifteen fields, each of its
  type, the hash of the token data, quantity one, a poster, and the terms of their sale mode: a
  fixed price with a recipient and no auction fields, or an auction with an end time and without
  recipient, payer and price.
\<close>

theorem validate_message_exact:
  "validate_message U td tok fid = Inr () \<longleftrightarrow>
     (\<exists>m. dget td ''message'' = JDict m \<and> well_typed U DROP_AUTHORIZATION_FIELDS m \<and>
        addr m ''tokenDataHash'' = keccak_text tok \<and> sale_terms U m)"
  by (rule validate_message_iff)

text \<open>
  C40: The bytes hashed into a drop id determine signer, signer epoch, nonce and salt: two
  authorizations with the same preimage are of the same signer and the same three numbers,
  however these were written (as numbers or decimal strings, in either case).
\<close>

theorem drop_id_preimage_injective:
  assumes "abi_encode_static U (drop_id_fields s e n t) = Inr bs"
    and "abi_encode_static U (drop_id_fields s' e' n' t') = Inr bs"
  shows "lower s = lower s' \<and> uint_value U e = uint_value U e' \<and> uint_value U n = uint_value U n' \<and>
    uint_value U t = uint_value U t'"
  using assms by (rule drop_id_determines)

text \<open>
  C16: Whatever the document, \<open>validate_fixture\<close> returns or raises its own error or a
  \<open>ValueError\<close>: no lookup, conversion or hexadecimal decoding in it fails otherwise.
\<close>

theorem validate_fixture_errors:
  "case validate_fixture U path stem data of
     Inr r \<Rightarrow> True
   | Inl e \<Rightarrow> (\<exists>m. e = DropAuthorizationFixtureError m) \<or> (\<exists>m. e = ValueError m)"
proof -
  have "own_error e \<Longrightarrow> (\<exists>m. e = DropAuthorizationFixtureError m) \<or> (\<exists>m. e = ValueError m)" for e
    by (cases e) simp_all
  then show ?thesis using tame_fixture by (auto simp: tame_def split: sum.splits)
qed

text \<open>
  C17: The \<open>ValueError\<close> does occur: a string that \<open>str.isdigit\<close> accepts but that has a character
  without decimal value (a superscript two, for instance) passes the guard of \<open>require_uint\<close> and
  fails in \<open>int\<close>, with an exception the command line does not catch.
\<close>

theorem require_uint_escapes:
  assumes "is_digit_str U s" and "None \<in> set (map (decimal_point U) (utf8_points s))"
  shows "\<exists>m. fx_require_uint U (JStr s) path max_value = Inl (ValueError m)"
  using assms by (auto simp: fx_require_uint_def int_of_digits_def Let_def)

text \<open>
  C18: The scan for secrets is off in a fixture whose id contains \<open>no_secret_policy\<close>: with the
  three flags false such a fixture passes, whatever names and texts it holds, because the path
  the scan reports starts with the id.
\<close>

theorem secret_scan_disabled:
  assumes "policy_path fid" and "dget fixture ''no_secret_policy'' = JDict policy"
    and "dget policy ''key_material_included'' = JBool False" and "dget policy ''mnemonic_included'' = JBool False"
    and "dget policy ''production_payload'' = JBool False"
  shows "validate_no_secret_policy fixture fid = Inr ()"
  using assms(2-) secret_walk_disabled[OF assms(1)]
  by (simp add: validate_no_secret_policy_def fx_require_dict_def fx_require_bool_def fx_check_def)

end
