(* ===== verification/Drop_Payload.thy ===== *)
theory Drop_Payload
  imports Drop_Fixtures
begin

text \<open>
  The generator of unsigned drop authorization payloads,
  \<open>tools/protocol/generate_drop_authorization_payload.py\<close>, over the checker it imports, and what
  the two promise each other: what the generator builds, the checker accepts.
\<close>

section \<open>The generator\<close>

definition INPUT_SCHEMA_VERSION :: string where
  "INPUT_SCHEMA_VERSION = ''6529stream.drop-authorization-payload-input.v1''"

definition OUTPUT_SCHEMA_VERSION :: string where
  "OUTPUT_SCHEMA_VERSION = ''6529stream.drop-authorization-payload.v1''"

definition SALE_MODES :: "(string \<times> int) list" where
  "SALE_MODES = [(''fixed_price'', 1), (''auction'', 2)]"

fun as_payload_error :: "exn \<Rightarrow> exn" where
  "as_payload_error (DropAuthorizationFixtureError m) = DropAuthorizationPayloadError m"
| "as_payload_error e = e"

definition convert_checker_error :: "'a res \<Rightarrow> 'a res" where
  "convert_checker_error r = rmap_exn as_payload_error r"

definition pl_fail :: "string \<Rightarrow> 'a res" where
  "pl_fail m = Inl (DropAuthorizationPayloadError m)"

definition pl_check :: "bool \<Rightarrow> string \<Rightarrow> unit res" where
  "pl_check bad m = (if bad then pl_fail m else Inr ())"

definition pl_require_dict :: "json \<Rightarrow> string \<Rightarrow> dict res" where
  "pl_require_dict v path = convert_checker_error (fx_require_dict v path)"

definition pl_require_string :: "json \<Rightarrow> string \<Rightarrow> string res" where
  "pl_require_string v path = convert_checker_error (fx_require_string v path)"

definition pl_require_bool :: "json \<Rightarrow> string \<Rightarrow> bool res" where
  "pl_require_bool v path = convert_checker_error (fx_require_bool v path)"

definition pl_require_address :: "json \<Rightarrow> string \<Rightarrow> string res" where
  "pl_require_address v path = convert_checker_error (fx_require_address v path)"

definition pl_require_uint :: "unicode \<Rightarrow> json \<Rightarrow> string \<Rightarrow> int option \<Rightarrow> int res" where
  "pl_require_uint U v path max_value =
     (case max_value of
        None \<Rightarrow> convert_checker_error (fx_require_uint U v path UINT_MAX)
      | Some m \<Rightarrow> convert_checker_error (fx_require_uint U v path m))"

definition decimal_string :: "unicode \<Rightarrow> json \<Rightarrow> string \<Rightarrow> string res" where
  "decimal_string U v path = rbind (pl_require_uint U v path None) (\<lambda>i. Inr (dec_int i))"

fun pl_walk :: "string \<Rightarrow> json \<Rightarrow> string \<Rightarrow> unit res"
  and pl_walk_members :: "string \<Rightarrow> dict \<Rightarrow> string \<Rightarrow> unit res"
  and pl_walk_items :: "string \<Rightarrow> nat \<Rightarrow> json list \<Rightarrow> string \<Rightarrow> unit res" where
  "pl_walk did (JDict d) path = pl_walk_members did d path"
| "pl_walk did (JList vs) path = pl_walk_items did 0 vs path"
| "pl_walk did (JStr s) path =
     (if SECRET_KEY_RE s
      then if suffix ''.description'' path \<or> policy_path path then Inr ()
        else pl_fail (did @ '' contains secret-like text at '' @ path)
      else Inr ())"
| "pl_walk did JNull path = Inr ()"
| "pl_walk did (JBool b) path = Inr ()"
| "pl_walk did (JInt i) path = Inr ()"
| "pl_walk_members did [] path = Inr ()"
| "pl_walk_members did ((key, nested) # d) path =
     (let nested_path = path @ ''.'' @ key in
      if SECRET_KEY_RE key \<and> \<not> policy_path path
      then pl_fail (did @ '' uses secret-like key name at '' @ nested_path)
      else rbind (pl_walk did nested nested_path) (\<lambda>_. pl_walk_members did d path))"
| "pl_walk_items did i [] path = Inr ()"
| "pl_walk_items did i (nested # vs) path =
     rbind (pl_walk did nested (item_path path i)) (\<lambda>_. pl_walk_items did (Suc i) vs path)"

definition NO_SECRETS :: json where
  "NO_SECRETS = JDict [(''key_material_included'', JBool False), (''mnemonic_included'', JBool False),
     (''production_payload'', JBool False)]"

definition pl_validate_no_secret_policy :: "dict \<Rightarrow> string \<Rightarrow> json res" where
  "pl_validate_no_secret_policy document did =
     rbind (pl_require_dict (dget document ''no_secret_policy'') (did @ ''.no_secret_policy'')) (\<lambda>policy.
     rbind (pl_require_bool (dget policy ''key_material_included'') (did @ ''.no_secret_policy.key_material_included''))
       (\<lambda>b.
     rbind (pl_check b (did @ '' includes key material'')) (\<lambda>_.
     rbind (pl_require_bool (dget policy ''mnemonic_included'') (did @ ''.no_secret_policy.mnemonic_included'')) (\<lambda>b.
     rbind (pl_check b (did @ '' includes a mnemonic'')) (\<lambda>_.
     rbind (pl_require_bool (dget policy ''production_payload'') (did @ ''.no_secret_policy.production_payload'')) (\<lambda>b.
     rbind (pl_check b (did @ '' claims production payload status'')) (\<lambda>_.
     rbind (pl_walk did (JDict document) did) (\<lambda>_. Inr NO_SECRETS))))))))"

text \<open>\<open>message[name]\<close> of the message under construction.\<close>

definition derive_drop_id :: "unicode \<Rightarrow> string \<Rightarrow> dict \<Rightarrow> string res" where
  "derive_drop_id U signer message =
     rbind (dsub message ''signerEpoch'') (\<lambda>epoch.
     rbind (dsub message ''nonce'') (\<lambda>nonce.
     rbind (dsub message ''salt'') (\<lambda>salt.
     rbind (abi_encode_static U (drop_id_fields signer epoch nonce salt)) (\<lambda>bs. Inr (keccak_hex bs)))))"

definition validate_typed_data :: "unicode \<Rightarrow> dict \<Rightarrow> string \<Rightarrow> string \<Rightarrow> unit res" where
  "validate_typed_data U typed_data token_data did =
     convert_checker_error
       (rbind (validate_types typed_data did) (\<lambda>_.
        rbind (validate_domain U typed_data did) (\<lambda>_.
        validate_message U typed_data token_data did)))"

definition sale_path :: "string \<Rightarrow> string \<Rightarrow> string" where
  "sale_path did name = did @ ''.sale.'' @ name"

definition domain_from_input :: "unicode \<Rightarrow> dict \<Rightarrow> string \<Rightarrow> dict res" where
  "domain_from_input U domain_input did =
     rbind (pl_require_uint U (dget domain_input ''chainId'') (did @ ''.domain.chainId'') None) (\<lambda>chain.
     rbind (pl_require_address (dget domain_input ''verifyingContract'') (did @ ''.domain.verifyingContract''))
       (\<lambda>verifying.
     Inr [(''name'', JStr EIP712_NAME), (''version'', JStr EIP712_VERSION), (''chainId'', JInt chain),
       (''verifyingContract'', JStr verifying)]))"

definition message_from_input :: "unicode \<Rightarrow> dict \<Rightarrow> string \<Rightarrow> string \<Rightarrow> int \<Rightarrow> dict res" where
  "message_from_input U sale did token_data sale_mode =
     (let address = (\<lambda>name. pl_require_address (dget sale name) (sale_path did name));
          number = (\<lambda>name. decimal_string U (dget sale name) (sale_path did name)) in
      rbind (address ''poster'') (\<lambda>poster.
      rbind (address ''recipient'') (\<lambda>recipient.
      rbind (address ''payer'') (\<lambda>payer.
      rbind (number ''collectionId'') (\<lambda>collection.
      rbind (number ''price'') (\<lambda>price.
      rbind (number ''quantity'') (\<lambda>quantity.
      rbind (number ''auctionReservePrice'') (\<lambda>reserve.
      rbind (number ''auctionEndTime'') (\<lambda>end_time.
      rbind (number ''salt'') (\<lambda>salt.
      rbind (number ''nonce'') (\<lambda>nonce.
      rbind (number ''deadline'') (\<lambda>deadline.
      rbind (number ''signerEpoch'') (\<lambda>epoch.
      Inr [(''dropId'', JStr (''0x'' @ replicate 64 (CHR ''0''))), (''poster'', JStr poster),
        (''recipient'', JStr recipient), (''payer'', JStr payer), (''collectionId'', JStr collection),
        (''saleMode'', JInt sale_mode), (''tokenDataHash'', JStr (keccak_text token_data)), (''price'', JStr price),
        (''quantity'', JStr quantity), (''auctionReservePrice'', JStr reserve), (''auctionEndTime'', JStr end_time),
        (''salt'', JStr salt), (''nonce'', JStr nonce), (''deadline'', JStr deadline),
        (''signerEpoch'', JStr epoch)])))))))))))))"

definition typed_data_of :: "dict \<Rightarrow> dict \<Rightarrow> dict" where
  "typed_data_of domain message =
     [(''types'', JDict [(''EIP712Domain'', fields_json EIP712_DOMAIN_FIELDS),
         (''DropAuthorization'', fields_json DROP_AUTHORIZATION_FIELDS)]),
      (''primaryType'', JStr ''DropAuthorization''), (''domain'', JDict domain), (''message'', JDict message)]"

definition typed_data_from_input :: "unicode \<Rightarrow> dict \<Rightarrow> string \<Rightarrow> (string \<times> string \<times> dict) res" where
  "typed_data_from_input U document did =
     rbind (pl_require_dict (dget document ''domain'') (did @ ''.domain'')) (\<lambda>domain_input.
     rbind (pl_require_dict (dget document ''sale'') (did @ ''.sale'')) (\<lambda>sale.
     rbind (pl_require_address (dget document ''signer'') (did @ ''.signer'')) (\<lambda>signer.
     rbind (pl_require_string (dget sale ''tokenData'') (did @ ''.sale.tokenData'')) (\<lambda>token_data.
     rbind (pl_require_string (dget sale ''mode'') (did @ ''.sale.mode'')) (\<lambda>mode_name.
     case map_of SALE_MODES mode_name of
       None \<Rightarrow> pl_fail (did @ ''.sale.mode must be one of: '' @ join '', '' (sort (map fst SALE_MODES)))
     | Some sale_mode \<Rightarrow>
       rbind (domain_from_input U domain_input did) (\<lambda>domain.
       rbind (message_from_input U sale did token_data sale_mode) (\<lambda>message.
       rbind (derive_drop_id U signer message) (\<lambda>drop_id.
       let typed_data = typed_data_of domain (dset message ''dropId'' (JStr drop_id)) in
       rbind (validate_typed_data U typed_data token_data did) (\<lambda>_.
       Inr (signer, token_data, typed_data))))))))))"

definition derived_json :: "string \<Rightarrow> derived \<Rightarrow> json" where
  "derived_json signer dv =
     JDict [(''signer'', JStr signer), (''drop_id'', JStr (dv_drop_id dv)),
       (''token_data_hash'', JStr (dv_token_data_hash dv)), (''domain_separator'', JStr (dv_domain_separator dv)),
       (''struct_hash'', JStr (dv_struct_hash dv)), (''digest'', JStr (dv_digest dv))]"

definition payload_source :: json where
  "payload_source = JDict
     [(''input_schema'', JStr INPUT_SCHEMA_VERSION),
      (''generator'', JStr ''tools/protocol/generate_drop_authorization_payload.py''),
      (''canonical_checker'', JStr ''tools/protocol/check_drop_authorization_fixtures.py''),
      (''adr'', JStr ''docs/adr/0001-drop-authorization.md'')]"

definition operator_notes :: json where
  "operator_notes = JList (map JStr
     [''Submit typed_data and token_data to an external signer or signing service.'',
      ''Retain the returned signature, signer identity, signer epoch, reviewer approval, and command evidence separately.'',
      ''This artifact is local no-secret tooling evidence and is not a production readiness claim.''])"

definition build_payload :: "unicode \<Rightarrow> dict \<Rightarrow> string \<Rightarrow> dict res" where
  "build_payload U document did =
     rbind (pl_check (dget document ''schema_version'' \<noteq> JStr INPUT_SCHEMA_VERSION)
       (did @ ''.schema_version mismatch'')) (\<lambda>_.
     rbind (pl_require_string (dget document ''description'') (did @ ''.description'')) (\<lambda>description.
     rbind (pl_validate_no_secret_policy document did) (\<lambda>no_secret_policy.
     rbind (typed_data_from_input U document did) (\<lambda>(signer, token_data, typed_data).
     rbind (compute_derived U typed_data token_data (JStr signer)) (\<lambda>dv.
     rbind (sub_path (JDict typed_data) [''message'', ''dropId'']) (\<lambda>drop_id.
     rbind (pl_check (drop_id \<noteq> JStr (dv_drop_id dv)) (did @ ''.dropId derivation mismatch'')) (\<lambda>_.
     rbind (sub_path (JDict typed_data) [''message'', ''tokenDataHash'']) (\<lambda>token_hash.
     rbind (pl_check (token_hash \<noteq> JStr (dv_token_data_hash dv)) (did @ ''.tokenDataHash mismatch'')) (\<lambda>_.
     Inr [(''schema_version'', JStr OUTPUT_SCHEMA_VERSION),
       (''generated_by'', JStr ''tools/protocol/generate_drop_authorization_payload.py:1''),
       (''description'', JStr description), (''source'', payload_source), (''no_secret_policy'', no_secret_policy),
       (''signing_status'', JStr ''unsigned''), (''typed_data'', JDict typed_data), (''token_data'', JStr token_data),
       (''derived'', derived_json signer dv), (''operator_notes'', operator_notes)])))))))))"

section \<open>What a payload is\<close>

lemma as_payload_Inr [res_simps]: "convert_checker_error r = Inr x \<longleftrightarrow> r = Inr x"
  by (simp add: convert_checker_error_def res_simps)

lemma pl_iffs [res_simps]:
  "pl_fail m = Inr x \<longleftrightarrow> False" "pl_check b m = Inr u \<longleftrightarrow> \<not> b"
  "pl_require_dict v f = Inr d \<longleftrightarrow> v = JDict d" "pl_require_string v f = Inr s \<longleftrightarrow> v = JStr s \<and> s \<noteq> []"
  "pl_require_bool v f = Inr b' \<longleftrightarrow> v = JBool b'"
  "pl_require_address v f = Inr a \<longleftrightarrow> (\<exists>s. v = JStr s \<and> ADDRESS_RE s \<and> a = lower s)"
  "pl_require_uint U v f None = Inr i \<longleftrightarrow> uint_value U v = Some i \<and> 0 \<le> i \<and> i \<le> UINT_MAX"
  by (simp_all add: pl_fail_def pl_check_def pl_require_dict_def pl_require_string_def pl_require_bool_def
      pl_require_address_def pl_require_uint_def res_simps)

lemma decimal_string_iff [res_simps]:
  "decimal_string U v f = Inr s \<longleftrightarrow> (\<exists>i. uint_value U v = Some i \<and> 0 \<le> i \<and> i \<le> UINT_MAX \<and> s = dec_int i)"
  by (auto simp: decimal_string_def res_simps)

section \<open>Decimal strings are read back\<close>

lemma utf8_points_ascii: "list_all (\<lambda>c. (of_char c :: nat) < 128) s \<Longrightarrow> utf8_points s = map of_char s"
  by (induction s) simp_all

lemma utf8_points_digits:
  assumes "list_all is_digit s"
  shows "utf8_points s = map of_char s"
proof (rule utf8_points_ascii)
  have "is_digit c \<Longrightarrow> (of_char c :: nat) < 128" for c by (simp add: is_digit_def)
  then show "list_all (\<lambda>c. (of_char c :: nat) < 128) s" using assms by (rule list.pred_mono_strong[rotated])
qed

lemma length_dec: "n < 10 ^ k \<Longrightarrow> 0 < k \<Longrightarrow> length (dec n) \<le> k"
proof (induction n arbitrary: k rule: dec.induct)
  case (1 n)
  show ?case
  proof (cases "n < 10")
    case True
    then show ?thesis using 1(3) by (simp add: dec.simps[of n])
  next
    case False
    then obtain j where k: "k = Suc j" "0 < j" using 1(2,3) by (cases k; cases "k - 1") auto
    then have "n div 10 < 10 ^ j" using 1(2) by (simp add: div_less_iff_less_mult mult.commute)
    then show ?thesis using 1(1)[OF False] False k by (simp add: dec.simps[of n])
  qed
qed

lemma takeWhile_True: "takeWhile (\<lambda>x. True) s = s"
  by (induction s) simp_all

lemma int_of_digits_ascii:
  assumes "wf_unicode U" and "list_all is_digit s" and "length s \<le> MAX_STR_DIGITS"
  shows "int_of_digits U s = Inr (dec_value s)"
proof -
  have c: "decimal_point U (of_char c) = Some (of_char c - 48)" if "c \<in> set s" for c
    using that assms(1,2) by (auto simp: wf_unicode_def list_all_iff is_digit_def)
  have "utf8_points s = map of_char s"
    using assms(2) by (rule utf8_points_digits)
  then have v: "map (decimal_point U) (utf8_points s) = map (\<lambda>c. Some (of_char c - 48)) s"
    by (simp add: c)
  have "foldl (\<lambda>n v. 10 * n + int (the v)) a (map (\<lambda>c. Some (of_char c - 48)) t) = foldl (\<lambda>n c. 10 * n + (of_char c - 48)) a t"
    if "list_all is_digit t" for a t
    using that by (induction t arbitrary: a) (auto simp: is_digit_def of_nat_diff of_nat_of_char)
  then show ?thesis
    using assms(2,3) unfolding int_of_digits_def v Let_def
    by (auto simp: takeWhile_map comp_def dec_value_def takeWhile_True)
qed

lemma uint_value_dec:
  assumes "wf_unicode U" and "0 \<le> i" and "i \<le> UINT_MAX"
  shows "uint_value U (JStr (dec_int i)) = Some i"
proof -
  have s: "dec_int i = dec (nat i)" using assms(2) by (simp add: dec_int_def)
  have "nat i < 10 ^ 78" using assms(2,3) by (simp add: UINT_MAX_def nat_less_iff)
  then have "length (dec (nat i)) \<le> MAX_STR_DIGITS" using length_dec[of "nat i" 78] by (simp add: MAX_STR_DIGITS_def)
  then have d: "int_of_digits U (dec (nat i)) = Inr i"
    using int_of_digits_ascii[OF assms(1) dec_digits] assms(2) by simp
  have "dec (nat i) \<noteq> []" using dec_shape[of "nat i"] by auto
  moreover have "list_all (digit_point U) (utf8_points (dec (nat i)))"
  proof -
    have "utf8_points (dec (nat i)) = map of_char (dec (nat i))"
      by (rule utf8_points_digits[OF dec_digits])
    moreover have "digit_point U (of_char c)" if "is_digit c" for c
      using that assms(1) by (auto simp: wf_unicode_def is_digit_def)
    ultimately show ?thesis using dec_digits[of "nat i"] by (auto simp: list_all_iff)
  qed
  ultimately show ?thesis by (simp add: uint_value_def is_digit_str_def s d)
qed

section \<open>From input to payload\<close>

definition SALE_NUMBERS :: "string list" where
  "SALE_NUMBERS = [''collectionId'', ''price'', ''quantity'', ''auctionReservePrice'', ''auctionEndTime'',
     ''salt'', ''nonce'', ''deadline'', ''signerEpoch'']"

definition SALE_ADDRESSES :: "string list" where
  "SALE_ADDRESSES = [''poster'', ''recipient'', ''payer'']"

text \<open>A message states the sale that the input asks for.\<close>

definition states_sale :: "unicode \<Rightarrow> dict \<Rightarrow> string \<Rightarrow> int \<Rightarrow> dict \<Rightarrow> bool" where
  "states_sale U sale token_data mode m \<longleftrightarrow>
     list_all (\<lambda>n. uint_value U (dget m n) = uint_value U (dget sale n) \<and> uint_value U (dget sale n) \<noteq> None) SALE_NUMBERS \<and>
     list_all (\<lambda>n. \<exists>s. dget sale n = JStr s \<and> dget m n = JStr (lower s)) SALE_ADDRESSES \<and>
     dget m ''saleMode'' = JInt mode \<and> dget m ''tokenDataHash'' = JStr (keccak_text token_data)"

lemma dget_entry: "dget ((k, v) # d) n = (if k = n then v else dget d n)"
  by (simp add: dget_def)

lemma decimal_string_states:
  assumes "wf_unicode U" and "decimal_string U v f = Inr s"
  shows "uint_value U (JStr s) = uint_value U v \<and> (\<exists>y. uint_value U v = Some y)"
  using assms(2) uint_value_dec[OF assms(1)] by (auto simp: decimal_string_iff)

text \<open>The texts of a message: 32-byte words and addresses in hexadecimal, numbers in decimal digits.\<close>

type_synonym hex32 = string
type_synonym hex20 = string
type_synonym digits = string

definition message_json :: "hex32 \<Rightarrow> hex20 \<Rightarrow> hex20 \<Rightarrow> hex20 \<Rightarrow> digits \<Rightarrow> int \<Rightarrow> hex32 \<Rightarrow> digits \<Rightarrow> digits \<Rightarrow> digits \<Rightarrow> digits \<Rightarrow>
    digits \<Rightarrow> digits \<Rightarrow> digits \<Rightarrow> digits \<Rightarrow> dict" where
  "message_json drop_id poster recipient payer collection mode token_hash price quantity reserve end_time salt nonce deadline epoch =
     [(''dropId'', JStr drop_id), (''poster'', JStr poster), (''recipient'', JStr recipient), (''payer'', JStr payer),
      (''collectionId'', JStr collection), (''saleMode'', JInt mode), (''tokenDataHash'', JStr token_hash),
      (''price'', JStr price), (''quantity'', JStr quantity), (''auctionReservePrice'', JStr reserve),
      (''auctionEndTime'', JStr end_time), (''salt'', JStr salt), (''nonce'', JStr nonce), (''deadline'', JStr deadline),
      (''signerEpoch'', JStr epoch)]"

lemma message_run:
  assumes "message_from_input U sale did tok mode = Inr m"
  obtains poster recipient payer collection price quantity reserve end_time salt nonce deadline epoch where
    "pl_require_address (dget sale ''poster'') (sale_path did ''poster'') = Inr poster"
    "pl_require_address (dget sale ''recipient'') (sale_path did ''recipient'') = Inr recipient"
    "pl_require_address (dget sale ''payer'') (sale_path did ''payer'') = Inr payer"
    "decimal_string U (dget sale ''collectionId'') (sale_path did ''collectionId'') = Inr collection"
    "decimal_string U (dget sale ''price'') (sale_path did ''price'') = Inr price"
    "decimal_string U (dget sale ''quantity'') (sale_path did ''quantity'') = Inr quantity"
    "decimal_string U (dget sale ''auctionReservePrice'') (sale_path did ''auctionReservePrice'') = Inr reserve"
    "decimal_string U (dget sale ''auctionEndTime'') (sale_path did ''auctionEndTime'') = Inr end_time"
    "decimal_string U (dget sale ''salt'') (sale_path did ''salt'') = Inr salt"
    "decimal_string U (dget sale ''nonce'') (sale_path did ''nonce'') = Inr nonce"
    "decimal_string U (dget sale ''deadline'') (sale_path did ''deadline'') = Inr deadline"
    "decimal_string U (dget sale ''signerEpoch'') (sale_path did ''signerEpoch'') = Inr epoch"
    "m = message_json (''0x'' @ replicate 64 (CHR ''0'')) poster recipient payer collection mode (keccak_text tok) price
       quantity reserve end_time salt nonce deadline epoch"
  using assms unfolding message_from_input_def Let_def rbind_eq_Inr sum.inject
  by (elim exE conjE) (rule that, assumption+, simp add: message_json_def)

lemma message_json_get:
  "dset (message_json d poster recipient payer collection mode token_hash price quantity reserve end_time salt nonce deadline epoch)
     ''dropId'' (JStr d') =
   message_json d' poster recipient payer collection mode token_hash price quantity reserve end_time salt nonce deadline epoch"
  by (simp add: message_json_def dset_def)

lemma message_from_input_states:
  assumes "wf_unicode U" and "message_from_input U sale did tok mode = Inr m"
  shows "states_sale U sale tok mode (dset m ''dropId'' (JStr h))"
  using assms(2)
proof (rule message_run, goal_cases)
  case (1 poster recipient payer collection price quantity reserve end_time salt nonce deadline epoch)
  note number = decimal_string_states[OF assms(1)]
  show ?case
    using 1(1-3) number[OF 1(4)] number[OF 1(5)] number[OF 1(6)] number[OF 1(7)] number[OF 1(8)] number[OF 1(9)]
      number[OF 1(10)] number[OF 1(11)] number[OF 1(12)]
    unfolding 1(13) message_json_get
    by (auto simp: states_sale_def SALE_NUMBERS_def SALE_ADDRESSES_def dget_entry message_json_def pl_iffs)
qed

lemma typed_data_run:
  assumes "typed_data_from_input U document did = Inr (signer, tok, td)"
  obtains domain_input sale mode_name mode domain message drop_id s where
    "dget document ''domain'' = JDict domain_input" "dget document ''sale'' = JDict sale"
    "dget document ''signer'' = JStr s" "ADDRESS_RE s" "signer = lower s"
    "dget sale ''tokenData'' = JStr tok" "dget sale ''mode'' = JStr mode_name" "map_of SALE_MODES mode_name = Some mode"
    "domain_from_input U domain_input did = Inr domain" "message_from_input U sale did tok mode = Inr message"
    "derive_drop_id U signer message = Inr drop_id" "td = typed_data_of domain (dset message ''dropId'' (JStr drop_id))"
    "validate_types td did = Inr ()" "validate_domain U td did = Inr ()" "validate_message U td tok did = Inr ()"
  using assms unfolding typed_data_from_input_def Let_def rbind_eq_Inr pl_iffs validate_typed_data_def as_payload_Inr
  by (auto simp: rbind_eq_Inr pl_iffs as_payload_Inr split: option.splits)

lemma typed_data_of_get:
  "dget (typed_data_of domain message) ''message'' = JDict message"
  "dget (typed_data_of domain message) ''domain'' = JDict domain"
  "dget (typed_data_of domain message) ''types'' =
     JDict [(''EIP712Domain'', fields_json EIP712_DOMAIN_FIELDS), (''DropAuthorization'', fields_json DROP_AUTHORIZATION_FIELDS)]"
  by (simp_all add: typed_data_of_def dget_entry)

lemma lower_lower [simp]: "lower (lower s) = lower s"
proof -
  have "lower_char (lower_char c) = lower_char c" for c
    by (simp add: lower_char_def is_upper_def)
  then show ?thesis by (simp add: lower_def)
qed

lemma derive_drop_id_compute:
  assumes "derive_drop_id U s m = Inr h" and "dget m' ''signerEpoch'' = dget m ''signerEpoch''"
    and "dget m' ''nonce'' = dget m ''nonce''" and "dget m' ''salt'' = dget m ''salt''"
  shows "compute_drop_id U s m' = Inr h"
  using assms by (auto simp: derive_drop_id_def compute_drop_id_def rbind_eq_Inr dsub_eq_Inr)

text \<open>The two comparisons of \<open>build_payload\<close> with the derived values never fail.\<close>

lemma derived_agrees:
  assumes "typed_data_from_input U document did = Inr (signer, tok, td)"
    and "compute_derived U td tok (JStr signer) = Inr dv"
  shows "sub_path (JDict td) [''message'', ''dropId''] = Inr (JStr (dv_drop_id dv))"
    and "sub_path (JDict td) [''message'', ''tokenDataHash''] = Inr (JStr (dv_token_data_hash dv))"
proof -
  from assms(1) obtain sale mode domain message drop_id s where r: "ADDRESS_RE s" "signer = lower s"
      "message_from_input U sale did tok mode = Inr message" "derive_drop_id U signer message = Inr drop_id"
      "td = typed_data_of domain (dset message ''dropId'' (JStr drop_id))"
    by (rule typed_data_run)
  let ?m = "dset message ''dropId'' (JStr drop_id)"
  have h: "map_of ?m ''dropId'' = Some (JStr drop_id)" "map_of ?m ''tokenDataHash'' = Some (JStr (keccak_text tok))"
    using r(3) by (auto simp: message_from_input_def Let_def rbind_eq_Inr)
  have "dv_drop_id dv = drop_id"
    using assms(2) r(2) derive_drop_id_compute[OF r(4), of ?m]
    by (auto simp: compute_derived_def Let_def rbind_eq_Inr fx_require_dict_iff fx_require_address_iff r(5) typed_data_of_get)
  moreover have "dv_token_data_hash dv = keccak_text tok"
    using assms(2) by (auto simp: compute_derived_def Let_def rbind_eq_Inr)
  moreover have "map_of td ''message'' = Some (JDict ?m)" by (simp add: r(5) typed_data_of_def)
  ultimately show "sub_path (JDict td) [''message'', ''dropId''] = Inr (JStr (dv_drop_id dv))"
    "sub_path (JDict td) [''message'', ''tokenDataHash''] = Inr (JStr (dv_token_data_hash dv))"
    using h by (simp_all add: subscript_def dsub_def)
qed

lemma typed_data_derived:
  assumes "typed_data_from_input U document did = Inr (signer, tok, td)"
  shows "\<exists>dv. compute_derived U td tok (JStr signer) = Inr dv"
proof -
  from assms obtain s where "ADDRESS_RE s" "signer = lower s" "validate_domain U td did = Inr ()" "validate_message U td tok did = Inr ()"
    by (rule typed_data_run)
  then show ?thesis using derived_total ADDRESS_RE_lower by blast
qed

lemma build_payload_iff:
  "(\<exists>payload. build_payload U document did = Inr payload) \<longleftrightarrow>
     dget document ''schema_version'' = JStr INPUT_SCHEMA_VERSION \<and>
     (\<exists>s. dget document ''description'' = JStr s \<and> s \<noteq> []) \<and>
     (\<exists>r. pl_validate_no_secret_policy document did = Inr r) \<and>
     (\<exists>r. typed_data_from_input U document did = Inr r)" (is "?l \<longleftrightarrow> ?r")
proof
  assume ?l
  then show ?r by (auto simp: build_payload_def rbind_eq_Inr pl_iffs)
next
  assume r: ?r
  then obtain signer tok td where t: "typed_data_from_input U document did = Inr (signer, tok, td)" by (metis prod_cases3)
  then obtain dv where d: "compute_derived U td tok (JStr signer) = Inr dv" using typed_data_derived by blast
  then show ?l
    using r t derived_agrees[OF t d]
    by (auto simp: build_payload_def rbind_eq_Inr pl_iffs simp del: sub_path.simps)
qed

lemma build_payload_run:
  assumes "build_payload U document did = Inr payload"
  obtains signer tok td dv where "typed_data_from_input U document did = Inr (signer, tok, td)"
    "compute_derived U td tok (JStr signer) = Inr dv" "dget payload ''typed_data'' = JDict td"
    "dget payload ''token_data'' = JStr tok" "dget payload ''derived'' = derived_json signer dv"
    "dget payload ''no_secret_policy'' = NO_SECRETS" "dget payload ''signing_status'' = JStr ''unsigned''"
  using assms unfolding build_payload_def pl_validate_no_secret_policy_def
  by (auto simp: rbind_eq_Inr pl_iffs dget_entry)

lemma typed_data_wf: "domain_from_input U d did = Inr domain \<Longrightarrow> message_from_input U sale did tok mode = Inr message \<Longrightarrow>
    wf_json (JDict (typed_data_of domain (dset message ''dropId'' (JStr h))))"
  by (auto simp: domain_from_input_def message_from_input_def Let_def rbind_eq_Inr typed_data_of_def fields_json_def
      EIP712_DOMAIN_FIELDS_def DROP_AUTHORIZATION_FIELDS_def dset_def)

section \<open>The checker accepts what the generator builds\<close>

lemma derived_form:
  assumes "compute_derived U td tok signer = Inr dv"
  shows "(\<exists>b. dv_drop_id dv = keccak_hex b) \<and> dv_token_data_hash dv = keccak_text tok \<and>
    (\<exists>b. dv_domain_separator dv = keccak_hex b) \<and> (\<exists>b. dv_struct_hash dv = keccak_hex b) \<and> (\<exists>b. dv_digest dv = keccak_hex b)"
  using assms unfolding compute_derived_def Let_def compute_drop_id_def compute_domain_separator_def compute_struct_hash_def compute_digest_def
  by (auto simp: rbind_eq_Inr)

lemma check_derived_ok: "dget expected k = JStr (keccak_hex b) \<Longrightarrow> check_derived expected fid k (keccak_hex b) = Inr ()"
  by (simp add: check_derived_def fx_require_bytes32_def fx_require_string_def keccak_hex_form BYTES32_RE_nonempty fx_check_def)

lemma check_all_derived_ok:
  assumes "compute_derived U td tok signer = Inr dv" and "dget expected ''drop_id'' = JStr (dv_drop_id dv)"
    and "dget expected ''token_data_hash'' = JStr (dv_token_data_hash dv)"
    and "dget expected ''domain_separator'' = JStr (dv_domain_separator dv)"
    and "dget expected ''struct_hash'' = JStr (dv_struct_hash dv)" and "dget expected ''digest'' = JStr (dv_digest dv)"
  shows "check_all_derived expected fid dv = Inr ()"
  using derived_form[OF assms(1)] assms(2-) by (auto simp: check_all_derived_def keccak_text_def check_derived_ok)

text \<open>The value a call sends along, and the expectations of a payload that was signed.\<close>

definition call_value :: "unicode \<Rightarrow> dict \<Rightarrow> int" where
  "call_value U m = (if num U m ''saleMode'' = 1 then num U m ''price'' else 0)"

definition signed_expected :: "dict \<Rightarrow> string \<Rightarrow> int \<Rightarrow> dict" where
  "signed_expected payload sig amount =
     (case dget payload ''derived'' of JDict d \<Rightarrow> d | _ \<Rightarrow> []) @
     [(''signature_kind'', JStr ''eoa_65_byte''), (''signature'', JStr sig),
      (''call'', JDict [(''function'', JStr ''mintDrop(DropAuthorization,string,bytes)''), (''msg_value_wei'', JInt amount)])]"

lemma lower_at_dget: "dget d k = JStr s \<Longrightarrow> lower_at d k = Inr (lower s)"
  by (simp add: lower_at_def dsub_dmem[OF dget_neq_JNull_dmem] lower_of_def)

lemma call_value_range:
  assumes "well_typed U DROP_AUTHORIZATION_FIELDS m"
  shows "0 \<le> call_value U m \<and> call_value U m \<le> UINT_MAX"
proof -
  have "(''price'', ''uint256'') \<in> set DROP_AUTHORIZATION_FIELDS" by (simp add: DROP_AUTHORIZATION_FIELDS_def)
  note f = well_typed_field[OF assms this]
  show ?thesis using uint_fits(3,5)[OF f(1) f(2)] by (simp add: call_value_def UINT_MAX_def)
qed

lemma check_call_ok:
  assumes "well_typed U DROP_AUTHORIZATION_FIELDS m" and "dget expected ''call'' =
      JDict [(''function'', JStr ''mintDrop(DropAuthorization,string,bytes)''), (''msg_value_wei'', JInt (call_value U m))]"
  shows "check_call U expected m fid = Inr ()"
proof -
  have "fx_require_uint U (JInt (call_value U m)) p UINT_MAX = Inr (call_value U m)" for p
    using call_value_range[OF assms(1)] by (simp add: fx_require_uint_iff uint_value_def)
  then show ?thesis
    using assms(2)
    by (simp add: check_call_def fx_require_dict_def dget_entry fx_check_def drop_message_fields[OF assms(1)]) (simp add: call_value_def)
qed

lemma signed_payload_ok:
  assumes "build_payload U document did = Inr payload" and "dget payload ''typed_data'' = JDict td"
    and "dget payload ''token_data'' = JStr tok" and "dget td ''message'' = JDict m"
    and "fx_HEX_RE sig" and "length sig = 132" and "dget fixture ''expected'' = JDict (signed_expected payload sig (call_value U m))"
  shows "validate_expected U fixture td tok fid = Inr ()"
proof -
  obtain signer dv where t: "typed_data_from_input U document did = Inr (signer, tok, td)"
    and d: "compute_derived U td tok (JStr signer) = Inr dv" and j: "dget payload ''derived'' = derived_json signer dv"
    using build_payload_run[OF assms(1)] assms(2,3) by (metis json.inject(3,5))
  obtain s where s: "ADDRESS_RE s" "signer = lower s" and v: "validate_message U td tok did = Inr ()"
    using t by (rule typed_data_run)
  have w: "well_typed U DROP_AUTHORIZATION_FIELDS m" and th: "addr m ''tokenDataHash'' = keccak_text tok"
    using v assms(4) by (auto simp: validate_message_iff)
  have i: "dget m ''dropId'' = JStr (dv_drop_id dv)"
  proof -
    have "dsub m ''dropId'' = Inr (JStr (dv_drop_id dv))"
      using derived_agrees(1)[OF t d] assms(4) by (auto simp: subscript_def dsub_def dget_def split: option.splits)
    then show ?thesis by (auto simp: dsub_eq_Inr)
  qed
  let ?e = "signed_expected payload sig (call_value U m)"
  have e: "dget ?e ''signer'' = JStr signer" "dget ?e ''drop_id'' = JStr (dv_drop_id dv)"
    "dget ?e ''token_data_hash'' = JStr (dv_token_data_hash dv)" "dget ?e ''domain_separator'' = JStr (dv_domain_separator dv)"
    "dget ?e ''struct_hash'' = JStr (dv_struct_hash dv)" "dget ?e ''digest'' = JStr (dv_digest dv)"
    "dget ?e ''signature_kind'' = JStr ''eoa_65_byte''" "dget ?e ''signature'' = JStr sig"
    "dget ?e ''call'' = JDict [(''function'', JStr ''mintDrop(DropAuthorization,string,bytes)''), (''msg_value_wei'', JInt (call_value U m))]"
    by (simp_all add: signed_expected_def j derived_json_def dget_entry)
  have "fx_require_address (JStr signer) p = Inr signer" for p
    using s ADDRESS_RE_lower[OF s(1)] by (simp add: fx_require_address_def fx_require_string_def ADDRESS_RE_nonempty)
  moreover have "check_signature ?e fid = Inr ()"
    using assms(5,6) by (simp add: check_signature_def e fx_require_string_def fx_require_hex_def fx_HEX_RE_def fx_check_def)
      (auto simp: fx_check_def)
  moreover have "lower_at m ''dropId'' = Inr (lower (dv_drop_id dv))" "lower_at ?e ''drop_id'' = Inr (lower (dv_drop_id dv))"
    "lower_at m ''tokenDataHash'' = Inr (keccak_text tok)" "lower_at ?e ''token_data_hash'' = Inr (keccak_text tok)"
    using lower_at_dget[OF i] lower_at_dget[OF e(2)] drop_message_fields(4)[OF w] th lower_at_dget[OF e(3)] derived_form[OF d]
    by (simp_all add: keccak_text_def keccak_hex_form)
  ultimately show ?thesis
    using check_all_derived_ok[OF d e(2-6)] check_call_ok[OF w e(9)]
    by (simp add: validate_expected_def assms(4,7) e(1) fx_require_dict_def d fx_check_def)
qed

section \<open>What the generator accepts\<close>

definition is_uint :: "unicode \<Rightarrow> json \<Rightarrow> bool" where
  "is_uint U v \<longleftrightarrow> (case uint_value U v of None \<Rightarrow> False | Some i \<Rightarrow> 0 \<le> i \<and> i \<le> UINT_MAX)"

definition is_address :: "json \<Rightarrow> bool" where
  "is_address v \<longleftrightarrow> (case v of JStr s \<Rightarrow> ADDRESS_RE s | _ \<Rightarrow> False)"

definition is_text :: "json \<Rightarrow> bool" where
  "is_text v \<longleftrightarrow> (case v of JStr s \<Rightarrow> s \<noteq> [] | _ \<Rightarrow> False)"

definition mode_of :: "dict \<Rightarrow> int option" where
  "mode_of sale = (case dget sale ''mode'' of JStr s \<Rightarrow> map_of SALE_MODES s | _ \<Rightarrow> None)"

definition sale_ok :: "unicode \<Rightarrow> dict \<Rightarrow> bool" where
  "sale_ok U sale \<longleftrightarrow>
     is_text (dget sale ''tokenData'') \<and> list_all (\<lambda>n. is_address (dget sale n)) SALE_ADDRESSES \<and>
     list_all (\<lambda>n. is_uint U (dget sale n)) SALE_NUMBERS \<and>
     (case mode_of sale of None \<Rightarrow> False | Some mode \<Rightarrow> terms U sale mode)"

definition input_ok :: "unicode \<Rightarrow> dict \<Rightarrow> bool" where
  "input_ok U document \<longleftrightarrow>
     (case (dget document ''domain'', dget document ''sale'') of
        (JDict domain, JDict sale) \<Rightarrow>
          is_uint U (dget domain ''chainId'') \<and> is_address (dget domain ''verifyingContract'') \<and> sale_ok U sale
      | _ \<Rightarrow> False) \<and> is_address (dget document ''signer'')"

lemma is_iffs:
  "is_uint U v \<longleftrightarrow> (\<exists>i. uint_value U v = Some i \<and> 0 \<le> i \<and> i \<le> UINT_MAX)"
  "is_address v \<longleftrightarrow> (\<exists>s. v = JStr s \<and> ADDRESS_RE s)" "is_text v \<longleftrightarrow> (\<exists>s. v = JStr s \<and> s \<noteq> [])"
  by (auto simp: is_uint_def is_address_def is_text_def split: option.splits json.splits)

lemma is_address_Inr: "is_address v \<longleftrightarrow> (\<exists>a. pl_require_address v p = Inr a)"
  by (auto simp: is_iffs pl_iffs)

lemma is_uint_Inr: "is_uint U v \<longleftrightarrow> (\<exists>s. decimal_string U v p = Inr s)"
  by (auto simp: is_iffs decimal_string_iff)

lemma message_from_input_total:
  assumes "list_all (\<lambda>n. is_address (dget sale n)) SALE_ADDRESSES" and "list_all (\<lambda>n. is_uint U (dget sale n)) SALE_NUMBERS"
  shows "\<exists>m. message_from_input U sale did tok mode = Inr m"
proof -
  have a: "\<exists>a. pl_require_address (dget sale n) (sale_path did n) = Inr a" if "n \<in> set SALE_ADDRESSES" for n
    using assms(1) that is_address_Inr by (auto simp: list_all_iff)
  have d: "\<exists>a. decimal_string U (dget sale n) (sale_path did n) = Inr a" if "n \<in> set SALE_NUMBERS" for n
    using assms(2) that is_uint_Inr by (auto simp: list_all_iff)
  show ?thesis
    using a[of "''poster''"] a[of "''recipient''"] a[of "''payer''"] d[of "''collectionId''"] d[of "''price''"]
      d[of "''quantity''"] d[of "''auctionReservePrice''"] d[of "''auctionEndTime''"] d[of "''salt''"] d[of "''nonce''"]
      d[of "''deadline''"] d[of "''signerEpoch''"]
    by (simp add: SALE_ADDRESSES_def SALE_NUMBERS_def message_from_input_def Let_def) (elim exE, simp)
qed

text \<open>A message that states a sale has the types, and the terms, of that sale.\<close>

lemma states_sale_terms:
  assumes "states_sale U sale tok mode m"
  shows "terms U m mode' \<longleftrightarrow> terms U sale mode'" and "num U m ''saleMode'' = mode"
    and "addr m ''tokenDataHash'' = keccak_text tok"
proof -
  have n: "num U m n = num U sale n" if "n \<in> set SALE_NUMBERS" for n
    using assms that by (auto simp: states_sale_def list_all_iff num_def)
  have a: "addr m n = addr sale n" if "n \<in> set SALE_ADDRESSES" for n
    using assms that by (force simp: states_sale_def list_all_iff addr_def)
  show "terms U m mode' \<longleftrightarrow> terms U sale mode'"
    using n[of "''quantity''"] n[of "''auctionReservePrice''"] n[of "''auctionEndTime''"] n[of "''price''"]
      a[of "''poster''"] a[of "''recipient''"] a[of "''payer''"]
    by (simp add: SALE_NUMBERS_def SALE_ADDRESSES_def terms_def)
  show "num U m ''saleMode'' = mode" "addr m ''tokenDataHash'' = keccak_text tok"
    using assms by (simp_all add: states_sale_def num_def uint_value_def addr_def keccak_text_def keccak_hex_form)
qed

lemma fits_address: "pl_require_address v p = Inr a \<Longrightarrow> fits U ''address'' (JStr a)"
  by (auto simp: pl_iffs fits_def ADDRESS_RE_lower)

lemma fits_number: "wf_unicode U \<Longrightarrow> decimal_string U v p = Inr s \<Longrightarrow> fits U ''uint256'' (JStr s)"
  by (auto simp: decimal_string_iff fits_def uint_value_dec) (auto simp: UINT_MAX_def)

lemma message_well_typed:
  assumes "wf_unicode U" and "message_from_input U sale did tok mode = Inr m" and "BYTES32_RE h" and "mode = 1 \<or> mode = 2"
  shows "well_typed U DROP_AUTHORIZATION_FIELDS (dset m ''dropId'' (JStr h))"
  using assms(2)
proof (rule message_run, goal_cases)
  case (1 poster recipient payer collection price quantity reserve end_time salt nonce deadline epoch)
  note a = fits_address[OF 1(1)] fits_address[OF 1(2)] fits_address[OF 1(3)]
  note number = fits_number[OF assms(1)]
  note n = number[OF 1(4)] number[OF 1(5)] number[OF 1(6)] number[OF 1(7)] number[OF 1(8)] number[OF 1(9)]
      number[OF 1(10)] number[OF 1(11)] number[OF 1(12)]
  have "fits U ''bytes32'' (JStr h)" "fits U ''bytes32'' (JStr (keccak_text tok))" "fits U ''uint8'' (JInt mode)"
    using assms(3,4) by (auto simp: fits_def keccak_text_def keccak_hex_form uint_value_def)
  then show ?case
    using a n unfolding 1(13) message_json_get
    by (auto simp: well_typed_def DROP_AUTHORIZATION_FIELDS_def message_json_def dget_entry dkeys_def)
qed

lemma mode_cases: "map_of SALE_MODES s = Some mode \<Longrightarrow> s \<noteq> [] \<and> (mode = 1 \<or> mode = 2)"
  by (auto simp: SALE_MODES_def split: if_splits)

lemma domain_from_input_fits:
  assumes "wf_unicode U" and "domain_from_input U d did = Inr domain"
  shows "dget domain ''name'' = JStr EIP712_NAME \<and> dget domain ''version'' = JStr EIP712_VERSION \<and>
    set (dkeys domain) = set (map fst EIP712_DOMAIN_FIELDS) \<and>
    fits U ''uint256'' (dget domain ''chainId'') \<and> fits U ''address'' (dget domain ''verifyingContract'')"
  using assms(2)
  by (auto simp: domain_from_input_def rbind_eq_Inr pl_iffs dget_entry dkeys_def EIP712_DOMAIN_FIELDS_def fits_def
      uint_value_def UINT_MAX_def ADDRESS_RE_lower)

lemma validate_types_ok: "validate_types (typed_data_of domain message) did = Inr ()"
proof -
  have "wf_json (fields_json EIP712_DOMAIN_FIELDS)" "wf_json (fields_json DROP_AUTHORIZATION_FIELDS)" by code_simp+
  then show ?thesis
    by (simp add: validate_types_def typed_data_of_get fx_require_dict_def dget_entry py_eq_refl fx_check_def)
      (simp add: typed_data_of_def dget_entry)
qed

lemma typed_data_accepts:
  assumes "wf_unicode U" and "input_ok U document"
  shows "\<exists>r. typed_data_from_input U document did = Inr r"
proof -
  obtain d sale s tok mode_name mode where doc: "dget document ''domain'' = JDict d" "dget document ''sale'' = JDict sale"
      "dget document ''signer'' = JStr s" "ADDRESS_RE s"
    and u: "is_uint U (dget d ''chainId'')" "is_address (dget d ''verifyingContract'')"
    and tok: "dget sale ''tokenData'' = JStr tok" "tok \<noteq> []"
    and fs: "list_all (\<lambda>n. is_address (dget sale n)) SALE_ADDRESSES" "list_all (\<lambda>n. is_uint U (dget sale n)) SALE_NUMBERS"
    and mode: "dget sale ''mode'' = JStr mode_name" "map_of SALE_MODES mode_name = Some mode" and t: "terms U sale mode"
    using assms(2)
    by (auto simp: input_ok_def sale_ok_def is_iffs(2,3) mode_of_def split: json.splits option.splits)
  obtain c v where "pl_require_uint U (dget d ''chainId'') (did @ ''.domain.chainId'') None = Inr c"
    "pl_require_address (dget d ''verifyingContract'') (did @ ''.domain.verifyingContract'') = Inr v"
    using u by (auto simp: is_iffs pl_iffs)
  then obtain domain where domain: "domain_from_input U d did = Inr domain" by (simp add: domain_from_input_def)
  obtain m where m: "message_from_input U sale did tok mode = Inr m" using message_from_input_total[OF fs] by blast
  have md: "mode = 1 \<or> mode = 2" using mode_cases[OF mode(2)] by simp
  have "BYTES32_RE (''0x'' @ replicate 64 (CHR ''0''))" by code_simp
  from message_well_typed[OF assms(1) m this md] have "well_typed U DROP_AUTHORIZATION_FIELDS m"
    using message_run[OF m] message_json_get by metis
  from compute_drop_id_total[OF this ADDRESS_RE_lower[OF doc(4)]]
  obtain bs where "compute_drop_id U (lower s) m = Inr (keccak_hex bs)" by blast
  moreover have "dmem ''signerEpoch'' m" "dmem ''nonce'' m" "dmem ''salt'' m"
    using \<open>well_typed U DROP_AUTHORIZATION_FIELDS m\<close> by (auto simp: well_typed_def dmem_def dkeys_def DROP_AUTHORIZATION_FIELDS_def)
  ultimately have id: "derive_drop_id U (lower s) m = Inr (keccak_hex bs)"
    by (simp add: derive_drop_id_def compute_drop_id_def dsub_dmem)
  let ?m = "dset m ''dropId'' (JStr (keccak_hex bs))"
  have w: "well_typed U DROP_AUTHORIZATION_FIELDS ?m"
    by (rule message_well_typed[OF assms(1) m keccak_hex_form(1) md])
  note st = states_sale_terms[OF message_from_input_states[OF assms(1) m, of "keccak_hex bs"]]
  have "sale_terms U ?m" unfolding sale_terms_def st(1,2) by (rule t)
  then have "validate_message U (typed_data_of domain ?m) tok did = Inr ()"
    using w st(3) by (simp add: validate_message_iff typed_data_of_get)
  moreover have "validate_domain U (typed_data_of domain ?m) did = Inr ()"
    using domain_from_input_fits[OF assms(1) domain] by (simp add: validate_domain_iff typed_data_of_get)
  moreover have "pl_require_dict (JDict x) p = Inr x" "pl_require_string (JStr tok) p = Inr tok"
    "pl_require_string (JStr mode_name) p = Inr mode_name" "pl_require_address (JStr s) p = Inr (lower s)" for x p
    using tok mode_cases[OF mode(2)] doc(4) by (simp_all add: pl_iffs)
  ultimately show ?thesis
    unfolding typed_data_from_input_def doc tok mode
    by (simp add: doc tok mode domain m id Let_def validate_typed_data_def validate_types_ok convert_checker_error_def)
qed

lemma typed_data_accepted:
  assumes "wf_unicode U" and "typed_data_from_input U document did = Inr (signer, tok, td)"
  shows "input_ok U document"
  using assms(2)
proof (rule typed_data_run, goal_cases)
  case (1 d sale mode_name mode domain m drop_id s)
  let ?m = "dset m ''dropId'' (JStr drop_id)"
  have md: "mode_of sale = Some mode" using 1(7,8) by (simp add: mode_of_def)
  have v: "sale_terms U ?m" using 1(15) by (auto simp: validate_message_iff 1(12) typed_data_of_get)
  note st = states_sale_terms[OF message_from_input_states[OF assms(1) 1(10), of drop_id]]
  have t: "terms U sale mode" using v unfolding sale_terms_def st(1,2) .
  have "is_uint U (dget d ''chainId'')" "is_address (dget d ''verifyingContract'')"
    using 1(9) by (auto simp: domain_from_input_def rbind_eq_Inr pl_iffs is_iffs)
  moreover have "list_all (\<lambda>n. is_address (dget sale n)) SALE_ADDRESSES \<and> list_all (\<lambda>n. is_uint U (dget sale n)) SALE_NUMBERS"
    using 1(10) by (rule message_run) (auto simp: SALE_ADDRESSES_def SALE_NUMBERS_def is_iffs pl_iffs decimal_string_iff)
  moreover have "is_text (dget sale ''tokenData'')"
    using assms(2) 1(2) by (auto simp: typed_data_from_input_def rbind_eq_Inr pl_iffs is_text_def split: option.splits)
  ultimately show ?case
    using t md 1(1-4) by (simp add: input_ok_def sale_ok_def is_iffs(2))
qed

lemma pl_walk_iff:
  "pl_walk did v path = Inr u \<longleftrightarrow> list_all harmless (spots v path)"
  "pl_walk_members did d path = Inr u \<longleftrightarrow> list_all harmless (member_spots d path)"
  "pl_walk_items did i vs path = Inr u \<longleftrightarrow> list_all harmless (item_spots i vs path)"
proof (induction did v path and did d path and did i vs path
    arbitrary: u and u and u rule: pl_walk_pl_walk_members_pl_walk_items.induct)
  case (3 did s path)
  then show ?case by (auto simp: harmless_def pl_fail_def)
next
  case (8 did key nested d path)
  then show ?case
    by (cases "SECRET_KEY_RE key \<and> \<not> policy_path path") (auto simp: Let_def harmless_def rbind_eq_Inr pl_fail_def)
next
  case (10 did i nested vs path)
  then show ?case by (auto simp: rbind_eq_Inr)
qed simp_all

definition policy_ok :: "dict \<Rightarrow> bool" where
  "policy_ok document \<longleftrightarrow>
     (case dget document ''no_secret_policy'' of
        JDict p \<Rightarrow> list_all (\<lambda>k. dget p k = JBool False) [''key_material_included'', ''mnemonic_included'', ''production_payload'']
      | _ \<Rightarrow> False)"

lemma pl_policy_iff:
  "(\<exists>r. pl_validate_no_secret_policy document did = Inr r) \<longleftrightarrow>
     policy_ok document \<and> list_all harmless (spots (JDict document) did)"
  by (cases "dget document ''no_secret_policy''")
    (auto simp: pl_validate_no_secret_policy_def policy_ok_def rbind_eq_Inr pl_iffs pl_walk_iff)

lemma build_payload_exact:
  assumes "wf_unicode U"
  shows "(\<exists>payload. build_payload U document did = Inr payload) \<longleftrightarrow>
     dget document ''schema_version'' = JStr INPUT_SCHEMA_VERSION \<and> is_text (dget document ''description'') \<and>
     policy_ok document \<and> list_all harmless (spots (JDict document) did) \<and> input_ok U document"
proof -
  have "(\<exists>r. typed_data_from_input U document did = Inr r) \<longleftrightarrow> input_ok U document"
    using typed_data_accepts[OF assms] typed_data_accepted[OF assms] by (metis prod_cases3)
  then show ?thesis unfolding build_payload_iff pl_policy_iff is_iffs by blast
qed

section \<open>Properties\<close>

text \<open>
  C13: The generator builds a payload from exactly the inputs that have its schema, a description,
  a policy with all flags false, no secret-like name or text outside the places the policy
  allows, well-typed fields, and the terms of a fixed-price sale or of an auction. In particular
  its two comparisons with the derived values and the checker's own checks never refuse an input.
\<close>

theorem build_payload_accepts_exactly:
  assumes "wf_unicode U"
  shows "(\<exists>payload. build_payload U document did = Inr payload) \<longleftrightarrow>
     dget document ''schema_version'' = JStr INPUT_SCHEMA_VERSION \<and> is_text (dget document ''description'') \<and>
     policy_ok document \<and> list_all harmless (spots (JDict document) did) \<and> input_ok U document"
  using assms by (rule build_payload_exact)

text \<open>
  C14: A payload asks for the sale its input describes, and nothing else: every number, address and
  the mode of the message are the input's, the token hash is that of the input's token data, and
  the digest in \<open>derived\<close> is the EIP-712 hash of the payload's typed data.
\<close>

theorem payload_states_sale:
  assumes "wf_unicode U" and "build_payload U document did = Inr payload"
  shows "\<exists>sale tok mode td m signer dv k. dget document ''sale'' = JDict sale \<and> dget sale ''tokenData'' = JStr tok \<and>
    mode_of sale = Some mode \<and> dget payload ''typed_data'' = JDict td \<and> dget payload ''token_data'' = JStr tok \<and>
    dget td ''message'' = JDict m \<and> states_sale U sale tok mode m \<and> sale_terms U m \<and>
    dget payload ''derived'' = derived_json signer dv \<and> eip712_digest U td = Some k \<and> dv_digest dv = ''0x'' @ bytes_hex k"
  using assms(2)
proof (rule build_payload_run, goal_cases)
  case (1 signer tok td dv)
  from 1(1) show ?case
  proof (rule typed_data_run, goal_cases)
    case (1 d sale mode_name mode domain m drop_id s)
    let ?m = "dset m ''dropId'' (JStr drop_id)"
    have "wf_json (JDict td)" using typed_data_wf[OF 1(9,10)] 1(12) by simp
    from derived_digest[OF this 1(13) \<open>compute_derived U td tok (JStr signer) = Inr dv\<close>]
    obtain k where "eip712_digest U td = Some k" "dv_digest dv = ''0x'' @ bytes_hex k" by blast
    moreover have "mode_of sale = Some mode" using 1(7,8) by (simp add: mode_of_def)
    moreover have "dget td ''message'' = JDict ?m" by (simp add: 1(12) typed_data_of_get)
    moreover from this have "sale_terms U ?m" using 1(15) by (auto simp: validate_message_iff)
    ultimately show ?case
      using message_from_input_states[OF assms(1) 1(10), of drop_id] 1(2,6) \<open>dget payload ''typed_data'' = JDict td\<close>
        \<open>dget payload ''token_data'' = JStr tok\<close> \<open>dget payload ''derived'' = derived_json signer dv\<close> by blast
  qed
qed

end
