(* ===== verification/Drop_Signing.thy ===== *)
theory Drop_Signing
  imports Drop_Payload
begin

text \<open>
  Generator and checker of drop authorizations together: a payload of
  \<open>tools/protocol/generate_drop_authorization_payload.py\<close>, once signed, is a fixture that
  \<open>tools/protocol/check_drop_authorization_fixtures.py\<close> accepts. The example input and the witnesses
  of the properties of both programs are at the end.
\<close>

section \<open>Texts without secrets\<close>

lemma secret_at_point: "secret_at xs \<Longrightarrow> \<exists>n \<in> set xs. n = 112 \<or> n = 109 \<or> n = 115"
proof -
  have p: "prefix (points_of (c # cs)) xs \<Longrightarrow> of_char c \<in> set xs" for c cs
    by (cases xs) (auto simp: points_of_def)
  assume "secret_at xs"
  then have "of_char (CHR ''p'') \<in> set xs \<or> of_char (CHR ''m'') \<in> set xs \<or> of_char (CHR ''s'') \<in> set xs"
    using p[of "CHR ''p''" "''rivate''"] p[of "CHR ''m''" "''nemonic''"] p[of "CHR ''s''" "''eed''"] p[of "CHR ''s''" "''ecret''"]
    by (auto simp: secret_at_def two_words_def)
  then show ?thesis by auto
qed

definition hex_text :: "string \<Rightarrow> bool" where
  "hex_text s \<longleftrightarrow> list_all (\<lambda>c. is_hex c \<or> c = CHR ''x'') s"

lemma hex_point:
  assumes "is_hex c \<or> c = CHR ''x''"
  shows "(of_char c :: nat) < 128 \<and> fold_point (of_char c) \<notin> {112, 109, 115}"
  using assms by (auto simp: is_hex_def digit_value_def fold_point_def Let_def split: if_splits)

lemma hex_text_plain: "hex_text s \<Longrightarrow> \<not> SECRET_KEY_RE s"
proof
  assume h: "hex_text s" and "SECRET_KEY_RE s"
  have "utf8_points s = map of_char s"
    by (rule utf8_points_ascii) (use h hex_point in \<open>auto simp: hex_text_def list_all_iff\<close>)
  then obtain t where "suffix t (map (\<lambda>c. fold_point (of_char c)) s)" "secret_at t"
    using \<open>SECRET_KEY_RE s\<close> by (auto simp: SECRET_KEY_RE_def list_ex_iff comp_def)
  then obtain n where "n \<in> set (map (\<lambda>c. fold_point (of_char c)) s)" "n = 112 \<or> n = 109 \<or> n = 115"
    using secret_at_point set_mono_suffix by blast
  then show False using h hex_point by (auto simp: hex_text_def list_all_iff)
qed

lemma hex_text_append [simp]: "hex_text (s @ t) \<longleftrightarrow> hex_text s \<and> hex_text t"
  by (simp add: hex_text_def)

lemma hex_text_0x: "take 2 s = ''0x'' \<Longrightarrow> list_all is_hex (drop 2 s) \<Longrightarrow> hex_text s"
proof -
  assume a: "take 2 s = ''0x''" "list_all is_hex (drop 2 s)"
  have "s = ''0x'' @ drop 2 s" using a(1) by (metis append_take_drop_id)
  moreover have "hex_text ''0x''" by code_simp
  moreover have "hex_text (drop 2 s)" using a(2) by (auto simp: hex_text_def list_all_iff)
  ultimately show "hex_text s" by (metis hex_text_append)
qed

lemma hex_texts:
  "ADDRESS_RE s \<Longrightarrow> hex_text s" "BYTES32_RE s \<Longrightarrow> hex_text s" "fx_HEX_RE s \<Longrightarrow> hex_text s"
  by (auto simp: ADDRESS_RE_def BYTES32_RE_def fx_HEX_RE_def intro: hex_text_0x)

lemma hex_text_dec: "hex_text (dec n)"
proof -
  have "is_digit c \<Longrightarrow> is_hex c" for c by (auto simp: is_digit_def is_hex_def digit_value_def)
  then show ?thesis using dec_digits[of n] by (auto simp: hex_text_def list_all_iff)
qed

lemma decimal_text: "decimal_string U v p = Inr s \<Longrightarrow> hex_text s"
  by (auto simp: decimal_string_iff dec_int_def hex_text_dec)

lemma address_text: "pl_require_address v p = Inr s \<Longrightarrow> hex_text s"
  by (auto simp: pl_iffs intro: hex_texts ADDRESS_RE_lower)

lemma hash_text: "hex_text (keccak_hex bs)"
  by (rule hex_texts(2)[OF keccak_hex_form(1)])

lemma contains_here: "contains n (a @ n @ b)"
proof (induction a)
  case Nil
  have "prefix n (n @ b)" by simp
  then show ?case by (cases "n @ b") (simp_all del: prefix_append)
qed simp

lemma harmless_text: "\<not> SECRET_KEY_RE s \<Longrightarrow> harmless (k, p, s)"
  by (simp add: harmless_def)

lemmas secret_defs = SECRET_KEY_RE_def fold_point_def secret_at_def two_words_def points_of_def

text \<open>The names and fixed texts of the documents.\<close>

lemma plain_names: "list_all (\<lambda>s. \<not> SECRET_KEY_RE s)
  [''types'', ''EIP712Domain'', ''DropAuthorization'', ''primaryType'', ''domain'', ''message'', ''name'', ''type'',
   ''version'', ''chainId'', ''verifyingContract'', ''string'', ''uint256'', ''uint8'', ''address'', ''bytes32'',
   ''dropId'', ''poster'', ''recipient'', ''payer'', ''collectionId'', ''saleMode'', ''tokenDataHash'', ''price'',
   ''quantity'', ''auctionReservePrice'', ''auctionEndTime'', ''salt'', ''nonce'', ''deadline'', ''signerEpoch'']"
  by (simp add: secret_defs)

lemma plain_texts: "list_all (\<lambda>s. \<not> SECRET_KEY_RE s)
  [''6529StreamDrops'', ''1'', ''schema_version'', ''fixture_id'', ''description'', ''source'', ''contract'', ''tests'', ''no_secret_policy'',
   ''typed_data'', ''token_data'', ''expected'', ''failure_cases'', ''signer'', ''drop_id'', ''token_data_hash'',
   ''domain_separator'', ''struct_hash'', ''digest'', ''signature_kind'', ''eoa_65_byte'', ''signature'', ''call'',
   ''function'', ''msg_value_wei'', ''6529stream.drop-authorization-fixture.v1'',
   ''smart-contracts/domains/mint/legacy/StreamDrops.sol'', ''mintDrop(DropAuthorization,string,bytes)'']"
  by (simp add: secret_defs)

lemmas plain = plain_names[unfolded list.pred_inject] plain_texts[unfolded list.pred_inject]

section \<open>A signed payload as a fixture\<close>

text \<open>The fixture made of a payload: its parts, a signature, and the call it authorises.\<close>

definition fixture_of :: "dict \<Rightarrow> string \<Rightarrow> string \<Rightarrow> int \<Rightarrow> dict" where
  "fixture_of payload fid sig amount =
     [(''schema_version'', JStr SCHEMA_VERSION), (''fixture_id'', JStr fid), (''description'', dget payload ''description''),
      (''source'', JDict [(''contract'', JStr ''smart-contracts/domains/mint/legacy/StreamDrops.sol''), (''tests'', JList [])]),
      (''no_secret_policy'', dget payload ''no_secret_policy''), (''typed_data'', dget payload ''typed_data''),
      (''token_data'', dget payload ''token_data''), (''expected'', JDict (signed_expected payload sig amount)),
      (''failure_cases'', JList [])]"

lemma fields_spots:
  "list_all harmless (spots (fields_json EIP712_DOMAIN_FIELDS) p)"
  "list_all harmless (spots (fields_json DROP_AUTHORIZATION_FIELDS) p)"
  by (simp_all add: fields_json_def EIP712_DOMAIN_FIELDS_def DROP_AUTHORIZATION_FIELDS_def harmless_text plain)

lemma domain_spots:
  assumes "domain_from_input U d did = Inr domain"
  shows "list_all harmless (member_spots domain p)"
  using assms hex_texts(1)[OF ADDRESS_RE_lower]
  by (auto simp: domain_from_input_def rbind_eq_Inr pl_iffs harmless_text plain EIP712_NAME_def EIP712_VERSION_def hex_text_plain)

lemma message_spots:
  assumes "message_from_input U sale did tok mode = Inr m" and "hex_text h"
  shows "list_all harmless (member_spots (dset m ''dropId'' (JStr h)) p)"
  using assms(1)
proof (rule message_run, goal_cases)
  case (1 poster recipient payer collection price quantity reserve end_time salt nonce deadline epoch)
  note t = hex_text_plain[OF address_text[OF 1(1)]] hex_text_plain[OF address_text[OF 1(2)]] hex_text_plain[OF address_text[OF 1(3)]]
    hex_text_plain[OF decimal_text[OF 1(4)]] hex_text_plain[OF decimal_text[OF 1(5)]] hex_text_plain[OF decimal_text[OF 1(6)]]
    hex_text_plain[OF decimal_text[OF 1(7)]] hex_text_plain[OF decimal_text[OF 1(8)]] hex_text_plain[OF decimal_text[OF 1(9)]]
    hex_text_plain[OF decimal_text[OF 1(10)]] hex_text_plain[OF decimal_text[OF 1(11)]] hex_text_plain[OF decimal_text[OF 1(12)]]
    hex_text_plain[OF assms(2)] hex_text_plain[OF hash_text]
  show ?case unfolding 1(13) message_json_get
    by (simp add: message_json_def harmless_text plain t keccak_text_def)
qed

lemma typed_data_spots:
  assumes "typed_data_from_input U document did = Inr (signer, tok, td)"
  shows "list_all harmless (member_spots td p)"
  using assms
proof (rule typed_data_run, goal_cases)
  case (1 d sale mode_name mode domain m drop_id s)
  have "hex_text drop_id" using 1(11) hash_text by (auto simp: derive_drop_id_def rbind_eq_Inr)
  then show ?case
    unfolding 1(12) typed_data_of_def
    by (simp add: harmless_text plain fields_spots domain_spots[OF 1(9)] message_spots[OF 1(10)])
qed

lemma expected_spots:
  assumes "compute_derived U td tok (JStr signer) = Inr dv" and "dget payload ''derived'' = derived_json signer dv"
    and "hex_text signer" and "hex_text sig"
  shows "list_all harmless (member_spots (signed_expected payload sig amount) p)"
proof -
  have "hex_text (dv_drop_id dv)" "hex_text (dv_token_data_hash dv)" "hex_text (dv_domain_separator dv)"
    "hex_text (dv_struct_hash dv)" "hex_text (dv_digest dv)"
    using derived_form[OF assms(1)] hash_text by (auto simp: keccak_text_def)
  then show ?thesis
    using assms(3,4) by (simp add: signed_expected_def assms(2) derived_json_def harmless_text plain hex_text_plain)
qed

lemma policy_path_dot: "policy_path (p @ ''.no_secret_policy'')"
  using contains_here[of "''no_secret_policy''" "p @ ''.''" "[]"] by (simp add: policy_path_def)

lemma description_path: "suffix ''.description'' (p @ ''.description'')"
  by (simp add: suffix_def)

lemma policy_spots: "list_all harmless (member_spots [(''key_material_included'', JBool False), (''mnemonic_included'', JBool False),
     (''production_payload'', JBool False)] (p @ ''.no_secret_policy''))"
  using policy_path_dot[of p] by (simp add: harmless_def)

lemma description_spot: "harmless (False, p @ ''.'' @ ''description'', s)"
  using description_path[of p] by (simp add: harmless_def)

lemma policy_spot: "harmless (True, p @ ''.'' @ ''no_secret_policy'', s)"
  using policy_path_dot[of p] by (simp add: harmless_def)

lemma item_spots_none: "list_all harmless (item_spots 0 [] p)"
  by simp

lemma payload_fixture_ok:
  assumes "build_payload U document did = Inr payload" and "dget payload ''typed_data'' = JDict td"
    and "dget td ''message'' = JDict m" and "dget payload ''token_data'' = JStr tok"
    and "fx_HEX_RE sig" and "length sig = 132" and "fid \<noteq> []" and "\<not> SECRET_KEY_RE fid" and "\<not> SECRET_KEY_RE tok"
  shows "validate_fixture U path fid (JDict (fixture_of payload fid sig (call_value U m))) = Inr (fid, [])"
proof -
  let ?f = "fixture_of payload fid sig (call_value U m)"
  obtain signer dv where t: "typed_data_from_input U document did = Inr (signer, tok, td)"
    and d: "compute_derived U td tok (JStr signer) = Inr dv" and j: "dget payload ''derived'' = derived_json signer dv"
    and np: "dget payload ''no_secret_policy'' = NO_SECRETS"
    using build_payload_run[OF assms(1)] assms(2,4) by (metis json.inject(3,5))
  obtain ds where desc: "dget payload ''description'' = JStr ds" "ds \<noteq> []"
    using assms(1) by (auto simp: build_payload_def rbind_eq_Inr pl_iffs dget_entry)
  obtain domain message s where td: "td = typed_data_of domain message"
    and v: "validate_domain U td did = Inr ()" "validate_message U td tok did = Inr ()" and s: "signer = lower s" "ADDRESS_RE s"
    using t by (rule typed_data_run)
  have tok: "tok \<noteq> []"
    using t by (auto simp: typed_data_from_input_def Let_def rbind_eq_Inr pl_iffs split: option.splits)
  have "hex_text signer" using hex_texts(1)[OF ADDRESS_RE_lower[OF s(2)]] s(1) by simp
  note e = expected_spots[OF d j this hex_texts(3)[OF assms(5)], of "call_value U m"]
  have "list_all harmless (member_spots ?f fid)"
    unfolding fixture_of_def np NO_SECRETS_def desc assms(2,4) member_spots.simps spots.simps list_all_append list.pred_inject SCHEMA_VERSION_def
    by (intro conjI typed_data_spots[OF t] e description_spot policy_spot item_spots_none assms(8,9);
        (rule harmless_text)?; simp add: plain assms(8,9))
  then have w: "secret_walk_members fid ?f fid = Inr ()" by (simp only: secret_walk_iff)
  have "dget ?f ''no_secret_policy'' = NO_SECRETS" by (simp add: fixture_of_def dget_entry np)
  then have "validate_no_secret_policy ?f fid = Inr ()"
    by (simp add: validate_no_secret_policy_def dget_entry NO_SECRETS_def fx_require_dict_def fx_require_bool_def fx_check_def w)
  moreover have "validate_expected U ?f td tok fid = Inr ()"
    by (rule signed_payload_ok[OF assms(1,2,4,3,5,6)]) (simp add: fixture_of_def dget_entry)
  moreover have "validate_types td fid = Inr ()" unfolding td by (rule validate_types_ok)
  moreover have "validate_domain U td fid = Inr ()" "validate_message U td tok fid = Inr ()"
    using v by (simp_all add: validate_domain_iff validate_message_iff)
  moreover have "dget ?f ''schema_version'' = JStr SCHEMA_VERSION" "dget ?f ''fixture_id'' = JStr fid"
    "dget ?f ''description'' = JStr ds" "dget ?f ''failure_cases'' = JList []"
    "dget ?f ''source'' = JDict [(''contract'', JStr ''smart-contracts/domains/mint/legacy/StreamDrops.sol''), (''tests'', JList [])]"
    "dget ?f ''typed_data'' = JDict td" "dget ?f ''token_data'' = JStr tok"
    by (simp_all add: fixture_of_def dget_entry assms(2,4) desc)
  ultimately show ?thesis
    using assms(7) tok desc(2)
    by (simp add: validate_fixture_def fx_require_dict_def fx_require_string_def fx_require_list_def fx_check_def
        dget_entry validate_failure_cases_def)
qed

lemma payload_fixture_wf:
  assumes "build_payload U document did = Inr payload"
  shows "wf_json (JDict (fixture_of payload fid sig amount))"
proof -
  obtain signer tok td dv where t: "typed_data_from_input U document did = Inr (signer, tok, td)"
    and p: "dget payload ''typed_data'' = JDict td" "dget payload ''token_data'' = JStr tok"
      "dget payload ''derived'' = derived_json signer dv" "dget payload ''no_secret_policy'' = NO_SECRETS"
    using build_payload_run[OF assms] by metis
  obtain ds where "dget payload ''description'' = JStr ds"
    using assms by (auto simp: build_payload_def rbind_eq_Inr pl_iffs dget_entry)
  moreover have "wf_json (JDict td)"
    using t by (rule typed_data_run) (simp only: typed_data_wf)
  ultimately show ?thesis
    using p by (simp add: fixture_of_def signed_expected_def derived_json_def NO_SECRETS_def)
qed

section \<open>Property\<close>

text \<open>
  C12: What the generator builds, the checker accepts: with any 65-byte signature, the fixture made
  of a payload, of the value its sale mode sends along (the price of a fixed-price sale, nothing
  for an auction) and of an id, neither the id nor the token data being secret-like, passes
  \<open>validate_fixture\<close>: schema, policy and scan, types, domain, message, all five derived hashes
  and the call.
\<close>

theorem signed_payload_accepted:
  assumes "build_payload U document did = Inr payload" and "dget payload ''typed_data'' = JDict td"
    and "dget td ''message'' = JDict m" and "dget payload ''token_data'' = JStr tok"
    and "fx_HEX_RE sig" and "length sig = 132" and "fid \<noteq> []" and "\<not> SECRET_KEY_RE fid" and "\<not> SECRET_KEY_RE tok"
  shows "validate_fixture U path fid (JDict (fixture_of payload fid sig (call_value U m))) = Inr (fid, [])"
  using assms by (rule payload_fixture_ok)

section \<open>Example\<close>

text \<open>The input \<open>test/fixtures/drop-authorization/payload-generator/fixed-price-input.json\<close>.\<close>

definition ascii_unicode :: unicode where
  "ascii_unicode = \<lparr>digit_point = (\<lambda>n. 48 \<le> n \<and> n \<le> 57),
     decimal_point = (\<lambda>n. if 48 \<le> n \<and> n \<le> 57 then Some (n - 48) else None)\<rparr>"

definition ex_document :: dict where
  "ex_document =
     [(''schema_version'', JStr ''6529stream.drop-authorization-payload-input.v1''),
      (''description'', JStr ''No-secret local fixed-price payload template for generating unsigned StreamDrops EIP-712 typed data.''),
      (''no_secret_policy'', JDict [(''key_material_included'', JBool False), (''mnemonic_included'', JBool False),
         (''production_payload'', JBool False)]),
      (''domain'', JDict [(''chainId'', JInt 31337),
         (''verifyingContract'', JStr ''0x100000000000000000000000000000000000dEaD'')]),
      (''signer'', JStr ''0xe05fcC23807536bEe418f142D19fa0d21BB0cfF7''),
      (''sale'', JDict [(''mode'', JStr ''fixed_price''), (''poster'', JStr ''0x0000000000000000000000000000000000001001''),
         (''recipient'', JStr ''0x0000000000000000000000000000000000005005''),
         (''payer'', JStr ''0x0000000000000000000000000000000000000000''), (''collectionId'', JStr ''1''),
         (''price'', JStr ''0''), (''quantity'', JStr ''1''), (''auctionReservePrice'', JStr ''0''),
         (''auctionEndTime'', JStr ''0''), (''salt'', JStr ''2''), (''nonce'', JStr ''1''),
         (''deadline'', JStr ''1893456000''), (''signerEpoch'', JStr ''1''), (''tokenData'', JStr ''data'')])]"

lemma wf_ascii_unicode: "wf_unicode ascii_unicode"
  by (auto simp: wf_unicode_def ascii_unicode_def split: if_splits)

lemma ex_input_ok: "input_ok ascii_unicode ex_document"
  by code_simp

lemma ex_policy_ok: "policy_ok ex_document"
  by code_simp

lemma plain_input: "list_all (\<lambda>s. \<not> SECRET_KEY_RE s)
  [''sale'', ''mode'', ''fixed_price'', ''tokenData'', ''data'',
   ''6529stream.drop-authorization-payload-input.v1'', ''production_payload'', ''key_material_included'', ''example'']"
  by (simp add: secret_defs)

lemma plain_input_hex: "list_all hex_text
  [''0x100000000000000000000000000000000000dEaD'', ''0xe05fcC23807536bEe418f142D19fa0d21BB0cfF7'',
   ''0x0000000000000000000000000000000000001001'', ''0x0000000000000000000000000000000000005005'',
   ''0x0000000000000000000000000000000000000000'', ''0'', ''1'', ''2'', ''1893456000'']"
  by code_simp

lemma ex_harmless: "list_all harmless (spots (JDict ex_document) ''input'')"
  unfolding ex_document_def member_spots.simps spots.simps list_all_append list.pred_inject
  by (intro conjI description_spot policy_spot;
      (rule harmless_text)?; simp add: plain plain_input[unfolded list.pred_inject]
        plain_input_hex[unfolded list.pred_inject] hex_text_plain)

lemma ex_built: "\<exists>payload. build_payload ascii_unicode ex_document ''input'' = Inr payload"
  using ex_input_ok ex_policy_ok ex_harmless unfolding build_payload_exact[OF wf_ascii_unicode]
  by (simp add: ex_document_def dget_entry INPUT_SCHEMA_VERSION_def is_text_def)

section \<open>Witnesses\<close>

text \<open>The properties of the two programs on the example.\<close>

theorem build_payload_accepts_exactly_witness:
  "wf_unicode ascii_unicode \<and> (\<exists>payload. build_payload ascii_unicode ex_document ''input'' = Inr payload)"
  using build_payload_accepts_exactly[OF wf_ascii_unicode, of ex_document "''input''"] wf_ascii_unicode ex_input_ok ex_policy_ok
    ex_harmless
  by (simp add: ex_document_def dget_entry INPUT_SCHEMA_VERSION_def is_text_def)

theorem payload_states_sale_witness:
  "\<exists>payload sale tok mode td m. build_payload ascii_unicode ex_document ''input'' = Inr payload \<and>
     dget ex_document ''sale'' = JDict sale \<and> dget payload ''typed_data'' = JDict td \<and>
     dget td ''message'' = JDict m \<and> states_sale ascii_unicode sale tok mode m \<and> sale_terms ascii_unicode m"
  using ex_built payload_states_sale[OF wf_ascii_unicode] by blast

lemma ex_parts:
  "\<exists>payload td m. build_payload ascii_unicode ex_document ''input'' = Inr payload \<and> dget payload ''typed_data'' = JDict td \<and>
     dget td ''message'' = JDict m \<and> dget payload ''token_data'' = JStr ''data''"
proof -
  obtain payload where b: "build_payload ascii_unicode ex_document ''input'' = Inr payload" using ex_built by blast
  obtain signer tok td dv where t: "typed_data_from_input ascii_unicode ex_document ''input'' = Inr (signer, tok, td)"
    and p: "dget payload ''typed_data'' = JDict td" "dget payload ''token_data'' = JStr tok"
    using build_payload_run[OF b] by metis
  obtain sale domain message where "dget ex_document ''sale'' = JDict sale" "dget sale ''tokenData'' = JStr tok"
    and "td = typed_data_of domain message"
    using t by (rule typed_data_run)
  then show ?thesis using b p by (auto simp: ex_document_def dget_entry typed_data_of_get)
qed

definition ex_signature :: string where
  "ex_signature = ''0x'' @ replicate 130 (CHR ''1'')"

lemma ex_signature_ok: "fx_HEX_RE ex_signature" "length ex_signature = 132"
  by (simp_all add: ex_signature_def fx_HEX_RE_def is_hex_def digit_value_def list_all_iff)

lemma ex_plain: "\<not> SECRET_KEY_RE ''example''" "\<not> SECRET_KEY_RE ''data''"
  using plain_input by simp_all

theorem signed_payload_accepted_witness:
  "\<exists>payload m. build_payload ascii_unicode ex_document ''input'' = Inr payload \<and>
     validate_fixture ascii_unicode ''example.json'' ''example''
       (JDict (fixture_of payload ''example'' ex_signature (call_value ascii_unicode m))) = Inr (''example'', [])"
  using ex_parts signed_payload_accepted[OF _ _ _ _ ex_signature_ok _ ex_plain] by blast

theorem fixture_digest_eip712_witness:
  "\<exists>fixture td expected s k. validate_fixture ascii_unicode ''example.json'' ''example'' (JDict fixture) = Inr (''example'', []) \<and>
     dget fixture ''typed_data'' = JDict td \<and> dget fixture ''expected'' = JDict expected \<and>
     dget expected ''digest'' = JStr s \<and> eip712_digest ascii_unicode td = Some k \<and> lower s = ''0x'' @ bytes_hex k"
proof -
  obtain payload td m where p: "build_payload ascii_unicode ex_document ''input'' = Inr payload" "dget payload ''typed_data'' = JDict td"
      "dget td ''message'' = JDict m" "dget payload ''token_data'' = JStr ''data''"
    using ex_parts by blast
  have "validate_fixture ascii_unicode ''example.json'' ''example''
      (JDict (fixture_of payload ''example'' ex_signature (call_value ascii_unicode m))) = Inr (''example'', [])"
    by (rule payload_fixture_ok[OF p ex_signature_ok _ ex_plain]) simp
  from fixture_digest_eip712[OF payload_fixture_wf[OF p(1)] this] this show ?thesis by blast
qed

lemma encode_static_same:
  assumes "fits U t v" and "fits U t v'" and "t \<in> {''address'', ''bytes32'', ''uint8'', ''uint256''}"
    and "static_value U (t, v) = static_value U (t, v')"
  shows "\<exists>w. encode_static U (t, v) = Inr w \<and> encode_static U (t, v') = Inr w"
proof -
  obtain w w' where w: "encode_static U (t, v) = Inr w" "encode_static U (t, v') = Inr w'"
    using fits_encoded[OF assms(1,3)] fits_encoded[OF assms(2,3)] by blast
  then have "w = w'" using encode_static_Inr[OF w(1)] encode_static_Inr[OF w(2)] assms(4) by auto
  with w show ?thesis by blast
qed

lemma address_static:
  assumes "lower s = lower s'"
  shows "static_value U (''address'', JStr s) = static_value U (''address'', JStr s')"
proof -
  have "unhex (drop 2 s) = unhex (drop 2 (lower s))" "unhex (drop 2 s') = unhex (drop 2 (lower s'))"
    by (simp_all add: drop_lower)
  then show ?thesis using assms by (simp add: static_value_def)
qed

lemma ex_encoded:
  "\<exists>bs. abi_encode_static ascii_unicode (drop_id_fields ''0x00000000000000000000000000000000000000aB'' (JInt 1) (JStr ''12'') (JInt 0)) = Inr bs \<and>
     abi_encode_static ascii_unicode (drop_id_fields ''0x00000000000000000000000000000000000000Ab'' (JStr ''01'') (JInt 12) (JStr ''0'')) = Inr bs"
proof -
  have h: "lower ''0x00000000000000000000000000000000000000aB'' = lower ''0x00000000000000000000000000000000000000Ab''"
    by (simp add: lower_def lower_char_def is_upper_def) code_simp
  have f: "fits ascii_unicode ''address'' (JStr ''0x00000000000000000000000000000000000000aB'')"
    "fits ascii_unicode ''address'' (JStr ''0x00000000000000000000000000000000000000Ab'')"
    by (simp_all add: fits_def ADDRESS_RE_def is_hex_def digit_value_def)
  have u: "uint_value ascii_unicode (JStr ''12'') = Some 12" "uint_value ascii_unicode (JStr ''01'') = Some 1"
    "uint_value ascii_unicode (JStr ''0'') = Some 0" by code_simp+
  then have g: "fits ascii_unicode ''uint256'' (JInt 1)" "fits ascii_unicode ''uint256'' (JStr ''01'')"
    "fits ascii_unicode ''uint256'' (JStr ''12'')" "fits ascii_unicode ''uint256'' (JInt 12)"
    "fits ascii_unicode ''uint256'' (JInt 0)" "fits ascii_unicode ''uint256'' (JStr ''0'')"
    by (simp_all add: fits_def uint_value_def)
  obtain a where "encode_static ascii_unicode (''address'', JStr ''0x00000000000000000000000000000000000000aB'') = Inr a"
    "encode_static ascii_unicode (''address'', JStr ''0x00000000000000000000000000000000000000Ab'') = Inr a"
    using encode_static_same[OF f] address_static[OF h] by auto
  moreover obtain e where "encode_static ascii_unicode (''uint256'', JInt 1) = Inr e"
    "encode_static ascii_unicode (''uint256'', JStr ''01'') = Inr e"
    using encode_static_same[OF g(1,2)] u by (auto simp: static_value_def uint_value_def)
  moreover obtain n where "encode_static ascii_unicode (''uint256'', JStr ''12'') = Inr n"
    "encode_static ascii_unicode (''uint256'', JInt 12) = Inr n"
    using encode_static_same[OF g(3,4)] u by (auto simp: static_value_def uint_value_def)
  moreover obtain t where "encode_static ascii_unicode (''uint256'', JInt 0) = Inr t"
    "encode_static ascii_unicode (''uint256'', JStr ''0'') = Inr t"
    using encode_static_same[OF g(5,6)] u by (auto simp: static_value_def uint_value_def)
  ultimately show ?thesis
    by (simp add: drop_id_fields_def keccak_text_def encode_keccak)
qed

theorem drop_id_preimage_injective_witness:
  "lower ''0x00000000000000000000000000000000000000aB'' = lower ''0x00000000000000000000000000000000000000Ab'' \<and>
   uint_value ascii_unicode (JInt 1) = uint_value ascii_unicode (JStr ''01'')"
  using ex_encoded drop_id_preimage_injective by blast

definition superscript_unicode :: unicode where
  "superscript_unicode = ascii_unicode\<lparr>digit_point := (\<lambda>n. n = 0xB2 \<or> (48 \<le> n \<and> n \<le> 57))\<rparr>"

theorem require_uint_escapes_witness:
  "wf_unicode superscript_unicode \<and>
   (\<exists>m. fx_require_uint superscript_unicode (JStr [CHR 0xC2, CHR 0xB2]) ''price'' UINT_MAX = Inl (ValueError m))"
proof
  have p: "utf8_points [CHR 0xC2, CHR 0xB2] = [0xB2]" by (simp add: cont_def)
  show "wf_unicode superscript_unicode"
    by (auto simp: wf_unicode_def superscript_unicode_def ascii_unicode_def split: if_splits)
  show "\<exists>m. fx_require_uint superscript_unicode (JStr [CHR 0xC2, CHR 0xB2]) ''price'' UINT_MAX = Inl (ValueError m)"
    by (rule require_uint_escapes) (simp_all add: p is_digit_str_def superscript_unicode_def ascii_unicode_def del: utf8_points.simps)
qed

definition unscanned_fixture :: dict where
  "unscanned_fixture =
     [(''no_secret_policy'', JDict [(''key_material_included'', JBool False), (''mnemonic_included'', JBool False),
         (''production_payload'', JBool False)]),
      (''private_key'', JStr ''0x01'')]"

theorem secret_scan_disabled_witness:
  "SECRET_KEY_RE ''private_key'' \<and> validate_no_secret_policy unscanned_fixture ''no_secret_policy-demo'' = Inr ()"
proof
  show "SECRET_KEY_RE ''private_key''" by (simp add: secret_defs)
  show "validate_no_secret_policy unscanned_fixture ''no_secret_policy-demo'' = Inr ()"
    by (rule secret_scan_disabled[where policy = "[(''key_material_included'', JBool False), (''mnemonic_included'', JBool False),
         (''production_payload'', JBool False)]"]) (simp_all add: unscanned_fixture_def dget_entry policy_path_def)
qed

end
