(* ===== verification/Manifest_Codec.thy ===== *)
theory Manifest_Codec
  imports Encoding Py_Values
begin

text \<open>
  The encodings of the system-manifest payload vector,
  \<open>tools/protocol/generate_system_manifest_payload_vector.py\<close>: the canonical JSON text of a
  payload (the RFC 8785 subset the payload schema allows), the ABI words and the root
  descriptor with its strict decoder. A document is the value \<open>json.loads\<close> gives, for one
  without floating-point numbers.
\<close>

section \<open>Canonical JSON\<close>

definition mv_fail :: "string \<Rightarrow> 'a res" where
  "mv_fail m = Inl (ManifestVectorError m)"

definition mv_check :: "bool \<Rightarrow> string \<Rightarrow> unit res" where
  "mv_check bad m = (if bad then mv_fail m else Inr ())"

text \<open>
  \<open>nfc\<close> is \<open>unicodedata.normalize("NFC", value)\<close>. A string without surrogates can always be
  encoded, so the check that follows it in the code has no branch here.
\<close>

definition validate_ijson_string :: "(string \<Rightarrow> string) \<Rightarrow> string \<Rightarrow> string \<Rightarrow> unit res" where
  "validate_ijson_string nfc v path =
     rbind (mv_check (has_surrogate v) (path @ '' contains a lone UTF-16 surrogate'')) (\<lambda>_.
     mv_check (nfc v \<noteq> v) (path @ '' is not NFC-normalized''))"

definition mv_jcs_short :: "nat \<Rightarrow> string option" where
  "mv_jcs_short = map_of [(0x08, [CHR 0x5C, CHR ''b'']), (0x09, [CHR 0x5C, CHR ''t'']), (0x0A, [CHR 0x5C, CHR ''n'']),
     (0x0C, [CHR 0x5C, CHR ''f'']), (0x0D, [CHR 0x5C, CHR ''r''])]"

definition mv_jcs_escape :: "char \<Rightarrow> string" where
  "mv_jcs_escape c =
     (let point = (of_char c :: nat) in
      if c = CHR 0x22 then [CHR 0x5C, CHR 0x22]
      else if c = CHR 0x5C then [CHR 0x5C, CHR 0x5C]
      else case mv_jcs_short point of Some e \<Rightarrow> e
           | None \<Rightarrow> if point \<le> 0x1F then [CHR 0x5C, CHR ''u''] @ hex4 point else [c])"

definition mv_jcs_quote :: "(string \<Rightarrow> string) \<Rightarrow> string \<Rightarrow> string \<Rightarrow> string res" where
  "mv_jcs_quote nfc v path =
     rbind (validate_ijson_string nfc v path) (\<lambda>_.
     Inr ([CHR 0x22] @ concat (map mv_jcs_escape v) @ [CHR 0x22]))"

text \<open>\<open>s.encode("utf-16-be")\<close>.\<close>

definition mv_utf16_unit :: "nat \<Rightarrow> byte list" where
  "mv_utf16_unit n = [of_nat (n div 256), of_nat (n mod 256)]"

definition mv_utf16_be :: "string \<Rightarrow> byte list" where
  "mv_utf16_be s = concat (map (\<lambda>n. if n < 65536 then mv_utf16_unit n
     else mv_utf16_unit (55296 + (n - 65536) div 1024) @ mv_utf16_unit (56320 + (n - 65536) mod 1024)) (utf8_points s))"

definition mv_utf16_sort_key :: "(string \<Rightarrow> string) \<Rightarrow> string \<Rightarrow> byte list res" where
  "mv_utf16_sort_key nfc v = rbind (validate_ijson_string nfc v ''object member name'') (\<lambda>_. Inr (mv_utf16_be v))"

text \<open>\<open>sorted(value, key=_utf16_sort_key)\<close>, with the value each name has.\<close>

definition sorted_members :: "(string \<Rightarrow> string) \<Rightarrow> dict \<Rightarrow> dict res" where
  "sorted_members nfc d =
     rbind (each (\<lambda>_ (k, v). mv_utf16_sort_key nfc k) 0 d) (\<lambda>keys.
     Inr (map snd (sort_key fst (zip keys d))))"

lemma sorted_members_set: "sorted_members nfc d = Inr e \<Longrightarrow> set e = set d"
proof -
  assume "sorted_members nfc d = Inr e"
  then obtain keys where each: "each (\<lambda>_ (k, v). mv_utf16_sort_key nfc k) 0 d = Inr keys"
    and e: "e = map snd (sort_key fst (zip keys d))"
    unfolding sorted_members_def rbind_eq_Inr by blast
  have k: "length keys = length d" using each by (rule each_length)
  have "set e = set (map snd (zip keys d))" unfolding e by (simp only: set_map set_sort)
  then show ?thesis using k by simp
qed

definition UINT53_MAX :: int where
  "UINT53_MAX = 2 ^ 53 - 1"

function mv_jcs_text :: "(string \<Rightarrow> string) \<Rightarrow> json \<Rightarrow> string \<Rightarrow> string res" where
  "mv_jcs_text nfc (JBool b) path = Inr (if b then ''true'' else ''false'')"
| "mv_jcs_text nfc (JInt i) path =
     (if i < 0 \<or> i > UINT53_MAX then mv_fail (path @ '' is outside the I-JSON safe-integer range'')
      else Inr (dec_int i))"
| "mv_jcs_text nfc (JStr s) path = mv_jcs_quote nfc s path"
| "mv_jcs_text nfc (JList vs) path =
     rbind (each (\<lambda>i v. mv_jcs_text nfc v (path @ ''['' @ dec i @ '']'')) 0 vs) (\<lambda>ts.
     Inr (''['' @ join '','' ts @ '']''))"
| "mv_jcs_text nfc (JDict d) path =
     rbind (each (\<lambda>_ (k, v). validate_ijson_string nfc k (path @ '' member name'')) 0 d) (\<lambda>_.
     rbind (sorted_members nfc d) (\<lambda>members.
     rbind (each (\<lambda>_ (k, v).
         rbind (mv_jcs_quote nfc k (path @ '' member name'')) (\<lambda>q.
         rbind (mv_jcs_text nfc v (path @ ''.'' @ k)) (\<lambda>t. Inr (q @ '':'' @ t)))) 0 members) (\<lambda>ts.
     Inr (''{'' @ join '','' ts @ ''}''))))"
| "mv_jcs_text nfc JNull path = mv_fail (path @ '' contains forbidden null'')"
  by pat_completeness auto
termination
proof (relation "measure (\<lambda>(nfc, v, path). size v)", goal_cases)
  case (2 nfc vs path i v)
  then show ?case by (induction vs) auto
next
  case (3 nfc d path u members i x k v q)
  then have "(k, v) \<in> set d" using sorted_members_set by blast
  then show ?case by (induction d) auto
qed simp

declare mv_jcs_text.simps [simp del]

definition mv_jcs_bytes :: "(string \<Rightarrow> string) \<Rightarrow> json \<Rightarrow> byte list res" where
  "mv_jcs_bytes nfc v = rbind (mv_jcs_text nfc v ''$'') (\<lambda>t. Inr (str_bytes t))"

section \<open>ABI words\<close>

text \<open>\<open>bytes.fromhex\<close>, which skips white space between the bytes.\<close>

definition hex_space :: "char \<Rightarrow> bool" where
  "hex_space c \<longleftrightarrow> of_char c = (32 :: nat) \<or> 9 \<le> (of_char c :: nat) \<and> (of_char c :: nat) \<le> 13"

fun fromhex_spaced :: "string \<Rightarrow> byte list option" where
  "fromhex_spaced [] = Some []"
| "fromhex_spaced [c] = (if hex_space c then Some [] else None)"
| "fromhex_spaced (c # d # s) =
     (if hex_space c then fromhex_spaced (d # s)
      else case (digit_value c, digit_value d) of
        (Some h, Some l) \<Rightarrow> map_option (\<lambda>bs. of_nat (16 * h + l) # bs) (fromhex_spaced s)
      | _ \<Rightarrow> None)"

definition mv_hex_bytes :: "json \<Rightarrow> nat \<Rightarrow> string \<Rightarrow> byte list res" where
  "mv_hex_bytes v n path =
     (case v of JStr s \<Rightarrow>
        if take 2 s \<noteq> ''0x'' then mv_fail (path @ '' must be 0x-prefixed hex'')
        else (case fromhex_spaced (drop 2 s) of None \<Rightarrow> mv_fail (path @ '' is malformed hex'')
              | Some decoded \<Rightarrow>
                  if length decoded \<noteq> n \<or> s \<noteq> ''0x'' @ bytes_hex decoded
                  then mv_fail (path @ '' must be lowercase fixed-width '' @ dec n @ ''-byte hex'')
                  else Inr decoded)
      | _ \<Rightarrow> mv_fail (path @ '' must be 0x-prefixed hex''))"

text \<open>The widths are those of Solidity's types, at most 256 bits, so that a value that fits has 32 bytes.\<close>

definition uint_word :: "json \<Rightarrow> nat \<Rightarrow> string \<Rightarrow> byte list res" where
  "uint_word v bits path =
     (case v of JInt i \<Rightarrow>
        if i < 0 \<or> i \<ge> 2 ^ bits then mv_fail (path @ '' does not fit uint'' @ dec bits)
        else Inr (to_bytes 32 (nat i))
      | _ \<Rightarrow> mv_fail (path @ '' must be an integer''))"

definition address_word :: "json \<Rightarrow> string \<Rightarrow> byte list res" where
  "address_word v path = rbind (mv_hex_bytes v 20 path) (\<lambda>bs. Inr (replicate 12 0 @ bs))"

definition bytes4_word :: "json \<Rightarrow> string \<Rightarrow> byte list res" where
  "bytes4_word v path = rbind (mv_hex_bytes v 4 path) (\<lambda>bs. Inr (bs @ replicate 28 0))"

definition bytes32_word :: "json \<Rightarrow> string \<Rightarrow> byte list res" where
  "bytes32_word v path = mv_hex_bytes v 32 path"

definition abi_path :: "nat \<Rightarrow> string \<Rightarrow> string" where
  "abi_path i kind = ''abi field '' @ dec i @ '' ('' @ kind @ '')''"

text \<open>The integer kinds are \<open>uint\<close> followed by a width in decimal digits.\<close>

definition abi_word :: "nat \<Rightarrow> string \<times> json \<Rightarrow> byte list res" where
  "abi_word i entry =
     (case entry of (kind, v) \<Rightarrow>
        if kind = ''bytes32'' then bytes32_word v (abi_path i kind)
        else if kind = ''address'' then address_word v (abi_path i kind)
        else if kind = ''bytes4'' then bytes4_word v (abi_path i kind)
        else if take 4 kind = ''uint'' then
          rbind (py_int (drop 4 kind)) (\<lambda>bits. uint_word v (nat bits) (abi_path i kind))
        else if kind = ''bool'' then
          (case v of JBool b \<Rightarrow> uint_word (JInt (of_bool b)) 8 (abi_path i kind)
           | _ \<Rightarrow> mv_fail (abi_path i kind @ '' must be boolean''))
        else mv_fail (''unsupported ABI kind: '' @ kind))"

definition mv_abi_encode_static :: "(string \<times> json) list \<Rightarrow> byte list res" where
  "mv_abi_encode_static entries = rbind (each abi_word 0 entries) (\<lambda>words. Inr (concat words))"

definition abi_encode_bytes32_array_prefix :: "(string \<times> json) list \<Rightarrow> string list \<Rightarrow> byte list res" where
  "abi_encode_bytes32_array_prefix prefix_fields values =
     (let offset = 32 * (length prefix_fields + 1) in
      rbind (mv_abi_encode_static (prefix_fields @ [(''uint256'', JInt (int offset))])) (\<lambda>head.
      rbind (uint_word (JInt (int (length values))) 256 ''dynamic bytes32 array length'') (\<lambda>count.
      rbind (each (\<lambda>_ x. bytes32_word (JStr x) ''dynamic bytes32 value'') 0 values) (\<lambda>tail.
      Inr (head @ count @ concat tail)))))"

section \<open>The root descriptor\<close>

definition MANIFEST_SCHEMA_VERSION :: int where
  "MANIFEST_SCHEMA_VERSION = 1"

definition CHUNK_PAYLOAD_BYTES :: nat where
  "CHUNK_PAYLOAD_BYTES = 24575"

definition MAX_MANIFEST_CHUNKS :: nat where
  "MAX_MANIFEST_CHUNKS = 32"

definition MAX_MANIFEST_PAYLOAD_BYTES :: nat where
  "MAX_MANIFEST_PAYLOAD_BYTES = 786400"

definition MAX_MANIFEST_ROOT_DESCRIPTOR_BYTES :: nat where
  "MAX_MANIFEST_ROOT_DESCRIPTOR_BYTES = 3328"

definition ROOT_DESCRIPTOR_DYNAMIC_OFFSET :: int where
  "ROOT_DESCRIPTOR_DYNAMIC_OFFSET = 224"

definition ROOT_DESCRIPTOR_MAGIC :: string where
  "ROOT_DESCRIPTOR_MAGIC = ''0x6c9d2530''"

definition PAYLOAD_SCHEMA_ID :: string where
  "PAYLOAD_SCHEMA_ID = ''0x8844b744a67cdcdb84ea3c6e3d686883da175820b9ff07a19cffa14bf62e6e81''"

definition CANONICALIZATION_ID :: string where
  "CANONICALIZATION_ID = ''0x886c7c89c308c459ca8a626e0ef36a5ea9f4c7a7b56aaf86c71a2ddf3b4f9044''"

definition chunk_fields :: "nat \<Rightarrow> dict \<Rightarrow> byte list res" where
  "chunk_fields i chunk =
     rbind (dsub chunk ''pointer'') (\<lambda>p.
     rbind (dsub chunk ''payload_length'') (\<lambda>l.
     rbind (dsub chunk ''payload_hash'') (\<lambda>h.
     mv_abi_encode_static [(''address'', p), (''uint32'', l), (''bytes32'', h)])))"

definition encode_root_descriptor :: "dict list \<Rightarrow> int \<Rightarrow> byte list res" where
  "encode_root_descriptor chunks total_bytes =
     (let count = length chunks in
      rbind (mv_check (count < 1 \<or> count > MAX_MANIFEST_CHUNKS) ''root descriptor chunk count is outside 1..32'') (\<lambda>_.
      rbind (mv_abi_encode_static
        [(''bytes4'', JStr ROOT_DESCRIPTOR_MAGIC), (''uint16'', JInt MANIFEST_SCHEMA_VERSION),
         (''bytes32'', JStr PAYLOAD_SCHEMA_ID), (''bytes32'', JStr CANONICALIZATION_ID),
         (''uint32'', JInt total_bytes), (''uint16'', JInt (int count)),
         (''uint256'', JInt ROOT_DESCRIPTOR_DYNAMIC_OFFSET)]) (\<lambda>head.
      rbind (uint_word (JInt (int count)) 256 ''root descriptor array length'') (\<lambda>size.
      rbind (each chunk_fields 0 chunks) (\<lambda>tails.
      let encoded = head @ size @ concat tails in
      rbind (mv_check (length encoded \<noteq> 256 + 96 * count \<or> length encoded > MAX_MANIFEST_ROOT_DESCRIPTOR_BYTES)
        ''root descriptor length violates its exact bound'') (\<lambda>_.
      Inr encoded))))))"

text \<open>\<open>int.from_bytes(word, "big")\<close> is \<^const>\<open>from_bytes\<close>.\<close>

definition decode_uint_word :: "byte list \<Rightarrow> nat \<Rightarrow> string \<Rightarrow> int res" where
  "decode_uint_word word bits path =
     rbind (mv_check (length word \<noteq> 32) (path @ '' is not one ABI word'')) (\<lambda>_.
     rbind (mv_check (int (from_bytes word) \<ge> 2 ^ bits) (path @ '' has nonzero uint'' @ dec bits @ '' high padding'')) (\<lambda>_.
     Inr (int (from_bytes word))))"

text \<open>The \<open>n\<close>-th word of a text of whole words.\<close>

definition word_at :: "byte list \<Rightarrow> nat \<Rightarrow> byte list" where
  "word_at encoded n = take 32 (drop (32 * n) encoded)"

definition chunk_row :: "string \<Rightarrow> int \<Rightarrow> string \<Rightarrow> dict" where
  "chunk_row pointer payload_length payload_hash =
     [(''pointer'', JStr pointer), (''payload_length'', JInt payload_length), (''payload_hash'', JStr payload_hash)]"

definition decode_chunk :: "byte list \<Rightarrow> nat \<Rightarrow> dict res" where
  "decode_chunk encoded index =
     (let cursor = 8 + 3 * index; address_word = word_at encoded cursor in
      rbind (mv_check (take 12 address_word \<noteq> replicate 12 0)
        (''chunk '' @ dec index @ '' address padding is noncanonical'')) (\<lambda>_.
      rbind (decode_uint_word (word_at encoded (cursor + 1)) 32 (''chunk '' @ dec index @ '' length'')) (\<lambda>payload_length.
      Inr (chunk_row (''0x'' @ bytes_hex (drop 12 address_word)) payload_length
        (''0x'' @ bytes_hex (word_at encoded (cursor + 2)))))))"

text \<open>The number of 32-byte slices \<open>range(0, len(encoded), 32)\<close> gives.\<close>

definition word_count :: "byte list \<Rightarrow> nat" where
  "word_count encoded = (length encoded + 31) div 32"

definition descriptor_json :: "int \<Rightarrow> dict list \<Rightarrow> dict" where
  "descriptor_json total_bytes chunks =
     [(''magic'', JStr ROOT_DESCRIPTOR_MAGIC), (''schema_version'', JInt MANIFEST_SCHEMA_VERSION),
      (''schema_id'', JStr PAYLOAD_SCHEMA_ID), (''canonicalization_id'', JStr CANONICALIZATION_ID),
      (''total_bytes'', JInt total_bytes), (''chunk_count'', JInt (int (length chunks))),
      (''chunks'', JList (map JDict chunks))]"

definition check_descriptor_head :: "byte list \<Rightarrow> (int \<times> int) res" where
  "check_descriptor_head encoded =
     rbind (mv_check (length encoded < 256 \<or> length encoded > MAX_MANIFEST_ROOT_DESCRIPTOR_BYTES)
       ''root descriptor code length is outside bounds'') (\<lambda>_.
     rbind (mv_check (length encoded mod 32 \<noteq> 0) ''root descriptor length is not word aligned'') (\<lambda>_.
     rbind (mv_check (drop 4 (word_at encoded 0) \<noteq> replicate 28 0) ''root descriptor bytes4 padding is noncanonical'') (\<lambda>_.
     rbind (decode_uint_word (word_at encoded 1) 16 ''schema version'') (\<lambda>schema_version.
     rbind (decode_uint_word (word_at encoded 4) 32 ''total bytes'') (\<lambda>total_bytes.
     rbind (decode_uint_word (word_at encoded 5) 16 ''declared chunk count'') (\<lambda>declared_count.
     rbind (decode_uint_word (word_at encoded 6) 256 ''chunk array offset'') (\<lambda>offset.
     rbind (mv_check (offset \<noteq> ROOT_DESCRIPTOR_DYNAMIC_OFFSET) ''root descriptor dynamic offset is not exactly 224'') (\<lambda>_.
     rbind (mv_check (''0x'' @ bytes_hex (take 4 (word_at encoded 0)) \<noteq> ROOT_DESCRIPTOR_MAGIC)
       ''root descriptor magic drifted'') (\<lambda>_.
     rbind (mv_check (schema_version \<noteq> MANIFEST_SCHEMA_VERSION) ''root descriptor schema version drifted'') (\<lambda>_.
     rbind (mv_check (''0x'' @ bytes_hex (word_at encoded 2) \<noteq> PAYLOAD_SCHEMA_ID \<or>
         ''0x'' @ bytes_hex (word_at encoded 3) \<noteq> CANONICALIZATION_ID)
       ''root descriptor schema/canonicalization ID drifted'') (\<lambda>_.
     rbind (mv_check (word_count encoded < 8) ''root descriptor omits its array length'') (\<lambda>_.
     Inr (total_bytes, declared_count)))))))))))))"

text \<open>The fields of a descriptor, before it is encoded again.\<close>

definition decode_descriptor_fields :: "byte list \<Rightarrow> (int \<times> dict list) res" where
  "decode_descriptor_fields encoded =
     rbind (check_descriptor_head encoded) (\<lambda>(total_bytes, declared_count).
     rbind (decode_uint_word (word_at encoded 7) 256 ''chunk array length'') (\<lambda>count.
     rbind (mv_check (count \<noteq> declared_count \<or> count < 1 \<or> count > int MAX_MANIFEST_CHUNKS)
       ''root descriptor count fields disagree or exceed bounds'') (\<lambda>_.
     rbind (mv_check (int (length encoded) \<noteq> 256 + 96 * count) ''root descriptor has truncation or trailing bytes'') (\<lambda>_.
     rbind (each (\<lambda>_ index. decode_chunk encoded index) 0 [0..<nat count]) (\<lambda>chunks.
     Inr (total_bytes, chunks))))))"

definition decode_root_descriptor :: "byte list \<Rightarrow> dict res" where
  "decode_root_descriptor encoded =
     rbind (decode_descriptor_fields encoded) (\<lambda>(total_bytes, chunks).
     rbind (encode_root_descriptor chunks total_bytes) (\<lambda>again.
     rbind (mv_check (again \<noteq> encoded) ''root descriptor is ABI-decodable but malleable'') (\<lambda>_.
     Inr (descriptor_json total_bytes chunks))))"

section \<open>Chunks\<close>

definition check_segment :: "nat \<Rightarrow> nat \<Rightarrow> byte list \<Rightarrow> unit res" where
  "check_segment count index segment =
     rbind (mv_check (index < count - 1 \<and> length segment \<noteq> CHUNK_PAYLOAD_BYTES)
       ''a non-final manifest chunk is not exactly 24575 bytes'') (\<lambda>_.
     mv_check (index = count - 1 \<and> \<not> (1 \<le> length segment \<and> length segment \<le> CHUNK_PAYLOAD_BYTES))
       ''the final manifest chunk length is invalid'')"

definition split_payload :: "byte list \<Rightarrow> byte list list res" where
  "split_payload canonical =
     (let total = length canonical;
          segments = map (\<lambda>i. take CHUNK_PAYLOAD_BYTES (drop (CHUNK_PAYLOAD_BYTES * i) canonical))
            [0..<(total + CHUNK_PAYLOAD_BYTES - 1) div CHUNK_PAYLOAD_BYTES] in
      rbind (mv_check (total < 1 \<or> total > MAX_MANIFEST_PAYLOAD_BYTES)
        ''canonical payload length is outside 1..786400'') (\<lambda>_.
      rbind (mv_check (length segments < 1 \<or> length segments > MAX_MANIFEST_CHUNKS)
        ''canonical payload requires more than 32 chunks'') (\<lambda>_.
      rbind (each (check_segment (length segments)) 0 segments) (\<lambda>_.
      Inr segments))))"

section \<open>Words read back\<close>

lemma mv_check_iff [res_simps]: "mv_check bad m = Inr u \<longleftrightarrow> \<not> bad"
  by (simp add: mv_check_def mv_fail_def)

lemma mv_fail_iff [res_simps]: "mv_fail m = Inr x \<longleftrightarrow> False"
  by (simp add: mv_fail_def)

lemma digit_char_no_space: "n < 16 \<Longrightarrow> \<not> hex_space (digit_char n)"
  by (simp add: hex_space_def digit_char.simps take_bit_nat_eq_self)

lemma fromhex_spaced_byte: "fromhex_spaced (byte_hex b @ s) = map_option (\<lambda>bs. b # bs) (fromhex_spaced s)"
  using byte_of_digits[of b] by (simp add: byte_hex_def digit_char_no_space del: of_nat_add of_nat_mult)

lemma fromhex_spaced_hex [simp]: "fromhex_spaced (bytes_hex bs) = Some bs"
  by (induction bs) (simp_all add: fromhex_spaced_byte)

lemma mv_hex_bytes_iff [res_simps]:
  "mv_hex_bytes v n path = Inr bs \<longleftrightarrow> v = JStr (''0x'' @ bytes_hex bs) \<and> length bs = n"
  by (auto simp: mv_hex_bytes_def mv_fail_def split: json.splits option.splits if_splits)

lemma uint_word_iff [res_simps]:
  "uint_word v bits path = Inr w \<longleftrightarrow> (\<exists>i. v = JInt i \<and> 0 \<le> i \<and> i < 2 ^ bits \<and> w = to_bytes 32 (nat i))"
  by (auto simp: uint_word_def mv_fail_def split: json.splits if_splits)

lemma from_bytes_less: "from_bytes bs < 256 ^ length bs"
proof (induction bs rule: rev_induct)
  case (snoc b bs)
  have "unat b < 256" by (rule unat_byte_less)
  moreover have "256 * from_bytes bs + 256 \<le> 256 * 256 ^ length bs" using snoc by simp
  ultimately show ?case by simp
qed (simp add: from_bytes_def)

lemma to_bytes_from_bytes: "to_bytes (length bs) (from_bytes bs) = bs"
proof (induction bs rule: rev_induct)
  case (snoc b bs)
  have "unat b < 256" by (rule unat_byte_less)
  then have "(256 * from_bytes bs + unat b) div 256 = from_bytes bs"
    by simp
  moreover have z: "(256 :: byte) = 0" by simp
  have "(256 :: byte) * x = 0" for x by (subst z) simp
  then have "(of_nat (256 * from_bytes bs + unat b) :: byte) = b" by simp
  ultimately show ?case using snoc by simp
qed simp

lemma from_to_bytes: "0 \<le> i \<Longrightarrow> i < 2 ^ 256 \<Longrightarrow> int (from_bytes (to_bytes 32 (nat i))) = i"
  by (simp add: from_bytes_to_bytes nat_less_iff)

lemma decode_uint_word_iff [res_simps]:
  "decode_uint_word w bits path = Inr i \<longleftrightarrow> length w = 32 \<and> i = int (from_bytes w) \<and> i < 2 ^ bits"
  by (auto simp: decode_uint_word_def rbind_eq_Inr mv_check_iff)

lemma decode_to_bytes:
  assumes "0 \<le> i" and "i < 2 ^ bits" and "bits \<le> 256"
  shows "decode_uint_word (to_bytes 32 (nat i)) bits path = Inr i"
proof -
  have "(2 :: int) ^ bits \<le> 2 ^ 256" using assms(3) by (rule power_increasing) simp
  then show ?thesis using assms from_to_bytes[of i] by (simp add: decode_uint_word_iff)
qed

lemma word_of_value: "length w = 32 \<Longrightarrow> to_bytes 32 (from_bytes w) = w"
  using to_bytes_from_bytes[of w] by simp

section \<open>The bytes of a descriptor\<close>

text \<open>The bytes a lower-case identifier stands for.\<close>

definition id_bytes :: "string \<Rightarrow> byte list" where
  "id_bytes s = the (unhex (drop 2 s))"

lemma id_bytes_hex:
  assumes "take 2 s = ''0x''" and "list_all is_hex_lower (drop 2 s)" and "even (length s)"
  shows "s = ''0x'' @ bytes_hex (id_bytes s)"
proof -
  have "list_all is_hex (drop 2 s)" using assms(2) by (auto simp: list_all_iff)
  moreover have "even (length (drop 2 s))" using assms(3) by simp
  ultimately obtain bs where bs: "unhex (drop 2 s) = Some bs" using unhex_defined by blast
  then have "bytes_hex bs = drop 2 s" using bytes_hex_unhex[OF bs] lower_hex_lower[OF assms(2)] by simp
  then show ?thesis using assms(1) bs append_take_drop_id[of 2 s] by (simp add: id_bytes_def)
qed

lemma magic_bytes: "ROOT_DESCRIPTOR_MAGIC = ''0x'' @ bytes_hex (id_bytes ROOT_DESCRIPTOR_MAGIC)"
  "length (id_bytes ROOT_DESCRIPTOR_MAGIC) = 4"
  by (rule id_bytes_hex) (code_simp, code_simp, code_simp, code_simp)

lemma schema_bytes: "PAYLOAD_SCHEMA_ID = ''0x'' @ bytes_hex (id_bytes PAYLOAD_SCHEMA_ID)"
  "length (id_bytes PAYLOAD_SCHEMA_ID) = 32"
  by (rule id_bytes_hex) (code_simp, code_simp, code_simp, code_simp)

lemma canonicalization_bytes: "CANONICALIZATION_ID = ''0x'' @ bytes_hex (id_bytes CANONICALIZATION_ID)"
  "length (id_bytes CANONICALIZATION_ID) = 32"
  by (rule id_bytes_hex) (code_simp, code_simp, code_simp, code_simp)

lemma abi_kinds:
  "abi_word i (''bytes32'', v) = bytes32_word v (abi_path i ''bytes32'')"
  "abi_word i (''address'', v) = address_word v (abi_path i ''address'')"
  "abi_word i (''bytes4'', v) = bytes4_word v (abi_path i ''bytes4'')"
  "abi_word i (''uint16'', v) = uint_word v 16 (abi_path i ''uint16'')"
  "abi_word i (''uint32'', v) = uint_word v 32 (abi_path i ''uint32'')"
  "abi_word i (''uint256'', v) = uint_word v 256 (abi_path i ''uint256'')"
proof -
  have "py_int ''16'' = Inr 16" "py_int ''32'' = Inr 32" "py_int ''256'' = Inr 256" by code_simp+
  then show "abi_word i (''bytes32'', v) = bytes32_word v (abi_path i ''bytes32'')"
    "abi_word i (''address'', v) = address_word v (abi_path i ''address'')"
    "abi_word i (''bytes4'', v) = bytes4_word v (abi_path i ''bytes4'')"
    "abi_word i (''uint16'', v) = uint_word v 16 (abi_path i ''uint16'')"
    "abi_word i (''uint32'', v) = uint_word v 32 (abi_path i ''uint32'')"
    "abi_word i (''uint256'', v) = uint_word v 256 (abi_path i ''uint256'')"
    by (simp_all add: abi_word_def)
qed

definition head_words :: "int \<Rightarrow> nat \<Rightarrow> byte list list" where
  "head_words total_bytes n =
     [id_bytes ROOT_DESCRIPTOR_MAGIC @ replicate 28 0, to_bytes 32 (nat MANIFEST_SCHEMA_VERSION), id_bytes PAYLOAD_SCHEMA_ID,
      id_bytes CANONICALIZATION_ID, to_bytes 32 (nat total_bytes), to_bytes 32 n,
      to_bytes 32 (nat ROOT_DESCRIPTOR_DYNAMIC_OFFSET)]"

definition descriptor_head :: "int \<Rightarrow> nat \<Rightarrow> byte list list" where
  "descriptor_head total_bytes n = head_words total_bytes n @ [to_bytes 32 n]"

text \<open>A chunk as its pointer, its length and its hash.\<close>

type_synonym chunk_bytes = "byte list \<times> int \<times> byte list"

definition wf_chunk :: "chunk_bytes \<Rightarrow> bool" where
  "wf_chunk r \<longleftrightarrow> (case r of (p, l, h) \<Rightarrow> length p = 20 \<and> 0 \<le> l \<and> l < 2 ^ 32 \<and> length h = 32)"

definition chunk_words :: "chunk_bytes \<Rightarrow> byte list list" where
  "chunk_words r = (case r of (p, l, h) \<Rightarrow> [replicate 12 0 @ p, to_bytes 32 (nat l), h])"

definition row_of :: "chunk_bytes \<Rightarrow> dict" where
  "row_of r = (case r of (p, l, h) \<Rightarrow> chunk_row (''0x'' @ bytes_hex p) l (''0x'' @ bytes_hex h))"

text \<open>The three members of a chunk that the descriptor holds.\<close>

definition descriptor_row :: "dict \<Rightarrow> dict" where
  "descriptor_row chunk =
     [(''pointer'', dget chunk ''pointer''), (''payload_length'', dget chunk ''payload_length''),
      (''payload_hash'', dget chunk ''payload_hash'')]"

definition descriptor_words :: "int \<Rightarrow> chunk_bytes list \<Rightarrow> byte list list" where
  "descriptor_words total_bytes rows = descriptor_head total_bytes (length rows) @ concat (map chunk_words rows)"

definition states_chunk :: "dict \<Rightarrow> chunk_bytes \<Rightarrow> bool" where
  "states_chunk chunk r \<longleftrightarrow> wf_chunk r \<and> descriptor_row chunk = row_of r"

lemma dsub_dget_str: "dsub d k = Inr v \<longleftrightarrow> dmem k d \<and> dget d k = v"
  by (auto simp: dsub_def dget_def dmem_iff split: option.splits)

lemma dget_JStr_mem: "dget d k = JStr s \<Longrightarrow> dmem k d" "dget d k = JInt i \<Longrightarrow> dmem k d"
  using dget_neq_JNull_dmem[of d k] by auto

lemma chunk_fields_iff:
  "chunk_fields i chunk = Inr w \<longleftrightarrow> (\<exists>r. states_chunk chunk r \<and> w = concat (chunk_words r))"
  by (auto simp: chunk_fields_def rbind_eq_Inr dsub_dget_str mv_abi_encode_static_def abi_kinds address_word_def
      bytes32_word_def mv_hex_bytes_iff uint_word_iff states_chunk_def wf_chunk_def chunk_words_def row_of_def
      chunk_row_def descriptor_row_def dest: dget_JStr_mem)

lemma each_list_all2: "each f i xs = Inr ys \<Longrightarrow> (\<And>j x y. f j x = Inr y \<Longrightarrow> P x y) \<Longrightarrow> list_all2 P xs ys"
  by (auto simp: each_eq_Inr list_all2_conv_all_nth)

lemma each_of_list_all2: "list_all2 P xs ys \<Longrightarrow> (\<And>j x y. P x y \<Longrightarrow> f j x = Inr (g y)) \<Longrightarrow> each f i xs = Inr (map g ys)"
  by (auto simp: each_eq_Inr list_all2_conv_all_nth)

lemma each_image:
  assumes "\<And>j x y. x \<in> set xs \<Longrightarrow> f j x = Inr y \<longleftrightarrow> (\<exists>r. P x r \<and> y = g r)"
  shows "each f i xs = Inr ys \<longleftrightarrow> (\<exists>rs. list_all2 P xs rs \<and> ys = map g rs)"
  using assms
proof (induction xs arbitrary: i ys)
  case (Cons x xs)
  have "each f i (x # xs) = Inr ys \<longleftrightarrow> (\<exists>r rs. P x r \<and> list_all2 P xs rs \<and> ys = g r # map g rs)"
    by (simp add: rbind_eq_Inr Cons) blast
  also have "\<dots> \<longleftrightarrow> (\<exists>rs. list_all2 P (x # xs) rs \<and> ys = map g rs)"
    unfolding list_all2_Cons1 by (metis list.simps(9))
  finally show ?case .
qed auto

lemma states_chunk_wf: "list_all2 states_chunk chunks rows \<Longrightarrow> list_all wf_chunk rows"
  by (auto simp: list_all_length list_all2_conv_all_nth states_chunk_def)

lemma chunk_words_length: "wf_chunk r \<Longrightarrow> list_all (\<lambda>w. length w = 32) (chunk_words r)"
  by (auto simp: wf_chunk_def chunk_words_def)

lemma descriptor_words_length:
  assumes "list_all wf_chunk rows"
  shows "list_all (\<lambda>w. length w = 32) (descriptor_words total_bytes rows)"
proof -
  have "list_all (\<lambda>w. length w = 32) (concat (map chunk_words rows))"
    using assms by (induction rows) (simp_all add: chunk_words_length)
  then show ?thesis
    by (simp add: descriptor_words_def descriptor_head_def head_words_def magic_bytes(2) schema_bytes(2) canonicalization_bytes(2))
qed

lemma concat_chunk_words: "concat (map (\<lambda>r. concat (chunk_words r)) rows) = concat (concat (map chunk_words rows))"
  by (induction rows) simp_all

lemma hex_of_bytes: "s = ''0x'' @ bytes_hex b \<Longrightarrow> length b = n \<Longrightarrow> mv_hex_bytes (JStr s) n p = Inr w \<longleftrightarrow> w = b"
  by (auto simp: mv_hex_bytes_iff)

lemma length_words: "list_all (\<lambda>w. length w = n) ws \<Longrightarrow> length (concat ws) = n * length ws"
  by (induction ws) auto

lemma length_chunk_words: "length (concat (map chunk_words rows)) = 3 * length rows"
  by (induction rows) (auto simp: chunk_words_def)

lemma length_descriptor_words: "length (descriptor_words total_bytes rows) = 8 + 3 * length rows"
  by (simp add: descriptor_words_def descriptor_head_def head_words_def length_chunk_words)

lemma length_descriptor:
  "list_all wf_chunk rows \<Longrightarrow> length (concat (descriptor_words total_bytes rows)) = 256 + 96 * length rows"
  using length_words[OF descriptor_words_length] by (simp add: length_descriptor_words)

lemma static_head:
  "mv_abi_encode_static
        [(''bytes4'', JStr ROOT_DESCRIPTOR_MAGIC), (''uint16'', JInt MANIFEST_SCHEMA_VERSION),
         (''bytes32'', JStr PAYLOAD_SCHEMA_ID), (''bytes32'', JStr CANONICALIZATION_ID),
         (''uint32'', JInt total_bytes), (''uint16'', JInt (int n)),
         (''uint256'', JInt ROOT_DESCRIPTOR_DYNAMIC_OFFSET)] = Inr h \<longleftrightarrow>
     0 \<le> total_bytes \<and> total_bytes < 2 ^ 32 \<and> n < 2 ^ 16 \<and> h @ to_bytes 32 n = concat (descriptor_head total_bytes n)"
proof -
  have b4: "bytes4_word (JStr ROOT_DESCRIPTOR_MAGIC) p = Inr w \<longleftrightarrow> w = id_bytes ROOT_DESCRIPTOR_MAGIC @ replicate 28 0" for p w
    by (auto simp: bytes4_word_def rbind_eq_Inr hex_of_bytes[OF magic_bytes])
  have s: "bytes32_word (JStr PAYLOAD_SCHEMA_ID) p = Inr w \<longleftrightarrow> w = id_bytes PAYLOAD_SCHEMA_ID" for p w
    by (simp add: bytes32_word_def hex_of_bytes[OF schema_bytes])
  have c: "bytes32_word (JStr CANONICALIZATION_ID) p = Inr w \<longleftrightarrow> w = id_bytes CANONICALIZATION_ID" for p w
    by (simp add: bytes32_word_def hex_of_bytes[OF canonicalization_bytes])
  have n: "int n < 65536 \<longleftrightarrow> n < 65536" by linarith
  show ?thesis
    by (auto simp: mv_abi_encode_static_def rbind_eq_Inr abi_kinds b4 s c uint_word_iff descriptor_head_def head_words_def
        MANIFEST_SCHEMA_VERSION_def ROOT_DESCRIPTOR_DYNAMIC_OFFSET_def n)
qed

lemma encode_root_descriptor_iff:
  "encode_root_descriptor chunks total_bytes = Inr e \<longleftrightarrow>
     (\<exists>rows. list_all2 states_chunk chunks rows \<and> e = concat (descriptor_words total_bytes rows)) \<and>
     1 \<le> length chunks \<and> length chunks \<le> MAX_MANIFEST_CHUNKS \<and> 0 \<le> total_bytes \<and> total_bytes < 2 ^ 32"
  (is "?L \<longleftrightarrow> ?R")
proof -
  let ?n = "length chunks"
  have tails: "each chunk_fields 0 chunks = Inr tails \<longleftrightarrow>
      (\<exists>rows. list_all2 states_chunk chunks rows \<and> tails = map (\<lambda>r. concat (chunk_words r)) rows)" for tails
    by (rule each_image) (rule chunk_fields_iff)
  have size: "uint_word (JInt (int ?n)) 256 p = Inr w \<longleftrightarrow> w = to_bytes 32 ?n" if "?n \<le> 32" for p w
    using that by (auto simp: uint_word_iff)
  have len: "length (concat (descriptor_words total_bytes rows)) = 256 + 96 * ?n" "length rows = ?n"
    if "list_all2 states_chunk chunks rows" for rows
    using length_descriptor[OF states_chunk_wf[OF that]] list_all2_lengthD[OF that] by simp_all
  have cat: "h @ to_bytes 32 ?n @ concat (map (\<lambda>r. concat (chunk_words r)) rows) = concat (descriptor_words total_bytes rows)"
    if "h @ to_bytes 32 ?n = concat (descriptor_head total_bytes ?n)" "length rows = ?n" for h rows
    using that(1) by (simp add: descriptor_words_def that(2) concat_chunk_words flip: append_assoc)
  show ?thesis
  proof
    assume ?L
    then obtain h ts where s: "chunks \<noteq> []" "\<not> 32 < ?n" and h: "mv_abi_encode_static
        [(''bytes4'', JStr ROOT_DESCRIPTOR_MAGIC), (''uint16'', JInt MANIFEST_SCHEMA_VERSION),
         (''bytes32'', JStr PAYLOAD_SCHEMA_ID), (''bytes32'', JStr CANONICALIZATION_ID),
         (''uint32'', JInt total_bytes), (''uint16'', JInt (int ?n)),
         (''uint256'', JInt ROOT_DESCRIPTOR_DYNAMIC_OFFSET)] = Inr h"
        and ts: "each chunk_fields 0 chunks = Inr ts" and e: "e = h @ to_bytes 32 ?n @ concat ts"
      by (auto simp: encode_root_descriptor_def Let_def rbind_eq_Inr mv_check_iff size MAX_MANIFEST_CHUNKS_def
          simp del: each.simps)
    obtain rows where r: "list_all2 states_chunk chunks rows" and "ts = map (\<lambda>r. concat (chunk_words r)) rows"
      using ts tails by blast
    then show ?R using cat[of h rows] len(2)[OF r] h s r e by (auto simp: static_head MAX_MANIFEST_CHUNKS_def Suc_le_eq)
  next
    assume ?R
    then obtain rows where r: "list_all2 states_chunk chunks rows" and e: "e = concat (descriptor_words total_bytes rows)"
      and b: "1 \<le> ?n" "?n \<le> 32" "0 \<le> total_bytes" "total_bytes < 2 ^ 32"
      by (auto simp: MAX_MANIFEST_CHUNKS_def)
    define h where "h = concat (take 7 (descriptor_head total_bytes ?n))"
    have h: "h @ to_bytes 32 ?n = concat (descriptor_head total_bytes ?n)"
      by (simp add: h_def descriptor_head_def head_words_def)
    have 1: "mv_abi_encode_static
        [(''bytes4'', JStr ROOT_DESCRIPTOR_MAGIC), (''uint16'', JInt MANIFEST_SCHEMA_VERSION),
         (''bytes32'', JStr PAYLOAD_SCHEMA_ID), (''bytes32'', JStr CANONICALIZATION_ID),
         (''uint32'', JInt total_bytes), (''uint16'', JInt (int ?n)),
         (''uint256'', JInt ROOT_DESCRIPTOR_DYNAMIC_OFFSET)] = Inr h"
      using h b by (simp add: static_head)
    have 2: "each chunk_fields 0 chunks = Inr (map (\<lambda>r. concat (chunk_words r)) rows)" using tails r by blast
    have 3: "h @ to_bytes 32 ?n @ concat (map (\<lambda>r. concat (chunk_words r)) rows) = e"
      using cat[OF h len(2)[OF r]] e by simp
    have 4: "length e = 256 + 96 * ?n" using len(1)[OF r] e by simp
    have 6: "uint_word (JInt (int ?n)) 256 p = Inr (to_bytes 32 ?n)" for p using size[OF b(2)] by blast
    have 5: "chunks \<noteq> []" "\<not> 32 < ?n" using b by auto
    show ?L
      by (simp add: encode_root_descriptor_def Let_def 1 2 3 4 5 6 mv_check_def MAX_MANIFEST_CHUNKS_def
          MAX_MANIFEST_ROOT_DESCRIPTOR_BYTES_def del: append_assoc length_append)
  qed
qed

section \<open>The decoder reads exactly the encodings\<close>

lemma word_at_concat:
  "list_all (\<lambda>w. length w = 32) ws \<Longrightarrow> k < length ws \<Longrightarrow> word_at (concat ws) k = ws ! k"
proof (induction ws arbitrary: k)
  case (Cons w ws)
  then show ?case by (cases k) (simp_all add: word_at_def)
qed simp

lemma concat_words: "length e = 32 * n \<Longrightarrow> concat (map (word_at e) [0..<n]) = e"
proof (induction n arbitrary: e)
  case (Suc n)
  have "word_at (drop 32 e) = (\<lambda>x. take 32 (drop (32 + 32 * x) e))"
    by (rule ext) (simp add: word_at_def add.commute)
  then have "concat (map (word_at e) [0..<Suc n]) = take 32 e @ concat (map (word_at (drop 32 e)) [0..<n])"
    by (simp add: upt_conv_Cons map_Suc_upt[symmetric] word_at_def add.commute comp_def del: upt_Suc)
  then show ?case using Suc by simp
qed simp

lemma word_at_length: "length e = 32 * n \<Longrightarrow> k < n \<Longrightarrow> length (word_at e k) = 32"
  by (simp add: word_at_def)

lemma decode_uint_word_value:
  assumes "bits \<le> 256"
  shows "decode_uint_word w bits p = Inr i \<longleftrightarrow> w = to_bytes 32 (nat i) \<and> 0 \<le> i \<and> i < 2 ^ bits"
proof
  assume "decode_uint_word w bits p = Inr i"
  then show "w = to_bytes 32 (nat i) \<and> 0 \<le> i \<and> i < 2 ^ bits" by (auto simp: decode_uint_word_iff word_of_value)
next
  assume "w = to_bytes 32 (nat i) \<and> 0 \<le> i \<and> i < 2 ^ bits"
  then show "decode_uint_word w bits p = Inr i" using decode_to_bytes assms by blast
qed

lemma hex_bytes_eq: "s = ''0x'' @ bytes_hex b \<Longrightarrow> ''0x'' @ bytes_hex w = s \<longleftrightarrow> w = b"
  by auto

lemma split_word: "w = take k w @ drop k w" for w :: "'a list"
  by simp

lemma decode_chunk_iff:
  assumes "length e = 32 * n" and "8 + 3 * i + 2 < n"
  shows "decode_chunk e i = Inr row \<longleftrightarrow>
    (\<exists>r. (wf_chunk r \<and> chunk_words r = map (word_at e) [8 + 3 * i, 8 + 3 * i + 1, 8 + 3 * i + 2]) \<and> row = row_of r)"
    (is "_ \<longleftrightarrow> ?R")
proof -
  let ?w = "word_at e (8 + 3 * i)"
  have l: "length ?w = 32" "length (word_at e (8 + 3 * i + 2)) = 32" using word_at_length[OF assms(1)] assms(2) by simp_all
  have "decode_chunk e i = Inr row \<longleftrightarrow> take 12 ?w = replicate 12 0 \<and>
      (\<exists>x. word_at e (8 + 3 * i + 1) = to_bytes 32 (nat x) \<and> 0 \<le> x \<and> x < 2 ^ 32 \<and>
        row = row_of (drop 12 ?w, x, word_at e (8 + 3 * i + 2)))"
    by (auto simp: decode_chunk_def Let_def rbind_eq_Inr mv_check_iff decode_uint_word_value row_of_def)
  also have "\<dots> \<longleftrightarrow> ?R"
  proof (intro iffI; elim conjE exE)
    fix x
    assume "take 12 ?w = replicate 12 0" "word_at e (8 + 3 * i + 1) = to_bytes 32 (nat x)" "0 \<le> x" "x < 2 ^ 32"
      "row = row_of (drop 12 ?w, x, word_at e (8 + 3 * i + 2))"
    then show ?R
      using l split_word[of ?w 12]
      by (intro exI[of _ "(drop 12 ?w, x, word_at e (8 + 3 * i + 2))"]) (simp add: wf_chunk_def chunk_words_def)
  next
    fix r
    assume "row = row_of r" "wf_chunk r" "chunk_words r = map (word_at e) [8 + 3 * i, 8 + 3 * i + 1, 8 + 3 * i + 2]"
    then show "take 12 ?w = replicate 12 0 \<and>
      (\<exists>x. word_at e (8 + 3 * i + 1) = to_bytes 32 (nat x) \<and> 0 \<le> x \<and> x < 2 ^ 32 \<and>
        row = row_of (drop 12 ?w, x, word_at e (8 + 3 * i + 2)))"
      by (auto simp: wf_chunk_def chunk_words_def split: prod.splits)
        (metis append_eq_conv_conj length_replicate)+
  qed
  finally show ?thesis .
qed

lemma concat_chunk_groups:
  assumes "length ds = 3 * length rows"
    and "\<And>i. i < length rows \<Longrightarrow> chunk_words (rows ! i) = [ds ! (3 * i), ds ! (3 * i + 1), ds ! (3 * i + 2)]"
  shows "concat (map chunk_words rows) = ds"
  using assms
proof (induction rows arbitrary: ds)
  case (Cons r rows)
  obtain a b c ds' where ds: "ds = a # b # c # ds'" using Cons.prems(1) by (auto simp: length_Suc_conv numeral_eq_Suc)
  have "concat (map chunk_words rows) = ds'"
  proof (rule Cons.IH)
    show "length ds' = 3 * length rows" using Cons.prems(1) ds by simp
    show "chunk_words (rows ! i) = [ds' ! (3 * i), ds' ! (3 * i + 1), ds' ! (3 * i + 2)]" if "i < length rows" for i
      using Cons.prems(2)[of "Suc i"] that ds by (simp add: numeral_eq_Suc)
  qed
  moreover have "chunk_words r = [a, b, c]" using Cons.prems(2)[of 0] ds by (simp add: numeral_eq_Suc)
  ultimately show ?case using ds by simp
qed simp
lemma concat_words_inject:
  assumes "list_all (\<lambda>w. length w = 32) ws" and "length e = 32 * length ws"
  shows "e = concat ws \<longleftrightarrow> (\<forall>k < length ws. word_at e k = ws ! k)"
proof
  assume "\<forall>k < length ws. word_at e k = ws ! k"
  then have "map (word_at e) [0..<length ws] = ws" by (intro nth_equalityI) simp_all
  then show "e = concat ws" using concat_words[OF assms(2)] by simp
qed (simp add: word_at_concat[OF assms(1)])

lemma check_descriptor_head_iff:
  assumes "length e = 256 + 96 * n" and "n \<le> 32"
  shows "check_descriptor_head e = Inr (t, c) \<longleftrightarrow>
    0 \<le> t \<and> t < 2 ^ 32 \<and> 0 \<le> c \<and> c < 2 ^ 16 \<and>
    map (word_at e) [0..<7] = head_words t (nat c)"
proof -
  have l: "length (word_at e k) = 32" if "k < 8" for k using that assms by (simp add: word_at_def)
  have magic: "drop 4 (word_at e 0) = replicate 28 0 \<and> ''0x'' @ bytes_hex (take 4 (word_at e 0)) = ROOT_DESCRIPTOR_MAGIC \<longleftrightarrow>
      word_at e 0 = id_bytes ROOT_DESCRIPTOR_MAGIC @ replicate 28 0"
    unfolding hex_bytes_eq[OF magic_bytes(1)] using magic_bytes(2) split_word[of "word_at e 0" 4]
    by (metis append_eq_conv_conj)
  have ids: "CHR ''0'' # CHR ''x'' # bytes_hex w = PAYLOAD_SCHEMA_ID \<longleftrightarrow> w = id_bytes PAYLOAD_SCHEMA_ID"
    "CHR ''0'' # CHR ''x'' # bytes_hex w = CANONICALIZATION_ID \<longleftrightarrow> w = id_bytes CANONICALIZATION_ID" for w
    using hex_bytes_eq[OF schema_bytes(1), of w] hex_bytes_eq[OF canonicalization_bytes(1), of w] by simp_all
  have seven: "[0..<7] = [0, 1, 2, 3, 4, 5, 6 :: nat]" by (simp add: upt_rec)
  have b: "256 \<le> length e" "length e \<le> MAX_MANIFEST_ROOT_DESCRIPTOR_BYTES" "length e mod 32 = 0" "8 \<le> word_count e"
    using assms by (auto simp: MAX_MANIFEST_ROOT_DESCRIPTOR_BYTES_def word_count_def)
  have "check_descriptor_head e = Inr (t, c) \<longleftrightarrow>
      (drop 4 (word_at e 0) = replicate 28 0 \<and> ''0x'' @ bytes_hex (take 4 (word_at e 0)) = ROOT_DESCRIPTOR_MAGIC) \<and>
      word_at e 1 = to_bytes 32 (nat MANIFEST_SCHEMA_VERSION) \<and> word_at e 2 = id_bytes PAYLOAD_SCHEMA_ID \<and>
      word_at e 3 = id_bytes CANONICALIZATION_ID \<and> word_at e 4 = to_bytes 32 (nat t) \<and> 0 \<le> t \<and> t < 2 ^ 32 \<and>
      word_at e 5 = to_bytes 32 (nat c) \<and> 0 \<le> c \<and> c < 2 ^ 16 \<and> word_at e 6 = to_bytes 32 (nat ROOT_DESCRIPTOR_DYNAMIC_OFFSET)"
    using b unfolding check_descriptor_head_def
    by (simp add: rbind_eq_Inr mv_check_iff decode_uint_word_value ids MANIFEST_SCHEMA_VERSION_def ROOT_DESCRIPTOR_DYNAMIC_OFFSET_def
        del: One_nat_def) (auto simp: not_less)
  also have "\<dots> \<longleftrightarrow> 0 \<le> t \<and> t < 2 ^ 32 \<and> 0 \<le> c \<and> c < 2 ^ 16 \<and>
      map (word_at e) [0..<7] = head_words t (nat c)"
    unfolding magic seven by (simp add: head_words_def del: One_nat_def) blast
  finally show ?thesis .
qed
lemma chunk_words_three: "chunk_words r = [a, b, c] \<longleftrightarrow> chunk_words r ! 0 = a \<and> chunk_words r ! 1 = b \<and> chunk_words r ! 2 = c"
  by (cases r) (simp add: chunk_words_def numeral_2_eq_2)

lemma chunk_groups:
  "concat (map chunk_words rows) = ds \<longleftrightarrow> length ds = 3 * length rows \<and>
     (\<forall>i < length rows. chunk_words (rows ! i) = [ds ! (3 * i), ds ! (3 * i + 1), ds ! (3 * i + 2)])"
proof
  assume "concat (map chunk_words rows) = ds"
  moreover have "chunk_words (rows ! i) =
      [concat (map chunk_words rows) ! (3 * i), concat (map chunk_words rows) ! (3 * i + 1),
       concat (map chunk_words rows) ! (3 * i + 2)]" if "i < length rows" for i
    using that
  proof (induction rows arbitrary: i)
    case (Cons r rows)
    obtain a b c where abc: "chunk_words r = [a, b, c]" by (cases r) (simp add: chunk_words_def)
    have "3 * Suc j = Suc (Suc (Suc (3 * j)))" for j by simp
    then show ?case using Cons by (cases i) (simp_all add: abc numeral_2_eq_2)
  qed simp
  ultimately show "length ds = 3 * length rows \<and>
     (\<forall>i < length rows. chunk_words (rows ! i) = [ds ! (3 * i), ds ! (3 * i + 1), ds ! (3 * i + 2)])"
    using length_chunk_words by blast
qed (blast intro: concat_chunk_groups)

lemma descriptor_bytes_iff:
  assumes "length e = 256 + 96 * n" and "list_all wf_chunk rows" and "length rows = n"
  shows "e = concat (descriptor_words t rows) \<longleftrightarrow>
    map (word_at e) [0..<7] = head_words t n \<and> word_at e 7 = to_bytes 32 n \<and>
    (\<forall>i < n. chunk_words (rows ! i) = map (word_at e) [8 + 3 * i, 8 + 3 * i + 1, 8 + 3 * i + 2])"
proof -
  have len: "length e = 32 * (8 + 3 * n)" using assms(1) by simp
  have lh: "length (head_words t n) = 7" by (simp add: head_words_def)
  have "e = concat (descriptor_words t rows) \<longleftrightarrow> map (word_at e) [0..<8 + 3 * n] = descriptor_words t rows"
    using concat_words[OF len] concat_words_inject[OF descriptor_words_length[OF assms(2)], of e t] len
    by (auto simp: length_descriptor_words assms(3) intro: nth_equalityI)
  also have "[0..<8 + 3 * n] = [0..<7] @ [7] @ [8..<8 + 3 * n]"
    using upt_add_eq_append[of 0 7 "1 + 3 * n"] upt_conv_Cons[of 7 "8 + 3 * n"] by simp
  also have "map (word_at e) ([0..<7] @ [7] @ [8..<8 + 3 * n]) = descriptor_words t rows \<longleftrightarrow>
      map (word_at e) [0..<7] = head_words t n \<and> word_at e 7 = to_bytes 32 n \<and>
      map (word_at e) [8..<8 + 3 * n] = concat (map chunk_words rows)"
    using append_eq_append_conv[of "map (word_at e) [0..<7]" "head_words t n"] by (simp add: descriptor_words_def
        descriptor_head_def assms(3) lh)
  also have "map (word_at e) [8..<8 + 3 * n] = concat (map chunk_words rows) \<longleftrightarrow>
      (\<forall>i < n. chunk_words (rows ! i) = map (word_at e) [8 + 3 * i, 8 + 3 * i + 1, 8 + 3 * i + 2])"
    using chunk_groups[of rows "map (word_at e) [8..<8 + 3 * n]"] by (auto simp: assms(3))
  finally show ?thesis .
qed

lemma decode_descriptor_fields_iff:
  "decode_descriptor_fields e = Inr (t, cs) \<longleftrightarrow>
     (\<exists>rows. list_all wf_chunk rows \<and> 1 \<le> length rows \<and> length rows \<le> MAX_MANIFEST_CHUNKS \<and> 0 \<le> t \<and> t < 2 ^ 32 \<and>
        e = concat (descriptor_words t rows) \<and> cs = map row_of rows)" (is "?L \<longleftrightarrow> ?R")
proof -
  define P where "P = (\<lambda>i r. wf_chunk r \<and> chunk_words r = map (word_at e) [8 + 3 * i, 8 + 3 * i + 1, 8 + 3 * i + 2])"
  have rows: "each (\<lambda>_ i. decode_chunk e i) 0 [0..<n] = Inr cs \<longleftrightarrow>
      (\<exists>rows. list_all2 P [0..<n] rows \<and> cs = map row_of rows)" if "length e = 256 + 96 * n" for n cs
    by (rule each_image) (use that decode_chunk_iff[of e "8 + 3 * n"] in \<open>simp add: P_def\<close>)
  have P: "list_all2 P [0..<n] rows \<longleftrightarrow> length rows = n \<and> list_all wf_chunk rows \<and>
      (\<forall>i < n. chunk_words (rows ! i) = map (word_at e) [8 + 3 * i, 8 + 3 * i + 1, 8 + 3 * i + 2])" for n rows
    by (auto simp: list_all2_conv_all_nth list_all_length P_def)
  have bytes: "check_descriptor_head e = Inr (t, int n) \<and> word_at e 7 = to_bytes 32 n \<and>
      each (\<lambda>_ i. decode_chunk e i) 0 [0..<n] = Inr cs \<longleftrightarrow> 0 \<le> t \<and> t < 2 ^ 32 \<and>
      (\<exists>rows. length rows = n \<and> list_all wf_chunk rows \<and> e = concat (descriptor_words t rows) \<and> cs = map row_of rows)"
    if n: "1 \<le> n" "n \<le> 32" "length e = 256 + 96 * n" for n
  proof -
    have "int n < 2 ^ 16" using n by simp
    then show ?thesis
      unfolding rows[OF n(3)] P check_descriptor_head_iff[OF n(3,2)]
      using descriptor_bytes_iff[OF n(3)] by fastforce
  qed
  have "?L \<longleftrightarrow> (\<exists>n \<ge> 1. n \<le> 32 \<and> length e = 256 + 96 * n \<and> check_descriptor_head e = Inr (t, int n) \<and>
      word_at e 7 = to_bytes 32 n \<and> each (\<lambda>_ i. decode_chunk e i) 0 [0..<n] = Inr cs)"
  proof
    assume ?L
    then obtain c where c: "check_descriptor_head e = Inr (t, c)" "word_at e 7 = to_bytes 32 (nat c)" "1 \<le> c" "c \<le> 32"
        "int (length e) = 256 + 96 * c" "each (\<lambda>_ i. decode_chunk e i) 0 [0..<nat c] = Inr cs"
      by (auto simp: decode_descriptor_fields_def rbind_eq_Inr mv_check_iff decode_uint_word_value MAX_MANIFEST_CHUNKS_def
          not_less)
    then have "1 \<le> nat c" "nat c \<le> 32" "length e = 256 + 96 * nat c" "int (nat c) = c" by auto
    with c show "\<exists>n \<ge> 1. n \<le> 32 \<and> length e = 256 + 96 * n \<and> check_descriptor_head e = Inr (t, int n) \<and>
      word_at e 7 = to_bytes 32 n \<and> each (\<lambda>_ i. decode_chunk e i) 0 [0..<n] = Inr cs" by metis
  next
    assume "\<exists>n \<ge> 1. n \<le> 32 \<and> length e = 256 + 96 * n \<and> check_descriptor_head e = Inr (t, int n) \<and>
      word_at e 7 = to_bytes 32 n \<and> each (\<lambda>_ i. decode_chunk e i) 0 [0..<n] = Inr cs"
    then obtain n where n: "1 \<le> n" "n \<le> 32" "length e = 256 + 96 * n" "check_descriptor_head e = Inr (t, int n)"
      "word_at e 7 = to_bytes 32 n" "each (\<lambda>_ i. decode_chunk e i) 0 [0..<n] = Inr cs" by blast
    then show ?L
      using decode_to_bytes[of "int n" 256 "''chunk array length''"]
      by (simp add: decode_descriptor_fields_def mv_check_def MAX_MANIFEST_CHUNKS_def)
  qed
  also have "\<dots> \<longleftrightarrow> (\<exists>n \<ge> 1. n \<le> 32 \<and> length e = 256 + 96 * n \<and> 0 \<le> t \<and> t < 2 ^ 32 \<and>
      (\<exists>rows. length rows = n \<and> list_all wf_chunk rows \<and> e = concat (descriptor_words t rows) \<and> cs = map row_of rows))"
    using bytes by blast
  also have "\<dots> \<longleftrightarrow> ?R"
    using length_descriptor by (auto simp: MAX_MANIFEST_CHUNKS_def)
  finally show ?thesis .
qed

lemma descriptor_row_row_of [simp]: "descriptor_row (row_of r) = row_of r"
  by (cases r) (simp add: row_of_def chunk_row_def descriptor_row_def dget_def)

lemma states_rows: "list_all wf_chunk rows \<Longrightarrow> list_all2 states_chunk (map row_of rows) rows"
  by (simp add: list_all2_conv_all_nth list_all_length states_chunk_def)

lemma decoded_encodes:
  assumes "decode_descriptor_fields e = Inr (t, cs)"
  shows "encode_root_descriptor cs t = Inr e"
proof -
  obtain rows where "list_all wf_chunk rows" "1 \<le> length rows" "length rows \<le> MAX_MANIFEST_CHUNKS" "0 \<le> t" "t < 2 ^ 32"
    "e = concat (descriptor_words t rows)" "cs = map row_of rows"
    using assms unfolding decode_descriptor_fields_iff by blast
  then show ?thesis unfolding encode_root_descriptor_iff using states_rows by fastforce
qed

lemma decoded_fields_rows: "decode_descriptor_fields e = Inr (t, cs) \<Longrightarrow> map descriptor_row cs = cs"
  by (auto simp: decode_descriptor_fields_iff comp_def)

lemma encoded_decodes:
  "encode_root_descriptor chunks t = Inr e \<Longrightarrow> decode_descriptor_fields e = Inr (t, map descriptor_row chunks)"
proof -
  assume "encode_root_descriptor chunks t = Inr e"
  then obtain rows where r: "list_all2 states_chunk chunks rows" "e = concat (descriptor_words t rows)"
    and b: "1 \<le> length chunks" "length chunks \<le> MAX_MANIFEST_CHUNKS" "0 \<le> t" "t < 2 ^ 32"
    unfolding encode_root_descriptor_iff by blast
  have "map descriptor_row chunks = map row_of rows"
    using r(1) by (auto simp: list_all2_conv_all_nth states_chunk_def intro: nth_equalityI)
  then show ?thesis
    using r b states_chunk_wf[OF r(1)] list_all2_lengthD[OF r(1)] unfolding decode_descriptor_fields_iff by auto
qed

lemma decode_root_descriptor_iff:
  "decode_root_descriptor e = Inr d \<longleftrightarrow> (\<exists>t cs. decode_descriptor_fields e = Inr (t, cs) \<and> d = descriptor_json t cs)"
  using decoded_encodes by (cases "decode_descriptor_fields e") (auto simp: decode_root_descriptor_def mv_check_def)

lemma reencoding_redundant:
  "decode_root_descriptor e = rbind (decode_descriptor_fields e) (\<lambda>(total_bytes, chunks). Inr (descriptor_json total_bytes chunks))"
proof (cases "decode_descriptor_fields e")
  case (Inr r)
  then obtain t cs where "decode_descriptor_fields e = Inr (t, cs)" by (cases r) simp
  then show ?thesis using decoded_encodes by (simp add: decode_root_descriptor_def mv_check_def)
qed (simp add: decode_root_descriptor_def)

text \<open>C21: The strict decoder of the root descriptor accepts exactly the byte strings the encoder
  produces, and gives back the total length and the pointer, length and hash of every chunk
  that was encoded. Its last check, that encoding the fields again gives the same bytes, never
  fails: the checks of the padding, of the offset and of the counts already refuse every other
  encoding of the same fields.\<close>

theorem descriptor_decodes_exactly:
  "(decode_root_descriptor e = Inr d \<longleftrightarrow>
     (\<exists>chunks total_bytes. encode_root_descriptor chunks total_bytes = Inr e \<and>
        d = descriptor_json total_bytes (map descriptor_row chunks))) \<and>
   decode_root_descriptor e = rbind (decode_descriptor_fields e) (\<lambda>(total_bytes, chunks). Inr (descriptor_json total_bytes chunks))"
proof -
  have "decode_descriptor_fields e = Inr (t, cs) \<Longrightarrow> cs = map descriptor_row cs" for t cs
    using decoded_fields_rows by metis
  then have "decode_root_descriptor e = Inr d \<longleftrightarrow>
     (\<exists>chunks total_bytes. encode_root_descriptor chunks total_bytes = Inr e \<and>
        d = descriptor_json total_bytes (map descriptor_row chunks))"
    unfolding decode_root_descriptor_iff using decoded_encodes encoded_decodes by metis
  then show ?thesis using reencoding_redundant by blast
qed

section \<open>The chunks of a payload\<close>

definition slices :: "byte list \<Rightarrow> byte list list" where
  "slices c = map (\<lambda>i. take CHUNK_PAYLOAD_BYTES (drop (CHUNK_PAYLOAD_BYTES * i) c))
     [0..<(length c + CHUNK_PAYLOAD_BYTES - 1) div CHUNK_PAYLOAD_BYTES]"

fun full_chunks :: "byte list list \<Rightarrow> bool" where
  "full_chunks [] = True"
| "full_chunks [s] = (1 \<le> length s \<and> length s \<le> CHUNK_PAYLOAD_BYTES)"
| "full_chunks (s # t # ss) = (length s = CHUNK_PAYLOAD_BYTES \<and> full_chunks (t # ss))"

lemma chunk_bytes_pos [simp]: "0 < CHUNK_PAYLOAD_BYTES"
  by (simp add: CHUNK_PAYLOAD_BYTES_def)

lemma chunk_bytes_neq [simp]: "CHUNK_PAYLOAD_BYTES \<noteq> 0"
  by (simp add: CHUNK_PAYLOAD_BYTES_def)

lemma slices_Nil [simp]: "slices [] = []"
  by (simp add: slices_def CHUNK_PAYLOAD_BYTES_def)

lemma slices_step: "c \<noteq> [] \<Longrightarrow> slices c = take CHUNK_PAYLOAD_BYTES c # slices (drop CHUNK_PAYLOAD_BYTES c)"
proof -
  assume "c \<noteq> []"
  then have "0 < length c" by simp
  let ?K = CHUNK_PAYLOAD_BYTES and ?n = "(length (drop CHUNK_PAYLOAD_BYTES c) + CHUNK_PAYLOAD_BYTES - 1) div CHUNK_PAYLOAD_BYTES"
  have n: "(length c + ?K - 1) div ?K = Suc ?n"
  proof -
    have "length c + ?K - 1 = (length c - 1) + ?K" using \<open>0 < length c\<close> by linarith
    then have "(length c + ?K - 1) div ?K = Suc ((length c - 1) div ?K)"
      by (simp only: div_add_self2[OF chunk_bytes_neq] Suc_eq_plus1)
    moreover have "(length c - 1) div ?K = ?n"
    proof (cases "length c \<le> ?K")
      case True
      then have "length c - 1 < ?K" using \<open>0 < length c\<close> by linarith
      then show ?thesis using True by simp
    qed simp
    ultimately show ?thesis by simp
  qed
  have "map (\<lambda>i. take ?K (drop (?K * i) c)) [0..<Suc ?n] =
      take ?K c # map (\<lambda>i. take ?K (drop (?K * i) (drop ?K c))) [0..<?n]"
    by (simp add: upt_conv_Cons map_Suc_upt[symmetric] comp_def add.commute del: upt_Suc)
  then show ?thesis by (simp only: slices_def n)
qed

lemma full_slices: "full_chunks (slices c) \<and> concat (slices c) = c \<and> (slices c = [] \<longleftrightarrow> c = [])"
proof (induction c rule: length_induct)
  case (1 c)
  show ?case
  proof (cases "c = []")
    case False
    let ?d = "drop CHUNK_PAYLOAD_BYTES c"
    have d: "full_chunks (slices ?d)" "concat (slices ?d) = ?d" "slices ?d = [] \<longleftrightarrow> ?d = []"
      using 1 False by (simp_all del: drop_eq_Nil)
    have "full_chunks (take CHUNK_PAYLOAD_BYTES c # slices ?d)"
      using d False by (cases "slices ?d") (auto simp: Suc_le_eq)
    then show ?thesis using d False by (simp add: slices_step)
  qed simp
qed

lemma slices_unique: "full_chunks segs \<Longrightarrow> slices (concat segs) = segs"
proof (induction segs rule: full_chunks.induct)
  case (2 s)
  then have "s \<noteq> []" by auto
  then show ?case using 2 by (simp add: slices_step)
next
  case (3 s t ss)
  then have "s \<noteq> []" by (auto simp: CHUNK_PAYLOAD_BYTES_def)
  then show ?case using 3 by (simp add: slices_step)
qed simp

lemma full_chunks_iff:
  "segs \<noteq> [] \<Longrightarrow> full_chunks segs \<longleftrightarrow>
    (\<forall>i < length segs - 1. length (segs ! i) = CHUNK_PAYLOAD_BYTES) \<and>
    1 \<le> length (last segs) \<and> length (last segs) \<le> CHUNK_PAYLOAD_BYTES"
proof (induction segs rule: full_chunks.induct)
  case (3 s t ss)
  then show ?case by (auto simp: nth_Cons split: nat.splits)
qed simp_all

lemma slices_count: "length (slices c) = (length c + CHUNK_PAYLOAD_BYTES - 1) div CHUNK_PAYLOAD_BYTES"
  by (simp add: slices_def)

lemma split_payload_iff:
  "split_payload c = Inr segs \<longleftrightarrow> segs = slices c \<and> 1 \<le> length c \<and> length c \<le> MAX_MANIFEST_PAYLOAD_BYTES"
proof (cases "1 \<le> length c \<and> length c \<le> MAX_MANIFEST_PAYLOAD_BYTES")
  case True
  then have ne: "slices c \<noteq> []" using full_slices[of c] by auto
  have "(length c + CHUNK_PAYLOAD_BYTES - 1) div CHUNK_PAYLOAD_BYTES \<le>
      (MAX_MANIFEST_PAYLOAD_BYTES + CHUNK_PAYLOAD_BYTES - 1) div CHUNK_PAYLOAD_BYTES"
    using True by (intro div_le_mono) linarith
  then have n: "length (slices c) \<le> MAX_MANIFEST_CHUNKS"
    by (simp add: slices_count MAX_MANIFEST_PAYLOAD_BYTES_def CHUNK_PAYLOAD_BYTES_def MAX_MANIFEST_CHUNKS_def)
  have "full_chunks (slices c)" using full_slices by blast
  then have "each (check_segment (length (slices c))) 0 (slices c) = Inr (replicate (length (slices c)) ())"
    unfolding full_chunks_iff[OF ne] last_conv_nth[OF ne]
    by (auto simp: each_eq_Inr check_segment_def mv_check_iff rbind_eq_Inr mv_check_def)
  then show ?thesis
    using True n ne unfolding split_payload_def Let_def slices_def[symmetric]
    by (auto simp: rbind_eq_Inr mv_check_iff)
next
  case False
  then have "length c < 1 \<or> length c > MAX_MANIFEST_PAYLOAD_BYTES" by linarith
  then show ?thesis
    unfolding split_payload_def Let_def by (simp only: mv_check_def mv_fail_def if_True rbind_Inl) auto
qed

text \<open>C23: A payload is split exactly as the manifest requires: it is accepted when it has 1 to 786400
  bytes, and then the segments are the only sequence of at most 32 segments that gives the
  payload back in order, in which every segment but the last has 24575 bytes and the last is
  neither empty nor longer. The checks of the segments that follow the length check never fail.\<close>

theorem split_payload_exact:
  "(split_payload c = Inr segs \<longleftrightarrow>
     concat segs = c \<and> segs \<noteq> [] \<and> length segs \<le> 32 \<and> (\<forall>i < length segs - 1. length (segs ! i) = 24575) \<and>
     1 \<le> length (last segs) \<and> length (last segs) \<le> 24575) \<and>
   ((\<exists>segs. split_payload c = Inr segs) \<longleftrightarrow> 1 \<le> length c \<and> length c \<le> 786400)"
proof -
  have total: "length (concat segs) \<le> 24575 * length segs" if "full_chunks segs" for segs
    using that by (induction segs rule: full_chunks.induct) (auto simp: CHUNK_PAYLOAD_BYTES_def)
  have "split_payload c = Inr segs \<longleftrightarrow> concat segs = c \<and> segs \<noteq> [] \<and> length segs \<le> 32 \<and> full_chunks segs"
  proof
    assume "split_payload c = Inr segs"
    then have s: "segs = slices c" "1 \<le> length c" "length c \<le> 786400"
      by (auto simp: split_payload_iff MAX_MANIFEST_PAYLOAD_BYTES_def)
    have "length (slices c) \<le> (786400 + 24575 - 1) div 24575"
      unfolding slices_count CHUNK_PAYLOAD_BYTES_def using s by (intro div_le_mono) linarith
    then show "concat segs = c \<and> segs \<noteq> [] \<and> length segs \<le> 32 \<and> full_chunks segs"
      using full_slices[of c] s by auto
  next
    assume s: "concat segs = c \<and> segs \<noteq> [] \<and> length segs \<le> 32 \<and> full_chunks segs"
    then have "c \<noteq> []" by (cases segs rule: full_chunks.cases) (auto simp: CHUNK_PAYLOAD_BYTES_def)
    then show "split_payload c = Inr segs"
      using s total[of segs] slices_unique[of segs]
      by (auto simp: split_payload_iff MAX_MANIFEST_PAYLOAD_BYTES_def Suc_le_eq)
  qed
  then show ?thesis
    using full_chunks_iff by (auto simp: split_payload_iff MAX_MANIFEST_PAYLOAD_BYTES_def CHUNK_PAYLOAD_BYTES_def)
qed

end
