(* ===== verification/Manifest_Reference.thy ===== *)
theory Manifest_Reference
  imports Manifest_Codec
begin

text \<open>
  The independent oracle of the payload vector,
  \<open>tools/protocol/check_system_manifest_payload_vector_reference.py\<close>: its own canonical JSON
  encoding, through \<open>json.dumps\<close>, for the ASCII documents the vector holds.
\<close>

section \<open>The oracle's encoding\<close>

definition ref_fail :: "string \<Rightarrow> 'a res" where
  "ref_fail m = Inl (ReferenceVectorError m)"

definition ascii_text :: "string \<Rightarrow> bool" where
  "ascii_text s \<longleftrightarrow> list_all (\<lambda>c. (of_char c :: nat) < 128) s"

fun assert_reference_json :: "json \<Rightarrow> string \<Rightarrow> unit res"
  and assert_reference_items :: "nat \<Rightarrow> json list \<Rightarrow> string \<Rightarrow> unit res"
  and assert_reference_members :: "dict \<Rightarrow> string \<Rightarrow> unit res" where
  "assert_reference_json (JDict d) path = assert_reference_members d path"
| "assert_reference_json (JList vs) path = assert_reference_items 0 vs path"
| "assert_reference_json (JStr s) path =
     (if \<not> ascii_text s then ref_fail (path @ '' is outside the audited ASCII JCS fixture'') else Inr ())"
| "assert_reference_json (JBool b) path = Inr ()"
| "assert_reference_json (JInt i) path =
     (if i < 0 \<or> i > 2 ^ 53 - 1 then ref_fail (path @ '' is outside the I-JSON safe integer range'') else Inr ())"
| "assert_reference_json JNull path = ref_fail (path @ '' has unsupported JCS type NoneType'')"
| "assert_reference_items i [] path = Inr ()"
| "assert_reference_items i (v # vs) path =
     rbind (assert_reference_json v (path @ ''['' @ dec i @ '']'')) (\<lambda>_. assert_reference_items (Suc i) vs path)"
| "assert_reference_members [] path = Inr ()"
| "assert_reference_members ((k, v) # d) path =
     (if \<not> ascii_text k then ref_fail (path @ '' has a non-ASCII member name'')
      else rbind (assert_reference_json v (path @ ''.'' @ k)) (\<lambda>_. assert_reference_members d path))"

text \<open>\<open>json.dumps(value, ensure_ascii=False, separators=(",", ":"))\<close>.\<close>

fun dumps_plain :: "json \<Rightarrow> string" where
  "dumps_plain JNull = ''null''"
| "dumps_plain (JBool b) = (if b then ''true'' else ''false'')"
| "dumps_plain (JInt i) = dec_int i"
| "dumps_plain (JStr s) = quote_plain s"
| "dumps_plain (JList vs) = ''['' @ join '','' (map dumps_plain vs) @ '']''"
| "dumps_plain (JDict d) =
     ''{'' @ join '','' (map (\<lambda>(k, v). quote_plain k @ '':'' @ dumps_plain v) d) @ ''}''"

definition reference_jcs :: "json \<Rightarrow> byte list res" where
  "reference_jcs v =
     rbind (assert_reference_json v ''payload'') (\<lambda>_. Inr (str_bytes (dumps_plain (sort_members v))))"

section \<open>Agreement with the generator\<close>

text \<open>What the oracle admits, and the documents whose strings are ASCII.\<close>

fun allowed :: "json \<Rightarrow> bool" where
  "allowed JNull = False"
| "allowed (JBool b) = True"
| "allowed (JInt i) = (0 \<le> i \<and> i \<le> 2 ^ 53 - 1)"
| "allowed (JStr s) = ascii_text s"
| "allowed (JList vs) = list_all allowed vs"
| "allowed (JDict d) = list_all (\<lambda>(k, v). ascii_text k \<and> allowed v) d"

fun ascii_doc :: "json \<Rightarrow> bool" where
  "ascii_doc (JStr s) = ascii_text s"
| "ascii_doc (JList vs) = list_all ascii_doc vs"
| "ascii_doc (JDict d) = list_all (\<lambda>(k, v). ascii_text k \<and> ascii_doc v) d"
| "ascii_doc _ = True"

lemma assert_reference_iff:
  "assert_reference_json v path = Inr u \<longleftrightarrow> allowed v"
  "assert_reference_items i vs path = Inr u \<longleftrightarrow> list_all allowed vs"
  "assert_reference_members d path = Inr u \<longleftrightarrow> list_all (\<lambda>(k, v). ascii_text k \<and> allowed v) d"
  by (induction v path and i vs path and d path rule: assert_reference_json_assert_reference_items_assert_reference_members.induct)
    (auto simp: ref_fail_def rbind_eq_Inr)

lemma char_points: "c = CHR 0x22 \<longleftrightarrow> (of_char c :: nat) = 34" "c = CHR 0x5C \<longleftrightarrow> (of_char c :: nat) = 92"
  using of_char_eq_iff[of c "CHR 0x22", where ?'a = nat] of_char_eq_iff[of c "CHR 0x5C", where ?'a = nat] by simp_all

lemma escape_same: "mv_jcs_escape c = plain_escape c"
  by (auto simp: char_points mv_jcs_escape_def plain_escape_def mv_jcs_short_def short_escape_def unicode_escape_def Let_def)

lemma escape_funs: "mv_jcs_escape = plain_escape"
  by (rule ext) (rule escape_same)

lemma ascii_text_no_surrogate: "ascii_text s \<Longrightarrow> \<not> has_surrogate s"
  by (induction s rule: has_surrogate.induct) (auto simp: ascii_text_def)

lemma utf8_points_ascii_text: "ascii_text s \<Longrightarrow> utf8_points s = map of_char s"
  by (induction s) (auto simp: ascii_text_def)

lemma mv_utf16_be_ascii: "ascii_text s \<Longrightarrow> mv_utf16_be s = concat (map (\<lambda>c. [0, of_nat (of_char c)]) s)"
  by (induction s) (auto simp: mv_utf16_be_def mv_utf16_unit_def utf8_points_ascii_text ascii_text_def)

lemma byte_of_char_less:
  "(of_nat (of_char c) :: byte) < of_nat (of_char d) \<longleftrightarrow> c < d"
  "(of_nat (of_char c) :: byte) = of_nat (of_char d) \<longleftrightarrow> c = d"
proof -
  have "(of_char c :: nat) < 256" "(of_char d :: nat) < 256" by simp_all
  then show "(of_nat (of_char c) :: byte) < of_nat (of_char d) \<longleftrightarrow> c < d"
    by (simp add: word_less_nat_alt unat_of_nat less_char_def)
  show "(of_nat (of_char c) :: byte) = of_nat (of_char d) \<longleftrightarrow> c = d"
    using \<open>(of_char c :: nat) < 256\<close> \<open>(of_char d :: nat) < 256\<close>
    by (simp add: word_unat_eq_iff unat_of_nat)
qed

lemma mv_utf16_order: "ascii_text s \<Longrightarrow> ascii_text t \<Longrightarrow> mv_utf16_be s \<le> mv_utf16_be t \<longleftrightarrow> s \<le> t"
proof (induction s arbitrary: t)
  case (Cons c s)
  then show ?case
    by (cases t) (auto simp: mv_utf16_be_ascii ascii_text_def byte_of_char_less)
qed (simp add: mv_utf16_be_ascii ascii_text_def)

lemma insort_key_map: "insort_key f (g x) (map g ys) = map g (insort_key (\<lambda>x. f (g x)) x ys)"
  by (induction ys) auto

lemma sort_key_map: "sort_key f (map g xs) = map g (sort_key (\<lambda>x. f (g x)) xs)"
  by (induction xs) (simp_all add: insort_key_map)

lemma insort_key_order:
  "(\<And>y. y \<in> set ys \<Longrightarrow> f x \<le> f y \<longleftrightarrow> g x \<le> g y) \<Longrightarrow> insort_key f x ys = insort_key g x ys"
  by (induction ys) auto

lemma sort_key_order:
  "(\<And>x y. x \<in> set xs \<Longrightarrow> y \<in> set xs \<Longrightarrow> f x \<le> f y \<longleftrightarrow> g x \<le> g y) \<Longrightarrow> sort_key f xs = sort_key g xs"
  by (induction xs) (auto intro!: insort_key_order)


lemma zip_map_pair: "zip (map f xs) xs = map (\<lambda>x. (f x, x)) xs"
  by (induction xs) auto

definition ascii_nfc :: "(string \<Rightarrow> string) \<Rightarrow> bool" where
  "ascii_nfc nfc \<longleftrightarrow> (\<forall>s. ascii_text s \<longrightarrow> nfc s = s)"

lemma validate_ascii: "ascii_nfc nfc \<Longrightarrow> ascii_text s \<Longrightarrow> validate_ijson_string nfc s p = Inr ()"
  by (simp add: validate_ijson_string_def mv_check_def ascii_text_no_surrogate ascii_nfc_def)

lemma quote_ascii_plain: "ascii_nfc nfc \<Longrightarrow> ascii_text s \<Longrightarrow> mv_jcs_quote nfc s p = Inr (quote_plain s)"
  by (simp add: mv_jcs_quote_def validate_ascii quote_plain_def escape_funs)

lemma each_pure: "(\<And>i x. x \<in> set xs \<Longrightarrow> f i x = Inr (g x)) \<Longrightarrow> each f n xs = Inr (map g xs)"
  by (simp add: each_eq_Inr)

lemma sorted_members_ascii:
  assumes "ascii_nfc nfc" and "list_all (\<lambda>(k, v). ascii_text k) d"
  shows "sorted_members nfc d = Inr (sort_key fst d)"
proof -
  have "each (\<lambda>_ (k, v). mv_utf16_sort_key nfc k) 0 d = Inr (map (\<lambda>(k, v). mv_utf16_be k) d)"
    using assms by (intro each_pure) (auto simp: mv_utf16_sort_key_def validate_ascii list_all_iff)
  moreover have "map snd (sort_key fst (zip (map (\<lambda>(k, v). mv_utf16_be k) d) d)) = sort_key (\<lambda>(k, v). mv_utf16_be k) d"
    by (simp add: zip_map_pair sort_key_map comp_def)
  moreover have "sort_key (\<lambda>(k, v). mv_utf16_be k) d = sort_key fst d"
  proof (rule sort_key_order)
    fix x y
    assume "x \<in> set d" "y \<in> set d"
    then have "ascii_text (fst x)" "ascii_text (fst y)" using assms(2) by (auto simp: list_all_iff)
    then show "(case x of (k, v) \<Rightarrow> mv_utf16_be k) \<le> (case y of (k, v) \<Rightarrow> mv_utf16_be k) \<longleftrightarrow> fst x \<le> fst y"
      by (simp add: case_prod_unfold mv_utf16_order)
  qed
  ultimately show ?thesis by (simp add: sorted_members_def)
qed

lemma jcs_text_ascii:
  "ascii_nfc nfc \<Longrightarrow> allowed v \<Longrightarrow> mv_jcs_text nfc v path = Inr (dumps_plain (sort_members v))"
proof (induction v arbitrary: path)
  case (JList vs)
  then have "each (\<lambda>i v. mv_jcs_text nfc v (path @ ''['' @ dec i @ '']'')) 0 vs = Inr (map (\<lambda>v. dumps_plain (sort_members v)) vs)"
    by (intro each_pure) (auto simp: list_all_iff)
  then show ?case by (simp add: mv_jcs_text.simps comp_def)
next
  case (JDict d)
  have k: "list_all (\<lambda>(k, v). ascii_text k) d" using JDict.prems(2) by (auto simp: list_all_iff)
  have "each (\<lambda>_ (k, v). validate_ijson_string nfc k (path @ '' member name'')) 0 d = Inr (map (\<lambda>_. ()) d)"
    using k JDict.prems(1) by (intro each_pure) (auto simp: list_all_iff validate_ascii)
  moreover have "each (\<lambda>_ (k, v).
         rbind (mv_jcs_quote nfc k (path @ '' member name'')) (\<lambda>q.
         rbind (mv_jcs_text nfc v (path @ ''.'' @ k)) (\<lambda>t. Inr (q @ '':'' @ t)))) 0 (sort_key fst d) =
      Inr (map (\<lambda>(k, v). quote_plain k @ '':'' @ dumps_plain (sort_members v)) (sort_key fst d))"
    using JDict by (intro each_pure) (fastforce simp: list_all_iff quote_ascii_plain)
  moreover have "sort_members (JDict d) = JDict (map (\<lambda>(k, v). (k, sort_members v)) (sort_key fst d))"
    by (simp add: sort_key_map case_prod_unfold)
  ultimately show ?case
    using sorted_members_ascii[OF JDict.prems(1) k] by (simp add: mv_jcs_text.simps comp_def case_prod_unfold)
qed (auto simp: mv_jcs_text.simps UINT53_MAX_def quote_ascii_plain)

lemma jcs_text_allowed: "mv_jcs_text nfc v path = Inr t \<Longrightarrow> ascii_doc v \<Longrightarrow> allowed v"
proof (induction v arbitrary: path t)
  case (JList vs)
  then show ?case by (auto simp: mv_jcs_text.simps rbind_eq_Inr list_all_length each_eq_Inr)
next
  case (JDict d)
  then obtain e ts where e: "sorted_members nfc d = Inr e" and ts: "each (\<lambda>_ (k, v).
         rbind (mv_jcs_quote nfc k (path @ '' member name'')) (\<lambda>q.
         rbind (mv_jcs_text nfc v (path @ ''.'' @ k)) (\<lambda>t. Inr (q @ '':'' @ t)))) 0 e = Inr ts"
    by (auto simp: mv_jcs_text.simps rbind_eq_Inr)
  have "allowed v" if kv: "(k, v) \<in> set d" for k v
  proof -
    obtain j where "j < length e" "e ! j = (k, v)" using kv sorted_members_set[OF e] by (metis in_set_conv_nth)
    then obtain t where "mv_jcs_text nfc v (path @ ''.'' @ k) = Inr t" using each_nth[OF ts] by (fastforce simp: rbind_eq_Inr)
    then show ?thesis using JDict.IH[of "(k, v)" v] JDict.prems(2) kv by (auto simp: list_all_iff)
  qed
  then show ?case using JDict.prems(2) by (auto simp: list_all_iff)
qed (auto simp: mv_jcs_text.simps UINT53_MAX_def mv_fail_def split: if_splits)

lemma allowed_ascii: "allowed v \<Longrightarrow> ascii_doc v"
  by (induction v) (auto simp: list_all_iff)

text \<open>C24: The oracle and the generator agree on every document whose strings are ASCII: one accepts it
  when the other does, and their canonical bytes are the same, although one sorts members by
  UTF-16 code units and escapes by its own table and the other relies on \<open>json.dumps\<close>. The
  hypothesis is that Unicode normalisation leaves ASCII text as it is.\<close>

theorem reference_jcs_agrees:
  assumes "ascii_nfc nfc"
  shows "reference_jcs v = Inr bs \<longleftrightarrow> ascii_doc v \<and> mv_jcs_bytes nfc v = Inr bs"
proof -
  have "reference_jcs v = Inr bs \<longleftrightarrow> allowed v \<and> bs = str_bytes (dumps_plain (sort_members v))"
    by (auto simp: reference_jcs_def rbind_eq_Inr assert_reference_iff)
  moreover have "ascii_doc v \<and> mv_jcs_bytes nfc v = Inr bs \<longleftrightarrow> allowed v \<and> bs = str_bytes (dumps_plain (sort_members v))"
    using jcs_text_ascii[OF assms] jcs_text_allowed allowed_ascii by (fastforce simp: mv_jcs_bytes_def rbind_eq_Inr)
  ultimately show ?thesis by blast
qed

end
