(* ===== verification/Manifest_Vector.thy ===== *)
theory Manifest_Vector
  imports Manifest_Codec "HOL-Library.Product_Lexorder"
begin

text \<open>
  The generator of the system-manifest payload vector,
  \<open>tools/protocol/generate_system_manifest_payload_vector.py\<close>: the derivation of addresses and
  hashes from a deployment profile, the payload, its chunks with the commitments to them, and
  the vector file. SHA-256 and Keccak-256 are the library functions of \<^typ>\<open>hashes\<close>.
\<close>

section \<open>Constants\<close>

definition VECTOR_SCHEMA :: string where
  "VECTOR_SCHEMA = ''6529stream.system-manifest-payload-vector.v1''"

definition PROFILE_SCHEMA :: string where
  "PROFILE_SCHEMA = ''6529stream.genesis-deployment-profile.v2''"

definition EVIDENCE_CLASS :: string where
  "EVIDENCE_CLASS = ''target_abi_lock_fixture''"

definition BLOCKER_ISSUE :: string where
  "BLOCKER_ISSUE = ''https://github.com/6529-Collections/6529Stream/issues/656''"

definition PAYLOAD_SCHEMA_LITERAL :: string where
  "PAYLOAD_SCHEMA_LITERAL = ''STREAM_SYSTEM_MANIFEST_PAYLOAD_V1''"

definition CANONICALIZATION_LITERAL :: string where
  "CANONICALIZATION_LITERAL = ''RFC8785_JCS''"

definition PAYLOAD_LEAF_DOMAIN :: string where
  "PAYLOAD_LEAF_DOMAIN = ''0x852f4811a2eb32694863d94ba41b545a65ef4c76086a32c35881f0c4e250a7b5''"

definition PAYLOAD_LIST_DOMAIN :: string where
  "PAYLOAD_LIST_DOMAIN = ''0xa93750a5551ac5668c8f24cca85acaf1d5f8334fac9406f845fce1ce35548839''"

definition PAYLOAD_ROOT_DOMAIN :: string where
  "PAYLOAD_ROOT_DOMAIN = ''0xd6ab89b077c61a288c7168cf8f1c9a7a19464b10475735dae37cb46a0c94c40b''"

definition DEPLOYMENT_IDENTITY_DOMAIN :: string where
  "DEPLOYMENT_IDENTITY_DOMAIN = ''0xabba888804ef35beb44d732a5f39abc2609bd065f98a99779289a9e9c2a4059a''"

definition STATE_EXPORT_PUBLISHER_INTERFACE :: string where
  "STATE_EXPORT_PUBLISHER_INTERFACE = ''IStreamStateExportPublisher''"

definition STATE_EXPORT_PUBLISHER_ABI_SCHEMA :: string where
  "STATE_EXPORT_PUBLISHER_ABI_SCHEMA = ''6529stream.state-export-publisher-abi.v1''"

definition STATE_EXPORT_PUBLISHER_INTERFACE_ID :: string where
  "STATE_EXPORT_PUBLISHER_INTERFACE_ID = ''0x77faad4f''"

definition STREAM_CORE_FINALITY_ADAPTER_INTERFACE_ID :: string where
  "STREAM_CORE_FINALITY_ADAPTER_INTERFACE_ID = ''0xebf35615''"

definition STATE_EXPORT_PUBLISHER_ABI_SHA256 :: string where
  "STATE_EXPORT_PUBLISHER_ABI_SHA256 = ''sha256:535217fe4e980b1c72bc1a24f0352a7704928a3cd25f4197bdff0604d7645ea7''"

definition GOVERNED_PARAMETER_AUTHORITY_INTERFACE :: string where
  "GOVERNED_PARAMETER_AUTHORITY_INTERFACE = ''IStreamGovernedParameterAuthority''"

definition GOVERNED_PARAMETER_AUTHORITY_ABI_SCHEMA :: string where
  "GOVERNED_PARAMETER_AUTHORITY_ABI_SCHEMA = ''6529stream.governed-parameter-authority-abi.v1''"

definition GOVERNED_PARAMETER_AUTHORITY_INTERFACE_ID :: string where
  "GOVERNED_PARAMETER_AUTHORITY_INTERFACE_ID = ''0xd9f8d48c''"

definition GOVERNED_PARAMETER_AUTHORITY_ABI_SHA256 :: string where
  "GOVERNED_PARAMETER_AUTHORITY_ABI_SHA256 = ''sha256:720e3b782672b5720bf4c679f09a20a3de74c4df856e34ad23bfc99a710b827a''"

definition VECTOR_DERIVATION_DOMAIN :: string where
  "VECTOR_DERIVATION_DOMAIN = ''6529STREAM_SYSTEM_MANIFEST_TARGET_VECTOR_V1''"

definition MODULE_VERSION_LITERAL :: string where
  "MODULE_VERSION_LITERAL = ''6529STREAM_MODULE_VERSION_V1''"

definition TARGET_DEPLOYMENT_IDENTITY_SCOPE :: string where
  "TARGET_DEPLOYMENT_IDENTITY_SCOPE = ''one synthetic release-wide target-only digest reused by every deploymentManifestHash occurrence; not production deployment-identity evidence''"

definition TARGET_IDENTITY_VIEW_RULE :: string where
  "TARGET_IDENTITY_VIEW_RULE = ''derive_hash('' @ [CHR 0x27] @ ''deployment-identity-view-hash'' @ [CHR 0x27] @ '', raw genesis-profile SHA-256)''"

definition TARGET_IDENTITY_OUTER_RULE :: string where
  "TARGET_IDENTITY_OUTER_RULE = ''keccak256(abi.encode(STREAM_DEPLOYMENT_IDENTITY_V1, synthetic identity-view hash))''"

definition STATE_EXPORT_LATEST_SELECTOR :: string where
  "STATE_EXPORT_LATEST_SELECTOR = STATE_EXPORT_PUBLISHER_INTERFACE_ID"

definition STATE_EXPORT_LATEST_RETURNS :: "string list" where
  "STATE_EXPORT_LATEST_RETURNS = [''uint256'', ''bytes32'', ''bytes32'', ''bytes32'', ''string'']"

definition STATE_EXPORT_EVENT_TOPICS :: "(string \<times> string) list" where
  "STATE_EXPORT_EVENT_TOPICS =
    [(''StateExportPublished(uint16,uint256,bytes32,bytes32,bytes32,string)'',
      ''0x4b64ff5d268568999197a07e66632a3d1cf86adfb499394383bfa5e02577f045''),
     (''StateExportChallenged(uint16,bytes32,bytes32,address,string)'',
      ''0x7dcf7c00a2fcd9a11d7b2a1a1c7f49b2ddffe3bb28e97a0efd2e53d2e183a68c''),
     (''StateExportSuperseded(uint16,bytes32,bytes32,bytes32,string)'',
      ''0xd38e3f1ed11d4a002ed59a6ac2242bb16b6681891fbdbbbf55077edf92bfdc4a'')]"

definition STATE_EXPORT_EVENT_INDEXED_MASKS :: "(string \<times> bool list) list" where
  "STATE_EXPORT_EVENT_INDEXED_MASKS =
    [(''StateExportPublished(uint16,uint256,bytes32,bytes32,bytes32,string)'', [False, True, True, True, False, False]),
     (''StateExportChallenged(uint16,bytes32,bytes32,address,string)'', [False, True, True, True, False]),
     (''StateExportSuperseded(uint16,bytes32,bytes32,bytes32,string)'', [False, True, True, True, False])]"

text \<open>The texts of the markers hold the topics and the digest above.\<close>

definition STATE_EXPORT_PUBLISHER_MARKERS :: "string list" where
  "STATE_EXPORT_PUBLISHER_MARKERS =
    [''STATE_EXPORT_PUBLISHER_EVENTS_V1'', ''LATEST_STATE_EXPORT_SELECTOR_'' @ STATE_EXPORT_LATEST_SELECTOR,
     ''STATE_EXPORT_PUBLISHED_TOPIC_'' @ snd (STATE_EXPORT_EVENT_TOPICS ! 0),
     ''STATE_EXPORT_CHALLENGED_TOPIC_'' @ snd (STATE_EXPORT_EVENT_TOPICS ! 1),
     ''STATE_EXPORT_SUPERSEDED_TOPIC_'' @ snd (STATE_EXPORT_EVENT_TOPICS ! 2),
     ''STATE_EXPORT_PUBLISHER_ABI_SHA256_'' @ removeprefix ''sha256:'' STATE_EXPORT_PUBLISHER_ABI_SHA256]"

definition GOVERNED_PARAMETER_AUTHORITY_FUNCTIONS :: "(string \<times> string \<times> string \<times> string list) list" where
  "GOVERNED_PARAMETER_AUTHORITY_FUNCTIONS =
    [(''isStreamGovernedParameterAuthority()'', ''0x8d96760d'', ''view'', [''bool'']),
     (''currentAction()'', ''0x546ea281'', ''view'', [''bool'', ''bytes32'', ''uint8'', ''bytes32'', ''bytes32'', ''bytes32''])]"

definition GOVERNED_PARAMETER_AUTHORITY_MARKERS :: "string list" where
  "GOVERNED_PARAMETER_AUTHORITY_MARKERS =
    [''GOVERNED_PARAMETER_AUTHORITY_ABI_V1'', ''GOVERNED_PARAMETER_AUTHORITY_MARKER_SELECTOR_0x8d96760d'',
     ''GOVERNED_PARAMETER_AUTHORITY_CONTEXT_SELECTOR_0x546ea281'',
     ''GOVERNED_PARAMETER_AUTHORITY_INTERFACE_ID_0xd9f8d48c'',
     ''GOVERNED_PARAMETER_AUTHORITY_ABI_SHA256_720e3b782672b5720bf4c679f09a20a3de74c4df856e34ad23bfc99a710b827a'']"

definition CATALOG_KEYS :: "string list" where
  "CATALOG_KEYS =
    [''eventCatalogHash'', ''compatibilityMatrixHash'', ''numericIdCatalogHash'', ''schemaCatalogHash'',
     ''canonicalizationCatalogHash'', ''specBundleHash'', ''reconstructionClientHash'']"

definition POINTER_TARGETS :: "(string \<times> string) list" where
  "POINTER_TARGETS =
    [(''ROYALTY_RESOLVER'', ''REVENUE_RESOLVER''), (''METADATA_ROUTER'', ''METADATA_ROUTER''),
     (''COLLECTION_METADATA'', ''COLLECTION_METADATA''), (''ENTROPY_COORDINATOR'', ''ENTROPY_COORDINATOR''),
     (''MINT_MANAGER'', ''MINT_MANAGER''), (''MINT_LEDGER'', ''MINT_LEDGER''),
     (''ARTIST_REGISTRY'', ''ARTIST_REGISTRY''),
     (''ARTWORK_FINALITY_REGISTRY'', ''ARTWORK_FINALITY_REGISTRY''),
     (''MODULE_REGISTRY'', ''MODULE_REGISTRY''), (''STATE_EXPORT_PUBLISHER'', ''GOVERNANCE_LAYER''),
     (''SYSTEM_MANIFEST'', ''STREAM_SYSTEM_MANIFEST'')]"

definition AGGREGATE_TARGETS :: "(string \<times> string) list" where
  "AGGREGATE_TARGETS =
    [(''revenueResolver'', ''REVENUE_RESOLVER''), (''metadataRouter'', ''METADATA_ROUTER''),
     (''collectionMetadata'', ''COLLECTION_METADATA''), (''entropyCoordinator'', ''ENTROPY_COORDINATOR''),
     (''mintManager'', ''MINT_MANAGER''), (''mintLedger'', ''MINT_LEDGER''),
     (''artistRegistry'', ''ARTIST_REGISTRY''), (''streamAdminsOrGovernance'', ''GOVERNANCE_LAYER''),
     (''artworkFinalityRegistry'', ''ARTWORK_FINALITY_REGISTRY''), (''moduleRegistry'', ''MODULE_REGISTRY''),
     (''stateExportPublisher'', ''GOVERNANCE_LAYER'')]"

definition EXPECTED_PROFILE_ENTRIES :: nat where
  "EXPECTED_PROFILE_ENTRIES = 37"

definition MANIFEST_CHAIN_ID :: int where
  "MANIFEST_CHAIN_ID = 1"
section \<open>Digests and derivations\<close>

definition strings_json :: "string list \<Rightarrow> json" where
  "strings_json xs = JList (map JStr xs)"

definition with_digest :: "hashes \<Rightarrow> dict \<Rightarrow> string \<Rightarrow> string \<Rightarrow> dict res" where
  "with_digest H surface expected message =
     (let digest = sha256_bytes H (canonical_json_bytes (JDict surface)) in
      rbind (mv_check (digest \<noteq> expected) message) (\<lambda>_.
      Inr (dmerge surface [(''surface_sha256'', JStr digest)])))"

definition state_export_publisher_surface :: "hashes \<Rightarrow> dict res" where
  "state_export_publisher_surface H =
     with_digest H
       [(''schema'', JStr STATE_EXPORT_PUBLISHER_ABI_SCHEMA), (''required_interface'', JStr STATE_EXPORT_PUBLISHER_INTERFACE),
        (''interface_id'', JStr STATE_EXPORT_PUBLISHER_INTERFACE_ID),
        (''functions'', JList [JDict [(''signature'', JStr ''latestStateExport()''),
           (''selector'', JStr STATE_EXPORT_LATEST_SELECTOR), (''state_mutability'', JStr ''view''),
           (''returns'', strings_json STATE_EXPORT_LATEST_RETURNS)]]),
        (''events'', JList (map (\<lambda>(signature, topic0). JDict [(''signature'', JStr signature),
           (''topic0'', JStr topic0), (''anonymous'', JBool False),
           (''indexed'', JList (map JBool (the (map_of STATE_EXPORT_EVENT_INDEXED_MASKS signature))))])
           STATE_EXPORT_EVENT_TOPICS))]
       STATE_EXPORT_PUBLISHER_ABI_SHA256
       ''reviewed state-export publisher ABI constants disagree with their fixed digest''"

definition governed_parameter_authority_surface :: "hashes \<Rightarrow> dict res" where
  "governed_parameter_authority_surface H =
     with_digest H
       [(''schema'', JStr GOVERNED_PARAMETER_AUTHORITY_ABI_SCHEMA),
        (''required_interface'', JStr GOVERNED_PARAMETER_AUTHORITY_INTERFACE),
        (''interface_id'', JStr GOVERNED_PARAMETER_AUTHORITY_INTERFACE_ID),
        (''functions'', JList (map (\<lambda>(signature, selector, state_mutability, returns). JDict [
           (''signature'', JStr signature), (''selector'', JStr selector), (''state_mutability'', JStr state_mutability),
           (''returns'', strings_json returns)]) GOVERNED_PARAMETER_AUTHORITY_FUNCTIONS)),
        (''events'', JList [])]
       GOVERNED_PARAMETER_AUTHORITY_ABI_SHA256
       ''reviewed governed-parameter authority ABI constants disagree with their fixed digest''"

definition derivation_preimage :: "string \<Rightarrow> string list \<Rightarrow> byte list" where
  "derivation_preimage label parts = str_bytes (join ''|'' (VECTOR_DERIVATION_DOMAIN # label # parts))"

definition derive_hash :: "hashes \<Rightarrow> string \<Rightarrow> string list \<Rightarrow> string" where
  "derive_hash H label parts = keccak256_hex H (derivation_preimage label parts)"

definition derive_address :: "hashes \<Rightarrow> string \<Rightarrow> string list \<Rightarrow> string" where
  "derive_address H label parts =
     (let digest = keccak H (derivation_preimage label parts)
      in ''0x'' @ bytes_hex (drop (length digest - 20) digest))"

definition derive_selector :: "hashes \<Rightarrow> string \<Rightarrow> string list \<Rightarrow> string" where
  "derive_selector H label parts = ''0x'' @ bytes_hex (take 4 (keccak H (derivation_preimage label parts)))"

definition derive_target_identity_view_hash :: "hashes \<Rightarrow> string \<Rightarrow> string" where
  "derive_target_identity_view_hash H profile_sha256 = derive_hash H ''deployment-identity-view-hash'' [profile_sha256]"

definition derive_target_deployment_identity_hash :: "hashes \<Rightarrow> string \<Rightarrow> string res" where
  "derive_target_deployment_identity_hash H profile_sha256 =
     rbind (mv_abi_encode_static [(''bytes32'', JStr DEPLOYMENT_IDENTITY_DOMAIN),
       (''bytes32'', JStr (derive_target_identity_view_hash H profile_sha256))]) (\<lambda>encoded.
     Inr (keccak256_hex H encoded))"

section \<open>The profile\<close>

definition KEY_RE :: "string \<Rightarrow> bool" where
  "KEY_RE s \<longleftrightarrow> s \<noteq> [] \<and> is_upper (hd s) \<and> list_all (\<lambda>c. is_upper c \<or> is_digit c \<or> c = CHR ''_'') (tl s)"

definition entry_path :: "nat \<Rightarrow> string" where
  "entry_path i = ''profile.entries['' @ dec i @ '']''"

text \<open>The identifier and the key of an entry, with the entry itself.\<close>

type_synonym profile_entry = "int \<times> string \<times> dict"

definition check_entry :: "nat \<Rightarrow> json \<Rightarrow> profile_entry res" where
  "check_entry i raw_entry =
     (case raw_entry of JDict d \<Rightarrow>
        (case dget d ''id'' of JInt entry_id \<Rightarrow>
           (case dget d ''key'' of JStr key \<Rightarrow>
              if \<not> KEY_RE key then mv_fail (entry_path i @ ''.key is not canonical'')
              else if dget d ''kind'' \<noteq> JStr ''contract''
              then mv_fail (entry_path i @ ''.kind must be '' @ [CHR 0x27] @ ''contract'' @ [CHR 0x27])
              else Inr (entry_id, key, d)
           | _ \<Rightarrow> mv_fail (entry_path i @ ''.key is not canonical''))
        | _ \<Rightarrow> mv_fail (entry_path i @ ''.id must be an integer''))
      | _ \<Rightarrow> mv_fail (entry_path i @ '' must be an object''))"

definition string_array :: "json \<Rightarrow> string list option" where
  "string_array v =
     (case v of JList vs \<Rightarrow>
        if list_all (\<lambda>x. case x of JStr _ \<Rightarrow> True | _ \<Rightarrow> False) vs
        then Some (map (\<lambda>x. case x of JStr s \<Rightarrow> s | _ \<Rightarrow> []) vs) else None
      | _ \<Rightarrow> None)"

definition require_string_array :: "json \<Rightarrow> string \<Rightarrow> string list res" where
  "require_string_array v message = (case string_array v of None \<Rightarrow> mv_fail message | Some xs \<Rightarrow> Inr xs)"

definition required_keys :: "string list" where
  "required_keys = map snd POINTER_TARGETS @ map snd AGGREGATE_TARGETS"

definition check_governance :: "dict \<Rightarrow> unit res" where
  "check_governance governance =
     rbind (require_string_array (dget governance ''required_interfaces'')
       ''GOVERNANCE_LAYER required_interfaces must be a string array'') (\<lambda>interfaces.
     rbind (require_string_array (dget governance ''required_markers'')
       ''GOVERNANCE_LAYER required_markers must be a string array'') (\<lambda>markers.
     rbind (mv_check (STATE_EXPORT_PUBLISHER_INTERFACE \<notin> set interfaces \<or>
         \<not> set STATE_EXPORT_PUBLISHER_MARKERS \<subseteq> set markers)
       ''GOVERNANCE_LAYER must prove the state-export publisher interface and event marker before serving STATE_EXPORT_PUBLISHER'') (\<lambda>_.
     mv_check (GOVERNED_PARAMETER_AUTHORITY_INTERFACE \<notin> set interfaces \<or>
         \<not> set GOVERNED_PARAMETER_AUTHORITY_MARKERS \<subseteq> set markers)
       ''GOVERNANCE_LAYER must prove the exact governed-parameter authority interface and ABI markers'')))"

definition require_profile :: "json \<Rightarrow> profile_entry list res" where
  "require_profile profile =
     (case profile of JDict p \<Rightarrow>
        rbind (mv_check (dget p ''schema_version'' \<noteq> JStr PROFILE_SCHEMA) ''genesis profile schema version drifted'') (\<lambda>_.
        rbind (mv_check (\<not> py_eq (dget p ''chain_id'') (JInt MANIFEST_CHAIN_ID)) ''genesis profile must target chain ID 1'') (\<lambda>_.
        rbind (case dget p ''entries'' of
                 JList es \<Rightarrow> (if length es \<noteq> EXPECTED_PROFILE_ENTRIES
                   then mv_fail (''genesis profile must contain exactly '' @ dec EXPECTED_PROFILE_ENTRIES @ '' entries'')
                   else Inr es)
               | _ \<Rightarrow> mv_fail (''genesis profile must contain exactly '' @ dec EXPECTED_PROFILE_ENTRIES @ '' entries'')) (\<lambda>raw.
        rbind (each check_entry 0 raw) (\<lambda>entries.
        let keys = map (\<lambda>(_, key, _). key) entries;
            missing = sort (filter (\<lambda>k. k \<notin> set keys) (remdups required_keys)) in
        rbind (mv_check (map fst entries \<noteq> map int [1..<EXPECTED_PROFILE_ENTRIES + 1])
          (''profile entry IDs must be the exact contiguous 1..'' @ dec EXPECTED_PROFILE_ENTRIES @ '' walk'')) (\<lambda>_.
        rbind (mv_check (\<not> distinct keys) ''profile entry keys must be unique'') (\<lambda>_.
        rbind (mv_check (missing \<noteq> []) (''profile is missing target-vector entries: '' @ py_repr_list missing)) (\<lambda>_.
        rbind (check_governance (the (map_of (map snd entries) ''GOVERNANCE_LAYER''))) (\<lambda>_.
        Inr entries))))))))
      | _ \<Rightarrow> mv_fail ''genesis profile must be an object'')"

section \<open>The facts of an entry\<close>

record facts =
  fact_id :: int
  fact_key :: string
  entry_hash :: string
  fact_address :: string
  runtime_code_hash :: string
  create2_salt :: string
  init_code_hash :: string
  deployment_manifest_hash :: string
  module_manifest_hash :: string
  module_type :: string
  module_version :: string
  interface_id :: string

definition module_type_of :: "hashes \<Rightarrow> string \<Rightarrow> string" where
  "module_type_of H key =
     (if key = ''STREAM_SYSTEM_MANIFEST'' then keccak256_hex H (str_bytes ''STREAM_SYSTEM_MANIFEST'')
      else keccak256_hex H (str_bytes key))"

definition interface_id_of :: "hashes \<Rightarrow> profile_entry \<Rightarrow> string res" where
  "interface_id_of H entry =
     (case entry of (entry_id, key, d) \<Rightarrow>
        if key = ''STREAM_SYSTEM_MANIFEST'' then Inr ''0x37660ede''
        else if key = ''STREAM_CORE_FINALITY_ADAPTER'' then Inr STREAM_CORE_FINALITY_ADAPTER_INTERFACE_ID
        else if key = ''GOVERNANCE_LAYER'' then Inr STATE_EXPORT_PUBLISHER_INTERFACE_ID
        else rbind (require_string_array (dget d ''required_interfaces'') (key @ '' required_interfaces must be strings''))
          (\<lambda>interfaces. Inr (derive_selector H ''interface-id'' [dec_int entry_id, key, join '','' interfaces])))"

definition facts_of :: "hashes \<Rightarrow> (string \<Rightarrow> string) \<Rightarrow> string \<Rightarrow> profile_entry \<Rightarrow> facts res" where
  "facts_of H nfc deployment_identity_hash entry =
     (case entry of (entry_id, key, d) \<Rightarrow>
        rbind (mv_jcs_bytes nfc (JDict d)) (\<lambda>canonical.
        let hash = keccak256_hex H canonical;
            identity = [dec_int entry_id, key, hash] in
        rbind (interface_id_of H entry) (\<lambda>interface.
        Inr \<lparr>fact_id = entry_id, fact_key = key, entry_hash = hash,
             fact_address = derive_address H ''contract-address'' [dec_int entry_id, key],
             runtime_code_hash = derive_hash H ''runtime-code-hash'' identity,
             create2_salt = derive_hash H ''create2-salt'' identity,
             init_code_hash = derive_hash H ''init-code-hash'' identity,
             deployment_manifest_hash = deployment_identity_hash,
             module_manifest_hash = derive_hash H ''module-manifest-hash'' identity,
             module_type = module_type_of H key,
             module_version = keccak256_hex H (str_bytes MODULE_VERSION_LITERAL),
             interface_id = interface\<rparr>)))"

text \<open>\<open>facts\<close> maps the keys, which are distinct, in the order of the entries.\<close>

definition entry_facts :: "hashes \<Rightarrow> (string \<Rightarrow> string) \<Rightarrow> profile_entry list \<Rightarrow> string \<Rightarrow> (string \<times> facts) list res" where
  "entry_facts H nfc entries deployment_identity_hash =
     rbind (each (\<lambda>_. facts_of H nfc deployment_identity_hash) 0 entries) (\<lambda>rows.
     Inr (map (\<lambda>row. (fact_key row, row)) rows))"

definition fact :: "(string \<times> facts) list \<Rightarrow> string \<Rightarrow> facts res" where
  "fact fs key = (case map_of fs key of None \<Rightarrow> Inl (KeyError key) | Some row \<Rightarrow> Inr row)"

section \<open>The payload\<close>

definition contract_record :: "int \<Rightarrow> string \<Rightarrow> facts \<Rightarrow> json" where
  "contract_record entry_id key row =
     JDict [(''inventoryId'', JInt entry_id), (''key'', JStr key), (''address'', JStr (fact_address row)),
       (''runtimeCodeHash'', JStr (runtime_code_hash row)), (''create2Salt'', JStr (create2_salt row)),
       (''initCodeHash'', JStr (init_code_hash row)), (''deploymentManifestHash'', JStr (deployment_manifest_hash row))]"

definition contract_records :: "profile_entry list \<Rightarrow> (string \<times> facts) list \<Rightarrow> json list res" where
  "contract_records entries fs =
     each (\<lambda>_ (entry_id, key, _). rbind (fact fs key) (\<lambda>row. Inr (contract_record entry_id key row))) 0 entries"

definition registry_entries :: "profile_entry list \<Rightarrow> (string \<times> facts) list \<Rightarrow> json list res" where
  "registry_entries entries fs =
     rbind (fact fs ''MODULE_REGISTRY'') (\<lambda>registry.
     each (\<lambda>index (_, key, _). rbind (fact fs key) (\<lambda>item.
       Inr (JDict [(''registry'', JStr (fact_address registry)), (''enumerationIndex'', JInt (int index)),
         (''module'', JStr (fact_address item)), (''status'', JInt 1), (''moduleType'', JStr (module_type item)),
         (''moduleVersion'', JStr (module_version item)), (''interfaceId'', JStr (interface_id item)),
         (''moduleGasLimit'', JStr ''0''), (''runtimeCodeHash'', JStr (runtime_code_hash item)),
         (''deploymentManifestHash'', JStr (deployment_manifest_hash item)),
         (''moduleManifestHash'', JStr (module_manifest_hash item)),
         (''moduleManifestURI'', JStr (''ipfs://target-abi-lock-fixture/module/'' @ drop 2 (module_manifest_hash item))),
         (''revision'', JStr ''1'')]))) 0 entries)"

text \<open>A row with the text it is sorted by.\<close>

definition pointers :: "hashes \<Rightarrow> (string \<times> facts) list \<Rightarrow> json list res" where
  "pointers H fs =
     rbind (fact fs ''MODULE_REGISTRY'') (\<lambda>registry.
     rbind (each (\<lambda>_ (pointer_name, target_key). rbind (fact fs target_key) (\<lambda>target.
       let pointer_type = keccak256_hex H (str_bytes pointer_name) in
       Inr (pointer_type, JDict [(''pointerType'', JStr pointer_type), (''target'', JStr (fact_address target)),
         (''codeHash'', JStr (runtime_code_hash target)), (''frozen'', JBool (pointer_name = ''SYSTEM_MANIFEST'')),
         (''moduleType'', JStr (module_type target)), (''interfaceId'', JStr (interface_id target)),
         (''registry'', JStr (fact_address registry)), (''registryStatus'', JInt 1),
         (''moduleManifestHash'', JStr (module_manifest_hash target)),
         (''deploymentManifestHash'', JStr (deployment_manifest_hash target)), (''revision'', JStr ''1'')]))) 0 POINTER_TARGETS) (\<lambda>rows.
     Inr (map snd (sort_key fst rows))))"

definition FALLBACK_TARGETS :: "(string \<times> string) list" where
  "FALLBACK_TARGETS =
     [(''ENTROPY_COORDINATOR'', ''ENTROPY_COORDINATOR_FALLBACK''), (''MINT_MANAGER'', ''MINT_MANAGER_FALLBACK'')]"

definition critical_fallbacks :: "hashes \<Rightarrow> (string \<times> facts) list \<Rightarrow> json list res" where
  "critical_fallbacks H fs =
     rbind (fact fs ''MODULE_REGISTRY'') (\<lambda>registry.
     rbind (each (\<lambda>_ (pointer_name, key). rbind (fact fs key) (\<lambda>target.
       let pointer_type = keccak256_hex H (str_bytes pointer_name) in
       Inr ((pointer_type, fact_address target), JDict [(''pointerType'', JStr pointer_type),
         (''target'', JStr (fact_address target)), (''runtimeCodeHash'', JStr (runtime_code_hash target)),
         (''moduleType'', JStr (module_type target)), (''interfaceId'', JStr (interface_id target)),
         (''registry'', JStr (fact_address registry)), (''moduleManifestHash'', JStr (module_manifest_hash target)),
         (''deploymentManifestHash'', JStr (deployment_manifest_hash target))]))) 0 FALLBACK_TARGETS) (\<lambda>rows.
     Inr (map snd (sort_key fst rows))))"

text \<open>The payload and the facts it was built from; the lookups are in the order of the code.\<close>

definition mv_build_payload ::
    "hashes \<Rightarrow> (string \<Rightarrow> string) \<Rightarrow> json \<Rightarrow> string \<Rightarrow> (dict \<times> profile_entry list \<times> (string \<times> facts) list) res" where
  "mv_build_payload H nfc profile profile_sha256 =
     rbind (require_profile profile) (\<lambda>entries.
     rbind (derive_target_deployment_identity_hash H profile_sha256) (\<lambda>identity_hash.
     rbind (entry_facts H nfc entries identity_hash) (\<lambda>fs.
     let catalogs = map (\<lambda>key. (key, JStr (derive_hash H ''catalog-hash'' [key, profile_sha256]))) CATALOG_KEYS in
     rbind (each (\<lambda>_ (key, target). rbind (fact fs target) (\<lambda>row. Inr (key, JStr (fact_address row)))) 0 AGGREGATE_TARGETS) (\<lambda>aggregate.
     rbind (fact fs ''STREAM_CORE'') (\<lambda>core.
     rbind (fact fs ''STREAM_SYSTEM_MANIFEST'') (\<lambda>system_manifest.
     rbind (contract_records entries fs) (\<lambda>contracts.
     rbind (pointers H fs) (\<lambda>pointer_rows.
     rbind (registry_entries entries fs) (\<lambda>registry_rows.
     rbind (critical_fallbacks H fs) (\<lambda>fallback_rows.
     Inr ([(''schema'', JStr PAYLOAD_SCHEMA_LITERAL), (''schemaVersion'', JInt MANIFEST_SCHEMA_VERSION),
       (''chainId'', JStr (dec_int MANIFEST_CHAIN_ID)), (''core'', JStr (fact_address core)),
       (''systemManifest'', JStr (fact_address system_manifest)), (''publicationRevision'', JStr ''1''),
       (''aggregate'', JDict aggregate), (''catalogs'', JDict catalogs),
       (''moduleRegistryManifest'', JDict [(''hash'', JStr (derive_hash H ''module-registry-manifest-hash'' [profile_sha256])),
          (''uri'', JStr ''ipfs://target-abi-lock-fixture/module-registry''), (''revision'', JStr ''1'')]),
       (''contracts'', JList contracts), (''pointers'', JList pointer_rows), (''registryEntries'', JList registry_rows),
       (''gasParameterProbes'', JList []), (''criticalFallbacks'', JList fallback_rows),
       (''securityContact'', JDict [(''policyHash'', JStr (derive_hash H ''security-policy-hash'' [profile_sha256])),
          (''uri'', JStr ''ipfs://target-abi-lock-fixture/security-policy'')])], entries, fs)))))))))))"

section \<open>Commitments\<close>

text \<open>The bytes each commitment hashes.\<close>

definition leaf_preimage :: "nat \<Rightarrow> nat \<Rightarrow> string \<Rightarrow> byte list res" where
  "leaf_preimage index len payload_hash =
     mv_abi_encode_static [(''bytes32'', JStr PAYLOAD_LEAF_DOMAIN), (''uint256'', JInt (int index)),
       (''uint32'', JInt (int len)), (''bytes32'', JStr payload_hash)]"

record chunk =
  chunk_index :: nat
  chunk_pointer :: string
  chunk_segment :: "byte list"
  chunk_payload_hash :: string
  leaf_hash :: string

definition chunk_record :: "hashes \<Rightarrow> nat \<Rightarrow> byte list \<Rightarrow> chunk res" where
  "chunk_record H index segment =
     (let payload_hash = keccak256_hex H segment;
          pointer = derive_address H ''sstore2-chunk-pointer'' [dec index, payload_hash] in
      rbind (leaf_preimage index (length segment) payload_hash) (\<lambda>preimage.
      Inr \<lparr>chunk_index = index, chunk_pointer = pointer, chunk_segment = segment, chunk_payload_hash = payload_hash,
           leaf_hash = keccak256_hex H preimage\<rparr>))"

definition chunk_records :: "hashes \<Rightarrow> byte list list \<Rightarrow> chunk list res" where
  "chunk_records H segments = each (chunk_record H) 0 segments"

definition chunk_json :: "hashes \<Rightarrow> chunk \<Rightarrow> dict" where
  "chunk_json H c =
     [(''index'', JInt (int (chunk_index c))), (''pointer'', JStr (chunk_pointer c)),
      (''payload_length'', JInt (int (length (chunk_segment c)))), (''segment_hex'', JStr (''0x'' @ bytes_hex (chunk_segment c))),
      (''payload_hash'', JStr (chunk_payload_hash c)), (''leaf_hash'', JStr (leaf_hash c)),
      (''runtime_code_hash'', JStr (keccak256_hex H (0 # chunk_segment c)))]"

definition list_preimage :: "nat \<Rightarrow> string list \<Rightarrow> byte list res" where
  "list_preimage total_bytes leaf_hashes =
     abi_encode_bytes32_array_prefix [(''bytes32'', JStr PAYLOAD_LIST_DOMAIN), (''uint32'', JInt (int total_bytes))] leaf_hashes"

definition chunk_list_hash :: "hashes \<Rightarrow> nat \<Rightarrow> string list \<Rightarrow> string res" where
  "chunk_list_hash H total_bytes leaf_hashes =
     rbind (list_preimage total_bytes leaf_hashes) (\<lambda>encoded. Inr (keccak256_hex H encoded))"

definition root_preimage :: "nat \<Rightarrow> nat \<Rightarrow> string \<Rightarrow> byte list res" where
  "root_preimage total_bytes chunk_count list_hash =
     mv_abi_encode_static [(''bytes32'', JStr PAYLOAD_ROOT_DOMAIN), (''uint16'', JInt MANIFEST_SCHEMA_VERSION),
       (''bytes32'', JStr PAYLOAD_SCHEMA_ID), (''bytes32'', JStr CANONICALIZATION_ID), (''uint32'', JInt (int total_bytes)),
       (''uint16'', JInt (int chunk_count)), (''bytes32'', JStr list_hash)]"

definition payload_root_hash :: "hashes \<Rightarrow> nat \<Rightarrow> nat \<Rightarrow> string \<Rightarrow> string res" where
  "payload_root_hash H total_bytes chunk_count list_hash =
     rbind (root_preimage total_bytes chunk_count list_hash) (\<lambda>encoded. Inr (keccak256_hex H encoded))"

text \<open>The chunks of a payload with the hash of their list and the root hash.\<close>

definition payload_commitment :: "hashes \<Rightarrow> byte list \<Rightarrow> (chunk list \<times> string \<times> string) res" where
  "payload_commitment H canonical =
     rbind (split_payload canonical) (\<lambda>segments.
     rbind (chunk_records H segments) (\<lambda>chunks.
     rbind (chunk_list_hash H (length canonical) (map leaf_hash chunks)) (\<lambda>list_hash.
     rbind (payload_root_hash H (length canonical) (length chunks) list_hash) (\<lambda>root_hash.
     Inr (chunks, list_hash, root_hash)))))"

section \<open>The vector\<close>

text \<open>The sections of the vector that the profile does not change.\<close>

definition blocker_json :: "nat \<Rightarrow> json" where
  "blocker_json n =
     JDict [(''issue'', JStr BLOCKER_ISSUE), (''reason'', JStr (''The '' @ dec n @
       ''-entry genesis profile is a planning inventory without deployed addresses, code hashes, or live state enumerations; '' @
       ''an instance-aware candidate must replace this fixture before deployment-semantic reconciliation.''))]"

definition source_json :: "string \<Rightarrow> nat \<Rightarrow> json" where
  "source_json profile_sha256 n =
     JDict [(''genesis_deployment_profile'', JStr ''release-artifacts/genesis-deployment-profile.json''),
       (''genesis_deployment_profile_sha256'', JStr profile_sha256), (''profile_schema_version'', JStr PROFILE_SCHEMA),
       (''profile_entry_count'', JInt (int n)),
       (''normative_anchor'', JStr ''docs/stream-long-term-architecture.md#LTA-MANIFEST'')]"

definition quoted_bar :: string where
  "quoted_bar = [CHR 0x27] @ ''|'' @ [CHR 0x27]"

definition derivation_json :: "string \<Rightarrow> string \<Rightarrow> dict \<Rightarrow> dict \<Rightarrow> json" where
  "derivation_json view_hash identity_hash publisher authority =
     JDict [(''domain'', JStr VECTOR_DERIVATION_DOMAIN),
       (''preimage_format'', JStr (''UTF8(join('' @ quoted_bar @ '', [domain, label, *parts]))'')),
       (''hash_rule'', JStr ''keccak256(UTF8(preimage))''), (''address_rule'', JStr ''low_20_bytes(keccak256(UTF8(preimage)))''),
       (''selector_rule'', JStr ''high_4_bytes(keccak256(UTF8(preimage)))''),
       (''contract_address_parts'', strings_json [''decimal inventoryId'', ''profile key'']),
       (''per_contract_hash_parts'', strings_json [''decimal inventoryId'', ''profile key'', ''keccak256(JCS(profile entry))'']),
       (''deployment_identity'', JDict [(''scope'', JStr TARGET_DEPLOYMENT_IDENTITY_SCOPE),
          (''identity_view_rule'', JStr TARGET_IDENTITY_VIEW_RULE), (''outer_rule'', JStr TARGET_IDENTITY_OUTER_RULE),
          (''domain'', JStr DEPLOYMENT_IDENTITY_DOMAIN), (''identity_view_hash'', JStr view_hash),
          (''hash'', JStr identity_hash)]),
       (''chunk_pointer_parts'', strings_json [''zero-based chunk index'', ''segment keccak256'']),
       (''catalog_hash_parts'', strings_json [''catalog field name'', ''raw genesis-profile SHA-256'']),
       (''sstore2_carrier_policy'',
          JStr ''root and chunk carriers are excluded from payload.contracts to avoid a self-address fixed point''),
       (''state_export_publisher_binding'', JStr ''GOVERNANCE_LAYER''), (''state_export_publisher_surface'', JDict publisher),
       (''governed_parameter_authority_binding'', JStr ''GOVERNANCE_LAYER''),
       (''governed_parameter_authority_surface'', JDict authority)]"

definition constants_json :: json where
  "constants_json =
     JDict [(''schema_version'', JInt MANIFEST_SCHEMA_VERSION), (''payload_schema_literal'', JStr PAYLOAD_SCHEMA_LITERAL),
       (''payload_schema_id'', JStr PAYLOAD_SCHEMA_ID), (''canonicalization_literal'', JStr CANONICALIZATION_LITERAL),
       (''canonicalization_id'', JStr CANONICALIZATION_ID), (''chunk_payload_bytes'', JInt (int CHUNK_PAYLOAD_BYTES)),
       (''max_manifest_chunks'', JInt (int MAX_MANIFEST_CHUNKS)),
       (''max_manifest_payload_bytes'', JInt (int MAX_MANIFEST_PAYLOAD_BYTES)),
       (''max_root_descriptor_bytes'', JInt (int MAX_MANIFEST_ROOT_DESCRIPTOR_BYTES)),
       (''root_descriptor_magic'', JStr ROOT_DESCRIPTOR_MAGIC),
       (''root_descriptor_dynamic_offset'', JInt ROOT_DESCRIPTOR_DYNAMIC_OFFSET),
       (''payload_leaf_domain'', JStr PAYLOAD_LEAF_DOMAIN), (''payload_list_domain'', JStr PAYLOAD_LIST_DOMAIN),
       (''payload_root_domain'', JStr PAYLOAD_ROOT_DOMAIN), (''deployment_identity_domain'', JStr DEPLOYMENT_IDENTITY_DOMAIN)]"

definition canonical_payload_json :: "hashes \<Rightarrow> byte list \<Rightarrow> json" where
  "canonical_payload_json H canonical =
     JDict [(''canonicalization'', JStr CANONICALIZATION_LITERAL), (''utf8_hex'', JStr (''0x'' @ bytes_hex canonical)),
       (''byte_length'', JInt (int (length canonical))), (''keccak256'', JStr (keccak256_hex H canonical)),
       (''sha256'', JStr (sha256_bytes H canonical))]"

definition commitments_json :: "string list \<Rightarrow> string \<Rightarrow> string \<Rightarrow> json" where
  "commitments_json leaf_hashes list_hash root_hash =
     JDict [(''ordered_leaf_hashes'', strings_json leaf_hashes), (''chunk_list_hash'', JStr list_hash),
       (''payload_root_hash'', JStr root_hash), (''manifest_hash'', JStr root_hash)]"

definition root_descriptor_json :: "hashes \<Rightarrow> nat \<Rightarrow> dict list \<Rightarrow> byte list \<Rightarrow> json" where
  "root_descriptor_json H total_bytes rows descriptor =
     JDict [(''magic'', JStr ROOT_DESCRIPTOR_MAGIC), (''schema_version'', JInt MANIFEST_SCHEMA_VERSION),
       (''schema_id'', JStr PAYLOAD_SCHEMA_ID), (''canonicalization_id'', JStr CANONICALIZATION_ID),
       (''total_bytes'', JInt (int total_bytes)), (''chunk_count'', JInt (int (length rows))),
       (''dynamic_offset'', JInt ROOT_DESCRIPTOR_DYNAMIC_OFFSET), (''chunks'', JList (map JDict rows)),
       (''encoded_length'', JInt (int (length descriptor))), (''encoded_hex'', JStr (''0x'' @ bytes_hex descriptor)),
       (''keccak256'', JStr (keccak256_hex H descriptor)), (''runtime_code_hash'', JStr (keccak256_hex H (0 # descriptor)))]"

definition semantic_round_trip_json :: "dict \<Rightarrow> profile_entry list \<Rightarrow> (string \<times> facts) list \<Rightarrow> string \<Rightarrow> json" where
  "semantic_round_trip_json payload entries fs identity_hash =
     JDict [(''profile_entry_ids'', JList (map (\<lambda>(entry_id, _). JInt entry_id) entries)),
       (''profile_keys'', strings_json (map (\<lambda>(_, key, _). key) entries)),
       (''contract_address_by_key'', JDict (map (\<lambda>(key, row). (key, JStr (fact_address row))) fs)),
       (''aggregate'', dget payload ''aggregate''), (''catalogs'', dget payload ''catalogs''),
       (''deployment_manifest_hash'', JStr identity_hash), (''contract_count'', JInt (int (length entries))),
       (''pointer_count'', JInt (int (length POINTER_TARGETS))), (''registry_entry_count'', JInt (int (length entries))),
       (''critical_fallback_count'', JInt (int (length FALLBACK_TARGETS))),
       (''all_profile_entry_addresses'', JList (map (\<lambda>(_, row). JStr (fact_address row)) fs))]"

definition build_vector :: "hashes \<Rightarrow> (string \<Rightarrow> string) \<Rightarrow> json \<Rightarrow> byte list \<Rightarrow> dict res" where
  "build_vector H nfc profile profile_raw =
     (let profile_sha256 = sha256_bytes H profile_raw;
          view_hash = derive_target_identity_view_hash H profile_sha256 in
      rbind (derive_target_deployment_identity_hash H profile_sha256) (\<lambda>identity_hash.
      rbind (mv_build_payload H nfc profile profile_sha256) (\<lambda>(payload, entries, fs).
      rbind (mv_jcs_bytes nfc (JDict payload)) (\<lambda>canonical.
      rbind (payload_commitment H canonical) (\<lambda>(chunks, list_hash, root_hash).
      let rows = map (\<lambda>c. descriptor_row (chunk_json H c)) chunks in
      rbind (encode_root_descriptor rows (int (length canonical))) (\<lambda>descriptor.
      rbind (decode_root_descriptor descriptor) (\<lambda>decoded.
      rbind (mv_check (\<not> py_eq (dget decoded ''chunks'') (JList (map JDict rows))) ''root descriptor semantic round trip failed'') (\<lambda>_.
      rbind (state_export_publisher_surface H) (\<lambda>publisher.
      rbind (governed_parameter_authority_surface H) (\<lambda>authority.
      Inr [(''schema_version'', JStr VECTOR_SCHEMA), (''evidence_class'', JStr EVIDENCE_CLASS),
        (''production_candidate'', JBool False), (''readiness_evidence'', JBool False),
        (''blocker'', blocker_json (length entries)), (''source'', source_json profile_sha256 (length entries)),
        (''fixture_derivation'', derivation_json view_hash identity_hash publisher authority),
        (''constants'', constants_json), (''payload'', JDict payload),
        (''canonical_payload'', canonical_payload_json H canonical), (''chunks'', JList (map (\<lambda>c. JDict (chunk_json H c)) chunks)),
        (''commitments'', commitments_json (map leaf_hash chunks) list_hash root_hash),
        (''root_descriptor'', root_descriptor_json H (length canonical) rows descriptor),
        (''semantic_round_trip'', semantic_round_trip_json payload entries fs identity_hash)]))))))))))"

text \<open>\<open>render_vector\<close> and the outcome of \<open>main\<close> on a profile that was read: the text it writes and
  the exit status; it catches \<open>ManifestVectorError\<close> and the errors of the file system.\<close>

definition render_vector :: "dict \<Rightarrow> string" where
  "render_vector vector = json_text (JDict vector)"

definition generate :: "hashes \<Rightarrow> (string \<Rightarrow> string) \<Rightarrow> json \<Rightarrow> byte list \<Rightarrow> (nat \<times> string option) res" where
  "generate H nfc profile profile_raw =
     (case build_vector H nfc profile profile_raw of
        Inr vector \<Rightarrow> Inr (0, Some (render_vector vector))
      | Inl (ManifestVectorError _) \<Rightarrow> Inr (1, None)
      | Inl (OSError _) \<Rightarrow> Inr (1, None)
      | Inl e \<Rightarrow> Inl e)"

section \<open>The root hash determines the payload\<close>

lemma domain_bytes:
  "PAYLOAD_LEAF_DOMAIN = ''0x'' @ bytes_hex (id_bytes PAYLOAD_LEAF_DOMAIN)" "length (id_bytes PAYLOAD_LEAF_DOMAIN) = 32"
  "PAYLOAD_LIST_DOMAIN = ''0x'' @ bytes_hex (id_bytes PAYLOAD_LIST_DOMAIN)" "length (id_bytes PAYLOAD_LIST_DOMAIN) = 32"
  "PAYLOAD_ROOT_DOMAIN = ''0x'' @ bytes_hex (id_bytes PAYLOAD_ROOT_DOMAIN)" "length (id_bytes PAYLOAD_ROOT_DOMAIN) = 32"
  by ((rule id_bytes_hex; code_simp) | code_simp)+

lemma domain_words:
  "bytes32_word (JStr PAYLOAD_LEAF_DOMAIN) p = Inr w \<longleftrightarrow> w = id_bytes PAYLOAD_LEAF_DOMAIN"
  "bytes32_word (JStr PAYLOAD_LIST_DOMAIN) p = Inr w \<longleftrightarrow> w = id_bytes PAYLOAD_LIST_DOMAIN"
  "bytes32_word (JStr PAYLOAD_ROOT_DOMAIN) p = Inr w \<longleftrightarrow> w = id_bytes PAYLOAD_ROOT_DOMAIN"
  "bytes32_word (JStr PAYLOAD_SCHEMA_ID) p = Inr w \<longleftrightarrow> w = id_bytes PAYLOAD_SCHEMA_ID"
  "bytes32_word (JStr CANONICALIZATION_ID) p = Inr w \<longleftrightarrow> w = id_bytes CANONICALIZATION_ID"
  by (simp_all only: bytes32_word_def hex_of_bytes[OF domain_bytes(1,2)] hex_of_bytes[OF domain_bytes(3,4)]
      hex_of_bytes[OF domain_bytes(5,6)] hex_of_bytes[OF schema_bytes] hex_of_bytes[OF canonicalization_bytes])

lemma digest_word: "wf_hashes H \<Longrightarrow> bytes32_word (JStr (keccak256_hex H x)) p = Inr w \<longleftrightarrow> w = keccak H x"
  by (simp add: bytes32_word_def keccak256_hex_def hex_of_bytes[of _ "keccak H x"] wf_hashes_def)

lemma identity_bytes:
  "DEPLOYMENT_IDENTITY_DOMAIN = ''0x'' @ bytes_hex (id_bytes DEPLOYMENT_IDENTITY_DOMAIN)"
  "length (id_bytes DEPLOYMENT_IDENTITY_DOMAIN) = 32"
  by ((rule id_bytes_hex; code_simp) | code_simp)+

lemma identity_hash_total:
  assumes "wf_hashes H"
  shows "derive_target_deployment_identity_hash H s = Inr (keccak256_hex H (id_bytes DEPLOYMENT_IDENTITY_DOMAIN @
    keccak H (derivation_preimage ''deployment-identity-view-hash'' [s])))"
proof -
  have "bytes32_word (JStr DEPLOYMENT_IDENTITY_DOMAIN) p = Inr w \<longleftrightarrow> w = id_bytes DEPLOYMENT_IDENTITY_DOMAIN" for p w
    by (simp only: bytes32_word_def hex_of_bytes[OF identity_bytes])
  then have "bytes32_word (JStr DEPLOYMENT_IDENTITY_DOMAIN) p = Inr (id_bytes DEPLOYMENT_IDENTITY_DOMAIN)"
    and "bytes32_word (JStr (keccak256_hex H x)) p = Inr (keccak H x)" for p x
    using digest_word[OF assms] by blast+
  then show ?thesis
    by (simp add: derive_target_deployment_identity_hash_def derive_target_identity_view_hash_def derive_hash_def
        mv_abi_encode_static_def abi_kinds)
qed

lemma leaf_preimage_iff:
  assumes "wf_hashes H"
  shows "leaf_preimage i l (keccak256_hex H x) = Inr w \<longleftrightarrow> int i < 2 ^ 256 \<and> int l < 2 ^ 32 \<and>
    w = id_bytes PAYLOAD_LEAF_DOMAIN @ to_bytes 32 i @ to_bytes 32 l @ keccak H x"
  by (auto simp: leaf_preimage_def mv_abi_encode_static_def rbind_eq_Inr abi_kinds domain_words digest_word[OF assms]
      uint_word_iff)

lemma root_preimage_iff:
  assumes "wf_hashes H"
  shows "root_preimage t n (keccak256_hex H x) = Inr w \<longleftrightarrow> int t < 2 ^ 32 \<and> int n < 2 ^ 16 \<and>
    w = id_bytes PAYLOAD_ROOT_DOMAIN @ to_bytes 32 (nat MANIFEST_SCHEMA_VERSION) @ id_bytes PAYLOAD_SCHEMA_ID @
      id_bytes CANONICALIZATION_ID @ to_bytes 32 t @ to_bytes 32 n @ keccak H x"
  by (auto simp: root_preimage_def mv_abi_encode_static_def rbind_eq_Inr abi_kinds domain_words digest_word[OF assms]
      uint_word_iff MANIFEST_SCHEMA_VERSION_def)

lemma each_digests:
  "wf_hashes H \<Longrightarrow> each (\<lambda>_ x. bytes32_word (JStr x) p) i (map (keccak256_hex H) xs) = Inr ws \<longleftrightarrow> ws = map (keccak H) xs"
  by (induction xs arbitrary: i ws) (auto simp: rbind_eq_Inr digest_word)

lemma list_preimage_iff:
  assumes "wf_hashes H"
  shows "list_preimage t (map (keccak256_hex H) xs) = Inr w \<longleftrightarrow> int t < 2 ^ 32 \<and> int (length xs) < 2 ^ 256 \<and>
    w = id_bytes PAYLOAD_LIST_DOMAIN @ to_bytes 32 t @ to_bytes 32 96 @ to_bytes 32 (length xs) @ concat (map (keccak H) xs)"
  by (auto simp: list_preimage_def abi_encode_bytes32_array_prefix_def Let_def mv_abi_encode_static_def rbind_eq_Inr abi_kinds
      domain_words each_digests[OF assms] uint_word_iff)

text \<open>The bytes hashed below the root: the segments, the leaves, the list and the root itself.\<close>

definition leaf_input :: "hashes \<Rightarrow> nat \<Rightarrow> byte list \<Rightarrow> byte list" where
  "leaf_input H i s = id_bytes PAYLOAD_LEAF_DOMAIN @ to_bytes 32 i @ to_bytes 32 (length s) @ keccak H s"

definition leaf_inputs :: "hashes \<Rightarrow> byte list \<Rightarrow> byte list list" where
  "leaf_inputs H c = map2 (leaf_input H) [0..<length (slices c)] (slices c)"

definition list_input :: "hashes \<Rightarrow> byte list \<Rightarrow> byte list" where
  "list_input H c = id_bytes PAYLOAD_LIST_DOMAIN @ to_bytes 32 (length c) @ to_bytes 32 96 @
     to_bytes 32 (length (slices c)) @ concat (map (keccak H) (leaf_inputs H c))"

definition root_input :: "hashes \<Rightarrow> byte list \<Rightarrow> byte list" where
  "root_input H c = id_bytes PAYLOAD_ROOT_DOMAIN @ to_bytes 32 (nat MANIFEST_SCHEMA_VERSION) @ id_bytes PAYLOAD_SCHEMA_ID @
     id_bytes CANONICALIZATION_ID @ to_bytes 32 (length c) @ to_bytes 32 (length (slices c)) @ keccak H (list_input H c)"

definition hashed_bytes :: "hashes \<Rightarrow> byte list \<Rightarrow> byte list set" where
  "hashed_bytes H c = set (slices c) \<union> set (leaf_inputs H c) \<union> {list_input H c, root_input H c}"

lemma chunk_record_fields:
  "chunk_record H i s = Inr c \<Longrightarrow> chunk_segment c = s \<and> chunk_index c = i \<and> chunk_payload_hash c = keccak256_hex H s \<and>
    chunk_pointer c = derive_address H ''sstore2-chunk-pointer'' [dec i, keccak256_hex H s]"
  by (auto simp: chunk_record_def Let_def rbind_eq_Inr)

lemma chunk_record_leaf:
  "wf_hashes H \<Longrightarrow> chunk_record H i s = Inr c \<Longrightarrow> leaf_hash c = keccak256_hex H (leaf_input H i s)"
  by (auto simp: chunk_record_def Let_def rbind_eq_Inr leaf_preimage_iff leaf_input_def)

lemma chunk_records_iff:
  assumes "wf_hashes H" and "chunk_records H segs = Inr cs"
  shows "map chunk_segment cs = segs" and "length cs = length segs"
    and "map leaf_hash cs = map (keccak256_hex H) (map2 (leaf_input H) [0..<length segs] segs)"
proof -
  have c: "length cs = length segs" "\<And>j. j < length segs \<Longrightarrow> chunk_record H j (segs ! j) = Inr (cs ! j)"
    using assms(2) by (auto simp: chunk_records_def each_eq_Inr)
  show "length cs = length segs" by (rule c(1))
  show "map chunk_segment cs = segs"
  proof (rule nth_equalityI)
    fix j
    assume "j < length (map chunk_segment cs)"
    then have j: "j < length segs" using c(1) by simp
    have "chunk_segment (cs ! j) = segs ! j" using chunk_record_fields[OF c(2)[OF j]] by simp
    then show "map chunk_segment cs ! j = segs ! j" using j c(1) by simp
  qed (simp add: c(1))
  show "map leaf_hash cs = map (keccak256_hex H) (map2 (leaf_input H) [0..<length segs] segs)"
  proof (rule nth_equalityI)
    fix j
    assume "j < length (map leaf_hash cs)"
    then have j: "j < length segs" using c(1) by simp
    have "leaf_hash (cs ! j) = keccak256_hex H (leaf_input H j (segs ! j))"
      by (rule chunk_record_leaf[OF assms(1) c(2)[OF j]])
    then show "map leaf_hash cs ! j = map (keccak256_hex H) (map2 (leaf_input H) [0..<length segs] segs) ! j"
      using j c(1) by simp
  qed (simp add: c(1))
qed

lemma payload_commitment_root:
  assumes "wf_hashes H" and "payload_commitment H c = Inr (cs, lh, r)"
  shows "r = keccak256_hex H (root_input H c)" and "length c < 2 ^ 32" and "length (slices c) \<le> 32"
    and "segs = slices c \<Longrightarrow> map chunk_segment cs = segs" and "lh = keccak256_hex H (list_input H c)"
proof -
  obtain segs where s: "split_payload c = Inr segs" and ch: "chunk_records H segs = Inr cs"
    and l: "chunk_list_hash H (length c) (map leaf_hash cs) = Inr lh"
    and ro: "payload_root_hash H (length c) (length cs) lh = Inr r"
    using assms(2) by (auto simp: payload_commitment_def rbind_eq_Inr)
  have sl: "segs = slices c" using s split_payload_iff by blast
  have leaves: "map leaf_hash cs = map (keccak256_hex H) (leaf_inputs H c)" "length (leaf_inputs H c) = length (slices c)"
    using chunk_records_iff(3)[OF assms(1) ch] unfolding leaf_inputs_def sl by simp_all
  have lh: "lh = keccak256_hex H (list_input H c)"
    using l unfolding leaves(1) chunk_list_hash_def rbind_eq_Inr list_preimage_iff[OF assms(1)] list_input_def leaves(2)
    by blast
  then show "lh = keccak256_hex H (list_input H c)" .
  show "r = keccak256_hex H (root_input H c)" "length c < 2 ^ 32"
    using ro chunk_records_iff(2)[OF assms(1) ch]
    by (auto simp: payload_root_hash_def rbind_eq_Inr lh root_preimage_iff[OF assms(1)] root_input_def sl)
  show "length (slices c) \<le> 32"
    using split_payload_iff[of c segs] s
    by (auto simp: slices_count MAX_MANIFEST_PAYLOAD_BYTES_def CHUNK_PAYLOAD_BYTES_def)
  show "segs = slices c \<Longrightarrow> map chunk_segment cs = segs" for segs using chunk_records_iff(1)[OF assms(1) ch] sl by simp
qed

lemma to_bytes_inject:
  assumes "m < 256 ^ l" and "n < 256 ^ l" and "to_bytes l m = to_bytes l n"
  shows "m = n"
proof -
  have "from_bytes (to_bytes l m) = from_bytes (to_bytes l n)" by (rule arg_cong[OF assms(3)])
  then show ?thesis unfolding from_bytes_to_bytes mod_less[OF assms(1)] mod_less[OF assms(2)] .
qed

lemma digests_inject:
  assumes "wf_hashes H" and "inj_on (keccak H) (set xs \<union> set ys)" and "length xs = length ys"
    and "concat (map (keccak H) xs) = concat (map (keccak H) ys)"
  shows "xs = ys"
  using assms(3,2,4)
proof (induction xs ys rule: list_induct2)
  case (Cons x xs y ys)
  have "length (keccak H x) = length (keccak H y)" using assms(1) by (simp add: wf_hashes_def)
  then have k: "keccak H x = keccak H y" "concat (map (keccak H) xs) = concat (map (keccak H) ys)"
    using Cons.prems(2) by auto
  have "x = y" by (rule inj_onD[OF Cons.prems(1) k(1)]) simp_all
  moreover have "inj_on (keccak H) (set xs \<union> set ys)" using Cons.prems(1) by (rule inj_on_subset) auto
  ultimately show ?case using Cons.IH k(2) by simp
qed simp

text \<open>Every payload of an admissible length has a commitment.\<close>

lemma payload_commitment_total:
  assumes "wf_hashes H" and "1 \<le> length c" and "length c \<le> MAX_MANIFEST_PAYLOAD_BYTES"
  shows "\<exists>cs lh r. payload_commitment H c = Inr (cs, lh, r)"
proof -
  let ?s = "slices c"
  have s: "split_payload c = Inr ?s" using assms split_payload_iff by blast
  have c: "int (length c) < 2 ^ 32" using assms(3) by (simp add: MAX_MANIFEST_PAYLOAD_BYTES_def)
  have n: "length ?s \<le> 32"
    using assms(2,3) by (auto simp: slices_count MAX_MANIFEST_PAYLOAD_BYTES_def CHUNK_PAYLOAD_BYTES_def)
  have seg: "int (length (?s ! j)) < 2 ^ 32" if "j < length ?s" for j
  proof -
    have "length (?s ! j) \<le> CHUNK_PAYLOAD_BYTES" using that by (simp add: slices_def)
    then show ?thesis by (simp add: CHUNK_PAYLOAD_BYTES_def)
  qed
  have "\<exists>y. chunk_record H j (?s ! j) = Inr y" if "j < length ?s" for j
  proof -
    have "int j < 2 ^ 256" and "int (length (?s ! j)) < 2 ^ 32" using that n seg[OF that] by auto
    then obtain w where "leaf_preimage j (length (?s ! j)) (keccak256_hex H (?s ! j)) = Inr w"
      using leaf_preimage_iff[OF assms(1)] by blast
    then show ?thesis by (simp add: chunk_record_def Let_def)
  qed
  then obtain cs where "length cs = length ?s" "\<forall>j < length ?s. chunk_record H j (?s ! j) = Inr (cs ! j)"
    using Skolem_list_nth[of "length ?s" "\<lambda>j y. chunk_record H j (?s ! j) = Inr y"] by metis
  then have cs: "chunk_records H ?s = Inr cs" by (simp add: chunk_records_def each_eq_Inr)
  have leaves: "map leaf_hash cs = map (keccak256_hex H) (leaf_inputs H c)" "length (leaf_inputs H c) = length ?s"
    using chunk_records_iff(3)[OF assms(1) cs] unfolding leaf_inputs_def by simp_all
  have "int (length ?s) < 2 ^ 256" "int (length ?s) < 2 ^ 16" using n by auto
  with c obtain lw rw where "list_preimage (length c) (map (keccak256_hex H) (leaf_inputs H c)) = Inr lw"
    "root_preimage (length c) (length ?s) (keccak256_hex H lw) = Inr rw"
    using leaves(2) list_preimage_iff[OF assms(1), of "length c" "leaf_inputs H c"] root_preimage_iff[OF assms(1)]
    by (metis of_nat_numeral)
  then show ?thesis
    using chunk_records_iff(2)[OF assms(1) cs]
    by (simp add: payload_commitment_def s cs chunk_list_hash_def payload_root_hash_def leaves(1))
qed

text \<open>C19: The root hash binds the payload: when two payloads have the same root hash, and Keccak-256
  does not collide on the segments, leaves, lists and roots hashed for them, they are the same
  payload. The commitment leaves no room for another split, order or length of the chunks.\<close>

theorem root_binds_payload:
  assumes "wf_hashes H" and "payload_commitment H c = Inr (cs, lh, r)" and "payload_commitment H c' = Inr (cs', lh', r)"
    and "inj_on (keccak H) (hashed_bytes H c \<union> hashed_bytes H c')"
  shows "c = c'"
proof -
  have eq: "x = y" if "keccak H x = keccak H y" "x \<in> hashed_bytes H c" "y \<in> hashed_bytes H c'" for x y
    using assms(4) that by (auto simp: inj_on_def)
  note C = payload_commitment_root[OF assms(1,2)] and C' = payload_commitment_root[OF assms(1,3)]
  have "keccak H (root_input H c) = keccak H (root_input H c')" using C(1) C'(1) by (simp add: keccak256_hex_def)
  then have "root_input H c = root_input H c'" by (rule eq) (simp_all add: hashed_bytes_def)
  then have n: "to_bytes 32 (length (slices c)) = to_bytes 32 (length (slices c'))"
    and k: "keccak H (list_input H c) = keccak H (list_input H c')" by (simp_all add: root_input_def)
  have n: "length (slices c) = length (slices c')"
    using C(3) C'(3) by (intro to_bytes_inject[OF _ _ n]) simp_all
  have "list_input H c = list_input H c'" using k by (rule eq) (simp_all add: hashed_bytes_def)
  then have "concat (map (keccak H) (leaf_inputs H c)) = concat (map (keccak H) (leaf_inputs H c'))"
    by (simp add: list_input_def)
  moreover have "inj_on (keccak H) (set (leaf_inputs H c) \<union> set (leaf_inputs H c'))"
    using assms(4) by (rule inj_on_subset) (auto simp: hashed_bytes_def)
  ultimately have leaves: "leaf_inputs H c = leaf_inputs H c'"
    using n by (intro digests_inject[OF assms(1)]) (simp_all add: leaf_inputs_def)
  have "slices c = slices c'"
  proof (rule nth_equalityI[OF n])
    fix j
    assume j: "j < length (slices c)"
    have "leaf_input H j (slices c ! j) = leaf_input H j (slices c' ! j)"
      using arg_cong[OF leaves, of "\<lambda>xs. xs ! j"] j n by (simp add: leaf_inputs_def)
    then have "keccak H (slices c ! j) = keccak H (slices c' ! j)" by (simp add: leaf_input_def)
    then show "slices c ! j = slices c' ! j" by (rule eq) (use j n in \<open>simp_all add: hashed_bytes_def\<close>)
  qed
  then have "concat (slices c) = concat (slices c')" by simp
  then show ?thesis using full_slices by metis
qed

section \<open>What can leave the generator\<close>

text \<open>A computation that raises nothing but \<open>ManifestVectorError\<close>.\<close>

definition mv_only :: "'a res \<Rightarrow> bool" where
  "mv_only r \<longleftrightarrow> (\<forall>e. r = Inl e \<longrightarrow> (\<exists>m. e = ManifestVectorError m))"

named_theorems mv_intros \<open>computations that raise only the generator's own error\<close>

lemma mv_only_base [mv_intros, simp]: "mv_only (Inr x)" "mv_only (mv_fail m)" "mv_only (mv_check b m)"
  by (simp_all add: mv_only_def mv_fail_def mv_check_def)

lemma mv_only_rbind [mv_intros]: "mv_only r \<Longrightarrow> (\<And>x. r = Inr x \<Longrightarrow> mv_only (f x)) \<Longrightarrow> mv_only (rbind r f)"
  by (cases r) (auto simp: mv_only_def)

lemma mv_only_each [mv_intros]: "(\<And>j x. x \<in> set xs \<Longrightarrow> mv_only (f j x)) \<Longrightarrow> mv_only (each f i xs)"
  by (induction xs arbitrary: i) (auto intro!: mv_only_rbind)

lemma mv_only_if [mv_intros]: "mv_only r \<Longrightarrow> mv_only s \<Longrightarrow> mv_only (if c then r else s)"
  by simp

lemma mv_only_Inr: "r = Inr x \<Longrightarrow> mv_only r"
  by simp

lemma mv_only_validate [mv_intros]: "mv_only (validate_ijson_string nfc v p)"
  unfolding validate_ijson_string_def by (intro mv_intros)

lemma mv_only_quote [mv_intros]: "mv_only (mv_jcs_quote nfc v p)"
  unfolding mv_jcs_quote_def by (intro mv_intros)

lemma mv_only_sorted [mv_intros]: "mv_only (sorted_members nfc d)"
  unfolding sorted_members_def mv_utf16_sort_key_def case_prod_unfold by (intro mv_intros)

lemma mv_only_jcs_text [mv_intros]: "mv_only (mv_jcs_text nfc v p)"
proof (induction v arbitrary: p)
  case (JList vs)
  then show ?case unfolding mv_jcs_text.simps by (intro mv_intros) auto
next
  case (JDict d)
  show ?case
    unfolding mv_jcs_text.simps case_prod_unfold
    by (intro mv_intros) (use JDict sorted_members_set in fastforce)
qed (auto simp: mv_jcs_text.simps intro!: mv_intros)

lemma mv_only_jcs [mv_intros]: "mv_only (mv_jcs_bytes nfc v)"
  unfolding mv_jcs_bytes_def by (intro mv_intros)

lemma mv_only_words [mv_intros]:
  "mv_only (mv_hex_bytes v n p)" "mv_only (uint_word v bits p)" "mv_only (bytes32_word v p)" "mv_only (address_word v p)"
  "mv_only (bytes4_word v p)"
proof -
  show h: "mv_only (mv_hex_bytes v n p)" for v n p by (simp add: mv_hex_bytes_def split: json.splits option.splits)
  show "mv_only (uint_word v bits p)" by (simp add: uint_word_def split: json.splits)
  show "mv_only (bytes32_word v p)" unfolding bytes32_word_def by (rule h)
  show "mv_only (address_word v p)" "mv_only (bytes4_word v p)"
    unfolding address_word_def bytes4_word_def by (intro mv_intros h)+
qed

text \<open>The kinds the generator encodes.\<close>

definition known_kinds :: "(string \<times> json) list \<Rightarrow> bool" where
  "known_kinds entries \<longleftrightarrow> list_all (\<lambda>(k, v). k \<in> {''bytes32'', ''address'', ''bytes4'', ''uint16'', ''uint32'', ''uint256''}) entries"

lemma mv_only_static [mv_intros]: "known_kinds entries \<Longrightarrow> mv_only (mv_abi_encode_static entries)"
proof -
  assume k: "known_kinds entries"
  have "mv_only (abi_word j x)" if "x \<in> set entries" for j x
    using k that by (auto simp: known_kinds_def list_all_iff abi_kinds intro!: mv_intros)
  then show ?thesis unfolding mv_abi_encode_static_def by (intro mv_intros)
qed

lemma mv_only_commitment [mv_intros]: "mv_only (payload_commitment H c)"
  unfolding payload_commitment_def split_payload_def Let_def check_segment_def chunk_records_def chunk_record_def
    leaf_preimage_def chunk_list_hash_def list_preimage_def abi_encode_bytes32_array_prefix_def payload_root_hash_def root_preimage_def
  by (intro mv_intros) (simp_all add: known_kinds_def)

lemma mv_only_identity [mv_intros]: "mv_only (derive_target_deployment_identity_hash H s)"
  unfolding derive_target_deployment_identity_hash_def by (intro mv_intros) (simp add: known_kinds_def)

lemma dsub_row: "dsub (descriptor_row c) ''pointer'' = Inr (dget c ''pointer'')"
  "dsub (descriptor_row c) ''payload_length'' = Inr (dget c ''payload_length'')"
  "dsub (descriptor_row c) ''payload_hash'' = Inr (dget c ''payload_hash'')"
  by (simp_all add: dsub_def descriptor_row_def)

lemma mv_only_encode [mv_intros]: "mv_only (encode_root_descriptor (map (\<lambda>c. descriptor_row (g c)) cs) t)"
  unfolding encode_root_descriptor_def Let_def
proof (intro mv_intros)
  fix j x
  assume "x \<in> set (map (\<lambda>c. descriptor_row (g c)) cs)"
  then obtain c where "x = descriptor_row c" by auto
  then show "mv_only (chunk_fields j x)"
    by (simp add: chunk_fields_def dsub_row) (intro mv_intros, simp add: known_kinds_def)
qed (simp add: known_kinds_def)

lemma mv_only_surfaces [mv_intros]: "mv_only (state_export_publisher_surface H)" "mv_only (governed_parameter_authority_surface H)"
  unfolding state_export_publisher_surface_def governed_parameter_authority_surface_def with_digest_def Let_def
  by (intro mv_intros)+

lemma mv_only_strings [mv_intros]: "mv_only (require_string_array v m)"
  by (simp add: require_string_array_def split: option.splits)

lemma mv_only_profile [mv_intros]: "mv_only (require_profile p)"
proof -
  have e: "mv_only (check_entry i raw)" for i raw
    by (simp add: check_entry_def split: json.splits)
  have g: "mv_only (check_governance d)" for d
    unfolding check_governance_def by (intro mv_intros)
  show ?thesis
    unfolding require_profile_def Let_def
    by (auto intro!: mv_intros e g split: json.splits)
qed

lemma mv_only_facts [mv_intros]: "mv_only (entry_facts H nfc entries ih)"
  unfolding entry_facts_def facts_of_def interface_id_of_def Let_def case_prod_unfold
  by (intro mv_intros)

lemma decode_encoded:
  assumes "encode_root_descriptor (map (\<lambda>c. descriptor_row (g c)) cs) t = Inr d"
  shows "decode_root_descriptor d = Inr (descriptor_json t (map (\<lambda>c. descriptor_row (g c)) cs))"
proof -
  have "decode_descriptor_fields d = Inr (t, map descriptor_row (map (\<lambda>c. descriptor_row (g c)) cs))"
    by (rule encoded_decodes[OF assms])
  moreover have "descriptor_row (descriptor_row c) = descriptor_row c" for c by (simp add: descriptor_row_def dget_def)
  ultimately have "decode_descriptor_fields d = Inr (t, map (\<lambda>c. descriptor_row (g c)) cs)" by (simp add: comp_def)
  then show ?thesis using assms by (simp add: decode_root_descriptor_def mv_check_def)
qed

lemma entry_facts_keys:
  assumes "entry_facts H nfc entries ih = Inr fs"
  shows "map fst fs = map (\<lambda>(_, key, _). key) entries"
proof -
  obtain rows where r: "each (\<lambda>_. facts_of H nfc ih) 0 entries = Inr rows" and fs: "fs = map (\<lambda>row. (fact_key row, row)) rows"
    using assms by (auto simp: entry_facts_def rbind_eq_Inr)
  have key: "facts_of H nfc ih e = Inr row \<Longrightarrow> fact_key row = (\<lambda>(_, key, _). key) e" for e row
    by (auto simp: facts_of_def Let_def rbind_eq_Inr split: prod.splits)
  have rows: "length rows = length entries" "\<And>j. j < length entries \<Longrightarrow> facts_of H nfc ih (entries ! j) = Inr (rows ! j)"
    using r by (auto simp: each_eq_Inr)
  have "map fact_key rows = map (\<lambda>(_, key, _). key) entries"
  proof (rule nth_equalityI)
    fix j
    assume "j < length (map fact_key rows)"
    then have j: "j < length entries" using rows(1) by simp
    then show "map fact_key rows ! j = map (\<lambda>(_, key, _). key) entries ! j"
      using key[OF rows(2)[OF j]] rows(1) by simp
  qed (simp add: rows(1))
  then show ?thesis by (simp add: fs comp_def)
qed

lemma fact_cases: "(\<exists>row. fact fs k = Inr row) \<longleftrightarrow> k \<in> set (map fst fs)" "k \<notin> set (map fst fs) \<Longrightarrow> fact fs k = Inl (KeyError k)"
proof -
  show "(\<exists>row. fact fs k = Inr row) \<longleftrightarrow> k \<in> set (map fst fs)"
    using map_of_eq_None_iff[of fs k] by (cases "map_of fs k") (simp_all add: fact_def)
  show "k \<notin> set (map fst fs) \<Longrightarrow> fact fs k = Inl (KeyError k)"
    using map_of_eq_None_iff[of fs k] by (simp add: fact_def)
qed

lemma each_total: "(\<And>j x. x \<in> set xs \<Longrightarrow> \<exists>y. f j x = Inr y) \<Longrightarrow> \<exists>ys. each f i xs = Inr ys"
proof (induction xs arbitrary: i)
  case (Cons x xs)
  then obtain y ys where "f i x = Inr y" "each f (Suc i) xs = Inr ys" by (meson list.set_intros)
  then show ?case by simp
qed simp

lemma rbind_total: "\<exists>x. r = Inr x \<Longrightarrow> (\<And>x. \<exists>y. f x = Inr y) \<Longrightarrow> \<exists>y. rbind r f = Inr y"
  by auto

lemma require_profile_keys:
  assumes "require_profile p = Inr entries"
  shows "set required_keys \<subseteq> set (map (\<lambda>(_, key, _). key) entries)" and "distinct (map (\<lambda>(_, key, _). key) entries)"
    and "map fst entries = map int [1..<38]"
proof -
  have s: "sort xs = [] \<longleftrightarrow> xs = []" for xs :: "string list" by (metis set_sort set_empty)
  have "filter (\<lambda>k. k \<notin> set (map (\<lambda>(_, key, _). key) entries)) (remdups required_keys) = [] \<and>
      distinct (map (\<lambda>(_, key, _). key) entries) \<and> map fst entries = map int [1..<38]"
    using assms by (auto simp: require_profile_def Let_def rbind_eq_Inr mv_check_iff mv_fail_iff s EXPECTED_PROFILE_ENTRIES_def
        simp del: upt_rec_numeral split: json.splits if_splits)
  then show "set required_keys \<subseteq> set (map (\<lambda>(_, key, _). key) entries)" and "distinct (map (\<lambda>(_, key, _). key) entries)"
    and "map fst entries = map int [1..<38]"
    by (auto simp: filter_empty_conv)
qed

lemma each_lookup_total:
  assumes "\<And>n t. (n, t) \<in> set xs \<Longrightarrow> \<exists>row. fact fs t = Inr row"
  shows "\<exists>ys. each (\<lambda>_ (n, t). rbind (fact fs t) (\<lambda>row. Inr (g n row))) i xs = Inr ys"
proof (rule each_total, clarify)
  fix n t
  assume "(n, t) \<in> set xs"
  then obtain row where "fact fs t = Inr row" using assms by blast
  then show "\<exists>y. rbind (fact fs t) (\<lambda>row. Inr (g n row)) = Inr y" by simp
qed

definition UNCHECKED_KEYS :: "string list" where
  "UNCHECKED_KEYS = [''STREAM_CORE'', ''ENTROPY_COORDINATOR_FALLBACK'', ''MINT_MANAGER_FALLBACK'']"

lemma payload_outcome:
  assumes "require_profile p = Inr entries" and "derive_target_deployment_identity_hash H s = Inr ih"
    and "entry_facts H nfc entries ih = Inr fs"
  shows "case find (\<lambda>k. k \<notin> set (map fst fs)) UNCHECKED_KEYS of
      None \<Rightarrow> (\<exists>payload. mv_build_payload H nfc p s = Inr (payload, entries, fs))
    | Some k \<Rightarrow> mv_build_payload H nfc p s = Inl (KeyError k)"
proof -
  let ?K = "set (map fst fs)"
  have keys: "map fst fs = map (\<lambda>(_, key, _). key) entries" by (rule entry_facts_keys[OF assms(3)])
  have req: "\<exists>row. fact fs k = Inr row" if "k \<in> set required_keys" for k
    using that require_profile_keys(1)[OF assms(1)] keys fact_cases(1)[of fs k] by auto
  have targets: "snd x \<in> set required_keys" if "x \<in> set POINTER_TARGETS \<union> set AGGREGATE_TARGETS" for x
    using that by (auto simp: required_keys_def)
  obtain registry where registry: "fact fs ''MODULE_REGISTRY'' = Inr registry"
    using req[of "''MODULE_REGISTRY''"] by (auto simp: required_keys_def POINTER_TARGETS_def)
  obtain sm where sm: "fact fs ''STREAM_SYSTEM_MANIFEST'' = Inr sm"
    using req[of "''STREAM_SYSTEM_MANIFEST''"] by (auto simp: required_keys_def POINTER_TARGETS_def)
  have target: "\<exists>row. fact fs t = Inr row" if "(n, t) \<in> set POINTER_TARGETS \<union> set AGGREGATE_TARGETS" for n t
    using req targets[OF that] by simp
  have "\<exists>ys. each (\<lambda>_ (key, target). rbind (fact fs target) (\<lambda>row. Inr (key, JStr (fact_address row)))) 0 AGGREGATE_TARGETS = Inr ys"
    by (rule each_lookup_total) (blast intro: target)
  then obtain aggregate where ag: "each (\<lambda>_ (key, target). rbind (fact fs target) (\<lambda>row. Inr (key, JStr (fact_address row)))) 0
      AGGREGATE_TARGETS = Inr aggregate" by blast
  have entry: "\<exists>row. fact fs key = Inr row" if "(i, key, d) \<in> set entries" for i key d
    using that fact_cases(1)[of fs key] keys by force
  have "\<exists>ys. contract_records entries fs = Inr ys"
    unfolding contract_records_def by (rule each_total, clarify) (drule entry, elim exE, simp)
  then obtain contracts where co: "contract_records entries fs = Inr contracts" by blast
  have "\<exists>ys. registry_entries entries fs = Inr ys"
    unfolding registry_entries_def registry rbind_Inr by (rule each_total, clarify) (drule entry, elim exE, simp)
  then obtain rr where rr: "registry_entries entries fs = Inr rr" by blast
  have "\<exists>ys. pointers H fs = Inr ys"
    unfolding pointers_def registry rbind_Inr Let_def
    by (rule rbind_total[OF each_lookup_total]) (blast intro: target, simp)
  then obtain pr where pr: "pointers H fs = Inr pr" by blast
  have "\<exists>g. mv_build_payload H nfc p s =
      rbind (fact fs ''STREAM_CORE'') (\<lambda>core. rbind (critical_fallbacks H fs) (\<lambda>rows. Inr (g core rows, entries, fs)))"
    unfolding mv_build_payload_def assms rbind_Inr Let_def ag sm co pr rr by (rule exI, rule refl)
  then obtain g where run: "mv_build_payload H nfc p s =
      rbind (fact fs ''STREAM_CORE'') (\<lambda>core. rbind (critical_fallbacks H fs) (\<lambda>rows. Inr (g core rows, entries, fs)))" ..
  have fallbacks: "case find (\<lambda>k. k \<notin> ?K) [''ENTROPY_COORDINATOR_FALLBACK'', ''MINT_MANAGER_FALLBACK''] of
      None \<Rightarrow> (\<exists>rows. critical_fallbacks H fs = Inr rows) | Some k \<Rightarrow> critical_fallbacks H fs = Inl (KeyError k)"
    using fact_cases[where fs = fs and k = "''ENTROPY_COORDINATOR_FALLBACK''"] fact_cases[where fs = fs and k = "''MINT_MANAGER_FALLBACK''"]
    by (auto simp: critical_fallbacks_def registry FALLBACK_TARGETS_def Let_def)
  show ?thesis
  proof (cases "''STREAM_CORE'' \<in> ?K")
    case True
    then obtain core where core: "fact fs ''STREAM_CORE'' = Inr core" using fact_cases(1) by blast
    have "find (\<lambda>k. k \<notin> ?K) UNCHECKED_KEYS = find (\<lambda>k. k \<notin> ?K) [''ENTROPY_COORDINATOR_FALLBACK'', ''MINT_MANAGER_FALLBACK'']"
      using True by (simp add: UNCHECKED_KEYS_def del: set_map)
    then show ?thesis
      using fallbacks by (cases "find (\<lambda>k. k \<notin> ?K) [''ENTROPY_COORDINATOR_FALLBACK'', ''MINT_MANAGER_FALLBACK'']")
        (auto simp: run core simp del: find.simps set_map)
  next
    case False
    then show ?thesis using fact_cases(2)[OF False] by (simp add: run UNCHECKED_KEYS_def del: set_map)
  qed
qed

lemma mv_only_decode [mv_intros]: "mv_only (decode_root_descriptor e)"
proof -
  have w: "mv_only (decode_uint_word w b p)" for w b p unfolding decode_uint_word_def by (intro mv_intros)
  have h: "mv_only (check_descriptor_head e)" unfolding check_descriptor_head_def by (intro mv_intros w)
  have c: "mv_only (decode_chunk e i)" for i unfolding decode_chunk_def Let_def by (intro mv_intros w)
  have "mv_only (decode_descriptor_fields e)"
    unfolding decode_descriptor_fields_def case_prod_unfold by (intro mv_intros h w c)
  then show ?thesis unfolding reencoding_redundant case_prod_unfold by (intro mv_intros)
qed

lemma vector_run:
  obtains T where "\<And>ih r. mv_only (T ih r :: dict res)"
    "\<And>profile. build_vector H nfc profile raw = rbind (derive_target_deployment_identity_hash H (sha256_bytes H raw))
       (\<lambda>ih. rbind (mv_build_payload H nfc profile (sha256_bytes H raw)) (T ih))"
proof -
  have "\<exists>T. (\<forall>ih r. mv_only (T ih r :: dict res)) \<and> (\<forall>profile. build_vector H nfc profile raw =
      rbind (derive_target_deployment_identity_hash H (sha256_bytes H raw))
       (\<lambda>ih. rbind (mv_build_payload H nfc profile (sha256_bytes H raw)) (T ih)))"
    unfolding build_vector_def Let_def case_prod_unfold
  proof (rule exI, rule conjI[rotated], rule allI, rule refl)
  qed (intro allI mv_intros)
  then show thesis using that by blast
qed

lemma caught_errors: "mv_only r \<Longrightarrow> r = Inl e \<Longrightarrow> \<exists>m. e = ManifestVectorError m"
  by (simp add: mv_only_def)

text \<open>C22: Only one kind of exception leaves the generator, and only for a profile it has accepted: the
  lookup of \<open>STREAM_CORE\<close> or of one of the two fallback modules, which the validation of the
  profile does not require, ends in a \<open>KeyError\<close> that \<open>main\<close> does not catch. Every other failure
  is reported with exit status 1, and a generated vector with exit status 0.\<close>

theorem generator_escapes:
  "generate H nfc profile raw = Inl e \<longleftrightarrow>
    (\<exists>entries ih fs k. require_profile profile = Inr entries \<and>
       derive_target_deployment_identity_hash H (sha256_bytes H raw) = Inr ih \<and>
       entry_facts H nfc entries ih = Inr fs \<and>
       find (\<lambda>k. k \<notin> set (map (\<lambda>(_, key, _). key) entries)) UNCHECKED_KEYS = Some k \<and> e = KeyError k)" (is "_ \<longleftrightarrow> ?R")
proof -
  obtain T where T: "\<And>ih r. mv_only (T ih r :: dict res)"
    "build_vector H nfc profile raw = rbind (derive_target_deployment_identity_hash H (sha256_bytes H raw))
       (\<lambda>ih. rbind (mv_build_payload H nfc profile (sha256_bytes H raw)) (T ih))"
    using vector_run by metis
  have g: "generate H nfc profile raw = Inl e \<longleftrightarrow>
      build_vector H nfc profile raw = Inl e \<and> (\<forall>m. e \<noteq> ManifestVectorError m \<and> e \<noteq> OSError m)"
    by (auto simp: generate_def split: sum.splits exn.splits)
  show ?thesis
  proof
    assume "generate H nfc profile raw = Inl e"
    then have b: "build_vector H nfc profile raw = Inl e" and e: "\<And>m. e \<noteq> ManifestVectorError m" using g by auto
    then obtain ih where ih: "derive_target_deployment_identity_hash H (sha256_bytes H raw) = Inr ih"
      using e by (cases "derive_target_deployment_identity_hash H (sha256_bytes H raw)")
        (auto simp: T(2) dest: caught_errors[OF mv_only_identity])
    then have p: "mv_build_payload H nfc profile (sha256_bytes H raw) = Inl e"
      using b e by (auto simp: T(2) rbind_eq_Inl dest: caught_errors[OF T(1)])
    then obtain entries where en: "require_profile profile = Inr entries"
      using e by (cases "require_profile profile") (auto simp: mv_build_payload_def dest: caught_errors[OF mv_only_profile])
    then obtain fs where fs: "entry_facts H nfc entries ih = Inr fs"
      using p e ih by (cases "entry_facts H nfc entries ih")
        (auto simp: mv_build_payload_def dest: caught_errors[OF mv_only_facts])
    show ?R
      using payload_outcome[OF en ih fs] p en ih fs entry_facts_keys[OF fs] by (auto split: option.splits)
  next
    assume ?R
    then obtain entries ih fs k where r: "require_profile profile = Inr entries"
       "derive_target_deployment_identity_hash H (sha256_bytes H raw) = Inr ih" "entry_facts H nfc entries ih = Inr fs"
       "find (\<lambda>k. k \<notin> set (map (\<lambda>(_, key, _). key) entries)) UNCHECKED_KEYS = Some k" "e = KeyError k" by blast
    have "mv_build_payload H nfc profile (sha256_bytes H raw) = Inl e"
      using payload_outcome[OF r(1-3)] r(4,5) unfolding entry_facts_keys[OF r(3)] by simp
    then show "generate H nfc profile raw = Inl e" unfolding g T(2) r(2) by (simp add: r(5))
  qed
qed

end
