(* ===== verification/Manifest_Audit.thy ===== *)
theory Manifest_Audit
  imports Manifest_Reference Manifest_Vector
begin

text \<open>
  The audit of the chunks, the commitments and the root descriptor of a payload vector by the
  oracle, \<open>tools/protocol/check_system_manifest_payload_vector_reference.py\<close>, which lays out
  every hashed word by itself, and its agreement with the generator.
\<close>

section \<open>Comparing with an expected value\<close>

definition drifted :: "string \<Rightarrow> json \<Rightarrow> json \<Rightarrow> unit res" where
  "drifted path actual expected =
     (if type_name actual \<noteq> type_name expected
      then ref_fail (path @ '' drifted: expected '' @ type_name expected @ '', got '' @ type_name actual)
      else if actual \<noteq> expected
      then ref_fail (path @ '' drifted: expected '' @ repr_json expected @ '', got '' @ repr_json actual)
      else Inr ())"

fun ref_expect :: "json \<Rightarrow> json \<Rightarrow> string \<Rightarrow> unit res"
  and ref_expect_members :: "dict \<Rightarrow> dict \<Rightarrow> string \<Rightarrow> unit res"
  and ref_expect_items :: "nat \<Rightarrow> json list \<Rightarrow> json list \<Rightarrow> string \<Rightarrow> unit res" where
  "ref_expect actual (JDict e) path =
     (case actual of JDict a \<Rightarrow>
        if set (dkeys a) \<noteq> set (dkeys e)
        then ref_fail (path @ '' keys drifted: expected '' @ py_repr_list (sort (dkeys e)) @ '', got '' @ py_repr_list (sort (dkeys a)))
        else ref_expect_members a e path
      | _ \<Rightarrow> drifted path actual (JDict e))"
| "ref_expect actual (JList e) path =
     (case actual of JList a \<Rightarrow>
        if length a \<noteq> length e
        then ref_fail (path @ '' length drifted: expected '' @ dec (length e) @ '', got '' @ dec (length a))
        else ref_expect_items 0 a e path
      | _ \<Rightarrow> drifted path actual (JList e))"
| "ref_expect actual (JStr s) path = drifted path actual (JStr s)"
| "ref_expect actual (JInt i) path = drifted path actual (JInt i)"
| "ref_expect actual (JBool b) path = drifted path actual (JBool b)"
| "ref_expect actual JNull path = drifted path actual JNull"
| "ref_expect_members a [] path = Inr ()"
| "ref_expect_members a ((k, v) # e) path =
     rbind (ref_expect (dget a k) v (path @ ''.'' @ k)) (\<lambda>_. ref_expect_members a e path)"
| "ref_expect_items i a [] path = Inr ()"
| "ref_expect_items i a (v # e) path =
     (case a of [] \<Rightarrow> Inr ()
      | x # xs \<Rightarrow> rbind (ref_expect x v (path @ ''['' @ dec i @ '']'')) (\<lambda>_. ref_expect_items (Suc i) xs e path))"

text \<open>\<open>_expect(row[key], expected, path)\<close>.\<close>

definition expect_at :: "json \<Rightarrow> string \<Rightarrow> json \<Rightarrow> string \<Rightarrow> unit res" where
  "expect_at row key expected path = rbind (subscript row key) (\<lambda>v. ref_expect v expected path)"

definition expect_str :: "string \<Rightarrow> string \<Rightarrow> string \<Rightarrow> unit res" where
  "expect_str actual expected path = ref_expect (JStr actual) (JStr expected) path"

definition expect_len :: "nat \<Rightarrow> nat \<Rightarrow> string \<Rightarrow> unit res" where
  "expect_len actual expected path = ref_expect (JInt (int actual)) (JInt (int expected)) path"

section \<open>Words\<close>

definition ref_fixed_hex :: "json \<Rightarrow> nat \<Rightarrow> string \<Rightarrow> byte list res" where
  "ref_fixed_hex v n path =
     (case v of JStr s \<Rightarrow>
        if take 2 s \<noteq> ''0x'' then ref_fail (path @ '' must be 0x-prefixed hex'')
        else (case fromhex_spaced (drop 2 s) of None \<Rightarrow> ref_fail (path @ '' is malformed hex'')
              | Some decoded \<Rightarrow>
                  if length decoded \<noteq> n \<or> s \<noteq> ''0x'' @ bytes_hex decoded
                  then ref_fail (path @ '' must be lowercase fixed-width '' @ dec n @ ''-byte hex'')
                  else Inr decoded)
      | _ \<Rightarrow> ref_fail (path @ '' must be 0x-prefixed hex''))"

definition ref_word :: "json \<Rightarrow> nat \<Rightarrow> string \<Rightarrow> byte list res" where
  "ref_word v bits path =
     (case v of JInt i \<Rightarrow>
        if i < 0 \<or> i \<ge> 2 ^ bits then ref_fail (path @ '' does not fit uint'' @ dec bits) else Inr (to_bytes 32 (nat i))
      | _ \<Rightarrow> ref_fail (path @ '' does not fit uint'' @ dec bits))"

text \<open>\<open>b"".join(...)\<close>, each part evaluated in its turn.\<close>

fun join_words :: "byte list res list \<Rightarrow> byte list res" where
  "join_words [] = Inr []"
| "join_words (w # ws) = rbind w (\<lambda>x. rbind (join_words ws) (\<lambda>xs. Inr (x @ xs)))"

section \<open>Goldens\<close>

definition REF_CHUNK_BYTES :: nat where
  "REF_CHUNK_BYTES = 24575"

definition PAYLOAD_BYTE_LENGTH :: int where
  "PAYLOAD_BYTE_LENGTH = 55109"

definition LEAF_DOMAIN :: string where
  "LEAF_DOMAIN = ''0x852f4811a2eb32694863d94ba41b545a65ef4c76086a32c35881f0c4e250a7b5''"

definition LIST_DOMAIN :: string where
  "LIST_DOMAIN = ''0xa93750a5551ac5668c8f24cca85acaf1d5f8334fac9406f845fce1ce35548839''"

definition ROOT_DOMAIN :: string where
  "ROOT_DOMAIN = ''0xd6ab89b077c61a288c7168cf8f1c9a7a19464b10475735dae37cb46a0c94c40b''"

definition REF_SCHEMA_ID :: string where
  "REF_SCHEMA_ID = ''0x8844b744a67cdcdb84ea3c6e3d686883da175820b9ff07a19cffa14bf62e6e81''"

definition REF_CANONICALIZATION_ID :: string where
  "REF_CANONICALIZATION_ID = ''0x886c7c89c308c459ca8a626e0ef36a5ea9f4c7a7b56aaf86c71a2ddf3b4f9044''"

definition CHUNK_LIST_HASH :: string where
  "CHUNK_LIST_HASH = ''0xf680bb0e85aa2bb5848b43dbb2ee1c2f55b68223ca97fa3e1b4ef35ca88f1855''"

definition PAYLOAD_ROOT_HASH :: string where
  "PAYLOAD_ROOT_HASH = ''0x7409ea442420e4cbbc31d888f48e74ea6a2e1728c8ba433767a572db9e2670e0''"

definition DESCRIPTOR_MAGIC :: string where
  "DESCRIPTOR_MAGIC = ''0x6c9d2530''"

definition DESCRIPTOR_DYNAMIC_OFFSET :: int where
  "DESCRIPTOR_DYNAMIC_OFFSET = 224"

definition DESCRIPTOR_LENGTH :: nat where
  "DESCRIPTOR_LENGTH = 544"

definition DESCRIPTOR_KECCAK :: string where
  "DESCRIPTOR_KECCAK = ''0x697ab9f1b6075cdf5f957e688adb9635de0dcd7be2c4ea8e97fb5500ad3db49e''"

definition DESCRIPTOR_RUNTIME_HASH :: string where
  "DESCRIPTOR_RUNTIME_HASH = ''0x7d117776fa2b116641cacdc3904c00c4b55b25d755d373eec4020f98ad6902ec''"

definition FIXTURE_DOMAIN :: string where
  "FIXTURE_DOMAIN = ''6529STREAM_SYSTEM_MANIFEST_TARGET_VECTOR_V1''"

text \<open>Index, pointer, payload length, payload hash, leaf hash and runtime hash of a chunk.\<close>

type_synonym golden = "nat \<times> string \<times> nat \<times> string \<times> string \<times> string"

definition CHUNK_GOLDENS :: "golden list" where
  "CHUNK_GOLDENS =
     [(0, ''0x3323cfaf8192dd4891a01ddd0ad05add50946817'', 24575,
       ''0x2b45351f26b3c15d1fa9bdf1ddfc063c43822621a1534fb9750bd14dae26f722'',
       ''0xc8f0457736e149911c8354caf19d7e097b3e4df571cf465de4814f5ca6dea5d3'',
       ''0x6e3a62c8f33f16450961e5340314183b3b0d8ab53ab7a6212887f9921480aba9''),
      (1, ''0x3168c46ba1b3b0e72f9f7eb5951d2794f5adc881'', 24575,
       ''0x2fa2ab4aa6e175f14348983ee9d7c6b3540066334154dcd8be3c81f42415537a'',
       ''0x6883496d9211c42718f3b447dc7979d83cec894419648588f8c6c06139aecfb9'',
       ''0x511722dbede40fb8319cc9760988f5cd6f85928e124dab49608f1850bc48a414''),
      (2, ''0x06f7d9cf78b0d834bc89786b2c3bfa9ecd4ad24c'', 5959,
       ''0xf4fcc63861a1701907843ad2a0d9c172686d868f8bee662b311e648f62914a3e'',
       ''0x943be1d600842f4d311d31ed7f9c5e764815361c903b18bf085625b98ca8e2ca'',
       ''0x435d80d94cb2d137e2094123e149c9cefd89d09f6130f8e205cdf37cd5cfeacf'')]"

section \<open>The audits\<close>

definition chunk_path :: "nat \<Rightarrow> string \<Rightarrow> string" where
  "chunk_path index what = ''chunk '' @ dec index @ '' '' @ what"

definition audit_chunk :: "hashes \<Rightarrow> golden \<Rightarrow> byte list \<Rightarrow> json \<Rightarrow> string res" where
  "audit_chunk H golden segment row =
     (case golden of (index, pointer, len, payload_hash, leaf, runtime_hash) \<Rightarrow>
        rbind (expect_at row ''index'' (JInt (int index)) (chunk_path index ''index'')) (\<lambda>_.
        rbind (expect_len (length segment) len (chunk_path index ''payload length golden'')) (\<lambda>_.
        rbind (expect_at row ''payload_length'' (JInt (int len)) (chunk_path index ''recorded payload length'')) (\<lambda>_.
        rbind (expect_at row ''segment_hex'' (JStr (''0x'' @ bytes_hex segment)) (chunk_path index ''segment bytes'')) (\<lambda>_.
        rbind (expect_str (keccak256_hex H segment) payload_hash (chunk_path index ''payload hash golden'')) (\<lambda>_.
        rbind (expect_at row ''payload_hash'' (JStr payload_hash) (chunk_path index ''recorded payload hash'')) (\<lambda>_.
        let pointer_digest = keccak H (str_bytes (FIXTURE_DOMAIN @ ''|sstore2-chunk-pointer|'' @ dec index @ ''|'' @ payload_hash)) in
        rbind (expect_str (''0x'' @ bytes_hex (drop (length pointer_digest - 20) pointer_digest)) pointer
          (chunk_path index ''pointer golden'')) (\<lambda>_.
        rbind (expect_at row ''pointer'' (JStr pointer) (chunk_path index ''recorded pointer'')) (\<lambda>_.
        rbind (join_words [ref_fixed_hex (JStr LEAF_DOMAIN) 32 ''leaf domain'', ref_word (JInt (int index)) 256 ''chunk index'',
          ref_word (JInt (int len)) 32 ''chunk length'', ref_fixed_hex (JStr payload_hash) 32 ''payload hash'']) (\<lambda>preimage.
        let computed_leaf = keccak256_hex H preimage in
        rbind (expect_str computed_leaf leaf (chunk_path index ''leaf hash golden'')) (\<lambda>_.
        rbind (expect_at row ''leaf_hash'' (JStr leaf) (chunk_path index ''recorded leaf hash'')) (\<lambda>_.
        rbind (expect_str (keccak256_hex H (0 # segment)) runtime_hash (chunk_path index ''runtime hash golden'')) (\<lambda>_.
        rbind (expect_at row ''runtime_code_hash'' (JStr runtime_hash) (chunk_path index ''runtime hash'')) (\<lambda>_.
        Inr computed_leaf))))))))))))))"

definition chunk_audit :: "hashes \<Rightarrow> dict \<Rightarrow> byte list \<Rightarrow> (byte list list \<times> string list) res" where
  "chunk_audit H vector canonical =
     (let segments = map (\<lambda>i. take REF_CHUNK_BYTES (drop (REF_CHUNK_BYTES * i) canonical))
            [0..<(length canonical + REF_CHUNK_BYTES - 1) div REF_CHUNK_BYTES] in
      rbind (expect_len (length segments) (length CHUNK_GOLDENS) ''chunk count'') (\<lambda>_.
      rbind (dsub vector ''chunks'') (\<lambda>chunks.
      rbind (py_len chunks) (\<lambda>n.
      rbind (expect_len n (length CHUNK_GOLDENS) ''recorded chunk count'') (\<lambda>_.
      rbind (py_iter chunks) (\<lambda>rows.
      rbind (each (\<lambda>_ (golden, segment, row). audit_chunk H golden segment row) 0 (zip CHUNK_GOLDENS (zip segments rows))) (\<lambda>leaf_hashes.
      Inr (segments, leaf_hashes))))))))"

definition commitment_audit :: "hashes \<Rightarrow> dict \<Rightarrow> string list \<Rightarrow> unit res" where
  "commitment_audit H vector leaf_hashes =
     rbind (join_words ([ref_fixed_hex (JStr LIST_DOMAIN) 32 ''list domain'', ref_word (JInt PAYLOAD_BYTE_LENGTH) 32 ''payload byte length'',
       ref_word (JInt 96) 256 ''leaf array dynamic offset'', ref_word (JInt (int (length leaf_hashes))) 256 ''leaf array length''] @
       map (\<lambda>h. ref_fixed_hex (JStr h) 32 ''leaf hash'') leaf_hashes)) (\<lambda>list_preimage.
     let list_hash = keccak256_hex H list_preimage in
     rbind (expect_str list_hash CHUNK_LIST_HASH ''chunk-list hash golden'') (\<lambda>_.
     rbind (join_words [ref_fixed_hex (JStr ROOT_DOMAIN) 32 ''root domain'', ref_word (JInt 1) 16 ''schema version'',
       ref_fixed_hex (JStr REF_SCHEMA_ID) 32 ''schema ID'', ref_fixed_hex (JStr REF_CANONICALIZATION_ID) 32 ''canonicalization ID'',
       ref_word (JInt PAYLOAD_BYTE_LENGTH) 32 ''payload byte length'', ref_word (JInt (int (length leaf_hashes))) 16 ''chunk count'',
       ref_fixed_hex (JStr list_hash) 32 ''chunk-list hash'']) (\<lambda>root_preimage.
     let root_hash = keccak256_hex H root_preimage in
     rbind (expect_str root_hash PAYLOAD_ROOT_HASH ''payload-root hash golden'') (\<lambda>_.
     rbind (dsub vector ''commitments'') (\<lambda>commitments.
     rbind (expect_at commitments ''ordered_leaf_hashes'' (strings_json leaf_hashes) ''ordered leaf hashes'') (\<lambda>_.
     rbind (expect_at commitments ''chunk_list_hash'' (JStr list_hash) ''recorded chunk-list hash'') (\<lambda>_.
     rbind (expect_at commitments ''payload_root_hash'' (JStr root_hash) ''recorded payload-root hash'') (\<lambda>_.
     expect_at commitments ''manifest_hash'' (JStr root_hash) ''recorded manifest hash''))))))))"

definition ref_chunk_words :: "json \<Rightarrow> byte list res" where
  "ref_chunk_words row =
     join_words [rbind (subscript row ''pointer'') (\<lambda>p. rbind (ref_fixed_hex p 20 ''chunk pointer'') (\<lambda>bs. Inr (replicate 12 0 @ bs))),
       rbind (subscript row ''payload_length'') (\<lambda>l. ref_word l 32 ''chunk payload length''),
       rbind (subscript row ''payload_hash'') (\<lambda>h. ref_fixed_hex h 32 ''chunk payload hash'')]"

definition ref_descriptor_row :: "json \<Rightarrow> json res" where
  "ref_descriptor_row row =
     rbind (subscript row ''pointer'') (\<lambda>p.
     rbind (subscript row ''payload_length'') (\<lambda>l.
     rbind (subscript row ''payload_hash'') (\<lambda>h.
     Inr (JDict [(''pointer'', p), (''payload_length'', l), (''payload_hash'', h)]))))"

definition descriptor_audit :: "hashes \<Rightarrow> dict \<Rightarrow> unit res" where
  "descriptor_audit H vector =
     rbind (dsub vector ''root_descriptor'') (\<lambda>descriptor.
     rbind (dsub vector ''chunks'') (\<lambda>chunks.
     rbind (py_len chunks) (\<lambda>n.
     rbind (py_iter chunks) (\<lambda>rows.
     rbind (join_words ([rbind (ref_fixed_hex (JStr DESCRIPTOR_MAGIC) 4 ''descriptor magic'') (\<lambda>bs. Inr (bs @ replicate 28 0)),
       ref_word (JInt 1) 16 ''descriptor schema version'', ref_fixed_hex (JStr REF_SCHEMA_ID) 32 ''descriptor schema ID'',
       ref_fixed_hex (JStr REF_CANONICALIZATION_ID) 32 ''descriptor canonicalization ID'',
       ref_word (JInt PAYLOAD_BYTE_LENGTH) 32 ''descriptor total bytes'', ref_word (JInt (int n)) 16 ''descriptor chunk count'',
       ref_word (JInt DESCRIPTOR_DYNAMIC_OFFSET) 256 ''descriptor dynamic offset'',
       ref_word (JInt (int n)) 256 ''descriptor array length''] @ map ref_chunk_words rows)) (\<lambda>encoded.
     rbind (expect_len (length encoded) DESCRIPTOR_LENGTH ''root descriptor length golden'') (\<lambda>_.
     rbind (expect_str (keccak256_hex H encoded) DESCRIPTOR_KECCAK ''root descriptor Keccak golden'') (\<lambda>_.
     rbind (expect_str (keccak256_hex H (0 # encoded)) DESCRIPTOR_RUNTIME_HASH ''root descriptor runtime hash golden'') (\<lambda>_.
     rbind (expect_at descriptor ''magic'' (JStr DESCRIPTOR_MAGIC) ''descriptor magic'') (\<lambda>_.
     rbind (expect_at descriptor ''schema_version'' (JInt 1) ''descriptor schema version'') (\<lambda>_.
     rbind (expect_at descriptor ''schema_id'' (JStr REF_SCHEMA_ID) ''descriptor schema ID'') (\<lambda>_.
     rbind (expect_at descriptor ''canonicalization_id'' (JStr REF_CANONICALIZATION_ID) ''descriptor canonicalization ID'') (\<lambda>_.
     rbind (expect_at descriptor ''total_bytes'' (JInt PAYLOAD_BYTE_LENGTH) ''descriptor total bytes'') (\<lambda>_.
     rbind (expect_at descriptor ''chunk_count'' (JInt (int n)) ''descriptor chunk count'') (\<lambda>_.
     rbind (expect_at descriptor ''dynamic_offset'' (JInt DESCRIPTOR_DYNAMIC_OFFSET) ''descriptor offset'') (\<lambda>_.
     rbind (expect_at descriptor ''encoded_length'' (JInt (int (length encoded))) ''descriptor encoded length'') (\<lambda>_.
     rbind (expect_at descriptor ''encoded_hex'' (JStr (''0x'' @ bytes_hex encoded)) ''descriptor encoded bytes'') (\<lambda>_.
     rbind (expect_at descriptor ''keccak256'' (JStr DESCRIPTOR_KECCAK) ''descriptor recorded Keccak'') (\<lambda>_.
     rbind (expect_at descriptor ''runtime_code_hash'' (JStr DESCRIPTOR_RUNTIME_HASH) ''descriptor recorded runtime hash'') (\<lambda>_.
     rbind (each (\<lambda>_. ref_descriptor_row) 0 rows) (\<lambda>expected_rows.
     expect_at descriptor ''chunks'' (JList expected_rows) ''descriptor chunk rows''))))))))))))))))))))"

section \<open>What the comparisons accept\<close>

lemma drifted_iff: "drifted path a e = Inr u \<longleftrightarrow> a = e"
  by (auto simp: drifted_def ref_fail_def)

lemma ref_expect_scalar [simp]:
  "ref_expect a (JStr s) path = Inr u \<longleftrightarrow> a = JStr s"
  "ref_expect a (JInt i) path = Inr u \<longleftrightarrow> a = JInt i"
  by (simp_all add: drifted_iff)

lemma expect_at_iff [simp]:
  "expect_at row k (JStr s) path = Inr u \<longleftrightarrow> subscript row k = Inr (JStr s)"
  "expect_at row k (JInt i) path = Inr u \<longleftrightarrow> subscript row k = Inr (JInt i)"
  by (auto simp: expect_at_def rbind_eq_Inr simp del: ref_expect.simps)

lemma expect_eq_iff [simp]:
  "expect_str a e path = Inr u \<longleftrightarrow> a = e" "expect_len m n path = Inr u \<longleftrightarrow> m = n"
  by (simp_all add: expect_str_def expect_len_def del: ref_expect.simps)

declare ref_expect.simps [simp del]

lemma ref_expect_refl:
  "wf_json v \<Longrightarrow> ref_expect v v path = Inr ()"
proof (induction v arbitrary: path)
  case (JList vs)
  have "ref_expect_items i vs vs path = Inr ()" if "\<And>v path. v \<in> set vs \<Longrightarrow> ref_expect v v path = Inr ()" for i and vs :: "json list"
    using that by (induction vs arbitrary: i) auto
  then show ?case using JList by (simp add: ref_expect.simps list_all_iff)
next
  case (JDict d)
  have "ref_expect_members d e path = Inr ()" if "set e \<subseteq> set d" for e
    using that
  proof (induction e)
    case (Cons x e)
    obtain k v where x: "x = (k, v)" by (cases x)
    have "(k, v) \<in> set d" using Cons.prems x by auto
    moreover from this have "dget d k = v" using JDict.prems by (simp add: dget_def)
    moreover have "wf_json v" using calculation JDict.prems by (auto simp: list_all_iff)
    ultimately show ?case using Cons JDict.IH[of "(k, v)" v] x by simp
  qed simp
  then show ?case by (simp add: ref_expect.simps)
qed (simp_all add: ref_expect.simps drifted_def)

lemma ref_fixed_hex_iff:
  "ref_fixed_hex v n path = Inr bs \<longleftrightarrow> v = JStr (''0x'' @ bytes_hex bs) \<and> length bs = n"
  by (auto simp: ref_fixed_hex_def ref_fail_def split: json.splits option.splits if_splits)

lemma ref_hex_of_bytes: "s = ''0x'' @ bytes_hex b \<Longrightarrow> length b = n \<Longrightarrow> ref_fixed_hex (JStr s) n p = Inr w \<longleftrightarrow> w = b"
  by (auto simp: ref_fixed_hex_iff)

lemma ref_word_iff:
  "ref_word v bits path = Inr w \<longleftrightarrow> (\<exists>i. v = JInt i \<and> 0 \<le> i \<and> i < 2 ^ bits \<and> w = to_bytes 32 (nat i))"
  by (auto simp: ref_word_def ref_fail_def split: json.splits if_splits)

lemma same_constants:
  "LEAF_DOMAIN = PAYLOAD_LEAF_DOMAIN" "LIST_DOMAIN = PAYLOAD_LIST_DOMAIN" "ROOT_DOMAIN = PAYLOAD_ROOT_DOMAIN"
  "REF_SCHEMA_ID = PAYLOAD_SCHEMA_ID" "REF_CANONICALIZATION_ID = CANONICALIZATION_ID" "DESCRIPTOR_MAGIC = ROOT_DESCRIPTOR_MAGIC"
  "FIXTURE_DOMAIN = VECTOR_DERIVATION_DOMAIN" "DESCRIPTOR_DYNAMIC_OFFSET = ROOT_DESCRIPTOR_DYNAMIC_OFFSET"
  "REF_CHUNK_BYTES = CHUNK_PAYLOAD_BYTES"
  by (simp_all add: LEAF_DOMAIN_def PAYLOAD_LEAF_DOMAIN_def LIST_DOMAIN_def PAYLOAD_LIST_DOMAIN_def ROOT_DOMAIN_def
      PAYLOAD_ROOT_DOMAIN_def REF_SCHEMA_ID_def PAYLOAD_SCHEMA_ID_def REF_CANONICALIZATION_ID_def CANONICALIZATION_ID_def
      DESCRIPTOR_MAGIC_def ROOT_DESCRIPTOR_MAGIC_def FIXTURE_DOMAIN_def VECTOR_DERIVATION_DOMAIN_def
      DESCRIPTOR_DYNAMIC_OFFSET_def ROOT_DESCRIPTOR_DYNAMIC_OFFSET_def REF_CHUNK_BYTES_def CHUNK_PAYLOAD_BYTES_def)

lemma ref_ids:
  "ref_fixed_hex (JStr PAYLOAD_LEAF_DOMAIN) 32 p = Inr w \<longleftrightarrow> w = id_bytes PAYLOAD_LEAF_DOMAIN"
  "ref_fixed_hex (JStr PAYLOAD_LIST_DOMAIN) 32 p = Inr w \<longleftrightarrow> w = id_bytes PAYLOAD_LIST_DOMAIN"
  "ref_fixed_hex (JStr PAYLOAD_ROOT_DOMAIN) 32 p = Inr w \<longleftrightarrow> w = id_bytes PAYLOAD_ROOT_DOMAIN"
  "ref_fixed_hex (JStr PAYLOAD_SCHEMA_ID) 32 p = Inr w \<longleftrightarrow> w = id_bytes PAYLOAD_SCHEMA_ID"
  "ref_fixed_hex (JStr CANONICALIZATION_ID) 32 p = Inr w \<longleftrightarrow> w = id_bytes CANONICALIZATION_ID"
  "ref_fixed_hex (JStr ROOT_DESCRIPTOR_MAGIC) 4 p = Inr w \<longleftrightarrow> w = id_bytes ROOT_DESCRIPTOR_MAGIC"
  by (simp_all only: ref_hex_of_bytes[OF domain_bytes(1,2)] ref_hex_of_bytes[OF domain_bytes(3,4)]
      ref_hex_of_bytes[OF domain_bytes(5,6)] ref_hex_of_bytes[OF schema_bytes] ref_hex_of_bytes[OF canonicalization_bytes]
      ref_hex_of_bytes[OF magic_bytes])

lemma ref_digest: "wf_hashes H \<Longrightarrow> ref_fixed_hex (JStr (keccak256_hex H x)) 32 p = Inr w \<longleftrightarrow> w = keccak H x"
  by (simp add: keccak256_hex_def ref_hex_of_bytes[of _ "keccak H x"] wf_hashes_def)

lemma join_words_append:
  "join_words (ws @ vs) = Inr b \<longleftrightarrow> (\<exists>x y. join_words ws = Inr x \<and> join_words vs = Inr y \<and> b = x @ y)"
  by (induction ws arbitrary: b) (auto simp: rbind_eq_Inr)

lemma join_words_map:
  assumes "\<And>x w. x \<in> set xs \<Longrightarrow> f x = Inr w \<longleftrightarrow> w = g x"
  shows "join_words (map f xs) = Inr b \<longleftrightarrow> b = concat (map g xs)"
  using assms by (induction xs arbitrary: b) (auto simp: rbind_eq_Inr)

section \<open>The chunk audit\<close>

definition golden_of :: "hashes \<Rightarrow> chunk \<Rightarrow> golden" where
  "golden_of H c = (chunk_index c, chunk_pointer c, length (chunk_segment c), chunk_payload_hash c, leaf_hash c,
     keccak256_hex H (0 # chunk_segment c))"

lemma row_fields:
  "subscript (JDict (chunk_json H c)) ''index'' = Inr (JInt (int (chunk_index c)))"
  "subscript (JDict (chunk_json H c)) ''pointer'' = Inr (JStr (chunk_pointer c))"
  "subscript (JDict (chunk_json H c)) ''payload_length'' = Inr (JInt (int (length (chunk_segment c))))"
  "subscript (JDict (chunk_json H c)) ''segment_hex'' = Inr (JStr (''0x'' @ bytes_hex (chunk_segment c)))"
  "subscript (JDict (chunk_json H c)) ''payload_hash'' = Inr (JStr (chunk_payload_hash c))"
  "subscript (JDict (chunk_json H c)) ''leaf_hash'' = Inr (JStr (leaf_hash c))"
  "subscript (JDict (chunk_json H c)) ''runtime_code_hash'' = Inr (JStr (keccak256_hex H (0 # chunk_segment c)))"
  by (simp_all add: subscript_def dsub_def chunk_json_def)

lemma audit_chunk_iff:
  assumes "wf_hashes H" and "chunk_record H i s = Inr c"
  shows "audit_chunk H g s (JDict (chunk_json H c)) = Inr leaf \<longleftrightarrow> g = golden_of H c \<and> leaf = leaf_hash c"
proof -
  note c = chunk_record_fields[OF assms(2)] and l = chunk_record_leaf[OF assms]
  have f: "chunk_index c = i" "chunk_segment c = s" "chunk_payload_hash c = keccak256_hex H s" using c by simp_all
  have b: "int i < 2 ^ 256" "int (length s) < 2 ^ 32"
    using assms(2) by (auto simp: chunk_record_def Let_def rbind_eq_Inr leaf_preimage_iff[OF assms(1)])
  have p: "join_words [ref_fixed_hex (JStr LEAF_DOMAIN) 32 ''leaf domain'', ref_word (JInt (int i)) 256 ''chunk index'',
      ref_word (JInt (int (length s))) 32 ''chunk length'', ref_fixed_hex (JStr (keccak256_hex H s)) 32 ''payload hash''] = Inr w \<longleftrightarrow>
      w = leaf_input H i s" for w
    using b by (auto simp: rbind_eq_Inr ref_ids same_constants ref_word_iff ref_digest[OF assms(1)] leaf_input_def)
  have pre: "join ''|'' [VECTOR_DERIVATION_DOMAIN, ''sstore2-chunk-pointer'', dec i, keccak256_hex H s] =
      VECTOR_DERIVATION_DOMAIN @ ''|sstore2-chunk-pointer|'' @ dec i @ ''|'' @ keccak256_hex H s"
    by simp
  have pointer: "''0x'' @ bytes_hex (drop (length (keccak H (str_bytes (FIXTURE_DOMAIN @ ''|sstore2-chunk-pointer|'' @ dec i @ ''|'' @ keccak256_hex H s))) - 20)
      (keccak H (str_bytes (FIXTURE_DOMAIN @ ''|sstore2-chunk-pointer|'' @ dec i @ ''|'' @ keccak256_hex H s)))) = chunk_pointer c"
    using c by (simp add: derive_address_def derivation_preimage_def pre same_constants Let_def)
  obtain gi gp gl gh gf gr where g: "g = (gi, gp, gl, gh, gf, gr)" by (cases g) auto
  show ?thesis
  proof
    assume "audit_chunk H g s (JDict (chunk_json H c)) = Inr leaf"
    then show "g = golden_of H c \<and> leaf = leaf_hash c"
      using c by (auto simp: audit_chunk_def g rbind_eq_Inr row_fields golden_of_def Let_def)
  next
    assume "g = golden_of H c \<and> leaf = leaf_hash c"
    then show "audit_chunk H g s (JDict (chunk_json H c)) = Inr leaf"
      using f pointer by (simp add: audit_chunk_def golden_of_def row_fields rbind_eq_Inr p Let_def l del: join_words.simps)
  qed
qed

lemma chunk_audit_iff:
  assumes "wf_hashes H" and "payload_commitment H c = Inr (cs, lh, r)"
    and "dsub v ''chunks'' = Inr (JList (map (\<lambda>x. JDict (chunk_json H x)) cs))"
  shows "chunk_audit H v c = Inr (segs, leafs) \<longleftrightarrow>
    map (golden_of H) cs = CHUNK_GOLDENS \<and> segs = slices c \<and> leafs = map leaf_hash cs"
proof -
  have ch: "chunk_records H (slices c) = Inr cs"
    using assms(2) by (auto simp: payload_commitment_def rbind_eq_Inr split_payload_iff)
  then have n: "length cs = length (slices c)" and c: "\<And>j. j < length cs \<Longrightarrow> chunk_record H j (slices c ! j) = Inr (cs ! j)"
    by (auto simp: chunk_records_def each_eq_Inr)
  have segs: "map (\<lambda>i. take REF_CHUNK_BYTES (drop (REF_CHUNK_BYTES * i) c))
      [0..<(length c + REF_CHUNK_BYTES - 1) div REF_CHUNK_BYTES] = slices c"
    by (simp only: slices_def same_constants)
  let ?rows = "map (\<lambda>x. JDict (chunk_json H x)) cs"
  have each: "each (\<lambda>_ (golden, segment, row). audit_chunk H golden segment row) 0 (zip CHUNK_GOLDENS (zip (slices c) ?rows)) = Inr leafs \<longleftrightarrow>
      map (golden_of H) cs = CHUNK_GOLDENS \<and> leafs = map leaf_hash cs" if l: "length cs = length CHUNK_GOLDENS"
  proof -
    have "each (\<lambda>_ (golden, segment, row). audit_chunk H golden segment row) 0 (zip CHUNK_GOLDENS (zip (slices c) ?rows)) = Inr leafs \<longleftrightarrow>
        length leafs = length cs \<and> (\<forall>j < length cs. CHUNK_GOLDENS ! j = golden_of H (cs ! j) \<and> leafs ! j = leaf_hash (cs ! j))"
      using l n audit_chunk_iff[OF assms(1) c] by (simp add: each_eq_Inr)
    also have "\<dots> \<longleftrightarrow> map (golden_of H) cs = CHUNK_GOLDENS \<and> leafs = map leaf_hash cs"
      using l by (auto simp: list_eq_iff_nth_eq)
    finally show ?thesis .
  qed
  have "length cs = length CHUNK_GOLDENS" if "map (golden_of H) cs = CHUNK_GOLDENS" using that by (metis length_map)
  then show ?thesis
    using each n unfolding chunk_audit_def Let_def segs by (auto simp: rbind_eq_Inr assms(3) py_len_def py_iter_def)
qed

section \<open>The audits of the commitments and of the descriptor\<close>

lemma commitment_audit_iff:
  assumes "wf_hashes H" and "payload_commitment H c = Inr (cs, lh, r)" and "int (length c) = PAYLOAD_BYTE_LENGTH"
    and "dsub v ''commitments'' = Inr (commitments_json (map leaf_hash cs) lh r)"
  shows "commitment_audit H v (map leaf_hash cs) = Inr u \<longleftrightarrow> lh = CHUNK_LIST_HASH \<and> r = PAYLOAD_ROOT_HASH"
proof -
  note C = payload_commitment_root[OF assms(1,2)]
  have ch: "chunk_records H (slices c) = Inr cs"
    using assms(2) by (auto simp: payload_commitment_def rbind_eq_Inr split_payload_iff)
  have leaves: "map leaf_hash cs = map (keccak256_hex H) (leaf_inputs H c)" "length (leaf_inputs H c) = length (slices c)"
    using chunk_records_iff(3)[OF assms(1) ch] unfolding leaf_inputs_def by simp_all
  have n: "length cs = length (slices c)" by (rule chunk_records_iff(2)[OF assms(1) ch])
  have b: "length c < 2 ^ 32" "int (length (slices c)) < 2 ^ 16" "int (length (slices c)) < 2 ^ 256" using C(2,3) by auto
  have l: "join_words ([ref_fixed_hex (JStr LIST_DOMAIN) 32 p1, ref_word (JInt PAYLOAD_BYTE_LENGTH) 32 p2,
       ref_word (JInt 96) 256 p3, ref_word (JInt (int (length (map leaf_hash cs)))) 256 p4] @
       map (\<lambda>h. ref_fixed_hex (JStr h) 32 p5) (map leaf_hash cs)) = Inr w \<longleftrightarrow> w = list_input H c" for p1 p2 p3 p4 p5 w
  proof -
    have "join_words (map (\<lambda>h. ref_fixed_hex (JStr h) 32 p5) (map leaf_hash cs)) = Inr y \<longleftrightarrow>
        y = concat (map (keccak H) (leaf_inputs H c))" for y
      unfolding leaves(1) map_map by (rule join_words_map) (simp add: ref_digest[OF assms(1)])
    then show ?thesis
      using b n unfolding join_words_append
      by (auto simp: rbind_eq_Inr ref_ids same_constants ref_word_iff assms(3)[symmetric] list_input_def)
  qed
  have ro: "join_words [ref_fixed_hex (JStr ROOT_DOMAIN) 32 p1, ref_word (JInt 1) 16 p2, ref_fixed_hex (JStr REF_SCHEMA_ID) 32 p3,
       ref_fixed_hex (JStr REF_CANONICALIZATION_ID) 32 p4, ref_word (JInt PAYLOAD_BYTE_LENGTH) 32 p5,
       ref_word (JInt (int (length (map leaf_hash cs)))) 16 p6,
       ref_fixed_hex (JStr (keccak256_hex H (list_input H c))) 32 p7] = Inr w \<longleftrightarrow> w = root_input H c" for p1 p2 p3 p4 p5 p6 p7 w
    using b n by (auto simp: rbind_eq_Inr ref_ids same_constants ref_word_iff ref_digest[OF assms(1)] assms(3)[symmetric]
        root_input_def MANIFEST_SCHEMA_VERSION_def)
  have fields: "subscript (commitments_json ls l r) ''ordered_leaf_hashes'' = Inr (strings_json ls)"
    "subscript (commitments_json ls l r) ''chunk_list_hash'' = Inr (JStr l)"
    "subscript (commitments_json ls l r) ''payload_root_hash'' = Inr (JStr r)"
    "subscript (commitments_json ls l r) ''manifest_hash'' = Inr (JStr r)" for ls l r
    by (simp_all add: subscript_def dsub_def commitments_json_def)
  have "wf_json (strings_json ls)" for ls by (induction ls) (simp_all add: strings_json_def)
  then have same: "expect_at (commitments_json ls l r) ''ordered_leaf_hashes'' (strings_json ls) p = Inr ()" for ls l r p
    by (simp add: expect_at_def fields ref_expect_refl)
  show ?thesis
    unfolding commitment_audit_def Let_def rbind_eq_Inr l
    using ro C(1,5) by (auto simp: rbind_eq_Inr assms(4) fields same)
qed

lemma join_words_all2:
  "list_all2 (\<lambda>x y. \<forall>w. f x = Inr w \<longleftrightarrow> w = g y) xs ys \<Longrightarrow> join_words (map f xs) = Inr b \<longleftrightarrow> b = concat (map g ys)"
  by (induction xs ys arbitrary: b rule: list_all2_induct) (auto simp: rbind_eq_Inr)

lemma ref_chunk_words_iff:
  assumes "states_chunk (descriptor_row (chunk_json H x)) y"
  shows "ref_chunk_words (JDict (chunk_json H x)) = Inr w \<longleftrightarrow> w = concat (chunk_words y)"
proof -
  obtain p l h where y: "y = (p, l, h)" by (cases y) auto
  have "chunk_pointer x = ''0x'' @ bytes_hex p" "int (length (chunk_segment x)) = l" "chunk_payload_hash x = ''0x'' @ bytes_hex h"
    "length p = 20" "length h = 32" "0 \<le> l" "l < 2 ^ 32"
    using assms by (simp_all add: states_chunk_def y wf_chunk_def row_of_def chunk_row_def descriptor_row_def chunk_json_def dget_def)
  then show ?thesis
    by (auto simp: ref_chunk_words_def rbind_eq_Inr row_fields ref_hex_of_bytes[of _ p] ref_hex_of_bytes[of _ h] ref_word_iff y chunk_words_def)
qed

lemma ref_row: "ref_descriptor_row (JDict (chunk_json H x)) = Inr (JDict (descriptor_row (chunk_json H x)))"
proof -
  have "descriptor_row (chunk_json H x) = [(''pointer'', JStr (chunk_pointer x)),
      (''payload_length'', JInt (int (length (chunk_segment x)))), (''payload_hash'', JStr (chunk_payload_hash x))]"
    by (simp add: descriptor_row_def chunk_json_def dget_def)
  then show ?thesis by (simp add: ref_descriptor_row_def row_fields)
qed

lemma descriptor_audit_iff:
  assumes "wf_hashes H" and "payload_commitment H c = Inr (cs, lh, r)" and "int (length c) = PAYLOAD_BYTE_LENGTH"
    and "encode_root_descriptor (map (\<lambda>x. descriptor_row (chunk_json H x)) cs) (int (length c)) = Inr e"
    and "dsub v ''chunks'' = Inr (JList (map (\<lambda>x. JDict (chunk_json H x)) cs))"
    and "dsub v ''root_descriptor'' = Inr (root_descriptor_json H (length c) (map (\<lambda>x. descriptor_row (chunk_json H x)) cs) e)"
  shows "descriptor_audit H v = Inr u \<longleftrightarrow>
    length e = DESCRIPTOR_LENGTH \<and> keccak256_hex H e = DESCRIPTOR_KECCAK \<and> keccak256_hex H (0 # e) = DESCRIPTOR_RUNTIME_HASH"
proof -
  let ?rows = "map (\<lambda>x. descriptor_row (chunk_json H x)) cs"
  obtain ys where ys: "list_all2 states_chunk ?rows ys" and e: "e = concat (descriptor_words (int (length c)) ys)"
    and n: "length cs \<le> 32" and t: "int (length c) < 2 ^ 32"
    using assms(4) unfolding encode_root_descriptor_iff by (auto simp: MAX_MANIFEST_CHUNKS_def)
  have len: "length ys = length cs" using list_all2_lengthD[OF ys] by simp
  have all2: "list_all2 (\<lambda>x y. \<forall>w. ref_chunk_words x = Inr w \<longleftrightarrow> w = concat (chunk_words y)) (map (\<lambda>x. JDict (chunk_json H x)) cs) ys"
    using ys by (auto simp: list_all2_conv_all_nth ref_chunk_words_iff)
  have words: "join_words ([rbind (ref_fixed_hex (JStr DESCRIPTOR_MAGIC) 4 p0) (\<lambda>bs. Inr (bs @ replicate 28 0)),
       ref_word (JInt 1) 16 p1, ref_fixed_hex (JStr REF_SCHEMA_ID) 32 p2, ref_fixed_hex (JStr REF_CANONICALIZATION_ID) 32 p3,
       ref_word (JInt PAYLOAD_BYTE_LENGTH) 32 p4, ref_word (JInt (int (length cs))) 16 p5,
       ref_word (JInt DESCRIPTOR_DYNAMIC_OFFSET) 256 p6, ref_word (JInt (int (length cs))) 256 p7] @
       map ref_chunk_words (map (\<lambda>x. JDict (chunk_json H x)) cs)) = Inr w \<longleftrightarrow> w = e" for p0 p1 p2 p3 p4 p5 p6 p7 w
    unfolding join_words_append join_words_all2[OF all2]
    using n t by (auto simp: rbind_eq_Inr ref_ids same_constants ref_word_iff assms(3)[symmetric] e descriptor_words_def
        descriptor_head_def head_words_def len MANIFEST_SCHEMA_VERSION_def ROOT_DESCRIPTOR_DYNAMIC_OFFSET_def concat_chunk_words)
  have rows: "each (\<lambda>_. ref_descriptor_row) 0 (map (\<lambda>x. JDict (chunk_json H x)) cs) = Inr (map JDict ?rows)"
    by (simp add: each_eq_Inr ref_row)
  have wf: "wf_json (JList (map JDict ?rows))"
    by (simp add: list_all_iff descriptor_row_def chunk_json_def dget_def)
  let ?d = "root_descriptor_json H (length c) ?rows e"
  have fields: "subscript ?d ''magic'' = Inr (JStr ROOT_DESCRIPTOR_MAGIC)" "subscript ?d ''schema_version'' = Inr (JInt 1)"
    "subscript ?d ''schema_id'' = Inr (JStr PAYLOAD_SCHEMA_ID)" "subscript ?d ''canonicalization_id'' = Inr (JStr CANONICALIZATION_ID)"
    "subscript ?d ''total_bytes'' = Inr (JInt PAYLOAD_BYTE_LENGTH)" "subscript ?d ''chunk_count'' = Inr (JInt (int (length cs)))"
    "subscript ?d ''dynamic_offset'' = Inr (JInt ROOT_DESCRIPTOR_DYNAMIC_OFFSET)"
    "subscript ?d ''chunks'' = Inr (JList (map JDict ?rows))"
    "subscript ?d ''encoded_length'' = Inr (JInt (int (length e)))" "subscript ?d ''encoded_hex'' = Inr (JStr (''0x'' @ bytes_hex e))"
    "subscript ?d ''keccak256'' = Inr (JStr (keccak256_hex H e))"
    "subscript ?d ''runtime_code_hash'' = Inr (JStr (keccak256_hex H (0 # e)))"
    by (simp_all add: subscript_def dsub_def root_descriptor_json_def MANIFEST_SCHEMA_VERSION_def assms(3))
  have same: "expect_at ?d ''chunks'' (JList (map JDict ?rows)) p = Inr u" for p u
    using ref_expect_refl[OF wf, of p] by (simp add: expect_at_def fields)
  show ?thesis
    unfolding descriptor_audit_def assms(5,6) rbind_Inr
    by (simp add: py_len_def py_iter_def words[unfolded same_constants append_Cons append_Nil] rbind_eq_Inr rows fields same same_constants
        del: join_words.simps map_map length_append) blast
qed

text \<open>The chunks of a commitment always have a descriptor.\<close>

lemma commitment_descriptor_total:
  assumes "wf_hashes H" and "payload_commitment H c = Inr (cs, lh, r)"
  shows "\<exists>e. encode_root_descriptor (map (\<lambda>x. descriptor_row (chunk_json H x)) cs) (int (length c)) = Inr e"
proof -
  have s: "split_payload c = Inr (slices c)" and ch: "chunk_records H (slices c) = Inr cs"
    using assms(2) by (auto simp: payload_commitment_def rbind_eq_Inr split_payload_iff)
  have n: "length cs = length (slices c)" and c: "\<And>j. j < length cs \<Longrightarrow> chunk_record H j (slices c ! j) = Inr (cs ! j)"
    using ch by (auto simp: chunk_records_def each_eq_Inr)
  define bytes where "bytes = (\<lambda>x :: chunk. (drop 12 (keccak H (derivation_preimage ''sstore2-chunk-pointer'' [dec (chunk_index x), chunk_payload_hash x])),
    int (length (chunk_segment x)), keccak H (chunk_segment x)))"
  have "states_chunk (descriptor_row (chunk_json H x)) (bytes x)" if x: "x \<in> set cs" for x
  proof -
    obtain j where j: "j < length cs" "x = cs ! j" using x by (metis in_set_conv_nth)
    note f = chunk_record_fields[OF c[OF j(1)], folded j(2)]
    have "length (chunk_segment x) \<le> CHUNK_PAYLOAD_BYTES" using f j n by (simp add: slices_def)
    then show ?thesis
      using f assms(1) by (simp add: states_chunk_def bytes_def wf_chunk_def row_of_def chunk_row_def descriptor_row_def chunk_json_def
          dget_def derive_address_def wf_hashes_def keccak256_hex_def CHUNK_PAYLOAD_BYTES_def Let_def)
  qed
  then have "list_all2 states_chunk (map (\<lambda>x. descriptor_row (chunk_json H x)) cs) (map bytes cs)"
    by (simp add: list_all2_conv_all_nth)
  moreover have "1 \<le> length cs" "length cs \<le> 32"
    using payload_commitment_root(3)[OF assms] full_slices[of c] split_payload_iff[of c "slices c"] s n
    by (auto simp: Suc_le_eq)
  ultimately show ?thesis
    using payload_commitment_root(2)[OF assms] unfolding encode_root_descriptor_iff by (auto simp: MAX_MANIFEST_CHUNKS_def)
qed

text \<open>Every value computed for a payload is the golden of the oracle.\<close>

definition goldens_match :: "hashes \<Rightarrow> byte list \<Rightarrow> chunk list \<Rightarrow> string \<Rightarrow> string \<Rightarrow> byte list \<Rightarrow> bool" where
  "goldens_match H c cs lh r e \<longleftrightarrow>
     map (golden_of H) cs = CHUNK_GOLDENS \<and> lh = CHUNK_LIST_HASH \<and> r = PAYLOAD_ROOT_HASH \<and> length e = DESCRIPTOR_LENGTH \<and>
     keccak256_hex H e = DESCRIPTOR_KECCAK \<and> keccak256_hex H (0 # e) = DESCRIPTOR_RUNTIME_HASH"

lemma golden_length:
  assumes "wf_hashes H" and "payload_commitment H c = Inr (cs, lh, r)" and "map (golden_of H) cs = CHUNK_GOLDENS"
  shows "int (length c) = PAYLOAD_BYTE_LENGTH"
proof -
  have "map chunk_segment cs = slices c" using payload_commitment_root(4)[OF assms(1,2)] by simp
  then have c: "c = concat (map chunk_segment cs)" using full_slices[of c] by simp
  have "map (\<lambda>x. length (chunk_segment x)) cs = map (\<lambda>(_, _, l, _). l) (map (golden_of H) cs)" by (simp add: golden_of_def)
  then have "map (\<lambda>x. length (chunk_segment x)) cs = [24575, 24575, 5959]" by (simp add: assms(3) CHUNK_GOLDENS_def)
  then have "length (concat (map chunk_segment cs)) = 55109" by (simp add: length_concat comp_def)
  then show ?thesis using c by (simp add: PAYLOAD_BYTE_LENGTH_def)
qed

text \<open>C20: The oracle lays out every leaf, list, root and descriptor word by itself and compares what it
  computes, and what the vector records, with fixed goldens. On the chunks, commitments and
  descriptor the generator writes for any payload, the three audits pass exactly when the
  values the generator computed are the goldens: the two layouts never differ.\<close>

theorem audits_accept_goldens:
  assumes "wf_hashes H" and "payload_commitment H c = Inr (cs, lh, r)"
    and "encode_root_descriptor (map (\<lambda>x. descriptor_row (chunk_json H x)) cs) (int (length c)) = Inr e"
    and "dsub v ''chunks'' = Inr (JList (map (\<lambda>x. JDict (chunk_json H x)) cs))"
    and "dsub v ''commitments'' = Inr (commitments_json (map leaf_hash cs) lh r)"
    and "dsub v ''root_descriptor'' = Inr (root_descriptor_json H (length c) (map (\<lambda>x. descriptor_row (chunk_json H x)) cs) e)"
  shows "(\<exists>segments leaves. chunk_audit H v c = Inr (segments, leaves) \<and> commitment_audit H v leaves = Inr () \<and>
      descriptor_audit H v = Inr ()) \<longleftrightarrow> goldens_match H c cs lh r e"
  using commitment_audit_iff[OF assms(1,2) golden_length[OF assms(1,2)] assms(5)]
    descriptor_audit_iff[OF assms(1,2) golden_length[OF assms(1,2)] assms(3,4,6)]
  by (auto simp: chunk_audit_iff[OF assms(1,2,4)] goldens_match_def)

end
