(* ===== verification/Manifest_Examples.thy ===== *)
theory Manifest_Examples
  imports Manifest_Audit
begin

text \<open>
  Concrete inputs of the payload vector: documents, payloads and a profile on which the
  properties of the generator and of its oracle are applied.
\<close>

section \<open>A canonical document\<close>

definition demo_document :: json where
  "demo_document = JDict [(''b'', JList [JInt 7, JBool True]), (''a'', JStr [CHR ''x'', CHR 0x0A, CHR 0x22])]"

theorem reference_jcs_agrees_witness:
  "mv_jcs_bytes (\<lambda>s. s) demo_document =
     Inr (str_bytes (''{'' @ quote_plain ''a'' @ '':'' @ quote_plain [CHR ''x'', CHR 0x0A, CHR 0x22] @ '','' @ quote_plain ''b'' @ '':[7,true]}''))"
proof -
  have "reference_jcs demo_document =
      Inr (str_bytes (''{'' @ quote_plain ''a'' @ '':'' @ quote_plain [CHR ''x'', CHR 0x0A, CHR 0x22] @ '','' @ quote_plain ''b'' @ '':[7,true]}''))"
    by code_simp
  then show ?thesis using reference_jcs_agrees[of "\<lambda>s. s" demo_document] by (simp add: ascii_nfc_def)
qed

section \<open>A payload and its root\<close>

text \<open>A function with 32-byte values that tells texts of different lengths apart.\<close>

definition length_hashes :: hashes where
  "length_hashes = \<lparr>sha256 = (\<lambda>bs. replicate 32 0), keccak = (\<lambda>bs. to_bytes 32 (length bs))\<rparr>"

lemma length_hashes_wf: "wf_hashes length_hashes"
  by (simp add: wf_hashes_def length_hashes_def)

lemma length_hashes_inj: "(\<And>x y. x \<in> S \<Longrightarrow> y \<in> S \<Longrightarrow> length x = length y \<Longrightarrow> x = y) \<Longrightarrow> (\<And>x. x \<in> S \<Longrightarrow> length x < 2 ^ 200) \<Longrightarrow>
    inj_on (keccak length_hashes) S"
proof (rule inj_onI)
  fix x y
  assume s: "\<And>x y. x \<in> S \<Longrightarrow> y \<in> S \<Longrightarrow> length x = length y \<Longrightarrow> x = y" "\<And>x. x \<in> S \<Longrightarrow> length x < 2 ^ 200"
    and xy: "x \<in> S" "y \<in> S" "keccak length_hashes x = keccak length_hashes y"
  have "length x < 256 ^ 32" "length y < 256 ^ 32"
    using s(2)[OF xy(1)] s(2)[OF xy(2)] by (auto intro: less_trans)
  then have "length x = length y" using xy(3) by (intro to_bytes_inject[of "length x" 32 "length y"]) (simp_all add: length_hashes_def)
  then show "x = y" using s(1) xy by blast
qed

definition demo_payload :: "byte list" where
  "demo_payload = str_bytes ''{}''"

lemma demo_slices: "slices demo_payload = [demo_payload]"
  using slices_unique[of "[demo_payload]"] by (simp add: demo_payload_def str_bytes_def CHUNK_PAYLOAD_BYTES_def)

lemma demo_lengths:
  "length demo_payload = 2" "length (keccak length_hashes x) = 32" "length (id_bytes PAYLOAD_LEAF_DOMAIN) = 32"
  "length (id_bytes PAYLOAD_LIST_DOMAIN) = 32" "length (id_bytes PAYLOAD_ROOT_DOMAIN) = 32"
  by (simp_all add: demo_payload_def str_bytes_def domain_bytes(2,4,6) length_hashes_def)

lemma demo_inj: "inj_on (keccak length_hashes) (hashed_bytes length_hashes demo_payload)"
proof (rule length_hashes_inj)
  have h: "hashed_bytes length_hashes demo_payload = {demo_payload, leaf_input length_hashes 0 demo_payload,
      list_input length_hashes demo_payload, root_input length_hashes demo_payload}"
    by (simp add: hashed_bytes_def leaf_inputs_def demo_slices insert_commute)
  have l: "length (leaf_input length_hashes 0 demo_payload) = 128" "length (list_input length_hashes demo_payload) = 160"
    "length (root_input length_hashes demo_payload) = 224"
    by (simp_all add: leaf_input_def list_input_def root_input_def leaf_inputs_def demo_slices demo_lengths schema_bytes(2)
        canonicalization_bytes(2))
  show "x = y" if "x \<in> hashed_bytes length_hashes demo_payload" "y \<in> hashed_bytes length_hashes demo_payload" "length x = length y" for x y
    using that unfolding h by (elim insertE emptyE) (simp_all add: l demo_lengths(1))
  show "length x < 2 ^ 200" if "x \<in> hashed_bytes length_hashes demo_payload" for x
    using that unfolding h by (elim insertE emptyE) (simp_all add: l demo_lengths(1))
qed

theorem root_binds_payload_witness:
  "\<exists>cs lh r. payload_commitment length_hashes demo_payload = Inr (cs, lh, r) \<and>
     inj_on (keccak length_hashes) (hashed_bytes length_hashes demo_payload) \<and> demo_payload = str_bytes ''{}''"
proof -
  obtain cs lh r where "payload_commitment length_hashes demo_payload = Inr (cs, lh, r)"
    using payload_commitment_total[OF length_hashes_wf, of demo_payload] demo_lengths(1)
    by (auto simp: MAX_MANIFEST_PAYLOAD_BYTES_def)
  then show ?thesis
    using root_binds_payload[OF length_hashes_wf, of demo_payload cs lh r "str_bytes ''{}''" cs lh] demo_inj
    by (auto simp: demo_payload_def)
qed

section \<open>A vector the oracle rejects\<close>

text \<open>The sections of a vector for the payload \<open>{}\<close>; the goldens are those of another payload.\<close>

theorem audits_accept_goldens_witness:
  "\<exists>v. (\<exists>chunks. dsub v ''chunks'' = Inr chunks) \<and>
     \<not> (\<exists>segments leaves. chunk_audit length_hashes v demo_payload = Inr (segments, leaves) \<and>
         commitment_audit length_hashes v leaves = Inr () \<and> descriptor_audit length_hashes v = Inr ())"
proof -
  obtain cs lh r where c: "payload_commitment length_hashes demo_payload = Inr (cs, lh, r)"
    using payload_commitment_total[OF length_hashes_wf, of demo_payload] demo_lengths(1)
    by (auto simp: MAX_MANIFEST_PAYLOAD_BYTES_def)
  obtain e where e: "encode_root_descriptor (map (\<lambda>x. descriptor_row (chunk_json length_hashes x)) cs) (int (length demo_payload)) = Inr e"
    using commitment_descriptor_total[OF length_hashes_wf c] by blast
  define v where "v = [(''chunks'', JList (map (\<lambda>x. JDict (chunk_json length_hashes x)) cs)),
    (''commitments'', commitments_json (map leaf_hash cs) lh r),
    (''root_descriptor'', root_descriptor_json length_hashes (length demo_payload)
       (map (\<lambda>x. descriptor_row (chunk_json length_hashes x)) cs) e)]"
  have "length cs = 1" using payload_commitment_root(4)[OF length_hashes_wf c, of "[demo_payload]"] demo_slices
    by (metis length_map length_Cons list.size(3) One_nat_def)
  then have "map (golden_of length_hashes) cs \<noteq> CHUNK_GOLDENS"
    by (metis length_map CHUNK_GOLDENS_def length_Cons list.size(3) nat.inject nat.distinct(1) One_nat_def)
  then have "\<not> goldens_match length_hashes demo_payload cs lh r e" by (simp add: goldens_match_def)
  then have "\<not> (\<exists>segments leaves. chunk_audit length_hashes v demo_payload = Inr (segments, leaves) \<and>
         commitment_audit length_hashes v leaves = Inr () \<and> descriptor_audit length_hashes v = Inr ())"
    using audits_accept_goldens[OF length_hashes_wf c e, of v] by (simp add: v_def dsub_def)
  moreover have "\<exists>chunks. dsub v ''chunks'' = Inr chunks" by (simp add: v_def dsub_def)
  ultimately show ?thesis by blast
qed

section \<open>A profile without the core contract\<close>

definition demo_keys :: "string list" where
  "demo_keys = (let named = remdups required_keys @ tl UNCHECKED_KEYS
     in named @ map (\<lambda>i. ''MODULE_'' @ dec i) [0..<37 - length named])"

definition demo_entry :: "nat \<Rightarrow> string \<Rightarrow> json" where
  "demo_entry i key =
     JDict [(''id'', JInt (int i)), (''key'', JStr key), (''kind'', JStr ''contract''),
       (''required_interfaces'', strings_json (if key = ''GOVERNANCE_LAYER''
          then [STATE_EXPORT_PUBLISHER_INTERFACE, GOVERNED_PARAMETER_AUTHORITY_INTERFACE] else [])),
       (''required_markers'', strings_json (if key = ''GOVERNANCE_LAYER''
          then STATE_EXPORT_PUBLISHER_MARKERS @ GOVERNED_PARAMETER_AUTHORITY_MARKERS else []))]"

definition demo_profile :: json where
  "demo_profile = JDict [(''schema_version'', JStr PROFILE_SCHEMA), (''chain_id'', JInt 1),
     (''entries'', JList (map2 demo_entry [1..<38] demo_keys))]"

definition demo_entries :: "profile_entry list" where
  "demo_entries = map2 (\<lambda>i key. (int i, key, (case demo_entry i key of JDict d \<Rightarrow> d))) [1..<38] demo_keys"

lemma demo_accepted: "require_profile demo_profile = Inr demo_entries"
  by code_simp

lemma demo_allowed: "list_all (\<lambda>(i, key, d). allowed (JDict d) \<and> string_array (dget d ''required_interfaces'') \<noteq> None) demo_entries"
  by code_simp

lemma demo_missing: "find (\<lambda>k. k \<notin> set (map (\<lambda>(_, key, _). key) demo_entries)) UNCHECKED_KEYS = Some ''STREAM_CORE''"
  by code_simp

lemma demo_facts: "\<exists>fs. entry_facts length_hashes (\<lambda>s. s) demo_entries ih = Inr fs"
proof -
  have "\<exists>rows. each (\<lambda>_. facts_of length_hashes (\<lambda>s. s) ih) 0 demo_entries = Inr rows"
  proof (rule each_total)
    fix x
    assume x: "x \<in> set demo_entries"
    obtain i k d where ikd: "x = (i, k, d)" by (cases x)
    have a: "allowed (JDict d)" and s: "string_array (dget d ''required_interfaces'') \<noteq> None"
      using demo_allowed x ikd by (auto simp: list_all_iff)
    have "mv_jcs_bytes (\<lambda>s. s) (JDict d) = Inr (str_bytes (dumps_plain (sort_members (JDict d))))"
      using jcs_text_ascii[OF _ a] by (simp add: mv_jcs_bytes_def ascii_nfc_def)
    moreover have "\<exists>y. interface_id_of length_hashes x = Inr y"
      using s by (auto simp: ikd interface_id_of_def require_string_array_def)
    ultimately show "\<exists>y. facts_of length_hashes (\<lambda>s. s) ih x = Inr y"
      by (auto simp: ikd facts_of_def Let_def)
  qed
  then show ?thesis by (auto simp: entry_facts_def)
qed

theorem generator_escapes_witness:
  "generate length_hashes (\<lambda>s. s) demo_profile [] = Inl (KeyError ''STREAM_CORE'')"
  using generator_escapes[of length_hashes "\<lambda>s. s" demo_profile "[]" "KeyError ''STREAM_CORE''"]
    demo_accepted identity_hash_total[OF length_hashes_wf] demo_facts demo_missing by blast

theorem split_payload_exact_witness:
  "split_payload demo_payload = Inr [demo_payload] \<and> length demo_payload = 2"
  using split_payload_exact[of demo_payload "[demo_payload]"] demo_lengths(1) by simp

end
